(* ===== verification/Prelude.thy ===== *)
theory Prelude
  imports Main "HOL-Library.Char_ord" "HOL-Library.List_Lexorder" "HOL-Library.Product_Lexorder"
begin

text \<open>
  Shared vocabulary of the development: database tables as lists of rows in insertion order,
  the three statements the code issues against a table (select, update, delete) and their laws,
  and the simplification collections the component theories fill:
  \<^item> \<open>table_simps\<close>: what a statement does to the rows, keys and columns of a table;
  \<^item> \<open>frame_simps\<close>: which tables an operation leaves alone;
  \<^item> \<open>row_simps\<close>: reading a row back after it has been written.
\<close>

named_theorems table_simps
named_theorems frame_simps
named_theorems row_simps

section \<open>Statements on a table\<close>

definition upd_where :: "('r \<Rightarrow> bool) \<Rightarrow> ('r \<Rightarrow> 'r) \<Rightarrow> 'r list \<Rightarrow> 'r list" where
  "upd_where P f rs = map (\<lambda>r. if P r then f r else r) rs"

definition del_where :: "('r \<Rightarrow> bool) \<Rightarrow> 'r list \<Rightarrow> 'r list" where
  "del_where P rs = filter (\<lambda>r. \<not> P r) rs"

text \<open>The first row that satisfies a predicate: \<open>session.get\<close> and the \<open>limit(1)\<close> queries.\<close>

primrec first_row :: "('r \<Rightarrow> bool) \<Rightarrow> 'r list \<Rightarrow> 'r option" where
  "first_row P [] = None"
| "first_row P (r # rs) = (if P r then Some r else first_row P rs)"

text \<open>A list that holds no key twice, the shape of every unique constraint.\<close>

definition unique_on :: "('r \<Rightarrow> 'k) \<Rightarrow> 'r list \<Rightarrow> bool" where
  "unique_on k rs \<longleftrightarrow> distinct (map k rs)"

definition sum_units :: "('r \<Rightarrow> int) \<Rightarrow> 'r list \<Rightarrow> int" where
  "sum_units u rs = sum_list (map u rs)"

subsection \<open>Laws of the statements\<close>

lemma upd_where_Nil [simp]: "upd_where P f [] = []"
  by (simp add: upd_where_def)

lemma upd_where_Cons [simp]:
  "upd_where P f (r # rs) = (if P r then f r else r) # upd_where P f rs"
  by (simp add: upd_where_def)

lemma upd_where_append [table_simps]:
  "upd_where P f (xs @ ys) = upd_where P f xs @ upd_where P f ys"
  by (simp add: upd_where_def)

lemma length_upd_where [simp]: "length (upd_where P f rs) = length rs"
  by (simp add: upd_where_def)

lemma set_upd_where: "set (upd_where P f rs) = (\<lambda>r. if P r then f r else r) ` set rs"
  by (simp add: upd_where_def)

lemma ball_upd_where:
  "(\<And>r. P r \<Longrightarrow> Q (f r) = Q r) \<Longrightarrow>
     (\<forall>r \<in> set (upd_where P f rs). Q r) = (\<forall>r \<in> set rs. Q r)"
  by (induction rs) auto

lemma map_upd_where [table_simps]:
  "(\<And>r. P r \<Longrightarrow> k (f r) = k r) \<Longrightarrow> map k (upd_where P f rs) = map k rs"
  by (simp add: upd_where_def)

lemma filter_upd_where:
  "(\<And>r. P r \<Longrightarrow> Q (f r) = Q r) \<Longrightarrow>
     filter Q (upd_where P f rs) = upd_where P f (filter Q rs)"
  by (induction rs) auto

lemma upd_where_same [table_simps]:
  "(\<And>r. r \<in> set rs \<Longrightarrow> P r \<Longrightarrow> f r = r) \<Longrightarrow> upd_where P f rs = rs"
  by (induction rs) auto

lemma upd_where_none: "(\<And>r. r \<in> set rs \<Longrightarrow> \<not> P r) \<Longrightarrow> upd_where P f rs = rs"
  by (induction rs) auto

lemma set_del_where [simp]: "set (del_where P rs) = {r \<in> set rs. \<not> P r}"
  by (auto simp: del_where_def)

lemma del_where_Nil [simp]: "del_where P [] = []"
  by (simp add: del_where_def)

lemma filter_del_where: "filter Q (del_where P rs) = filter (\<lambda>r. Q r \<and> \<not> P r) rs"
  by (simp add: del_where_def conj_commute)

lemma unique_on_upd_where [table_simps]:
  "(\<And>r. P r \<Longrightarrow> k (f r) = k r) \<Longrightarrow> unique_on k (upd_where P f rs) = unique_on k rs"
  by (simp add: unique_on_def map_upd_where)

lemma unique_on_del_where: "unique_on k rs \<Longrightarrow> unique_on k (del_where P rs)"
  by (simp add: unique_on_def del_where_def distinct_map_filter)

lemma unique_on_Nil [simp]: "unique_on k []"
  by (simp add: unique_on_def)

lemma unique_on_snoc [table_simps]:
  "unique_on k (rs @ [r]) \<longleftrightarrow> unique_on k rs \<and> k r \<notin> k ` set rs"
  by (auto simp: unique_on_def)

subsection \<open>Laws of \<open>first_row\<close>\<close>

lemma first_row_None: "first_row P rs = None \<longleftrightarrow> (\<forall>r \<in> set rs. \<not> P r)"
  by (induction rs) auto

lemma first_row_SomeD: "first_row P rs = Some r \<Longrightarrow> r \<in> set rs \<and> P r"
  by (induction rs) (auto split: if_splits)

lemma first_row_ex: "(\<exists>r. first_row P rs = Some r) \<longleftrightarrow> (\<exists>r \<in> set rs. P r)"
  by (induction rs) auto

lemma first_row_append:
  "first_row P (xs @ ys) = (case first_row P xs of None \<Rightarrow> first_row P ys | Some r \<Rightarrow> Some r)"
  by (induction xs) auto

lemma first_row_upd_where:
  "(\<And>r. Q r \<Longrightarrow> P (f r) = P r) \<Longrightarrow>
     first_row P (upd_where Q f rs) =
       map_option (\<lambda>r. if Q r then f r else r) (first_row P rs)"
  by (induction rs) auto

lemma first_row_del_where:
  "first_row P (del_where Q rs) = first_row (\<lambda>r. P r \<and> \<not> Q r) rs"
  by (induction rs) (auto simp: del_where_def)

text \<open>With a key that no two rows share, \<open>first_row\<close> finds the row that has it.\<close>

lemma first_row_unique:
  "unique_on k rs \<Longrightarrow> r \<in> set rs \<Longrightarrow> k r = x \<Longrightarrow> first_row (\<lambda>r. k r = x) rs = Some r"
  by (induction rs) (auto simp: unique_on_def)

lemma unique_on_inj: "unique_on k rs \<Longrightarrow> r \<in> set rs \<Longrightarrow> s \<in> set rs \<Longrightarrow> k r = k s \<Longrightarrow> r = s"
  by (auto simp: unique_on_def distinct_map dest: inj_onD)

lemma filter_unique_length:
  "unique_on k rs \<Longrightarrow> length (filter (\<lambda>r. k r = x) rs) \<le> 1"
proof (induction rs)
  case Nil
  show ?case by simp
next
  case (Cons a rs)
  then have "\<And>r. r \<in> set rs \<Longrightarrow> k r \<noteq> k a" and IH: "length (filter (\<lambda>r. k r = x) rs) \<le> 1"
    by (auto simp: unique_on_def image_iff)
  then have "k a = x \<Longrightarrow> filter (\<lambda>r. k r = x) rs = []"
    by (auto simp: filter_empty_conv)
  with IH show ?case by auto
qed

subsection \<open>Sums over rows\<close>

lemma sum_units_Nil [simp]: "sum_units u [] = 0"
  by (simp add: sum_units_def)

lemma sum_units_Cons [simp]: "sum_units u (r # rs) = u r + sum_units u rs"
  by (simp add: sum_units_def)

lemma sum_units_append [simp]: "sum_units u (xs @ ys) = sum_units u xs + sum_units u ys"
  by (simp add: sum_units_def)

lemma sum_units_nonneg: "(\<And>r. r \<in> set rs \<Longrightarrow> 0 \<le> u r) \<Longrightarrow> 0 \<le> sum_units u rs"
  by (induction rs) auto

lemma sum_units_filter_le:
  "(\<And>r. r \<in> set rs \<Longrightarrow> 0 \<le> u r) \<Longrightarrow> (\<And>r. r \<in> set rs \<Longrightarrow> P r \<Longrightarrow> Q r) \<Longrightarrow>
     sum_units u (filter P rs) \<le> sum_units u (filter Q rs)"
proof (induction rs)
  case Nil
  show ?case by simp
next
  case (Cons r rs)
  then have "sum_units u (filter P rs) \<le> sum_units u (filter Q rs)" "0 \<le> u r" "P r \<Longrightarrow> Q r"
    by auto
  then show ?case by auto
qed

section \<open>Options and lists\<close>

definition or_else :: "'a option \<Rightarrow> 'a \<Rightarrow> 'a" where
  "or_else x d = (case x of None \<Rightarrow> d | Some v \<Rightarrow> v)"

lemma or_else_simps [simp]: "or_else None d = d" "or_else (Some v) d = v"
  by (simp_all add: or_else_def)

text \<open>A constraint on an optional value\<close>

definition opt_all :: "('a \<Rightarrow> bool) \<Rightarrow> 'a option \<Rightarrow> bool" where
  "opt_all P x = (case x of None \<Rightarrow> True | Some v \<Rightarrow> P v)"

lemma opt_all_simps [simp]: "opt_all P None" "opt_all P (Some v) = P v"
  by (simp_all add: opt_all_def)

lemma take_while_first:
  "filter P xs = [] \<Longrightarrow> first_row P xs = None"
  by (simp add: first_row_None filter_empty_conv)

lemma unique_on_map_inj: "unique_on k rs \<Longrightarrow> inj_on f (set (map k rs)) \<Longrightarrow> unique_on (f \<circ> k) rs"
  by (simp add: unique_on_def distinct_map comp_inj_on)

section \<open>Invariants through the branches of an operation\<close>

text \<open>
  An operation returns the new state with a result; an invariant of that state is shown branch
  by branch.
\<close>

lemma keep_if: "(c \<Longrightarrow> I (fst x)) \<Longrightarrow> (\<not> c \<Longrightarrow> I (fst y)) \<Longrightarrow> I (fst (if c then x else y))"
  by simp

lemma keep_option:
  "(z = None \<Longrightarrow> I (fst x)) \<Longrightarrow> (\<And>v. z = Some v \<Longrightarrow> I (fst (f v))) \<Longrightarrow>
     I (fst (case z of None \<Rightarrow> x | Some v \<Rightarrow> f v))"
  by (cases z) simp_all

lemma keep_sum:
  "(\<And>a. z = Inl a \<Longrightarrow> I (fst (f a))) \<Longrightarrow> (\<And>b. z = Inr b \<Longrightarrow> I (fst (g b))) \<Longrightarrow>
     I (fst (case z of Inl a \<Rightarrow> f a | Inr b \<Rightarrow> g b))"
  by (cases z) simp_all

lemma keep_prod: "(\<And>a b. z = (a, b) \<Longrightarrow> I (fst (f a b))) \<Longrightarrow> I (fst (case z of (a, b) \<Rightarrow> f a b))"
  by (cases z) simp_all

lemma keep_bool:
  "(z \<Longrightarrow> I (fst x)) \<Longrightarrow> (\<not> z \<Longrightarrow> I (fst y)) \<Longrightarrow> I (fst (case z of True \<Rightarrow> x | False \<Rightarrow> y))"
  by (cases z) simp_all

lemmas keep_branches = keep_if keep_option keep_sum keep_prod keep_bool

section \<open>Invariants of a transition system\<close>

text \<open>
  The interface between a component that promises to preserve an invariant and the clients that
  run any number of its operations.
\<close>

locale preserved =
  fixes step :: "'op \<Rightarrow> 's \<Rightarrow> 's"
    and inv :: "'s \<Rightarrow> bool"
  assumes step_inv: "inv s \<Longrightarrow> inv (step op s)"
begin

lemma run_inv: "inv s \<Longrightarrow> inv (fold step ops s)"
  by (induction ops arbitrary: s) (auto intro: step_inv)

lemma run_prefix_inv: "inv s \<Longrightarrow> inv (fold step (take n ops) s)"
  by (rule run_inv)

end

end
