(* ===== verification/PyText.thy ===== *)
theory PyText
  imports Prelude
begin

text \<open>
  What the program uses of the Python language and its standard library: text methods, decimal
  numbers, \<open>int()\<close>, JSON values with \<open>dict.get\<close> and \<open>json.dumps\<close>. A Python
  string is a list of characters, a character being a code point below 256; times are integers
  counting microseconds, the resolution of \<open>datetime\<close>.
\<close>

type_synonym time = int

abbreviation seconds :: "int \<Rightarrow> time" where
  "seconds n \<equiv> n * 1000000"

section \<open>Characters\<close>

definition code :: "char \<Rightarrow> nat" where
  "code c = of_char c"

definition is_space :: "char \<Rightarrow> bool" where
  "is_space c = (code c \<in> {9, 10, 11, 12, 13, 28, 29, 30, 31, 32, 133, 160})"

definition is_digit :: "char \<Rightarrow> bool" where
  "is_digit c = (48 \<le> code c \<and> code c \<le> 57)"

definition lower_char :: "char \<Rightarrow> char" where
  "lower_char c =
     (if 65 \<le> code c \<and> code c \<le> 90 \<or> 192 \<le> code c \<and> code c \<le> 222 \<and> code c \<noteq> 215
      then char_of (code c + 32) else c)"

section \<open>Text methods\<close>

text \<open>\<open>\w\<close> on code points below 256\<close>

definition is_word :: "char \<Rightarrow> bool" where
  "is_word c \<longleftrightarrow>
     is_digit c \<or> 65 \<le> code c \<and> code c \<le> 90 \<or> code c = 95 \<or> 97 \<le> code c \<and> code c \<le> 122 \<or>
     code c \<in> {170, 178, 179, 181, 185, 186, 188, 189, 190} \<or>
     192 \<le> code c \<and> code c \<noteq> 215 \<and> code c \<noteq> 247"

definition str_lower :: "string \<Rightarrow> string" where
  "str_lower s = map lower_char s"

definition str_lstrip :: "string \<Rightarrow> string" where
  "str_lstrip s = dropWhile is_space s"

definition str_rstrip :: "string \<Rightarrow> string" where
  "str_rstrip s = rev (dropWhile is_space (rev s))"

definition str_strip :: "string \<Rightarrow> string" where
  "str_strip s = str_rstrip (str_lstrip s)"

fun starts_with :: "string \<Rightarrow> string \<Rightarrow> bool" where
  "starts_with s [] = True"
| "starts_with [] (p # ps) = False"
| "starts_with (c # cs) (p # ps) = (c = p \<and> starts_with cs ps)"

definition ends_with :: "string \<Rightarrow> string \<Rightarrow> bool" where
  "ends_with s p = starts_with (rev s) (rev p)"

text \<open>\<open>needle in text\<close>\<close>

fun contains :: "string \<Rightarrow> string \<Rightarrow> bool" where
  "contains [] n = (n = [])"
| "contains (c # cs) n = (starts_with (c # cs) n \<or> contains cs n)"

text \<open>\<open>text.split(sep)\<close> for a one-character separator\<close>

fun split_on :: "char \<Rightarrow> string \<Rightarrow> string list" where
  "split_on d [] = [[]]"
| "split_on d (c # cs) =
     (if c = d then [] # split_on d cs
      else (case split_on d cs of [] \<Rightarrow> [[c]] | w # ws \<Rightarrow> (c # w) # ws))"

text \<open>\<open>sep.join(parts)\<close>\<close>

fun join :: "string \<Rightarrow> string list \<Rightarrow> string" where
  "join d [] = []"
| "join d [w] = w"
| "join d (w # ws) = w @ d @ join d ws"

text \<open>\<open>text.partition(sep)\<close>: before, whether found, after\<close>

fun partition_at :: "string \<Rightarrow> string \<Rightarrow> string \<times> bool \<times> string" where
  "partition_at d [] = ([], d = [], [])"
| "partition_at d (c # cs) =
     (if starts_with (c # cs) d then ([], True, drop (length d) (c # cs))
      else (case partition_at d cs of (b, f, a) \<Rightarrow> (c # b, f, a)))"

text \<open>\<open>text.rpartition(sep)\<close> for a one-character separator\<close>

definition rpartition_at :: "char \<Rightarrow> string \<Rightarrow> string \<times> bool \<times> string" where
  "rpartition_at d s =
     (if d \<in> set s
      then (rev (tl (dropWhile (\<lambda>c. c \<noteq> d) (rev s))), True, rev (takeWhile (\<lambda>c. c \<noteq> d) (rev s)))
      else ([], False, s))"

text \<open>\<open>text.replace(old, new)\<close> for a nonempty \<open>old\<close>: leftmost, not overlapping\<close>

function replace_all :: "string \<Rightarrow> string \<Rightarrow> string \<Rightarrow> string" where
  "replace_all old new [] = []"
| "replace_all old new (c # cs) =
     (if old \<noteq> [] \<and> starts_with (c # cs) old
      then new @ replace_all old new (drop (length old) (c # cs))
      else c # replace_all old new cs)"
  by pat_completeness auto
termination
  by (relation "measure (\<lambda>(old, new, s). length s)") (auto simp: neq_Nil_conv less_Suc_eq_le)

text \<open>\<open>text.splitlines()\<close>: a line ends at any of Python's line boundaries, CR LF being one\<close>

definition is_line_end :: "char \<Rightarrow> bool" where
  "is_line_end c = (code c \<in> {10, 11, 12, 13, 28, 29, 30, 133})"

fun split_lines_aux :: "string \<Rightarrow> string \<Rightarrow> string list" where
  "split_lines_aux acc [] = (if acc = [] then [] else [rev acc])"
| "split_lines_aux acc (c # cs) =
     (if code c = 13 \<and> cs \<noteq> [] \<and> code (hd cs) = 10 then split_lines_aux acc cs
      else if is_line_end c then rev acc # split_lines_aux [] cs
      else split_lines_aux (c # acc) cs)"

definition split_lines :: "string \<Rightarrow> string list" where
  "split_lines s = split_lines_aux [] s"

section \<open>Decimal numbers\<close>

definition digit_char :: "nat \<Rightarrow> char" where
  "digit_char d = char_of (48 + d)"

fun show_nat :: "nat \<Rightarrow> string" where
  "show_nat n = (if n < 10 then [digit_char n] else show_nat (n div 10) @ [digit_char (n mod 10)])"

declare show_nat.simps [simp del]

definition show_int :: "int \<Rightarrow> string" where
  "show_int i = (if i < 0 then CHR ''-'' # show_nat (nat (- i)) else show_nat (nat i))"

definition read_digits :: "string \<Rightarrow> nat" where
  "read_digits s = foldl (\<lambda>n c. 10 * n + (code c - 48)) 0 s"

text \<open>
  The digits part of \<open>int(text)\<close>: decimal digits, single underscores between two of them.
  (Python also accepts the decimal digits of other scripts, all above code point 255.)
\<close>

fun digits_ok :: "string \<Rightarrow> bool" where
  "digits_ok [] = False"
| "digits_ok [c] = is_digit c"
| "digits_ok (c # d # cs) =
     (is_digit c \<and> (if d = CHR ''_'' then digits_ok cs else digits_ok (d # cs)))"

text \<open>\<open>int(text)\<close>; \<open>None\<close> is the raised \<open>ValueError\<close>.\<close>

definition int_of_str :: "string \<Rightarrow> int option" where
  "int_of_str s0 =
     (let s = str_strip s0;
          neg = starts_with s ''-'';
          ds = (if neg \<or> starts_with s ''+'' then drop 1 s else s)
      in if digits_ok ds
         then Some ((if neg then -1 else 1) * int (read_digits (filter is_digit ds)))
         else None)"

section \<open>JSON values\<close>

text \<open>
  Values of \<open>dict[str, Any]\<close> columns. A float carries its Python \<open>repr\<close> and its value
  rounded towards zero, which is what \<open>int()\<close> gives.
\<close>

datatype json =
    JNull
  | JBool bool
  | JInt int
  | JFloat string int
  | JStr string
  | JList "json list"
  | JObj "(string \<times> json) list"

definition dget :: "(string \<times> json) list \<Rightarrow> string \<Rightarrow> json option" where
  "dget kvs k = map_of kvs k"

text \<open>\<open>value.get(key)\<close>, \<open>None\<close> for a missing key\<close>

definition jget :: "(string \<times> json) list \<Rightarrow> string \<Rightarrow> json" where
  "jget kvs k = or_else (dget kvs k) JNull"

definition obj_get :: "json \<Rightarrow> string \<Rightarrow> json" where
  "obj_get j k = (case j of JObj kvs \<Rightarrow> jget kvs k | _ \<Rightarrow> JNull)"

text \<open>\<open>value if isinstance(value, str) and value else None\<close>\<close>

definition str_or_none :: "json \<Rightarrow> string option" where
  "str_or_none j = (case j of JStr s \<Rightarrow> (if s = [] then None else Some s) | _ \<Rightarrow> None)"

definition jopt :: "string option \<Rightarrow> json" where
  "jopt x = (case x of None \<Rightarrow> JNull | Some s \<Rightarrow> JStr s)"

definition is_truthy :: "json \<Rightarrow> bool" where
  "is_truthy j =
     (case j of JNull \<Rightarrow> False | JBool b \<Rightarrow> b | JInt i \<Rightarrow> i \<noteq> 0
      | JFloat r t \<Rightarrow> r \<noteq> ''0.0'' \<and> r \<noteq> ''-0.0'' | JStr s \<Rightarrow> s \<noteq> []
      | JList xs \<Rightarrow> xs \<noteq> [] | JObj kvs \<Rightarrow> kvs \<noteq> [])"

text \<open>\<open>d[k] = v\<close>: a present key keeps its place\<close>

fun dict_put :: "'k \<Rightarrow> 'v \<Rightarrow> ('k \<times> 'v) list \<Rightarrow> ('k \<times> 'v) list" where
  "dict_put k v [] = [(k, v)]"
| "dict_put k v ((k', v') # m) = (if k' = k then (k, v) # m else (k', v') # dict_put k v m)"

definition dict_get :: "('k \<times> 'v) list \<Rightarrow> 'k \<Rightarrow> 'v \<Rightarrow> 'v" where
  "dict_get m k d = or_else (map_of m k) d"

text \<open>\<open>counts[k] = counts.get(k, 0) + 1\<close>\<close>

definition dict_incr :: "'k \<Rightarrow> ('k \<times> int) list \<Rightarrow> ('k \<times> int) list" where
  "dict_incr k m = dict_put k (dict_get m k 0 + 1) m"

text \<open>\<open>text or default\<close> for an optional text\<close>

definition str_or :: "string option \<Rightarrow> string \<Rightarrow> string" where
  "str_or x d = (case x of None \<Rightarrow> d | Some s \<Rightarrow> (if s = [] then d else s))"

definition has_text :: "string option \<Rightarrow> bool" where
  "has_text x = (case x of None \<Rightarrow> False | Some s \<Rightarrow> s \<noteq> [])"

subsection \<open>\<open>json.dumps(value, sort_keys=True, separators=(",", ":"))\<close>\<close>

definition hex_char :: "nat \<Rightarrow> char" where
  "hex_char d = (if d < 10 then char_of (48 + d) else char_of (87 + d))"

definition json_char :: "char \<Rightarrow> string" where
  "json_char c =
     (let n = code c; bs = char_of (92 :: nat) in
      if n = 34 then [bs, CHR 0x22]
      else if n = 92 then [bs, bs]
      else if n = 10 then [bs, CHR ''n'']
      else if n = 13 then [bs, CHR ''r'']
      else if n = 9 then [bs, CHR ''t'']
      else if n = 8 then [bs, CHR ''b'']
      else if n = 12 then [bs, CHR ''f'']
      else if n < 32 \<or> 127 < n
        then [bs, CHR ''u'', CHR ''0'', CHR ''0'', hex_char (n div 16), hex_char (n mod 16)]
      else [c])"

definition json_str :: "string \<Rightarrow> string" where
  "json_str s = [CHR 0x22] @ concat (map json_char s) @ [CHR 0x22]"

function json_dumps :: "json \<Rightarrow> string" where
  "json_dumps JNull = ''null''"
| "json_dumps (JBool b) = (if b then ''true'' else ''false'')"
| "json_dumps (JInt i) = show_int i"
| "json_dumps (JFloat r t) = r"
| "json_dumps (JStr s) = json_str s"
| "json_dumps (JList xs) = ''['' @ join '','' (map json_dumps xs) @ '']''"
| "json_dumps (JObj kvs) =
     ''{'' @ join '','' (map (\<lambda>kv. json_str (fst kv) @ '':'' @ json_dumps (snd kv))
                        (sort_key fst kvs)) @ ''}''"
  by pat_completeness auto

termination
proof (relation "measure size")
  fix xs :: "json list" and x
  assume "x \<in> set xs"
  then show "(x, JList xs) \<in> measure size"
    by (induction xs) auto
next
  fix kvs :: "(string \<times> json) list" and kv
  assume "kv \<in> set (sort_key fst kvs)"
  then have "kv \<in> set kvs" by simp
  then show "(snd kv, JObj kvs) \<in> measure size"
    by (induction kvs) (auto split: prod.splits)
qed simp

text \<open>
  \<open>str(value)\<close>: text is itself, containers print the \<open>repr\<close> of their items. The quote of a
  \<open>repr\<close> is the single one unless the text holds it and no double one.
\<close>

definition repr_char :: "char \<Rightarrow> char \<Rightarrow> string" where
  "repr_char q c =
     (let n = code c; bs = char_of (92 :: nat) in
      if c = q \<or> n = 92 then [bs, c]
      else if n = 10 then [bs, CHR ''n'']
      else if n = 13 then [bs, CHR ''r'']
      else if n = 9 then [bs, CHR ''t'']
      else if n < 32 \<or> 127 \<le> n \<and> n \<le> 160 \<or> n = 173
        then [bs, CHR ''x'', hex_char (n div 16), hex_char (n mod 16)]
      else [c])"

definition repr_str :: "string \<Rightarrow> string" where
  "repr_str s =
     (let q = (if CHR 0x27 \<in> set s \<and> CHR 0x22 \<notin> set s then CHR 0x22 else CHR 0x27)
      in [q] @ concat (map (repr_char q) s) @ [q])"

function py_repr :: "json \<Rightarrow> string" where
  "py_repr JNull = ''None''"
| "py_repr (JBool b) = (if b then ''True'' else ''False'')"
| "py_repr (JInt i) = show_int i"
| "py_repr (JFloat r t) = r"
| "py_repr (JStr s) = repr_str s"
| "py_repr (JList xs) = ''['' @ join '', '' (map py_repr xs) @ '']''"
| "py_repr (JObj kvs) =
     ''{'' @ join '', '' (map (\<lambda>kv. repr_str (fst kv) @ '': '' @ py_repr (snd kv)) kvs) @ ''}''"
  by pat_completeness auto
termination
proof (relation "measure size")
  fix xs :: "json list" and x
  assume "x \<in> set xs"
  then show "(x, JList xs) \<in> measure size"
    by (induction xs) auto
next
  fix kvs :: "(string \<times> json) list" and kv
  assume "kv \<in> set kvs"
  then show "(snd kv, JObj kvs) \<in> measure size"
    by (induction kvs) (auto split: prod.splits)
qed simp

definition py_str :: "json \<Rightarrow> string" where
  "py_str j = (case j of JStr s \<Rightarrow> s | _ \<Rightarrow> py_repr j)"

section \<open>Laws of the text layer\<close>

lemma code_char_of [simp]: "n < 256 \<Longrightarrow> code (char_of n) = n"
  by (simp add: code_def)

lemma digit_char_code [simp]: "d < 10 \<Longrightarrow> code (digit_char d) = 48 + d"
  by (simp add: digit_char_def)

lemma digit_char_is_digit [simp]: "d < 10 \<Longrightarrow> is_digit (digit_char d)"
  by (simp add: is_digit_def)

lemma show_nat_nonempty [simp]: "show_nat n \<noteq> []"
  by (subst show_nat.simps) simp

lemma show_nat_digits: "\<forall>c \<in> set (show_nat n). is_digit c"
proof (induction n rule: show_nat.induct)
  case (1 n)
  then show ?case by (subst show_nat.simps) (auto simp del: One_nat_def)
qed

lemma read_digits_snoc: "read_digits (s @ [c]) = 10 * read_digits s + (code c - 48)"
  by (simp add: read_digits_def)

text \<open>Printing and reading back a natural number.\<close>

lemma read_show_nat [simp]: "read_digits (show_nat n) = n"
proof (induction n rule: show_nat.induct)
  case (1 n)
  show ?case
  proof (cases "n < 10")
    case True
    then show ?thesis by (subst show_nat.simps) (simp add: read_digits_def)
  next
    case False
    with 1 show ?thesis by (subst show_nat.simps) (simp add: read_digits_snoc)
  qed
qed

lemma show_nat_inj: "show_nat m = show_nat n \<longleftrightarrow> m = n"
  by (metis read_show_nat)

lemma minus_not_digit [simp]: "\<not> is_digit (CHR ''-'')"
  by (simp add: is_digit_def code_def)

lemma show_int_inj [simp]: "show_int i = show_int j \<longleftrightarrow> i = j"
proof -
  have neq: "CHR ''-'' # s \<noteq> show_nat n" for s n
    by (metis list.set_intros(1) minus_not_digit show_nat_digits)
  show ?thesis
    by (auto simp: show_int_def show_nat_inj neq neq [symmetric] split: if_splits)
qed

lemma starts_with_append [simp]: "starts_with (p @ s) p"
  by (induction p) auto

lemma starts_with_iff: "starts_with s p \<longleftrightarrow> (\<exists>t. s = p @ t)"
  by (induction s p rule: starts_with.induct) auto

lemma contains_iff: "contains s n \<longleftrightarrow> (\<exists>a b. s = a @ n @ b)"
proof (induction s)
  case Nil
  show ?case by auto
next
  case (Cons c cs)
  have "contains (c # cs) n \<longleftrightarrow> (\<exists>t. c # cs = n @ t) \<or> (\<exists>a b. cs = a @ n @ b)"
    using Cons by (simp add: starts_with_iff)
  also have "\<dots> \<longleftrightarrow> (\<exists>a b. c # cs = a @ n @ b)"
    by (metis append_Cons append_Nil list.exhaust list.inject)
  finally show ?case .
qed

lemma join_split_on: "join [d] (split_on d s) = s"
proof (induction s)
  case Nil
  show ?case by simp
next
  case (Cons c cs)
  have "split_on d cs \<noteq> []" by (induction cs) (auto split: list.splits)
  then obtain w ws where ws: "split_on d cs = w # ws" by (cases "split_on d cs") auto
  have "join [d] ((c # w) # ws) = c # join [d] (w # ws)" by (cases ws) auto
  with Cons ws show ?case by auto
qed

lemma split_on_nonempty [simp]: "split_on d s \<noteq> []"
  by (induction s) (auto split: list.splits)

lemma split_lines_aux_nonempty: "acc \<noteq> [] \<Longrightarrow> split_lines_aux acc s \<noteq> []"
  by (induction s arbitrary: acc) auto

text \<open>Only the empty text has no first line.\<close>

lemma split_lines_Nil [simp]: "split_lines s = [] \<longleftrightarrow> s = []"
proof -
  have "split_lines_aux acc s = [] \<longleftrightarrow> acc = [] \<and> s = []" for acc
    by (induction s arbitrary: acc) auto
  then show ?thesis by (simp add: split_lines_def)
qed

lemma jget_simps [simp]:
  "jget [] k = JNull"
  "jget ((k', v) # kvs) k = (if k' = k then v else jget kvs k)"
  by (auto simp: jget_def dget_def)

lemma dict_put_keys: "fst ` set (dict_put k v m) = insert k (fst ` set m)"
  by (induction m) (simp, force)

lemma dict_put_distinct: "distinct (map fst m) \<Longrightarrow> distinct (map fst (dict_put k v m))"
proof (induction m)
  case Nil
  show ?case by simp
next
  case (Cons a m)
  then show ?case by (cases a) (auto simp: dict_put_keys simp flip: image_set)
qed

lemma map_of_dict_put: "map_of (dict_put k v m) = (map_of m)(k \<mapsto> v)"
  by (induction m) auto

lemma dict_put_set: "x \<in> set (dict_put k v m) \<Longrightarrow> x = (k, v) \<or> x \<in> set m"
  by (induction m) (auto split: if_splits)

lemma dict_get_put [simp]: "dict_get (dict_put k v m) k' d = (if k' = k then v else dict_get m k' d)"
  by (simp add: dict_get_def map_of_dict_put)

lemma dict_get_incr: "dict_get (dict_incr k m) k' 0 = dict_get m k' 0 + (if k' = k then 1 else 0)"
  by (simp add: dict_incr_def)

lemma has_text_simps [simp]: "has_text None = False" "has_text (Some s) = (s \<noteq> [])"
  by (simp_all add: has_text_def)

lemma str_or_simps [simp]: "str_or None d = d" "str_or (Some s) d = (if s = [] then d else s)"
  by (simp_all add: str_or_def)

end
