(* ===== verification/Models.thy ===== *)
theory Models
  imports PyText
begin

text \<open>
  The persistent entities of \<open>domain/models.py\<close>: one record per table with the table's columns,
  and one constructor per table with the column defaults. Joined-table inheritance is kept as the
  database has it: a \<open>ReviewRun\<close> or \<open>AgentTask\<close> object is the row of \<open>task\<close> and the row of
  \<open>review_run\<close> or \<open>agent_task\<close> with the same id, and \<open>isinstance\<close> reads the column \<open>kind\<close>.
  The state of a database session is the record \<open>db\<close>, every table in insertion order.
\<close>

type_synonym dict = "(string \<times> json) list"

section \<open>Raised exceptions\<close>

datatype err =
    ValueError string
  | TypeError string
  | KeyError string
  | IndexError
  | AssertionFailed string
  | IntegrityError string
  | MultipleResultsFound
  | TransitionError string int
  | RequestRejected string string string "string option"
  | ActionRejected string string
  | ProviderError string "string option" "string option"
  | CapabilityError string "string option" "string option"
  | OperationError string "string option" "string option"
  | PiAgentError string "int option"
  | ResultError string string
  | OtherError string

text \<open>
  A violated constraint rolls the transaction of the session back; until someone rolls the session back as well, it
  refuses further work with this exception.
\<close>

definition breaks_session :: "err \<Rightarrow> bool" where
  "breaks_session x = (case x of IntegrityError _ \<Rightarrow> True | _ \<Rightarrow> False)"

definition session_broken :: err where
  "session_broken =
     OtherError ''This Session's transaction has been rolled back due to a previous exception during flush.''"

text \<open>\<open>str(exc)\<close>\<close>

fun err_text :: "err \<Rightarrow> string" where
  "err_text (ValueError m) = m"
| "err_text (TypeError m) = m"
| "err_text (KeyError k) = repr_str k"
| "err_text IndexError = ''list index out of range''"
| "err_text (AssertionFailed m) = m"
| "err_text (IntegrityError m) = m"
| "err_text MultipleResultsFound = ''Multiple rows were found when one or none was required''"
| "err_text (TransitionError m s) = m"
| "err_text (RequestRejected m c ev ex) = m"
| "err_text (ActionRejected m c) = m"
| "err_text (ProviderError m p op) = m"
| "err_text (CapabilityError m p op) = m"
| "err_text (OperationError m p op) = m"
| "err_text (PiAgentError m s) = m"
| "err_text (ResultError c m) = m"
| "err_text (OtherError m) = m"

section \<open>The environment of an operation\<close>

datatype dialect = Sqlite | Postgresql | OtherDialect

text \<open>
  \<open>uuid4 e k\<close> is the \<open>k\<close>-th identifier drawn, \<open>sha256 e\<close> the hexadecimal digest of a text,
  \<open>now e\<close> the clock reading of the operation and \<open>row_locked e\<close> the task rows another
  PostgreSQL transaction holds locked.
\<close>

record env =
  uuid4 :: "nat \<Rightarrow> string"
  sha256 :: "string \<Rightarrow> string"
  now :: time
  dialect :: dialect
  row_locked :: "string \<Rightarrow> bool"

text \<open>An environment to evaluate the operations in: numbered identifiers, SQLite.\<close>

definition sample_env :: "time \<Rightarrow> env" where
  "sample_env t =
     \<lparr>uuid4 = (\<lambda>k. ''id-'' @ show_nat k), sha256 = (\<lambda>s. ''sha-'' @ s), now = t,
      dialect = Sqlite, row_locked = (\<lambda>i. False)\<rparr>"

section \<open>Tables\<close>

record pull_request_context =
  c_id :: string
  c_provider :: string
  c_repo_full_name :: string
  c_provider_repo_id :: "string option"
  c_pull_request_number :: int
  c_provider_pr_id :: "string option"
  c_title :: "string option"
  c_author_login :: "string option"
  c_base_ref :: "string option"
  c_base_sha :: "string option"
  c_head_ref :: "string option"
  c_head_sha :: string
  c_head_repo_full_name :: "string option"
  c_is_fork :: bool
  c_status :: string
  c_html_url :: "string option"
  c_summary_comment_provider_id :: "string option"
  c_latest_review_run_id :: "string option"
  c_latest_event_id :: "string option"
  c_closed_at :: "time option"
  c_merged_at :: "time option"
  c_created_at :: time
  c_updated_at :: time

definition new_context :: "string \<Rightarrow> time \<Rightarrow> string \<Rightarrow> string \<Rightarrow> int \<Rightarrow> string \<Rightarrow> pull_request_context" where
  "new_context ident t provider repo number head =
     \<lparr>c_id = ident, c_provider = provider, c_repo_full_name = repo, c_provider_repo_id = None,
      c_pull_request_number = number, c_provider_pr_id = None, c_title = None,
      c_author_login = None, c_base_ref = None, c_base_sha = None, c_head_ref = None,
      c_head_sha = head, c_head_repo_full_name = None, c_is_fork = False, c_status = ''open'',
      c_html_url = None, c_summary_comment_provider_id = None, c_latest_review_run_id = None,
      c_latest_event_id = None, c_closed_at = None, c_merged_at = None, c_created_at = t,
      c_updated_at = t\<rparr>"

record provider_event =
  ev_id :: string
  ev_provider :: string
  ev_delivery_id :: string
  ev_provider_event :: string
  ev_provider_action :: "string option"
  ev_internal_event :: "string option"
  ev_repo_full_name :: "string option"
  ev_pull_request_number :: "int option"
  ev_head_sha :: "string option"
  ev_dedupe_key :: string
  ev_coalesce_key :: "string option"
  ev_payload_digest :: string
  ev_payload :: dict
  ev_status :: string
  ev_error_code :: "string option"
  ev_error_message :: "string option"
  ev_review_run_id :: "string option"
  ev_created_at :: time
  ev_processed_at :: "time option"

definition new_event :: "string \<Rightarrow> time \<Rightarrow> string \<Rightarrow> string \<Rightarrow> string \<Rightarrow> string \<Rightarrow> string \<Rightarrow> dict \<Rightarrow> provider_event" where
  "new_event ident t provider delivery_id provider_event dedupe digest payload =
     \<lparr>ev_id = ident, ev_provider = provider, ev_delivery_id = delivery_id,
      ev_provider_event = provider_event, ev_provider_action = None, ev_internal_event = None,
      ev_repo_full_name = None, ev_pull_request_number = None, ev_head_sha = None,
      ev_dedupe_key = dedupe, ev_coalesce_key = None, ev_payload_digest = digest,
      ev_payload = payload, ev_status = ''received'', ev_error_code = None,
      ev_error_message = None, ev_review_run_id = None, ev_created_at = t,
      ev_processed_at = None\<rparr>"

record task =
  t_id :: string
  t_kind :: string
  t_capability_id :: string
  t_status :: string
  t_stage :: "string option"
  t_execution_status :: string
  t_delivery_status :: string
  t_queue :: string
  t_priority :: int
  t_effective_priority :: int
  t_available_at :: time
  t_dedupe_key :: "string option"
  t_concurrency_key :: "string option"
  t_resource_class :: string
  t_resource_context_json :: "dict option"
  t_resolved_preset_json :: "json option"
  t_max_attempts :: int
  t_lock_owner :: "string option"
  t_locked_until :: "time option"
  t_started_at :: "time option"
  t_completed_at :: "time option"
  t_deadline_at :: "time option"
  t_created_at :: time
  t_updated_at :: time

definition new_task :: "string \<Rightarrow> string \<Rightarrow> time \<Rightarrow> task" where
  "new_task ident kind t =
     \<lparr>t_id = ident, t_kind = kind, t_capability_id = ''generic'', t_status = ''queued'',
      t_stage = None, t_execution_status = ''pending'', t_delivery_status = ''not_required'',
      t_queue = ''default'', t_priority = 0, t_effective_priority = 0, t_available_at = t,
      t_dedupe_key = None, t_concurrency_key = None, t_resource_class = ''agent-standard'',
      t_resource_context_json = None, t_resolved_preset_json = None, t_max_attempts = 2,
      t_lock_owner = None, t_locked_until = None, t_started_at = None, t_completed_at = None,
      t_deadline_at = None, t_created_at = t, t_updated_at = t\<rparr>"

definition task_check :: "task \<Rightarrow> bool" where
  "task_check t \<longleftrightarrow>
     (0 \<le> t_priority t \<and> t_priority t \<le> 100) \<and>
     (0 \<le> t_effective_priority t \<and> t_effective_priority t \<le> 100)"

record task_attempt =
  ta_id :: string
  ta_task_id :: string
  ta_attempt_no :: int
  ta_status :: string
  ta_stage :: "string option"
  ta_agent_run_id :: "string option"
  ta_workspace_id :: "string option"
  ta_workspace_path :: "string option"
  ta_resolved_preset_json :: "json option"
  ta_usage_json :: "json option"
  ta_failure_category :: "string option"
  ta_error_message :: "string option"
  ta_started_at :: time
  ta_completed_at :: "time option"

definition new_attempt :: "string \<Rightarrow> time \<Rightarrow> string \<Rightarrow> int \<Rightarrow> task_attempt" where
  "new_attempt ident t tid n =
     \<lparr>ta_id = ident, ta_task_id = tid, ta_attempt_no = n, ta_status = ''running'', ta_stage = None,
      ta_agent_run_id = None, ta_workspace_id = None, ta_workspace_path = None,
      ta_resolved_preset_json = None, ta_usage_json = None, ta_failure_category = None,
      ta_error_message = None, ta_started_at = t, ta_completed_at = None\<rparr>"

record session_archive =
  sa_id :: string
  sa_task_id :: string
  sa_task_attempt_id :: "string option"
  sa_agent_run_id :: string
  sa_session_json :: json
  sa_task_metadata_json :: json
  sa_workspace_diff :: "string option"
  sa_workspace_diff_truncated :: bool
  sa_redaction_version :: string
  sa_created_at :: time
  sa_updated_at :: time

definition new_archive :: "string \<Rightarrow> time \<Rightarrow> string \<Rightarrow> string \<Rightarrow> string \<Rightarrow> session_archive" where
  "new_archive ident t tid att run =
     \<lparr>sa_id = ident, sa_task_id = tid, sa_task_attempt_id = Some att, sa_agent_run_id = run,
      sa_session_json = JObj [], sa_task_metadata_json = JObj [], sa_workspace_diff = None,
      sa_workspace_diff_truncated = False, sa_redaction_version = ''1'', sa_created_at = t,
      sa_updated_at = t\<rparr>"

record resource_pool =
  p_resource_key :: string
  p_dimension :: string
  p_capacity :: int
  p_created_at :: time
  p_updated_at :: time

definition new_pool :: "time \<Rightarrow> string \<Rightarrow> string \<Rightarrow> int \<Rightarrow> resource_pool" where
  "new_pool t key dim cap =
     \<lparr>p_resource_key = key, p_dimension = dim, p_capacity = cap, p_created_at = t,
      p_updated_at = t\<rparr>"

record resource_lease =
  l_id :: string
  l_task_id :: string
  l_stage :: string
  l_resource_key :: string
  l_units :: int
  l_owner :: string
  l_expires_at :: time
  l_created_at :: time

definition new_lease :: "string \<Rightarrow> time \<Rightarrow> string \<Rightarrow> string \<Rightarrow> string \<Rightarrow> int \<Rightarrow> string \<Rightarrow> time \<Rightarrow> resource_lease" where
  "new_lease ident t tid stage key units owner expires =
     \<lparr>l_id = ident, l_task_id = tid, l_stage = stage, l_resource_key = key, l_units = units,
      l_owner = owner, l_expires_at = expires, l_created_at = t\<rparr>"

record delivery =
  d_id :: string
  d_task_id :: string
  d_provider :: string
  d_operation :: string
  d_destination_key :: string
  d_idempotency_key :: string
  d_payload_json :: dict
  d_payload_digest :: string
  d_mandatory :: bool
  d_status :: string
  d_queue :: string
  d_priority :: int
  d_available_at :: time
  d_attempt :: int
  d_max_attempts :: int
  d_lock_owner :: "string option"
  d_locked_until :: "time option"
  d_provider_message_id :: "string option"
  d_last_error :: "string option"
  d_delivered_at :: "time option"
  d_created_at :: time
  d_updated_at :: time

definition new_delivery :: "string \<Rightarrow> time \<Rightarrow> string \<Rightarrow> string \<Rightarrow> string \<Rightarrow> string \<Rightarrow> string \<Rightarrow> dict \<Rightarrow> string \<Rightarrow> delivery" where
  "new_delivery ident t tid provider operation destination key payload digest =
     \<lparr>d_id = ident, d_task_id = tid, d_provider = provider, d_operation = operation,
      d_destination_key = destination, d_idempotency_key = key, d_payload_json = payload,
      d_payload_digest = digest, d_mandatory = True, d_status = ''queued'',
      d_queue = ''provider-delivery'', d_priority = 0, d_available_at = t, d_attempt = 0,
      d_max_attempts = 5, d_lock_owner = None, d_locked_until = None,
      d_provider_message_id = None, d_last_error = None, d_delivered_at = None,
      d_created_at = t, d_updated_at = t\<rparr>"

record comment_slot =
  s_id :: string
  s_review_run_id :: string
  s_provider :: string
  s_repo_full_name :: string
  s_pull_request_number :: int
  s_head_sha :: string
  s_marker :: string
  s_provider_comment_id :: "string option"
  s_status :: string
  s_placeholder_version :: int
  s_result_version :: int
  s_last_error :: "string option"
  s_bound_at :: "time option"
  s_finalized_at :: "time option"
  s_created_at :: time
  s_updated_at :: time

definition new_slot :: "string \<Rightarrow> time \<Rightarrow> string \<Rightarrow> string \<Rightarrow> string \<Rightarrow> int \<Rightarrow> string \<Rightarrow> string \<Rightarrow> comment_slot" where
  "new_slot ident t rid provider repo number head marker =
     \<lparr>s_id = ident, s_review_run_id = rid, s_provider = provider, s_repo_full_name = repo,
      s_pull_request_number = number, s_head_sha = head, s_marker = marker,
      s_provider_comment_id = None, s_status = ''pending'', s_placeholder_version = 1,
      s_result_version = 0, s_last_error = None, s_bound_at = None, s_finalized_at = None,
      s_created_at = t, s_updated_at = t\<rparr>"

text \<open>The columns \<open>review_run\<close> adds to \<open>task\<close>.\<close>

record review_run =
  r_id :: string
  r_pull_request_context_id :: "string option"
  r_provider :: string
  r_repo_full_name :: string
  r_pull_request_number :: int
  r_base_sha :: "string option"
  r_head_sha :: string
  r_attempt :: int
  r_trigger_type :: string
  r_trigger_event_id :: "string option"
  r_summary_comment_id :: "string option"
  r_workspace_path :: "string option"
  r_agent_session_id :: "string option"
  r_agent_status :: "string option"
  r_agent_provider :: "string option"
  r_agent_model :: "string option"
  r_agent_thinking_level :: "string option"
  r_review_summary :: "string option"
  r_review_conclusion :: "string option"
  r_risk_level :: "string option"
  r_finding_count_total :: int
  r_finding_count_by_severity :: "(string \<times> int) list option"
  r_result_schema_version :: "string option"
  r_result_raw_json :: "json option"
  r_validation_warnings_json :: "json list option"
  r_validation_errors_json :: "json list option"
  r_failure_code :: "string option"
  r_error :: "string option"
  r_superseded_by_review_run_id :: "string option"
  r_soft_timeout_emitted_at :: "time option"
  r_hard_timeout_emitted_at :: "time option"

definition new_run :: "string \<Rightarrow> string \<Rightarrow> string \<Rightarrow> int \<Rightarrow> string \<Rightarrow> review_run" where
  "new_run ident provider repo number head =
     \<lparr>r_id = ident, r_pull_request_context_id = None, r_provider = provider,
      r_repo_full_name = repo, r_pull_request_number = number, r_base_sha = None,
      r_head_sha = head, r_attempt = 1, r_trigger_type = ''manual'', r_trigger_event_id = None,
      r_summary_comment_id = None, r_workspace_path = None, r_agent_session_id = None,
      r_agent_status = None, r_agent_provider = None, r_agent_model = None,
      r_agent_thinking_level = None, r_review_summary = None, r_review_conclusion = None,
      r_risk_level = None, r_finding_count_total = 0, r_finding_count_by_severity = None,
      r_result_schema_version = None, r_result_raw_json = None,
      r_validation_warnings_json = None, r_validation_errors_json = None,
      r_failure_code = None, r_error = None, r_superseded_by_review_run_id = None,
      r_soft_timeout_emitted_at = None, r_hard_timeout_emitted_at = None\<rparr>"

record review_session =
  rs_id :: string
  rs_review_run_id :: string
  rs_agent_session_id :: "string option"
  rs_status :: string
  rs_skill_name :: "string option"
  rs_profile_name :: "string option"
  rs_input_snapshot_json :: "json option"
  rs_result_ref :: "string option"
  rs_error_message :: "string option"
  rs_created_at :: time
  rs_updated_at :: time

definition new_session :: "string \<Rightarrow> time \<Rightarrow> string \<Rightarrow> review_session" where
  "new_session ident t rid =
     \<lparr>rs_id = ident, rs_review_run_id = rid, rs_agent_session_id = None,
      rs_status = ''created'', rs_skill_name = None, rs_profile_name = None,
      rs_input_snapshot_json = None, rs_result_ref = None, rs_error_message = None,
      rs_created_at = t, rs_updated_at = t\<rparr>"

text \<open>The column \<open>confidence\<close> holds the JSON number of the finding.\<close>

record finding =
  f_id :: string
  f_review_run_id :: string
  f_pull_request_context_id :: "string option"
  f_fingerprint :: string
  f_file_path :: string
  f_line_start :: "int option"
  f_line_end :: "int option"
  f_diff_hunk_hash :: "string option"
  f_severity :: string
  f_category :: "string option"
  f_message :: string
  f_suggestion :: "string option"
  f_confidence :: json
  f_status :: string
  f_state :: string
  f_first_seen_run_id :: "string option"
  f_last_seen_run_id :: "string option"
  f_resolved_run_id :: "string option"
  f_outcome :: "string option"
  f_raw_payload_json :: "json option"
  f_created_at :: time
  f_updated_at :: time

definition new_finding :: "string \<Rightarrow> time \<Rightarrow> string \<Rightarrow> string \<Rightarrow> string \<Rightarrow> string \<Rightarrow> string \<Rightarrow> finding" where
  "new_finding ident t rid fp path severity message =
     \<lparr>f_id = ident, f_review_run_id = rid, f_pull_request_context_id = None,
      f_fingerprint = fp, f_file_path = path, f_line_start = None, f_line_end = None,
      f_diff_hunk_hash = None, f_severity = severity, f_category = None, f_message = message,
      f_suggestion = None, f_confidence = JNull, f_status = ''active'', f_state = ''new'',
      f_first_seen_run_id = None, f_last_seen_run_id = None, f_resolved_run_id = None,
      f_outcome = None, f_raw_payload_json = None, f_created_at = t, f_updated_at = t\<rparr>"

record comment_ref =
  cr_id :: string
  cr_provider :: string
  cr_repo_full_name :: string
  cr_pull_request_number :: int
  cr_review_run_id :: "string option"
  cr_finding_id :: "string option"
  cr_comment_type :: string
  cr_provider_comment_id :: string
  cr_provider_thread_id :: "string option"
  cr_status :: string
  cr_last_published_body_hash :: "string option"
  cr_created_at :: time
  cr_updated_at :: time

definition new_comment_ref :: "string \<Rightarrow> time \<Rightarrow> string \<Rightarrow> string \<Rightarrow> int \<Rightarrow> string \<Rightarrow> string \<Rightarrow> comment_ref" where
  "new_comment_ref ident t provider repo number kind comment =
     \<lparr>cr_id = ident, cr_provider = provider, cr_repo_full_name = repo,
      cr_pull_request_number = number, cr_review_run_id = None, cr_finding_id = None,
      cr_comment_type = kind, cr_provider_comment_id = comment, cr_provider_thread_id = None,
      cr_status = ''active'', cr_last_published_body_hash = None, cr_created_at = t,
      cr_updated_at = t\<rparr>"

text \<open>The columns \<open>agent_task\<close> adds to \<open>task\<close>.\<close>

record agent_task =
  a_id :: string
  a_provider_event_id :: "string option"
  a_pull_request_context_id :: "string option"
  a_provider :: string
  a_repo_full_name :: string
  a_pull_request_number :: int
  a_task_type :: string
  a_source_kind :: "string option"
  a_source_comment_id :: "string option"
  a_source_url :: "string option"
  a_source_author_login :: "string option"
  a_command_text :: "string option"
  a_head_sha :: "string option"
  a_workspace_path :: "string option"
  a_response_comment_id :: "string option"
  a_response_body_hash :: "string option"
  a_response_published_at :: "time option"
  a_publish_attempts :: int
  a_last_publish_error :: "string option"
  a_agent_session_id :: "string option"
  a_agent_status :: "string option"
  a_agent_provider :: "string option"
  a_agent_model :: "string option"
  a_agent_thinking_level :: "string option"
  a_result_text :: "string option"
  a_failure_code :: "string option"
  a_attempt :: int
  a_agent_start_attempts :: int
  a_soft_timeout_emitted_at :: "time option"
  a_hard_timeout_emitted_at :: "time option"
  a_input_json :: "dict option"
  a_result_json :: "dict option"
  a_error_message :: "string option"

definition new_agent_task :: "string \<Rightarrow> string \<Rightarrow> string \<Rightarrow> int \<Rightarrow> agent_task" where
  "new_agent_task ident provider repo number =
     \<lparr>a_id = ident, a_provider_event_id = None, a_pull_request_context_id = None,
      a_provider = provider, a_repo_full_name = repo, a_pull_request_number = number,
      a_task_type = ''mention'', a_source_kind = None, a_source_comment_id = None,
      a_source_url = None, a_source_author_login = None, a_command_text = None,
      a_head_sha = None, a_workspace_path = None, a_response_comment_id = None,
      a_response_body_hash = None, a_response_published_at = None, a_publish_attempts = 0,
      a_last_publish_error = None, a_agent_session_id = None, a_agent_status = None,
      a_agent_provider = None, a_agent_model = None, a_agent_thinking_level = None,
      a_result_text = None, a_failure_code = None, a_attempt = 1, a_agent_start_attempts = 0,
      a_soft_timeout_emitted_at = None, a_hard_timeout_emitted_at = None, a_input_json = None,
      a_result_json = None, a_error_message = None\<rparr>"

record review_config =
  rc_id :: string
  rc_provider :: string
  rc_repo_full_name :: string
  rc_review_enabled :: bool
  rc_line_comments_enabled :: bool
  rc_min_severity_for_summary :: string
  rc_max_findings_per_run :: int
  rc_large_pr_file_limit :: int
  rc_large_pr_patch_bytes_limit :: int
  rc_auto_retry_invalid_agent_result :: bool
  rc_auto_retry_infra_failure :: bool
  rc_default_review_skill :: string
  rc_agent_commands_enabled :: bool
  rc_default_agent_command_skill :: string
  rc_created_at :: time
  rc_updated_at :: time

definition new_config :: "string \<Rightarrow> time \<Rightarrow> string \<Rightarrow> string \<Rightarrow> review_config" where
  "new_config ident t provider repo =
     \<lparr>rc_id = ident, rc_provider = provider, rc_repo_full_name = repo,
      rc_review_enabled = True, rc_line_comments_enabled = False,
      rc_min_severity_for_summary = ''info'', rc_max_findings_per_run = 50,
      rc_large_pr_file_limit = 100, rc_large_pr_patch_bytes_limit = 500000,
      rc_auto_retry_invalid_agent_result = False, rc_auto_retry_infra_failure = True,
      rc_default_review_skill = ''code-review'', rc_agent_commands_enabled = True,
      rc_default_agent_command_skill = ''pr-assistant'', rc_created_at = t,
      rc_updated_at = t\<rparr>"

record workspace =
  w_id :: string
  w_workspace_id :: string
  w_provider :: string
  w_repository :: string
  w_repository_clone_url :: string
  w_repo_hash :: string
  w_pull_request_number :: int
  w_base_sha :: string
  w_head_sha :: string
  w_workspace_path :: string
  w_cache_path :: "string option"
  w_status :: string
  w_failure_code :: "string option"
  w_failure_message :: "string option"
  w_created_at :: time
  w_ready_at :: "time option"
  w_last_used_at :: "time option"
  w_expires_at :: "time option"
  w_updated_at :: time

record workspace_lease =
  wl_id :: string
  wl_workspace_id :: string
  wl_review_run_id :: "string option"
  wl_session_id :: "string option"
  wl_leased_at :: time
  wl_released_at :: "time option"

definition new_workspace_lease :: "string \<Rightarrow> time \<Rightarrow> string \<Rightarrow> workspace_lease" where
  "new_workspace_lease ident t wid =
     \<lparr>wl_id = ident, wl_workspace_id = wid, wl_review_run_id = None, wl_session_id = None,
      wl_leased_at = t, wl_released_at = None\<rparr>"

section \<open>The database\<close>

record db =
  contexts :: "pull_request_context list"
  inbox :: "provider_event list"
  tasks :: "task list"
  attempts :: "task_attempt list"
  archives :: "session_archive list"
  pools :: "resource_pool list"
  leases :: "resource_lease list"
  outbox :: "delivery list"
  slots :: "comment_slot list"
  runs :: "review_run list"
  sessions :: "review_session list"
  findings :: "finding list"
  comment_refs :: "comment_ref list"
  agents :: "agent_task list"
  configs :: "review_config list"
  workspaces :: "workspace list"
  workspace_leases :: "workspace_lease list"
  drawn :: nat

definition empty_db :: db where
  "empty_db =
     \<lparr>contexts = [], inbox = [], tasks = [], attempts = [], archives = [], pools = [],
      leases = [], outbox = [], slots = [], runs = [], sessions = [], findings = [],
      comment_refs = [], agents = [], configs = [], workspaces = [], workspace_leases = [],
      drawn = 0\<rparr>"

text \<open>The default of every \<open>id\<close> column draws the next identifier.\<close>

definition next_id :: "env \<Rightarrow> db \<Rightarrow> string" where
  "next_id e db = uuid4 e (drawn db)"

definition draw :: "db \<Rightarrow> db" where
  "draw db = db\<lparr>drawn := Suc (drawn db)\<rparr>"

section \<open>Reading and writing objects\<close>

definition get_task :: "db \<Rightarrow> string \<Rightarrow> task option" where
  "get_task db i = first_row (\<lambda>t. t_id t = i) (tasks db)"

definition get_run :: "db \<Rightarrow> string \<Rightarrow> review_run option" where
  "get_run db i = first_row (\<lambda>r. r_id r = i) (runs db)"

definition get_agent :: "db \<Rightarrow> string \<Rightarrow> agent_task option" where
  "get_agent db i = first_row (\<lambda>a. a_id a = i) (agents db)"

definition get_context :: "db \<Rightarrow> string \<Rightarrow> pull_request_context option" where
  "get_context db i = first_row (\<lambda>c. c_id c = i) (contexts db)"

definition get_event :: "db \<Rightarrow> string \<Rightarrow> provider_event option" where
  "get_event db i = first_row (\<lambda>v. ev_id v = i) (inbox db)"

definition get_delivery :: "db \<Rightarrow> string \<Rightarrow> delivery option" where
  "get_delivery db i = first_row (\<lambda>d. d_id d = i) (outbox db)"

definition get_slot :: "db \<Rightarrow> string \<Rightarrow> comment_slot option" where
  "get_slot db i = first_row (\<lambda>s. s_id s = i) (slots db)"

definition get_pool :: "db \<Rightarrow> string \<Rightarrow> resource_pool option" where
  "get_pool db k = first_row (\<lambda>p. p_resource_key p = k) (pools db)"

text \<open>
  The object an operation holds. The code reaches such an object only through a row, so the
  blank default is never read.
\<close>

definition the_task :: "db \<Rightarrow> string \<Rightarrow> task" where
  "the_task db i = or_else (get_task db i) (new_task i [] 0)"

definition the_run :: "db \<Rightarrow> string \<Rightarrow> review_run" where
  "the_run db i = or_else (get_run db i) (new_run i [] [] 0 [])"

definition the_agent :: "db \<Rightarrow> string \<Rightarrow> agent_task" where
  "the_agent db i = or_else (get_agent db i) (new_agent_task i [] [] 0)"

definition the_slot :: "db \<Rightarrow> string \<Rightarrow> comment_slot" where
  "the_slot db i = or_else (get_slot db i) (new_slot i 0 [] [] [] 0 [] [])"

definition the_delivery :: "db \<Rightarrow> string \<Rightarrow> delivery" where
  "the_delivery db i = or_else (get_delivery db i) (new_delivery i 0 [] [] [] [] [] [] [])"

definition the_event :: "db \<Rightarrow> string \<Rightarrow> provider_event" where
  "the_event db i = or_else (get_event db i) (new_event i 0 [] [] [] [] [] [])"

definition upd_task :: "string \<Rightarrow> (task \<Rightarrow> task) \<Rightarrow> db \<Rightarrow> db" where
  "upd_task i f db = db\<lparr>tasks := upd_where (\<lambda>t. t_id t = i) f (tasks db)\<rparr>"

definition upd_run :: "string \<Rightarrow> (review_run \<Rightarrow> review_run) \<Rightarrow> db \<Rightarrow> db" where
  "upd_run i f db = db\<lparr>runs := upd_where (\<lambda>r. r_id r = i) f (runs db)\<rparr>"

definition upd_agent :: "string \<Rightarrow> (agent_task \<Rightarrow> agent_task) \<Rightarrow> db \<Rightarrow> db" where
  "upd_agent i f db = db\<lparr>agents := upd_where (\<lambda>a. a_id a = i) f (agents db)\<rparr>"

definition upd_context :: "string \<Rightarrow> (pull_request_context \<Rightarrow> pull_request_context) \<Rightarrow> db \<Rightarrow> db" where
  "upd_context i f db = db\<lparr>contexts := upd_where (\<lambda>c. c_id c = i) f (contexts db)\<rparr>"

definition upd_event :: "string \<Rightarrow> (provider_event \<Rightarrow> provider_event) \<Rightarrow> db \<Rightarrow> db" where
  "upd_event i f db = db\<lparr>inbox := upd_where (\<lambda>v. ev_id v = i) f (inbox db)\<rparr>"

definition upd_delivery :: "string \<Rightarrow> (delivery \<Rightarrow> delivery) \<Rightarrow> db \<Rightarrow> db" where
  "upd_delivery i f db = db\<lparr>outbox := upd_where (\<lambda>d. d_id d = i) f (outbox db)\<rparr>"

definition upd_slot :: "string \<Rightarrow> (comment_slot \<Rightarrow> comment_slot) \<Rightarrow> db \<Rightarrow> db" where
  "upd_slot i f db = db\<lparr>slots := upd_where (\<lambda>s. s_id s = i) f (slots db)\<rparr>"

definition is_review :: "task \<Rightarrow> bool" where
  "is_review t \<longleftrightarrow> t_kind t = ''review''"

definition is_agent :: "task \<Rightarrow> bool" where
  "is_agent t \<longleftrightarrow> t_kind t = ''agent''"

text \<open>Running an operation after another one; an exception of the first ends both.\<close>

definition and_then :: "db \<times> (err + 'a) \<Rightarrow> ('a \<Rightarrow> db \<Rightarrow> db \<times> (err + 'b)) \<Rightarrow> db \<times> (err + 'b)" where
  "and_then r f = (case r of (db, Inl x) \<Rightarrow> (db, Inl x) | (db, Inr v) \<Rightarrow> f v db)"

lemma and_then_simps [simp]:
  "and_then (db, Inl x) f = (db, Inl x)" "and_then (db, Inr v) f = f v db"
  by (simp_all add: and_then_def)

lemma and_then_Inr:
  "and_then r f = (db', Inr w) \<longleftrightarrow> (\<exists>db v. r = (db, Inr v) \<and> f v db = (db', Inr w))"
  by (cases r; cases "snd r") auto

lemma and_then_Inl:
  "and_then r f = (db', Inl x) \<longleftrightarrow> r = (db', Inl x) \<or> (\<exists>db v. r = (db, Inr v) \<and> f v db = (db', Inl x))"
  by (cases r; cases "snd r") auto

lemma keep_and_then:
  "I (fst r) \<Longrightarrow> (\<And>v db. r = (db, Inr v) \<Longrightarrow> I db \<Longrightarrow> I (fst (f v db))) \<Longrightarrow> I (fst (and_then r f))"
  by (cases r; cases "snd r") auto

subsection \<open>What a write leaves alone\<close>

lemma upd_task_frame [simp, frame_simps]:
  "contexts (upd_task i f db) = contexts db"
  "inbox (upd_task i f db) = inbox db"
  "attempts (upd_task i f db) = attempts db"
  "archives (upd_task i f db) = archives db"
  "pools (upd_task i f db) = pools db"
  "leases (upd_task i f db) = leases db"
  "outbox (upd_task i f db) = outbox db"
  "slots (upd_task i f db) = slots db"
  "runs (upd_task i f db) = runs db"
  "sessions (upd_task i f db) = sessions db"
  "findings (upd_task i f db) = findings db"
  "comment_refs (upd_task i f db) = comment_refs db"
  "agents (upd_task i f db) = agents db"
  "configs (upd_task i f db) = configs db"
  "workspaces (upd_task i f db) = workspaces db"
  "workspace_leases (upd_task i f db) = workspace_leases db"
  "drawn (upd_task i f db) = drawn db"
  by (simp_all add: upd_task_def)

lemma tasks_upd_task [simp]: "tasks (upd_task i f db) = upd_where (\<lambda>x. t_id x = i) f (tasks db)"
  by (simp add: upd_task_def)

lemma upd_run_frame [simp, frame_simps]:
  "contexts (upd_run i f db) = contexts db"
  "inbox (upd_run i f db) = inbox db"
  "tasks (upd_run i f db) = tasks db"
  "attempts (upd_run i f db) = attempts db"
  "archives (upd_run i f db) = archives db"
  "pools (upd_run i f db) = pools db"
  "leases (upd_run i f db) = leases db"
  "outbox (upd_run i f db) = outbox db"
  "slots (upd_run i f db) = slots db"
  "sessions (upd_run i f db) = sessions db"
  "findings (upd_run i f db) = findings db"
  "comment_refs (upd_run i f db) = comment_refs db"
  "agents (upd_run i f db) = agents db"
  "configs (upd_run i f db) = configs db"
  "workspaces (upd_run i f db) = workspaces db"
  "workspace_leases (upd_run i f db) = workspace_leases db"
  "drawn (upd_run i f db) = drawn db"
  by (simp_all add: upd_run_def)

lemma runs_upd_run [simp]: "runs (upd_run i f db) = upd_where (\<lambda>x. r_id x = i) f (runs db)"
  by (simp add: upd_run_def)

lemma upd_agent_frame [simp, frame_simps]:
  "contexts (upd_agent i f db) = contexts db"
  "inbox (upd_agent i f db) = inbox db"
  "tasks (upd_agent i f db) = tasks db"
  "attempts (upd_agent i f db) = attempts db"
  "archives (upd_agent i f db) = archives db"
  "pools (upd_agent i f db) = pools db"
  "leases (upd_agent i f db) = leases db"
  "outbox (upd_agent i f db) = outbox db"
  "slots (upd_agent i f db) = slots db"
  "runs (upd_agent i f db) = runs db"
  "sessions (upd_agent i f db) = sessions db"
  "findings (upd_agent i f db) = findings db"
  "comment_refs (upd_agent i f db) = comment_refs db"
  "configs (upd_agent i f db) = configs db"
  "workspaces (upd_agent i f db) = workspaces db"
  "workspace_leases (upd_agent i f db) = workspace_leases db"
  "drawn (upd_agent i f db) = drawn db"
  by (simp_all add: upd_agent_def)

lemma agents_upd_agent [simp]: "agents (upd_agent i f db) = upd_where (\<lambda>x. a_id x = i) f (agents db)"
  by (simp add: upd_agent_def)

lemma upd_context_frame [simp, frame_simps]:
  "inbox (upd_context i f db) = inbox db"
  "tasks (upd_context i f db) = tasks db"
  "attempts (upd_context i f db) = attempts db"
  "archives (upd_context i f db) = archives db"
  "pools (upd_context i f db) = pools db"
  "leases (upd_context i f db) = leases db"
  "outbox (upd_context i f db) = outbox db"
  "slots (upd_context i f db) = slots db"
  "runs (upd_context i f db) = runs db"
  "sessions (upd_context i f db) = sessions db"
  "findings (upd_context i f db) = findings db"
  "comment_refs (upd_context i f db) = comment_refs db"
  "agents (upd_context i f db) = agents db"
  "configs (upd_context i f db) = configs db"
  "workspaces (upd_context i f db) = workspaces db"
  "workspace_leases (upd_context i f db) = workspace_leases db"
  "drawn (upd_context i f db) = drawn db"
  by (simp_all add: upd_context_def)

lemma contexts_upd_context [simp]: "contexts (upd_context i f db) = upd_where (\<lambda>x. c_id x = i) f (contexts db)"
  by (simp add: upd_context_def)

lemma upd_event_frame [simp, frame_simps]:
  "contexts (upd_event i f db) = contexts db"
  "tasks (upd_event i f db) = tasks db"
  "attempts (upd_event i f db) = attempts db"
  "archives (upd_event i f db) = archives db"
  "pools (upd_event i f db) = pools db"
  "leases (upd_event i f db) = leases db"
  "outbox (upd_event i f db) = outbox db"
  "slots (upd_event i f db) = slots db"
  "runs (upd_event i f db) = runs db"
  "sessions (upd_event i f db) = sessions db"
  "findings (upd_event i f db) = findings db"
  "comment_refs (upd_event i f db) = comment_refs db"
  "agents (upd_event i f db) = agents db"
  "configs (upd_event i f db) = configs db"
  "workspaces (upd_event i f db) = workspaces db"
  "workspace_leases (upd_event i f db) = workspace_leases db"
  "drawn (upd_event i f db) = drawn db"
  by (simp_all add: upd_event_def)

lemma inbox_upd_event [simp]: "inbox (upd_event i f db) = upd_where (\<lambda>x. ev_id x = i) f (inbox db)"
  by (simp add: upd_event_def)

lemma upd_delivery_frame [simp, frame_simps]:
  "contexts (upd_delivery i f db) = contexts db"
  "inbox (upd_delivery i f db) = inbox db"
  "tasks (upd_delivery i f db) = tasks db"
  "attempts (upd_delivery i f db) = attempts db"
  "archives (upd_delivery i f db) = archives db"
  "pools (upd_delivery i f db) = pools db"
  "leases (upd_delivery i f db) = leases db"
  "slots (upd_delivery i f db) = slots db"
  "runs (upd_delivery i f db) = runs db"
  "sessions (upd_delivery i f db) = sessions db"
  "findings (upd_delivery i f db) = findings db"
  "comment_refs (upd_delivery i f db) = comment_refs db"
  "agents (upd_delivery i f db) = agents db"
  "configs (upd_delivery i f db) = configs db"
  "workspaces (upd_delivery i f db) = workspaces db"
  "workspace_leases (upd_delivery i f db) = workspace_leases db"
  "drawn (upd_delivery i f db) = drawn db"
  by (simp_all add: upd_delivery_def)

lemma outbox_upd_delivery [simp]: "outbox (upd_delivery i f db) = upd_where (\<lambda>x. d_id x = i) f (outbox db)"
  by (simp add: upd_delivery_def)

lemma upd_slot_frame [simp, frame_simps]:
  "contexts (upd_slot i f db) = contexts db"
  "inbox (upd_slot i f db) = inbox db"
  "tasks (upd_slot i f db) = tasks db"
  "attempts (upd_slot i f db) = attempts db"
  "archives (upd_slot i f db) = archives db"
  "pools (upd_slot i f db) = pools db"
  "leases (upd_slot i f db) = leases db"
  "outbox (upd_slot i f db) = outbox db"
  "runs (upd_slot i f db) = runs db"
  "sessions (upd_slot i f db) = sessions db"
  "findings (upd_slot i f db) = findings db"
  "comment_refs (upd_slot i f db) = comment_refs db"
  "agents (upd_slot i f db) = agents db"
  "configs (upd_slot i f db) = configs db"
  "workspaces (upd_slot i f db) = workspaces db"
  "workspace_leases (upd_slot i f db) = workspace_leases db"
  "drawn (upd_slot i f db) = drawn db"
  by (simp_all add: upd_slot_def)

lemma slots_upd_slot [simp]: "slots (upd_slot i f db) = upd_where (\<lambda>x. s_id x = i) f (slots db)"
  by (simp add: upd_slot_def)

lemma draw_frame [simp, frame_simps]:
  "contexts (draw db) = contexts db"
  "inbox (draw db) = inbox db"
  "tasks (draw db) = tasks db"
  "attempts (draw db) = attempts db"
  "archives (draw db) = archives db"
  "pools (draw db) = pools db"
  "leases (draw db) = leases db"
  "outbox (draw db) = outbox db"
  "slots (draw db) = slots db"
  "runs (draw db) = runs db"
  "sessions (draw db) = sessions db"
  "findings (draw db) = findings db"
  "comment_refs (draw db) = comment_refs db"
  "agents (draw db) = agents db"
  "configs (draw db) = configs db"
  "workspaces (draw db) = workspaces db"
  "workspace_leases (draw db) = workspace_leases db"
  by (simp_all add: draw_def)

lemma drawn_draw [simp]: "drawn (draw db) = Suc (drawn db)"
  by (simp add: draw_def)

subsection \<open>Reading a row after a write\<close>

lemmas get_defs = get_task_def get_run_def get_agent_def get_context_def get_event_def get_delivery_def get_slot_def get_pool_def

lemma get_task_upd [row_simps]:
  assumes "\<And>x. t_id (f x) = t_id x"
  shows "get_task (upd_task i f db) j = (if j = i then map_option f (get_task db j) else get_task db j)"
proof -
  have "get_task (upd_task i f db) j = map_option (\<lambda>x. if t_id x = i then f x else x) (get_task db j)"
    using assms by (simp add: get_task_def first_row_upd_where)
  moreover have "get_task db j = Some x \<Longrightarrow> t_id x = j" for x
    by (auto simp: get_task_def dest: first_row_SomeD)
  ultimately show ?thesis by (cases "get_task db j") auto
qed

lemma get_task_SomeD: "get_task db j = Some x \<Longrightarrow> x \<in> set (tasks db) \<and> t_id x = j"
  by (auto simp: get_task_def dest: first_row_SomeD)

lemma get_task_frame [simp]:
  "get_task (upd_run i f0 db) j = get_task db j"
  "get_task (upd_agent i f1 db) j = get_task db j"
  "get_task (upd_context i f2 db) j = get_task db j"
  "get_task (upd_event i f3 db) j = get_task db j"
  "get_task (upd_delivery i f4 db) j = get_task db j"
  "get_task (upd_slot i f5 db) j = get_task db j"
  "get_task (draw db) j = get_task db j"
  by (simp_all add: get_task_def)

lemma get_run_upd [row_simps]:
  assumes "\<And>x. r_id (f x) = r_id x"
  shows "get_run (upd_run i f db) j = (if j = i then map_option f (get_run db j) else get_run db j)"
proof -
  have "get_run (upd_run i f db) j = map_option (\<lambda>x. if r_id x = i then f x else x) (get_run db j)"
    using assms by (simp add: get_run_def first_row_upd_where)
  moreover have "get_run db j = Some x \<Longrightarrow> r_id x = j" for x
    by (auto simp: get_run_def dest: first_row_SomeD)
  ultimately show ?thesis by (cases "get_run db j") auto
qed

lemma get_run_SomeD: "get_run db j = Some x \<Longrightarrow> x \<in> set (runs db) \<and> r_id x = j"
  by (auto simp: get_run_def dest: first_row_SomeD)

lemma get_run_frame [simp]:
  "get_run (upd_task i f0 db) j = get_run db j"
  "get_run (upd_agent i f1 db) j = get_run db j"
  "get_run (upd_context i f2 db) j = get_run db j"
  "get_run (upd_event i f3 db) j = get_run db j"
  "get_run (upd_delivery i f4 db) j = get_run db j"
  "get_run (upd_slot i f5 db) j = get_run db j"
  "get_run (draw db) j = get_run db j"
  by (simp_all add: get_run_def)

lemma get_agent_upd [row_simps]:
  assumes "\<And>x. a_id (f x) = a_id x"
  shows "get_agent (upd_agent i f db) j = (if j = i then map_option f (get_agent db j) else get_agent db j)"
proof -
  have "get_agent (upd_agent i f db) j = map_option (\<lambda>x. if a_id x = i then f x else x) (get_agent db j)"
    using assms by (simp add: get_agent_def first_row_upd_where)
  moreover have "get_agent db j = Some x \<Longrightarrow> a_id x = j" for x
    by (auto simp: get_agent_def dest: first_row_SomeD)
  ultimately show ?thesis by (cases "get_agent db j") auto
qed

lemma get_agent_SomeD: "get_agent db j = Some x \<Longrightarrow> x \<in> set (agents db) \<and> a_id x = j"
  by (auto simp: get_agent_def dest: first_row_SomeD)

lemma get_agent_frame [simp]:
  "get_agent (upd_task i f0 db) j = get_agent db j"
  "get_agent (upd_run i f1 db) j = get_agent db j"
  "get_agent (upd_context i f2 db) j = get_agent db j"
  "get_agent (upd_event i f3 db) j = get_agent db j"
  "get_agent (upd_delivery i f4 db) j = get_agent db j"
  "get_agent (upd_slot i f5 db) j = get_agent db j"
  "get_agent (draw db) j = get_agent db j"
  by (simp_all add: get_agent_def)

lemma get_context_upd [row_simps]:
  assumes "\<And>x. c_id (f x) = c_id x"
  shows "get_context (upd_context i f db) j = (if j = i then map_option f (get_context db j) else get_context db j)"
proof -
  have "get_context (upd_context i f db) j = map_option (\<lambda>x. if c_id x = i then f x else x) (get_context db j)"
    using assms by (simp add: get_context_def first_row_upd_where)
  moreover have "get_context db j = Some x \<Longrightarrow> c_id x = j" for x
    by (auto simp: get_context_def dest: first_row_SomeD)
  ultimately show ?thesis by (cases "get_context db j") auto
qed

lemma get_context_SomeD: "get_context db j = Some x \<Longrightarrow> x \<in> set (contexts db) \<and> c_id x = j"
  by (auto simp: get_context_def dest: first_row_SomeD)

lemma get_context_frame [simp]:
  "get_context (upd_task i f0 db) j = get_context db j"
  "get_context (upd_run i f1 db) j = get_context db j"
  "get_context (upd_agent i f2 db) j = get_context db j"
  "get_context (upd_event i f3 db) j = get_context db j"
  "get_context (upd_delivery i f4 db) j = get_context db j"
  "get_context (upd_slot i f5 db) j = get_context db j"
  "get_context (draw db) j = get_context db j"
  by (simp_all add: get_context_def)

lemma get_event_upd [row_simps]:
  assumes "\<And>x. ev_id (f x) = ev_id x"
  shows "get_event (upd_event i f db) j = (if j = i then map_option f (get_event db j) else get_event db j)"
proof -
  have "get_event (upd_event i f db) j = map_option (\<lambda>x. if ev_id x = i then f x else x) (get_event db j)"
    using assms by (simp add: get_event_def first_row_upd_where)
  moreover have "get_event db j = Some x \<Longrightarrow> ev_id x = j" for x
    by (auto simp: get_event_def dest: first_row_SomeD)
  ultimately show ?thesis by (cases "get_event db j") auto
qed

lemma get_event_SomeD: "get_event db j = Some x \<Longrightarrow> x \<in> set (inbox db) \<and> ev_id x = j"
  by (auto simp: get_event_def dest: first_row_SomeD)

lemma get_event_frame [simp]:
  "get_event (upd_task i f0 db) j = get_event db j"
  "get_event (upd_run i f1 db) j = get_event db j"
  "get_event (upd_agent i f2 db) j = get_event db j"
  "get_event (upd_context i f3 db) j = get_event db j"
  "get_event (upd_delivery i f4 db) j = get_event db j"
  "get_event (upd_slot i f5 db) j = get_event db j"
  "get_event (draw db) j = get_event db j"
  by (simp_all add: get_event_def)

lemma get_delivery_upd [row_simps]:
  assumes "\<And>x. d_id (f x) = d_id x"
  shows "get_delivery (upd_delivery i f db) j = (if j = i then map_option f (get_delivery db j) else get_delivery db j)"
proof -
  have "get_delivery (upd_delivery i f db) j = map_option (\<lambda>x. if d_id x = i then f x else x) (get_delivery db j)"
    using assms by (simp add: get_delivery_def first_row_upd_where)
  moreover have "get_delivery db j = Some x \<Longrightarrow> d_id x = j" for x
    by (auto simp: get_delivery_def dest: first_row_SomeD)
  ultimately show ?thesis by (cases "get_delivery db j") auto
qed

lemma get_delivery_SomeD: "get_delivery db j = Some x \<Longrightarrow> x \<in> set (outbox db) \<and> d_id x = j"
  by (auto simp: get_delivery_def dest: first_row_SomeD)

lemma get_delivery_frame [simp]:
  "get_delivery (upd_task i f0 db) j = get_delivery db j"
  "get_delivery (upd_run i f1 db) j = get_delivery db j"
  "get_delivery (upd_agent i f2 db) j = get_delivery db j"
  "get_delivery (upd_context i f3 db) j = get_delivery db j"
  "get_delivery (upd_event i f4 db) j = get_delivery db j"
  "get_delivery (upd_slot i f5 db) j = get_delivery db j"
  "get_delivery (draw db) j = get_delivery db j"
  by (simp_all add: get_delivery_def)

lemma get_slot_upd [row_simps]:
  assumes "\<And>x. s_id (f x) = s_id x"
  shows "get_slot (upd_slot i f db) j = (if j = i then map_option f (get_slot db j) else get_slot db j)"
proof -
  have "get_slot (upd_slot i f db) j = map_option (\<lambda>x. if s_id x = i then f x else x) (get_slot db j)"
    using assms by (simp add: get_slot_def first_row_upd_where)
  moreover have "get_slot db j = Some x \<Longrightarrow> s_id x = j" for x
    by (auto simp: get_slot_def dest: first_row_SomeD)
  ultimately show ?thesis by (cases "get_slot db j") auto
qed

lemma get_slot_SomeD: "get_slot db j = Some x \<Longrightarrow> x \<in> set (slots db) \<and> s_id x = j"
  by (auto simp: get_slot_def dest: first_row_SomeD)

lemma get_slot_frame [simp]:
  "get_slot (upd_task i f0 db) j = get_slot db j"
  "get_slot (upd_run i f1 db) j = get_slot db j"
  "get_slot (upd_agent i f2 db) j = get_slot db j"
  "get_slot (upd_context i f3 db) j = get_slot db j"
  "get_slot (upd_event i f4 db) j = get_slot db j"
  "get_slot (upd_delivery i f5 db) j = get_slot db j"
  "get_slot (draw db) j = get_slot db j"
  by (simp_all add: get_slot_def)

end
