(* ===== verification/Providers.thy ===== *)
theory Providers
  imports Models
begin

text \<open>
  \<open>integrations/providers.py\<close> and \<open>integrations/provider_plugins.py\<close>: the provider-neutral
  transport values with their validators, the registry of configured provider runtimes and its
  construction from plugins. An adapter is known to the core by its key and by the capability
  protocols it implements; the methods of an adapter are parameters of the operations that call
  them. The laws: a registry holds each key once, under its own descriptor, and answers a
  capability request with the adapter of that key exactly when it has the capability.
\<close>

section \<open>Transport values\<close>

record agent_command =
  ac_source_kind :: string
  ac_source_comment_id :: string
  ac_source_url :: "string option"
  ac_author_login :: string
  ac_author_association :: "string option"
  ac_command_text :: string

record pull_request_snapshot =
  ps_repository :: string
  ps_number :: int
  ps_head_sha :: string
  ps_provider_repo_id :: "string option"
  ps_provider_pr_id :: "string option"
  ps_title :: "string option"
  ps_author_login :: "string option"
  ps_base_ref :: "string option"
  ps_base_sha :: "string option"
  ps_head_ref :: "string option"
  ps_base_repo_full_name :: "string option"
  ps_head_repo_full_name :: "string option"
  ps_status :: string
  ps_html_url :: "string option"
  ps_closed_at :: "time option"
  ps_merged_at :: "time option"

record webhook_event =
  we_provider :: string
  we_provider_event :: string
  we_provider_action :: "string option"
  we_internal_event :: "string option"
  we_repository :: "string option"
  we_pull_request_number :: "int option"
  we_head_sha :: "string option"
  we_should_update_context :: bool
  we_should_create_review_run :: bool
  we_should_create_agent_task :: bool
  we_status :: string
  we_agent_command :: "agent_command option"
  we_pull_request :: "pull_request_snapshot option"

text \<open>The body stays the text it was received as.\<close>

record parsed_webhook =
  pw_delivery_id :: string
  pw_provider_event :: webhook_event
  pw_payload :: dict
  pw_raw_body :: string

record comment_item =
  ci_kind :: string
  ci_body :: string
  ci_comment_id :: "string option"
  ci_thread_id :: "string option"
  ci_idempotency_key :: "string option"
  ci_path :: "string option"
  ci_line :: "int option"
  ci_commit_sha :: "string option"

definition comment_kinds :: "string list" where
  "comment_kinds = [''summary'', ''line'', ''agent'']"

text \<open>The \<open>Field\<close> constraints, then the validator; \<open>Inl\<close> is the \<open>ValidationError\<close>.\<close>

definition comment_item_fields :: "comment_item \<Rightarrow> bool" where
  "comment_item_fields c \<longleftrightarrow>
     ci_kind c \<in> set comment_kinds \<and> ci_body c \<noteq> [] \<and> length (ci_body c) \<le> 100000 \<and>
     opt_all (\<lambda>k. k \<noteq> [] \<and> length k \<le> 255) (ci_idempotency_key c) \<and>
     opt_all (\<lambda>p. length p \<le> 4096) (ci_path c) \<and> opt_all (\<lambda>n. 0 < n) (ci_line c) \<and>
     opt_all (\<lambda>s. length s \<le> 128) (ci_commit_sha c)"

definition comment_publish_item :: "comment_item \<Rightarrow> err + comment_item" where
  "comment_publish_item c =
     (if \<not> comment_item_fields c then Inl (ValueError ''invalid comment fields'')
      else if ci_kind c = ''line'' \<and> (ci_path c = None \<or> ci_line c = None \<or> ci_commit_sha c = None)
      then Inl (ValueError ''line comments require path, line, and commit_sha'')
      else Inr c)"

record comment_request =
  cq_repository :: string
  cq_pull_request_number :: int
  cq_comments :: "comment_item list"
  cq_kind :: "string option"
  cq_body :: "string option"
  cq_comment_id :: "string option"
  cq_thread_id :: "string option"
  cq_idempotency_key :: "string option"
  cq_path :: "string option"
  cq_line :: "int option"
  cq_commit_sha :: "string option"

definition normalize_single_comment :: "comment_request \<Rightarrow> err + comment_request" where
  "normalize_single_comment q =
     (if cq_comments q \<noteq> [] \<and> (cq_kind q \<noteq> None \<or> cq_body q \<noteq> None)
      then Inl (ValueError ''use comments or a single kind/body comment, not both'')
      else if cq_comments q \<noteq> [] then Inr q
      else (case (cq_kind q, cq_body q) of
              (Some kind, Some body) \<Rightarrow>
                (case comment_publish_item
                        \<lparr>ci_kind = kind, ci_body = body, ci_comment_id = cq_comment_id q,
                         ci_thread_id = cq_thread_id q, ci_idempotency_key = cq_idempotency_key q,
                         ci_path = cq_path q, ci_line = cq_line q, ci_commit_sha = cq_commit_sha q\<rparr> of
                   Inl x \<Rightarrow> Inl x
                 | Inr item \<Rightarrow> Inr (q\<lparr>cq_comments := [item]\<rparr>))
            | _ \<Rightarrow> Inl (ValueError ''at least one comment is required'')))"

record published_comment =
  pc_kind :: string
  pc_comment_id :: "string option"
  pc_thread_id :: "string option"
  pc_url :: "string option"
  pc_error :: "string option"

record comment_result =
  cs_comments :: "published_comment list"
  cs_published :: int
  cs_failed :: int
  cs_comment_id :: "string option"
  cs_thread_id :: "string option"
  cs_url :: "string option"
  cs_error :: "string option"

definition expose_single_comment :: "comment_result \<Rightarrow> comment_result" where
  "expose_single_comment r =
     (case cs_comments r of
        [c] \<Rightarrow> r\<lparr>cs_comment_id := pc_comment_id c, cs_thread_id := pc_thread_id c,
                cs_url := pc_url c, cs_error := pc_error c\<rparr>
      | _ \<Rightarrow> r)"

record query_request =
  qr_action :: string
  qr_repository :: string
  qr_pull_request_number :: int
  qr_cursor :: "string option"
  qr_page_size :: int

definition query_actions :: "string list" where
  "query_actions =
     [''pull_request.get'', ''pull_request.changes.list'', ''pull_request.comments.list'',
      ''pull_request.status.get'']"

definition query_request_fields :: "query_request \<Rightarrow> bool" where
  "query_request_fields q \<longleftrightarrow>
     qr_action q \<in> set query_actions \<and> qr_repository q \<noteq> [] \<and> length (qr_repository q) \<le> 512 \<and>
     0 < qr_pull_request_number q \<and> opt_all (\<lambda>c. length c \<le> 128) (qr_cursor q) \<and>
     1 \<le> qr_page_size q \<and> qr_page_size q \<le> 100"

definition lower_headers :: "(string \<times> string) list \<Rightarrow> (string \<times> string) list" where
  "lower_headers hs = foldl (\<lambda>m (k, v). dict_put (str_lower k) v m) [] hs"

section \<open>Runtimes and the registry\<close>

text \<open>
  \<open>ad_key\<close> is what \<open>getattr(provider, "key") or getattr(provider, "provider")\<close> reads, empty when
  neither is declared; \<open>ad_protocols\<close> names the capability protocols it implements.
\<close>

record adapter =
  ad_key :: string
  ad_protocols :: "string list"

definition capability_protocols :: "string list" where
  "capability_protocols =
     [''webhook'', ''pull_request'', ''workspace_checkout'', ''changed_files'', ''review_summary'',
      ''line_comments'', ''agent_task_comments'', ''diagnostics'', ''resource_links'']"

definition provider_key :: "adapter \<Rightarrow> err + string" where
  "provider_key a =
     (if ad_key a = [] then Inl (ValueError ''Provider must declare a non-empty key.'')
      else Inr (ad_key a))"

record descriptor =
  ds_key :: string
  ds_kind :: string
  ds_display_name :: string

record runtime =
  rt_provider :: adapter
  rt_descriptor :: descriptor
  rt_close :: "string option"

text \<open>\<open>text.title()\<close>: the first letter of every word in upper case, the others in lower case\<close>

definition is_cased :: "char \<Rightarrow> bool" where
  "is_cased c \<longleftrightarrow>
     65 \<le> code c \<and> code c \<le> 90 \<or> 97 \<le> code c \<and> code c \<le> 122 \<or>
     192 \<le> code c \<and> code c \<noteq> 215 \<and> code c \<noteq> 247 \<or> code c = 181"

definition upper_char :: "char \<Rightarrow> char" where
  "upper_char c =
     (if 97 \<le> code c \<and> code c \<le> 122 \<or> 224 \<le> code c \<and> code c \<le> 254 \<and> code c \<noteq> 247
      then char_of (code c - 32) else c)"

fun title_from :: "bool \<Rightarrow> string \<Rightarrow> string" where
  "title_from inword [] = []"
| "title_from inword (c # cs) =
     (if inword then lower_char c else upper_char c) # title_from (is_cased c) cs"

definition make_runtime :: "adapter option \<Rightarrow> descriptor option \<Rightarrow> string option \<Rightarrow> adapter option \<Rightarrow> err + runtime" where
  "make_runtime provider desc close_cb adapter0 =
     (if provider \<noteq> None \<and> adapter0 \<noteq> None then Inl (TypeError ''Pass provider or adapter, not both.'')
      else (case (case provider of Some p \<Rightarrow> Some p | None \<Rightarrow> adapter0) of
              None \<Rightarrow> Inl (TypeError ''ProviderRuntime requires a provider.'')
            | Some a \<Rightarrow>
                (case desc of
                   Some d \<Rightarrow> Inr \<lparr>rt_provider = a, rt_descriptor = d, rt_close = close_cb\<rparr>
                 | None \<Rightarrow>
                     (case provider_key a of
                        Inl x \<Rightarrow> Inl x
                      | Inr key \<Rightarrow>
                          Inr \<lparr>rt_provider = a,
                               rt_descriptor = \<lparr>ds_key = key, ds_kind = key,
                                  ds_display_name = title_from False (replace_all ''-'' '' '' key)\<rparr>,
                               rt_close = close_cb\<rparr>))))"

record registry =
  runtimes :: "(string \<times> runtime) list"
  closed :: bool

definition register_runtime :: "runtime \<Rightarrow> registry \<Rightarrow> err + registry" where
  "register_runtime rt reg =
     (case provider_key (rt_provider rt) of
        Inl x \<Rightarrow> Inl x
      | Inr key \<Rightarrow>
          (if map_of (runtimes reg) key \<noteq> None
           then Inl (ValueError (''Provider '' @ repr_str key @ '' is registered more than once.''))
           else if ds_key (rt_descriptor rt) \<noteq> key
           then Inl (ValueError ''Provider descriptor key must match provider key.'')
           else Inr (reg\<lparr>runtimes := dict_put key rt (runtimes reg)\<rparr>)))"

fun register_runtimes :: "runtime list \<Rightarrow> registry \<Rightarrow> err + registry" where
  "register_runtimes [] reg = Inr reg"
| "register_runtimes (rt # rts) reg =
     (case register_runtime rt reg of Inl x \<Rightarrow> Inl x | Inr reg1 \<Rightarrow> register_runtimes rts reg1)"

definition new_registry :: "runtime list \<Rightarrow> err + registry" where
  "new_registry rts = register_runtimes rts \<lparr>runtimes = [], closed = False\<rparr>"

definition register :: "string \<Rightarrow> (err + runtime) \<Rightarrow> registry \<Rightarrow> err + registry \<times> runtime" where
  "register key built reg =
     (if closed reg then Inl (OtherError ''Provider registry is already closed.'')
      else (case built of
              Inl x \<Rightarrow> Inl x
            | Inr rt \<Rightarrow>
                (case provider_key (rt_provider rt) of
                   Inl x \<Rightarrow> Inl x
                 | Inr actual \<Rightarrow>
                     (if actual \<noteq> key
                      then Inl (ValueError (''Provider factory registered as '' @ repr_str key @
                                   '' returned '' @ repr_str actual @ ''.''))
                      else (case register_runtime rt reg of
                              Inl x \<Rightarrow> Inl x
                            | Inr reg1 \<Rightarrow> Inr (reg1, rt))))))"

definition registry_get :: "registry \<Rightarrow> string \<Rightarrow> adapter option" where
  "registry_get reg p = map_option rt_provider (map_of (runtimes reg) p)"

definition registry_require :: "registry \<Rightarrow> string \<Rightarrow> err + adapter" where
  "registry_require reg p =
     (case registry_get reg p of None \<Rightarrow> Inl (KeyError p) | Some a \<Rightarrow> Inr a)"

definition capability :: "registry \<Rightarrow> string \<Rightarrow> string \<Rightarrow> adapter option" where
  "capability reg p cap =
     (case registry_get reg p of
        Some a \<Rightarrow> (if cap \<in> set (ad_protocols a) then Some a else None)
      | None \<Rightarrow> None)"

definition require_capability :: "registry \<Rightarrow> string \<Rightarrow> string \<Rightarrow> string \<Rightarrow> err + adapter" where
  "require_capability reg p cap operation =
     (case capability reg p cap of
        None \<Rightarrow> Inl (CapabilityError (''Provider '' @ repr_str p @ '' does not support '' @ operation @ ''.'')
                      (Some p) (Some operation))
      | Some a \<Rightarrow> Inr a)"

definition capabilities :: "registry \<Rightarrow> string \<Rightarrow> string list" where
  "capabilities reg p =
     (case registry_get reg p of
        None \<Rightarrow> []
      | Some a \<Rightarrow> filter (\<lambda>c. c \<in> set (ad_protocols a)) capability_protocols)"

definition descriptors :: "registry \<Rightarrow> descriptor list" where
  "descriptors reg = map (\<lambda>kv. rt_descriptor (snd kv)) (runtimes reg)"

text \<open>\<open>aclose\<close> returns the close callbacks it awaits, in order.\<close>

definition registry_aclose :: "registry \<Rightarrow> registry \<times> string list" where
  "registry_aclose reg =
     (if closed reg then (reg, [])
      else (reg\<lparr>closed := True\<rparr>,
            concat (map (\<lambda>kv. case rt_close (snd kv) of None \<Rightarrow> [] | Some c \<Rightarrow> [c])
                      (rev (runtimes reg)))))"

section \<open>Building the registry from plugins\<close>

record plugin =
  pl_provider :: string
  pl_build :: "err + runtime"

definition enabled_provider_keys :: "string \<Rightarrow> string list" where
  "enabled_provider_keys providers_enabled =
     map fst (foldl (\<lambda>m k. dict_put k () m) []
                (map (\<lambda>k. str_lower (str_strip k))
                   (filter (\<lambda>k. str_strip k \<noteq> []) (split_on (CHR '','') providers_enabled))))"

fun plugin_catalog :: "plugin list \<Rightarrow> (string \<times> plugin) list \<Rightarrow> err + (string \<times> plugin) list" where
  "plugin_catalog [] cat = Inr cat"
| "plugin_catalog (p # ps) cat =
     (let key = str_lower (pl_provider p) in
      if map_of cat key \<noteq> None
      then Inl (ValueError (''Provider plugin '' @ repr_str key @ '' is registered more than once.''))
      else plugin_catalog ps (dict_put key p cat))"

text \<open>
  Building in the order of the keys: the runtimes that were built, each of which has opened its client, and the exception
  that ended the building, if any.
\<close>

fun build_all :: "(string \<times> plugin) list \<Rightarrow> string list \<Rightarrow> runtime list \<times> err option" where
  "build_all cat [] = ([], None)"
| "build_all cat (k # ks) =
     (case map_of cat k of
        None \<Rightarrow> ([], Some (KeyError k))
      | Some p \<Rightarrow>
          (case pl_build p of
             Inl x \<Rightarrow> ([], Some x)
           | Inr rt \<Rightarrow> (case build_all cat ks of (rts, x) \<Rightarrow> (rt # rts, x))))"

definition create_provider_registry :: "string \<Rightarrow> plugin list \<Rightarrow> runtime list \<times> (err + registry)" where
  "create_provider_registry providers_enabled plugins =
     (let enabled = enabled_provider_keys providers_enabled in
      case plugin_catalog plugins [] of
        Inl x \<Rightarrow> ([], Inl x)
      | Inr cat \<Rightarrow>
          (let unknown = filter (\<lambda>k. map_of cat k = None) enabled in
           if unknown \<noteq> []
           then ([], Inl (ValueError (''Enabled provider plugins are not installed: '' @ join '', '' unknown)))
           else (case build_all cat enabled of
                   (rts, Some x) \<Rightarrow> (rts, Inl x)
                 | (rts, None) \<Rightarrow> (rts, new_registry rts))))"

text \<open>The close callbacks of runtimes\<close>

definition close_handles :: "runtime list \<Rightarrow> string list" where
  "close_handles rts = concat (map (\<lambda>rt. case rt_close rt of None \<Rightarrow> [] | Some c \<Rightarrow> [c]) rts)"

section \<open>Laws of the registry\<close>

definition registry_ok :: "registry \<Rightarrow> bool" where
  "registry_ok reg \<longleftrightarrow>
     distinct (map fst (runtimes reg)) \<and>
     (\<forall>(k, rt) \<in> set (runtimes reg). k \<noteq> [] \<and> ad_key (rt_provider rt) = k \<and> ds_key (rt_descriptor rt) = k)"

lemma provider_key_Inr: "provider_key a = Inr k \<longleftrightarrow> ad_key a = k \<and> k \<noteq> []"
  by (auto simp: provider_key_def)

lemma register_runtime_Inr:
  "register_runtime rt reg = Inr reg' \<longleftrightarrow>
     ad_key (rt_provider rt) \<noteq> [] \<and> ad_key (rt_provider rt) \<notin> set (map fst (runtimes reg)) \<and>
     ds_key (rt_descriptor rt) = ad_key (rt_provider rt) \<and>
     reg' = reg\<lparr>runtimes := dict_put (ad_key (rt_provider rt)) rt (runtimes reg)\<rparr>"
  by (auto simp: register_runtime_def provider_key_def map_of_eq_None_iff)

lemma register_runtime_ok: "registry_ok reg \<Longrightarrow> register_runtime rt reg = Inr reg' \<Longrightarrow> registry_ok reg'"
  by (auto simp: registry_ok_def register_runtime_Inr dict_put_distinct dest!: dict_put_set)

lemma register_runtimes_ok:
  "registry_ok reg \<Longrightarrow> register_runtimes rts reg = Inr reg' \<Longrightarrow> registry_ok reg'"
  by (induction rts arbitrary: reg) (auto split: sum.splits intro: register_runtime_ok)

lemma dict_put_new: "k \<notin> set (map fst m) \<Longrightarrow> dict_put k v m = m @ [(k, v)]"
  by (induction k v m rule: dict_put.induct) auto

lemma register_runtimes_append:
  "register_runtimes rts reg = Inr reg' \<Longrightarrow>
     runtimes reg' = runtimes reg @ map (\<lambda>rt. (ad_key (rt_provider rt), rt)) rts"
  by (induction rts arbitrary: reg) (auto simp: register_runtime_Inr dict_put_new split: sum.splits)

lemma build_all_length: "build_all cat ks = (rts, None) \<Longrightarrow> length rts = length ks"
  by (induction ks arbitrary: rts) (auto split: option.splits sum.splits prod.splits)

lemma new_registry_ok: "new_registry rts = Inr reg \<Longrightarrow> registry_ok reg"
  unfolding new_registry_def by (rule register_runtimes_ok) (auto simp: registry_ok_def)

lemma registry_ok_get:
  assumes "registry_ok reg" and "registry_get reg p = Some a"
  shows "ad_key a = p \<and> p \<in> set (map fst (runtimes reg))"
proof -
  from assms(2) obtain rt where "map_of (runtimes reg) p = Some rt" "a = rt_provider rt"
    by (auto simp: registry_get_def)
  then have "(p, rt) \<in> set (runtimes reg)" by (auto dest: map_of_SomeD)
  with assms(1) \<open>a = rt_provider rt\<close> show ?thesis by (force simp: registry_ok_def)
qed

lemma require_capability_Inr:
  "require_capability reg p cap op = Inr a \<longleftrightarrow> registry_get reg p = Some a \<and> cap \<in> set (ad_protocols a)"
  by (auto simp: require_capability_def capability_def split: option.splits if_splits)

lemma require_capability_Inl:
  "require_capability reg p cap op = Inl x \<Longrightarrow> \<exists>m. x = CapabilityError m (Some p) (Some op)"
  by (auto simp: require_capability_def split: option.splits)

lemma capabilities_iff:
  "cap \<in> set capability_protocols \<Longrightarrow>
     cap \<in> set (capabilities reg p) \<longleftrightarrow> (\<exists>a. registry_get reg p = Some a \<and> cap \<in> set (ad_protocols a))"
  by (cases "registry_get reg p") (auto simp: capabilities_def)

lemma registry_made:
  assumes "create_provider_registry enabled plugins = (built, Inr reg)"
  shows "runtimes reg = map (\<lambda>rt. (ad_key (rt_provider rt), rt)) built" and "registry_ok reg"
    and "length built = length (enabled_provider_keys enabled)"
proof -
  from assms obtain cat where b: "build_all cat (enabled_provider_keys enabled) = (built, None)"
    and r: "new_registry built = Inr reg"
    by (auto simp: create_provider_registry_def Let_def split: sum.splits if_splits prod.splits option.splits)
  show "registry_ok reg" using r by (rule new_registry_ok)
  show "runtimes reg = map (\<lambda>rt. (ad_key (rt_provider rt), rt)) built"
    using register_runtimes_append[OF r[unfolded new_registry_def]] by simp
  show "length built = length (enabled_provider_keys enabled)" using b by (rule build_all_length)
qed

section \<open>Properties\<close>

text \<open>
  A registry built from the enabled plugins has one runtime per enabled key, in that order,
  no key twice and each under its own descriptor; a capability request returns an adapter exactly
  when the registered adapter of that very key implements the protocol, and otherwise raises
  \<open>ProviderCapabilityError\<close> naming the provider and the operation.
\<close>

theorem registry_answers_by_key:
  assumes "create_provider_registry enabled plugins = (built, Inr reg)"
  shows "length (runtimes reg) = length (enabled_provider_keys enabled) \<and>
     distinct (map fst (runtimes reg)) \<and> map ds_key (descriptors reg) = map fst (runtimes reg) \<and>
     (\<forall>a. require_capability reg p cap op = Inr a \<longleftrightarrow>
        ad_key a = p \<and> registry_get reg p = Some a \<and> cap \<in> set (ad_protocols a)) \<and>
     (cap \<in> set capability_protocols \<longrightarrow>
        (cap \<in> set (capabilities reg p) \<longleftrightarrow> (\<exists>a. require_capability reg p cap op = Inr a))) \<and>
     (\<forall>x. require_capability reg p cap op = Inl x \<longrightarrow>
        (\<exists>m. x = CapabilityError m (Some p) (Some op)))"
proof -
  note ok = registry_made(2)[OF assms]
  have keys: "map ds_key (descriptors reg) = map fst (runtimes reg)"
    using ok by (auto simp: descriptors_def registry_ok_def)
  show ?thesis
    using registry_made(1,3)[OF assms] keys ok registry_ok_get[OF ok] require_capability_Inl
    by (auto simp: require_capability_Inr registry_ok_def capabilities_iff)
qed

definition sample_adapter :: "string \<Rightarrow> adapter" where
  "sample_adapter k = \<lparr>ad_key = k, ad_protocols = [''webhook'', ''review_summary'', ''agent_task_comments'', ''line_comments'']\<rparr>"

definition sample_plugin :: "string \<Rightarrow> plugin" where
  "sample_plugin k =
     \<lparr>pl_provider = k,
      pl_build = Inr \<lparr>rt_provider = sample_adapter k,
                     rt_descriptor = \<lparr>ds_key = k, ds_kind = k, ds_display_name = k\<rparr>, rt_close = None\<rparr>\<rparr>"

definition sample_registry :: registry where
  "sample_registry =
     \<lparr>runtimes = [(''gh'', \<lparr>rt_provider = sample_adapter ''gh'',
        rt_descriptor = \<lparr>ds_key = ''gh'', ds_kind = ''gh'', ds_display_name = ''gh''\<rparr>, rt_close = None\<rparr>)],
      closed = False\<rparr>"

theorem registry_answers_by_key_witness:
  "create_provider_registry '' GH ,gh'' [sample_plugin ''gl'', sample_plugin ''gh''] =
     (map snd (runtimes sample_registry), Inr sample_registry) \<and>
   length (runtimes sample_registry) = length (enabled_provider_keys '' GH ,gh'') \<and>
   (\<exists>m. require_capability sample_registry ''gh'' ''diagnostics'' ''check'' =
      Inl (CapabilityError m (Some ''gh'') (Some ''check'')))"
proof -
  have c: "create_provider_registry '' GH ,gh'' [sample_plugin ''gl'', sample_plugin ''gh''] =
     (map snd (runtimes sample_registry), Inr sample_registry)"
    by code_simp
  have "case require_capability sample_registry ''gh'' ''diagnostics'' ''check'' of Inl x \<Rightarrow> True | Inr a \<Rightarrow> False"
    by code_simp
  then obtain x where x: "require_capability sample_registry ''gh'' ''diagnostics'' ''check'' = Inl x"
    by (auto split: sum.splits)
  note facts = registry_answers_by_key[OF c, of "''gh''" "''diagnostics''" "''check''"]
  have len: "length (runtimes sample_registry) = length (enabled_provider_keys '' GH ,gh'')"
    using facts by (rule conjunct1)
  have "\<exists>m. x = CapabilityError m (Some ''gh'') (Some ''check'')"
    using facts x by metis
  with x have "\<exists>m. require_capability sample_registry ''gh'' ''diagnostics'' ''check'' =
      Inl (CapabilityError m (Some ''gh'') (Some ''check''))" by metis
  with c len show ?thesis by (intro conjI)
qed

end
