(* ===== verification/Results.thy ===== *)
theory Results
  imports Models
begin

text \<open>
  \<open>domain/review_results.py\<close>: validation of the agent's structured review result, the test
  whether a finding can be published on its line, and the fingerprint that identifies a finding
  across runs. What the libraries do is a parameter: \<open>json.loads\<close>, and the conversions of the
  validation library from a JSON value to an integer or a float (record \<open>pydantic\<close>); the
  constraints of the fields are the source's.
\<close>

section \<open>The library boundary\<close>

text \<open>A float is its \<open>repr\<close> and its exact value \<open>fl_num / 2 ^ fl_exp\<close>.\<close>

record float_value =
  fl_repr :: string
  fl_num :: int
  fl_exp :: nat

record pydantic =
  to_int :: "json \<Rightarrow> int option"
  to_float :: "json \<Rightarrow> float_value option"
  first_error :: "json \<Rightarrow> string"
  json_loads :: "string \<Rightarrow> string + json"

section \<open>The schema\<close>

definition finding_severities :: "string list" where
  "finding_severities = [''critical'', ''high'', ''medium'', ''low'', ''info'']"

record review_finding =
  rf_file :: string
  rf_line :: "int option"
  rf_line_end :: "int option"
  rf_severity :: string
  rf_category :: "string option"
  rf_message :: string
  rf_suggestion :: "string option"
  rf_confidence :: float_value

record review_result =
  rr_summary :: string
  rr_findings :: "review_finding list"

record changed_file =
  cf_path :: string
  cf_commentable_lines :: "int list"

text \<open>
  Field readers; \<open>None\<close> is a validation error. \<open>str_strip_whitespace\<close> strips a text before its
  length is checked.
\<close>

definition req_str :: "nat \<Rightarrow> nat \<Rightarrow> json option \<Rightarrow> string option" where
  "req_str lo hi j =
     (case j of
        Some (JStr s) \<Rightarrow> (let v = str_strip s in if lo \<le> length v \<and> length v \<le> hi then Some v else None)
      | _ \<Rightarrow> None)"

definition opt_str :: "nat \<Rightarrow> json option \<Rightarrow> string option option" where
  "opt_str hi j =
     (case j of
        None \<Rightarrow> Some None
      | Some JNull \<Rightarrow> Some None
      | Some (JStr s) \<Rightarrow> (let v = str_strip s in if length v \<le> hi then Some (Some v) else None)
      | _ \<Rightarrow> None)"

definition opt_pos_int :: "pydantic \<Rightarrow> json option \<Rightarrow> int option option" where
  "opt_pos_int py j =
     (case j of
        None \<Rightarrow> Some None
      | Some JNull \<Rightarrow> Some None
      | Some v \<Rightarrow> (case to_int py v of
                   None \<Rightarrow> None
                 | Some i \<Rightarrow> (if 0 < i then Some (Some i) else None)))"

definition unit_float :: "pydantic \<Rightarrow> json option \<Rightarrow> float_value option" where
  "unit_float py j =
     (case j of
        None \<Rightarrow> None
      | Some v \<Rightarrow> (case to_float py v of
                   None \<Rightarrow> None
                 | Some f \<Rightarrow> (if 0 \<le> fl_num f \<and> fl_num f \<le> 2 ^ fl_exp f then Some f else None)))"

definition relative_path :: "string \<Rightarrow> bool" where
  "relative_path f \<longleftrightarrow> \<not> starts_with f ''/'' \<and> ''..'' \<notin> set (split_on (CHR ''/'') f)"

definition severity_of :: "json option \<Rightarrow> string option" where
  "severity_of j =
     (case j of
        Some (JStr s) \<Rightarrow> (if s \<in> set finding_severities then Some s else None)
      | _ \<Rightarrow> None)"

definition validate_finding :: "pydantic \<Rightarrow> json \<Rightarrow> review_finding option" where
  "validate_finding py j =
     (case j of
        JObj kvs \<Rightarrow>
          (case (req_str 1 1024 (dget kvs ''file''), opt_pos_int py (dget kvs ''line''),
                 opt_pos_int py (dget kvs ''line_end''), severity_of (dget kvs ''severity''),
                 opt_str 64 (dget kvs ''category''), req_str 1 1200 (dget kvs ''message''),
                 opt_str 1200 (dget kvs ''suggestion''), unit_float py (dget kvs ''confidence'')) of
             (Some file, Some line, Some line_end, Some sev, Some cat, Some msg, Some sug, Some conf) \<Rightarrow>
               (if relative_path file
                then Some \<lparr>rf_file = file, rf_line = line, rf_line_end = line_end, rf_severity = sev,
                           rf_category = cat, rf_message = msg, rf_suggestion = sug,
                           rf_confidence = conf\<rparr>
                else None)
           | _ \<Rightarrow> None)
      | _ \<Rightarrow> None)"

fun validate_all :: "(json \<Rightarrow> 'a option) \<Rightarrow> json list \<Rightarrow> 'a list option" where
  "validate_all f [] = Some []"
| "validate_all f (j # js) =
     (case f j of
        None \<Rightarrow> None
      | Some v \<Rightarrow> (case validate_all f js of None \<Rightarrow> None | Some vs \<Rightarrow> Some (v # vs)))"

definition validate_result :: "pydantic \<Rightarrow> dict \<Rightarrow> review_result option" where
  "validate_result py kvs =
     (case req_str 1 8000 (dget kvs ''summary'') of
        None \<Rightarrow> None
      | Some summary \<Rightarrow>
          (case dget kvs ''findings'' of
             None \<Rightarrow> Some \<lparr>rr_summary = summary, rr_findings = []\<rparr>
           | Some (JList js) \<Rightarrow>
               (case validate_all (validate_finding py) js of
                  None \<Rightarrow> None
                | Some fs \<Rightarrow> (if length fs \<le> 100 then Some \<lparr>rr_summary = summary, rr_findings = fs\<rparr>
                             else None))
           | Some _ \<Rightarrow> None))"

definition validate_schema :: "pydantic \<Rightarrow> dict \<Rightarrow> err + review_result" where
  "validate_schema py kvs =
     (case validate_result py kvs of
        None \<Rightarrow> Inl (ResultError ''schema_error'' (first_error py (JObj kvs)))
      | Some r \<Rightarrow> Inr r)"

text \<open>\<open>ChangedFile.model_validate\<close>; this model does not strip its text.\<close>

definition validate_changed_file :: "pydantic \<Rightarrow> json \<Rightarrow> changed_file option" where
  "validate_changed_file py j =
     (case j of
        JObj kvs \<Rightarrow>
          (case dget kvs ''path'' of
             Some (JStr p) \<Rightarrow>
               (if 1 \<le> length p \<and> length p \<le> 1024
                then (case dget kvs ''commentable_lines'' of
                        None \<Rightarrow> Some \<lparr>cf_path = p, cf_commentable_lines = []\<rparr>
                      | Some (JList js) \<Rightarrow>
                          map_option (\<lambda>ls. \<lparr>cf_path = p, cf_commentable_lines = ls\<rparr>)
                            (validate_all (to_int py) js)
                      | Some _ \<Rightarrow> None)
                else None)
           | _ \<Rightarrow> None)
      | _ \<Rightarrow> None)"

datatype raw_output = RawText string | RawObj dict

definition load_json :: "pydantic \<Rightarrow> raw_output \<Rightarrow> err + dict" where
  "load_json py raw =
     (case raw of
        RawObj kvs \<Rightarrow> Inr kvs
      | RawText s \<Rightarrow>
          (case json_loads py s of
             Inl msg \<Rightarrow> Inl (ResultError ''json_parse_error'' (''Review result is not valid JSON: '' @ msg))
           | Inr (JObj kvs) \<Rightarrow> Inr kvs
           | Inr _ \<Rightarrow> Inl (ResultError ''json_parse_error'' ''Review result must be a JSON object.'')))"

section \<open>Fingerprints\<close>

text \<open>\<open>re.sub(r"[class]+", " ", text)\<close>: every maximal run becomes one space\<close>

fun squeeze :: "(char \<Rightarrow> bool) \<Rightarrow> bool \<Rightarrow> string \<Rightarrow> string" where
  "squeeze P inrun [] = []"
| "squeeze P inrun (c # cs) =
     (if P c then (if inrun then squeeze P True cs else CHR '' '' # squeeze P True cs)
      else c # squeeze P False cs)"

definition normalize_text :: "string \<Rightarrow> string" where
  "normalize_text s =
     str_strip (squeeze is_space False
       (squeeze (\<lambda>c. \<not> is_word c \<and> \<not> is_space c) False (str_lower s)))"

definition normalize_path :: "string \<Rightarrow> string" where
  "normalize_path p = str_lower (str_strip (map (\<lambda>c. if code c = 92 then CHR ''/'' else c) p))"

definition build_fingerprint :: "env \<Rightarrow> string \<Rightarrow> string \<Rightarrow> int \<Rightarrow> string \<Rightarrow> string \<Rightarrow> review_finding \<Rightarrow> string" where
  "build_fingerprint e provider repo number base head f =
     ''sha256:'' @ sha256 e (join [CHR 0x0A]
       [provider, repo, show_int number, base, head, normalize_path (rf_file f), rf_severity f,
        normalize_text (rf_message f)])"

section \<open>Parsing a result\<close>

record publishable =
  pf_finding :: review_finding
  pf_fingerprint :: string
  pf_publish_as_line_comment :: bool
  pf_reason :: "string option"

record parsed_result =
  pr_result :: review_result
  pr_findings :: "publishable list"
  pr_summary_only :: "review_finding list"

definition line_comment_blocker :: "review_finding \<Rightarrow> (string \<times> changed_file) list \<Rightarrow> string option" where
  "line_comment_blocker f files =
     (case rf_line f of
        None \<Rightarrow> Some ''line_not_provided''
      | Some line \<Rightarrow>
          (if files = [] then None
           else (case map_of files (rf_file f) of
                   None \<Rightarrow> Some ''file_not_changed''
                 | Some cf \<Rightarrow>
                     (if cf_commentable_lines cf \<noteq> [] \<and> line \<notin> set (cf_commentable_lines cf)
                      then Some ''line_not_commentable'' else None))))"

definition changed_file_map :: "changed_file list \<Rightarrow> (string \<times> changed_file) list" where
  "changed_file_map files = foldl (\<lambda>m f. dict_put (cf_path f) f m) [] files"

definition parse_review_result ::
  "env \<Rightarrow> pydantic \<Rightarrow> raw_output \<Rightarrow> changed_file list \<Rightarrow> string \<Rightarrow> string \<Rightarrow> int \<Rightarrow> string \<Rightarrow> string \<Rightarrow> err + parsed_result" where
  "parse_review_result e py raw files provider repo number base head =
     (case load_json py raw of
        Inl x \<Rightarrow> Inl x
      | Inr data \<Rightarrow>
          (case validate_schema py data of
             Inl x \<Rightarrow> Inl x
           | Inr result \<Rightarrow>
               (let m = changed_file_map files;
                    reason = (\<lambda>f. line_comment_blocker f m)
                in Inr \<lparr>pr_result = result,
                        pr_findings = map (\<lambda>f.
                           \<lparr>pf_finding = f,
                            pf_fingerprint = build_fingerprint e provider repo number base head f,
                            pf_publish_as_line_comment = (reason f = None),
                            pf_reason = reason f\<rparr>) (rr_findings result),
                        pr_summary_only = filter (\<lambda>f. reason f \<noteq> None) (rr_findings result)\<rparr>)))"

section \<open>Laws\<close>

lemma validate_all_Some:
  "validate_all f js = Some vs \<Longrightarrow> list_all2 (\<lambda>j v. f j = Some v) js vs"
  by (induction js arbitrary: vs) (auto split: option.splits)

lemma validate_all_in: "validate_all f js = Some vs \<Longrightarrow> v \<in> set vs \<Longrightarrow> \<exists>j \<in> set js. f j = Some v"
  by (induction js arbitrary: vs) (auto split: option.splits)

definition finding_ok :: "review_finding \<Rightarrow> bool" where
  "finding_ok f \<longleftrightarrow>
     1 \<le> length (rf_file f) \<and> length (rf_file f) \<le> 1024 \<and> relative_path (rf_file f) \<and>
     opt_all (\<lambda>l. 0 < l) (rf_line f) \<and> opt_all (\<lambda>l. 0 < l) (rf_line_end f) \<and>
     rf_severity f \<in> set finding_severities \<and> 1 \<le> length (rf_message f) \<and>
     length (rf_message f) \<le> 1200 \<and> opt_all (\<lambda>s. length s \<le> 1200) (rf_suggestion f) \<and>
     opt_all (\<lambda>s. length s \<le> 64) (rf_category f) \<and>
     0 \<le> fl_num (rf_confidence f) \<and> fl_num (rf_confidence f) \<le> 2 ^ fl_exp (rf_confidence f)"

lemma req_str_Some: "req_str lo hi j = Some v \<Longrightarrow> lo \<le> length v \<and> length v \<le> hi"
  by (auto simp: req_str_def Let_def split: option.splits json.splits if_splits)

lemma opt_str_Some: "opt_str hi j = Some v \<Longrightarrow> opt_all (\<lambda>s. length s \<le> hi) v"
  by (auto simp: opt_str_def Let_def split: option.splits json.splits if_splits)

lemma opt_pos_int_Some: "opt_pos_int py j = Some v \<Longrightarrow> opt_all (\<lambda>l. 0 < l) v"
  by (auto simp: opt_pos_int_def split: option.splits json.splits if_splits)
     (metis opt_all_simps(2))+

lemma unit_float_Some: "unit_float py j = Some f \<Longrightarrow> 0 \<le> fl_num f \<and> fl_num f \<le> 2 ^ fl_exp f"
  by (auto simp: unit_float_def split: option.splits if_splits)

lemma severity_of_Some: "severity_of j = Some s \<Longrightarrow> s \<in> set finding_severities"
  by (auto simp: severity_of_def split: option.splits json.splits if_splits)

lemma validate_finding_ok:
  assumes "validate_finding py j = Some f"
  shows "finding_ok f"
proof -
  from assms obtain kvs fname line line_end sev cat msg sug conf where h:
    "req_str 1 1024 (dget kvs ''file'') = Some fname" "opt_pos_int py (dget kvs ''line'') = Some line"
    "opt_pos_int py (dget kvs ''line_end'') = Some line_end" "severity_of (dget kvs ''severity'') = Some sev"
    "opt_str 64 (dget kvs ''category'') = Some cat" "req_str 1 1200 (dget kvs ''message'') = Some msg"
    "opt_str 1200 (dget kvs ''suggestion'') = Some sug" "unit_float py (dget kvs ''confidence'') = Some conf"
    "relative_path fname"
    "f = \<lparr>rf_file = fname, rf_line = line, rf_line_end = line_end, rf_severity = sev, rf_category = cat,
          rf_message = msg, rf_suggestion = sug, rf_confidence = conf\<rparr>"
    by (auto simp: validate_finding_def split: json.splits option.splits if_splits)
  show ?thesis
    using req_str_Some[OF h(1)] opt_pos_int_Some[OF h(2)] opt_pos_int_Some[OF h(3)]
      severity_of_Some[OF h(4)] opt_str_Some[OF h(5)] req_str_Some[OF h(6)] opt_str_Some[OF h(7)]
      unit_float_Some[OF h(8)] h(9)
    unfolding finding_ok_def h(10) by simp
qed

lemma validate_result_ok:
  assumes "validate_result py kvs = Some r"
  shows "1 \<le> length (rr_summary r) \<and> length (rr_summary r) \<le> 8000 \<and> length (rr_findings r) \<le> 100 \<and>
     (\<forall>f \<in> set (rr_findings r). finding_ok f)"
proof -
  from assms obtain summary where s: "req_str 1 8000 (dget kvs ''summary'') = Some summary"
    and r: "rr_summary r = summary"
    by (auto simp: validate_result_def split: option.splits json.splits if_splits)
  have "rr_findings r = [] \<or> (\<exists>js. validate_all (validate_finding py) js = Some (rr_findings r) \<and>
      length (rr_findings r) \<le> 100)"
    using assms by (auto simp: validate_result_def split: option.splits json.splits if_splits)
  then show ?thesis
    using req_str_Some[OF s] r validate_all_in validate_finding_ok by fastforce
qed

lemma changed_file_map_of:
  "map_of (changed_file_map files) p = map_of (rev (map (\<lambda>c. (cf_path c, c)) files)) p"
proof -
  have "map_of (foldl (\<lambda>m f. dict_put (cf_path f) f m) m fs) p =
      map_of (rev (map (\<lambda>c. (cf_path c, c)) fs) @ m) p" for fs m
    by (induction fs arbitrary: m) (auto simp: map_of_dict_put map_add_def split: option.splits)
  from this[of "[]" files] show ?thesis by (simp add: changed_file_map_def)
qed

lemma changed_file_map_empty: "changed_file_map files = [] \<longleftrightarrow> files = []"
proof -
  have "foldl (\<lambda>m f. dict_put (cf_path f) f m) m fs = [] \<longleftrightarrow> m = [] \<and> fs = []" for fs and m :: "(string \<times> changed_file) list"
  proof (induction fs arbitrary: m)
    case (Cons f fs)
    have "dict_put (cf_path f) f m \<noteq> []" by (cases m) (auto split: if_splits)
    with Cons show ?case by simp
  qed simp
  then show ?thesis by (simp add: changed_file_map_def)
qed

section \<open>Properties\<close>

text \<open>
  C39. What \<open>parse_review_result\<close> accepts is well-formed: at most 100 findings, each with a
  repository-relative path without parent steps, a known severity, texts within their bounds,
  positive lines and a confidence between 0 and 1; the findings are kept in order; and a finding
  is published on its line exactly when it names one and, if changed files are known, the last
  changed file of that path allows the line.
\<close>

theorem parsed_result_is_well_formed:
  assumes "parse_review_result e py raw files provider repo number base head = Inr p"
  shows "length (pr_findings p) \<le> 100 \<and> map pf_finding (pr_findings p) = rr_findings (pr_result p) \<and>
     (\<forall>q \<in> set (pr_findings p). finding_ok (pf_finding q) \<and>
        (pf_publish_as_line_comment q \<longleftrightarrow>
           (\<exists>line. rf_line (pf_finding q) = Some line \<and>
              (files = [] \<or> (\<exists>cf. map_of (rev (map (\<lambda>c. (cf_path c, c)) files)) (rf_file (pf_finding q)) = Some cf \<and>
                 (cf_commentable_lines cf = [] \<or> line \<in> set (cf_commentable_lines cf))))))) \<and>
     pr_summary_only p = map pf_finding (filter (\<lambda>q. \<not> pf_publish_as_line_comment q) (pr_findings p))"
proof -
  let ?m = "changed_file_map files"
  let ?q = "\<lambda>f. \<lparr>pf_finding = f, pf_fingerprint = build_fingerprint e provider repo number base head f,
      pf_publish_as_line_comment = (line_comment_blocker f ?m = None), pf_reason = line_comment_blocker f ?m\<rparr>"
  from assms obtain kvs r where r: "validate_result py kvs = Some r"
    and p: "p = \<lparr>pr_result = r, pr_findings = map ?q (rr_findings r),
       pr_summary_only = filter (\<lambda>f. line_comment_blocker f ?m \<noteq> None) (rr_findings r)\<rparr>"
    by (auto simp: parse_review_result_def validate_schema_def Let_def split: sum.splits option.splits)
  have blocker: "line_comment_blocker f ?m = None \<longleftrightarrow> (\<exists>line. rf_line f = Some line \<and>
      (files = [] \<or> (\<exists>cf. map_of (rev (map (\<lambda>c. (cf_path c, c)) files)) (rf_file f) = Some cf \<and>
                 (cf_commentable_lines cf = [] \<or> line \<in> set (cf_commentable_lines cf)))))" for f
    by (auto simp: line_comment_blocker_def changed_file_map_of changed_file_map_empty
        split: option.splits)
  have "map pf_finding (filter (\<lambda>q. \<not> pf_publish_as_line_comment q) (map ?q fs)) =
      filter (\<lambda>f. line_comment_blocker f ?m \<noteq> None) fs" for fs
    by (induction fs) auto
  then show ?thesis
    using validate_result_ok[OF r] blocker by (simp add: p comp_def)
qed

definition sample_pydantic :: pydantic where
  "sample_pydantic =
     \<lparr>to_int = (\<lambda>j. case j of JInt i \<Rightarrow> Some i | _ \<Rightarrow> None),
      to_float = (\<lambda>j. case j of JInt i \<Rightarrow> Some \<lparr>fl_repr = show_int i @ ''.0'', fl_num = i, fl_exp = 0\<rparr> | _ \<Rightarrow> None),
      first_error = (\<lambda>j. ''Field required''), json_loads = (\<lambda>s. Inl ''Expecting value'')\<rparr>"

definition sample_finding_json :: "string \<Rightarrow> int \<Rightarrow> string \<Rightarrow> json" where
  "sample_finding_json file line msg =
     JObj [(''file'', JStr file), (''line'', JInt line), (''severity'', JStr ''high''),
           (''message'', JStr msg), (''confidence'', JInt 1)]"

definition sample_parsed :: "json list \<Rightarrow> err + parsed_result" where
  "sample_parsed fs =
     parse_review_result (sample_env 0) sample_pydantic
       (RawObj [(''summary'', JStr '' s ''), (''findings'', JList fs)])
       [\<lparr>cf_path = ''a.py'', cf_commentable_lines = [3]\<rparr>] ''gh'' ''o/r'' 1 ''base'' ''head''"

theorem parsed_result_is_well_formed_witness:
  "\<exists>p. sample_parsed [sample_finding_json ''a.py'' 3 ''m'', sample_finding_json ''a.py'' 4 ''n''] = Inr p \<and>
     map pf_publish_as_line_comment (pr_findings p) = [True, False] \<and> length (pr_findings p) \<le> 100"
proof -
  let ?r = "sample_parsed [sample_finding_json ''a.py'' 3 ''m'', sample_finding_json ''a.py'' 4 ''n'']"
  have "(case ?r of Inl x \<Rightarrow> False | Inr p \<Rightarrow> map pf_publish_as_line_comment (pr_findings p) = [True, False])"
    by code_simp
  then obtain p where p: "?r = Inr p" "map pf_publish_as_line_comment (pr_findings p) = [True, False]"
    by (cases ?r) simp_all
  from parsed_result_is_well_formed[OF p(1)[unfolded sample_parsed_def]]
  have "length (pr_findings p) \<le> 100" by (rule conjunct1)
  note facts = p this
  show ?thesis by (intro exI conjI) (rule facts)+
qed

end
