(* ===== verification/Outbox.thy ===== *)
theory Outbox
  imports Providers Results
begin

text \<open>
  \<open>application/delivery.py\<close>: the durable outbox through which every provider-visible message is
  sent. Deliveries are enqueued once per idempotency key, leased to a worker, executed through
  the capability of the provider's adapter, and on success advance the task and the comment slot
  of their review run; on failure they are retried with exponential backoff or fail the task.
  The adapter methods are parameters: they may change the database, which is also where the
  effects of other workers during the call appear.
\<close>

section \<open>Enqueueing\<close>

definition payload_digest :: "env \<Rightarrow> dict \<Rightarrow> string" where
  "payload_digest e payload = sha256 e (json_dumps (JObj payload))"

definition find_delivery :: "db \<Rightarrow> string \<Rightarrow> delivery option" where
  "find_delivery db key = first_row (\<lambda>d. d_idempotency_key d = key) (outbox db)"

definition enqueue_delivery ::
  "env \<Rightarrow> string \<Rightarrow> string \<Rightarrow> string \<Rightarrow> string \<Rightarrow> string \<Rightarrow> dict \<Rightarrow> bool \<Rightarrow> int option \<Rightarrow> int \<Rightarrow> bool \<Rightarrow>
     db \<Rightarrow> db \<times> (err + string)" where
  "enqueue_delivery e tid provider operation destination key payload mandatory priority max_attempts
       supersede_pending db =
     (let digest = payload_digest e payload in
      case find_delivery db key of
        Some d \<Rightarrow>
          (if d_payload_digest d \<noteq> digest
           then (db, Inl (ValueError (''Delivery idempotency key has different payload: '' @ key)))
           else (db, Inr (d_id d)))
      | None \<Rightarrow>
          (let db1 = (if supersede_pending
                      then db\<lparr>outbox := upd_where
                             (\<lambda>d. d_task_id d = tid \<and> d_destination_key d = destination \<and> d_status d = ''queued'')
                             (\<lambda>d. d\<lparr>d_status := ''superseded'', d_updated_at := now e\<rparr>) (outbox db)\<rparr>
                      else db);
               new = (new_delivery (next_id e db1) (now e) tid provider operation destination key payload digest)
                       \<lparr>d_mandatory := mandatory, d_queue := ''provider-'' @ provider,
                        d_priority := or_else priority (t_priority (the_task db tid)),
                        d_max_attempts := max_attempts\<rparr>;
               db2 = (if mandatory then upd_task tid (\<lambda>t. t\<lparr>t_delivery_status := ''pending''\<rparr>) db1 else db1)
           in (draw (db2\<lparr>outbox := outbox db2 @ [new]\<rparr>), Inr (d_id new))))"

section \<open>Leasing\<close>

definition lease_expired :: "time \<Rightarrow> delivery \<Rightarrow> bool" where
  "lease_expired t0 d \<longleftrightarrow>
     d_status d = ''running'' \<and> (case d_locked_until d of None \<Rightarrow> False | Some u \<Rightarrow> u < t0)"

definition requeued :: "time \<Rightarrow> delivery \<Rightarrow> delivery" where
  "requeued t0 d =
     d\<lparr>d_status := ''queued'', d_lock_owner := None, d_locked_until := None, d_available_at := t0,
       d_updated_at := t0\<rparr>"

definition reclaim_expired_deliveries :: "env \<Rightarrow> time option \<Rightarrow> db \<Rightarrow> db \<times> int" where
  "reclaim_expired_deliveries e t db =
     (let t0 = or_else t (now e)
      in (db\<lparr>outbox := upd_where (lease_expired t0) (requeued t0) (outbox db)\<rparr>,
          int (length (filter (lease_expired t0) (outbox db)))))"

definition deliverable :: "env \<Rightarrow> time \<Rightarrow> delivery \<Rightarrow> bool" where
  "deliverable e t0 d \<longleftrightarrow>
     d_status d = ''queued'' \<and> d_available_at d \<le> t0 \<and>
     (case d_locked_until d of None \<Rightarrow> True | Some u \<Rightarrow> u < t0) \<and>
     (dialect e = Postgresql \<longrightarrow> \<not> row_locked e (d_id d))"

definition delivery_key :: "delivery \<Rightarrow> int \<times> time \<times> time" where
  "delivery_key d = (- d_priority d, d_available_at d, d_created_at d)"

definition leased :: "string \<Rightarrow> time \<Rightarrow> time \<Rightarrow> delivery \<Rightarrow> delivery" where
  "leased token until t0 d =
     d\<lparr>d_status := ''running'', d_lock_owner := Some token, d_locked_until := Some until,
       d_attempt := d_attempt d + 1, d_updated_at := t0\<rparr>"

definition claim_next_delivery :: "env \<Rightarrow> string \<Rightarrow> int \<Rightarrow> time option \<Rightarrow> db \<Rightarrow> db \<times> string option" where
  "claim_next_delivery e worker lock_seconds t db =
     (let t0 = or_else t (now e);
          db1 = fst (reclaim_expired_deliveries e (Some t0) db)
      in case sort_key delivery_key (filter (deliverable e t0) (outbox db1)) of
           [] \<Rightarrow> (db1, None)
         | d # _ \<Rightarrow>
             (draw (upd_delivery (d_id d)
                (leased (worker @ '':'' @ next_id e db1) (t0 + seconds lock_seconds) t0) db1),
              Some (d_id d)))"

section \<open>Executing a delivery\<close>

record adapter_calls =
  publish_summary_comment :: "string \<Rightarrow> string \<Rightarrow> string \<Rightarrow> (string \<times> int) list option \<Rightarrow> db \<Rightarrow> db \<times> (err + string option)"
  publish_line_comments :: "string \<Rightarrow> string \<Rightarrow> changed_file list \<Rightarrow> db \<Rightarrow> db \<times> (err + (string \<times> int) list)"
  publish_agent_task_comment :: "string \<Rightarrow> string \<Rightarrow> string \<Rightarrow> db \<Rightarrow> db \<times> (err + string)"

text \<open>\<open>isinstance(value, int)\<close> and \<open>value == n\<close>; a \<open>bool\<close> is an \<open>int\<close>.\<close>

definition as_int :: "json \<Rightarrow> int option" where
  "as_int j = (case j of JInt i \<Rightarrow> Some i | JBool b \<Rightarrow> Some (if b then 1 else 0) | _ \<Rightarrow> None)"

definition equals_int :: "json \<Rightarrow> int \<Rightarrow> bool" where
  "equals_int j n =
     (case j of JFloat r t \<Rightarrow> t = n \<and> r = show_int n @ ''.0'' | _ \<Rightarrow> as_int j = Some n)"

text \<open>Iterating over a JSON value; \<open>None\<close> is a \<open>TypeError\<close>.\<close>

definition py_iter :: "json \<Rightarrow> json list option" where
  "py_iter j =
     (case j of
        JList xs \<Rightarrow> Some xs
      | JObj kvs \<Rightarrow> Some (map (\<lambda>kv. JStr (fst kv)) kvs)
      | JStr s \<Rightarrow> Some (map (\<lambda>c. JStr [c]) s)
      | _ \<Rightarrow> None)"

definition delivery_comment_slot :: "delivery \<Rightarrow> db \<Rightarrow> comment_slot option" where
  "delivery_comment_slot d db =
     (case str_or_none (jget (d_payload_json d) ''slot_id'') of
        None \<Rightarrow> None
      | Some i \<Rightarrow>
          (case get_slot db i of
             None \<Rightarrow> None
           | Some s \<Rightarrow> (if s_review_run_id s \<noteq> d_task_id d then None else Some s)))"

definition delivery_error :: "delivery \<Rightarrow> string \<Rightarrow> err" where
  "delivery_error d m = ProviderError m (Some (d_provider d)) (Some (d_operation d))"

text \<open>
  What the slot of a versioned delivery allows: an error, nothing more to send (with the comment
  the slot is bound to), or sending.
\<close>

datatype gate = Refuse err | Skip "string option" | Send

definition slot_gate :: "delivery \<Rightarrow> db \<Rightarrow> gate" where
  "slot_gate d db =
     (if d_operation d = ''review_summary'' then Send
      else (case delivery_comment_slot d db of
              None \<Rightarrow> Refuse (delivery_error d ''Review comment delivery is missing its comment slot.'')
            | Some s \<Rightarrow>
                (if d_operation d = ''review_placeholder'' then Send
                 else if \<not> has_text (s_provider_comment_id s) \<or>
                         s_status s \<notin> {''ready'', ''finalizing'', ''finalized''}
                 then Refuse (delivery_error d ''Review result is waiting for its placeholder comment.'')
                 else (case as_int (jget (d_payload_json d) ''result_version'') of
                         None \<Rightarrow> Refuse (delivery_error d ''Review comment delivery has an invalid result version.'')
                       | Some v \<Rightarrow>
                           (if v < 1 then Refuse (delivery_error d ''Review comment delivery has an invalid result version.'')
                            else if v < s_result_version s then Skip (s_provider_comment_id s)
                            else if s_result_version s < v
                            then Refuse (delivery_error d ''Review comment delivery is ahead of its comment slot.'')
                            else Send)))))"

definition send_summary :: "adapter_calls \<Rightarrow> delivery \<Rightarrow> db \<Rightarrow> db \<times> (err + string option)" where
  "send_summary calls d db =
     (case dget (d_payload_json d) ''status_text'' of
        None \<Rightarrow> (db, Inl (KeyError ''status_text''))
      | Some text \<Rightarrow>
          (let rid = d_task_id d; before = the_run db rid in
           case publish_summary_comment calls (d_provider d) rid (py_str text)
                  (r_finding_count_by_severity before) db of
             (db1, Inl x) \<Rightarrow> (db1, Inl x)
           | (db1, Inr None) \<Rightarrow>
               (if r_failure_code (the_run db1 rid) = Some ''provider_permission_denied''
                then (upd_run rid (\<lambda>r. r\<lparr>r_failure_code := r_failure_code before, r_error := r_error before\<rparr>) db1,
                      Inl (delivery_error d (str_or (r_error (the_run db1 rid)) ''Provider summary publication failed.'')))
                else (db1, Inr None))
           | (db1, Inr (Some c)) \<Rightarrow> (db1, Inr (Some c))))"

definition comment_operations :: "string list" where
  "comment_operations = [''review_placeholder'', ''review_progress'', ''review_result'']"

definition execute_delivery ::
  "adapter_calls \<Rightarrow> registry \<Rightarrow> pydantic \<Rightarrow> delivery \<Rightarrow> task \<Rightarrow> db \<Rightarrow> db \<times> (err + string option)" where
  "execute_delivery calls reg py d t db =
     (if d_operation d = ''agent_task_comment''
      then (if \<not> is_agent t then (db, Inl (TypeError ''agent_task_comment requires an AgentTask.''))
            else (case require_capability reg (d_provider d) ''agent_task_comments'' (d_operation d) of
                    Inl x \<Rightarrow> (db, Inl x)
                  | Inr a \<Rightarrow>
                      (case dget (d_payload_json d) ''state'' of
                         None \<Rightarrow> (db, Inl (KeyError ''state''))
                       | Some st \<Rightarrow>
                           (case publish_agent_task_comment calls (d_provider d) (t_id t) (py_str st) db of
                              (db1, Inl x) \<Rightarrow> (db1, Inl x)
                            | (db1, Inr c) \<Rightarrow> (db1, Inr (Some c))))))
      else if d_operation d \<in> set comment_operations \<or> d_operation d = ''review_summary''
      then (if \<not> is_review t then (db, Inl (TypeError ''review_summary requires a ReviewRun.''))
            else (case require_capability reg (d_provider d) ''review_summary'' (d_operation d) of
                    Inl x \<Rightarrow> (db, Inl x)
                  | Inr a \<Rightarrow>
                      (case slot_gate d db of
                         Refuse x \<Rightarrow> (db, Inl x)
                       | Skip c \<Rightarrow> (db, Inr c)
                       | Send \<Rightarrow> send_summary calls d db)))
      else if d_operation d = ''review_line_comments''
      then (if \<not> is_review t then (db, Inl (TypeError ''review_line_comments requires a ReviewRun.''))
            else (case require_capability reg (d_provider d) ''line_comments'' (d_operation d) of
                    Inl x \<Rightarrow> (db, Inl x)
                  | Inr a \<Rightarrow>
                      (case py_iter (or_else (dget (d_payload_json d) ''changed_files'') (JList [])) of
                         None \<Rightarrow> (db, Inl (TypeError ''object is not iterable''))
                       | Some items \<Rightarrow>
                           (case validate_all (validate_changed_file py) items of
                              None \<Rightarrow> (db, Inl (ValueError (first_error py (JList items))))
                            | Some files \<Rightarrow>
                                (case publish_line_comments calls (d_provider d) (t_id t) files db of
                                   (db1, Inl x) \<Rightarrow> (db1, Inl x)
                                 | (db1, Inr stats) \<Rightarrow>
                                     (if dict_get stats ''failed'' 0 \<noteq> 0
                                      then (db1, Inl (delivery_error d (show_int (dict_get stats ''failed'' 0) @
                                              '' line comments failed to publish.'')))
                                      else (db1, Inr None)))))))
      else (db, Inl (ValueError (''Unknown delivery operation: '' @ d_operation d))))"

section \<open>Recording the outcome\<close>

definition text_field :: "dict \<Rightarrow> string \<Rightarrow> string option" where
  "text_field payload k = str_or_none (jget payload k)"

definition pending_mandatory :: "string \<Rightarrow> string \<Rightarrow> db \<Rightarrow> nat" where
  "pending_mandatory tid did db =
     length (filter (\<lambda>d. d_task_id d = tid \<and> d_id d \<noteq> did \<and> d_mandatory d \<and>
                         d_status d \<in> {''queued'', ''running''}) (outbox db))"

definition slot_after_success :: "time \<Rightarrow> delivery \<Rightarrow> bool \<Rightarrow> comment_slot \<Rightarrow> comment_slot" where
  "slot_after_success t0 d transition s =
     (let s1 = (if has_text (d_provider_message_id d)
                then s\<lparr>s_provider_comment_id := d_provider_message_id d\<rparr> else s);
          s2 = (if transition then s1\<lparr>s_last_error := None\<rparr> else s1)
      in if d_operation d = ''review_placeholder''
         then s2\<lparr>s_status := ''ready'', s_bound_at := Some t0\<rparr>
         else if transition \<and> d_operation d = ''review_result''
         then s2\<lparr>s_status := ''finalized'', s_finalized_at := Some t0\<rparr>
         else s2)"

text \<open>The unique constraint on the comment a slot is bound to\<close>

definition slot_clash :: "comment_slot \<Rightarrow> db \<Rightarrow> bool" where
  "slot_clash s db \<longleftrightarrow>
     s_provider_comment_id s \<noteq> None \<and>
     (\<exists>o' \<in> set (slots db). s_id o' \<noteq> s_id s \<and> s_provider o' = s_provider s \<and>
        s_repo_full_name o' = s_repo_full_name s \<and>
        s_pull_request_number o' = s_pull_request_number s \<and>
        s_provider_comment_id o' = s_provider_comment_id s)"

definition task_after_success :: "time \<Rightarrow> delivery \<Rightarrow> bool \<Rightarrow> bool \<Rightarrow> task \<Rightarrow> task" where
  "task_after_success t0 d transition final t =
     (let payload = d_payload_json d;
          allow = \<not> (is_review t \<and> d_operation d = ''review_placeholder'' \<and>
                     t_execution_status t \<in> {''completed'', ''failed'', ''cancelled''});
          t1 = (case text_field payload ''success_stage'' of
                  Some s \<Rightarrow> (if transition \<and> allow then t\<lparr>t_stage := Some s\<rparr> else t)
                | None \<Rightarrow> t);
          t2 = (case text_field payload ''success_status'' of
                  Some s \<Rightarrow> (if transition \<and> allow then t1\<lparr>t_status := s\<rparr> else t1)
                | None \<Rightarrow> t1);
          t3 = (if d_mandatory d \<and> final
                then (case text_field payload ''final_status'' of
                        Some s \<Rightarrow>
                          (if transition
                           then t2\<lparr>t_delivery_status := ''delivered'', t_status := s,
                                   t_stage := Some (if is_truthy (jget payload ''final_stage'')
                                                    then py_str (jget payload ''final_stage'') else s),
                                   t_completed_at := Some t0\<rparr>
                           else t2\<lparr>t_delivery_status := ''delivered''\<rparr>)
                      | None \<Rightarrow> t2\<lparr>t_delivery_status := ''delivered''\<rparr>)
                else t2)
      in t3\<lparr>t_updated_at := t0\<rparr>)"

definition apply_delivery_success :: "time \<Rightarrow> string \<Rightarrow> string \<Rightarrow> db \<Rightarrow> db \<times> (err + unit)" where
  "apply_delivery_success t0 tid did db =
     (let d = the_delivery db did; t = the_task db tid;
          commented = is_review t \<and> d_operation d \<in> set comment_operations;
          finish = (\<lambda>transition db1.
             (upd_task tid (task_after_success t0 d transition (pending_mandatory tid did db1 = 0)) db1, Inr ()))
      in if \<not> commented then finish True db
         else (case delivery_comment_slot d db of
                 None \<Rightarrow> (db, Inl (delivery_error d ''Review comment delivery is missing its comment slot.''))
               | Some s \<Rightarrow>
                   (let transition = (if d_operation d = ''review_placeholder'' then True
                                      else equals_int (jget (d_payload_json d) ''result_version'') (s_result_version s));
                        s' = slot_after_success t0 d transition s
                    in if d_operation d = ''review_placeholder'' \<and> \<not> has_text (s_provider_comment_id s')
                       then (db, Inl (delivery_error d ''Placeholder delivery did not bind a provider comment.''))
                       else if slot_clash s' db
                       then (db, Inl (IntegrityError ''uq_review_comment_slot_provider_comment''))
                       else finish transition (upd_slot (s_id s) (\<lambda>_. s') db))))"

definition exhausted :: "delivery \<Rightarrow> bool" where
  "exhausted d \<longleftrightarrow> 0 < d_max_attempts d \<and> d_max_attempts d \<le> d_attempt d"

definition backoff :: "int \<Rightarrow> delivery \<Rightarrow> time" where
  "backoff retry_delay_seconds d =
     seconds (retry_delay_seconds * 2 ^ nat (min 8 (max 0 (d_attempt d - 1))))"

definition slot_after_failure :: "delivery \<Rightarrow> err \<Rightarrow> comment_slot \<Rightarrow> comment_slot" where
  "slot_after_failure d x s =
     (let s1 = (if d_operation d = ''review_placeholder'' then s\<lparr>s_status := ''retry_wait''\<rparr>
                else if d_operation d = ''review_result'' then s\<lparr>s_status := ''finalizing''\<rparr>
                else s)
      in s1\<lparr>s_last_error := Some (err_text x)\<rparr>)"

text \<open>
  The delivery and the task are the objects loaded when the delivery was claimed. After a violated constraint, such as one
  an adapter meets at its commit, the session takes nothing more: the failure is not recorded and the delivery stays
  leased, as the last commit left it.
\<close>

definition failure_recorded :: "delivery \<Rightarrow> task option \<Rightarrow> err \<Rightarrow> int \<Rightarrow> time \<Rightarrow> db \<Rightarrow> db" where
  "failure_recorded d t x retry_delay_seconds t0 db =
     (let commented = (case t of None \<Rightarrow> False | Some tk \<Rightarrow> is_review tk) \<and> d_operation d \<in> set comment_operations;
          db1 = (case delivery_comment_slot d db of
                   Some s \<Rightarrow> (if commented then upd_slot (s_id s) (slot_after_failure d x) db else db)
                 | None \<Rightarrow> db);
          free = (\<lambda>r. r\<lparr>d_last_error := Some (err_text x), d_lock_owner := None, d_locked_until := None,
                       d_updated_at := t0\<rparr>)
      in if exhausted d
         then (let db2 = upd_delivery (d_id d) (\<lambda>r. (free r)\<lparr>d_status := ''failed''\<rparr>) db1
               in if t \<noteq> None \<and> d_mandatory d
                  then upd_task (d_task_id d) (\<lambda>tk. tk\<lparr>t_delivery_status := ''failed'', t_status := ''failed'',
                         t_stage := Some ''delivery_failed'', t_completed_at := Some t0, t_updated_at := t0\<rparr>) db2
                  else db2)
         else upd_delivery (d_id d) (\<lambda>r. (free r)\<lparr>d_status := ''queued'',
                d_available_at := t0 + backoff retry_delay_seconds d\<rparr>) db1)"

definition record_delivery_failure :: "delivery \<Rightarrow> task option \<Rightarrow> err \<Rightarrow> int \<Rightarrow> time \<Rightarrow> db \<Rightarrow> db \<times> (err + unit)" where
  "record_delivery_failure d t x retry_delay_seconds t0 db =
     (if breaks_session x then (db, Inl session_broken) else (failure_recorded d t x retry_delay_seconds t0 db, Inr ()))"

section \<open>Processing\<close>

definition process_next_delivery ::
  "env \<Rightarrow> adapter_calls \<Rightarrow> registry \<Rightarrow> pydantic \<Rightarrow> string \<Rightarrow> int \<Rightarrow> int \<Rightarrow> time option \<Rightarrow> db \<Rightarrow> db \<times> (err + string option)" where
  "process_next_delivery e calls reg py worker lock_seconds retry_delay_seconds t db =
     (let t0 = or_else t (now e) in
      case claim_next_delivery e worker lock_seconds (Some t0) db of
        (db1, None) \<Rightarrow> (db1, Inr None)
      | (db1, Some did) \<Rightarrow>
          (let d = the_delivery db1 did; task = get_task db1 (d_task_id d);
               (db2, res) = (case task of
                  None \<Rightarrow> (db1, Inl (delivery_error d (''Delivery task no longer exists: '' @ d_task_id d)))
                | Some tk \<Rightarrow> execute_delivery calls reg py d tk db1)
           in case res of
                Inl x \<Rightarrow>
                  (case record_delivery_failure d task x retry_delay_seconds t0 db2 of
                     (db3, Inl y) \<Rightarrow> (db3, Inl y)
                   | (db3, Inr _) \<Rightarrow> (db3, Inr (Some did)))
              | Inr message \<Rightarrow>
                  (case get_delivery db2 did of
                     None \<Rightarrow> (db2, Inl (OtherError ''Could not refresh instance''))
                   | Some d2 \<Rightarrow>
                       (if d_status d2 \<noteq> ''running'' \<or> d_lock_owner d2 \<noteq> d_lock_owner d
                        then (db2, Inr (Some did))
                        else (case apply_delivery_success t0 (d_task_id d2) did
                                (upd_delivery did (\<lambda>r. r\<lparr>d_status := ''delivered'', d_provider_message_id := message,
                                    d_last_error := None, d_delivered_at := Some t0, d_lock_owner := None,
                                    d_locked_until := None, d_updated_at := t0\<rparr>) db2) of
                                (db3, Inl x) \<Rightarrow> (db2, Inl x)
                              | (db3, Inr _) \<Rightarrow> (db3, Inr (Some did)))))))"

section \<open>The interface of a durable queue\<close>

text \<open>
  What a caller of the outbox relies on: an entry is put once per key, putting the same entry
  again returns the first one, another entry under the key is refused, other keys stay.
\<close>

locale idempotent_queue =
  fixes put :: "'k \<Rightarrow> 'v \<Rightarrow> 's \<Rightarrow> 's \<times> ('e + 'i)"
    and look :: "'s \<Rightarrow> 'k \<Rightarrow> ('i \<times> 'g) option"
    and digest :: "'v \<Rightarrow> 'g"
  assumes put_fresh: "look s k = None \<Longrightarrow> \<exists>s' i. put k v s = (s', Inr i) \<and> look s' k = Some (i, digest v)"
    and put_same: "look s k = Some (i, digest v) \<Longrightarrow> put k v s = (s, Inr i)"
    and put_clash: "look s k = Some (i, g) \<Longrightarrow> g \<noteq> digest v \<Longrightarrow> \<exists>x. put k v s = (s, Inl x)"
    and put_frame: "k' \<noteq> k \<Longrightarrow> look (fst (put k v s)) k' = look s k'"
begin

definition put_all :: "('k \<times> 'v) list \<Rightarrow> 's \<Rightarrow> 's" where
  "put_all kvs s = fold (\<lambda>(k, v) s. fst (put k v s)) kvs s"

lemma put_Inr: "put k v s = (s', Inr i) \<Longrightarrow> look s' k = Some (i, digest v)"
proof -
  assume p: "put k v s = (s', Inr i)"
  show ?thesis
  proof (cases "look s k")
    case None
    with put_fresh[of s k v] p show ?thesis by auto
  next
    case (Some jg)
    with put_same[of s k "fst jg" v] put_clash[of s k "fst jg" "snd jg" v] p show ?thesis
      by (cases jg; cases "snd jg = digest v") auto
  qed
qed

lemma put_keeps: "look s k = Some (i, g) \<Longrightarrow> look (fst (put k' v s)) k = Some (i, g)"
proof (cases "k = k'")
  case True
  assume "look s k = Some (i, g)"
  with True put_same[of s k' i v] put_clash[of s k' i g v] show ?thesis
    by (cases "g = digest v") auto
qed (simp add: put_frame)

lemma put_all_keeps: "look s k = Some (i, g) \<Longrightarrow> look (put_all kvs s) k = Some (i, g)"
  unfolding put_all_def by (induction kvs arbitrary: s) (auto simp: put_keeps)

lemma put_again: "put k v s = (s1, Inr i) \<Longrightarrow> put k v (put_all kvs s1) = (put_all kvs s1, Inr i)"
  using put_Inr put_all_keeps put_same by metis

lemma put_other_refused:
  "put k v s = (s1, Inr i) \<Longrightarrow> digest w \<noteq> digest v \<Longrightarrow>
     \<exists>x. put k w (put_all kvs s1) = (put_all kvs s1, Inl x)"
  using put_Inr put_all_keeps put_clash by metis

end

text \<open>The entry of an enqueue call, under its idempotency key.\<close>

record outbox_entry =
  oe_task :: string
  oe_provider :: string
  oe_operation :: string
  oe_destination :: string
  oe_payload :: dict
  oe_mandatory :: bool
  oe_priority :: "int option"
  oe_max_attempts :: int
  oe_supersede :: bool

definition enqueue_entry :: "env \<Rightarrow> string \<Rightarrow> outbox_entry \<Rightarrow> db \<Rightarrow> db \<times> (err + string)" where
  "enqueue_entry e key v =
     enqueue_delivery e (oe_task v) (oe_provider v) (oe_operation v) (oe_destination v) key
       (oe_payload v) (oe_mandatory v) (oe_priority v) (oe_max_attempts v) (oe_supersede v)"

definition look_delivery :: "db \<Rightarrow> string \<Rightarrow> (string \<times> string) option" where
  "look_delivery db key = map_option (\<lambda>d. (d_id d, d_payload_digest d)) (find_delivery db key)"

lemma new_delivery_simps [simp]:
  "d_id (new_delivery i t tid p op dst key pl dg) = i"
  "d_task_id (new_delivery i t tid p op dst key pl dg) = tid"
  "d_operation (new_delivery i t tid p op dst key pl dg) = op"
  "d_destination_key (new_delivery i t tid p op dst key pl dg) = dst"
  "d_idempotency_key (new_delivery i t tid p op dst key pl dg) = key"
  "d_payload_json (new_delivery i t tid p op dst key pl dg) = pl"
  "d_payload_digest (new_delivery i t tid p op dst key pl dg) = dg"
  "d_status (new_delivery i t tid p op dst key pl dg) = ''queued''"
  "d_lock_owner (new_delivery i t tid p op dst key pl dg) = None"
  "d_locked_until (new_delivery i t tid p op dst key pl dg) = None"
  "d_attempt (new_delivery i t tid p op dst key pl dg) = 0"
  "d_available_at (new_delivery i t tid p op dst key pl dg) = t"
  by (simp_all add: new_delivery_def)

lemma find_delivery_SomeD: "find_delivery db key = Some d \<Longrightarrow> d \<in> set (outbox db) \<and> d_idempotency_key d = key"
  by (auto simp: find_delivery_def dest: first_row_SomeD)

text \<open>The row an enqueue call adds, and the table it adds it to.\<close>

definition superseding :: "env \<Rightarrow> outbox_entry \<Rightarrow> delivery list \<Rightarrow> delivery list" where
  "superseding e v ds =
     (if oe_supersede v
      then upd_where (\<lambda>d. d_task_id d = oe_task v \<and> d_destination_key d = oe_destination v \<and> d_status d = ''queued'')
             (\<lambda>d. d\<lparr>d_status := ''superseded'', d_updated_at := now e\<rparr>) ds
      else ds)"

definition entry_row :: "env \<Rightarrow> string \<Rightarrow> outbox_entry \<Rightarrow> db \<Rightarrow> delivery" where
  "entry_row e key v db =
     (new_delivery (next_id e db) (now e) (oe_task v) (oe_provider v) (oe_operation v) (oe_destination v) key
        (oe_payload v) (payload_digest e (oe_payload v)))
       \<lparr>d_mandatory := oe_mandatory v, d_queue := ''provider-'' @ oe_provider v,
        d_priority := or_else (oe_priority v) (t_priority (the_task db (oe_task v))),
        d_max_attempts := oe_max_attempts v\<rparr>"

lemma enqueue_entry_eq:
  "enqueue_entry e key v db =
     (case find_delivery db key of
        Some d \<Rightarrow> (db, if d_payload_digest d \<noteq> payload_digest e (oe_payload v)
                      then Inl (ValueError (''Delivery idempotency key has different payload: '' @ key))
                      else Inr (d_id d))
      | None \<Rightarrow>
          (draw (let db2 = (if oe_mandatory v
                            then upd_task (oe_task v) (\<lambda>t. t\<lparr>t_delivery_status := ''pending''\<rparr>) db else db)
                 in db2\<lparr>outbox := superseding e v (outbox db) @ [entry_row e key v db]\<rparr>),
           Inr (next_id e db)))"
  by (auto simp: enqueue_entry_def enqueue_delivery_def Let_def superseding_def entry_row_def upd_task_def
      next_id_def split: option.splits)

lemma superseding_find:
  "first_row (\<lambda>d. d_idempotency_key d = k) (superseding e v ds) =
     map_option (\<lambda>d. if oe_supersede v \<and> d_task_id d = oe_task v \<and> d_destination_key d = oe_destination v \<and> d_status d = ''queued''
        then d\<lparr>d_status := ''superseded'', d_updated_at := now e\<rparr> else d) (first_row (\<lambda>d. d_idempotency_key d = k) ds)"
  by (cases "oe_supersede v") (simp_all add: superseding_def first_row_upd_where option.map_ident)

interpretation durable: idempotent_queue "enqueue_entry e" look_delivery "\<lambda>v. payload_digest e (oe_payload v)" for e
proof
  fix s :: db and k :: string and v
  show "look_delivery s k = None \<Longrightarrow>
      \<exists>s' i. enqueue_entry e k v s = (s', Inr i) \<and> look_delivery s' k = Some (i, payload_digest e (oe_payload v))"
    by (auto simp: look_delivery_def enqueue_entry_eq find_delivery_def first_row_append superseding_find
        entry_row_def Let_def)
next
  fix s :: db and k i :: string and v
  show "look_delivery s k = Some (i, payload_digest e (oe_payload v)) \<Longrightarrow> enqueue_entry e k v s = (s, Inr i)"
    by (auto simp: look_delivery_def enqueue_entry_eq)
next
  fix s :: db and k i g :: string and v
  show "look_delivery s k = Some (i, g) \<Longrightarrow> g \<noteq> payload_digest e (oe_payload v) \<Longrightarrow>
      \<exists>x. enqueue_entry e k v s = (s, Inl x)"
    by (auto simp: look_delivery_def enqueue_entry_eq)
next
  fix k' k :: string and v and s :: db
  assume "k' \<noteq> k"
  then show "look_delivery (fst (enqueue_entry e k v s)) k' = look_delivery s k'"
    by (cases "find_delivery s k'")
       (auto simp: look_delivery_def enqueue_entry_eq find_delivery_def first_row_append superseding_find
        entry_row_def Let_def split: option.splits)
qed

section \<open>Coherent rows\<close>

text \<open>
  A row is leased exactly while it runs, and a delivered row has its delivery time.
\<close>

definition coherent :: "delivery \<Rightarrow> bool" where
  "coherent d \<longleftrightarrow>
     d_status d \<in> {''queued'', ''running'', ''delivered'', ''failed'', ''superseded''} \<and>
     (d_status d = ''running'' \<longleftrightarrow> d_lock_owner d \<noteq> None) \<and>
     (d_status d = ''running'' \<longleftrightarrow> d_locked_until d \<noteq> None) \<and>
     0 \<le> d_attempt d \<and> (d_status d = ''delivered'' \<longrightarrow> d_delivered_at d \<noteq> None)"

definition outbox_ok :: "db \<Rightarrow> bool" where
  "outbox_ok db \<longleftrightarrow> unique_on d_idempotency_key (outbox db) \<and> (\<forall>d \<in> set (outbox db). coherent d)"

lemma outbox_ok_rows:
  assumes "outbox_ok db" and "outbox db' = upd_where P f (outbox db)"
    and "\<And>d. P d \<Longrightarrow> coherent d \<Longrightarrow> coherent (f d)" and "\<And>d. d_idempotency_key (f d) = d_idempotency_key d"
  shows "outbox_ok db'"
  using assms by (auto simp: outbox_ok_def unique_on_upd_where set_upd_where)

lemma outbox_ok_tables: "outbox db' = outbox db \<Longrightarrow> outbox_ok db' = outbox_ok db"
  by (simp add: outbox_ok_def)

lemma coherent_superseded:
  "coherent d \<Longrightarrow> d_status d = ''queued'' \<Longrightarrow> coherent (d\<lparr>d_status := ''superseded'', d_updated_at := t\<rparr>)"
  by (simp add: coherent_def)

lemma superseding_ok:
  "outbox_ok db \<Longrightarrow> outbox_ok (db\<lparr>outbox := superseding e v (outbox db)\<rparr>)"
  by (cases "oe_supersede v")
     (auto simp: superseding_def outbox_ok_def unique_on_upd_where set_upd_where coherent_superseded)

lemma enqueue_outbox_ok:
  assumes "outbox_ok db"
  shows "outbox_ok (fst (enqueue_entry e key v db))"
proof (cases "find_delivery db key")
  case None
  let ?db' = "fst (enqueue_entry e key v db)"
  have o: "outbox ?db' = superseding e v (outbox db) @ [entry_row e key v db]"
    using None by (simp add: enqueue_entry_eq Let_def)
  have "first_row (\<lambda>d. d_idempotency_key d = key) (superseding e v (outbox db)) = None"
    using None by (simp add: superseding_find find_delivery_def)
  then have "key \<notin> d_idempotency_key ` set (superseding e v (outbox db))"
    by (auto simp: first_row_None)
  moreover have "d_idempotency_key (entry_row e key v db) = key" "coherent (entry_row e key v db)"
    by (simp_all add: entry_row_def coherent_def)
  ultimately show ?thesis
    using superseding_ok[OF assms, of e v] by (simp add: outbox_ok_def o unique_on_snoc)
qed (use assms in \<open>simp add: enqueue_entry_eq\<close>)

definition reclaimed :: "time \<Rightarrow> db \<Rightarrow> db" where
  "reclaimed t0 db = db\<lparr>outbox := upd_where (lease_expired t0) (requeued t0) (outbox db)\<rparr>"

lemma reclaim_eq: "fst (reclaim_expired_deliveries e t db) = reclaimed (or_else t (now e)) db"
  by (simp add: reclaim_expired_deliveries_def Let_def reclaimed_def)

lemma coherent_requeued: "coherent d \<Longrightarrow> coherent (requeued t0 d)"
  by (simp add: requeued_def coherent_def)

lemma coherent_leased: "coherent d \<Longrightarrow> coherent (leased token until t0 d)"
  by (simp add: leased_def coherent_def)

lemma reclaimed_ok: "outbox_ok db \<Longrightarrow> outbox_ok (reclaimed t0 db)"
  by (rule outbox_ok_rows[of db _ "lease_expired t0" "requeued t0"])
     (simp_all add: reclaimed_def coherent_requeued, simp add: requeued_def)

lemma claim_cases:
  fixes e :: env and t :: "time option" and db :: db
  defines "t0 \<equiv> or_else t (now e)"
  obtains (idle) "claim_next_delivery e w secs t db = (reclaimed t0 db, None)"
    "\<forall>d \<in> set (outbox (reclaimed t0 db)). \<not> deliverable e t0 d"
  | (work) d where "d \<in> set (outbox (reclaimed t0 db))" "deliverable e t0 d"
    "\<forall>d' \<in> set (outbox (reclaimed t0 db)). deliverable e t0 d' \<longrightarrow> delivery_key d \<le> delivery_key d'"
    "claim_next_delivery e w secs t db =
      (draw (upd_delivery (d_id d) (leased (w @ '':'' @ next_id e db) (t0 + seconds secs) t0) (reclaimed t0 db)),
       Some (d_id d))"
proof -
  let ?rows = "sort_key delivery_key (filter (deliverable e t0) (outbox (reclaimed t0 db)))"
  have id: "next_id e (reclaimed t0 db) = next_id e db"
    by (simp add: next_id_def reclaimed_def)
  have s: "set ?rows = {d \<in> set (outbox (reclaimed t0 db)). deliverable e t0 d}" by simp
  have c: "claim_next_delivery e w secs t db = (case ?rows of [] \<Rightarrow> (reclaimed t0 db, None)
      | d # _ \<Rightarrow> (draw (upd_delivery (d_id d) (leased (w @ '':'' @ next_id e db) (t0 + seconds secs) t0) (reclaimed t0 db)),
         Some (d_id d)))"
    by (simp only: claim_next_delivery_def Let_def reclaim_eq or_else_simps t0_def id[unfolded t0_def])
  show thesis
  proof (cases ?rows)
    case Nil
    then have "set ?rows = {}" by simp
    then show ?thesis using idle c Nil s by simp
  next
    case (Cons d ds)
    have "sorted (map delivery_key ?rows)" by simp
    then have min: "\<forall>d' \<in> set ?rows. delivery_key d \<le> delivery_key d'" unfolding Cons by simp
    have d: "d \<in> set ?rows" unfolding Cons by simp
    show ?thesis
    proof (rule work)
      show "d \<in> set (outbox (reclaimed t0 db))" "deliverable e t0 d" using d s by blast+
      show "\<forall>d' \<in> set (outbox (reclaimed t0 db)). deliverable e t0 d' \<longrightarrow> delivery_key d \<le> delivery_key d'"
        using min s by blast
    qed (simp only: c Cons list.case)
  qed
qed

lemma leased_outbox_ok:
  "outbox_ok db \<Longrightarrow> outbox_ok (draw (upd_delivery i (leased token until t0) db))"
  by (rule outbox_ok_rows[of db _ "\<lambda>d. d_id d = i" "leased token until t0"])
     (simp_all add: coherent_leased, simp add: leased_def)

lemma claim_outbox_ok: "outbox_ok db \<Longrightarrow> outbox_ok (fst (claim_next_delivery e w secs t db))"
  by (rule claim_cases[of e w secs t db]) (auto intro: leased_outbox_ok reclaimed_ok)

definition failed_row :: "delivery \<Rightarrow> err \<Rightarrow> int \<Rightarrow> time \<Rightarrow> delivery \<Rightarrow> delivery" where
  "failed_row d x delay t0 r =
     (let free = r\<lparr>d_last_error := Some (err_text x), d_lock_owner := None, d_locked_until := None,
                   d_updated_at := t0\<rparr>
      in if exhausted d then free\<lparr>d_status := ''failed''\<rparr>
         else free\<lparr>d_status := ''queued'', d_available_at := t0 + backoff delay d\<rparr>)"

lemma outbox_failure:
  "outbox (failure_recorded d t x delay t0 db) =
     upd_where (\<lambda>r. d_id r = d_id d) (failed_row d x delay t0) (outbox db)"
  by (simp add: failure_recorded_def Let_def failed_row_def[abs_def] split: option.splits)

lemma coherent_failed_row: "coherent r \<Longrightarrow> coherent (failed_row d x delay t0 r)"
  by (simp add: failed_row_def coherent_def Let_def)

lemma failure_outbox_ok:
  "outbox_ok db \<Longrightarrow> outbox_ok (failure_recorded d t x delay t0 db)"
  by (rule outbox_ok_rows[OF _ outbox_failure]) (auto simp: coherent_failed_row, simp add: failed_row_def Let_def)

section \<open>What executing keeps\<close>

text \<open>The adapters, and whoever else writes while they run, keep an invariant.\<close>

definition calls_keep :: "(db \<Rightarrow> bool) \<Rightarrow> adapter_calls \<Rightarrow> bool" where
  "calls_keep I calls \<longleftrightarrow>
     (\<forall>p i s st db. I db \<longrightarrow> I (fst (publish_summary_comment calls p i s st db))) \<and>
     (\<forall>p i fs db. I db \<longrightarrow> I (fst (publish_line_comments calls p i fs db))) \<and>
     (\<forall>p i s db. I db \<longrightarrow> I (fst (publish_agent_task_comment calls p i s db)))"

text \<open>What the provider call of a claimed delivery leaves behind.\<close>

definition provider_call :: "adapter_calls \<Rightarrow> registry \<Rightarrow> pydantic \<Rightarrow> string \<Rightarrow> db \<Rightarrow> db \<times> (err + string option)" where
  "provider_call calls reg py did db1 =
     (let d = the_delivery db1 did in
      case get_task db1 (d_task_id d) of
        None \<Rightarrow> (db1, Inl (delivery_error d (''Delivery task no longer exists: '' @ d_task_id d)))
      | Some tk \<Rightarrow> execute_delivery calls reg py d tk db1)"

lemma send_summary_keeps:
  assumes "calls_keep I calls" and "I db" and "\<And>i f db. I (upd_run i f db) = I db"
  shows "I (fst (send_summary calls d db))"
proof -
  have "I (fst (publish_summary_comment calls (d_provider d) (d_task_id d) s st db))" for s st
    using assms(1,2) by (simp add: calls_keep_def)
  then show ?thesis
    using assms(2,3) unfolding send_summary_def Let_def
    by (intro keep_branches[where I = I]) (auto, (metis fst_conv)+)
qed

lemma keep_gate:
  "(\<And>x. g = Refuse x \<Longrightarrow> I (fst (f x))) \<Longrightarrow> (\<And>c. g = Skip c \<Longrightarrow> I (fst (h c))) \<Longrightarrow>
     (g = Send \<Longrightarrow> I (fst y)) \<Longrightarrow>
     I (fst (case g of Refuse x \<Rightarrow> f x | Skip c \<Rightarrow> h c | Send \<Rightarrow> y))"
  by (cases g) simp_all

lemma execute_keeps:
  assumes "calls_keep I calls" and "I db" and "\<And>i f db. I (upd_run i f db) = I db"
  shows "I (fst (execute_delivery calls reg py d t db))"
proof -
  have a: "I (fst (publish_agent_task_comment calls p i s db))"
    and l: "I (fst (publish_line_comments calls p i fs db))" for p i s fs
    using assms by (simp_all add: calls_keep_def)
  show ?thesis
    using assms(2) send_summary_keeps[OF assms, of d] unfolding execute_delivery_def
    by (intro keep_branches[where I = I] keep_gate[where I = I]) (auto, (metis a l fst_conv)+)
qed

lemma provider_call_keeps:
  assumes "calls_keep I calls" and "I db" and "\<And>i f db. I (upd_run i f db) = I db"
  shows "I (fst (provider_call calls reg py did db))"
  using execute_keeps[OF assms] assms(2) by (simp add: provider_call_def Let_def split: option.splits)

lemma outbox_ok_run: "outbox_ok (upd_run i f db) = outbox_ok db"
  by (rule outbox_ok_tables) simp

lemma apply_success_outbox: "outbox (fst (apply_delivery_success t0 tid did db)) = outbox db"
  by (auto simp: apply_delivery_success_def Let_def split: option.splits)

definition delivered_row :: "time \<Rightarrow> string option \<Rightarrow> delivery \<Rightarrow> delivery" where
  "delivered_row t0 message r =
     r\<lparr>d_status := ''delivered'', d_provider_message_id := message, d_last_error := None,
       d_delivered_at := Some t0, d_lock_owner := None, d_locked_until := None, d_updated_at := t0\<rparr>"

lemma delivered_outbox_ok: "outbox_ok db \<Longrightarrow> outbox_ok (upd_delivery i (delivered_row t0 message) db)"
  by (rule outbox_ok_rows[of db _ "\<lambda>d. d_id d = i" "delivered_row t0 message"])
     (simp_all add: delivered_row_def coherent_def)

lemma process_eq:
  "process_next_delivery e calls reg py w secs delay t db =
     (let t0 = or_else t (now e) in
      case claim_next_delivery e w secs (Some t0) db of
        (db1, None) \<Rightarrow> (db1, Inr None)
      | (db1, Some did) \<Rightarrow>
          (let d = the_delivery db1 did in
           case provider_call calls reg py did db1 of
             (db2, Inl x) \<Rightarrow>
               (if breaks_session x then (db2, Inl session_broken)
                else (failure_recorded d (get_task db1 (d_task_id d)) x delay t0 db2, Inr (Some did)))
           | (db2, Inr message) \<Rightarrow>
               (case get_delivery db2 did of
                  None \<Rightarrow> (db2, Inl (OtherError ''Could not refresh instance''))
                | Some d2 \<Rightarrow>
                    (if d_status d2 \<noteq> ''running'' \<or> d_lock_owner d2 \<noteq> d_lock_owner d
                     then (db2, Inr (Some did))
                     else (case apply_delivery_success t0 (d_task_id d2) did
                             (upd_delivery did (delivered_row t0 message) db2) of
                             (db3, Inl x) \<Rightarrow> (db2, Inl x)
                           | (db3, Inr _) \<Rightarrow> (db3, Inr (Some did)))))))"
  by (simp add: process_next_delivery_def provider_call_def record_delivery_failure_def Let_def delivered_row_def[abs_def]
      split: option.splits prod.splits sum.splits)

lemma process_outbox_ok:
  assumes "calls_keep outbox_ok calls" and "outbox_ok db"
  shows "outbox_ok (fst (process_next_delivery e calls reg py w secs delay t db))"
proof -
  let ?t0 = "or_else t (now e)"
  obtain db1 r where c: "claim_next_delivery e w secs (Some ?t0) db = (db1, r)" by fastforce
  have ok1: "outbox_ok db1" using claim_outbox_ok[OF assms(2), of e w secs "Some ?t0"] c by simp
  show ?thesis
  proof (cases r)
    case None
    then show ?thesis using c ok1 by (simp add: process_eq Let_def)
  next
    case (Some did)
    obtain db2 res where p: "provider_call calls reg py did db1 = (db2, res)" by fastforce
    have ok2: "outbox_ok db2" using provider_call_keeps[OF assms(1) ok1 outbox_ok_run, of reg py did] p by simp
    have ok3: "outbox_ok (fst (apply_delivery_success ?t0 tid did (upd_delivery did (delivered_row ?t0 m) db2)))" for tid m
      using delivered_outbox_ok[OF ok2] apply_success_outbox outbox_ok_tables by metis
    show ?thesis
    proof (cases res)
      case (Inl x)
      then show ?thesis using c Some p ok2 by (simp add: process_eq Let_def failure_outbox_ok)
    next
      case (Inr m)
      have "outbox_ok (fst (case apply_delivery_success ?t0 tid did (upd_delivery did (delivered_row ?t0 m) db2) of
          (db3, Inl x) \<Rightarrow> (db2, Inl x) | (db3, Inr _) \<Rightarrow> (db3, Inr (Some did))))" for tid
        using ok2 ok3[of tid m] by (auto split: prod.splits sum.splits)
      then show ?thesis using c Some p Inr ok2 by (simp add: process_eq Let_def split: option.splits)
    qed
  qed
qed

section \<open>The outbox as a transition system\<close>

datatype outbox_op =
    Enqueue string outbox_entry
  | Deliver string int int time
  | Reclaim time

fun outbox_step :: "env \<Rightarrow> adapter_calls \<Rightarrow> registry \<Rightarrow> pydantic \<Rightarrow> outbox_op \<Rightarrow> db \<Rightarrow> db" where
  "outbox_step e calls reg py (Enqueue key v) db = fst (enqueue_entry e key v db)"
| "outbox_step e calls reg py (Deliver w secs delay t) db =
     fst (process_next_delivery e calls reg py w secs delay (Some t) db)"
| "outbox_step e calls reg py (Reclaim t) db = fst (reclaim_expired_deliveries e (Some t) db)"

lemma outbox_steps_preserve:
  "calls_keep outbox_ok calls \<Longrightarrow> preserved (outbox_step e calls reg py) outbox_ok"
proof
  fix op db assume "calls_keep outbox_ok calls" "outbox_ok db"
  then show "outbox_ok (outbox_step e calls reg py op db)"
    by (cases op) (simp_all add: enqueue_outbox_ok process_outbox_ok reclaim_eq reclaimed_ok)
qed

section \<open>Properties\<close>

definition sample_entry :: "string \<Rightarrow> dict \<Rightarrow> outbox_entry" where
  "sample_entry op payload =
     \<lparr>oe_task = ''r1'', oe_provider = ''gh'', oe_operation = op, oe_destination = ''pr:1'', oe_payload = payload,
      oe_mandatory = True, oe_priority = None, oe_max_attempts = 2, oe_supersede = True\<rparr>"

definition sample_outbox_db :: db where
  "sample_outbox_db = empty_db\<lparr>tasks := [new_task ''r1'' ''review'' 0],
     runs := [new_run ''r1'' ''gh'' ''o/r'' 1 ''head'']\<rparr>"

text \<open>
  C20. Enqueueing is safe to retry: once a delivery is accepted under a key, then after any
  further enqueue calls, superseding ones included, the same call changes nothing and returns the
  same delivery, and a call with another payload under that key is refused and changes nothing.
\<close>

theorem enqueue_retry_safe:
  assumes "enqueue_entry e key v db = (db1, Inr i)"
    and "db2 = fold (\<lambda>(k, v) s. fst (enqueue_entry e k v s)) others db1"
  shows "enqueue_entry e key v db2 = (db2, Inr i) \<and>
     (\<forall>w. payload_digest e (oe_payload w) \<noteq> payload_digest e (oe_payload v) \<longrightarrow>
        (\<exists>x. enqueue_entry e key w db2 = (db2, Inl x)))"
  using durable.put_again[OF assms(1)] durable.put_other_refused[OF assms(1)] assms(2)
  unfolding durable.put_all_def by blast

theorem enqueue_retry_safe_witness:
  "let e = sample_env 5; v = sample_entry ''review_progress'' [(''result_version'', JInt 1)];
       w = sample_entry ''review_progress'' [(''result_version'', JInt 2)];
       db1 = fst (enqueue_entry e ''k'' v sample_outbox_db); db2 = fst (enqueue_entry e ''k2'' w db1)
   in map d_status (outbox db2) = [''superseded'', ''queued''] \<and>
      enqueue_entry e ''k'' v db2 = (db2, Inr ''id-0'') \<and> (\<exists>x. enqueue_entry e ''k'' w db2 = (db2, Inl x))"
proof -
  let ?e = "sample_env 5"
  let ?v = "sample_entry ''review_progress'' [(''result_version'', JInt 1)]"
  let ?w = "sample_entry ''review_progress'' [(''result_version'', JInt 2)]"
  let ?db1 = "fst (enqueue_entry ?e ''k'' ?v sample_outbox_db)"
  let ?db2 = "fst (enqueue_entry ?e ''k2'' ?w ?db1)"
  have s: "map d_status (outbox ?db2) = [''superseded'', ''queued'']" by code_simp
  have "snd (enqueue_entry ?e ''k'' ?v sample_outbox_db) = Inr ''id-0''" by code_simp
  then have r: "enqueue_entry ?e ''k'' ?v sample_outbox_db = (?db1, Inr ''id-0'')"
    by (metis prod.collapse)
  have d: "payload_digest ?e (oe_payload ?w) \<noteq> payload_digest ?e (oe_payload ?v)" by code_simp
  have f: "?db2 = fold (\<lambda>(k, v) s. fst (enqueue_entry ?e k v s)) [(''k2'', ?w)] ?db1" by simp
  note p = enqueue_retry_safe[OF r f]
  show ?thesis unfolding Let_def
    by (intro conjI s p[THEN conjunct1] p[THEN conjunct2, rule_format, OF d])
qed

text \<open>
  Coherence of the outbox: through any sequence of enqueue, delivery and reclaim steps,
  with adapters that keep it, idempotency keys stay unique, a delivery is leased exactly while it
  runs, has one of the five statuses and a delivery time once delivered.
\<close>

theorem outbox_stays_coherent:
  assumes "calls_keep outbox_ok calls" and "outbox db = []"
    and "db' = fold (outbox_step e calls reg py) ops db"
  shows "unique_on d_idempotency_key (outbox db') \<and>
     (\<forall>d \<in> set (outbox db'). d_status d \<in> {''queued'', ''running'', ''delivered'', ''failed'', ''superseded''} \<and>
        (d_status d = ''running'' \<longleftrightarrow> d_lock_owner d \<noteq> None) \<and>
        (d_status d = ''running'' \<longleftrightarrow> d_locked_until d \<noteq> None) \<and>
        (d_status d = ''delivered'' \<longrightarrow> d_delivered_at d \<noteq> None))"
proof -
  have "outbox_ok db" using assms(2) by (simp add: outbox_ok_def)
  then have "outbox_ok db'"
    using preserved.run_inv[OF outbox_steps_preserve[OF assms(1)]] assms(3) by blast
  then show ?thesis by (auto simp: outbox_ok_def coherent_def)
qed

definition sample_calls :: adapter_calls where
  "sample_calls =
     \<lparr>publish_summary_comment = (\<lambda>p i s st db. (db, Inr (Some ''c1''))),
      publish_line_comments = (\<lambda>p i fs db. (db, Inr [])),
      publish_agent_task_comment = (\<lambda>p i s db. (db, Inr ''c2''))\<rparr>"

lemma sample_calls_keep: "calls_keep I sample_calls"
  by (simp add: calls_keep_def sample_calls_def)

theorem outbox_stays_coherent_witness:
  "let db' = fold (outbox_step (sample_env 5) sample_calls sample_registry sample_pydantic)
        [Enqueue ''k'' (sample_entry ''review_summary'' [(''status_text'', JStr ''done'')]),
         Deliver ''w'' 60 30 7] sample_outbox_db
   in map d_status (outbox db') = [''delivered''] \<and> unique_on d_idempotency_key (outbox db')"
proof -
  let ?ops = "[Enqueue ''k'' (sample_entry ''review_summary'' [(''status_text'', JStr ''done'')]),
         Deliver ''w'' 60 30 7]"
  let ?db = "fold (outbox_step (sample_env 5) sample_calls sample_registry sample_pydantic) ?ops sample_outbox_db"
  have s: "map d_status (outbox ?db) = [''delivered'']" by code_simp
  have "outbox sample_outbox_db = []" by (simp add: sample_outbox_db_def empty_db_def)
  note p = outbox_stays_coherent[OF sample_calls_keep this refl, of "sample_env 5" sample_registry sample_pydantic ?ops]
  show ?thesis unfolding Let_def by (rule conjI[OF s p[THEN conjunct1]])
qed

text \<open>
  The claim misses nothing that is due: outside PostgreSQL's row locks it returns nothing
  exactly when no delivery is queued and available and no running lease has expired; what it
  returns was due, no due delivery comes before it in the order, and its row is now leased to
  the worker's new token with one more attempt.
\<close>

definition due :: "time \<Rightarrow> delivery \<Rightarrow> bool" where
  "due t0 d \<longleftrightarrow> d_status d = ''queued'' \<and> d_available_at d \<le> t0 \<or> lease_expired t0 d"

lemma deliverable_requeued:
  assumes "coherent d" and "dialect e \<noteq> Postgresql"
  shows "deliverable e t0 (if lease_expired t0 d then requeued t0 d else d) \<longleftrightarrow> due t0 d"
proof (cases "lease_expired t0 d")
  case True
  then show ?thesis using assms by (simp add: deliverable_def requeued_def due_def)
next
  case False
  then show ?thesis using assms by (auto simp: deliverable_def due_def coherent_def)
qed

theorem claim_misses_nothing_due:
  assumes "outbox_ok db" and "unique_on d_id (outbox db)" and "dialect e \<noteq> Postgresql"
  shows "case claim_next_delivery e w secs (Some t0) db of
     (db', None) \<Rightarrow> \<forall>d \<in> set (outbox db). \<not> due t0 d
   | (db', Some i) \<Rightarrow> \<exists>d \<in> set (outbox db). d_id d = i \<and> due t0 d \<and>
        (\<forall>d' \<in> set (outbox db). due t0 d' \<longrightarrow> d_priority d' \<le> d_priority d) \<and>
        (\<exists>d'. get_delivery db' i = Some d' \<and> d_status d' = ''running'' \<and> d_attempt d' = d_attempt d + 1 \<and>
           d_lock_owner d' = Some (w @ '':'' @ next_id e db) \<and> d_locked_until d' = Some (t0 + seconds secs))"
proof -
  let ?f = "\<lambda>d. if lease_expired t0 d then requeued t0 d else d"
  have rows: "outbox (reclaimed t0 db) = map ?f (outbox db)"
    by (simp add: reclaimed_def upd_where_def)
  have del: "deliverable e t0 (?f d) \<longleftrightarrow> due t0 d" if "d \<in> set (outbox db)" for d
    using that assms(1,3) by (intro deliverable_requeued) (auto simp: outbox_ok_def)
  have f: "d_id (?f d) = d_id d" "d_priority (?f d) = d_priority d" "d_attempt (?f d) = d_attempt d" for d
    by (simp_all add: requeued_def)
  show ?thesis
  proof (rule claim_cases[of e w secs "Some t0" db])
    assume c: "claim_next_delivery e w secs (Some t0) db = (reclaimed (or_else (Some t0) (now e)) db, None)"
      and "\<forall>d \<in> set (outbox (reclaimed (or_else (Some t0) (now e)) db)). \<not> deliverable e (or_else (Some t0) (now e)) d"
    then have "\<forall>d \<in> set (outbox db). \<not> due t0 d" using del unfolding or_else_simps rows by auto
    with c show ?thesis by simp
  next
    fix d1 let ?t = "or_else (Some t0) (now e)"
    assume d1: "d1 \<in> set (outbox (reclaimed ?t db))" "deliverable e ?t d1"
      and min: "\<forall>d' \<in> set (outbox (reclaimed ?t db)). deliverable e ?t d' \<longrightarrow> delivery_key d1 \<le> delivery_key d'"
      and c: "claim_next_delivery e w secs (Some t0) db =
        (draw (upd_delivery (d_id d1) (leased (w @ '':'' @ next_id e db) (?t + seconds secs) ?t) (reclaimed ?t db)), Some (d_id d1))"
    obtain d where d: "d \<in> set (outbox db)" "d1 = ?f d" using d1(1) unfolding or_else_simps rows by auto
    have due: "due t0 d" using d del d1(2) by simp
    have "d_priority d' \<le> d_priority d" if "d' \<in> set (outbox db)" "due t0 d'" for d'
    proof -
      have "delivery_key d1 \<le> delivery_key (?f d')"
        using min that del unfolding or_else_simps rows by auto
      then show ?thesis using f d(2) by (auto simp: delivery_key_def less_eq_prod_def)
    qed
    moreover have "get_delivery (reclaimed t0 db) (d_id d) = Some d1"
      using first_row_unique[of d_id "outbox (reclaimed t0 db)" d1 "d_id d"] assms(2) d
      by (simp add: get_delivery_def rows unique_on_def comp_def f)
    then have "get_delivery (draw (upd_delivery (d_id d1) (leased (w @ '':'' @ next_id e db) (t0 + seconds secs) t0) (reclaimed t0 db))) (d_id d) =
        Some (leased (w @ '':'' @ next_id e db) (t0 + seconds secs) t0 d1)"
      using d(2) f by (simp add: get_delivery_upd leased_def)
    ultimately show ?thesis
      using c d due f[of d] unfolding or_else_simps by (auto simp: leased_def)
  qed
qed

definition sample_leased_db :: db where
  "sample_leased_db = fst (claim_next_delivery (sample_env 5) ''w'' 60 (Some 6)
     (fst (enqueue_entry (sample_env 5) ''k'' (sample_entry ''review_summary'' [(''status_text'', JStr ''done'')]) sample_outbox_db)))"

theorem claim_misses_nothing_due_witness:
  "\<exists>i d. snd (claim_next_delivery (sample_env 5) ''w2'' 60 (Some 60000007) sample_leased_db) = Some i \<and>
     d \<in> set (outbox sample_leased_db) \<and> d_id d = i \<and> due 60000007 d"
proof -
  let ?r = "claim_next_delivery (sample_env 5) ''w2'' 60 (Some 60000007) sample_leased_db"
  have "outbox_ok sample_outbox_db" by (simp add: outbox_ok_def sample_outbox_db_def empty_db_def)
  then have ok: "outbox_ok sample_leased_db"
    unfolding sample_leased_db_def by (intro claim_outbox_ok enqueue_outbox_ok)
  have u: "unique_on d_id (outbox sample_leased_db)" by code_simp
  have "snd ?r \<noteq> None" by code_simp
  then obtain i db' where r: "?r = (db', Some i)" by (cases ?r) auto
  have "dialect (sample_env 5) \<noteq> Postgresql" by (simp add: sample_env_def)
  from claim_misses_nothing_due[OF ok u this, where w = "''w2''" and secs = 60 and ?t0.0 = 60000007] r
  obtain d where "d \<in> set (outbox sample_leased_db)" "d_id d = i" "due 60000007 d" by auto
  with r show ?thesis by (intro exI[of _ i] exI[of _ d]) simp
qed

text \<open>
  A stale worker's success is ignored: when the provider call succeeds but the delivery is
  meanwhile no longer running under the worker's token, the worker leaves the database as the
  call left it; and only a delivery still running under the token becomes delivered.
\<close>

theorem stale_success_is_ignored:
  assumes "claim_next_delivery e w secs (Some t0) db = (db1, Some did)"
    and "provider_call calls reg py did db1 = (db2, Inr message)"
    and "get_delivery db2 did = Some d2"
  shows "let (db', res) = process_next_delivery e calls reg py w secs delay (Some t0) db in
     (if d_status d2 = ''running'' \<and> d_lock_owner d2 = d_lock_owner (the_delivery db1 did)
      then (case res of
              Inl x \<Rightarrow> db' = db2
            | Inr r \<Rightarrow> (\<exists>d. get_delivery db' did = Some d \<and> d_status d = ''delivered'' \<and>
                           d_provider_message_id d = message \<and> d_delivered_at d = Some t0))
      else db' = db2 \<and> res = Inr (Some did))"
proof -
  let ?db3 = "upd_delivery did (delivered_row t0 message) db2"
  obtain db4 r where a: "apply_delivery_success t0 (d_task_id d2) did ?db3 = (db4, r)" by fastforce
  have "get_delivery db4 did = Some (delivered_row t0 message d2)"
    using apply_success_outbox[of t0 "d_task_id d2" did ?db3] a assms(3) get_delivery_upd[of "delivered_row t0 message" did db2 did]
    by (simp add: get_delivery_def delivered_row_def)
  then show ?thesis
    using assms a by (cases r) (auto simp: process_eq Let_def delivered_row_def)
qed

text \<open>An adapter during whose call the lease is reclaimed and another worker delivers.\<close>

definition overtaken_calls :: "env \<Rightarrow> (err + string option) \<Rightarrow> adapter_calls" where
  "overtaken_calls e outcome = sample_calls\<lparr>publish_summary_comment :=
     (\<lambda>p i s st db. (fst (process_next_delivery e sample_calls sample_registry sample_pydantic
                          ''w2'' 60 30 (Some (seconds 100)) db), outcome))\<rparr>"

definition sample_queued_db :: db where
  "sample_queued_db =
     fst (enqueue_entry (sample_env 5) ''k'' (sample_entry ''review_summary'' [(''status_text'', JStr ''done'')]) sample_outbox_db)"

theorem stale_success_is_ignored_witness:
  "let e = sample_env 5; calls = overtaken_calls e (Inr (Some ''late''));
       (db', res) = process_next_delivery e calls sample_registry sample_pydantic ''w1'' 60 30 (Some 6) sample_queued_db
   in res = Inr (Some ''id-0'') \<and> map d_provider_message_id (outbox db') = [Some ''c1'']"
proof -
  let ?e = "sample_env 5"
  let ?calls = "overtaken_calls ?e (Inr (Some ''late''))"
  let ?c = "claim_next_delivery ?e ''w1'' 60 (Some 6) sample_queued_db"
  let ?p = "provider_call ?calls sample_registry sample_pydantic ''id-0'' (fst ?c)"
  let ?r = "process_next_delivery ?e ?calls sample_registry sample_pydantic ''w1'' 60 30 (Some 6) sample_queued_db"
  have "snd ?c = Some ''id-0''" by code_simp
  then have c: "?c = (fst ?c, Some ''id-0'')" by (metis prod.collapse)
  have "case snd ?p of Inl x \<Rightarrow> False | Inr m \<Rightarrow> m = Some ''late''" by code_simp
  then have p: "?p = (fst ?p, Inr (Some ''late''))" by (cases ?p; cases "snd ?p") auto
  have d: "map_option (\<lambda>d. (d_status d, d_provider_message_id d)) (get_delivery (fst ?p) ''id-0'') =
      Some (''delivered'', Some ''c1'')"
    "map d_provider_message_id (outbox (fst ?p)) = [Some ''c1'']" by code_simp+
  then obtain d2 where "get_delivery (fst ?p) ''id-0'' = Some d2" "d_status d2 \<noteq> ''running''" by auto
  with stale_success_is_ignored[OF c p, where delay = 30] have "?r = (fst ?p, Inr (Some ''id-0''))"
    by (cases ?r) simp
  with d(2) show ?thesis by (simp only: Let_def prod.case simp_thms)
qed

text \<open>
  A stale worker's failure is not ignored. The lease of worker \<open>w1\<close> expires during its
  provider call, worker \<open>w2\<close> takes over and delivers; when the call of \<open>w1\<close> then fails, the
  delivered message is put back into the queue, to be sent again. (The success path checks the
  lease token, the failure path does not.)
\<close>

theorem stale_failure_requeues_delivered:
  "let e = sample_env 5; late = Inl (ProviderError ''timeout'' None None);
       before = claim_next_delivery e ''w1'' 60 (Some 6) sample_queued_db;
       during = provider_call (overtaken_calls e late) sample_registry sample_pydantic ''id-0'' (fst before);
       (after, res) = process_next_delivery e (overtaken_calls e late) sample_registry sample_pydantic
                        ''w1'' 60 30 (Some 6) sample_queued_db
   in map d_status (outbox (fst during)) = [''delivered''] \<and>
      map d_status (outbox after) = [''queued''] \<and> map d_delivered_at (outbox after) = [Some (seconds 100)]"
  by code_simp

text \<open>
  A constraint violated at an adapter's commit is never counted as a failure: the worker ends with the session's
  exception, the delivery stays leased, and after its lease it is due again, however many attempts it has had.
\<close>

definition clashing_calls :: adapter_calls where
  "clashing_calls = sample_calls\<lparr>publish_summary_comment := (\<lambda>p i s st db. (db, Inl (IntegrityError ''uq_provider_comment'')))\<rparr>"

lemma clashing_delivery_never_fails:
  "let e = sample_env 5; pass = (\<lambda>t db. process_next_delivery e clashing_calls sample_registry sample_pydantic ''w'' 60 30 (Some t) db);
       db1 = sample_queued_db\<lparr>outbox := map (\<lambda>d. d\<lparr>d_max_attempts := 1\<rparr>) (outbox sample_queued_db)\<rparr>;
       db3 = fst (pass (seconds 100) (fst (pass 6 db1)))
   in snd (pass (seconds 100) (fst (pass 6 db1))) = Inl session_broken \<and>
      map (\<lambda>d. (d_status d, d_attempt d, d_max_attempts d)) (outbox db3) = [(''running'', 2, 1)]"
  by code_simp

text \<open>
  Retries back off exponentially within bounds: after a failed attempt that leaves attempts
  (always, when \<open>max_attempts\<close> is not positive) and not the session broken, the delivery is queued again no earlier than the
  configured delay and no later than 256 times the delay, doubling with each of the first nine
  attempts; otherwise it fails, and a mandatory delivery fails its task.
\<close>

theorem retry_backoff_bounded:
  assumes "get_delivery db (d_id d) = Some r" and "0 \<le> delay" and "1 \<le> d_attempt d" and "\<not> breaks_session x"
  shows "let db' = fst (record_delivery_failure d (Some tk) x delay t0 db) in
     \<exists>r'. get_delivery db' (d_id d) = Some r' \<and> d_last_error r' = Some (err_text x) \<and> d_lock_owner r' = None \<and>
       (if 0 < d_max_attempts d \<and> d_max_attempts d \<le> d_attempt d
        then d_status r' = ''failed'' \<and>
             (d_mandatory d \<longrightarrow> (\<forall>t. get_task db' (d_task_id d) = Some t \<longrightarrow>
                t_status t = ''failed'' \<and> t_delivery_status t = ''failed'' \<and> t_completed_at t = Some t0))
        else d_status r' = ''queued'' \<and>
             t0 + seconds delay \<le> d_available_at r' \<and> d_available_at r' \<le> t0 + seconds (256 * delay) \<and>
             (d_attempt d \<le> 9 \<longrightarrow> d_available_at r' = t0 + seconds (delay * 2 ^ nat (d_attempt d - 1))) \<and>
             tasks db' = tasks db)"
proof -
  let ?db' = "failure_recorded d (Some tk) x delay t0 db"
  have fst: "fst (record_delivery_failure d (Some tk) x delay t0 db) = ?db'"
    using assms(4) by (simp add: record_delivery_failure_def)
  let ?k = "nat (min 8 (max 0 (d_attempt d - 1)))"
  have r': "get_delivery ?db' (d_id d) = Some (failed_row d x delay t0 r)"
    using get_delivery_upd[of "failed_row d x delay t0" "d_id d" db "d_id d"] assms(1)
    by (simp add: get_delivery_def outbox_failure failed_row_def Let_def)
  have k: "?k \<le> 8" by simp
  have "(2::int) ^ ?k \<le> 2 ^ 8" using k by (intro power_increasing) auto
  then have "delay * 2 ^ ?k \<le> delay * 256" using assms(2) by (intro mult_left_mono) auto
  moreover have "delay * 1 \<le> delay * 2 ^ ?k" using assms(2) by (intro mult_left_mono) auto
  moreover have "d_attempt d \<le> 9 \<Longrightarrow> ?k = nat (d_attempt d - 1)" using assms(3) by simp
  ultimately have b: "seconds delay \<le> backoff delay d" "backoff delay d \<le> seconds (256 * delay)"
    "d_attempt d \<le> 9 \<Longrightarrow> backoff delay d = seconds (delay * 2 ^ nat (d_attempt d - 1))"
    by (simp_all add: backoff_def)
  have tasks: "\<not> exhausted d \<Longrightarrow> tasks ?db' = tasks db"
    by (simp add: failure_recorded_def Let_def split: option.splits)
  have failed: "t_status t = ''failed'' \<and> t_delivery_status t = ''failed'' \<and> t_completed_at t = Some t0"
    if "exhausted d" "d_mandatory d" "get_task ?db' (d_task_id d) = Some t" for t
    using that by (auto simp: failure_recorded_def Let_def get_task_upd split: option.splits if_splits)
  show ?thesis
    unfolding Let_def fst using r' b tasks failed
    by (intro exI[of _ "failed_row d x delay t0 r"]) (auto simp: failed_row_def Let_def exhausted_def)
qed

theorem retry_backoff_bounded_witness:
  "let d = (new_delivery ''d'' 0 ''r1'' ''gh'' ''review_summary'' ''pr:1'' ''k'' [] ''g'')\<lparr>d_attempt := 3\<rparr>;
       db = sample_outbox_db\<lparr>outbox := [d]\<rparr>;
       db' = fst (record_delivery_failure d (Some (new_task ''r1'' ''review'' 0)) IndexError 30 7 db)
   in \<exists>r'. get_delivery db' ''d'' = Some r' \<and> d_status r' = ''queued'' \<and> d_available_at r' = 7 + seconds 120"
proof -
  let ?d = "(new_delivery ''d'' 0 ''r1'' ''gh'' ''review_summary'' ''pr:1'' ''k'' [] ''g'')\<lparr>d_attempt := 3\<rparr>"
  have g: "get_delivery (sample_outbox_db\<lparr>outbox := [?d]\<rparr>) (d_id ?d) = Some ?d"
    by (simp add: get_delivery_def)
  have "d_attempt ?d = 3" "d_max_attempts ?d = 5" "d_id ?d = ''d''" "\<not> breaks_session IndexError"
    by (simp_all add: new_delivery_def breaks_session_def)
  with retry_backoff_bounded[OF g, where delay = 30 and tk = "new_task ''r1'' ''review'' 0" and x = IndexError and ?t0.0 = 7] show ?thesis
    unfolding Let_def by auto
qed

lemma get_slot_replaced:
  assumes "s_id s' = i"
  shows "get_slot (upd_slot i (\<lambda>_. s') db) i = map_option (\<lambda>_. s') (get_slot db i)"
proof -
  have "get_slot (upd_slot i (\<lambda>_. s') db) i = map_option (\<lambda>s. if s_id s = i then s' else s) (get_slot db i)"
    using assms by (simp add: get_slot_def first_row_upd_where)
  then show ?thesis by (cases "get_slot db i") (auto dest: get_slot_SomeD)
qed

lemma task_after_outdated:
  "t_status (task_after_success t0 d False f t) = t_status t"
  "t_stage (task_after_success t0 d False f t) = t_stage t"
  "t_completed_at (task_after_success t0 d False f t) = t_completed_at t"
  by (simp_all add: task_after_success_def Let_def split: option.splits)

lemma task_after_ended:
  assumes "is_review t" and "d_operation d = ''review_placeholder''"
    and "t_execution_status t \<in> {''completed'', ''failed'', ''cancelled''}"
    and "text_field (d_payload_json d) ''final_status'' = None"
  shows "t_status (task_after_success t0 d b f t) = t_status t"
    "t_stage (task_after_success t0 d b f t) = t_stage t"
    "t_completed_at (task_after_success t0 d b f t) = t_completed_at t"
  using assms by (simp_all add: task_after_success_def Let_def split: option.splits)

text \<open>
  Outdated messages do not advance a review: a delivered progress or result message whose
  version is not the slot's leaves the slot's status, error and finalization, and the status,
  stage and completion of the run as they were; and a placeholder without a final status that is
  delivered after execution has ended leaves the status and the stage.
\<close>

theorem outdated_delivery_does_not_advance:
  assumes "is_review (the_task db tid)" and "get_task db tid = Some t"
    and "apply_delivery_success t0 tid did db = (db', Inr ())" and "d = the_delivery db did"
    and "d_operation d \<in> {''review_progress'', ''review_result''} \<and>
           (\<forall>s. delivery_comment_slot d db = Some s \<longrightarrow>
              \<not> equals_int (jget (d_payload_json d) ''result_version'') (s_result_version s)) \<or>
         d_operation d = ''review_placeholder'' \<and> t_execution_status t \<in> {''completed'', ''failed'', ''cancelled''} \<and>
           text_field (d_payload_json d) ''final_status'' = None"
  shows "\<exists>t'. get_task db' tid = Some t' \<and> t_status t' = t_status t \<and> t_stage t' = t_stage t \<and>
       t_completed_at t' = t_completed_at t \<and>
     (\<forall>s s'. d_operation d \<noteq> ''review_placeholder'' \<and> delivery_comment_slot d db = Some s \<longrightarrow>
        get_slot db' (s_id s) = Some s' \<longrightarrow> s_status s' = s_status s \<and> s_last_error s' = s_last_error s \<and>
        s_finalized_at s' = s_finalized_at s)"
proof -
  have tt: "the_task db tid = t" using assms(2) by (simp add: the_task_def)
  have c: "d_operation d \<in> set comment_operations" using assms(5) by (auto simp: comment_operations_def)
  then obtain s where s: "delivery_comment_slot d db = Some s"
    using assms(1,3,4) by (auto simp: apply_delivery_success_def Let_def tt split: option.splits)
  let ?tr = "if d_operation d = ''review_placeholder'' then True
             else equals_int (jget (d_payload_json d) ''result_version'') (s_result_version s)"
  let ?s' = "slot_after_success t0 d ?tr s"
  let ?db1 = "upd_slot (s_id s) (\<lambda>_. ?s') db"
  have d: "the_delivery db did = d" using assms(4) by simp
  have db': "db' = upd_task tid (task_after_success t0 d ?tr (pending_mandatory tid did ?db1 = 0)) ?db1"
    using assms(1,3) c s by (simp add: apply_delivery_success_def Let_def tt d split: if_splits)
  have "t_id (task_after_success t0 d b f x) = t_id x" for b f x
    by (simp add: task_after_success_def Let_def split: option.splits)
  then have t': "get_task db' tid = Some (task_after_success t0 d ?tr (pending_mandatory tid did ?db1 = 0) t)"
    using assms(2) by (simp add: db' get_task_upd)
  have "t_status (task_after_success t0 d ?tr f t) = t_status t \<and> t_stage (task_after_success t0 d ?tr f t) = t_stage t \<and>
      t_completed_at (task_after_success t0 d ?tr f t) = t_completed_at t" for f
  proof (cases "d_operation d = ''review_placeholder''")
    case True
    then show ?thesis using assms(1,5) tt by (simp add: task_after_ended)
  next
    case False
    then show ?thesis using assms(5) s by (simp add: task_after_outdated)
  qed
  moreover have "s_status s' = s_status s \<and> s_last_error s' = s_last_error s \<and> s_finalized_at s' = s_finalized_at s"
    if "d_operation d \<noteq> ''review_placeholder''" "get_slot db' (s_id s) = Some s'" for s'
  proof -
    have "s_id ?s' = s_id s" by (simp add: slot_after_success_def Let_def)
    then have "get_slot ?db1 (s_id s) = map_option (\<lambda>_. ?s') (get_slot db (s_id s))"
      by (rule get_slot_replaced)
    then have "s' = ?s'" using that(2) unfolding db' get_slot_frame by (cases "get_slot db (s_id s)") simp_all
    then show ?thesis using that(1) assms(5) s by (auto simp: slot_after_success_def Let_def)
  qed
  ultimately show ?thesis using t' s by auto
qed

definition sample_slot_db :: "int \<Rightarrow> db" where
  "sample_slot_db v = sample_outbox_db\<lparr>
     slots := [(new_slot ''s1'' 0 ''r1'' ''gh'' ''o/r'' 1 ''head'' ''m'')\<lparr>s_status := ''ready'',
                 s_provider_comment_id := Some ''c0'', s_result_version := v\<rparr>],
     outbox := [(new_delivery ''d1'' 0 ''r1'' ''gh'' ''review_result'' ''pr:1'' ''k''
                  [(''slot_id'', JStr ''s1''), (''result_version'', JInt 1), (''status_text'', JStr ''x''),
                   (''final_status'', JStr ''completed'')] ''g'')]\<rparr>"

theorem outdated_delivery_does_not_advance_witness:
  "\<exists>t'. get_task (fst (apply_delivery_success 9 ''r1'' ''d1'' (sample_slot_db 2))) ''r1'' = Some t' \<and>
     t_status t' = ''queued'' \<and> t_completed_at t' = None"
proof -
  let ?db = "sample_slot_db 2"
  let ?a = "apply_delivery_success 9 ''r1'' ''d1'' ?db"
  let ?t = "new_task ''r1'' ''review'' 0"
  have "case snd ?a of Inl x \<Rightarrow> False | Inr u \<Rightarrow> True" by code_simp
  then have a: "?a = (fst ?a, Inr ())" by (cases ?a; cases "snd ?a") auto
  have t: "get_task ?db ''r1'' = Some ?t"
    by (simp add: sample_slot_db_def sample_outbox_db_def get_task_def new_task_def)
  have r: "is_review (the_task ?db ''r1'')"
    using t by (simp add: the_task_def is_review_def new_task_def)
  have v: "d_operation (the_delivery ?db ''d1'') = ''review_result''"
    "map_option s_result_version (delivery_comment_slot (the_delivery ?db ''d1'') ?db) = Some 2"
    "jget (d_payload_json (the_delivery ?db ''d1'')) ''result_version'' = JInt 1" by code_simp+
  then have "\<forall>s. delivery_comment_slot (the_delivery ?db ''d1'') ?db = Some s \<longrightarrow>
      \<not> equals_int (jget (d_payload_json (the_delivery ?db ''d1'')) ''result_version'') (s_result_version s)"
    by (auto simp: equals_int_def as_int_def)
  with v(1) have "d_operation (the_delivery ?db ''d1'') \<in> {''review_progress'', ''review_result''} \<and>
      (\<forall>s. delivery_comment_slot (the_delivery ?db ''d1'') ?db = Some s \<longrightarrow>
        \<not> equals_int (jget (d_payload_json (the_delivery ?db ''d1'')) ''result_version'') (s_result_version s))"
    by simp
  from outdated_delivery_does_not_advance[OF r t a refl disjI1[OF this]]
  obtain t' where "get_task (fst ?a) ''r1'' = Some t'" "t_status t' = t_status ?t" "t_completed_at t' = t_completed_at ?t"
    by blast
  then show ?thesis by (auto simp: new_task_def)
qed

lemma apply_success_shape:
  assumes "apply_delivery_success t0 tid did db = (db', Inr ())"
  shows "\<exists>db1 b. outbox db1 = outbox db \<and> tasks db1 = tasks db \<and>
     db' = upd_task tid (task_after_success t0 (the_delivery db did) b (pending_mandatory tid did db1 = 0)) db1"
proof (cases "is_review (the_task db tid) \<and> d_operation (the_delivery db did) \<in> set comment_operations")
  case False
  with assms show ?thesis by (intro exI[of _ db] exI[of _ True]) (simp add: apply_delivery_success_def Let_def)
next
  case True
  let ?d = "the_delivery db did"
  from True assms obtain s where s: "delivery_comment_slot ?d db = Some s"
    by (auto simp: apply_delivery_success_def Let_def split: option.splits)
  let ?b = "if d_operation ?d = ''review_placeholder'' then True
      else equals_int (jget (d_payload_json ?d) ''result_version'') (s_result_version s)"
  from True assms s show ?thesis
    by (intro exI[of _ "upd_slot (s_id s) (\<lambda>_. slot_after_success t0 ?d ?b s) db"] exI[of _ ?b])
       (simp add: apply_delivery_success_def Let_def split: if_splits)
qed

text \<open>
  A task counts as delivered only when nothing mandatory is left: if recording a success
  turns the task's delivery status to \<open>delivered\<close>, the delivery is mandatory and every other
  mandatory delivery of the task has already been delivered, failed or superseded; no delivery
  row changes.
\<close>

theorem delivered_only_when_nothing_pending:
  assumes "apply_delivery_success t0 tid did db = (db', Inr ())" and "outbox_ok db"
    and "get_task db tid = Some t" and "t_delivery_status t \<noteq> ''delivered''"
    and "get_task db' tid = Some t'" and "t_delivery_status t' = ''delivered''"
  shows "d_mandatory (the_delivery db did) \<and> outbox db' = outbox db \<and>
     (\<forall>o' \<in> set (outbox db). d_task_id o' = tid \<longrightarrow> d_mandatory o' \<longrightarrow> d_id o' \<noteq> did \<longrightarrow>
        d_status o' \<in> {''delivered'', ''failed'', ''superseded''})"
proof -
  let ?d = "the_delivery db did"
  obtain db1 b where db1: "outbox db1 = outbox db" "tasks db1 = tasks db"
    and db': "db' = upd_task tid (task_after_success t0 ?d b (pending_mandatory tid did db1 = 0)) db1"
    using apply_success_shape[OF assms(1)] by blast
  let ?f = "task_after_success t0 ?d b (pending_mandatory tid did db1 = 0)"
  have "t_id (?f x) = t_id x" for x
    by (simp add: task_after_success_def Let_def split: option.splits)
  then have t': "t' = ?f t"
    using assms(3,5) db1(2) by (simp add: db' get_task_upd get_task_def[of db1] get_task_def[of db])
  have m: "d_mandatory ?d \<and> pending_mandatory tid did db1 = 0"
    using assms(4,6) unfolding t' by (auto simp: task_after_success_def Let_def split: option.splits if_splits)
  then have "filter (\<lambda>d. d_task_id d = tid \<and> d_id d \<noteq> did \<and> d_mandatory d \<and> d_status d \<in> {''queued'', ''running''}) (outbox db) = []"
    by (simp add: pending_mandatory_def db1)
  then have "d_status o' \<notin> {''queued'', ''running''}"
    if "o' \<in> set (outbox db)" "d_task_id o' = tid" "d_mandatory o'" "d_id o' \<noteq> did" for o'
    using that by (auto simp: filter_empty_conv)
  moreover have "d_status o' \<in> {''queued'', ''running'', ''delivered'', ''failed'', ''superseded''}"
    if "o' \<in> set (outbox db)" for o'
    using assms(2) that unfolding outbox_ok_def coherent_def by blast
  ultimately have "\<forall>o' \<in> set (outbox db). d_task_id o' = tid \<longrightarrow> d_mandatory o' \<longrightarrow> d_id o' \<noteq> did \<longrightarrow>
        d_status o' \<in> {''delivered'', ''failed'', ''superseded''}"
    by blast
  then show ?thesis using m db1(1) by (simp add: db')
qed

theorem delivered_only_when_nothing_pending_witness:
  "let db = sample_slot_db 1; db' = fst (apply_delivery_success 9 ''r1'' ''d1'' db)
   in map t_delivery_status (tasks db') = [''delivered''] \<and> map t_status (tasks db') = [''completed''] \<and>
      d_mandatory (the_delivery db ''d1'') \<and> outbox db' = outbox db"
proof -
  let ?db = "sample_slot_db 1"
  let ?a = "apply_delivery_success 9 ''r1'' ''d1'' ?db"
  let ?t = "new_task ''r1'' ''review'' 0"
  have "case snd ?a of Inl x \<Rightarrow> False | Inr u \<Rightarrow> True" by code_simp
  then have a: "?a = (fst ?a, Inr ())" by (cases ?a; cases "snd ?a") auto
  have s: "map t_delivery_status (tasks (fst ?a)) = [''delivered'']" "map t_status (tasks (fst ?a)) = [''completed'']"
    by code_simp+
  have t: "get_task ?db ''r1'' = Some ?t"
    by (simp add: sample_slot_db_def sample_outbox_db_def get_task_def new_task_def)
  have n: "t_delivery_status ?t \<noteq> ''delivered''" by (simp add: new_task_def)
  have "map_option t_delivery_status (get_task (fst ?a) ''r1'') = Some ''delivered''" by code_simp
  then obtain t' where t': "get_task (fst ?a) ''r1'' = Some t'" "t_delivery_status t' = ''delivered''" by auto
  have ok: "outbox_ok ?db" by (simp add: outbox_ok_def sample_slot_db_def coherent_def unique_on_def)
  note p = delivered_only_when_nothing_pending[OF a ok t n t']
  show ?thesis unfolding Let_def by (intro conjI s p[THEN conjunct1] p[THEN conjunct2, THEN conjunct1])
qed

end
