(* ===== verification/Lifecycle.thy ===== *)
theory Lifecycle
  imports Outbox
begin

text \<open>
  The life of a review run in \<open>application/services.py\<close>: creating the record, requesting its
  placeholder comment, announcing progress and results through the outbox, cancelling and
  superseding. A run is created waiting for its placeholder; announcing a terminal status parks
  it in \<open>awaiting_delivery\<close> until the outbox has delivered the announcement.
\<close>

section \<open>Constants\<close>

definition terminal_statuses :: "string list" where
  "terminal_statuses = [''completed'', ''failed'', ''cancelled'', ''superseded'']"

definition cancellable_statuses :: "string list" where
  "cancellable_statuses = [''queued'', ''running'', ''awaiting_delivery'']"

definition active_review_statuses :: "string list" where
  "active_review_statuses = [''queued'', ''running'', ''awaiting_delivery'']"

definition rerun_source_statuses :: "string list" where
  "rerun_source_statuses = [''completed'', ''cancelled'']"

definition review_trigger_policy :: "string \<Rightarrow> string \<times> int" where
  "review_trigger_policy trigger =
     (if trigger \<in> {''retry'', ''dashboard_rerun''} then (''manual-review'', 60) else (''webhook-review'', 40))"

section \<open>Looking up runs\<close>

definition same_head :: "string \<Rightarrow> string \<Rightarrow> int \<Rightarrow> string \<Rightarrow> review_run \<Rightarrow> bool" where
  "same_head provider repo number head r \<longleftrightarrow>
     r_provider r = provider \<and> r_repo_full_name r = repo \<and> r_pull_request_number r = number \<and>
     r_head_sha r = head"

definition get_review_run_by_head :: "string \<Rightarrow> string \<Rightarrow> int \<Rightarrow> string \<Rightarrow> int \<Rightarrow> db \<Rightarrow> err + review_run option" where
  "get_review_run_by_head provider repo number head att db =
     (case filter (\<lambda>r. same_head provider repo number head r \<and> r_attempt r = att) (runs db) of
        [] \<Rightarrow> Inr None
      | [r] \<Rightarrow> Inr (Some r)
      | _ \<Rightarrow> Inl MultipleResultsFound)"

definition get_latest_review_run_by_head :: "string \<Rightarrow> string \<Rightarrow> int \<Rightarrow> string \<Rightarrow> db \<Rightarrow> review_run option" where
  "get_latest_review_run_by_head provider repo number head db =
     (case sort_key (\<lambda>r. - r_attempt r) (filter (same_head provider repo number head) (runs db)) of
        [] \<Rightarrow> None
      | r # _ \<Rightarrow> Some r)"

section \<open>Creating a run\<close>

record review_run_spec =
  sp_provider :: string
  sp_repo_full_name :: string
  sp_pull_request_number :: int
  sp_base_sha :: "string option"
  sp_head_sha :: string
  sp_force :: bool

definition run_task_row :: "string \<Rightarrow> time \<Rightarrow> review_run_spec \<Rightarrow> string \<Rightarrow> string option \<Rightarrow> task" where
  "run_task_row ident t spec trigger dedupe =
     (let repo = sp_provider spec @ ''/'' @ sp_repo_full_name spec;
          number = show_int (sp_pull_request_number spec)
      in (new_task ident ''review'' t)
           \<lparr>t_capability_id := ''code-review'', t_status := ''awaiting_delivery'',
            t_stage := Some ''placeholder_delivery_pending'', t_execution_status := ''pending'',
            t_delivery_status := ''pending'', t_queue := fst (review_trigger_policy trigger),
            t_priority := snd (review_trigger_policy trigger),
            t_effective_priority := snd (review_trigger_policy trigger), t_dedupe_key := dedupe,
            t_concurrency_key := Some (sp_provider spec @ '':'' @ sp_repo_full_name spec @ '':pr:'' @
               number @ '':head:'' @ sp_head_sha spec),
            t_resource_context_json := Some
              [(''repository'', JStr repo),
               (''pr_head'', JStr (repo @ ''/'' @ number @ ''/'' @ sp_head_sha spec))]\<rparr>)"

definition run_row :: "string \<Rightarrow> review_run_spec \<Rightarrow> string \<Rightarrow> string \<Rightarrow> int \<Rightarrow> review_run" where
  "run_row ident spec trigger trigger_event att =
     (new_run ident (sp_provider spec) (sp_repo_full_name spec) (sp_pull_request_number spec) (sp_head_sha spec))
       \<lparr>r_base_sha := sp_base_sha spec, r_attempt := att, r_trigger_type := trigger,
        r_trigger_event_id := Some trigger_event\<rparr>"

text \<open>\<open>uq_task_dedupe_key\<close> and \<open>uq_review_run_head\<close>\<close>

definition run_clash :: "task \<Rightarrow> review_run \<Rightarrow> db \<Rightarrow> bool" where
  "run_clash t r db \<longleftrightarrow>
     (t_dedupe_key t \<noteq> None \<and> (\<exists>u \<in> set (tasks db). t_dedupe_key u = t_dedupe_key t)) \<or>
     (\<exists>q \<in> set (runs db). same_head (r_provider r) (r_repo_full_name r) (r_pull_request_number r) (r_head_sha r) q \<and>
        r_attempt q = r_attempt r)"

definition create_review_run_record ::
  "env \<Rightarrow> review_run_spec \<Rightarrow> string \<Rightarrow> string \<Rightarrow> string option \<Rightarrow> db \<Rightarrow> db \<times> (err + string \<times> bool)" where
  "create_review_run_record e spec trigger trigger_event dedupe db =
     (let latest = get_latest_review_run_by_head (sp_provider spec) (sp_repo_full_name spec)
                     (sp_pull_request_number spec) (sp_head_sha spec) db
      in if latest \<noteq> None \<and> \<not> sp_force spec then (db, Inr (r_id (the latest), False))
         else (let att = (case latest of None \<Rightarrow> 1 | Some r \<Rightarrow> r_attempt r + 1);
                   ident = next_id e db;
                   t = run_task_row ident (now e) spec trigger dedupe;
                   r = run_row ident spec trigger trigger_event att
               in if run_clash t r db
                  then (case latest of
                          None \<Rightarrow> (draw db, Inl (IntegrityError ''uq_task_dedupe_key''))
                        | Some x \<Rightarrow> (draw db, Inr (r_id x, False)))
                  else (draw (db\<lparr>tasks := tasks db @ [t], runs := runs db @ [r]\<rparr>), Inr (ident, True))))"

section \<open>The comment slot and its messages\<close>

definition find_slot :: "db \<Rightarrow> string \<Rightarrow> comment_slot option" where
  "find_slot db rid = first_row (\<lambda>s. s_review_run_id s = rid) (slots db)"

definition placeholder_key :: "string \<Rightarrow> int \<Rightarrow> string" where
  "placeholder_key rid v = ''review:'' @ rid @ '':placeholder:v'' @ show_int v"

definition status_key :: "string \<Rightarrow> string \<Rightarrow> int \<Rightarrow> string" where
  "status_key rid text v = ''review:'' @ rid @ '':comment:'' @ text @ '':v'' @ show_int v"

definition slot_destination :: "string \<Rightarrow> string" where
  "slot_destination sid = ''review-comment-slot:'' @ sid"

definition create_slot :: "env \<Rightarrow> review_run \<Rightarrow> db \<Rightarrow> db \<times> string" where
  "create_slot e r db =
     (let sid = next_id e db
      in (draw (db\<lparr>slots := slots db @
            [new_slot sid (now e) (r_id r) (r_provider r) (r_repo_full_name r) (r_pull_request_number r)
               (r_head_sha r) (''review-orchestrator:summary:slot:'' @ sid)]\<rparr>), sid))"

definition execution_started :: "task \<Rightarrow> review_run \<Rightarrow> bool" where
  "execution_started t r \<longleftrightarrow>
     t_status t = ''running'' \<or> t_execution_status t = ''running'' \<or> r_agent_session_id r \<noteq> None"

definition parked :: "bool \<Rightarrow> task \<Rightarrow> task" where
  "parked started t =
     t\<lparr>t_status := ''awaiting_delivery'', t_stage := Some ''placeholder_delivery_pending'',
       t_execution_status := (if started then t_execution_status t else ''pending'')\<rparr>"

text \<open>The placeholder's payload says where the run resumes once the comment exists.\<close>

definition placeholder_payload :: "string \<Rightarrow> string \<Rightarrow> bool \<Rightarrow> string option \<Rightarrow> dict" where
  "placeholder_payload rid sid started stage =
     [(''slot_id'', JStr sid), (''review_run_id'', JStr rid), (''status_text'', JStr ''reviewing''),
      (''success_status'', JStr (if started then ''running'' else ''queued'')),
      (''success_stage'', jopt (if started then stage else Some ''placeholder_ready''))]"

definition request_placeholder :: "env \<Rightarrow> string \<Rightarrow> comment_slot \<Rightarrow> db \<Rightarrow> db \<times> (err + string)" where
  "request_placeholder e rid s db =
     (let key = placeholder_key rid (s_placeholder_version s);
          t = the_task db rid; r = the_run db rid; started = execution_started t r
      in if s_status s \<in> {''ready'', ''finalizing'', ''finalized''} \<or> find_delivery db key \<noteq> None
         then (db, Inr (s_id s))
         else and_then (enqueue_delivery e rid (r_provider r) ''review_placeholder'' (slot_destination (s_id s)) key
                 (placeholder_payload rid (s_id s) started (t_stage t)) True (Some 100) 0 False
                 (upd_task rid (parked started) db))
               (\<lambda>_ db2. (db2, Inr (s_id s))))"

definition ensure_review_placeholder_requested :: "env \<Rightarrow> string \<Rightarrow> db \<Rightarrow> db \<times> (err + string)" where
  "ensure_review_placeholder_requested e rid db =
     (case find_slot db rid of
        Some s \<Rightarrow> request_placeholder e rid s db
      | None \<Rightarrow> (case create_slot e (the_run db rid) db of
                   (db1, sid) \<Rightarrow> request_placeholder e rid (the_slot db1 sid) db1))"

definition announced_task :: "string \<Rightarrow> task \<Rightarrow> task" where
  "announced_task text t =
     (if text \<in> set terminal_statuses
      then t\<lparr>t_execution_status := (if text = ''superseded'' then ''cancelled'' else text),
             t_status := ''awaiting_delivery'', t_stage := Some (text @ ''_delivery_pending'')\<rparr>
      else t)"

definition announced_slot :: "string \<Rightarrow> comment_slot \<Rightarrow> comment_slot" where
  "announced_slot text s =
     (if text \<in> set terminal_statuses \<and> s_status s = ''ready'' then s\<lparr>s_status := ''finalizing''\<rparr> else s)
       \<lparr>s_result_version := s_result_version s + 1\<rparr>"

definition announce_payload :: "string \<Rightarrow> string \<Rightarrow> string \<Rightarrow> int \<Rightarrow> dict" where
  "announce_payload rid sid text version =
     [(''slot_id'', JStr sid), (''review_run_id'', JStr rid), (''status_text'', JStr text),
      (''result_version'', JInt version)] @
     (if text \<in> set terminal_statuses then [(''final_status'', JStr text), (''final_stage'', JStr text)] else [])"

definition announce :: "env \<Rightarrow> string \<Rightarrow> string \<Rightarrow> string \<Rightarrow> db \<Rightarrow> db \<times> (err + unit)" where
  "announce e rid text sid db =
     (let db1 = upd_slot sid (announced_slot text) (upd_task rid (announced_task text) db);
          version = s_result_version (the_slot db sid) + 1
      in and_then (enqueue_delivery e rid (r_provider (the_run db rid))
                     (if text \<in> set terminal_statuses then ''review_result'' else ''review_progress'')
                     (slot_destination sid) (status_key rid text version)
                     (announce_payload rid sid text version) True (Some 100) 0 False db1)
           (\<lambda>_ db2. (db2, Inr ())))"

definition enqueue_review_comment_status :: "env \<Rightarrow> string \<Rightarrow> string \<Rightarrow> db \<Rightarrow> db \<times> (err + unit)" where
  "enqueue_review_comment_status e rid text db =
     (case find_slot db rid of
        Some s \<Rightarrow> announce e rid text (s_id s) db
      | None \<Rightarrow> and_then (ensure_review_placeholder_requested e rid db)
                   (\<lambda>sid db1. announce e rid text sid db1))"

section \<open>Cancelling and superseding\<close>

definition cancel_review_run :: "env \<Rightarrow> string \<Rightarrow> db \<Rightarrow> db \<times> (err + string option)" where
  "cancel_review_run e rid db =
     (case get_run db rid of
        None \<Rightarrow> (db, Inr None)
      | Some r \<Rightarrow>
          (if t_status (the_task db rid) \<in> set cancellable_statuses
           then and_then (enqueue_review_comment_status e rid ''cancelled''
                   (upd_run rid (\<lambda>r. r\<lparr>r_failure_code := Some ''cancelled''\<rparr>)
                     (upd_task rid (\<lambda>t. t\<lparr>t_status := ''cancelled'', t_execution_status := ''cancelled''\<rparr>) db)))
                  (\<lambda>_ db1. (db1, Inr (Some rid)))
           else (db, Inr (Some rid))))"

text \<open>Ending the runs of a query one after another\<close>

fun end_runs :: "env \<Rightarrow> string \<Rightarrow> (task \<Rightarrow> task) \<Rightarrow> (review_run \<Rightarrow> review_run) \<Rightarrow> string list \<Rightarrow> db \<Rightarrow> db \<times> (err + unit)" where
  "end_runs e text f g [] db = (db, Inr ())"
| "end_runs e text f g (rid # rids) db =
     and_then (enqueue_review_comment_status e rid text (upd_run rid g (upd_task rid f db)))
       (\<lambda>_ db1. end_runs e text f g rids db1)"

definition runs_of_pr :: "string \<Rightarrow> string \<Rightarrow> int \<Rightarrow> (review_run \<Rightarrow> bool) \<Rightarrow> db \<Rightarrow> string list" where
  "runs_of_pr provider repo number P db =
     map r_id (filter (\<lambda>r. r_provider r = provider \<and> r_repo_full_name r = repo \<and>
        r_pull_request_number r = number \<and> P r \<and>
        t_status (the_task db (r_id r)) \<in> set cancellable_statuses) (runs db))"

definition cancel_active_review_runs_for_pr ::
  "env \<Rightarrow> string \<Rightarrow> string option \<Rightarrow> int option \<Rightarrow> string \<Rightarrow> db \<Rightarrow> db \<times> (err + string list)" where
  "cancel_active_review_runs_for_pr e provider repo number failure_code db =
     (case (repo, number) of
        (Some rp, Some n) \<Rightarrow>
          (let rids = runs_of_pr provider rp n (\<lambda>r. True) db
           in and_then (end_runs e ''cancelled''
                (\<lambda>t. t\<lparr>t_status := ''cancelled'', t_execution_status := ''cancelled'', t_stage := Some ''cleanup'',
                      t_completed_at := Some (now e)\<rparr>)
                (\<lambda>r. r\<lparr>r_failure_code := Some failure_code\<rparr>) rids db)
                (\<lambda>_ db1. (db1, Inr rids)))
      | _ \<Rightarrow> (db, Inr []))"

definition supersede_older_review_runs :: "env \<Rightarrow> string \<Rightarrow> db \<Rightarrow> db \<times> (err + string list)" where
  "supersede_older_review_runs e current db =
     (let c = the_run db current;
          rids = runs_of_pr (r_provider c) (r_repo_full_name c) (r_pull_request_number c)
                   (\<lambda>r. r_id r \<noteq> current \<and> r_head_sha r \<noteq> r_head_sha c) db
      in and_then (end_runs e ''superseded''
           (\<lambda>t. t\<lparr>t_status := ''superseded'', t_execution_status := ''cancelled'', t_stage := Some ''cleanup'',
                 t_completed_at := Some (now e)\<rparr>)
           (\<lambda>r. r\<lparr>r_failure_code := Some ''superseded_by_new_head'',
                 r_superseded_by_review_run_id := Some current\<rparr>) rids db)
           (\<lambda>_ db1. (db1, Inr rids)))"

definition cancel_active_agent_tasks_for_pr ::
  "string \<Rightarrow> string option \<Rightarrow> int option \<Rightarrow> string \<Rightarrow> db \<Rightarrow> db \<times> string list" where
  "cancel_active_agent_tasks_for_pr provider repo number failure_code db =
     (case (repo, number) of
        (Some rp, Some n) \<Rightarrow>
          (let ids = map a_id (filter (\<lambda>a. a_provider a = provider \<and> a_repo_full_name a = rp \<and>
                       a_pull_request_number a = n \<and> a_task_type a = ''message_command'' \<and>
                       t_status (the_task db (a_id a)) \<in> {''queued'', ''running''}) (agents db))
           in (db\<lparr>tasks := upd_where (\<lambda>t. t_id t \<in> set ids)
                     (\<lambda>t. t\<lparr>t_status := ''running'', t_stage := Some ''cancellation_pending'',
                            t_lock_owner := None, t_locked_until := None\<rparr>) (tasks db),
                  agents := upd_where (\<lambda>a. a_id a \<in> set ids)
                     (\<lambda>a. a\<lparr>a_failure_code := Some failure_code,
                            a_error_message := Some ''Pull request closed before the command completed.''\<rparr>) (agents db)\<rparr>,
               ids))
      | _ \<Rightarrow> (db, []))"

definition get_or_create_review_config :: "env \<Rightarrow> string \<Rightarrow> string \<Rightarrow> string \<Rightarrow> string \<Rightarrow> db \<Rightarrow> db \<times> string" where
  "get_or_create_review_config e provider repo skill command_skill db =
     (case first_row (\<lambda>c. rc_provider c = provider \<and> rc_repo_full_name c = repo) (configs db) of
        Some c \<Rightarrow> (db, rc_id c)
      | None \<Rightarrow>
          (draw (db\<lparr>configs := configs db @
             [(new_config (next_id e db) (now e) provider repo)
                \<lparr>rc_default_review_skill := skill, rc_default_agent_command_skill := command_skill\<rparr>]\<rparr>),
           next_id e db))"

definition build_coalesce_key :: "string \<Rightarrow> string option \<Rightarrow> int option \<Rightarrow> string option \<Rightarrow> string option" where
  "build_coalesce_key provider repo number head =
     (case (repo, number) of
        (Some rp, Some n) \<Rightarrow>
          Some (provider @ '':'' @ rp @ '':'' @ show_int n @ '':'' @
                (if has_text head then the head @ '':review'' else ''lifecycle''))
      | _ \<Rightarrow> None)"

section \<open>Effects\<close>

text \<open>The tables a message leaves alone: everything but the outbox and the task's delivery status.\<close>

lemma enqueue_frame [simp]:
  "runs (fst (enqueue_delivery e tid p op dst key pl m pr ma sp db)) = runs db"
  "slots (fst (enqueue_delivery e tid p op dst key pl m pr ma sp db)) = slots db"
  "contexts (fst (enqueue_delivery e tid p op dst key pl m pr ma sp db)) = contexts db"
  "inbox (fst (enqueue_delivery e tid p op dst key pl m pr ma sp db)) = inbox db"
  "agents (fst (enqueue_delivery e tid p op dst key pl m pr ma sp db)) = agents db"
  "leases (fst (enqueue_delivery e tid p op dst key pl m pr ma sp db)) = leases db"
  by (simp_all add: enqueue_delivery_def Let_def split: option.splits)

definition with_pending :: "task \<Rightarrow> task" where
  "with_pending t = t\<lparr>t_delivery_status := ''pending''\<rparr>"

lemma with_pending_simps [simp]:
  "t_id (with_pending t) = t_id t" "t_status (with_pending t) = t_status t"
  "t_stage (with_pending t) = t_stage t" "t_execution_status (with_pending t) = t_execution_status t"
  "t_delivery_status (with_pending t) = ''pending''" "t_completed_at (with_pending t) = t_completed_at t"
  "t_kind (with_pending t) = t_kind t"
  by (simp_all add: with_pending_def)

text \<open>A message under a new key is accepted; under a used key it needs the very same payload.\<close>

lemma enqueue_new:
  assumes "find_delivery db key = None"
  shows "\<exists>db' row. enqueue_delivery e tid p op dst key pl True pr ma False db = (db', Inr (next_id e db)) \<and>
     tasks db' = upd_where (\<lambda>t. t_id t = tid) with_pending (tasks db) \<and> outbox db' = outbox db @ [row] \<and>
     d_id row = next_id e db \<and> d_task_id row = tid \<and> d_provider row = p \<and> d_operation row = op \<and>
     d_destination_key row = dst \<and> d_idempotency_key row = key \<and> d_payload_json row = pl \<and>
     d_mandatory row \<and> d_status row = ''queued'' \<and> d_max_attempts row = ma \<and> d_attempt row = 0 \<and>
     drawn db' = Suc (drawn db)"
  using assms
  by (auto simp: enqueue_delivery_def Let_def with_pending_def[abs_def] new_delivery_def next_id_def)

lemma enqueue_tasks:
  "enqueue_delivery e tid p op dst key pl True pr ma False db = (db', Inr i) \<Longrightarrow>
     tasks db' = upd_where (\<lambda>t. t_id t = tid) with_pending (tasks db) \<or> db' = db"
  by (auto simp: enqueue_delivery_def Let_def with_pending_def[abs_def] split: option.splits if_splits)

lemma get_task_tasks: "tasks db' = tasks db \<Longrightarrow> get_task db' j = get_task db j"
  by (simp add: get_task_def)

lemma get_task_where:
  assumes "tasks db' = upd_where (\<lambda>t. t_id t = i) f (tasks db)" and "\<And>t. t_id (f t) = t_id t"
  shows "get_task db' j = (if j = i then map_option f (get_task db j) else get_task db j)"
  using get_task_upd[of f i db j] assms by (simp add: get_task_def)

lemma enqueue_task:
  assumes "enqueue_delivery e tid p op dst key pl True pr ma False db = (db', Inr i)"
  shows "get_task db' j = get_task db j \<or> (j = tid \<and> get_task db' j = map_option with_pending (get_task db j))"
proof (rule disjE[OF enqueue_tasks[OF assms]])
  assume "tasks db' = upd_where (\<lambda>t. t_id t = tid) with_pending (tasks db)"
  from get_task_where[OF this, of j] show ?thesis by simp
qed simp

lemma enqueue_tables:
  assumes "enqueue_delivery e tid p op dst key pl m pr ma sp db = (db', r)"
  shows "runs db' = runs db" "slots db' = slots db" "contexts db' = contexts db" "inbox db' = inbox db"
    "agents db' = agents db" "leases db' = leases db"
  using enqueue_frame[of e tid p op dst key pl m pr ma sp db] unfolding assms by simp_all

lemma parked_simps [simp]:
  "t_id (parked b t) = t_id t" "t_completed_at (parked b t) = t_completed_at t"
  "t_status (parked b t) = ''awaiting_delivery''"
  by (simp_all add: parked_def)

lemma announced_task_simps [simp]:
  "t_id (announced_task text t) = t_id t" "t_completed_at (announced_task text t) = t_completed_at t"
  by (simp_all add: announced_task_def)

lemma announced_slot_simps [simp]:
  "s_id (announced_slot text s) = s_id s" "s_review_run_id (announced_slot text s) = s_review_run_id s"
  "s_result_version (announced_slot text s) = s_result_version s + 1"
  by (simp_all add: announced_slot_def)

text \<open>Requesting a placeholder changes the run's own task only, and no run.\<close>

lemma placeholder_frame:
  assumes "request_placeholder e rid s db = (db', Inr sid)"
  shows "sid = s_id s \<and> runs db' = runs db \<and> slots db' = slots db \<and> contexts db' = contexts db \<and>
     inbox db' = inbox db \<and> (\<forall>j. j \<noteq> rid \<longrightarrow> get_task db' j = get_task db j) \<and>
     (\<forall>t. get_task db rid = Some t \<longrightarrow> (\<exists>t'. get_task db' rid = Some t' \<and> t_completed_at t' = t_completed_at t))"
proof (cases "s_status s \<in> {''ready'', ''finalizing'', ''finalized''} \<or>
      find_delivery db (placeholder_key rid (s_placeholder_version s)) \<noteq> None")
  case True
  then have "request_placeholder e rid s db = (db, Inr (s_id s))"
    by (simp add: request_placeholder_def Let_def)
  with assms show ?thesis by auto
next
  case False
  let ?started = "execution_started (the_task db rid) (the_run db rid)"
  let ?db1 = "upd_task rid (parked ?started) db"
  obtain i where sid: "sid = s_id s" and
    q: "enqueue_delivery e rid (r_provider (the_run db rid)) ''review_placeholder'' (slot_destination (s_id s))
          (placeholder_key rid (s_placeholder_version s))
          (placeholder_payload rid (s_id s) ?started (t_stage (the_task db rid))) True (Some 100) 0 False ?db1 = (db', Inr i)"
    using assms False by (auto simp: request_placeholder_def Let_def and_then_Inr)
  have g: "get_task ?db1 j = (if j = rid then map_option (parked ?started) (get_task db j) else get_task db j)" for j
    by (rule get_task_upd) simp
  have "get_task db' j = get_task db j" if "j \<noteq> rid" for j
    using enqueue_task[OF q, of j] that g[of j] by simp
  moreover have "\<exists>t'. get_task db' rid = Some t' \<and> t_completed_at t' = t_completed_at t"
    if "get_task db rid = Some t" for t
    using enqueue_task[OF q, of rid] that g[of rid] by auto
  ultimately show ?thesis using enqueue_tables[OF q] sid by simp
qed

text \<open>Announcing raises the slot's version by one and parks the run on a terminal status.\<close>

lemma announce_effect:
  assumes "announce e rid text sid db = (db', Inr ())"
  shows "runs db' = runs db \<and> contexts db' = contexts db \<and> inbox db' = inbox db \<and>
     slots db' = upd_where (\<lambda>s. s_id s = sid) (announced_slot text) (slots db) \<and>
     (\<forall>j. j \<noteq> rid \<longrightarrow> get_task db' j = get_task db j) \<and>
     (\<forall>t. get_task db rid = Some t \<longrightarrow>
        get_task db' rid \<in> {Some (announced_task text t), Some (with_pending (announced_task text t))})"
proof -
  let ?db1 = "upd_slot sid (announced_slot text) (upd_task rid (announced_task text) db)"
  let ?v = "s_result_version (the_slot db sid) + 1"
  obtain i where
    q: "enqueue_delivery e rid (r_provider (the_run db rid))
          (if text \<in> set terminal_statuses then ''review_result'' else ''review_progress'')
          (slot_destination sid) (status_key rid text ?v) (announce_payload rid sid text ?v) True (Some 100) 0 False ?db1 = (db', Inr i)"
    using assms by (auto simp: announce_def Let_def and_then_Inr)
  have g: "get_task ?db1 j = (if j = rid then map_option (announced_task text) (get_task db j) else get_task db j)" for j
    using get_task_upd[of "announced_task text" rid db j] by simp
  have "get_task db' j = get_task db j" if "j \<noteq> rid" for j
    using enqueue_task[OF q, of j] that g[of j] by simp
  moreover have "get_task db' rid \<in> {Some (announced_task text t), Some (with_pending (announced_task text t))}"
    if "get_task db rid = Some t" for t
    using enqueue_task[OF q, of rid] that g[of rid] by auto
  ultimately show ?thesis using enqueue_tables[OF q] by simp
qed

end
