(* ===== verification/Actions.thy ===== *)
theory Actions
  imports Lifecycle
begin

text \<open>
  Review requests in \<open>application/services.py\<close>: the single entry point that creates review runs
  (\<open>handle_review_requested\<close>), the rules for retrying a failed run and rerunning a finished one,
  and the idempotent requests for them from the dashboard and from the agent. The texts shown to
  users are in Chinese in the code; here they stand in English, their codes are the code's.
\<close>

section \<open>Contexts and events\<close>

definition find_context :: "db \<Rightarrow> string \<Rightarrow> string \<Rightarrow> int \<Rightarrow> pull_request_context option" where
  "find_context db provider repo number =
     first_row (\<lambda>c. c_provider c = provider \<and> c_repo_full_name c = repo \<and> c_pull_request_number c = number)
       (contexts db)"

definition pull_request_context_for_run :: "review_run \<Rightarrow> db \<Rightarrow> pull_request_context option" where
  "pull_request_context_for_run r db =
     (case (if has_text (r_pull_request_context_id r)
            then get_context db (the (r_pull_request_context_id r)) else None) of
        Some c \<Rightarrow> Some c
      | None \<Rightarrow> find_context db (r_provider r) (r_repo_full_name r) (r_pull_request_number r))"

definition get_provider_event :: "db \<Rightarrow> string \<Rightarrow> string \<Rightarrow> provider_event option" where
  "get_provider_event db provider delivery_id =
     first_row (\<lambda>v. ev_provider v = provider \<and> ev_delivery_id v = delivery_id) (inbox db)"

definition is_open :: "pull_request_context \<Rightarrow> bool" where
  "is_open c \<longleftrightarrow> str_lower (c_status c) \<in> {''open'', ''opened''}"

section \<open>Availability\<close>

record availability =
  av_allowed :: bool
  av_reason_code :: string
  av_message :: string
  av_next_attempt :: "int option"
  av_existing_run :: "string option"
  av_base_sha :: "string option"
  av_head_sha :: "string option"

definition refuse :: "string \<Rightarrow> string \<Rightarrow> string option \<Rightarrow> pull_request_context option \<Rightarrow> availability" where
  "refuse reason message existing c =
     \<lparr>av_allowed = False, av_reason_code = reason, av_message = message, av_next_attempt = None,
      av_existing_run = existing, av_base_sha = (case c of None \<Rightarrow> None | Some x \<Rightarrow> c_base_sha x),
      av_head_sha = map_option c_head_sha c\<rparr>"

text \<open>The newest active run of the head other than the source\<close>

definition active_run :: "review_run \<Rightarrow> db \<Rightarrow> string option" where
  "active_run r db =
     (case rev (sort_key (\<lambda>x. (t_created_at (the_task db (r_id x)), r_id x))
             (filter (\<lambda>x. same_head (r_provider r) (r_repo_full_name r) (r_pull_request_number r) (r_head_sha r) x \<and>
                          r_id x \<noteq> r_id r \<and> t_status (the_task db (r_id x)) \<in> set active_review_statuses)
                (runs db))) of
        [] \<Rightarrow> None
      | x # _ \<Rightarrow> Some (r_id x))"

definition source_review_action_availability ::
  "string \<Rightarrow> string \<Rightarrow> string list \<Rightarrow> pull_request_context option \<Rightarrow> db \<Rightarrow> availability" where
  "source_review_action_availability rid action allowed context0 db =
     (let r = the_run db rid; status = t_status (the_task db rid);
          context = (case context0 of Some c \<Rightarrow> Some c | None \<Rightarrow> pull_request_context_for_run r db)
      in if status \<notin> set allowed
         then (if status = ''superseded''
               then refuse ''revision_not_current'' ''The run reviewed an old revision; review the latest one.'' None context
               else if action = ''retry''
               then refuse ''run_not_failed'' ''Only failed reviews can be retried.'' None context
               else if status = ''failed''
               then refuse ''failed_run_requires_retry'' ''Failed reviews must use retry.'' None context
               else refuse ''run_not_terminal'' ''The review has not finished.'' None context)
         else (case context of
                 None \<Rightarrow> refuse ''missing_pr_context'' ''The pull request context is missing.'' None None
               | Some c \<Rightarrow>
                   (if \<not> is_open c
                    then refuse ''pull_request_closed'' ''The pull request is closed.'' None context
                    else if \<not> has_text (r_base_sha r)
                    then refuse ''base_revision_missing'' ''The source run has no base commit.'' None context
                    else if r_head_sha r \<noteq> c_head_sha c \<or> (c_base_sha c \<noteq> None \<and> r_base_sha r \<noteq> c_base_sha c)
                    then refuse ''revision_not_current'' ''The reviewed revision is out of date.'' None context
                    else (case active_run r db of
                            Some a \<Rightarrow> refuse ''active_review_exists'' ''A review of this revision is active.'' (Some a) context
                          | None \<Rightarrow>
                              \<lparr>av_allowed = True, av_reason_code = action @ ''_allowed'',
                               av_message = (if action = ''retry'' then ''The failed review can be retried once.''
                                             else ''The revision can be reviewed again.''),
                               av_next_attempt = Some
                                 ((case get_latest_review_run_by_head (r_provider r) (r_repo_full_name r)
                                          (r_pull_request_number r) (r_head_sha r) db of
                                     None \<Rightarrow> r_attempt r
                                   | Some l \<Rightarrow> r_attempt l) + 1),
                               av_existing_run = None, av_base_sha = c_base_sha c,
                               av_head_sha = Some (c_head_sha c)\<rparr>))))"

definition rerun_availability :: "string \<Rightarrow> pull_request_context option \<Rightarrow> db \<Rightarrow> availability" where
  "rerun_availability rid context db =
     source_review_action_availability rid ''rerun'' rerun_source_statuses context db"

definition retry_events :: "review_run \<Rightarrow> db \<Rightarrow> provider_event list" where
  "retry_events r db =
     sort_key (\<lambda>v. - ev_created_at v)
       (filter (\<lambda>v. ev_provider v = ''internal'' \<and> ev_provider_action v = Some ''retry'' \<and>
          ev_internal_event v = Some ''review_requested'' \<and> ev_repo_full_name v = Some (r_repo_full_name r) \<and>
          ev_pull_request_number v = Some (r_pull_request_number r)) (inbox db))"

definition retry_availability :: "string \<Rightarrow> pull_request_context option \<Rightarrow> string option \<Rightarrow> db \<Rightarrow> availability" where
  "retry_availability rid context request_event db =
     (let r = the_run db rid in
      case first_row (\<lambda>v. jget (ev_payload v) ''source_review_run_id'' = JStr rid) (retry_events r db) of
        Some v \<Rightarrow>
          (if Some (ev_id v) \<noteq> request_event
           then (if has_text (ev_review_run_id v)
                 then refuse ''retry_already_requested'' ''The failed review has been retried already.''
                        (ev_review_run_id v) context
                 else refuse (str_or (ev_error_code v) ''retry_request_pending'')
                        (str_or (ev_error_message v) ''A retry request is being processed.'') None context)
           else source_review_action_availability rid ''retry'' [''failed''] context db)
      | None \<Rightarrow> source_review_action_availability rid ''retry'' [''failed''] context db)"

section \<open>Handling a request\<close>

record review_request =
  qs_reason :: string
  qs_trigger_event_id :: string
  qs_pull_request_context_id :: string
  qs_source_run_id :: "string option"
  qs_dedupe_key :: "string option"

definition rejected :: "string \<Rightarrow> string \<Rightarrow> string \<Rightarrow> string option \<Rightarrow> err" where
  "rejected message reason event existing = RequestRejected message reason event existing"

definition trigger_type_of :: "string \<Rightarrow> err + string" where
  "trigger_type_of reason =
     (if reason = ''automatic'' then Inr ''webhook''
      else if reason = ''mention'' then Inr ''mention''
      else if reason = ''retry'' then Inr ''retry''
      else if reason = ''rerun'' then Inr ''dashboard_rerun''
      else Inl (KeyError reason))"

text \<open>The revision a request asks to review and whether a new run is forced\<close>

definition requested_revision :: "review_request \<Rightarrow> pull_request_context \<Rightarrow> db \<Rightarrow> err + (string option \<times> string \<times> bool)" where
  "requested_revision q c db =
     (if has_text (qs_source_run_id q)
      then (let sid = the (qs_source_run_id q) in
            case get_run db sid of
              None \<Rightarrow> Inl (rejected ''The source review is missing.'' ''source_review_run_missing'' (qs_trigger_event_id q) None)
            | Some s \<Rightarrow>
                (if (r_provider s, r_repo_full_name s, r_pull_request_number s) \<noteq>
                    (c_provider c, c_repo_full_name c, c_pull_request_number c)
                 then Inl (rejected ''The source review is of another pull request.'' ''source_context_mismatch''
                             (qs_trigger_event_id q) None)
                 else (let av = (if qs_reason q = ''retry''
                                 then retry_availability sid (Some c) (Some (qs_trigger_event_id q)) db
                                 else rerun_availability sid (Some c) db)
                       in if \<not> av_allowed av
                          then Inl (rejected (av_message av) (av_reason_code av) (qs_trigger_event_id q) (av_existing_run av))
                          else Inr (r_base_sha s, r_head_sha s, True))))
      else if \<not> has_text (c_base_sha c)
      then Inl (rejected ''The pull request context has no base commit.'' ''base_revision_missing'' (qs_trigger_event_id q) None)
      else Inr (c_base_sha c, c_head_sha c, qs_reason q = ''mention''))"

text \<open>
  The run is linked with its context; a new one asks for its placeholder, and an automatic one
  replaces the runs of older heads.
\<close>

definition adopt_run ::
  "env \<Rightarrow> string \<Rightarrow> pull_request_context \<Rightarrow> string \<Rightarrow> bool \<Rightarrow> db \<Rightarrow> db \<times> (err + string \<times> bool)" where
  "adopt_run e reason c rid created db =
     (let db2 = upd_context (c_id c) (\<lambda>c. c\<lparr>c_latest_review_run_id := Some rid\<rparr>)
                  (upd_run rid (\<lambda>r. r\<lparr>r_pull_request_context_id := Some (c_id c)\<rparr>) db)
      in if \<not> created then (db2, Inr (rid, created))
         else and_then (ensure_review_placeholder_requested e rid db2)
                (\<lambda>_ db3.
                   if reason = ''automatic''
                   then and_then (supersede_older_review_runs e rid db3) (\<lambda>_ db4. (db4, Inr (rid, created)))
                   else (db3, Inr (rid, created))))"

definition handle_review_requested :: "env \<Rightarrow> review_request \<Rightarrow> db \<Rightarrow> db \<times> (err + string \<times> bool)" where
  "handle_review_requested e q db =
     (case get_event db (qs_trigger_event_id q) of
        None \<Rightarrow> (db, Inl (ValueError ''Review request trigger event does not exist.''))
      | Some v \<Rightarrow>
          (if (qs_reason q \<in> {''retry'', ''rerun''}) \<noteq> (qs_source_run_id q \<noteq> None)
           then (db, Inl (ValueError ''Retry and rerun requests must reference exactly one source review run.''))
           else (case get_context db (qs_pull_request_context_id q) of
                   None \<Rightarrow> (db, Inl (rejected ''The pull request context is missing.'' ''missing_pr_context'' (ev_id v) None))
                 | Some c \<Rightarrow>
                     (if \<not> is_open c
                      then (db, Inl (rejected ''The pull request is closed.'' ''pull_request_closed'' (ev_id v) None))
                      else (case requested_revision q c db of
                              Inl x \<Rightarrow> (db, Inl x)
                            | Inr (base, head, force) \<Rightarrow>
                                (case trigger_type_of (qs_reason q) of
                                   Inl x \<Rightarrow> (db, Inl x)
                                 | Inr trigger \<Rightarrow>
                                     and_then (create_review_run_record e
                                         \<lparr>sp_provider = c_provider c, sp_repo_full_name = c_repo_full_name c,
                                          sp_pull_request_number = c_pull_request_number c, sp_base_sha = base,
                                          sp_head_sha = head, sp_force = force\<rparr>
                                         trigger (ev_id v) (qs_dedupe_key q) db)
                                       (\<lambda>(rid, created) db1. adopt_run e (qs_reason q) c rid created db1)))))))"

section \<open>Requests for a retry or a rerun\<close>

record request_result =
  rs_source_run_id :: string
  rs_event_id :: string
  rs_run_id :: string
  rs_attempt :: int
  rs_run_status :: string
  rs_deduplicated :: bool

definition review_request_result :: "string \<Rightarrow> string \<Rightarrow> string \<Rightarrow> bool \<Rightarrow> db \<Rightarrow> request_result" where
  "review_request_result source event rid dedup db =
     \<lparr>rs_source_run_id = source, rs_event_id = event, rs_run_id = rid, rs_attempt = r_attempt (the_run db rid),
      rs_run_status = t_status (the_task db rid), rs_deduplicated = dedup\<rparr>"

definition reject_review_request :: "env \<Rightarrow> string \<Rightarrow> string \<Rightarrow> string \<Rightarrow> string option \<Rightarrow> db \<Rightarrow> db \<times> (err + 'a)" where
  "reject_review_request e eid reason message existing db =
     (upd_event eid (\<lambda>v. v\<lparr>ev_status := ''rejected'', ev_error_code := Some reason,
         ev_error_message := Some message, ev_processed_at := Some (now e)\<rparr>) db,
      Inl (RequestRejected message reason eid existing))"

definition request_payload :: "review_run \<Rightarrow> string \<Rightarrow> dict" where
  "request_payload r trigger =
     [(''schema_version'', JStr ''1''), (''target_provider'', JStr (r_provider r)),
      (''trigger_type'', JStr trigger), (''source_review_run_id'', JStr (r_id r)),
      (''revision_policy'', JStr ''source_run''),
      (''revision'', JObj [(''base_sha'', jopt (r_base_sha r)), (''head_sha'', JStr (r_head_sha r))])]"

definition request_event :: "env \<Rightarrow> string \<Rightarrow> review_run \<Rightarrow> string \<Rightarrow> string \<Rightarrow> provider_event" where
  "request_event e ident r action delivery_id =
     (let payload = request_payload r (if action = ''retry'' then ''retry'' else ''dashboard_rerun'') in
      (new_event ident (now e) ''internal'' delivery_id ''review_request'' delivery_id
         (sha256 e (json_dumps (JObj payload))) payload)
        \<lparr>ev_provider_action := Some action, ev_internal_event := Some ''review_requested'',
         ev_repo_full_name := Some (r_repo_full_name r),
         ev_pull_request_number := Some (r_pull_request_number r), ev_head_sha := Some (r_head_sha r),
         ev_coalesce_key := Some (''review-request:'' @ r_provider r @ '':'' @ r_id r @ '':'' @ action)\<rparr>)"

definition answer_existing_request :: "string \<Rightarrow> provider_event \<Rightarrow> db \<Rightarrow> db \<times> (err + request_result option)" where
  "answer_existing_request rid v db =
     (if jget (ev_payload v) ''source_review_run_id'' \<noteq> JStr rid
      then (db, Inl (rejected ''The idempotency key belongs to another review request.'' ''idempotency_conflict''
                       (ev_id v) (ev_review_run_id v)))
      else (case (if has_text (ev_review_run_id v) then get_run db (the (ev_review_run_id v)) else None) of
              Some x \<Rightarrow> (db, Inr (Some (review_request_result rid (ev_id v) (r_id x) True db)))
            | None \<Rightarrow> (db, Inl (rejected (str_or (ev_error_message v) ''The review request created no run.'')
                               (str_or (ev_error_code v) ''review_request_not_queued'') (ev_id v) None))))"

text \<open>
  Without concurrent writers the insert of the event cannot clash, its delivery id has just been
  looked up; the retry of the whole call on a clash is left out.
\<close>

definition submit_request ::
  "env \<Rightarrow> string \<Rightarrow> review_run \<Rightarrow> string \<Rightarrow> string \<Rightarrow> db \<Rightarrow> db \<times> (err + request_result option)" where
  "submit_request e eid source action delivery_id db1 =
     (let rid = r_id source;
          context = pull_request_context_for_run source db1;
          av = (if action = ''retry'' then retry_availability rid context (Some eid) db1
                else rerun_availability rid context db1)
      in if \<not> av_allowed av
         then reject_review_request e eid (av_reason_code av) (av_message av) (av_existing_run av) db1
         else (case context of
                 None \<Rightarrow> (db1, Inl (AssertionFailed ''allowed review request is missing PR context''))
               | Some c \<Rightarrow>
                   (case handle_review_requested e
                           \<lparr>qs_reason = action, qs_trigger_event_id = eid,
                            qs_pull_request_context_id = c_id c, qs_source_run_id = Some rid,
                            qs_dedupe_key = Some delivery_id\<rparr> db1 of
                      (db2, Inl (RequestRejected m k ev ex)) \<Rightarrow> reject_review_request e eid k m ex db2
                    | (db2, Inl x) \<Rightarrow> (db2, Inl x)
                    | (db2, Inr (new, created)) \<Rightarrow>
                        (let db3 = upd_event eid (\<lambda>v. v\<lparr>ev_status := ''queued'',
                                     ev_review_run_id := Some new, ev_processed_at := Some (now e)\<rparr>) db2
                         in (db3, Inr (Some (review_request_result rid eid new (\<not> created) db3)))))))"

definition request_source_review_action ::
  "env \<Rightarrow> string \<Rightarrow> string \<Rightarrow> string \<Rightarrow> db \<Rightarrow> db \<times> (err + request_result option)" where
  "request_source_review_action e rid action delivery_id db =
     (case get_provider_event db ''internal'' delivery_id of
        Some v \<Rightarrow> answer_existing_request rid v db
      | None \<Rightarrow>
          (case get_run db rid of
             None \<Rightarrow> (db, Inr None)
           | Some source \<Rightarrow>
               submit_request e (next_id e db) source action delivery_id
                 (draw (db\<lparr>inbox := inbox db @ [request_event e (next_id e db) source action delivery_id]\<rparr>))))"

definition request_review_rerun :: "env \<Rightarrow> string \<Rightarrow> string \<Rightarrow> db \<Rightarrow> db \<times> (err + request_result option)" where
  "request_review_rerun e rid idempotency_key db =
     request_source_review_action e rid ''rerun'' (''dashboard-rerun:'' @ idempotency_key) db"

definition request_review_retry :: "env \<Rightarrow> string \<Rightarrow> db \<Rightarrow> db \<times> (err + request_result option)" where
  "request_review_retry e rid db =
     request_source_review_action e rid ''retry'' (''review-retry:'' @ rid) db"

section \<open>Requests from the agent\<close>

definition action_rejected :: "string \<Rightarrow> string \<Rightarrow> err" where
  "action_rejected message reason = ActionRejected message reason"

definition require_found :: "db \<times> (err + request_result option) \<Rightarrow> db \<times> (err + request_result option)" where
  "require_found r =
     and_then r (\<lambda>v db. case v of
        None \<Rightarrow> (db, Inl (action_rejected ''The source review no longer exists.'' ''review_run_not_found''))
      | Some x \<Rightarrow> (db, Inr (Some x)))"

definition request_review_action_from_agent ::
  "env \<Rightarrow> string \<Rightarrow> string \<Rightarrow> string \<Rightarrow> db \<Rightarrow> db \<times> (err + request_result option)" where
  "request_review_action_from_agent e tid session_id action db =
     (case get_agent db tid of
        None \<Rightarrow> (db, Inr None)
      | Some a \<Rightarrow>
          (let t = the_task db tid in
           if a_task_type a \<noteq> ''message_command'' \<or> t_status t \<noteq> ''running'' \<or>
              t_stage t \<notin> {Some ''starting_agent'', Some ''waiting_for_agent''}
           then (db, Inl (action_rejected ''Review actions are only available to a running message command.''
                            ''agent_task_not_running''))
           else if a_agent_session_id a \<noteq> None \<and> a_agent_session_id a \<noteq> Some session_id
           then (db, Inl (action_rejected ''The pi-agent session does not own this message command.''
                            ''agent_session_mismatch''))
           else if \<not> has_text (a_head_sha a)
           then (db, Inl (action_rejected ''The message command is missing its pull-request revision.''
                            ''agent_task_revision_missing''))
           else (let db1 = (if a_agent_session_id a = None
                            then upd_agent tid (\<lambda>a. a\<lparr>a_agent_session_id := Some session_id\<rparr>) db else db);
                     delivery_id = ''agent-review-action:'' @ tid @ '':'' @ action
                 in case get_provider_event db1 ''internal'' delivery_id of
                      Some v \<Rightarrow>
                        (case str_or_none (jget (ev_payload v) ''source_review_run_id'') of
                           None \<Rightarrow> (db1, Inl (action_rejected
                                     ''The existing Agent review request is missing its source review.''
                                     ''agent_review_action_invalid''))
                         | Some source \<Rightarrow> require_found (request_source_review_action e source action delivery_id db1))
                    | None \<Rightarrow>
                        (case get_latest_review_run_by_head (a_provider a) (a_repo_full_name a)
                                (a_pull_request_number a) (the (a_head_sha a)) db1 of
                           None \<Rightarrow> (db1, Inl (action_rejected ''No review exists for the current pull-request revision.''
                                     ''review_run_not_found''))
                         | Some s \<Rightarrow>
                             (let status = t_status (the_task db1 (r_id s)) in
                              if action = ''retry'' \<and> status \<noteq> ''failed''
                              then (db1, Inl (action_rejected
                                     ''The latest review is not failed; use rerun after a completed or cancelled review.''
                                     ''run_not_failed''))
                              else if action = ''rerun'' \<and> status \<notin> set rerun_source_statuses
                              then (db1, Inl (action_rejected
                                     ''The latest review is not completed or cancelled; failed reviews must use retry.''
                                     (if status = ''failed'' then ''failed_run_requires_retry'' else ''run_not_terminal'')))
                              else require_found (request_source_review_action e (r_id s) action delivery_id db1))))))"

end
