(* ===== verification/Runs.thy ===== *)
theory Runs
  imports Actions "HOL-Library.Multiset"
begin

text \<open>
  What holds of review runs through every operation of their life: the run table stays keyed by
  head and attempt, attempts count up from one, and a request reviews a head once, a retry or a
  rerun starting exactly one further attempt.
\<close>

section \<open>The invariant\<close>

definition run_key :: "review_run \<Rightarrow> string \<times> string \<times> int \<times> string \<times> int" where
  "run_key r = (r_provider r, r_repo_full_name r, r_pull_request_number r, r_head_sha r, r_attempt r)"

text \<open>Attempts have no gap: what precedes an attempt exists.\<close>

definition attempts_dense :: "review_run list \<Rightarrow> bool" where
  "attempts_dense rs \<longleftrightarrow>
     (\<forall>r \<in> set rs. 1 \<le> r_attempt r \<and>
        (1 < r_attempt r \<longrightarrow>
           (\<exists>q \<in> set rs. same_head (r_provider r) (r_repo_full_name r) (r_pull_request_number r) (r_head_sha r) q \<and>
              r_attempt q = r_attempt r - 1)))"

text \<open>Identifiers of tasks are those drawn so far.\<close>

definition runs_ok :: "(nat \<Rightarrow> string) \<Rightarrow> db \<Rightarrow> bool" where
  "runs_ok u db \<longleftrightarrow>
     unique_on t_id (tasks db) \<and> unique_on r_id (runs db) \<and> unique_on run_key (runs db) \<and>
     attempts_dense (runs db) \<and>
     (\<forall>r \<in> set (runs db). r_id r \<in> t_id ` set (tasks db)) \<and>
     (\<forall>k. drawn db \<le> k \<longrightarrow> u k \<notin> t_id ` set (tasks db))"

text \<open>What the invariant reads of the tables\<close>

definition identities :: "db \<Rightarrow> string list \<times> (string \<times> string \<times> string \<times> int \<times> string \<times> int) list" where
  "identities db = (map t_id (tasks db), map (\<lambda>r. (r_id r, run_key r)) (runs db))"

lemma dense_map:
  "attempts_dense rs \<longleftrightarrow>
     (\<forall>(p, n, i, h, a) \<in> set (map run_key rs). 1 \<le> a \<and> (1 < a \<longrightarrow> (p, n, i, h, a - 1) \<in> set (map run_key rs)))"
proof -
  have "(\<exists>q \<in> set rs. same_head p n i h q \<and> r_attempt q = a) \<longleftrightarrow> (p, n, i, h, a) \<in> set (map run_key rs)" for p n i h a
    by (force simp: same_head_def run_key_def image_iff)
  then show ?thesis by (auto simp: attempts_dense_def run_key_def)
qed

lemma runs_ok_identities:
  assumes "runs_ok u db" and "identities db' = identities db" and "drawn db \<le> drawn db'"
  shows "runs_ok u db'"
proof -
  let ?T = "map t_id (tasks db)" and ?R = "map (\<lambda>r. (r_id r, run_key r)) (runs db)"
  have t: "map t_id (tasks db') = ?T" and r: "map (\<lambda>r. (r_id r, run_key r)) (runs db') = ?R"
    using assms(2) unfolding identities_def by (simp_all only: prod.inject)
  have ts: "t_id ` set (tasks db') = t_id ` set (tasks db)" using arg_cong[OF t, of set] by simp
  have rid: "map r_id (runs db') = map r_id (runs db)"
    using arg_cong[OF r, of "map fst"] by (simp add: comp_def)
  have rk: "map run_key (runs db') = map run_key (runs db)"
    using arg_cong[OF r, of "map snd"] by (simp add: comp_def)
  have rs: "r_id ` set (runs db') = r_id ` set (runs db)" using arg_cong[OF rid, of set] by simp
  have refs: "r_id ` set (runs db) \<subseteq> t_id ` set (tasks db)" using assms(1) by (auto simp: runs_ok_def)
  have "r_id r \<in> t_id ` set (tasks db')" if "r \<in> set (runs db')" for r
    unfolding ts by (rule subsetD[OF refs]) (rule imageI[OF that, of r_id, unfolded rs])
  then have "\<forall>r \<in> set (runs db'). r_id r \<in> t_id ` set (tasks db')" by simp
  moreover have "attempts_dense (runs db') = attempts_dense (runs db)"
    unfolding dense_map rk by (rule refl)
  moreover have "unique_on t_id (tasks db') = unique_on t_id (tasks db)"
    "unique_on r_id (runs db') = unique_on r_id (runs db)" "unique_on run_key (runs db') = unique_on run_key (runs db)"
    unfolding unique_on_def t rid rk by (rule refl)+
  ultimately show ?thesis
    using assms(1,3) unfolding runs_ok_def ts by (auto intro: le_trans)
qed

lemma identities_draw [simp]: "identities (draw db) = identities db"
  by (simp add: identities_def)

lemma identities_upd_task [simp]:
  "(\<And>t. t_id (f t) = t_id t) \<Longrightarrow> identities (upd_task i f db) = identities db"
  by (simp add: identities_def upd_task_def upd_where_def comp_def cong: map_cong)

lemma identities_upd_run [simp]:
  "(\<And>r. r_id (f r) = r_id r) \<Longrightarrow> (\<And>r. run_key (f r) = run_key r) \<Longrightarrow> identities (upd_run i f db) = identities db"
  by (simp add: identities_def upd_run_def upd_where_def comp_def cong: map_cong)

lemma identities_tables [simp]:
  "identities (upd_slot i f0 db) = identities db" "identities (upd_context i f1 db) = identities db"
  "identities (upd_event i f2 db) = identities db" "identities (upd_agent i f3 db) = identities db"
  "identities (db\<lparr>inbox := vs\<rparr>) = identities db" "identities (db\<lparr>slots := ss\<rparr>) = identities db"
  "identities (db\<lparr>agents := as\<rparr>) = identities db" "identities (db\<lparr>contexts := cs\<rparr>) = identities db"
  "identities (db\<lparr>outbox := ds\<rparr>) = identities db"
  by (simp_all add: identities_def)

section \<open>Invariants of the identities\<close>

lemma run_key_simps [simp]:
  "run_key (r\<lparr>r_failure_code := c\<rparr>) = run_key r"
  "run_key (r\<lparr>r_superseded_by_review_run_id := x\<rparr>) = run_key r"
  "run_key (r\<lparr>r_pull_request_context_id := x\<rparr>) = run_key r"
  by (simp_all add: run_key_def)

text \<open>
  Most operations leave the identities, the inbox and the message commands alone and only draw
  new identifiers; what depends on nothing else survives them.
\<close>

locale identity_invariant =
  fixes I :: "db \<Rightarrow> bool"
  assumes stable: "I db \<Longrightarrow> identities db' = identities db \<Longrightarrow> inbox db' = inbox db \<Longrightarrow>
      agents db' = agents db \<Longrightarrow> drawn db \<le> drawn db' \<Longrightarrow> I db'"
begin

lemma tables_keep [intro]:
  "I db \<Longrightarrow> I (upd_slot i f0 db)" "I db \<Longrightarrow> I (upd_context i f1 db)"
  "I db \<Longrightarrow> I (db\<lparr>slots := ss\<rparr>)"
  by (erule stable; simp)+

lemma draw_keeps [intro]: "I db \<Longrightarrow> I (draw db)"
  by (erule stable) simp_all

lemma task_keeps [intro]:
  "I db \<Longrightarrow> (\<And>t. t_id (f t) = t_id t) \<Longrightarrow> I (upd_task i f db)"
  by (erule stable) simp_all

lemma run_keeps [intro]:
  "I db \<Longrightarrow> (\<And>r. r_id (f r) = r_id r) \<Longrightarrow> (\<And>r. run_key (f r) = run_key r) \<Longrightarrow> I (upd_run i f db)"
  by (erule stable) simp_all

lemma enqueue_keeps [intro]:
  assumes "I db"
  shows "I (fst (enqueue_delivery e tid p op dst key pl m pr ma sp db))"
proof (rule stable[OF assms])
  let ?db' = "fst (enqueue_delivery e tid p op dst key pl m pr ma sp db)"
  have "map t_id (tasks ?db') = map t_id (tasks db)"
    by (auto simp: enqueue_delivery_def Let_def upd_where_def split: option.splits)
  then show "identities ?db' = identities db" by (simp add: identities_def)
  show "inbox ?db' = inbox db" "agents ?db' = agents db" by simp_all
  show "drawn db \<le> drawn ?db'"
    by (auto simp: enqueue_delivery_def Let_def split: option.splits)
qed

lemma placeholder_keeps [intro]:
  "I db \<Longrightarrow> I (fst (request_placeholder e rid s db))"
  unfolding request_placeholder_def Let_def
  by (intro keep_if[where I = I] keep_and_then[where I = I] enqueue_keeps task_keeps) auto

lemma ensure_placeholder_keeps [intro]:
  assumes "I db"
  shows "I (fst (ensure_review_placeholder_requested e rid db))"
proof -
  have "I (fst (create_slot e r db))" for r
    using assms by (simp add: create_slot_def Let_def draw_keeps tables_keep)
  then show ?thesis
    using assms unfolding ensure_review_placeholder_requested_def
    by (intro keep_branches[where I = I] placeholder_keeps) (auto, metis fst_conv)
qed

lemma announce_keeps [intro]:
  "I db \<Longrightarrow> I (fst (announce e rid text sid db))"
  unfolding announce_def Let_def
  by (intro keep_and_then[where I = I] enqueue_keeps) (simp_all add: task_keeps tables_keep)

lemma status_keeps [intro]:
  "I db \<Longrightarrow> I (fst (enqueue_review_comment_status e rid text db))"
  unfolding enqueue_review_comment_status_def
  by (intro keep_option[where I = I] keep_and_then[where I = I]
      ensure_placeholder_keeps announce_keeps)

lemma end_keeps:
  assumes "\<And>t. t_id (f t) = t_id t" and "\<And>r. r_id (g r) = r_id r" and "\<And>r. run_key (g r) = run_key r"
    and "I db"
  shows "I (fst (end_runs e text f g rids db))"
  using assms(4)
proof (induction rids arbitrary: db)
  case Nil
  then show ?case by simp
next
  case (Cons rid rids)
  show ?case unfolding end_runs.simps
  proof (rule keep_and_then[where I = I])
    show "I (fst (enqueue_review_comment_status e rid text (upd_run rid g (upd_task rid f db))))"
      using Cons.prems assms(1-3) by (intro status_keeps run_keeps task_keeps)
  qed (rule Cons.IH)
qed

lemma cancel_keeps: "I db \<Longrightarrow> I (fst (cancel_review_run e rid db))"
  unfolding cancel_review_run_def
  by (intro keep_branches[where I = I] keep_and_then[where I = I] status_keeps
      run_keeps task_keeps) auto

lemma cancel_pr_keeps: "I db \<Longrightarrow> I (fst (cancel_active_review_runs_for_pr e p n i c db))"
  unfolding cancel_active_review_runs_for_pr_def Let_def prod.case
  by (intro keep_option[where I = I] keep_and_then[where I = I] end_keeps) auto

lemma supersede_keeps: "I db \<Longrightarrow> I (fst (supersede_older_review_runs e rid db))"
  unfolding supersede_older_review_runs_def Let_def
  by (intro keep_and_then[where I = I] end_keeps) auto

lemma adopt_keeps:
  "I db \<Longrightarrow> I (fst (adopt_run e reason c rid created db))"
  unfolding adopt_run_def Let_def
  by (intro keep_if[where I = I] keep_and_then[where I = I]
      ensure_placeholder_keeps supersede_keeps)
     (simp_all add: tables_keep run_keeps)

end

interpretation numbered: identity_invariant "runs_ok u" for u
  by unfold_locales (rule runs_ok_identities)

interpretation unchanged: identity_invariant "\<lambda>db. identities db = X" for X
  by unfold_locales simp

interpretation inbox_kept: identity_invariant "\<lambda>db. inbox db = X" for X
  by unfold_locales simp

interpretation agents_kept: identity_invariant "\<lambda>db. agents db = X" for X
  by unfold_locales simp

lemma runs_ok_same [simp]:
  "runs_ok u (upd_slot i f0 db) = runs_ok u db" "runs_ok u (upd_context i f1 db) = runs_ok u db"
  "runs_ok u (upd_event i f2 db) = runs_ok u db" "runs_ok u (upd_agent i f3 db) = runs_ok u db"
  "runs_ok u (db\<lparr>inbox := vs\<rparr>) = runs_ok u db" "runs_ok u (db\<lparr>slots := ss\<rparr>) = runs_ok u db"
  "runs_ok u (db\<lparr>agents := as\<rparr>) = runs_ok u db" "runs_ok u (db\<lparr>contexts := cs\<rparr>) = runs_ok u db"
  "runs_ok u (db\<lparr>outbox := ds\<rparr>) = runs_ok u db"
  by (simp_all add: runs_ok_def)

section \<open>Creating a run\<close>

lemma sort_key_head:
  assumes "sort_key k xs = x # ys"
  shows "x \<in> set xs" "\<And>y. y \<in> set xs \<Longrightarrow> k x \<le> k y"
proof -
  have s: "sorted (map k (x # ys))" and e: "set xs = set (x # ys)"
    using sorted_sort_key[of k xs] set_sort[of k xs] assms by simp_all
  show "x \<in> set xs" using e by simp
  show "k x \<le> k y" if "y \<in> set xs" for y using that s e by auto
qed

lemma latest_None:
  "get_latest_review_run_by_head p n i h db = None \<longleftrightarrow> (\<forall>r \<in> set (runs db). \<not> same_head p n i h r)"
proof (cases "sort_key (\<lambda>r. - r_attempt r) (filter (same_head p n i h) (runs db))")
  case Nil
  then have "set (filter (same_head p n i h) (runs db)) = {}"
    using set_sort[of "\<lambda>r. - r_attempt r" "filter (same_head p n i h) (runs db)"] by simp
  with Nil show ?thesis by (auto simp: get_latest_review_run_by_head_def)
next
  case (Cons r rs)
  with sort_key_head(1)[OF Cons] show ?thesis by (auto simp: get_latest_review_run_by_head_def)
qed

lemma latest_Some:
  assumes "get_latest_review_run_by_head p n i h db = Some r"
  shows "r \<in> set (runs db)" "same_head p n i h r"
    "\<And>q. q \<in> set (runs db) \<Longrightarrow> same_head p n i h q \<Longrightarrow> r_attempt q \<le> r_attempt r"
proof -
  from assms obtain rs where s: "sort_key (\<lambda>r. - r_attempt r) (filter (same_head p n i h) (runs db)) = r # rs"
    by (auto simp: get_latest_review_run_by_head_def split: list.splits)
  show "r \<in> set (runs db)" "same_head p n i h r" using sort_key_head(1)[OF s] by simp_all
  show "r_attempt q \<le> r_attempt r" if "q \<in> set (runs db)" "same_head p n i h q" for q
    using sort_key_head(2)[OF s, of q] that by simp
qed

lemma run_row_simps [simp]:
  "r_id (run_row i sp tr ev a) = i" "r_attempt (run_row i sp tr ev a) = a"
  "r_provider (run_row i sp tr ev a) = sp_provider sp" "r_repo_full_name (run_row i sp tr ev a) = sp_repo_full_name sp"
  "r_pull_request_number (run_row i sp tr ev a) = sp_pull_request_number sp"
  "r_head_sha (run_row i sp tr ev a) = sp_head_sha sp" "r_base_sha (run_row i sp tr ev a) = sp_base_sha sp"
  "r_trigger_type (run_row i sp tr ev a) = tr" "r_agent_session_id (run_row i sp tr ev a) = None"
  by (simp_all add: run_row_def new_run_def)

lemma run_task_row_simps [simp]:
  "t_id (run_task_row i t sp tr dk) = i" "t_status (run_task_row i t sp tr dk) = ''awaiting_delivery''"
  "t_execution_status (run_task_row i t sp tr dk) = ''pending''" "t_dedupe_key (run_task_row i t sp tr dk) = dk"
  "t_stage (run_task_row i t sp tr dk) = Some ''placeholder_delivery_pending''"
  "t_kind (run_task_row i t sp tr dk) = ''review''" "t_delivery_status (run_task_row i t sp tr dk) = ''pending''"
  by (simp_all add: run_task_row_def new_task_def Let_def)

abbreviation latest_for :: "review_run_spec \<Rightarrow> db \<Rightarrow> review_run option" where
  "latest_for sp db \<equiv> get_latest_review_run_by_head (sp_provider sp) (sp_repo_full_name sp) (sp_pull_request_number sp) (sp_head_sha sp) db"

definition next_attempt :: "review_run_spec \<Rightarrow> db \<Rightarrow> int" where
  "next_attempt sp db = (case latest_for sp db of None \<Rightarrow> 1 | Some r \<Rightarrow> r_attempt r + 1)"

text \<open>The three outcomes: the head's latest run, a new run, or a clash of the dedupe key.\<close>

lemma create_cases:
  assumes "create_review_run_record e sp tr ev dk db = (db', res)"
  obtains (old) r where "res = Inr (r_id r, False)" "latest_for sp db = Some r" "db' = db \<or> db' = draw db"
  | (new) "res = Inr (next_id e db, True)" "latest_for sp db = None \<or> sp_force sp"
      "\<not> run_clash (run_task_row (next_id e db) (now e) sp tr dk) (run_row (next_id e db) sp tr ev (next_attempt sp db)) db"
      "db' = draw (db\<lparr>tasks := tasks db @ [run_task_row (next_id e db) (now e) sp tr dk],
                      runs := runs db @ [run_row (next_id e db) sp tr ev (next_attempt sp db)]\<rparr>)"
  | (clash) x where "res = Inl x" "latest_for sp db = None" "db' = draw db"
proof (cases "latest_for sp db")
  case None
  then have a: "next_attempt sp db = 1" by (simp add: next_attempt_def)
  show ?thesis
    using assms None new clash unfolding create_review_run_record_def Let_def a
    by (auto split: if_splits)
next
  case (Some r)
  then have a: "next_attempt sp db = r_attempt r + 1" by (simp add: next_attempt_def)
  let ?t = "run_task_row (next_id e db) (now e) sp tr dk" and ?q = "run_row (next_id e db) sp tr ev (next_attempt sp db)"
  show ?thesis
  proof (cases "sp_force sp \<and> \<not> run_clash ?t ?q db")
    case True
    then have "create_review_run_record e sp tr ev dk db =
        (draw (db\<lparr>tasks := tasks db @ [?t], runs := runs db @ [?q]\<rparr>), Inr (next_id e db, True))"
      by (simp add: create_review_run_record_def Let_def Some a)
    with True assms show ?thesis by (intro new) simp_all
  next
    case False
    then have "create_review_run_record e sp tr ev dk db = (db, Inr (r_id r, False)) \<or>
        create_review_run_record e sp tr ev dk db = (draw db, Inr (r_id r, False))"
      by (auto simp: create_review_run_record_def Let_def Some a)
    with Some assms show ?thesis by (intro old[of r]) auto
  qed
qed

lemma new_run_runs_ok:
  assumes ok: "runs_ok (uuid4 e) db" and inj: "inj (uuid4 e)"
    and clash: "\<not> run_clash (run_task_row (next_id e db) (now e) sp tr dk) (run_row (next_id e db) sp tr ev (next_attempt sp db)) db"
  shows "runs_ok (uuid4 e) (draw (db\<lparr>tasks := tasks db @ [run_task_row (next_id e db) (now e) sp tr dk],
       runs := runs db @ [run_row (next_id e db) sp tr ev (next_attempt sp db)]\<rparr>))"
proof -
  let ?r = "run_row (next_id e db) sp tr ev (next_attempt sp db)"
  have fresh: "next_id e db \<notin> t_id ` set (tasks db)" using ok by (simp add: runs_ok_def next_id_def)
  then have rfresh: "next_id e db \<notin> r_id ` set (runs db)" using ok by (force simp: runs_ok_def)
  have key: "run_key ?r \<notin> run_key ` set (runs db)"
    using clash by (auto simp: run_clash_def same_head_def run_key_def)
  have "attempts_dense (runs db @ [?r])"
  proof (cases "latest_for sp db")
    case None
    then show ?thesis using ok by (auto simp: runs_ok_def attempts_dense_def next_attempt_def)
  next
    case (Some l)
    then have "1 \<le> r_attempt l" using latest_Some[OF Some] ok by (auto simp: runs_ok_def attempts_dense_def)
    with Some show ?thesis using ok latest_Some[OF Some]
      by (auto simp: runs_ok_def attempts_dense_def next_attempt_def)
  qed
  moreover have "uuid4 e k \<noteq> next_id e db" if "Suc (drawn db) \<le> k" for k
    using that injD[OF inj, of k "drawn db"] by (auto simp: next_id_def)
  ultimately show ?thesis
    using ok fresh rfresh key by (simp add: runs_ok_def unique_on_snoc)
qed

lemma create_runs_ok:
  assumes "runs_ok (uuid4 e) db" and "inj (uuid4 e)"
  shows "runs_ok (uuid4 e) (fst (create_review_run_record e sp tr ev dk db))"
proof -
  obtain db' res where c: "create_review_run_record e sp tr ev dk db = (db', res)" by fastforce
  then show ?thesis
  proof (cases rule: create_cases)
    case new
    then show ?thesis using c new_run_runs_ok[OF assms new(3)] by simp
  qed (use c assms in \<open>auto simp: numbered.draw_keeps\<close>)
qed

section \<open>Requests\<close>

lemma handle_runs_ok:
  assumes "runs_ok (uuid4 e) db" and "inj (uuid4 e)"
  shows "runs_ok (uuid4 e) (fst (handle_review_requested e q db))"
  unfolding handle_review_requested_def
  by (intro keep_branches[where I = "runs_ok (uuid4 e)"] keep_and_then[where I = "runs_ok (uuid4 e)"]
      create_runs_ok)
     (simp_all add: assms numbered.adopt_keeps split: prod.splits)

lemma adopt_old:
  "adopt_run e reason c rid False db =
     (upd_context (c_id c) (\<lambda>c. c\<lparr>c_latest_review_run_id := Some rid\<rparr>)
        (upd_run rid (\<lambda>r. r\<lparr>r_pull_request_context_id := Some (c_id c)\<rparr>) db), Inr (rid, False))"
  by (simp add: adopt_run_def Let_def)

lemma adopt_Inr:
  assumes "adopt_run e reason c rid created db = (db', Inr (rid', created'))"
  shows "rid' = rid" "created' = created"
  using assms by (auto simp: adopt_run_def Let_def and_then_Inr split: if_splits)

lemma adopt_identities:
  assumes "adopt_run e reason c rid created db = (db', x)"
  shows "identities db' = identities db" "inbox db' = inbox db" "agents db' = agents db"
  using unchanged.adopt_keeps[of db "identities db" e reason c rid created]
    inbox_kept.adopt_keeps[of db "inbox db" e reason c rid created]
    agents_kept.adopt_keeps[of db "agents db" e reason c rid created] assms by simp_all

text \<open>A request that is accepted: the revision it asks for and the run it ends with.\<close>

lemma handle_Inr:
  assumes "handle_review_requested e q db = (db', Inr (rid, created))"
  obtains c base head force trigger db1 where
    "get_context db (qs_pull_request_context_id q) = Some c" "is_open c"
    "(qs_reason q \<in> {''retry'', ''rerun''}) = (qs_source_run_id q \<noteq> None)"
    "requested_revision q c db = Inr (base, head, force)" "trigger_type_of (qs_reason q) = Inr trigger"
    "create_review_run_record e
       \<lparr>sp_provider = c_provider c, sp_repo_full_name = c_repo_full_name c,
        sp_pull_request_number = c_pull_request_number c, sp_base_sha = base, sp_head_sha = head, sp_force = force\<rparr>
       trigger (qs_trigger_event_id q) (qs_dedupe_key q) db = (db1, Inr (rid, created))"
    "adopt_run e (qs_reason q) c rid created db1 = (db', Inr (rid, created))"
proof -
  obtain v where v: "get_event db (qs_trigger_event_id q) = Some v"
    using assms by (auto simp: handle_review_requested_def split: option.splits)
  then have id: "ev_id v = qs_trigger_event_id q" by (auto dest: get_event_SomeD)
  obtain c where c: "get_context db (qs_pull_request_context_id q) = Some c" "is_open c"
      "(qs_reason q \<in> {''retry'', ''rerun''}) = (qs_source_run_id q \<noteq> None)"
    using assms v by (auto simp: handle_review_requested_def split: option.splits if_splits)
  obtain base head force where r: "requested_revision q c db = Inr (base, head, force)"
    using assms v c by (auto simp: handle_review_requested_def split: sum.splits if_splits)
  obtain trigger where t: "trigger_type_of (qs_reason q) = Inr trigger"
    using assms v c r by (auto simp: handle_review_requested_def split: sum.splits if_splits)
  have "and_then (create_review_run_record e
       \<lparr>sp_provider = c_provider c, sp_repo_full_name = c_repo_full_name c,
        sp_pull_request_number = c_pull_request_number c, sp_base_sha = base, sp_head_sha = head, sp_force = force\<rparr>
       trigger (qs_trigger_event_id q) (qs_dedupe_key q) db)
       (\<lambda>(rid, created) db1. adopt_run e (qs_reason q) c rid created db1) = (db', Inr (rid, created))"
    using assms v c r t id by (simp add: handle_review_requested_def split: if_splits)
  then obtain db1 rid1 created1 where
    "create_review_run_record e
       \<lparr>sp_provider = c_provider c, sp_repo_full_name = c_repo_full_name c,
        sp_pull_request_number = c_pull_request_number c, sp_base_sha = base, sp_head_sha = head, sp_force = force\<rparr>
       trigger (qs_trigger_event_id q) (qs_dedupe_key q) db = (db1, Inr (rid1, created1))"
    "adopt_run e (qs_reason q) c rid1 created1 db1 = (db', Inr (rid, created))"
    by (auto simp: and_then_Inr)
  with adopt_Inr[OF this(2)] that[OF c r t] show ?thesis by simp
qed

lemma get_run_iff: "get_run db i \<noteq> None \<longleftrightarrow> i \<in> r_id ` set (runs db)"
  by (auto simp: get_run_def first_row_None)

text \<open>Handling a request leaves the inbox and the commands alone and ends with a run of the table.\<close>

lemma handle_frame:
  assumes "handle_review_requested e q db = (db', Inr (rid, created))"
  shows "inbox db' = inbox db" "get_run db' rid \<noteq> None" "agents db' = agents db"
proof -
  have "inbox db' = inbox db \<and> agents db' = agents db \<and> get_run db' rid \<noteq> None"
  proof (rule handle_Inr[OF assms])
    fix c :: pull_request_context and base head force trigger db1
    let ?sp = "\<lparr>sp_provider = c_provider c, sp_repo_full_name = c_repo_full_name c,
        sp_pull_request_number = c_pull_request_number c, sp_base_sha = base, sp_head_sha = head, sp_force = force\<rparr>"
    assume cr: "create_review_run_record e ?sp trigger (qs_trigger_event_id q) (qs_dedupe_key q) db = (db1, Inr (rid, created))"
      and a: "adopt_run e (qs_reason q) c rid created db1 = (db', Inr (rid, created))"
    have "inbox db1 = inbox db \<and> agents db1 = agents db \<and> rid \<in> r_id ` set (runs db1)" using cr
    proof (cases rule: create_cases)
      case (old r)
      then show ?thesis using latest_Some(1)[OF old(2)] by auto
    qed simp_all
    moreover have "r_id ` set (runs db') = r_id ` set (runs db1)"
    proof -
      have "map fst (snd (identities db')) = map fst (snd (identities db1))" by (simp add: adopt_identities(1)[OF a])
      then have "map r_id (runs db') = map r_id (runs db1)" by (simp add: identities_def comp_def)
      from arg_cong[OF this, of set] show ?thesis by simp
    qed
    ultimately show ?thesis using adopt_identities(2,3)[OF a] get_run_iff[of db' rid] by auto
  qed
  then show "inbox db' = inbox db" "get_run db' rid \<noteq> None" "agents db' = agents db" by simp_all
qed

lemma reject_runs_ok [simp]: "runs_ok u (fst (reject_review_request e i k m x db)) = runs_ok u db"
  by (simp add: reject_review_request_def)

text \<open>The answer to a request, from what handling it returned\<close>

definition answered :: "env \<Rightarrow> string \<Rightarrow> string \<Rightarrow> db \<times> (err + string \<times> bool) \<Rightarrow> db \<times> (err + request_result option)" where
  "answered e eid rid h =
     (case h of
        (db2, Inl (RequestRejected m k ev ex)) \<Rightarrow> reject_review_request e eid k m ex db2
      | (db2, Inl x) \<Rightarrow> (db2, Inl x)
      | (db2, Inr (new, created)) \<Rightarrow>
          (let db3 = upd_event eid (\<lambda>v. v\<lparr>ev_status := ''queued'',
                       ev_review_run_id := Some new, ev_processed_at := Some (now e)\<rparr>) db2
           in (db3, Inr (Some (review_request_result rid eid new (\<not> created) db3)))))"

lemma submit_eq:
  "submit_request e eid source action delivery_id db1 =
     (let rid = r_id source;
          context = pull_request_context_for_run source db1;
          av = (if action = ''retry'' then retry_availability rid context (Some eid) db1
                else rerun_availability rid context db1)
      in if \<not> av_allowed av
         then reject_review_request e eid (av_reason_code av) (av_message av) (av_existing_run av) db1
         else (case context of
                 None \<Rightarrow> (db1, Inl (AssertionFailed ''allowed review request is missing PR context''))
               | Some c \<Rightarrow>
                   answered e eid rid (handle_review_requested e
                           \<lparr>qs_reason = action, qs_trigger_event_id = eid,
                            qs_pull_request_context_id = c_id c, qs_source_run_id = Some rid,
                            qs_dedupe_key = Some delivery_id\<rparr> db1)))"
  unfolding submit_request_def answered_def Let_def by (rule refl)

lemma answered_runs_ok:
  assumes "runs_ok u (fst h)"
  shows "runs_ok u (fst (answered e eid rid h))"
proof (cases "snd h")
  case (Inl x)
  then show ?thesis using assms by (cases h; cases x) (simp_all add: answered_def)
next
  case (Inr v)
  then show ?thesis using assms by (cases h; cases v) (simp_all add: answered_def Let_def)
qed

lemma submit_runs_ok:
  assumes "runs_ok (uuid4 e) db" and "inj (uuid4 e)"
  shows "runs_ok (uuid4 e) (fst (submit_request e eid s action dk db))"
  unfolding submit_eq Let_def
  by (intro keep_if[where I = "runs_ok (uuid4 e)"] keep_option[where I = "runs_ok (uuid4 e)"]
      answered_runs_ok handle_runs_ok) (simp_all add: assms)

lemma action_runs_ok:
  assumes "runs_ok (uuid4 e) db" and "inj (uuid4 e)"
  shows "runs_ok (uuid4 e) (fst (request_source_review_action e rid action dk db))"
  unfolding request_source_review_action_def answer_existing_request_def
  using assms by (intro keep_branches[where I = "runs_ok (uuid4 e)"] submit_runs_ok) (auto intro!: numbered.draw_keeps)

lemma require_found_fst [simp]: "fst (require_found r) = fst r"
  by (simp add: require_found_def and_then_def split: prod.splits sum.splits option.splits)

lemma agent_action_runs_ok:
  assumes "runs_ok (uuid4 e) db" and "inj (uuid4 e)"
  shows "runs_ok (uuid4 e) (fst (request_review_action_from_agent e tid sid action db))"
  unfolding request_review_action_from_agent_def Let_def
  by (intro keep_branches[where I = "runs_ok (uuid4 e)"]) (simp_all add: action_runs_ok assms)

section \<open>Any sequence of operations\<close>

datatype review_op =
    CreateRun review_run_spec string string "string option"
  | HandleRequest review_request
  | RequestAction string string string
  | AgentAction string string string
  | CancelRun string
  | CancelRunsForPr string "string option" "int option" string
  | SupersedeOlder string
  | AnnounceStatus string string
  | EnsurePlaceholder string

text \<open>An operation at a time; an exception leaves what the session had written.\<close>

fun review_step :: "env \<Rightarrow> time \<times> review_op \<Rightarrow> db \<Rightarrow> db" where
  "review_step e (t, CreateRun sp tr ev dk) db = fst (create_review_run_record (e\<lparr>now := t\<rparr>) sp tr ev dk db)"
| "review_step e (t, HandleRequest q) db = fst (handle_review_requested (e\<lparr>now := t\<rparr>) q db)"
| "review_step e (t, RequestAction rid action dk) db = fst (request_source_review_action (e\<lparr>now := t\<rparr>) rid action dk db)"
| "review_step e (t, AgentAction tid sid action) db = fst (request_review_action_from_agent (e\<lparr>now := t\<rparr>) tid sid action db)"
| "review_step e (t, CancelRun rid) db = fst (cancel_review_run (e\<lparr>now := t\<rparr>) rid db)"
| "review_step e (t, CancelRunsForPr p n i c) db = fst (cancel_active_review_runs_for_pr (e\<lparr>now := t\<rparr>) p n i c db)"
| "review_step e (t, SupersedeOlder rid) db = fst (supersede_older_review_runs (e\<lparr>now := t\<rparr>) rid db)"
| "review_step e (t, AnnounceStatus rid text) db = fst (enqueue_review_comment_status (e\<lparr>now := t\<rparr>) rid text db)"
| "review_step e (t, EnsurePlaceholder rid) db = fst (ensure_review_placeholder_requested (e\<lparr>now := t\<rparr>) rid db)"

lemma review_step_ok:
  assumes "inj (uuid4 e)" and "runs_ok (uuid4 e) db"
  shows "runs_ok (uuid4 e) (review_step e op db)"
proof -
  obtain t o' where op: "op = (t, o')" by (cases op)
  let ?e = "e\<lparr>now := t\<rparr>"
  have u: "uuid4 ?e = uuid4 e" by simp
  note ok = assms(2)[folded u] and inj = assms(1)[folded u]
  show ?thesis unfolding op
    using create_runs_ok[OF ok inj] handle_runs_ok[OF ok inj] action_runs_ok[OF ok inj] agent_action_runs_ok[OF ok inj]
    by (cases o') (simp_all add: numbered.cancel_keeps numbered.cancel_pr_keeps numbered.supersede_keeps numbered.status_keeps
        numbered.ensure_placeholder_keeps assms(2))
qed

interpretation reviews: preserved "review_step e" "\<lambda>db. inj (uuid4 e) \<longrightarrow> runs_ok (uuid4 e) db" for e
  by unfold_locales (simp add: review_step_ok)

text \<open>A finite set of positive numbers closed downwards is an interval.\<close>

lemma dense_interval:
  fixes S :: "int set"
  assumes "finite S" and "\<And>a. a \<in> S \<Longrightarrow> 1 \<le> a" and "\<And>a. a \<in> S \<Longrightarrow> 1 < a \<Longrightarrow> a - 1 \<in> S"
  shows "\<exists>n. S = {1..n}"
proof (cases "S = {}")
  case True
  then show ?thesis by (intro exI[of _ 0]) simp
next
  case False
  have down: "Max S - int k \<in> S" if "1 \<le> Max S - int k" for k
    using that
  proof (induction k)
    case 0
    then show ?case using assms(1) False by simp
  next
    case (Suc k)
    then show ?case using assms(3)[of "Max S - int k"] by (simp add: algebra_simps)
  qed
  have "S = {1..Max S}"
  proof (intro subset_antisym subsetI)
    fix a assume a: "a \<in> {1..Max S}"
    then have "Max S - int (nat (Max S - a)) = a" by simp
    with down[of "nat (Max S - a)"] a show "a \<in> S" by simp
  qed (use assms(1,2) in auto)
  then show ?thesis by (rule exI)
qed

lemma attempts_interval:
  assumes "runs_ok u db"
  shows "\<exists>n. mset (map r_attempt (filter (same_head p nm i h) (runs db))) = mset [1..n]"
proof -
  let ?rs = "filter (same_head p nm i h) (runs db)"
  have ok: "unique_on run_key (runs db)" "attempts_dense (runs db)" using assms by (simp_all add: runs_ok_def)
  have d: "distinct (map r_attempt ?rs)"
  proof -
    have "distinct ?rs" "inj_on run_key (set (runs db))"
      using ok(1) by (simp_all add: unique_on_def distinct_map)
    then show ?thesis
      by (auto simp: distinct_map inj_on_def run_key_def same_head_def)
  qed
  obtain n where n: "set (map r_attempt ?rs) = {1..n}"
  proof -
    have "\<exists>n. set (map r_attempt ?rs) = {1..n}"
    proof (rule dense_interval)
      fix a assume "a \<in> set (map r_attempt ?rs)"
      then obtain r where r: "r \<in> set (runs db)" "same_head p nm i h r" "a = r_attempt r" by auto
      then show "1 \<le> a" using ok(2) by (simp add: attempts_dense_def)
      show "a - 1 \<in> set (map r_attempt ?rs)" if more_than_one: "1 < a"
      proof -
        obtain q where q: "q \<in> set (runs db)" "r_attempt q = a - 1"
            "same_head (r_provider r) (r_repo_full_name r) (r_pull_request_number r) (r_head_sha r) q"
          using r more_than_one ok(2) unfolding attempts_dense_def by blast
        then have "q \<in> set ?rs" using r(2) by (simp add: same_head_def)
        with q(2) show ?thesis by force
      qed
    qed simp
    then show ?thesis using that by blast
  qed
  have "set (map r_attempt ?rs) = set [1..n]" using n by simp
  then have "mset (map r_attempt ?rs) = mset [1..n]"
    using d set_eq_iff_mset_eq_distinct[of "map r_attempt ?rs" "[1..n]"] by simp
  then show ?thesis by (rule exI)
qed

text \<open>
  C4. Whatever sequence of requests, retries, reruns, cancellations, supersessions and
  announcements the service handles, at whatever times, the runs stay identified: identifiers
  are unique, every run is a task, and the attempts recorded for a head are exactly 1, 2, ..., n,
  each once.
\<close>

theorem review_runs_stay_numbered:
  assumes "inj (uuid4 e)" and "runs_ok (uuid4 e) db"
  shows "runs_ok (uuid4 e) (fold (review_step e) ops db) \<and>
     (\<exists>n. mset (map r_attempt (filter (same_head p nm i h) (runs (fold (review_step e) ops db)))) = mset [1..n])"
proof -
  have "runs_ok (uuid4 e) (fold (review_step e) ops db)"
    using reviews.run_inv[of e db ops] assms by simp
  with attempts_interval show ?thesis by blast
qed

lemma sample_env_inj: "inj (uuid4 (sample_env t))"
proof (rule inj_on_inverseI)
  show "read_digits (drop 3 (uuid4 (sample_env t) k)) = k" for k
    by (simp add: sample_env_def)
qed

definition sample_spec :: "bool \<Rightarrow> review_run_spec" where
  "sample_spec force =
     \<lparr>sp_provider = ''gh'', sp_repo_full_name = ''o/r'', sp_pull_request_number = 1, sp_base_sha = Some ''b0'',
      sp_head_sha = ''h1'', sp_force = force\<rparr>"

definition sample_history :: db where
  "sample_history = fold (review_step (sample_env 0))
     [(1, CreateRun (sample_spec False) ''webhook'' ''e1'' None),
      (3, CreateRun (sample_spec False) ''webhook'' ''e2'' None),
      (5, CreateRun (sample_spec True) ''dashboard_rerun'' ''e3'' (Some ''k''))] empty_db"

theorem review_runs_stay_numbered_witness:
  "map r_attempt (filter (same_head ''gh'' ''o/r'' 1 ''h1'') (runs sample_history)) = [1, 2] \<and>
   runs_ok (uuid4 (sample_env 0)) sample_history"
proof -
  have "runs_ok (uuid4 (sample_env 0)) empty_db"
    by (simp add: runs_ok_def attempts_dense_def empty_db_def)
  from review_runs_stay_numbered[OF sample_env_inj this]
  have "runs_ok (uuid4 (sample_env 0)) sample_history" unfolding sample_history_def by (rule conjunct1)
  moreover have "map r_attempt (filter (same_head ''gh'' ''o/r'' 1 ''h1'') (runs sample_history)) = [1, 2]"
    by code_simp
  ultimately show ?thesis by (intro conjI)
qed

end
