(* ===== verification/Ending.thy ===== *)
theory Ending
  imports Runs
begin

text \<open>
  How runs end: cancelling or superseding a run ends its execution, announces the end in its
  comment and parks it until the announcement is delivered; nothing else is touched. Also the
  message a new run starts with, the placeholder of its comment.
\<close>

section \<open>Messages only add to the outbox\<close>

lemma enqueue_grows:
  assumes "enqueue_delivery e tid p op dst key pl m pr ma False db = (db', Inr i)"
  shows "set (outbox db) \<subseteq> set (outbox db')"
  using assms by (auto simp: enqueue_delivery_def Let_def split: option.splits if_splits)

lemma placeholder_grows:
  assumes "request_placeholder e rid s db = (db', Inr sid)"
  shows "set (outbox db) \<subseteq> set (outbox db')"
  using assms by (auto simp: request_placeholder_def Let_def and_then_Inr dest!: enqueue_grows split: if_splits)

lemma announce_grows:
  assumes "announce e rid text sid db = (db', Inr ())"
  shows "set (outbox db) \<subseteq> set (outbox db')"
  using assms by (auto simp: announce_def Let_def and_then_Inr dest!: enqueue_grows)

lemma create_slot_frame:
  "runs (fst (create_slot e r db)) = runs db" "tasks (fst (create_slot e r db)) = tasks db"
  "outbox (fst (create_slot e r db)) = outbox db" "get_task (fst (create_slot e r db)) j = get_task db j"
  by (simp_all add: create_slot_def Let_def get_task_def)

lemma ensure_effect:
  assumes "ensure_review_placeholder_requested e rid db = (db', Inr sid)"
  shows "runs db' = runs db \<and> set (outbox db) \<subseteq> set (outbox db') \<and> (\<forall>j. j \<noteq> rid \<longrightarrow> get_task db' j = get_task db j) \<and>
     (\<forall>t. get_task db rid = Some t \<longrightarrow> (\<exists>t'. get_task db' rid = Some t' \<and> t_completed_at t' = t_completed_at t))"
proof (cases "find_slot db rid")
  case (Some s)
  then have "request_placeholder e rid s db = (db', Inr sid)"
    using assms by (simp add: ensure_review_placeholder_requested_def)
  from placeholder_frame[OF this] placeholder_grows[OF this] show ?thesis by simp
next
  case None
  obtain db1 s where c: "create_slot e (the_run db rid) db = (db1, s)" by fastforce
  then have "request_placeholder e rid (the_slot db1 s) db1 = (db', Inr sid)"
    using assms None by (simp add: ensure_review_placeholder_requested_def)
  from placeholder_frame[OF this] placeholder_grows[OF this] create_slot_frame[of e "the_run db rid" db] c
  show ?thesis by simp
qed

text \<open>The comment of a run announces a state: a message with the key and payload of that announcement is in the outbox.\<close>

definition posted :: "env \<Rightarrow> string \<Rightarrow> string \<Rightarrow> db \<Rightarrow> bool" where
  "posted e rid text db \<longleftrightarrow>
     (\<exists>sid v. \<exists>d \<in> set (outbox db). d_idempotency_key d = status_key rid text v \<and>
        d_payload_digest d = payload_digest e (announce_payload rid sid text v))"

lemma posted_mono: "posted e rid text db \<Longrightarrow> set (outbox db) \<subseteq> set (outbox db') \<Longrightarrow> posted e rid text db'"
  unfolding posted_def by blast

lemma enqueue_posts:
  assumes "enqueue_delivery e tid p op dst key pl m pr ma False db = (db', Inr i)"
  shows "\<exists>d \<in> set (outbox db'). d_idempotency_key d = key \<and> d_payload_digest d = payload_digest e pl"
  using assms
  by (auto simp: enqueue_delivery_def find_delivery_def Let_def new_delivery_def dest: first_row_SomeD split: option.splits if_splits)

lemma announce_posts:
  assumes "announce e rid text sid db = (db', Inr ())"
  shows "posted e rid text db'"
  using assms unfolding announce_def posted_def Let_def and_then_Inr by (fastforce dest!: enqueue_posts)

lemma status_posts:
  assumes "enqueue_review_comment_status e rid text db = (db', Inr ())"
  shows "posted e rid text db' \<and> set (outbox db) \<subseteq> set (outbox db')"
proof (cases "find_slot db rid")
  case (Some s)
  then have "announce e rid text (s_id s) db = (db', Inr ())"
    using assms by (simp add: enqueue_review_comment_status_def)
  then show ?thesis by (simp add: announce_posts announce_grows)
next
  case None
  then obtain sid db1 where "ensure_review_placeholder_requested e rid db = (db1, Inr sid)"
    and "announce e rid text sid db1 = (db', Inr ())"
    using assms by (auto simp: enqueue_review_comment_status_def and_then_Inr)
  then show ?thesis using announce_posts[of e rid "text" sid db1 db'] announce_grows[of e rid "text" sid db1 db']
      ensure_effect[of e rid db db1 sid] by auto
qed

text \<open>The task of a run whose end has been announced\<close>

definition ending :: "string \<Rightarrow> time option \<Rightarrow> task \<Rightarrow> bool" where
  "ending text completed t \<longleftrightarrow>
     t_status t = ''awaiting_delivery'' \<and> t_stage t = Some (text @ ''_delivery_pending'') \<and>
     t_execution_status t = (if text = ''superseded'' then ''cancelled'' else text) \<and> t_completed_at t = completed"

lemma announced_ending:
  assumes "text \<in> set terminal_statuses"
  shows "ending text (t_completed_at t) (announced_task text t)"
    "ending text (t_completed_at t) (with_pending (announced_task text t))"
  using assms by (simp_all add: ending_def announced_task_def)

lemma announce_ending:
  assumes "announce e rid text sid db = (db', Inr ())" and "text \<in> set terminal_statuses"
  shows "runs db' = runs db \<and> set (outbox db) \<subseteq> set (outbox db') \<and> (\<forall>j. j \<noteq> rid \<longrightarrow> get_task db' j = get_task db j) \<and>
     (\<forall>t. get_task db rid = Some t \<longrightarrow> (\<exists>t'. get_task db' rid = Some t' \<and> ending text (t_completed_at t) t'))"
  using announce_effect[OF assms(1)] announce_grows[OF assms(1)] announced_ending[OF assms(2)] by fastforce

lemma status_ending:
  assumes "enqueue_review_comment_status e rid text db = (db', Inr ())" and "text \<in> set terminal_statuses"
  shows "runs db' = runs db \<and> set (outbox db) \<subseteq> set (outbox db') \<and> (\<forall>j. j \<noteq> rid \<longrightarrow> get_task db' j = get_task db j) \<and>
     (\<forall>t. get_task db rid = Some t \<longrightarrow> (\<exists>t'. get_task db' rid = Some t' \<and> ending text (t_completed_at t) t'))"
proof (cases "find_slot db rid")
  case (Some s)
  then have "announce e rid text (s_id s) db = (db', Inr ())"
    using assms(1) by (simp add: enqueue_review_comment_status_def)
  from announce_ending[OF this assms(2)] show ?thesis .
next
  case None
  then obtain sid db1 where e: "ensure_review_placeholder_requested e rid db = (db1, Inr sid)"
    and a: "announce e rid text sid db1 = (db', Inr ())"
    using assms(1) by (auto simp: enqueue_review_comment_status_def and_then_Inr)
  have "\<exists>t'. get_task db' rid = Some t' \<and> ending text (t_completed_at t) t'" if t: "get_task db rid = Some t" for t
  proof -
    obtain t1 where "get_task db1 rid = Some t1" "t_completed_at t1 = t_completed_at t"
      using ensure_effect[OF e] t by blast
    then show ?thesis using announce_ending[OF a assms(2)] by metis
  qed
  then show ?thesis using ensure_effect[OF e] announce_ending[OF a assms(2)] by auto
qed

section \<open>Ending several runs\<close>

lemma upd_where_split:
  assumes "\<And>r. k (g r) = k r" and "i \<notin> A"
  shows "upd_where (\<lambda>r. k r \<in> A) g (upd_where (\<lambda>r. k r = i) g rs) = upd_where (\<lambda>r. k r \<in> insert i A) g rs"
  using assms by (auto simp: upd_where_def)

lemma end_runs_ending:
  assumes "end_runs e text f g rids db = (db', Inr ())" and "text \<in> set terminal_statuses" and "distinct rids"
    and "\<And>t. t_id (f t) = t_id t" and "\<And>t. t_completed_at (f t) = c" and "\<And>r. r_id (g r) = r_id r"
  shows "runs db' = upd_where (\<lambda>r. r_id r \<in> set rids) g (runs db) \<and> set (outbox db) \<subseteq> set (outbox db') \<and>
     (\<forall>j. j \<notin> set rids \<longrightarrow> get_task db' j = get_task db j) \<and>
     (\<forall>j \<in> set rids. get_task db j \<noteq> None \<longrightarrow> (\<exists>t'. get_task db' j = Some t' \<and> ending text c t'))"
  using assms(1,3)
proof (induction rids arbitrary: db)
  case Nil
  then show ?case by (simp add: upd_where_def)
next
  case (Cons rid rids)
  let ?db0 = "upd_run rid g (upd_task rid f db)"
  obtain db1 where s: "enqueue_review_comment_status e rid text ?db0 = (db1, Inr ())"
    and r: "end_runs e text f g rids db1 = (db', Inr ())"
    using Cons.prems(1) by (auto simp: and_then_Inr)
  have t0: "get_task ?db0 j = (if j = rid then map_option f (get_task db j) else get_task db j)" for j
    using get_task_upd[of f rid db j] assms(4) by simp
  note S = status_ending[OF s assms(2)]
  have IH: "runs db' = upd_where (\<lambda>r. r_id r \<in> set rids) g (runs db1)" "set (outbox db1) \<subseteq> set (outbox db')"
    "\<And>j. j \<notin> set rids \<Longrightarrow> get_task db' j = get_task db1 j"
    "\<And>j. j \<in> set rids \<Longrightarrow> get_task db1 j \<noteq> None \<Longrightarrow> \<exists>t'. get_task db' j = Some t' \<and> ending text c t'"
    using Cons.IH[OF r] Cons.prems(2) by auto
  have new: "rid \<notin> set rids" using Cons.prems(2) by simp
  have "runs db1 = upd_where (\<lambda>r. r_id r = rid) g (runs db)" using S by (simp add: upd_run_def)
  then have "runs db' = upd_where (\<lambda>r. r_id r \<in> set (rid # rids)) g (runs db)"
    using IH(1) upd_where_split[of r_id g rid "set rids" "runs db"] assms(6) new by simp
  moreover have "set (outbox db) \<subseteq> set (outbox db')" using S IH(2) by auto
  moreover have "get_task db' j = get_task db j" if "j \<notin> set (rid # rids)" for j
    using that IH(3)[of j] S t0[of j] by auto
  moreover have "\<exists>t'. get_task db' j = Some t' \<and> ending text c t'"
    if j: "j \<in> set (rid # rids)" "get_task db j \<noteq> None" for j
  proof (cases "j = rid")
    case True
    then obtain t where "get_task ?db0 rid = Some (f t)" using j(2) t0[of rid] by auto
    then obtain t' where "get_task db1 rid = Some t'" "ending text c t'" using S assms(5) by metis
    with True new IH(3)[of rid] show ?thesis by auto
  next
    case False
    then have "get_task db1 j \<noteq> None" using j(2) S t0[of j] by auto
    with False j(1) IH(4) show ?thesis by auto
  qed
  ultimately show ?case by blast
qed

lemma runs_of_pr_in:
  "j \<in> set (runs_of_pr p n i P db) \<longleftrightarrow>
     (\<exists>r \<in> set (runs db). r_id r = j \<and> r_provider r = p \<and> r_repo_full_name r = n \<and> r_pull_request_number r = i \<and> P r \<and>
        t_status (the_task db j) \<in> set cancellable_statuses)"
  by (auto simp: runs_of_pr_def)

lemma runs_of_pr_distinct: "runs_ok u db \<Longrightarrow> distinct (runs_of_pr p n i P db)"
  by (auto simp: runs_of_pr_def runs_ok_def unique_on_def distinct_map intro: inj_on_subset)

lemma run_has_task: "runs_ok u db \<Longrightarrow> r \<in> set (runs db) \<Longrightarrow> get_task db (r_id r) \<noteq> None"
  by (force simp: runs_ok_def get_task_def first_row_None)

text \<open>What superseding writes\<close>

lemma superseded_effect:
  assumes "supersede_older_review_runs e current db = (db', Inr rids)" and "runs_ok u db"
  shows "rids = runs_of_pr (r_provider (the_run db current)) (r_repo_full_name (the_run db current))
       (r_pull_request_number (the_run db current))
       (\<lambda>r. r_id r \<noteq> current \<and> r_head_sha r \<noteq> r_head_sha (the_run db current)) db"
    "runs db' = upd_where (\<lambda>r. r_id r \<in> set rids) (\<lambda>r. r\<lparr>r_failure_code := Some ''superseded_by_new_head'',
       r_superseded_by_review_run_id := Some current\<rparr>) (runs db)"
    "set (outbox db) \<subseteq> set (outbox db')"
    "\<And>j. j \<notin> set rids \<Longrightarrow> get_task db' j = get_task db j"
    "\<And>j. j \<in> set rids \<Longrightarrow> \<exists>t'. get_task db' j = Some t' \<and> ending ''superseded'' (Some (now e)) t'"
    "current \<notin> set rids" "get_task db' current = get_task db current"
proof -
  let ?c = "the_run db current"
  let ?P = "\<lambda>r. r_id r \<noteq> current \<and> r_head_sha r \<noteq> r_head_sha ?c"
  let ?g = "\<lambda>r. r\<lparr>r_failure_code := Some ''superseded_by_new_head'', r_superseded_by_review_run_id := Some current\<rparr>"
  let ?f = "\<lambda>t. t\<lparr>t_status := ''superseded'', t_execution_status := ''cancelled'', t_stage := Some ''cleanup'',
      t_completed_at := Some (now e)\<rparr>"
  show rids: "rids = runs_of_pr (r_provider ?c) (r_repo_full_name ?c) (r_pull_request_number ?c) ?P db"
    using assms(1) by (auto simp: supersede_older_review_runs_def Let_def and_then_Inr)
  have e: "end_runs e ''superseded'' ?f ?g rids db = (db', Inr ())"
    using assms(1) by (auto simp: supersede_older_review_runs_def Let_def and_then_Inr)
  have d: "distinct rids" unfolding rids by (rule runs_of_pr_distinct[OF assms(2)])
  have t: "''superseded'' \<in> set terminal_statuses" by (simp add: terminal_statuses_def)
  have E: "runs db' = upd_where (\<lambda>r. r_id r \<in> set rids) ?g (runs db) \<and> set (outbox db) \<subseteq> set (outbox db') \<and>
     (\<forall>j. j \<notin> set rids \<longrightarrow> get_task db' j = get_task db j) \<and>
     (\<forall>j \<in> set rids. get_task db j \<noteq> None \<longrightarrow> (\<exists>t'. get_task db' j = Some t' \<and> ending ''superseded'' (Some (now e)) t'))"
    by (rule end_runs_ending[OF e t d]) simp_all
  then show "runs db' = upd_where (\<lambda>r. r_id r \<in> set rids) ?g (runs db)" "set (outbox db) \<subseteq> set (outbox db')"
    and same: "\<And>j. j \<notin> set rids \<Longrightarrow> get_task db' j = get_task db j" by simp_all
  show "\<exists>t'. get_task db' j = Some t' \<and> ending ''superseded'' (Some (now e)) t'" if j: "j \<in> set rids" for j
  proof -
    obtain r where "r \<in> set (runs db)" "r_id r = j" using j unfolding rids runs_of_pr_in by blast
    with run_has_task[OF assms(2)] have "get_task db j \<noteq> None" by blast
    with E j show ?thesis by blast
  qed
  show "current \<notin> set rids" by (auto simp: rids runs_of_pr_in)
  then show "get_task db' current = get_task db current" by (rule same)
qed

text \<open>
  C8. A new head ends exactly the unfinished runs of older heads: superseding returns the queued,
  running and delivering runs of the pull request with another head than the current run's, each
  of which ends cancelled, parked until its announcement is delivered and pointing to the current
  run; every other task and run, the current one included, stays as it was.
\<close>

theorem superseding_ends_exactly_older_heads:
  assumes "supersede_older_review_runs e current db = (db', Inr rids)" and "runs_ok u db"
  shows "set rids = {r_id r |r. r \<in> set (runs db) \<and> r_provider r = r_provider (the_run db current) \<and>
         r_repo_full_name r = r_repo_full_name (the_run db current) \<and>
         r_pull_request_number r = r_pull_request_number (the_run db current) \<and> r_id r \<noteq> current \<and>
         r_head_sha r \<noteq> r_head_sha (the_run db current) \<and> t_status (the_task db (r_id r)) \<in> set cancellable_statuses} \<and>
     (\<forall>j. if j \<in> set rids then \<exists>t'. get_task db' j = Some t' \<and> ending ''superseded'' (Some (now e)) t'
          else get_task db' j = get_task db j) \<and>
     runs db' = map (\<lambda>r. if r_id r \<in> set rids
        then r\<lparr>r_failure_code := Some ''superseded_by_new_head'', r_superseded_by_review_run_id := Some current\<rparr> else r) (runs db)"
  using superseded_effect[OF assms]
    runs_of_pr_in[of _ "r_provider (the_run db current)" "r_repo_full_name (the_run db current)"
      "r_pull_request_number (the_run db current)"
      "\<lambda>r. r_id r \<noteq> current \<and> r_head_sha r \<noteq> r_head_sha (the_run db current)" db]
  by (auto simp: upd_where_def)

definition sample_heads_db :: db where
  "sample_heads_db = empty_db\<lparr>
     tasks := [(new_task ''r1'' ''review'' 0)\<lparr>t_status := ''running'', t_execution_status := ''running''\<rparr>,
               (new_task ''r2'' ''review'' 1)\<lparr>t_status := ''awaiting_delivery'', t_execution_status := ''pending''\<rparr>],
     runs := [new_run ''r1'' ''gh'' ''o/r'' 1 ''h1'', new_run ''r2'' ''gh'' ''o/r'' 1 ''h2''],
     slots := [new_slot ''s1'' 0 ''r1'' ''gh'' ''o/r'' 1 ''h1'' ''m'']\<rparr>"

theorem superseding_ends_exactly_older_heads_witness:
  "\<exists>db' t'. supersede_older_review_runs (sample_env 5) ''r2'' sample_heads_db = (db', Inr [''r1'']) \<and>
     get_task db' ''r1'' = Some t' \<and> ending ''superseded'' (Some 5) t' \<and> get_task db' ''r2'' = get_task sample_heads_db ''r2''"
proof -
  let ?r = "supersede_older_review_runs (sample_env 5) ''r2'' sample_heads_db"
  have "snd ?r = Inr [''r1'']" by code_simp
  then obtain db' where r: "?r = (db', Inr [''r1''])" by (cases ?r) simp
  have ok: "runs_ok (\<lambda>k. ''u'') sample_heads_db"
    by (simp add: runs_ok_def sample_heads_db_def attempts_dense_def unique_on_def run_key_def new_run_def new_task_def)
  have n: "now (sample_env 5) = 5" by (simp add: sample_env_def)
  have all: "\<forall>j. if j \<in> set [''r1''] then \<exists>t'. get_task db' j = Some t' \<and> ending ''superseded'' (Some (now (sample_env 5))) t'
      else get_task db' j = get_task sample_heads_db j"
    using superseding_ends_exactly_older_heads[OF r ok] by (elim conjE)
  obtain t' where t: "get_task db' ''r1'' = Some t'" "ending ''superseded'' (Some 5) t'"
    using spec[OF all, of "''r1''"] n by auto
  have "get_task db' ''r2'' = get_task sample_heads_db ''r2''"
    using spec[OF all, of "''r2''"] by simp
  with r t show ?thesis by (intro exI conjI)
qed

section \<open>The placeholder of a new run\<close>

lemma placeholder_new:
  assumes "request_placeholder e rid s db = (db', Inr sid)" and "s_status s \<notin> {''ready'', ''finalizing'', ''finalized''}"
    and "find_delivery db (placeholder_key rid (s_placeholder_version s)) = None" and "get_task db rid = Some t"
    and "\<not> execution_started t (the_run db rid)"
  shows "get_task db' rid = Some (with_pending (parked False t)) \<and>
     (\<exists>d \<in> set (outbox db'). d_task_id d = rid \<and> d_operation d = ''review_placeholder'' \<and> d_status d = ''queued'' \<and>
        d_mandatory d \<and> d_payload_json d = placeholder_payload rid (s_id s) False (t_stage t))"
proof -
  let ?db1 = "upd_task rid (parked False) db"
  have tt: "the_task db rid = t" using assms(4) by (simp add: the_task_def)
  have f: "find_delivery ?db1 (placeholder_key rid (s_placeholder_version s)) = None"
    using assms(3) by (simp add: find_delivery_def)
  obtain i where q: "enqueue_delivery e rid (r_provider (the_run db rid)) ''review_placeholder'' (slot_destination (s_id s))
      (placeholder_key rid (s_placeholder_version s)) (placeholder_payload rid (s_id s) False (t_stage t)) True (Some 100) 0 False ?db1
      = (db', Inr i)"
    using assms(1,2,3,5) tt by (auto simp: request_placeholder_def Let_def and_then_Inr)
  obtain db2 row where n: "enqueue_delivery e rid (r_provider (the_run db rid)) ''review_placeholder'' (slot_destination (s_id s))
      (placeholder_key rid (s_placeholder_version s)) (placeholder_payload rid (s_id s) False (t_stage t)) True (Some 100) 0 False ?db1
      = (db2, Inr (next_id e ?db1))"
    and rows: "tasks db2 = upd_where (\<lambda>t. t_id t = rid) with_pending (tasks ?db1)" "outbox db2 = outbox ?db1 @ [row]"
      "d_task_id row = rid" "d_operation row = ''review_placeholder''" "d_status row = ''queued''" "d_mandatory row"
      "d_payload_json row = placeholder_payload rid (s_id s) False (t_stage t)"
    using enqueue_new[OF f] by metis
  have "db2 = db'" using q n by simp
  moreover have "get_task db2 rid = Some (with_pending (parked False t))"
    using get_task_where[OF rows(1), of rid] get_task_upd[of "parked False" rid db rid] assms(4) by simp
  moreover have "row \<in> set (outbox db2)" using rows(2) by simp
  ultimately show ?thesis using rows(3-) by blast
qed

lemma ensure_new:
  assumes "ensure_review_placeholder_requested e rid db = (db', Inr sid)" and "find_slot db rid = None"
    and "next_id e db \<notin> s_id ` set (slots db)" and "find_delivery db (placeholder_key rid 1) = None"
    and "get_task db rid = Some t" and "\<not> execution_started t (the_run db rid)"
  shows "get_task db' rid = Some (with_pending (parked False t)) \<and>
     (\<exists>d \<in> set (outbox db'). d_task_id d = rid \<and> d_operation d = ''review_placeholder'' \<and> d_status d = ''queued'' \<and>
        d_mandatory d \<and> d_payload_json d = placeholder_payload rid (next_id e db) False (t_stage t))"
proof -
  let ?r = "the_run db rid"
  let ?slot = "new_slot (next_id e db) (now e) (r_id ?r) (r_provider ?r) (r_repo_full_name ?r) (r_pull_request_number ?r)
      (r_head_sha ?r) (''review-orchestrator:summary:slot:'' @ next_id e db)"
  let ?db1 = "draw (db\<lparr>slots := slots db @ [?slot]\<rparr>)"
  have c: "create_slot e ?r db = (?db1, next_id e db)" by (simp add: create_slot_def Let_def)
  have "first_row (\<lambda>s. s_id s = next_id e db) (slots db) = None"
    unfolding first_row_None using assms(3) by (metis image_eqI)
  then have "get_slot ?db1 (next_id e db) = Some ?slot"
    by (simp add: get_slot_def first_row_append new_slot_def)
  then have s: "the_slot ?db1 (next_id e db) = ?slot" by (simp add: the_slot_def)
  have p: "request_placeholder e rid ?slot ?db1 = (db', Inr sid)"
    using assms(1,2) c s by (simp add: ensure_review_placeholder_requested_def)
  have g: "get_task ?db1 rid = Some t" "the_run ?db1 rid = the_run db rid"
    "find_delivery ?db1 (placeholder_key rid (s_placeholder_version ?slot)) = None"
    using assms(4,5) by (simp_all add: get_task_def the_run_def get_run_def find_delivery_def new_slot_def)
  show ?thesis
    using placeholder_new[OF p _ g(3,1)] assms(6) g(2) by (simp add: new_slot_def)
qed

lemma adopt_new:
  assumes "adopt_run e reason c rid True db = (db', Inr (rid, True))" and "runs_ok u db" and "find_slot db rid = None"
    and "next_id e db \<notin> s_id ` set (slots db)" and "find_delivery db (placeholder_key rid 1) = None"
    and "get_task db rid = Some t" and "\<not> execution_started t (the_run db rid)"
  shows "get_task db' rid = Some (with_pending (parked False t)) \<and>
     (\<exists>d \<in> set (outbox db'). d_task_id d = rid \<and> d_operation d = ''review_placeholder'' \<and> d_status d = ''queued'' \<and>
        d_mandatory d \<and> d_payload_json d = placeholder_payload rid (next_id e db) False (t_stage t))"
proof -
  let ?g = "\<lambda>r. r\<lparr>r_pull_request_context_id := Some (c_id c)\<rparr>"
  let ?db2 = "upd_context (c_id c) (\<lambda>c. c\<lparr>c_latest_review_run_id := Some rid\<rparr>) (upd_run rid ?g db)"
  obtain sid db3 where en: "ensure_review_placeholder_requested e rid ?db2 = (db3, Inr sid)"
    and su: "if reason = ''automatic'' then \<exists>rids. supersede_older_review_runs e rid db3 = (db', Inr rids) else db' = db3"
    using assms(1) by (auto simp: adopt_run_def Let_def and_then_Inr split: if_splits)
  have run: "get_run ?db2 rid = map_option ?g (get_run db rid)" using get_run_upd[of ?g rid db rid] by simp
  have ok3: "runs_ok u db3"
    using numbered.ensure_placeholder_keeps[of u ?db2 e rid] numbered.run_keeps[of u db ?g rid] assms(2) en by simp
  have "execution_started t (the_run ?db2 rid) = execution_started t (the_run db rid)"
    using run by (cases "get_run db rid") (simp_all add: the_run_def execution_started_def)
  then have n: "get_task db3 rid = Some (with_pending (parked False t)) \<and>
     (\<exists>d \<in> set (outbox db3). d_task_id d = rid \<and> d_operation d = ''review_placeholder'' \<and> d_status d = ''queued'' \<and>
        d_mandatory d \<and> d_payload_json d = placeholder_payload rid (next_id e db) False (t_stage t))"
    using ensure_new[OF en, of t] assms(3-7) by (simp add: find_slot_def find_delivery_def next_id_def)
  have "get_task db' rid = get_task db3 rid \<and> set (outbox db3) \<subseteq> set (outbox db')"
  proof (cases "reason = ''automatic''")
    case True
    then obtain rids where r: "supersede_older_review_runs e rid db3 = (db', Inr rids)" using su by auto
    from superseded_effect[OF r ok3] show ?thesis by simp
  next
    case False
    then show ?thesis using su by simp
  qed
  with n show ?thesis by auto
qed

end
