(* ===== verification/Scheduler.thy ===== *)
theory Scheduler
  imports Models "HOL-Library.Multiset"
begin

text \<open>
  \<open>application/scheduler.py\<close>: the priority scheduler over the \<open>task\<close> table and the atomic
  resource leases. Definitions first, in the file's order; then the invariants: no pool is ever
  leased beyond its capacity, every live lease belongs to a task whose lock outlives it, a
  claimed task is exclusively owned until its lock expires, and claims follow priority order.
\<close>

section \<open>Requirements and policy\<close>

definition default_resource_capacities :: "(string \<times> int) list" where
  "default_resource_capacities =
     [(''user'', 4), (''repository'', 4), (''pr'', 1), (''pr_head'', 1), (''comment'', 1),
      (''model'', 4), (''concurrency'', 1)]"

record requirement =
  rq_key :: string
  rq_dimension :: string
  rq_units :: int
  rq_capacity :: int

record policy =
  resource_capacities :: "(string \<times> int) list"
  aging_interval_seconds :: int
  scan_limit :: int

definition default_policy :: policy where
  "default_policy =
     \<lparr>resource_capacities = default_resource_capacities, aging_interval_seconds = 300,
      scan_limit = 64\<rparr>"

text \<open>\<open>int(value)\<close> on a JSON value\<close>

definition py_int :: "json \<Rightarrow> err + int" where
  "py_int j =
     (case j of
        JInt i \<Rightarrow> Inr i
      | JBool b \<Rightarrow> Inr (if b then 1 else 0)
      | JFloat r t \<Rightarrow> Inr t
      | JStr s \<Rightarrow> (case int_of_str s of
                     None \<Rightarrow> Inl (ValueError (''invalid literal for int() with base 10: '' @ repr_str s))
                   | Some i \<Rightarrow> Inr i)
      | _ \<Rightarrow> Inl (TypeError ''int() argument must be a string or a number''))"

definition resource_values :: "json \<Rightarrow> string list" where
  "resource_values j =
     (case j of
        JNull \<Rightarrow> []
      | JList xs \<Rightarrow> filter (\<lambda>s. s \<noteq> []) (map py_str xs)
      | _ \<Rightarrow> (if py_str j = [] then [] else [py_str j]))"

definition resource_demands :: "json \<Rightarrow> err + (string \<times> int) list" where
  "resource_demands j =
     (case j of
        JNull \<Rightarrow> Inr []
      | JObj kvs \<Rightarrow>
          (let raw = or_else (dget kvs ''keys'') (or_else (dget kvs ''values'') (jget kvs ''value''))
           in case py_int (or_else (dget kvs ''units'') (JInt 1)) of
                Inl x \<Rightarrow> Inl x
              | Inr units \<Rightarrow>
                  (if units \<le> 0 then Inl (ValueError ''Resource request units must be positive.'')
                   else Inr (map (\<lambda>v. (v, units)) (resource_values raw))))
      | _ \<Rightarrow> Inr (map (\<lambda>v. (v, 1)) (resource_values j)))"

fun dimension_requirements :: "policy \<Rightarrow> (string \<times> json) list \<Rightarrow> err + requirement list" where
  "dimension_requirements pol [] = Inr []"
| "dimension_requirements pol ((dim, raw) # rest) =
     (case resource_demands raw of
        Inl x \<Rightarrow> Inl x
      | Inr demands \<Rightarrow>
          (case dimension_requirements pol rest of
             Inl x \<Rightarrow> Inl x
           | Inr others \<Rightarrow>
               Inr (map (\<lambda>(v, units).
                       \<lparr>rq_key = dim @ '':'' @ v, rq_dimension = dim, rq_units = units,
                        rq_capacity = dict_get (resource_capacities pol) dim 1\<rparr>) demands
                    @ others)))"

definition concurrency_requirement :: "policy \<Rightarrow> task \<Rightarrow> requirement list" where
  "concurrency_requirement pol t =
     (if has_text (t_concurrency_key t)
      then [\<lparr>rq_key = ''concurrency:'' @ the (t_concurrency_key t),
             rq_dimension = ''concurrency'', rq_units = 1,
             rq_capacity = dict_get (resource_capacities pol) ''concurrency'' 1\<rparr>]
      else [])"

definition unique_requirements :: "requirement list \<Rightarrow> requirement list" where
  "unique_requirements rqs =
     sort_key rq_key (map snd (foldl (\<lambda>m r. dict_put (rq_key r) r m) [] rqs))"

definition requirements :: "policy \<Rightarrow> task \<Rightarrow> err + requirement list" where
  "requirements pol t =
     (case dimension_requirements pol (sort_key fst (or_else (t_resource_context_json t) [])) of
        Inl x \<Rightarrow> Inl x
      | Inr rqs \<Rightarrow> Inr (unique_requirements (rqs @ concurrency_requirement pol t)))"

fun parse_capacity_items :: "string list \<Rightarrow> (string \<times> int) list \<Rightarrow> err + (string \<times> int) list" where
  "parse_capacity_items [] caps = Inr caps"
| "parse_capacity_items (item # items) caps =
     (case partition_at ''='' (str_strip item) of
        (dim, found, raw) \<Rightarrow>
          (if \<not> found \<or> dim = [] then Inl (ValueError (''Invalid task resource capacity: '' @ item))
           else case int_of_str raw of
             None \<Rightarrow> Inl (ValueError (''invalid literal for int() with base 10: '' @ repr_str raw))
           | Some cap \<Rightarrow>
               (if cap \<le> 0 then Inl (ValueError (''Resource capacity must be positive: '' @ item))
                else parse_capacity_items items (dict_put dim cap caps))))"

definition parse_resource_capacities :: "string option \<Rightarrow> err + (string \<times> int) list" where
  "parse_resource_capacities v =
     (if has_text v
      then parse_capacity_items (split_on (CHR '','') (the v)) default_resource_capacities
      else Inr default_resource_capacities)"

record scheduler_settings =
  task_resource_capacities :: "string option"
  task_priority_aging_seconds :: int
  task_scheduler_scan_limit :: int

definition policy_from_settings :: "scheduler_settings \<Rightarrow> err + policy" where
  "policy_from_settings st =
     (case parse_resource_capacities (task_resource_capacities st) of
        Inl x \<Rightarrow> Inl x
      | Inr caps \<Rightarrow>
          Inr \<lparr>resource_capacities = caps, aging_interval_seconds = task_priority_aging_seconds st,
               scan_limit = task_scheduler_scan_limit st\<rparr>)"

section \<open>Claiming\<close>

definition aged_priority :: "policy \<Rightarrow> time \<Rightarrow> task \<Rightarrow> int" where
  "aged_priority pol t0 t =
     (let waited = max 0 (t0 - t_created_at t) div 1000000;
          boost = waited div aging_interval_seconds pol
      in min 100 (t_priority t + boost))"

definition apply_priority_aging :: "policy \<Rightarrow> time \<Rightarrow> db \<Rightarrow> db" where
  "apply_priority_aging pol t0 db =
     (if aging_interval_seconds pol \<le> 0 then db
      else db\<lparr>tasks := upd_where (\<lambda>t. t_status t = ''queued'')
                        (\<lambda>t. t\<lparr>t_effective_priority := aged_priority pol t0 t\<rparr>) (tasks db)\<rparr>)"

definition claimable :: "env \<Rightarrow> string list \<Rightarrow> string list \<Rightarrow> time \<Rightarrow> task \<Rightarrow> bool" where
  "claimable e kinds classes t0 t \<longleftrightarrow>
     (t_status t = ''queued'' \<or> t_status t = ''running'') \<and>
     t_available_at t \<le> t0 \<and>
     (case t_deadline_at t of None \<Rightarrow> True | Some d \<Rightarrow> t0 < d) \<and>
     (case t_locked_until t of None \<Rightarrow> True | Some u \<Rightarrow> u < t0) \<and>
     (kinds \<noteq> [] \<longrightarrow> t_kind t \<in> set kinds) \<and>
     (classes \<noteq> [] \<longrightarrow> t_resource_class t \<in> set classes) \<and>
     (dialect e = Postgresql \<longrightarrow> \<not> row_locked e (t_id t))"

definition claim_key :: "task \<Rightarrow> int \<times> int \<times> time \<times> time" where
  "claim_key t =
     (- t_effective_priority t, (if t_status t = ''queued'' then 0 else 1),
      t_available_at t, t_created_at t)"

definition claim_candidates :: "env \<Rightarrow> string list \<Rightarrow> string list \<Rightarrow> time \<Rightarrow> policy \<Rightarrow> db \<Rightarrow> string list" where
  "claim_candidates e kinds classes t0 pol db =
     map t_id (take (nat (scan_limit pol))
                 (sort_key claim_key (filter (claimable e kinds classes t0) (tasks db))))"

definition compare_and_swap_task_lock :: "env \<Rightarrow> string \<Rightarrow> string \<Rightarrow> time \<Rightarrow> time \<Rightarrow> db \<Rightarrow> db \<times> bool" where
  "compare_and_swap_task_lock e tid worker expires t0 db =
     (if dialect e \<noteq> Sqlite then (db, True)
      else let free = (\<lambda>t. t_id t = tid \<and>
                         (case t_locked_until t of None \<Rightarrow> True | Some u \<Rightarrow> u < t0))
           in (db\<lparr>tasks := upd_where free
                   (\<lambda>t. t\<lparr>t_lock_owner := Some worker, t_locked_until := Some expires,
                          t_updated_at := t0\<rparr>) (tasks db)\<rparr>,
               length (filter free (tasks db)) = 1))"

text \<open>The three dialects insert the missing pools and keep the present ones.\<close>

definition ensure_pool :: "env \<Rightarrow> requirement \<Rightarrow> db \<Rightarrow> db" where
  "ensure_pool e r db =
     (if get_pool db (rq_key r) = None
      then db\<lparr>pools := pools db @ [new_pool (now e) (rq_key r) (rq_dimension r) (rq_capacity r)]\<rparr>
      else db)"

definition ensure_resource_pools :: "env \<Rightarrow> requirement list \<Rightarrow> db \<Rightarrow> db" where
  "ensure_resource_pools e rqs db = fold (ensure_pool e) rqs db"

definition used_units :: "time \<Rightarrow> string \<Rightarrow> db \<Rightarrow> int" where
  "used_units t0 key db =
     sum_units l_units (filter (\<lambda>l. l_resource_key l = key \<and> t0 < l_expires_at l) (leases db))"

fun resources_fit :: "time \<Rightarrow> requirement list \<Rightarrow> db \<Rightarrow> err + bool" where
  "resources_fit t0 [] db = Inr True"
| "resources_fit t0 (r # rs) db =
     (case get_pool db (rq_key r) of
        None \<Rightarrow> Inl (KeyError (rq_key r))
      | Some p \<Rightarrow>
          (if p_capacity p < used_units t0 (rq_key r) db + rq_units r then Inr False
           else resources_fit t0 rs db))"

definition lease_clash :: "string \<Rightarrow> string \<Rightarrow> string \<Rightarrow> db \<Rightarrow> bool" where
  "lease_clash tid stage key db \<longleftrightarrow>
     (\<exists>l \<in> set (leases db). l_task_id l = tid \<and> l_stage l = stage \<and> l_resource_key l = key)"

fun add_leases :: "env \<Rightarrow> string \<Rightarrow> string \<Rightarrow> string \<Rightarrow> time \<Rightarrow> requirement list \<Rightarrow> db \<Rightarrow> db \<times> (err + unit)" where
  "add_leases e tid worker stage expires [] db = (db, Inr ())"
| "add_leases e tid worker stage expires (r # rs) db =
     (if lease_clash tid stage (rq_key r) db then (db, Inl (IntegrityError ''uq_task_resource_lease''))
      else add_leases e tid worker stage expires rs
             (draw (db\<lparr>leases := leases db @
                [new_lease (next_id e db) (now e) tid stage (rq_key r) (rq_units r) worker expires]\<rparr>)))"

definition acquire_resources :: "env \<Rightarrow> string \<Rightarrow> string \<Rightarrow> string \<Rightarrow> time \<Rightarrow> time \<Rightarrow> requirement list \<Rightarrow> db \<Rightarrow> db \<times> (err + bool)" where
  "acquire_resources e tid worker stage expires t0 rqs db =
     (if rqs = [] then (db, Inr True)
      else let db1 = ensure_resource_pools e rqs db in
           case resources_fit t0 rqs db1 of
             Inl x \<Rightarrow> (db1, Inl x)
           | Inr False \<Rightarrow> (db1, Inr False)
           | Inr True \<Rightarrow>
               (case add_leases e tid worker stage expires rqs db1 of
                  (db2, Inl x) \<Rightarrow> (db2, Inl x)
                | (db2, Inr _) \<Rightarrow> (db2, Inr True)))"

definition start_claimed :: "string \<Rightarrow> time \<Rightarrow> time \<Rightarrow> task \<Rightarrow> task" where
  "start_claimed worker expires t0 t =
     (let t1 = (if t_status t = ''queued''
                then t\<lparr>t_status := ''running'', t_execution_status := ''running'',
                       t_started_at := Some (or_else (t_started_at t) t0),
                       t_stage := Some (str_or (t_stage t) ''start'')\<rparr>
                else t)
      in t1\<lparr>t_lock_owner := Some worker, t_locked_until := Some expires, t_updated_at := t0\<rparr>)"

definition unlock_skipped :: "time \<Rightarrow> task \<Rightarrow> task" where
  "unlock_skipped t0 t = t\<lparr>t_lock_owner := None, t_locked_until := None, t_updated_at := t0\<rparr>"

fun claim_loop :: "env \<Rightarrow> policy \<Rightarrow> string \<Rightarrow> time \<Rightarrow> time \<Rightarrow> string list \<Rightarrow> db \<Rightarrow> db \<times> (err + string option)" where
  "claim_loop e pol worker expires t0 [] db = (db, Inr None)"
| "claim_loop e pol worker expires t0 (tid # rest) db =
     (case get_task db tid of
        None \<Rightarrow> claim_loop e pol worker expires t0 rest db
      | Some _ \<Rightarrow>
          (case compare_and_swap_task_lock e tid worker expires t0 db of
             (db1, False) \<Rightarrow> claim_loop e pol worker expires t0 rest db1
           | (db1, True) \<Rightarrow>
               (case requirements pol (the_task db1 tid) of
                  Inl x \<Rightarrow> (db1, Inl x)
                | Inr rqs \<Rightarrow>
                    (case acquire_resources e tid worker (str_or (t_stage (the_task db1 tid)) ''start'')
                            expires t0 rqs db1 of
                       (db2, Inl x) \<Rightarrow> (db2, Inl x)
                     | (db2, Inr False) \<Rightarrow>
                         claim_loop e pol worker expires t0 rest (upd_task tid (unlock_skipped t0) db2)
                     | (db2, Inr True) \<Rightarrow>
                         (upd_task tid (start_claimed worker expires t0) db2, Inr (Some tid))))))"

definition drop_expired_leases :: "time \<Rightarrow> db \<Rightarrow> db" where
  "drop_expired_leases t0 db = db\<lparr>leases := del_where (\<lambda>l. l_expires_at l \<le> t0) (leases db)\<rparr>"

text \<open>The claimed task is returned by its id; \<open>now=None\<close> reads the clock.\<close>

definition claim_next_task :: "env \<Rightarrow> string \<Rightarrow> string list \<Rightarrow> string list \<Rightarrow> int \<Rightarrow> time option \<Rightarrow> policy \<Rightarrow> db \<Rightarrow> db \<times> (err + string option)" where
  "claim_next_task e worker kinds classes lock_seconds t pol db =
     (let t0 = or_else t (now e);
          db1 = apply_priority_aging pol t0 (drop_expired_leases t0 db)
      in claim_loop e pol worker (t0 + seconds lock_seconds) t0
           (claim_candidates e kinds classes t0 pol db1) db1)"

section \<open>Releasing and renewing\<close>

definition release_task_claim :: "env \<Rightarrow> string \<Rightarrow> string option \<Rightarrow> time option \<Rightarrow> time option \<Rightarrow> db \<Rightarrow> db \<times> string option" where
  "release_task_claim e tid own retry_after t db =
     (let t0 = or_else t (now e);
          db1 = db\<lparr>leases := del_where (\<lambda>l. l_task_id l = tid \<and>
                     (case own of None \<Rightarrow> True | Some w \<Rightarrow> l_owner l = w)) (leases db)\<rparr>
      in case get_task db1 tid of
           None \<Rightarrow> (db1, None)
         | Some tk \<Rightarrow>
             (if own = None \<or> t_lock_owner tk = own
              then (upd_task tid (\<lambda>tk.
                      (let tk1 = tk\<lparr>t_lock_owner := None, t_locked_until := None\<rparr>;
                           tk2 = (case retry_after of
                                    Some d \<Rightarrow> (if t_status tk1 = ''queued'' \<or> t_status tk1 = ''running''
                                               then tk1\<lparr>t_available_at := t0 + d\<rparr> else tk1)
                                  | None \<Rightarrow> tk1)
                       in tk2\<lparr>t_updated_at := t0\<rparr>)) db1, Some tid)
              else (db1, Some tid)))"

definition renew_task_claim :: "env \<Rightarrow> string \<Rightarrow> string \<Rightarrow> int \<Rightarrow> time option \<Rightarrow> db \<Rightarrow> db \<times> bool" where
  "renew_task_claim e tid own lock_seconds t db =
     (let t0 = or_else t (now e) in
      case get_task db tid of
        None \<Rightarrow> (db, False)
      | Some tk \<Rightarrow>
          (if t_lock_owner tk \<noteq> Some own then (db, False)
           else let expires = t0 + seconds lock_seconds;
                    db1 = upd_task tid (\<lambda>tk. tk\<lparr>t_locked_until := Some expires, t_updated_at := t0\<rparr>) db
                in (db1\<lparr>leases := upd_where (\<lambda>l. l_task_id l = tid \<and> l_owner l = own)
                              (\<lambda>l. l\<lparr>l_expires_at := expires\<rparr>) (leases db1)\<rparr>, True)))"

section \<open>Laws of the pieces\<close>

definition policy_ok :: "policy \<Rightarrow> bool" where
  "policy_ok pol \<longleftrightarrow> (\<forall>kv \<in> set (resource_capacities pol). 0 \<le> snd kv)"

lemma dict_get_policy:
  fixes pol :: policy
  shows "policy_ok pol \<Longrightarrow> 0 \<le> dict_get (resource_capacities pol) k 1"
  by (fastforce simp: policy_ok_def dict_get_def or_else_def split: option.splits dest: map_of_SomeD)

lemma resource_demands_pos: "resource_demands j = Inr ds \<Longrightarrow> d \<in> set ds \<Longrightarrow> 0 < snd d"
  by (auto simp: resource_demands_def Let_def split: json.splits sum.splits if_splits)

lemma dimension_requirements_ok:
  "dimension_requirements pol kvs = Inr rqs \<Longrightarrow> r \<in> set rqs \<Longrightarrow> policy_ok pol \<Longrightarrow>
     0 < rq_units r \<and> 0 \<le> rq_capacity r"
proof (induction pol kvs arbitrary: rqs rule: dimension_requirements.induct)
  case (1 pol)
  then show ?case by simp
next
  case (2 pol dim raw rest)
  from 2(2) obtain ds others
    where ds: "resource_demands raw = Inr ds" and others: "dimension_requirements pol rest = Inr others"
      and rqs: "rqs = map (\<lambda>(v, units).
                       \<lparr>rq_key = dim @ '':'' @ v, rq_dimension = dim, rq_units = units,
                        rq_capacity = dict_get (resource_capacities pol) dim 1\<rparr>) ds @ others"
    by (auto split: sum.splits)
  show ?case
  proof (cases "r \<in> set others")
    case True
    with 2(1)[OF ds others] 2(4) show ?thesis by simp
  next
    case False
    with 2(3) rqs obtain v units where "(v, units) \<in> set ds"
      and r: "r = \<lparr>rq_key = dim @ '':'' @ v, rq_dimension = dim, rq_units = units,
                   rq_capacity = dict_get (resource_capacities pol) dim 1\<rparr>"
      by auto
    with resource_demands_pos[OF ds] have "0 < units" by force
    with dict_get_policy[OF 2(4)] r show ?thesis by simp
  qed
qed

text \<open>
  Collecting the requirements in a dictionary and sorting it leaves each key once, in key order,
  with a requirement of the input.
\<close>

definition collected :: "(string \<times> requirement) list \<Rightarrow> requirement list \<Rightarrow> (string \<times> requirement) list" where
  "collected m rqs = foldl (\<lambda>m r. dict_put (rq_key r) r m) m rqs"

lemma collect_requirements:
  "\<forall>kv \<in> set m. rq_key (snd kv) = fst kv \<Longrightarrow> distinct (map fst m) \<Longrightarrow>
     (\<forall>kv \<in> set (collected m rqs). rq_key (snd kv) = fst kv) \<and>
     distinct (map fst (collected m rqs)) \<and>
     set (collected m rqs) \<subseteq> set m \<union> (\<lambda>r. (rq_key r, r)) ` set rqs"
proof (induction rqs arbitrary: m)
  case Nil
  then show ?case by (simp add: collected_def)
next
  case (Cons r rqs)
  let ?m = "dict_put (rq_key r) r m"
  have step: "collected m (r # rqs) = collected ?m rqs"
    by (simp add: collected_def)
  have "\<forall>kv \<in> set ?m. rq_key (snd kv) = fst kv"
    using Cons.prems(1) by (auto dest!: dict_put_set)
  moreover have "distinct (map fst ?m)"
    using Cons.prems(2) by (rule dict_put_distinct)
  moreover have "set ?m \<subseteq> insert (rq_key r, r) (set m)"
    by (auto dest!: dict_put_set)
  ultimately show ?case using Cons.IH[of ?m] unfolding step by auto
qed

lemma unique_requirements_ok:
  "distinct (map rq_key (unique_requirements rqs))"
  "sorted (map rq_key (unique_requirements rqs))"
  "set (unique_requirements rqs) \<subseteq> set rqs"
proof -
  let ?m = "collected [] rqs"
  have m: "\<forall>kv \<in> set ?m. rq_key (snd kv) = fst kv" "distinct (map fst ?m)"
    "set ?m \<subseteq> (\<lambda>r. (rq_key r, r)) ` set rqs"
    using collect_requirements[of "[]" rqs] by auto
  have "map rq_key (map snd ?m) = map fst ?m" using m(1) by auto
  then have "distinct (map rq_key (map snd ?m))" using m(2) by metis
  moreover have "mset (map rq_key (sort_key rq_key (map snd ?m))) = mset (map rq_key (map snd ?m))"
    by (simp only: mset_map mset_sort)
  ultimately show "distinct (map rq_key (unique_requirements rqs))"
    unfolding unique_requirements_def collected_def[symmetric] by (metis mset_eq_imp_distinct_iff)
  show "sorted (map rq_key (unique_requirements rqs))"
    by (simp add: unique_requirements_def)
  show "set (unique_requirements rqs) \<subseteq> set rqs"
    using m(3) by (auto simp: unique_requirements_def collected_def[symmetric])
qed

lemma requirements_ok:
  assumes "requirements pol t = Inr rqs"
  shows "distinct (map rq_key rqs)" and "sorted (map rq_key rqs)"
    and "policy_ok pol \<Longrightarrow> r \<in> set rqs \<Longrightarrow> 0 < rq_units r \<and> 0 \<le> rq_capacity r"
proof -
  from assms obtain dims where
    dims: "dimension_requirements pol (sort_key fst (or_else (t_resource_context_json t) [])) = Inr dims"
    and rqs: "rqs = unique_requirements (dims @ concurrency_requirement pol t)"
    by (auto simp: requirements_def split: sum.splits)
  show "distinct (map rq_key rqs)" "sorted (map rq_key rqs)"
    using rqs unique_requirements_ok by auto
  assume pol: "policy_ok pol" and r: "r \<in> set rqs"
  from r rqs unique_requirements_ok(3) have "r \<in> set dims \<union> set (concurrency_requirement pol t)"
    by fastforce
  then show "0 < rq_units r \<and> 0 \<le> rq_capacity r"
    using dimension_requirements_ok[OF dims _ pol] dict_get_policy[OF pol]
    by (auto simp: concurrency_requirement_def split: if_splits)
qed

section \<open>Resource capacity\<close>

text \<open>
  \<open>capacity_ok\<close>: the units of all the leases of a pool, expired ones included, stay within its
  capacity (an expired lease that is still in the table can be renewed). \<open>pools_ok\<close>: leases
  have positive units and name an existing pool (the foreign key), pool keys are unique (the
  primary key).
\<close>

definition leased_units :: "string \<Rightarrow> db \<Rightarrow> int" where
  "leased_units k db = sum_units l_units (filter (\<lambda>l. l_resource_key l = k) (leases db))"

definition capacity_ok :: "db \<Rightarrow> bool" where
  "capacity_ok db \<longleftrightarrow> (\<forall>p \<in> set (pools db). leased_units (p_resource_key p) db \<le> p_capacity p)"

definition pools_ok :: "db \<Rightarrow> bool" where
  "pools_ok db \<longleftrightarrow>
     unique_on p_resource_key (pools db) \<and>
     (\<forall>l \<in> set (leases db). 0 < l_units l \<and> l_resource_key l \<in> p_resource_key ` set (pools db)) \<and>
     (\<forall>p \<in> set (pools db). 0 \<le> p_capacity p)"

lemma used_units_le_leased:
  assumes "pools_ok db"
  shows "used_units t0 k db \<le> leased_units k db"
  unfolding used_units_def leased_units_def
proof (rule sum_units_filter_le)
  show "0 \<le> l_units l" if "l \<in> set (leases db)" for l
    using assms that by (force simp: pools_ok_def)
qed simp

text \<open>The claim first drops the expired leases, so what it counts as used is all there is.\<close>

lemma used_units_all_live:
  "\<forall>l \<in> set (leases db). t0 < l_expires_at l \<Longrightarrow> used_units t0 k db = leased_units k db"
  unfolding used_units_def leased_units_def by (metis (mono_tags, lifting) filter_cong)

lemma leased_units_filter:
  assumes "\<forall>l \<in> set (leases db). 0 < l_units l" and "leases db' = filter P (leases db)"
  shows "leased_units k db' \<le> leased_units k db"
proof -
  have "filter (\<lambda>l. l_resource_key l = k) (leases db') =
        filter (\<lambda>l. l_resource_key l = k \<and> P l) (leases db)"
    using assms(2) by (simp add: conj_commute)
  then show ?thesis
    using assms(1) unfolding leased_units_def by (force intro: sum_units_filter_le)
qed

text \<open>Deleting leases, and rewriting what is neither their units nor their key, keeps both.\<close>

lemma capacity_filter:
  assumes "pools db' = pools db" and "leases db' = filter P (leases db)"
    and "capacity_ok db" and "pools_ok db"
  shows "capacity_ok db' \<and> pools_ok db'"
proof
  have "leased_units k db' \<le> leased_units k db" for k
    using assms(2,4) by (intro leased_units_filter) (auto simp: pools_ok_def)
  then show "capacity_ok db'"
    using assms(1,3) by (metis capacity_ok_def order_trans)
  show "pools_ok db'"
    using assms by (auto simp: pools_ok_def)
qed

lemma sum_units_upd_where:
  "(\<And>r. P r \<Longrightarrow> u (f r) = u r) \<Longrightarrow> sum_units u (upd_where P f rs) = sum_units u rs"
  by (induction rs) auto

lemma capacity_upd_leases:
  assumes "pools db' = pools db" and "leases db' = upd_where P f (leases db)"
    and "\<And>l. l_units (f l) = l_units l" and "\<And>l. l_resource_key (f l) = l_resource_key l"
  shows "capacity_ok db' = capacity_ok db \<and> pools_ok db' = pools_ok db"
proof -
  have "leased_units k db' = leased_units k db" for k
    using assms by (simp add: leased_units_def filter_upd_where sum_units_upd_where)
  moreover have "(\<forall>l \<in> set (leases db'). 0 < l_units l \<and> l_resource_key l \<in> K) =
      (\<forall>l \<in> set (leases db). 0 < l_units l \<and> l_resource_key l \<in> K)" for K
    unfolding assms(2) by (rule ball_upd_where) (simp add: assms(3,4))
  ultimately show ?thesis
    using assms(1) by (simp add: capacity_ok_def pools_ok_def)
qed

lemma capacity_tables:
  "pools db' = pools db \<Longrightarrow> leases db' = leases db \<Longrightarrow>
     capacity_ok db' = capacity_ok db \<and> pools_ok db' = pools_ok db"
  by (simp add: capacity_ok_def pools_ok_def leased_units_def)

subsection \<open>Creating pools\<close>

lemma get_pool_in: "get_pool db k = Some p \<Longrightarrow> p \<in> set (pools db) \<and> p_resource_key p = k"
  by (auto simp: get_pool_def dest: first_row_SomeD)

lemma get_pool_None: "get_pool db k = None \<longleftrightarrow> k \<notin> p_resource_key ` set (pools db)"
  by (auto simp: get_pool_def first_row_None)

lemma ensure_pool_tables [simp]:
  "leases (ensure_pool e r db) = leases db" "tasks (ensure_pool e r db) = tasks db"
  by (simp_all add: ensure_pool_def)

lemma ensure_pool_keeps:
  "get_pool db k = Some p \<Longrightarrow> get_pool (ensure_pool e r db) k = Some p"
  by (auto simp: ensure_pool_def get_pool_def first_row_append)

lemma ensure_pool_has: "get_pool (ensure_pool e r db) (rq_key r) \<noteq> None"
  by (auto simp: ensure_pool_def get_pool_def first_row_append new_pool_def split: option.splits)

lemma leased_units_no_pool:
  assumes "pools_ok db" and "get_pool db k = None"
  shows "leased_units k db = 0"
proof -
  have "filter (\<lambda>l. l_resource_key l = k) (leases db) = []"
    using assms by (auto simp: pools_ok_def get_pool_None filter_empty_conv)
  then show ?thesis by (simp add: leased_units_def)
qed

lemma ensure_pool_ok:
  assumes "pools_ok db" and "capacity_ok db" and "0 \<le> rq_capacity r"
  shows "pools_ok (ensure_pool e r db) \<and> capacity_ok (ensure_pool e r db)"
proof (cases "get_pool db (rq_key r)")
  case None
  let ?p = "new_pool (now e) (rq_key r) (rq_dimension r) (rq_capacity r)"
  have pools: "pools (ensure_pool e r db) = pools db @ [?p]"
    using None by (simp add: ensure_pool_def)
  have p: "p_resource_key ?p = rq_key r" "p_capacity ?p = rq_capacity r"
    by (simp_all add: new_pool_def)
  have "leased_units (rq_key r) db = 0"
    using assms(1) None by (rule leased_units_no_pool)
  moreover have "leased_units k (ensure_pool e r db) = leased_units k db" for k
    by (simp add: leased_units_def)
  ultimately show ?thesis
    using assms None
    by (auto simp: pools_ok_def capacity_ok_def pools p unique_on_snoc get_pool_None)
next
  case (Some p)
  then show ?thesis using assms by (simp add: ensure_pool_def)
qed

lemma ensure_resource_pools_ok:
  "pools_ok db \<Longrightarrow> capacity_ok db \<Longrightarrow> (\<And>r. r \<in> set rqs \<Longrightarrow> 0 \<le> rq_capacity r) \<Longrightarrow>
     pools_ok (ensure_resource_pools e rqs db) \<and> capacity_ok (ensure_resource_pools e rqs db)"
  unfolding ensure_resource_pools_def
  by (induction rqs arbitrary: db) (auto simp: ensure_pool_ok)

lemma ensure_resource_pools_tables [simp]:
  "leases (ensure_resource_pools e rqs db) = leases db"
  "tasks (ensure_resource_pools e rqs db) = tasks db"
  unfolding ensure_resource_pools_def by (induction rqs arbitrary: db) auto

lemma ensure_resource_pools_keeps:
  "get_pool db k = Some p \<Longrightarrow> get_pool (ensure_resource_pools e rqs db) k = Some p"
  unfolding ensure_resource_pools_def
  by (induction rqs arbitrary: db) (auto simp: ensure_pool_keeps)

lemma ensure_resource_pools_has:
  "r \<in> set rqs \<Longrightarrow> get_pool (ensure_resource_pools e rqs db) (rq_key r) \<noteq> None"
proof (induction rqs arbitrary: db)
  case Nil
  then show ?case by simp
next
  case (Cons s rqs)
  have step: "ensure_resource_pools e (s # rqs) db = ensure_resource_pools e rqs (ensure_pool e s db)"
    by (simp add: ensure_resource_pools_def)
  show ?case
  proof (cases "r = s")
    case True
    then obtain p where "get_pool (ensure_pool e s db) (rq_key r) = Some p"
      using ensure_pool_has[of e s db] by auto
    then show ?thesis using ensure_resource_pools_keeps step by fastforce
  next
    case False
    with Cons show ?thesis by (simp add: step)
  qed
qed

subsection \<open>Checking and taking the units\<close>

lemma resources_fit_True:
  "resources_fit t0 rqs db = Inr True \<Longrightarrow> r \<in> set rqs \<Longrightarrow>
     \<exists>p. get_pool db (rq_key r) = Some p \<and> used_units t0 (rq_key r) db + rq_units r \<le> p_capacity p"
  by (induction rqs) (auto split: option.splits if_splits)

lemma resources_fit_False:
  "resources_fit t0 rqs db = Inr False \<Longrightarrow>
     \<exists>r \<in> set rqs. \<exists>p. get_pool db (rq_key r) = Some p \<and>
        p_capacity p < used_units t0 (rq_key r) db + rq_units r"
  by (induction rqs) (auto split: option.splits if_splits)

lemma resources_fit_Inl:
  "resources_fit t0 rqs db = Inl x \<Longrightarrow> \<exists>r \<in> set rqs. get_pool db (rq_key r) = None"
  by (induction rqs) (auto split: option.splits if_splits)

lemma add_leases_tables:
  "add_leases e tid w st ex rqs db = (db', res) \<Longrightarrow>
     pools db' = pools db \<and> tasks db' = tasks db"
  by (induction rqs arbitrary: db) (auto split: if_splits)

lemma add_leases_keeps:
  "add_leases e tid w st ex rqs db = (db', res) \<Longrightarrow>
     \<exists>new. leases db' = leases db @ new \<and>
       (\<forall>l \<in> set new. l_task_id l = tid \<and> l_owner l = w \<and> l_expires_at l = ex)"
proof (induction rqs arbitrary: db)
  case Nil
  then show ?case by simp
next
  case (Cons r rqs)
  show ?case
  proof (cases "lease_clash tid st (rq_key r) db")
    case True
    with Cons.prems show ?thesis by simp
  next
    case False
    then show ?thesis
      using Cons.IH[OF Cons.prems[unfolded add_leases.simps if_not_P[OF False]]]
      by (auto simp: new_lease_def)
  qed
qed

text \<open>A task without leases of its own never meets the unique constraint.\<close>

lemma add_leases_no_clash:
  assumes "distinct (map rq_key rqs)" and "\<forall>r \<in> set rqs. \<not> lease_clash tid st (rq_key r) db"
  shows "\<exists>db'. add_leases e tid w st ex rqs db = (db', Inr ())"
  using assms
proof (induction rqs arbitrary: db)
  case Nil
  then show ?case by simp
next
  case (Cons r rqs)
  have "\<not> lease_clash tid st (rq_key r) db" using Cons.prems by simp
  moreover have "\<exists>db'. add_leases e tid w st ex rqs
      (draw (db\<lparr>leases := leases db @
         [new_lease (next_id e db) (now e) tid st (rq_key r) (rq_units r) w ex]\<rparr>)) = (db', Inr ())"
    using Cons.prems by (intro Cons.IH) (auto simp: lease_clash_def new_lease_def)
  ultimately show ?case by simp
qed

lemma leased_units_snoc:
  "leases db' = leases db @ [l] \<Longrightarrow>
     leased_units k db' = leased_units k db + (if l_resource_key l = k then l_units l else 0)"
  by (simp add: leased_units_def)

lemma add_leases_ok:
  "add_leases e tid w st ex rqs db = (db', res) \<Longrightarrow> distinct (map rq_key rqs) \<Longrightarrow>
     pools_ok db \<Longrightarrow> capacity_ok db \<Longrightarrow>
     (\<And>r. r \<in> set rqs \<Longrightarrow> 0 < rq_units r \<and>
        (\<exists>p. get_pool db (rq_key r) = Some p \<and>
             leased_units (rq_key r) db + rq_units r \<le> p_capacity p)) \<Longrightarrow>
     pools_ok db' \<and> capacity_ok db'"
proof (induction rqs arbitrary: db)
  case Nil
  then show ?case by simp
next
  case (Cons r rqs)
  show ?case
  proof (cases "lease_clash tid st (rq_key r) db")
    case True
    with Cons.prems show ?thesis by simp
  next
    case False
    let ?l = "new_lease (next_id e db) (now e) tid st (rq_key r) (rq_units r) w ex"
    let ?db = "draw (db\<lparr>leases := leases db @ [?l]\<rparr>)"
    have l: "l_resource_key ?l = rq_key r" "l_units ?l = rq_units r"
      by (simp_all add: new_lease_def)
    have units: "leased_units k ?db = leased_units k db + (if rq_key r = k then rq_units r else 0)" for k
      by (subst leased_units_snoc[of ?db db ?l]) (simp_all add: new_lease_def)
    have gp: "get_pool ?db k = get_pool db k" for k
      by (simp add: get_pool_def)
    obtain p where p: "get_pool db (rq_key r) = Some p" "0 < rq_units r"
      "leased_units (rq_key r) db + rq_units r \<le> p_capacity p"
      using Cons.prems(5)[of r] by auto
    have "rq_key r \<in> p_resource_key ` set (pools db)"
      using get_pool_in[OF p(1)] by force
    then have "pools_ok ?db"
      using Cons.prems(3) p(2) by (auto simp: pools_ok_def l)
    moreover have "capacity_ok ?db"
    proof -
      have "q = p" if "q \<in> set (pools db)" "p_resource_key q = rq_key r" for q
        using that get_pool_in[OF p(1)] Cons.prems(3) by (auto simp: pools_ok_def dest: unique_on_inj)
      then show ?thesis
        using Cons.prems(4) p(3) units by (fastforce simp: capacity_ok_def)
    qed
    moreover have "add_leases e tid w st ex rqs ?db = (db', res)"
      using Cons.prems(1) False by simp
    ultimately show ?thesis
      using Cons.prems(2,5) by (intro Cons.IH[of ?db]) (auto simp: units gp)
  qed
qed

text \<open>
  \<open>blocked\<close>: a task whose requirements do not fit, with the capacities of \<open>db'\<close> and the units
  taken in \<open>db\<close>.
\<close>

definition blocked :: "policy \<Rightarrow> time \<Rightarrow> db \<Rightarrow> db \<Rightarrow> task \<Rightarrow> bool" where
  "blocked pol t0 db db' t \<longleftrightarrow>
     (\<exists>rqs r p. requirements pol t = Inr rqs \<and> r \<in> set rqs \<and> get_pool db' (rq_key r) = Some p \<and>
        p_capacity p < used_units t0 (rq_key r) db + rq_units r)"

lemma acquire_resources_spec:
  assumes ok: "pools_ok db" "capacity_ok db" and live: "\<forall>l \<in> set (leases db). t0 < l_expires_at l"
    and keys: "distinct (map rq_key rqs)"
    and units: "\<And>r. r \<in> set rqs \<Longrightarrow> 0 < rq_units r \<and> 0 \<le> rq_capacity r"
    and none: "\<forall>l \<in> set (leases db). l_task_id l \<noteq> tid"
  shows "\<exists>db' b new. acquire_resources e tid w st ex t0 rqs db = (db', Inr b) \<and>
     pools_ok db' \<and> capacity_ok db' \<and> tasks db' = tasks db \<and> leases db' = leases db @ new \<and>
     (\<forall>l \<in> set new. l_task_id l = tid \<and> l_owner l = w \<and> l_expires_at l = ex) \<and>
     (\<forall>k p. get_pool db k = Some p \<longrightarrow> get_pool db' k = Some p) \<and>
     (\<not> b \<longrightarrow> new = [] \<and> (\<exists>r \<in> set rqs. \<exists>p. get_pool db' (rq_key r) = Some p \<and>
        p_capacity p < used_units t0 (rq_key r) db + rq_units r))"
proof (cases "rqs = []")
  case True
  then show ?thesis using ok by (auto simp: acquire_resources_def)
next
  case False
  let ?db = "ensure_resource_pools e rqs db"
  have ok1: "pools_ok ?db" "capacity_ok ?db"
    using ensure_resource_pools_ok ok units by blast+
  have used: "used_units t0 k ?db = used_units t0 k db" for k
    by (simp add: used_units_def)
  have used_all: "used_units t0 k db = leased_units k ?db" for k
    using used_units_all_live[of ?db t0 k] live used by simp
  have keep: "get_pool db k = Some p \<Longrightarrow> get_pool ?db k = Some p" for k p
    by (rule ensure_resource_pools_keeps)
  consider x where "resources_fit t0 rqs ?db = Inl x" | "resources_fit t0 rqs ?db = Inr False"
    | "resources_fit t0 rqs ?db = Inr True"
    by (cases "resources_fit t0 rqs ?db") auto
  then show ?thesis
  proof cases
    case 1
    then show ?thesis using resources_fit_Inl ensure_resource_pools_has by blast
  next
    case 2
    then have "acquire_resources e tid w st ex t0 rqs db = (?db, Inr False)"
      using False by (simp add: acquire_resources_def)
    then show ?thesis using ok1 keep resources_fit_False[OF 2] used by (auto simp: exI[of _ "[]"])
  next
    case 3
    have "\<forall>r \<in> set rqs. \<not> lease_clash tid st (rq_key r) ?db"
      using none by (auto simp: lease_clash_def)
    then obtain db' where add: "add_leases e tid w st ex rqs ?db = (db', Inr ())"
      using add_leases_no_clash keys by blast
    then have "acquire_resources e tid w st ex t0 rqs db = (db', Inr True)"
      using False 3 by (simp add: acquire_resources_def)
    moreover have "pools_ok db' \<and> capacity_ok db'"
    proof (rule add_leases_ok[OF add keys ok1])
      fix r assume "r \<in> set rqs"
      then show "0 < rq_units r \<and> (\<exists>p. get_pool ?db (rq_key r) = Some p \<and>
          leased_units (rq_key r) ?db + rq_units r \<le> p_capacity p)"
        using resources_fit_True[OF 3] units used used_all by metis
    qed
    moreover have "\<forall>k p. get_pool db k = Some p \<longrightarrow> get_pool db' k = Some p"
      using keep add_leases_tables[OF add] by (simp add: get_pool_def)
    ultimately show ?thesis
      using add_leases_tables[OF add] add_leases_keeps[OF add] by auto
  qed
qed

section \<open>Locks and leases\<close>

text \<open>
  Every lease belongs to a task that its owner holds locked for at least as long as the lease
  runs. The unique constraint \<open>uq_task_resource_lease\<close> can then never fire in a claim.
\<close>

definition locks_ok :: "db \<Rightarrow> bool" where
  "locks_ok db \<longleftrightarrow>
     unique_on t_id (tasks db) \<and>
     (\<forall>l \<in> set (leases db). \<exists>t u. get_task db (l_task_id l) = Some t \<and>
        t_lock_owner t = Some (l_owner l) \<and> t_locked_until t = Some u \<and> l_expires_at l \<le> u)"

definition sched_ok :: "db \<Rightarrow> bool" where
  "sched_ok db \<longleftrightarrow> pools_ok db \<and> capacity_ok db \<and> locks_ok db"

definition lock_free :: "time \<Rightarrow> task \<Rightarrow> bool" where
  "lock_free t0 t \<longleftrightarrow> (case t_locked_until t of None \<Rightarrow> True | Some u \<Rightarrow> u < t0)"

lemma locks_ok_upd_task:
  assumes "locks_ok db" and "\<And>t. t_id (f t) = t_id t" and "\<forall>l \<in> set (leases db). l_task_id l \<noteq> tid"
  shows "locks_ok (upd_task tid f db)"
  using assms by (auto simp: locks_ok_def get_task_upd unique_on_upd_where)

lemma sched_ok_upd_task:
  assumes "sched_ok db" and "\<And>t. t_id (f t) = t_id t" and "\<forall>l \<in> set (leases db). l_task_id l \<noteq> tid"
  shows "sched_ok (upd_task tid f db)"
  using assms capacity_tables[of "upd_task tid f db" db] locks_ok_upd_task[OF _ assms(2,3)]
  by (simp add: sched_ok_def)

text \<open>The compare-and-swap succeeds on a free task and touches that task only.\<close>

definition cas_locked :: "env \<Rightarrow> string \<Rightarrow> time \<Rightarrow> time \<Rightarrow> task \<Rightarrow> task" where
  "cas_locked e w ex t0 t =
     (if dialect e = Sqlite
      then t\<lparr>t_lock_owner := Some w, t_locked_until := Some ex, t_updated_at := t0\<rparr> else t)"

lemma cas_locked_id [simp]: "t_id (cas_locked e w ex t0 t) = t_id t"
  by (simp add: cas_locked_def)

lemma requirements_lock_irrelevant:
  "t_resource_context_json t' = t_resource_context_json t \<Longrightarrow>
     t_concurrency_key t' = t_concurrency_key t \<Longrightarrow> requirements pol t' = requirements pol t"
  by (simp add: requirements_def concurrency_requirement_def cong: sum.case_cong)

lemma requirements_cas_locked [simp]:
  "requirements pol (cas_locked e w ex t0 t) = requirements pol t"
  by (rule requirements_lock_irrelevant) (simp_all add: cas_locked_def)

lemma cas_free:
  assumes "unique_on t_id (tasks db)" and "get_task db tid = Some t" and "lock_free t0 t"
  shows "compare_and_swap_task_lock e tid w ex t0 db = (upd_task tid (cas_locked e w ex t0) db, True)"
proof (cases "dialect e = Sqlite")
  case True
  let ?free = "\<lambda>x. t_id x = tid \<and> (case t_locked_until x of None \<Rightarrow> True | Some u \<Rightarrow> u < t0)"
  have t: "t \<in> set (tasks db)" "t_id t = tid"
    using get_task_SomeD[OF assms(2)] by auto
  then have row: "?free x = (t_id x = tid)" if "x \<in> set (tasks db)" for x
    using that assms(1,3) unique_on_inj[OF assms(1)] by (auto simp: lock_free_def)
  have "filter ?free (tasks db) = filter (\<lambda>x. t_id x = tid) (tasks db)"
    using row by (intro filter_cong) auto
  moreover have "length (filter (\<lambda>x. t_id x = tid) (tasks db)) \<le> 1"
    using assms(1) by (rule filter_unique_length)
  moreover have "filter (\<lambda>x. t_id x = tid) (tasks db) \<noteq> []"
    using t by (auto simp: filter_empty_conv)
  ultimately have "length (filter ?free (tasks db)) = 1"
    by (metis One_nat_def le_Suc_eq le_zero_eq length_0_conv)
  moreover have "upd_where ?free f (tasks db) = upd_where (\<lambda>x. t_id x = tid) f (tasks db)" for f
    using row by (simp add: upd_where_def)
  ultimately show ?thesis
    using True by (simp add: compare_and_swap_task_lock_def upd_task_def cas_locked_def[abs_def])
next
  case False
  then show ?thesis
    by (simp add: compare_and_swap_task_lock_def upd_task_def cas_locked_def[abs_def] upd_where_same)
qed

section \<open>One candidate of a claim\<close>

text \<open>What the loop relies on for the candidates still to come.\<close>

definition ready :: "time \<Rightarrow> db \<Rightarrow> string \<Rightarrow> bool" where
  "ready t0 db tid \<longleftrightarrow> (\<exists>t. get_task db tid = Some t \<and> lock_free t0 t) \<and>
     (\<forall>l \<in> set (leases db). l_task_id l \<noteq> tid)"

definition pools_kept :: "db \<Rightarrow> db \<Rightarrow> bool" where
  "pools_kept db db' \<longleftrightarrow> (\<forall>k p. get_pool db k = Some p \<longrightarrow> get_pool db' k = Some p)"

text \<open>A skipped candidate leaves leases, present pools and the other tasks as they were.\<close>

definition skipped_to :: "string \<Rightarrow> db \<Rightarrow> db \<Rightarrow> bool" where
  "skipped_to tid db db' \<longleftrightarrow> leases db' = leases db \<and>
     (\<forall>i. i \<noteq> tid \<longrightarrow> get_task db' i = get_task db i) \<and> pools_kept db db'"

definition claimed_by :: "string \<Rightarrow> time \<Rightarrow> db \<Rightarrow> task \<Rightarrow> bool" where
  "claimed_by w ex db t \<longleftrightarrow> get_task db (t_id t) = Some t \<and> t_status t = ''running'' \<and>
     t_lock_owner t = Some w \<and> t_locked_until t = Some ex \<and>
     (\<forall>l \<in> set (leases db). l_task_id l = t_id t \<longrightarrow> l_owner l = w \<and> l_expires_at l = ex)"

lemma locks_ok_claimed:
  assumes ok: "locks_ok db" and "tasks db' = tasks db" and "leases db' = leases db @ new"
    and new: "\<forall>l \<in> set new. l_task_id l = tid \<and> l_owner l = w \<and> l_expires_at l = ex"
    and none: "\<forall>l \<in> set (leases db). l_task_id l \<noteq> tid" and t: "get_task db tid = Some t"
    and f: "\<And>t. t_id (f t) = t_id t" "\<And>t. t_lock_owner (f t) = Some w" "\<And>t. t_locked_until (f t) = Some ex"
  shows "locks_ok (upd_task tid f db')"
proof -
  have gt: "get_task (upd_task tid f db') j = (if j = tid then map_option f (get_task db j) else get_task db j)" for j
    using get_task_upd[of f tid db' j, OF f(1)] assms(2) by (simp add: get_task_def)
  show ?thesis
    using ok none new t f unfolding locks_ok_def
    by (auto simp: gt assms(2,3) unique_on_upd_where)
qed

lemma start_claimed_simps [simp]:
  "t_id (start_claimed w ex t0 t) = t_id t"
  "t_lock_owner (start_claimed w ex t0 t) = Some w"
  "t_locked_until (start_claimed w ex t0 t) = Some ex"
  by (simp_all add: start_claimed_def Let_def)

lemma unlock_skipped_id [simp]: "t_id (unlock_skipped t0 t) = t_id t"
  by (simp add: unlock_skipped_def)

lemma start_claimed_running:
  "t_status t = ''queued'' \<or> t_status t = ''running'' \<Longrightarrow> t_status (start_claimed w ex t0 t) = ''running''"
  by (auto simp: start_claimed_def Let_def)

lemma claim_step:
  assumes ok: "sched_ok db" and pol: "policy_ok pol"
    and live: "\<forall>l \<in> set (leases db). t0 < l_expires_at l" and ready: "ready t0 db tid"
    and t: "get_task db tid = Some t" and st: "t_status t = ''queued'' \<or> t_status t = ''running''"
  shows "(\<exists>db' x. claim_loop e pol w ex t0 (tid # rest) db = (db', Inl x) \<and> sched_ok db' \<and>
            pools_kept db db' \<and> requirements pol t = Inl x) \<or>
         (\<exists>db'. claim_loop e pol w ex t0 (tid # rest) db = claim_loop e pol w ex t0 rest db' \<and>
            sched_ok db' \<and> skipped_to tid db db' \<and> blocked pol t0 db db' t) \<or>
         (\<exists>db' t'. claim_loop e pol w ex t0 (tid # rest) db = (db', Inr (Some tid)) \<and>
            sched_ok db' \<and> t_id t' = tid \<and> claimed_by w ex db' t' \<and> pools_kept db db' \<and>
            (\<exists>new. leases db' = leases db @ new))"
proof -
  let ?db1 = "upd_task tid (cas_locked e w ex t0) db"
  let ?t1 = "cas_locked e w ex t0 t"
  have none: "\<forall>l \<in> set (leases db). l_task_id l \<noteq> tid" and free: "lock_free t0 t"
    using ready t by (auto simp: ready_def)
  have cas: "compare_and_swap_task_lock e tid w ex t0 db = (?db1, True)"
    using cas_free[OF _ t free] ok by (simp add: sched_ok_def locks_ok_def)
  have t1: "get_task ?db1 tid = Some ?t1" and other: "j \<noteq> tid \<Longrightarrow> get_task ?db1 j = get_task db j" for j
    using t by (simp_all add: get_task_upd)
  then have the1: "the_task ?db1 tid = ?t1" by (simp add: the_task_def)
  have ok1: "sched_ok ?db1"
    using ok none by (intro sched_ok_upd_task) auto
  show ?thesis
  proof (cases "requirements pol t")
    case (Inl x)
    then have "claim_loop e pol w ex t0 (tid # rest) db = (?db1, Inl x)"
      using t cas the1 by simp
    moreover have "pools_kept db ?db1" by (simp add: pools_kept_def get_pool_def)
    ultimately show ?thesis using ok1 Inl by blast
  next
    case (Inr rqs)
    let ?st = "str_or (t_stage ?t1) ''start''"
    have u: "used_units t0 k ?db1 = used_units t0 k db" and g: "get_pool ?db1 k = get_pool db k" for k
      by (simp_all add: used_units_def get_pool_def)
    obtain db2 b new where
      acq: "acquire_resources e tid w ?st ex t0 rqs ?db1 = (db2, Inr b)"
      and ok2: "pools_ok db2" "capacity_ok db2" and tasks2: "tasks db2 = tasks ?db1"
      and leases2: "leases db2 = leases db @ new"
      and new: "\<forall>l \<in> set new. l_task_id l = tid \<and> l_owner l = w \<and> l_expires_at l = ex"
      and keep: "\<forall>k p. get_pool db k = Some p \<longrightarrow> get_pool db2 k = Some p"
      and blk: "\<not> b \<Longrightarrow> new = [] \<and> (\<exists>r \<in> set rqs. \<exists>p. get_pool db2 (rq_key r) = Some p \<and>
        p_capacity p < used_units t0 (rq_key r) db + rq_units r)"
      using acquire_resources_spec[of ?db1 t0 rqs tid e w ?st ex] ok1 live none
        requirements_ok[OF Inr] pol
      unfolding u g upd_task_frame sched_ok_def by blast
    have gt2: "get_task db2 j = get_task ?db1 j" for j
      using tasks2 by (simp add: get_task_def)
    show ?thesis
    proof (cases b)
      case True
      let ?db3 = "upd_task tid (start_claimed w ex t0) db2"
      let ?t3 = "start_claimed w ex t0 ?t1"
      have "claim_loop e pol w ex t0 (tid # rest) db = (?db3, Inr (Some tid))"
        using t cas the1 Inr acq True by simp
      moreover have "sched_ok ?db3"
        using ok2 capacity_tables[of ?db3 db2] ok1 tasks2 leases2 new none t1
          locks_ok_claimed[of ?db1 db2 new tid w ex ?t1 "start_claimed w ex t0"]
        by (simp add: sched_ok_def)
      moreover have "claimed_by w ex ?db3 ?t3"
        using t t1 gt2 st none new get_task_SomeD[OF t] leases2
        by (auto simp: claimed_by_def get_task_upd start_claimed_running cas_locked_def)
      moreover have "t_id ?t3 = tid" using get_task_SomeD[OF t] by simp
      moreover have "pools_kept db ?db3" using keep by (simp add: pools_kept_def get_pool_def)
      ultimately show ?thesis using leases2 by auto
    next
      case False
      let ?db3 = "upd_task tid (unlock_skipped t0) db2"
      have l3: "leases ?db3 = leases db" using blk[OF False] leases2 by simp
      have "claim_loop e pol w ex t0 (tid # rest) db = claim_loop e pol w ex t0 rest ?db3"
        using t cas the1 Inr acq False by simp
      moreover have "locks_ok db2"
        using ok1 tasks2 gt2 blk[OF False] leases2 by (simp add: sched_ok_def locks_ok_def)
      then have "sched_ok ?db3"
        using ok2 none leases2 blk[OF False] by (intro sched_ok_upd_task) (auto simp: sched_ok_def)
      moreover have "skipped_to tid db ?db3"
        using keep l3 other gt2 by (auto simp: skipped_to_def pools_kept_def get_task_upd get_pool_def)
      moreover have "blocked pol t0 db ?db3 t"
        using blk[OF False] Inr by (auto simp: blocked_def get_pool_def)
      ultimately show ?thesis by blast
    qed
  qed
qed

section \<open>The claim\<close>

definition claim_outcome ::
  "policy \<Rightarrow> string \<Rightarrow> time \<Rightarrow> time \<Rightarrow> string list \<Rightarrow> db \<Rightarrow> db \<Rightarrow> err + string option \<Rightarrow> bool" where
  "claim_outcome pol w ex t0 cs db db' res \<longleftrightarrow>
     (case res of
        Inl x \<Rightarrow> (\<exists>i \<in> set cs. \<exists>t. get_task db i = Some t \<and> requirements pol t = Inl x)
      | Inr None \<Rightarrow>
          leases db' = leases db \<and>
          (\<forall>i \<in> set cs. \<exists>t. get_task db i = Some t \<and> blocked pol t0 db db' t)
      | Inr (Some i) \<Rightarrow>
          (\<exists>new. leases db' = leases db @ new) \<and> (\<exists>t. t_id t = i \<and> claimed_by w ex db' t) \<and>
          (\<exists>pre post. cs = pre @ i # post \<and>
             (\<forall>j \<in> set pre. \<exists>u. get_task db j = Some u \<and> blocked pol t0 db db' u)))"

definition candidate_ok :: "time \<Rightarrow> db \<Rightarrow> string \<Rightarrow> bool" where
  "candidate_ok t0 db i \<longleftrightarrow> ready t0 db i \<and>
     (\<exists>t. get_task db i = Some t \<and> (t_status t = ''queued'' \<or> t_status t = ''running''))"

lemma candidate_ok_skipped:
  "skipped_to tid db db' \<Longrightarrow> i \<noteq> tid \<Longrightarrow> candidate_ok t0 db i \<Longrightarrow> candidate_ok t0 db' i"
  by (auto simp: skipped_to_def candidate_ok_def ready_def)

lemma blocked_leases: "leases db1 = leases db2 \<Longrightarrow> blocked pol t0 db1 db' t = blocked pol t0 db2 db' t"
  by (simp add: blocked_def used_units_def)

lemma blocked_kept: "blocked pol t0 db db1 t \<Longrightarrow> pools_kept db1 db2 \<Longrightarrow> blocked pol t0 db db2 t"
  unfolding blocked_def pools_kept_def by metis

lemma pools_kept_refl [simp]: "pools_kept db db"
  by (simp add: pools_kept_def)

lemma pools_kept_trans: "pools_kept db db1 \<Longrightarrow> pools_kept db1 db2 \<Longrightarrow> pools_kept db db2"
  by (simp add: pools_kept_def)

lemma claim_outcome_skip:
  assumes skip: "skipped_to tid db db2" and new: "tid \<notin> set cs"
    and out: "claim_outcome pol w ex t0 cs db2 db' res"
    and head: "get_task db tid = Some t" "blocked pol t0 db db' t"
  shows "claim_outcome pol w ex t0 (tid # cs) db db' res"
proof -
  have l: "leases db2 = leases db" and g: "\<forall>i \<in> set cs. get_task db2 i = get_task db i"
    using skip new by (auto simp: skipped_to_def)
  have b: "blocked pol t0 db2 db' u = blocked pol t0 db db' u" for u
    using l by (rule blocked_leases)
  show ?thesis
  proof (cases res)
    case (Inl x)
    with out g show ?thesis by (fastforce simp: claim_outcome_def)
  next
    case (Inr r)
    show ?thesis
    proof (cases r)
      case None
      with out g head Inr show ?thesis by (simp add: claim_outcome_def l b)
    next
      case (Some i)
      from out obtain pre post where cs: "cs = pre @ i # post"
        and pre: "\<forall>j \<in> set pre. \<exists>u. get_task db2 j = Some u \<and> blocked pol t0 db2 db' u"
        by (auto simp: claim_outcome_def Some Inr)
      have "tid # cs = (tid # pre) @ i # post" using cs by simp
      moreover have "\<forall>j \<in> set (tid # pre). \<exists>u. get_task db j = Some u \<and> blocked pol t0 db db' u"
        using pre head g cs by (simp add: b)
      ultimately show ?thesis
        using out l unfolding claim_outcome_def Some Inr sum.case option.case by metis
    qed
  qed
qed

lemma claim_loop_outcome:
  "sched_ok db \<Longrightarrow> policy_ok pol \<Longrightarrow> \<forall>l \<in> set (leases db). t0 < l_expires_at l \<Longrightarrow>
     distinct cs \<Longrightarrow> \<forall>i \<in> set cs. candidate_ok t0 db i \<Longrightarrow>
     claim_loop e pol w ex t0 cs db = (db', res) \<Longrightarrow>
     sched_ok db' \<and> pools_kept db db' \<and> claim_outcome pol w ex t0 cs db db' res"
proof (induction cs arbitrary: db)
  case Nil
  then show ?case by (auto simp: claim_outcome_def)
next
  case (Cons tid cs)
  obtain t where t: "ready t0 db tid" "get_task db tid = Some t"
    "t_status t = ''queued'' \<or> t_status t = ''running''"
    using Cons.prems(5) by (auto simp: candidate_ok_def)
  note loop = Cons.prems(6)
  from claim_step[OF Cons.prems(1-3) t, of e w ex cs]
  consider (bad) db1 x where "claim_loop e pol w ex t0 (tid # cs) db = (db1, Inl x)" "sched_ok db1"
      "pools_kept db db1" "requirements pol t = Inl x"
    | (skip) db2 where "claim_loop e pol w ex t0 (tid # cs) db = claim_loop e pol w ex t0 cs db2"
      "sched_ok db2" "skipped_to tid db db2" "blocked pol t0 db db2 t"
    | (won) db3 t' new where "claim_loop e pol w ex t0 (tid # cs) db = (db3, Inr (Some tid))" "sched_ok db3"
      "t_id t' = tid" "claimed_by w ex db3 t'" "pools_kept db db3" "leases db3 = leases db @ new"
    by blast
  then show ?case
  proof cases
    case bad
    then have "res = Inl x" "db' = db1" using loop by auto
    then show ?thesis using bad t(2) by (simp add: claim_outcome_def)
  next
    case skip
    have new: "tid \<notin> set cs" "distinct cs" using Cons.prems(4) by auto
    have "\<forall>i \<in> set cs. candidate_ok t0 db2 i"
      using Cons.prems(5) new(1) by (metis candidate_ok_skipped skip(3) list.set_intros(2))
    moreover have "leases db2 = leases db" "pools_kept db db2"
      using skip(3) by (auto simp: skipped_to_def)
    ultimately have IH: "sched_ok db' \<and> pools_kept db2 db' \<and> claim_outcome pol w ex t0 cs db2 db' res"
      using Cons.prems(2,3) skip(1,2) new(2) loop by (intro Cons.IH) simp_all
    then show ?thesis
      using claim_outcome_skip[OF skip(3) new(1) _ t(2)] blocked_kept[OF skip(4)]
        pools_kept_trans[OF \<open>pools_kept db db2\<close>] by blast
  next
    case won
    then have "res = Inr (Some tid)" "db' = db3" using loop by auto
    moreover have "tid # cs = [] @ tid # cs" by simp
    ultimately show ?thesis using won unfolding claim_outcome_def by fastforce
  qed
qed

subsection \<open>From the start of the claim to its loop\<close>

abbreviation claim_start :: "policy \<Rightarrow> time \<Rightarrow> db \<Rightarrow> db" where
  "claim_start pol t0 db \<equiv> apply_priority_aging pol t0 (drop_expired_leases t0 db)"

lemma aging_tables [simp]:
  "leases (apply_priority_aging pol t0 db) = leases db"
  "pools (apply_priority_aging pol t0 db) = pools db"
  by (simp_all add: apply_priority_aging_def)

text \<open>Ageing a task changes its effective priority only.\<close>

definition aged :: "policy \<Rightarrow> time \<Rightarrow> task \<Rightarrow> task" where
  "aged pol t0 t = (if aging_interval_seconds pol \<le> 0 \<or> t_status t \<noteq> ''queued'' then t
     else t\<lparr>t_effective_priority := aged_priority pol t0 t\<rparr>)"

lemma tasks_aging: "tasks (apply_priority_aging pol t0 db) = map (aged pol t0) (tasks db)"
  by (auto simp: apply_priority_aging_def aged_def upd_where_def intro!: map_idI[symmetric])

lemma aged_simps [simp]:
  "t_id (aged pol t0 t) = t_id t" "t_status (aged pol t0 t) = t_status t"
  "t_lock_owner (aged pol t0 t) = t_lock_owner t" "t_locked_until (aged pol t0 t) = t_locked_until t"
  "t_kind (aged pol t0 t) = t_kind t" "t_resource_context_json (aged pol t0 t) = t_resource_context_json t"
  "t_concurrency_key (aged pol t0 t) = t_concurrency_key t"
  by (simp_all add: aged_def)

lemma requirements_aged [simp]: "requirements pol' (aged pol t0 t) = requirements pol' t"
  by (rule requirements_lock_irrelevant) simp_all

lemma first_row_map: "(\<And>x. k (f x) = k x) \<Longrightarrow>
    first_row (\<lambda>x. k x = i) (map f xs) = map_option f (first_row (\<lambda>x. k x = i) xs)"
  by (induction xs) auto

lemma get_task_claim_start:
  "get_task (claim_start pol t0 db) i = map_option (aged pol t0) (get_task db i)"
  by (simp add: get_task_def tasks_aging first_row_map drop_expired_leases_def)

lemma unique_on_map: "(\<And>x. k (f x) = k x) \<Longrightarrow> unique_on k (map f xs) = unique_on k xs"
  by (simp add: unique_on_def comp_def)

lemma drop_expired_tables [simp]:
  "leases (drop_expired_leases t0 db) = filter (\<lambda>l. t0 < l_expires_at l) (leases db)"
  "tasks (drop_expired_leases t0 db) = tasks db" "pools (drop_expired_leases t0 db) = pools db"
  by (simp_all add: drop_expired_leases_def del_where_def not_le)

lemma used_units_claim_start: "used_units t0 k (claim_start pol t0 db) = used_units t0 k db"
proof -
  have "filter (\<lambda>l. l_resource_key l = k \<and> t0 < l_expires_at l) (leases (claim_start pol t0 db)) =
      filter (\<lambda>l. l_resource_key l = k \<and> t0 < l_expires_at l) (leases db)"
    unfolding aging_tables drop_expired_tables filter_filter by (rule filter_cong) auto
  then show ?thesis by (simp only: used_units_def)
qed

lemma sched_ok_claim_start:
  assumes "sched_ok db"
  shows "sched_ok (claim_start pol t0 db)"
proof -
  have "locks_ok (claim_start pol t0 db)"
    using assms unfolding sched_ok_def locks_ok_def
    by (fastforce simp: get_task_claim_start tasks_aging unique_on_map)
  then show ?thesis
    using assms capacity_filter[of "claim_start pol t0 db" db]
    by (simp add: sched_ok_def)
qed

lemma claim_candidates_in:
  assumes "unique_on t_id (tasks db)" and "i \<in> set (claim_candidates e kinds classes t0 pol db)"
  obtains t where "get_task db i = Some t" "claimable e kinds classes t0 t"
proof -
  from assms(2) obtain t where t: "t \<in> set (tasks db)" "claimable e kinds classes t0 t" "t_id t = i"
    by (auto simp: claim_candidates_def dest!: in_set_takeD)
  then have "get_task db i = Some t"
    using first_row_unique[OF assms(1), of t i] by (simp add: get_task_def)
  with t show thesis using that by blast
qed

lemma claim_candidates_distinct:
  assumes "unique_on t_id (tasks db)"
  shows "distinct (claim_candidates e kinds classes t0 pol db)"
proof -
  have "distinct (map t_id (filter (claimable e kinds classes t0) (tasks db)))"
    using assms by (simp add: unique_on_def distinct_map_filter)
  moreover have "mset (map t_id (sort_key claim_key (filter (claimable e kinds classes t0) (tasks db)))) =
      mset (map t_id (filter (claimable e kinds classes t0) (tasks db)))"
    by (simp only: mset_map mset_sort)
  ultimately have "distinct (map t_id (sort_key claim_key (filter (claimable e kinds classes t0) (tasks db))))"
    by (metis mset_eq_imp_distinct_iff)
  then show ?thesis unfolding claim_candidates_def take_map[symmetric] by (rule distinct_take)
qed

lemma candidates_ok:
  assumes "sched_ok db"
  shows "\<forall>i \<in> set (claim_candidates e kinds classes t0 pol (claim_start pol t0 db)).
           candidate_ok t0 (claim_start pol t0 db) i"
proof
  let ?db = "claim_start pol t0 db"
  fix i assume i: "i \<in> set (claim_candidates e kinds classes t0 pol ?db)"
  have ok: "sched_ok ?db" using assms by (rule sched_ok_claim_start)
  then have "unique_on t_id (tasks ?db)" by (simp add: sched_ok_def locks_ok_def)
  then obtain t where t: "get_task ?db i = Some t" "claimable e kinds classes t0 t"
    using i by (rule claim_candidates_in)
  have "l_task_id l \<noteq> i" if l: "l \<in> set (leases ?db)" for l
  proof
    assume "l_task_id l = i"
    with ok l t obtain u where "t_locked_until t = Some u" "l_expires_at l \<le> u"
      by (fastforce simp: sched_ok_def locks_ok_def)
    moreover have "t0 < l_expires_at l" using l by simp
    ultimately show False using t(2) by (simp add: claimable_def)
  qed
  then show "candidate_ok t0 ?db i"
    using t by (auto simp: candidate_ok_def ready_def claimable_def lock_free_def)
qed

lemma claim_outcome:
  assumes "sched_ok db" and "policy_ok pol"
    and "claim_next_task e w kinds classes secs t pol db = (db', res)"
  shows "sched_ok db' \<and> pools_kept (claim_start pol (or_else t (now e)) db) db' \<and>
     claim_outcome pol w (or_else t (now e) + seconds secs) (or_else t (now e))
       (claim_candidates e kinds classes (or_else t (now e)) pol (claim_start pol (or_else t (now e)) db))
       (claim_start pol (or_else t (now e)) db) db' res"
proof (rule claim_loop_outcome)
  let ?t0 = "or_else t (now e)"
  show ok: "sched_ok (claim_start pol ?t0 db)" using assms(1) by (rule sched_ok_claim_start)
  show "\<forall>l \<in> set (leases (claim_start pol ?t0 db)). ?t0 < l_expires_at l"
    by simp
  show "distinct (claim_candidates e kinds classes ?t0 pol (claim_start pol ?t0 db))"
    using ok by (intro claim_candidates_distinct) (simp add: sched_ok_def locks_ok_def)
qed (use assms candidates_ok in \<open>simp_all add: claim_next_task_def Let_def\<close>)

subsection \<open>A claim leaves the tasks it does not consider alone\<close>

lemma acquire_tasks:
  "acquire_resources e tid w st ex t0 rqs db = (db', res) \<Longrightarrow> tasks db' = tasks db"
  by (auto simp: acquire_resources_def Let_def dest: add_leases_tables
      split: if_splits sum.splits bool.splits prod.splits)

lemma claim_loop_other:
  "i \<notin> set cs \<Longrightarrow> get_task (fst (claim_loop e pol w ex t0 cs db)) i = get_task db i"
proof (induction cs arbitrary: db)
  case Nil
  then show ?case by simp
next
  case (Cons tid cs)
  have i: "i \<noteq> tid" "i \<notin> set cs" using Cons.prems by auto
  obtain db1 ok where cas: "compare_and_swap_task_lock e tid w ex t0 db = (db1, ok)"
    by (cases "compare_and_swap_task_lock e tid w ex t0 db")
  have g1: "get_task db1 i = get_task db i"
  proof -
    have "tasks db1 = tasks db \<or> (\<exists>P f. tasks db1 = upd_where (\<lambda>t. t_id t = tid \<and> P t) f (tasks db) \<and>
        (\<forall>t. t_id (f t) = t_id t))"
      using cas unfolding compare_and_swap_task_lock_def Let_def
      by (cases "dialect e = Sqlite") (auto intro!: exI)
    then show ?thesis
    proof
      assume "\<exists>P f. tasks db1 = upd_where (\<lambda>t. t_id t = tid \<and> P t) f (tasks db) \<and>
        (\<forall>t. t_id (f t) = t_id t)"
      then obtain P f where t1: "tasks db1 = upd_where (\<lambda>t. t_id t = tid \<and> P t) f (tasks db)"
        and f: "\<And>t. t_id (f t) = t_id t" by blast
      have "get_task db1 i = map_option (\<lambda>t. if t_id t = tid \<and> P t then f t else t) (get_task db i)"
        unfolding get_task_def t1 by (rule first_row_upd_where) (simp add: f)
      then show ?thesis
        using i(1) by (cases "get_task db i") (auto dest: get_task_SomeD)
    qed (simp add: get_task_def)
  qed
  have g2: "get_task db2 i = get_task db i"
    if "acquire_resources e tid w st ex t0 rqs db1 = (db2, r)" for db2 r st rqs
    using acquire_tasks[OF that] g1 by (simp add: get_task_def)
  show ?case
    using i g1 g2 Cons.IH cas
    by (auto simp: get_task_upd split: option.splits bool.splits sum.splits prod.splits)
qed

lemma claim_other:
  "i \<notin> set (claim_candidates e kinds classes (or_else t (now e)) pol (claim_start pol (or_else t (now e)) db)) \<Longrightarrow>
     get_task (fst (claim_next_task e w kinds classes secs t pol db)) i =
       map_option (aged pol (or_else t (now e))) (get_task db i)"
  by (simp add: claim_next_task_def Let_def claim_loop_other get_task_claim_start)

section \<open>Releasing and renewing\<close>

lemma release_ok:
  assumes "sched_ok db"
  shows "sched_ok (fst (release_task_claim e tid own retry t db))"
proof -
  let ?t0 = "or_else t (now e)"
  let ?mine = "\<lambda>l. l_task_id l = tid \<and> (case own of None \<Rightarrow> True | Some w \<Rightarrow> l_owner l = w)"
  let ?db1 = "db\<lparr>leases := del_where ?mine (leases db)\<rparr>"
  let ?f = "\<lambda>tk. (let tk1 = tk\<lparr>t_lock_owner := None, t_locked_until := None\<rparr>;
                           tk2 = (case retry of
                                    Some d \<Rightarrow> (if t_status tk1 = ''queued'' \<or> t_status tk1 = ''running''
                                               then tk1\<lparr>t_available_at := ?t0 + d\<rparr> else tk1)
                                  | None \<Rightarrow> tk1)
                       in tk2\<lparr>t_updated_at := ?t0\<rparr>)"
  have "locks_ok ?db1"
    using assms by (auto simp: sched_ok_def locks_ok_def get_task_def)
  then have ok1: "sched_ok ?db1"
    using assms capacity_filter[of ?db1 db] by (simp add: sched_ok_def del_where_def)
  have "sched_ok (upd_task tid ?f ?db1)"
    if tk: "get_task ?db1 tid = Some tk" and own: "own = None \<or> t_lock_owner tk = own" for tk
  proof (rule sched_ok_upd_task[OF ok1])
    show "\<forall>l \<in> set (leases ?db1). l_task_id l \<noteq> tid"
    proof (intro ballI notI)
      fix l assume l: "l \<in> set (leases ?db1)" "l_task_id l = tid"
      then have "t_lock_owner tk = Some (l_owner l)"
        using \<open>locks_ok ?db1\<close> tk by (fastforce simp: locks_ok_def)
      with l own show False by auto
    qed
  qed (simp add: Let_def split: option.splits)
  then show ?thesis
    using ok1 by (auto simp: release_task_claim_def Let_def split: option.splits)
qed

lemma renew_ok:
  assumes "sched_ok db"
  shows "sched_ok (fst (renew_task_claim e tid own secs t db))"
proof (cases "\<exists>tk. get_task db tid = Some tk \<and> t_lock_owner tk = Some own")
  case False
  then show ?thesis using assms by (auto simp: renew_task_claim_def Let_def split: option.splits)
next
  case True
  then obtain tk where tk: "get_task db tid = Some tk" "t_lock_owner tk = Some own" by blast
  let ?t0 = "or_else t (now e)"
  let ?ex = "?t0 + seconds secs"
  let ?f = "\<lambda>tk. tk\<lparr>t_locked_until := Some ?ex, t_updated_at := ?t0\<rparr>"
  let ?g = "\<lambda>l. l\<lparr>l_expires_at := ?ex\<rparr>"
  let ?mine = "\<lambda>l. l_task_id l = tid \<and> l_owner l = own"
  let ?db1 = "upd_task tid ?f db"
  define db2 where "db2 = ?db1\<lparr>leases := upd_where ?mine ?g (leases ?db1)\<rparr>"
  have res: "fst (renew_task_claim e tid own secs t db) = db2"
    using tk by (simp add: renew_task_claim_def Let_def db2_def)
  have gt: "get_task db2 j = (if j = tid then map_option ?f (get_task db j) else get_task db j)" for j
    using get_task_upd[of ?f tid db j] by (simp add: get_task_def db2_def)
  have "\<exists>t u. get_task db2 (l_task_id l') = Some t \<and> t_lock_owner t = Some (l_owner l') \<and>
      t_locked_until t = Some u \<and> l_expires_at l' \<le> u" if l': "l' \<in> set (leases db2)" for l'
  proof -
    from l' obtain l where l: "l \<in> set (leases db)" "l' = (if ?mine l then ?g l else l)"
      by (auto simp: set_upd_where db2_def)
    obtain tl u where tl: "get_task db (l_task_id l) = Some tl" "t_lock_owner tl = Some (l_owner l)"
      "t_locked_until tl = Some u" "l_expires_at l \<le> u"
      using assms l(1) by (fastforce simp: sched_ok_def locks_ok_def)
    show ?thesis
    proof (cases "l_task_id l = tid")
      case True
      with tl tk have "l_owner l = own" by simp
      with True l tl show ?thesis by (simp add: gt)
    next
      case False
      with l tl show ?thesis by (simp add: gt)
    qed
  qed
  moreover have "unique_on t_id (tasks db2)"
    using assms by (simp add: sched_ok_def locks_ok_def unique_on_upd_where db2_def)
  ultimately have "locks_ok db2" by (simp add: locks_ok_def)
  then show ?thesis
    using assms capacity_upd_leases[of db2 db ?mine ?g] by (simp add: res sched_ok_def db2_def)
qed

section \<open>The scheduler as a transition system\<close>

datatype sched_op =
    Claim string "string list" "string list" int
  | Release string "string option" "time option"
  | Renew string string int

text \<open>One call of the scheduler at a clock reading, under the configured settings.\<close>

fun sched_step :: "env \<Rightarrow> scheduler_settings \<Rightarrow> time \<times> sched_op \<Rightarrow> db \<Rightarrow> db" where
  "sched_step e st (t, Claim w kinds classes secs) db =
     (case policy_from_settings st of
        Inl x \<Rightarrow> db
      | Inr pol \<Rightarrow> fst (claim_next_task e w kinds classes secs (Some t) pol db))"
| "sched_step e st (t, Release tid own retry) db = fst (release_task_claim e tid own retry (Some t) db)"
| "sched_step e st (t, Renew tid own secs) db = fst (renew_task_claim e tid own secs (Some t) db)"

lemma parse_capacity_items_pos:
  "parse_capacity_items items caps = Inr caps' \<Longrightarrow> \<forall>kv \<in> set caps. 0 < snd kv \<Longrightarrow>
     \<forall>kv \<in> set caps'. 0 < snd kv"
proof (induction items caps rule: parse_capacity_items.induct)
  case (1 caps)
  then show ?case by simp
next
  case (2 item items caps)
  obtain dim found raw where p: "partition_at ''='' (str_strip item) = (dim, found, raw)"
    by (cases "partition_at ''='' (str_strip item)") auto
  with 2(2) obtain cap where c: "int_of_str raw = Some cap" "0 < cap" "found" "dim \<noteq> []"
    "parse_capacity_items items (dict_put dim cap caps) = Inr caps'"
    by (auto split: if_splits option.splits)
  have "\<forall>kv \<in> set (dict_put dim cap caps). 0 < snd kv"
    using 2(3) c(2) by (auto dest!: dict_put_set)
  then show ?case using 2(1)[OF p[symmetric] refl _ c(1)] c by simp
qed

lemma parse_resource_capacities_pos:
  "parse_resource_capacities v = Inr caps \<Longrightarrow> \<forall>kv \<in> set caps. 0 < snd kv"
  unfolding parse_resource_capacities_def
  by (auto simp: default_resource_capacities_def dest!: parse_capacity_items_pos split: if_splits)

lemma policy_from_settings_ok: "policy_from_settings st = Inr pol \<Longrightarrow> policy_ok pol"
  using parse_resource_capacities_pos
  by (fastforce simp: policy_from_settings_def policy_ok_def split: sum.splits)

lemma sched_step_ok: "sched_ok db \<Longrightarrow> sched_ok (sched_step e st op db)"
proof -
  assume ok: "sched_ok db"
  obtain t c where op: "op = (t, c)" by (cases op)
  show ?thesis
  proof (cases c)
    case (Claim w kinds classes secs)
    show ?thesis
    proof (cases "policy_from_settings st")
      case (Inr pol)
      obtain db' res where c: "claim_next_task e w kinds classes secs (Some t) pol db = (db', res)"
        by fastforce
      show ?thesis
        using claim_outcome[OF ok policy_from_settings_ok[OF Inr] c] c Inr
        by (simp add: op Claim)
    qed (use ok op Claim in simp)
  qed (simp_all add: op ok release_ok renew_ok)
qed

interpretation sched: preserved "sched_step e st" sched_ok for e st
  by unfold_locales (rule sched_step_ok)

lemma sched_ok_start: "leases db = [] \<Longrightarrow> pools db = [] \<Longrightarrow> unique_on t_id (tasks db) \<Longrightarrow> sched_ok db"
  by (simp add: sched_ok_def pools_ok_def capacity_ok_def locks_ok_def)

section \<open>Properties\<close>

definition sample_task :: "string \<Rightarrow> int \<Rightarrow> dict \<Rightarrow> task" where
  "sample_task i prio ctx =
     (new_task i ''agent'' 0)\<lparr>t_priority := prio, t_effective_priority := prio,
        t_resource_context_json := Some ctx\<rparr>"

definition sample_db :: db where
  "sample_db = empty_db\<lparr>tasks :=
     [sample_task ''a'' 10 [(''r'', JStr ''r'')],
      sample_task ''b'' 50 [(''pr'', JStr ''p'')],
      sample_task ''c'' 50 [(''pr'', JStr ''p'')]]\<rparr>"

lemma sample_db_ok: "sched_ok sample_db"
  by (rule sched_ok_start) (simp_all add: sample_db_def empty_db_def unique_on_def sample_task_def new_task_def)

abbreviation sample_settings :: scheduler_settings where
  "sample_settings \<equiv> \<lparr>task_resource_capacities = None, task_priority_aging_seconds = 300,
     task_scheduler_scan_limit = 64\<rparr>"

text \<open>
  C1. Whatever claims, releases and renewals the workers issue, in whatever order and at whatever
  clock readings, no resource pool is ever leased beyond its capacity, and every lease belongs to
  a task that the lease's owner holds locked until the lease ends or later.
\<close>

theorem capacity_never_exceeded:
  assumes "leases db = []" and "pools db = []" and "unique_on t_id (tasks db)"
    and "db' = fold (sched_step e st) ops db"
  shows "(\<forall>p \<in> set (pools db'). \<forall>t. used_units t (p_resource_key p) db' \<le> p_capacity p) \<and>
         (\<forall>l \<in> set (leases db'). \<exists>tk u. get_task db' (l_task_id l) = Some tk \<and>
            t_lock_owner tk = Some (l_owner l) \<and> t_locked_until tk = Some u \<and> l_expires_at l \<le> u)"
proof -
  have ok: "sched_ok db'"
    using sched.run_inv[OF sched_ok_start[OF assms(1-3)], of e st ops] assms(4) by simp
  then have "used_units t (p_resource_key p) db' \<le> p_capacity p" if "p \<in> set (pools db')" for p t
    using that used_units_le_leased[of db' t "p_resource_key p"]
    by (force simp: sched_ok_def capacity_ok_def)
  with ok show ?thesis by (auto simp: sched_ok_def locks_ok_def)
qed

theorem capacity_never_exceeded_witness:
  "let db' = fold (sched_step (sample_env 5) sample_settings)
               [(10, Claim ''w1'' [] [] 300), (20, Claim ''w2'' [] [] 300),
                (30, Renew ''b'' ''w1'' 600), (40, Release ''a'' (Some ''w2'') None)] sample_db
   in map l_task_id (leases db') = [''b''] \<and>
      (\<forall>p \<in> set (pools db'). \<forall>t. used_units t (p_resource_key p) db' \<le> p_capacity p)"
proof -
  let ?ops = "[(10, Claim ''w1'' [] [] 300), (20, Claim ''w2'' [] [] 300),
                (30, Renew ''b'' ''w1'' 600), (40, Release ''a'' (Some ''w2'') None)]"
  have "map l_task_id (leases (fold (sched_step (sample_env 5) sample_settings) ?ops sample_db)) = [''b'']"
    by code_simp
  moreover have "leases sample_db = []" "pools sample_db = []" "unique_on t_id (tasks sample_db)"
    by code_simp+
  ultimately show ?thesis
    using capacity_never_exceeded[of sample_db _ "sample_env 5" sample_settings ?ops, OF _ _ _ refl]
    by (simp only: Let_def) blast
qed

text \<open>
  A claim fails only for a malformed resource context: if \<open>claim_next_task\<close> raises, the
  exception is the one that computing the requirements of a claimable task raises. The unique
  constraint on leases and the lookup of a pool never fail.
\<close>

theorem claim_raises_only_for_bad_context:
  assumes "sched_ok db" and "policy_ok pol"
    and "claim_next_task e w kinds classes secs (Some t0) pol db = (db', Inl x)"
  shows "\<exists>t \<in> set (tasks db). claimable e kinds classes t0 (aged pol t0 t) \<and> requirements pol t = Inl x"
proof -
  let ?db = "claim_start pol t0 db"
  from claim_outcome[OF assms] obtain i t where
    i: "i \<in> set (claim_candidates e kinds classes t0 pol ?db)"
    and t: "get_task ?db i = Some t" "requirements pol t = Inl x"
    by (auto simp: claim_outcome_def)
  have "unique_on t_id (tasks ?db)"
    using sched_ok_claim_start[OF assms(1)] by (simp add: sched_ok_def locks_ok_def)
  from claim_candidates_in[OF this i] t(1) have "claimable e kinds classes t0 t" by auto
  with t show ?thesis
    by (auto simp: get_task_claim_start dest!: get_task_SomeD)
qed

theorem claim_raises_only_for_bad_context_witness:
  "let db = sample_db\<lparr>tasks := [sample_task ''bad'' 1 [(''pr'', JObj [(''units'', JInt 0)])]]\<rparr>;
       x = ValueError ''Resource request units must be positive.''
   in snd (claim_next_task (sample_env 5) ''w'' [] [] 300 (Some 9) default_policy db) = Inl x \<and>
      (\<exists>t \<in> set (tasks db). claimable (sample_env 5) [] [] 9 (aged default_policy 9 t) \<and>
         requirements default_policy t = Inl x)"
proof -
  let ?db = "sample_db\<lparr>tasks := [sample_task ''bad'' 1 [(''pr'', JObj [(''units'', JInt 0)])]]\<rparr>"
  let ?x = "ValueError ''Resource request units must be positive.''"
  have "snd (claim_next_task (sample_env 5) ''w'' [] [] 300 (Some 9) default_policy ?db) = Inl ?x"
    by code_simp
  moreover have "sched_ok ?db"
    by (rule sched_ok_start) (simp_all add: sample_db_def empty_db_def unique_on_def)
  moreover have "policy_ok default_policy" by code_simp
  ultimately show ?thesis
    using claim_raises_only_for_bad_context[of ?db default_policy "sample_env 5" "''w''" "[]" "[]" 300 9]
    by (simp only: Let_def) (metis prod.collapse)
qed

lemma sorted_take_covers:
  fixes f :: "'a \<Rightarrow> 'b::linorder"
  assumes "sorted (map f xs)" and "x \<in> set xs" and "length (filter (\<lambda>y. f y \<le> f x) xs) \<le> n"
  shows "x \<in> set (take n xs)"
  using assms
proof (induction xs arbitrary: n)
  case (Cons y ys)
  from Cons.prems have "f y \<le> f x" by auto
  with Cons show ?case by (cases n) auto
qed simp

text \<open>
  C2. No priority inversion: when a claim returns a task, every claimable task that precedes it
  in the claim order (effective priority after ageing, queued before running, earlier availability,
  earlier creation) was skipped because the units it needs were taken, however many tasks there
  are; when a claim returns no task, every claimable task among the first \<open>scan_limit\<close> of the
  claim order was skipped for that reason.
\<close>

theorem claim_follows_priority:
  assumes "sched_ok db" and "policy_ok pol"
    and "claim_next_task e w kinds classes secs (Some t0) pol db = (db', Inr r)"
  shows "case r of
     Some i \<Rightarrow> \<exists>t \<in> set (tasks db). t_id t = i \<and> claimable e kinds classes t0 (aged pol t0 t) \<and>
       (\<forall>u \<in> set (tasks db). claimable e kinds classes t0 (aged pol t0 u) \<longrightarrow>
          claim_key (aged pol t0 u) < claim_key (aged pol t0 t) \<longrightarrow> blocked pol t0 db db' u)
   | None \<Rightarrow> \<forall>u \<in> set (tasks db). claimable e kinds classes t0 (aged pol t0 u) \<longrightarrow>
       length (filter (\<lambda>v. claimable e kinds classes t0 v \<and> claim_key v \<le> claim_key (aged pol t0 u))
         (map (aged pol t0) (tasks db))) \<le> nat (scan_limit pol) \<longrightarrow>
       blocked pol t0 db db' u"
proof -
  let ?db = "claim_start pol t0 db"
  let ?c = "claimable e kinds classes t0"
  let ?n = "nat (scan_limit pol)"
  let ?rows = "sort_key claim_key (filter ?c (tasks ?db))"
  have uniq: "unique_on t_id (tasks ?db)"
    using sched_ok_claim_start[OF assms(1)] by (simp add: sched_ok_def locks_ok_def)
  have cands: "claim_candidates e kinds classes t0 pol ?db = map t_id (take ?n ?rows)"
    by (simp add: claim_candidates_def take_map)
  have used: "blocked pol t0 ?db db' u = blocked pol t0 db db' u" for u
    by (simp add: blocked_def used_units_claim_start)
  have skipped: "blocked pol t0 db db' u"
    if u: "u \<in> set (tasks db)" and sub: "set vs \<subseteq> set ?rows" "aged pol t0 u \<in> set vs"
      and all: "\<forall>j \<in> t_id ` set vs. \<exists>v. get_task ?db j = Some v \<and> blocked pol t0 ?db db' v" for u vs
  proof -
    let ?u = "aged pol t0 u"
    have "get_task ?db (t_id ?u) = Some ?u"
      using first_row_unique[OF uniq, of ?u "t_id ?u"] u by (simp add: get_task_def tasks_aging)
    then have "blocked pol t0 db db' ?u" using all sub(2) used by fastforce
    then show ?thesis unfolding blocked_def requirements_aged .
  qed
  show ?thesis
  proof (cases r)
    case None
    with claim_outcome[OF assms] cands
    have all: "\<forall>j \<in> t_id ` set (take ?n ?rows). \<exists>v. get_task ?db j = Some v \<and> blocked pol t0 ?db db' v"
      by (auto simp: claim_outcome_def)
    have "aged pol t0 u \<in> set (take ?n ?rows)"
      if "u \<in> set (tasks db)" "?c (aged pol t0 u)"
        "length (filter (\<lambda>v. ?c v \<and> claim_key v \<le> claim_key (aged pol t0 u)) (map (aged pol t0) (tasks db))) \<le> ?n" for u
      using that by (intro sorted_take_covers[of claim_key])
        (auto simp: tasks_aging filter_sort conj_commute)
    with None show ?thesis by (auto intro!: skipped[OF _ _ _ all] dest: in_set_takeD)
  next
    case (Some i)
    from claim_outcome[OF assms] cands Some obtain pre post where
      split: "map t_id (take ?n ?rows) = pre @ i # post"
      and pre: "\<forall>j \<in> set pre. \<exists>u. get_task ?db j = Some u \<and> blocked pol t0 ?db db' u"
      by (auto simp: claim_outcome_def)
    then obtain rpre r' rpost where "take ?n ?rows = rpre @ r' # rpost"
      and ids: "map t_id rpre = pre" "t_id r' = i"
      by (auto simp: map_eq_append_conv map_eq_Cons_conv)
    moreover define rest where "rest = rpost @ drop ?n ?rows"
    ultimately have rows: "?rows = rpre @ r' # rest"
      by (metis append.assoc append_Cons append_take_drop_id)
    have "sorted (map claim_key (rpre @ r' # rest))"
      unfolding rows[symmetric] by simp
    then have late: "claim_key r' \<le> claim_key v" if "v \<in> set (r' # rest)" for v
      using that by (auto simp: sorted_append)
    have "r' \<in> set ?rows" by (subst rows) simp
    then obtain t where t: "t \<in> set (tasks db)" "r' = aged pol t0 t" "?c r'"
      by (auto simp: tasks_aging)
    have "blocked pol t0 db db' u"
      if u: "u \<in> set (tasks db)" "?c (aged pol t0 u)"
        and lt: "claim_key (aged pol t0 u) < claim_key (aged pol t0 t)" for u
    proof (rule skipped[OF u(1), of rpre])
      have "aged pol t0 u \<in> set ?rows" using u by (simp add: tasks_aging)
      then show "aged pol t0 u \<in> set rpre"
        using late[of "aged pol t0 u"] lt t(2) by (subst (asm) rows) (auto simp: not_le[symmetric])
      show "set rpre \<subseteq> set ?rows" by (subst rows) auto
      show "\<forall>j \<in> t_id ` set rpre. \<exists>v. get_task ?db j = Some v \<and> blocked pol t0 ?db db' v"
        using pre ids(1) by auto
    qed
    with t ids(2) Some show ?thesis by auto
  qed
qed

theorem claim_follows_priority_witness:
  "let db = fst (claim_next_task (sample_env 5) ''w1'' [] [] 300 (Some 9) default_policy sample_db);
       db' = fst (claim_next_task (sample_env 5) ''w2'' [] [] 300 (Some 10) default_policy db)
   in \<exists>t \<in> set (tasks db). t_id t = ''a'' \<and>
        (\<forall>u \<in> set (tasks db). claimable (sample_env 5) [] [] 10 (aged default_policy 10 u) \<longrightarrow>
           claim_key (aged default_policy 10 u) < claim_key (aged default_policy 10 t) \<longrightarrow>
           blocked default_policy 10 db db' u)"
proof -
  let ?db = "fst (claim_next_task (sample_env 5) ''w1'' [] [] 300 (Some 9) default_policy sample_db)"
  let ?r = "claim_next_task (sample_env 5) ''w2'' [] [] 300 (Some 10) default_policy ?db"
  have pol: "policy_ok default_policy" by code_simp
  have "sched_ok ?db"
    using claim_outcome[OF sample_db_ok pol] by (metis prod.collapse)
  moreover have "snd ?r = Inr (Some ''a'')" by code_simp
  then have "?r = (fst ?r, Inr (Some ''a''))" by (metis prod.collapse)
  ultimately show ?thesis
    using claim_follows_priority[of ?db default_policy "sample_env 5" "''w2''" "[]" "[]" 300 10 "fst ?r" "Some ''a''"]
      pol by (simp only: Let_def) auto
qed

text \<open>
  C3. Exclusive ownership: after a claim of a task, no claim by any worker returns it again while
  the lock runs, however many claims are made and with whatever filters, and its row keeps the
  owner.
\<close>

theorem claimed_task_stays_owned:
  assumes "sched_ok db" and "policy_ok pol"
    and "claim_next_task e w kinds classes secs (Some t0) pol db = (db', Inr (Some i))"
    and "\<forall>(w', ks, cs, s, t1) \<in> set claims. t1 \<le> t0 + seconds secs"
    and "db'' = fold (\<lambda>(w', ks, cs, s, t1) d. fst (claim_next_task e w' ks cs s (Some t1) pol d)) claims db'"
  shows "(\<exists>t. get_task db'' i = Some t \<and> t_lock_owner t = Some w) \<and>
         (\<forall>t1 \<le> t0 + seconds secs. \<forall>w' ks cs s.
            snd (claim_next_task e w' ks cs s (Some t1) pol db'') \<noteq> Inr (Some i))"
proof -
  let ?ex = "t0 + seconds secs"
  define held where "held d \<longleftrightarrow> sched_ok d \<and>
    (\<exists>t. get_task d i = Some t \<and> t_lock_owner t = Some w \<and> t_locked_until t = Some ?ex)" for d
  have not_cand: "i \<notin> set (claim_candidates e ks cs t1 pol (claim_start pol t1 d))"
    if h: "held d" and t1: "t1 \<le> ?ex" for d t1 ks cs
  proof
    assume "i \<in> set (claim_candidates e ks cs t1 pol (claim_start pol t1 d))"
    moreover have "unique_on t_id (tasks (claim_start pol t1 d))"
      using h sched_ok_claim_start by (auto simp: held_def sched_ok_def locks_ok_def)
    ultimately obtain u where "get_task (claim_start pol t1 d) i = Some u" "claimable e ks cs t1 u"
      using claim_candidates_in by metis
    with h t1 show False by (auto simp: held_def claimable_def get_task_claim_start)
  qed
  have step: "held (fst (claim_next_task e w' ks cs s (Some t1) pol d))" if h: "held d" and t1: "t1 \<le> ?ex"
    for d w' ks cs s t1
  proof -
    obtain d' r where c: "claim_next_task e w' ks cs s (Some t1) pol d = (d', r)" by fastforce
    then have "sched_ok d'" using claim_outcome[OF _ assms(2) c] h by (simp add: held_def)
    moreover have "get_task d' i = map_option (aged pol t1) (get_task d i)"
      using claim_other[of i e ks cs "Some t1" pol d w' s] not_cand[OF h t1] c by simp
    ultimately show ?thesis using h c by (auto simp: held_def)
  qed
  have start: "held db'"
    using claim_outcome[OF assms(1-3)] by (auto simp: held_def claim_outcome_def claimed_by_def)
  have "held (fold (\<lambda>(w', ks, cs, s, t1) d. fst (claim_next_task e w' ks cs s (Some t1) pol d)) claims d)"
    if "held d" for d
    using assms(4) that by (induction claims arbitrary: d) (auto intro: step)
  then have h: "held db''" using start assms(5) by blast
  have "snd (claim_next_task e w' ks cs s (Some t1) pol db'') \<noteq> Inr (Some i)" if t1: "t1 \<le> ?ex" for t1 w' ks cs s
  proof
    assume r: "snd (claim_next_task e w' ks cs s (Some t1) pol db'') = Inr (Some i)"
    then obtain d where c: "claim_next_task e w' ks cs s (Some t1) pol db'' = (d, Inr (Some i))"
      by (metis prod.collapse)
    from claim_outcome[OF _ assms(2) c] h
    have "i \<in> set (claim_candidates e ks cs t1 pol (claim_start pol t1 db''))"
      by (auto simp: held_def claim_outcome_def)
    with not_cand[OF h t1] show False by blast
  qed
  with h show ?thesis by (auto simp: held_def)
qed

theorem claimed_task_stays_owned_witness:
  "let r = claim_next_task (sample_env 5) ''w1'' [] [] 300 (Some 9) default_policy sample_db;
       db'' = fst (claim_next_task (sample_env 5) ''w2'' [] [] 300 (Some 20) default_policy (fst r))
   in snd r = Inr (Some ''b'') \<and>
      snd (claim_next_task (sample_env 5) ''w3'' [] [] 300 (Some 300000009) default_policy db'')
        \<noteq> Inr (Some ''b'')"
proof -
  let ?r = "claim_next_task (sample_env 5) ''w1'' [] [] 300 (Some 9) default_policy sample_db"
  have r: "?r = (fst ?r, Inr (Some ''b''))"
  proof -
    have "snd ?r = Inr (Some ''b'')" by code_simp
    then show ?thesis by (metis prod.collapse)
  qed
  have pol: "policy_ok default_policy" by code_simp
  show ?thesis
    using claimed_task_stays_owned[OF sample_db_ok pol r, of "[(''w2'', [], [], 300, 20)]", OF _ refl]
    by (simp only: Let_def) (subst r, simp)
qed

text \<open>
  Ageing: the effective priority of a waiting task is never below its own priority and never
  above 100, it does not fall as time passes, and it gains exactly one point per whole ageing
  interval until it reaches 100.
\<close>

theorem ageing_is_bounded_and_monotone:
  assumes "0 < aging_interval_seconds pol" and "t_priority t \<le> 100" and "t_created_at t \<le> t0"
    and "t0 \<le> t1"
  shows "t_priority t \<le> aged_priority pol t0 t \<and> aged_priority pol t0 t \<le> aged_priority pol t1 t \<and>
         aged_priority pol t1 t \<le> 100 \<and>
         aged_priority pol (t_created_at t + seconds (k * aging_interval_seconds pol)) t =
           min 100 (t_priority t + max 0 k)"
proof -
  have "0 \<le> (t0 - t_created_at t) div 1000000 div aging_interval_seconds pol"
    using assms by (intro pos_imp_zdiv_nonneg_iff[THEN iffD2]) auto
  moreover have "(t0 - t_created_at t) div 1000000 div aging_interval_seconds pol \<le>
      (t1 - t_created_at t) div 1000000 div aging_interval_seconds pol"
    using assms by (intro zdiv_mono1) auto
  moreover have "max 0 (seconds (k * aging_interval_seconds pol)) div 1000000 div aging_interval_seconds pol
      = max 0 k"
  proof (cases "0 \<le> k")
    case True
    with assms(1) show ?thesis by (simp add: max_def zero_le_mult_iff mult_le_0_iff)
  next
    case False
    then have "seconds (k * aging_interval_seconds pol) \<le> 0"
      using assms(1) by (simp add: mult_le_0_iff)
    with False show ?thesis by (simp add: max_absorb1)
  qed
  ultimately show ?thesis
    using assms by (simp add: aged_priority_def Let_def max_absorb2)
qed

theorem ageing_is_bounded_and_monotone_witness:
  "aged_priority default_policy (seconds 600) (sample_task ''x'' 10 []) = 12 \<and>
   10 \<le> aged_priority default_policy (seconds 600) (sample_task ''x'' 10 [])"
proof -
  have "t_priority (sample_task ''x'' 10 []) = 10" "t_created_at (sample_task ''x'' 10 []) = 0"
    "aging_interval_seconds default_policy = 300"
    by code_simp+
  then show ?thesis
    using ageing_is_bounded_and_monotone[of default_policy "sample_task ''x'' 10 []" "seconds 600" "seconds 600" 2]
    by simp
qed

text \<open>
  The resource requirements of a task name each resource once, in key order, so that every
  worker locks the pools in the same order; with the capacities of the configuration each asks for
  at least one unit of a pool of positive capacity.
\<close>

theorem requirements_in_lock_order:
  assumes "policy_from_settings st = Inr pol" and "requirements pol t = Inr rqs"
  shows "sorted (map rq_key rqs) \<and> distinct (map rq_key rqs) \<and> (\<forall>r \<in> set rqs. 0 < rq_units r) \<and>
         (\<forall>kv \<in> set (resource_capacities pol). 0 < snd kv)"
proof -
  obtain caps where "parse_resource_capacities (task_resource_capacities st) = Inr caps"
    "resource_capacities pol = caps"
    using assms(1) by (auto simp: policy_from_settings_def split: sum.splits)
  with parse_resource_capacities_pos show ?thesis
    using requirements_ok[OF assms(2)] policy_from_settings_ok[OF assms(1)] by blast
qed

theorem requirements_in_lock_order_witness:
  "let st = sample_settings\<lparr>task_resource_capacities := Some ''pr=2, user=8''\<rparr>;
       t = sample_task ''x'' 1 [(''user'', JStr ''u''), (''pr'', JList [JStr ''b'', JStr ''a'', JStr ''b''])]
   in \<exists>pol rqs. policy_from_settings st = Inr pol \<and> requirements pol t = Inr rqs \<and>
        map rq_key rqs = [''pr:a'', ''pr:b'', ''user:u''] \<and> distinct (map rq_key rqs)"
proof -
  let ?st = "sample_settings\<lparr>task_resource_capacities := Some ''pr=2, user=8''\<rparr>"
  let ?t = "sample_task ''x'' 1 [(''user'', JStr ''u''), (''pr'', JList [JStr ''b'', JStr ''a'', JStr ''b''])]"
  let ?ok = "case policy_from_settings ?st of Inl x \<Rightarrow> False | Inr pol \<Rightarrow>
     (case requirements pol ?t of Inl x \<Rightarrow> False | Inr rqs \<Rightarrow> map rq_key rqs = [''pr:a'', ''pr:b'', ''user:u''])"
  have ok: ?ok by code_simp
  then obtain pol where pol: "policy_from_settings ?st = Inr pol"
    by (cases "policy_from_settings ?st") simp_all
  with ok obtain rqs where rqs: "requirements pol ?t = Inr rqs" "map rq_key rqs = [''pr:a'', ''pr:b'', ''user:u'']"
    by (cases "requirements pol ?t") simp_all
  have "distinct (map rq_key rqs)" using requirements_in_lock_order[OF pol rqs(1)] by blast
  note facts = pol rqs this
  show ?thesis unfolding Let_def by (intro exI conjI) (rule facts)+
qed

text \<open>
  A worker that lost a task cannot disturb its new owner: renewing then reports failure and
  changes nothing, and releasing deletes only the worker's own leases and leaves every task alone.
\<close>

theorem stale_worker_cannot_disturb_owner:
  assumes "get_task db tid = Some tk" and "t_lock_owner tk \<noteq> Some w"
  shows "renew_task_claim e tid w secs t db = (db, False) \<and>
     (let db' = fst (release_task_claim e tid (Some w) retry t db)
      in tasks db' = tasks db \<and> (\<forall>l \<in> set (leases db). l_owner l \<noteq> w \<longrightarrow> l \<in> set (leases db')))"
proof -
  have "get_task (db\<lparr>leases := ls\<rparr>) tid = Some tk" for ls
    using assms(1) by (simp add: get_task_def)
  with assms show ?thesis by (simp add: renew_task_claim_def release_task_claim_def Let_def)
qed

theorem stale_worker_cannot_disturb_owner_witness:
  "let db = fst (claim_next_task (sample_env 5) ''w1'' [] [] 300 (Some 9) default_policy sample_db)
   in renew_task_claim (sample_env 5) ''b'' ''w2'' 300 None db = (db, False) \<and>
      map l_owner (leases (fst (release_task_claim (sample_env 5) ''b'' (Some ''w2'') None None db))) = [''w1'']"
proof -
  let ?db = "fst (claim_next_task (sample_env 5) ''w1'' [] [] 300 (Some 9) default_policy sample_db)"
  have "map_option t_lock_owner (get_task ?db ''b'') = Some (Some ''w1'')" by code_simp
  then obtain tk where "get_task ?db ''b'' = Some tk" "t_lock_owner tk \<noteq> Some ''w2''" by auto
  then have "renew_task_claim (sample_env 5) ''b'' ''w2'' 300 None ?db = (?db, False)"
    using stale_worker_cannot_disturb_owner by blast
  moreover have "map l_owner (leases (fst (release_task_claim (sample_env 5) ''b'' (Some ''w2'') None None ?db)))
      = [''w1'']" by code_simp
  ultimately show ?thesis by (simp only: Let_def simp_thms)
qed

end
