(* ===== verification/Gate.thy ===== *)
theory Gate
  imports Ending Scheduler
begin

text \<open>
  The gate between the service and the scheduler: a new run waits for the comment that will
  carry its result, and becomes claimable only when the outbox has delivered it.
\<close>

lemma parked_not_claimable: "t_status t = ''awaiting_delivery'' \<Longrightarrow> \<not> claimable e kinds classes t0 t"
  by (simp add: claimable_def)

text \<open>
  C5. A new run waits for its comment. A request that creates a run leaves it parked, not
  claimable by any worker at any time, with exactly what releases it in the outbox: a queued
  mandatory placeholder delivery whose success puts the run into the queue.
\<close>

theorem new_run_waits_for_its_comment:
  assumes "handle_review_requested e q db = (db', Inr (rid, True))" and "runs_ok (uuid4 e) db" and "inj (uuid4 e)"
    and "\<forall>k \<ge> drawn db. uuid4 e k \<notin> s_id ` set (slots db)" and "find_slot db rid = None"
    and "find_delivery db (placeholder_key rid 1) = None"
  shows "\<exists>t. get_task db' rid = Some t \<and> t_status t = ''awaiting_delivery'' \<and> t_execution_status t = ''pending'' \<and>
     t_delivery_status t = ''pending'' \<and> \<not> claimable e' kinds classes t0 t \<and>
     list_ex (\<lambda>d. d_task_id d = rid \<and> d_operation d = ''review_placeholder'' \<and> d_status d = ''queued'' \<and> d_mandatory d \<and>
        text_field (d_payload_json d) ''success_status'' = Some ''queued'' \<and>
        text_field (d_payload_json d) ''success_stage'' = Some ''placeholder_ready'') (outbox db')"
proof (rule handle_Inr[OF assms(1)])
  fix c :: pull_request_context and base head force trigger db1
  let ?sp = "\<lparr>sp_provider = c_provider c, sp_repo_full_name = c_repo_full_name c,
      sp_pull_request_number = c_pull_request_number c, sp_base_sha = base, sp_head_sha = head, sp_force = force\<rparr>"
  assume cr: "create_review_run_record e ?sp trigger (qs_trigger_event_id q) (qs_dedupe_key q) db = (db1, Inr (rid, True))"
    and a: "adopt_run e (qs_reason q) c rid True db1 = (db', Inr (rid, True))"
  let ?t = "run_task_row (next_id e db) (now e) ?sp trigger (qs_dedupe_key q)"
  let ?r = "run_row (next_id e db) ?sp trigger (qs_trigger_event_id q) (next_attempt ?sp db)"
  have new: "rid = next_id e db" "db1 = draw (db\<lparr>tasks := tasks db @ [?t], runs := runs db @ [?r]\<rparr>)"
    using cr by (cases rule: create_cases; simp)+
  have ok1: "runs_ok (uuid4 e) db1"
    using create_runs_ok[OF assms(2,3), of ?sp trigger "qs_trigger_event_id q" "qs_dedupe_key q"] cr by simp
  have in1: "?t \<in> set (tasks db1)" "?r \<in> set (runs db1)" using new(2) by simp_all
  then have t: "get_task db1 rid = Some ?t" and "get_run db1 rid = Some ?r"
    using ok1 first_row_unique[of t_id "tasks db1" ?t rid] first_row_unique[of r_id "runs db1" ?r rid]
    by (simp_all add: runs_ok_def get_task_def get_run_def new(1))
  then have x: "\<not> execution_started ?t (the_run db1 rid)" by (simp add: execution_started_def the_run_def)
  have "next_id e db1 \<notin> s_id ` set (slots db1)"
    using assms(4) new(2) by (simp add: next_id_def)
  moreover have "find_slot db1 rid = None" "find_delivery db1 (placeholder_key rid 1) = None"
    using assms(5,6) new(2) by (simp_all add: find_slot_def find_delivery_def)
  ultimately have n: "get_task db' rid = Some (with_pending (parked False ?t)) \<and>
     (\<exists>d \<in> set (outbox db'). d_task_id d = rid \<and> d_operation d = ''review_placeholder'' \<and> d_status d = ''queued'' \<and>
        d_mandatory d \<and> d_payload_json d = placeholder_payload rid (next_id e db1) False (t_stage ?t))"
    using adopt_new[OF a ok1 _ _ _ t x] by simp
  have p: "text_field (placeholder_payload rid i False s) ''success_status'' = Some ''queued''"
    "text_field (placeholder_payload rid i False s) ''success_stage'' = Some ''placeholder_ready''" for i s
    by (simp_all add: text_field_def placeholder_payload_def jget_def dget_def jopt_def str_or_none_def)
  have "t_execution_status (with_pending (parked False ?t)) = ''pending''" by (simp add: parked_def)
  with n p show ?thesis by (intro exI[of _ "with_pending (parked False ?t)"]) (auto simp: list_ex_iff parked_not_claimable)
qed

lemma task_after_id [simp]: "t_id (task_after_success t0 d b f t) = t_id t"
  by (simp add: task_after_success_def Let_def split: option.splits)

lemma task_after_placeholder:
  assumes "d_operation d = ''review_placeholder''" and "text_field (d_payload_json d) ''success_status'' = Some st"
    and "text_field (d_payload_json d) ''success_stage'' = Some sg" and "text_field (d_payload_json d) ''final_status'' = None"
  shows "t_status (task_after_success t0 d True f t) =
       (if is_review t \<and> t_execution_status t \<in> {''completed'', ''failed'', ''cancelled''} then t_status t else st)"
    "t_stage (task_after_success t0 d True f t) =
       (if is_review t \<and> t_execution_status t \<in> {''completed'', ''failed'', ''cancelled''} then t_stage t else Some sg)"
  using assms by (simp_all add: task_after_success_def Let_def)

text \<open>
  C6. Delivering the placeholder opens the gate: recording its success binds a provider comment
  to the run's slot and marks the slot ready, and moves the run to the status and stage the
  placeholder promised, unless the run's execution has ended meanwhile. A delivery that brings
  no comment is refused.
\<close>

theorem placeholder_delivery_opens_the_gate:
  assumes "d_operation (the_delivery db did) = ''review_placeholder''" and "get_task db tid = Some t" and "is_review t"
    and "text_field (d_payload_json (the_delivery db did)) ''success_status'' = Some st"
    and "text_field (d_payload_json (the_delivery db did)) ''success_stage'' = Some sg"
    and "text_field (d_payload_json (the_delivery db did)) ''final_status'' = None"
  shows "case apply_delivery_success t0 tid did db of
      (db', Inl x) \<Rightarrow> db' = db
    | (db', Inr _) \<Rightarrow>
        (\<exists>s. delivery_comment_slot (the_delivery db did) db = Some s \<and>
           list_all (\<lambda>s'. s_id s' \<noteq> s_id s \<or> s_status s' = ''ready'' \<and> has_text (s_provider_comment_id s')) (slots db')) \<and>
        (\<exists>t'. get_task db' tid = Some t' \<and>
           (if t_execution_status t \<in> {''completed'', ''failed'', ''cancelled''}
            then t_status t' = t_status t \<and> t_stage t' = t_stage t
            else t_status t' = st \<and> t_stage t' = Some sg))"
proof -
  let ?d = "the_delivery db did"
  have tt: "the_task db tid = t" using assms(2) by (simp add: the_task_def)
  have c: "is_review t \<and> d_operation ?d \<in> set comment_operations" using assms(1,3) by (simp add: comment_operations_def)
  show ?thesis
  proof (cases "delivery_comment_slot ?d db")
    case None
    then show ?thesis using c tt by (simp add: apply_delivery_success_def Let_def)
  next
    case (Some s)
    let ?s = "slot_after_success t0 ?d True s"
    let ?db1 = "upd_slot (s_id s) (\<lambda>_. ?s) db"
    let ?f = "task_after_success t0 ?d True (pending_mandatory tid did ?db1 = 0)"
    show ?thesis
    proof (cases "has_text (s_provider_comment_id ?s) \<and> \<not> slot_clash ?s db")
      case False
      then show ?thesis using c tt Some assms(1) by (auto simp: apply_delivery_success_def Let_def)
    next
      case True
      then have e: "apply_delivery_success t0 tid did db = (upd_task tid ?f ?db1, Inr ())"
        using c tt Some assms(1) by (simp add: apply_delivery_success_def Let_def)
      have "s_status ?s = ''ready''" using assms(1) by (simp add: slot_after_success_def Let_def)
      then have "list_all (\<lambda>s'. s_id s' \<noteq> s_id s \<or> s_status s' = ''ready'' \<and> has_text (s_provider_comment_id s'))
          (slots (upd_task tid ?f ?db1))"
        using True by (auto simp: list_all_iff upd_slot_def upd_where_def)
      moreover have "get_task (upd_task tid ?f ?db1) tid = Some (?f t)"
        using assms(2) get_task_upd[of ?f tid ?db1 tid] by simp
      ultimately show ?thesis
        unfolding e using Some assms(3) task_after_placeholder[OF assms(1,4,5,6)] by simp
    qed
  qed
qed

section \<open>Examples\<close>

definition gate_request_db :: db where
  "gate_request_db = empty_db\<lparr>
     contexts := [(new_context ''c1'' 0 ''gh'' ''o/r'' 1 ''h1'')\<lparr>c_base_sha := Some ''b0''\<rparr>],
     inbox := [new_event ''e1'' 0 ''gh'' ''d1'' ''pull_request'' ''d1'' ''x'' []]\<rparr>"

definition gate_request :: review_request where
  "gate_request =
     \<lparr>qs_reason = ''mention'', qs_trigger_event_id = ''e1'', qs_pull_request_context_id = ''c1'',
      qs_source_run_id = None, qs_dedupe_key = None\<rparr>"

theorem new_run_waits_for_its_comment_witness:
  "\<exists>db' t. handle_review_requested (sample_env 5) gate_request gate_request_db = (db', Inr (''id-0'', True)) \<and>
     get_task db' ''id-0'' = Some t \<and> t_status t = ''awaiting_delivery'' \<and> \<not> claimable (sample_env 7) [] [] 7 t"
proof -
  let ?h = "handle_review_requested (sample_env 5) gate_request gate_request_db"
  have "snd ?h = Inr (''id-0'', True)" by code_simp
  then obtain db' where h: "?h = (db', Inr (''id-0'', True))" by (cases ?h) simp
  have ok: "runs_ok (uuid4 (sample_env 5)) gate_request_db"
    by (simp add: runs_ok_def gate_request_db_def empty_db_def attempts_dense_def)
  have fresh: "\<forall>k \<ge> drawn gate_request_db. uuid4 (sample_env 5) k \<notin> s_id ` set (slots gate_request_db)"
    "find_slot gate_request_db ''id-0'' = None" "find_delivery gate_request_db (placeholder_key ''id-0'' 1) = None"
    by (simp_all add: gate_request_db_def empty_db_def find_slot_def find_delivery_def)
  obtain t where "get_task db' ''id-0'' = Some t" "t_status t = ''awaiting_delivery''" "\<not> claimable (sample_env 7) [] [] 7 t"
    using new_run_waits_for_its_comment[OF h ok sample_env_inj fresh, of "sample_env 7" "[]" "[]" 7] by (elim exE conjE)
  with h show ?thesis by (intro exI conjI)
qed

definition gate_db :: db where
  "gate_db = empty_db\<lparr>
     tasks := [(new_task ''r1'' ''review'' 0)\<lparr>t_status := ''awaiting_delivery'', t_stage := Some ''placeholder_delivery_pending''\<rparr>],
     runs := [new_run ''r1'' ''gh'' ''o/r'' 1 ''h1''],
     slots := [new_slot ''s1'' 0 ''r1'' ''gh'' ''o/r'' 1 ''h1'' ''m''],
     outbox := [(new_delivery ''d1'' 0 ''r1'' ''gh'' ''review_placeholder'' ''x'' ''k'' (placeholder_payload ''r1'' ''s1'' False None) ''g'')
        \<lparr>d_status := ''delivered'', d_provider_message_id := Some ''c9'', d_mandatory := True\<rparr>]\<rparr>"

theorem placeholder_delivery_opens_the_gate_witness:
  "\<exists>db' t'. apply_delivery_success 7 ''r1'' ''d1'' gate_db = (db', Inr ()) \<and> get_task db' ''r1'' = Some t' \<and>
     t_status t' = ''queued'' \<and> t_stage t' = Some ''placeholder_ready''"
proof -
  let ?d = "the_delivery gate_db ''d1''"
  let ?t = "(new_task ''r1'' ''review'' 0)\<lparr>t_status := ''awaiting_delivery'', t_stage := Some ''placeholder_delivery_pending''\<rparr>"
  have d: "d_operation ?d = ''review_placeholder''" "text_field (d_payload_json ?d) ''success_status'' = Some ''queued''"
    "text_field (d_payload_json ?d) ''success_stage'' = Some ''placeholder_ready''"
    "text_field (d_payload_json ?d) ''final_status'' = None"
    by code_simp+
  have t: "get_task gate_db ''r1'' = Some ?t" "is_review ?t" "t_execution_status ?t = ''pending''"
    by (simp_all add: get_task_def gate_db_def new_task_def is_review_def)
  have "snd (apply_delivery_success 7 ''r1'' ''d1'' gate_db) = Inr ()" by code_simp
  then obtain db' where r: "apply_delivery_success 7 ''r1'' ''d1'' gate_db = (db', Inr ())"
    by (cases "apply_delivery_success 7 ''r1'' ''d1'' gate_db") simp
  have "\<exists>t'. get_task db' ''r1'' = Some t' \<and> t_status t' = ''queued'' \<and> t_stage t' = Some ''placeholder_ready''"
    using placeholder_delivery_opens_the_gate[OF d(1) t(1,2) d(2,3,4), of 7] t(3) unfolding r by simp
  then obtain t' where t': "get_task db' ''r1'' = Some t'" "t_status t' = ''queued''" "t_stage t' = Some ''placeholder_ready''"
    by (elim exE conjE)
  show ?thesis by (intro exI conjI) (rule r t')+
qed

end
