(* ===== verification/Requests.thy ===== *)
theory Requests
  imports Runs
begin

text \<open>
  What a request for a review does: an automatic one reviews each head once, a retry or rerun
  starts exactly one further attempt of a settled run of the current head, and asking again
  under the same key returns the first answer.
\<close>

text \<open>
  An automatic request reviews a head once. When the open pull request's head has no run yet,
  the request creates the first attempt; when it has, the request returns the latest attempt and
  leaves tasks, outbox, comment slots and the runs' identities as they are.
\<close>

theorem automatic_request_reviews_head_once:
  assumes "handle_review_requested e q db = (db', Inr (rid, created))" and "qs_reason q = ''automatic''"
  shows "\<exists>c. get_context db (qs_pull_request_context_id q) = Some c \<and> is_open c \<and>
     (let same = filter (same_head (c_provider c) (c_repo_full_name c) (c_pull_request_number c) (c_head_sha c)) (runs db)
      in if same = []
         then created \<and> identities db' =
           (map t_id (tasks db) @ [rid],
            map (\<lambda>r. (r_id r, run_key r)) (runs db) @
              [(rid, c_provider c, c_repo_full_name c, c_pull_request_number c, c_head_sha c, 1)])
         else \<not> created \<and> list_ex (\<lambda>r. r_id r = rid \<and> list_all (\<lambda>s. r_attempt s \<le> r_attempt r) same) same \<and>
           identities db' = identities db \<and> tasks db' = tasks db \<and> outbox db' = outbox db \<and> slots db' = slots db)"
proof (rule handle_Inr[OF assms(1)])
  fix c :: pull_request_context and base head force trigger db1
  let ?sp = "\<lparr>sp_provider = c_provider c, sp_repo_full_name = c_repo_full_name c,
      sp_pull_request_number = c_pull_request_number c, sp_base_sha = base, sp_head_sha = head, sp_force = force\<rparr>"
  assume c: "get_context db (qs_pull_request_context_id q) = Some c" "is_open c"
    and "(qs_reason q \<in> {''retry'', ''rerun''}) = (qs_source_run_id q \<noteq> None)"
    and r: "requested_revision q c db = Inr (base, head, force)"
    and cr: "create_review_run_record e ?sp trigger (qs_trigger_event_id q) (qs_dedupe_key q) db = (db1, Inr (rid, created))"
    and a: "adopt_run e (qs_reason q) c rid created db1 = (db', Inr (rid, created))"
  with assms(2) have "qs_source_run_id q = None" by simp
  then have rev: "head = c_head_sha c" "\<not> force"
    using r assms(2) by (auto simp: requested_revision_def split: if_splits)
  let ?same = "filter (same_head (c_provider c) (c_repo_full_name c) (c_pull_request_number c) (c_head_sha c)) (runs db)"
  from cr have "if ?same = []
         then created \<and> identities db' =
           (map t_id (tasks db) @ [rid],
            map (\<lambda>r. (r_id r, run_key r)) (runs db) @
              [(rid, c_provider c, c_repo_full_name c, c_pull_request_number c, c_head_sha c, 1)])
         else \<not> created \<and> list_ex (\<lambda>r. r_id r = rid \<and> list_all (\<lambda>s. r_attempt s \<le> r_attempt r) ?same) ?same \<and>
           identities db' = identities db \<and> tasks db' = tasks db \<and> outbox db' = outbox db \<and> slots db' = slots db"
  proof (cases rule: create_cases)
    case (old r)
    then have l: "get_latest_review_run_by_head (c_provider c) (c_repo_full_name c) (c_pull_request_number c) (c_head_sha c) db = Some r"
      and n: "\<not> created" "rid = r_id r" using rev by simp_all
    have same: "r \<in> set ?same" "\<forall>s \<in> set ?same. r_attempt s \<le> r_attempt r"
      using latest_Some[OF l] by simp_all
    have ne: "?same \<noteq> []" using same(1) by (metis empty_iff list.set(1))
    have "db' = upd_context (c_id c) (\<lambda>c. c\<lparr>c_latest_review_run_id := Some rid\<rparr>)
        (upd_run rid (\<lambda>r. r\<lparr>r_pull_request_context_id := Some (c_id c)\<rparr>) db1)"
      using a n by (simp add: adopt_old)
    moreover have "tasks db1 = tasks db" "outbox db1 = outbox db" "slots db1 = slots db" "identities db1 = identities db"
      using old(3) by auto
    ultimately show ?thesis
      using n same ne by (auto simp: list_ex_iff list_all_iff)
  next
    case new
    then have l: "get_latest_review_run_by_head (c_provider c) (c_repo_full_name c) (c_pull_request_number c) (c_head_sha c) db = None"
      using rev by simp
    then have "?same = []" by (simp add: latest_None filter_empty_conv)
    moreover have "next_attempt ?sp db = 1" using l rev by (simp add: next_attempt_def)
    ultimately show ?thesis
      using new rev adopt_identities[OF a] by (simp add: identities_def run_key_def)
  qed simp
  with c show ?thesis by (auto simp: Let_def)
qed

section \<open>Retries and reruns\<close>

text \<open>A run that may be reviewed again: settled, of the open pull request's current revision, alone.\<close>

definition actionable :: "string list \<Rightarrow> review_run \<Rightarrow> pull_request_context \<Rightarrow> db \<Rightarrow> bool" where
  "actionable allowed s c db \<longleftrightarrow>
     t_status (the_task db (r_id s)) \<in> set allowed \<and> is_open c \<and> r_head_sha s = c_head_sha c \<and>
     (c_base_sha c = None \<or> r_base_sha s = c_base_sha c) \<and>
     list_all (\<lambda>x. r_id x = r_id s \<or> t_status (the_task db (r_id x)) \<notin> set active_review_statuses)
       (filter (same_head (r_provider s) (r_repo_full_name s) (r_pull_request_number s) (r_head_sha s)) (runs db))"

lemma active_run_None:
  assumes "active_run r db = None"
  shows "list_all (\<lambda>x. r_id x = r_id r \<or> t_status (the_task db (r_id x)) \<notin> set active_review_statuses)
       (filter (same_head (r_provider r) (r_repo_full_name r) (r_pull_request_number r) (r_head_sha r)) (runs db))"
proof -
  let ?k = "\<lambda>x. (t_created_at (the_task db (r_id x)), r_id x)"
  let ?xs = "filter (\<lambda>x. same_head (r_provider r) (r_repo_full_name r) (r_pull_request_number r) (r_head_sha r) x \<and>
      r_id x \<noteq> r_id r \<and> t_status (the_task db (r_id x)) \<in> set active_review_statuses) (runs db)"
  have "rev (sort_key ?k ?xs) = []" using assms by (auto simp: active_run_def split: list.splits)
  then have "set ?xs = {}" using set_sort[of ?k ?xs] by simp
  then show ?thesis by (auto simp: list_all_iff)
qed

lemma availability_allowed:
  assumes "av_allowed (source_review_action_availability rid action allowed context db)"
    and "get_run db rid = Some s" and "context = pull_request_context_for_run s db"
  obtains c where "context = Some c" "actionable allowed s c db"
proof -
  have r: "the_run db rid = s" and id: "r_id s = rid" using assms(2) by (auto simp: the_run_def dest: get_run_SomeD)
  note av = assms(1)[unfolded source_review_action_availability_def Let_def r]
  have st: "t_status (the_task db rid) \<in> set allowed" using av by (simp add: refuse_def split: if_splits)
  obtain c where c: "context = Some c"
    using av st assms(3) by (auto simp: refuse_def split: option.splits)
  have "is_open c \<and> r_head_sha s = c_head_sha c \<and> (c_base_sha c = None \<or> r_base_sha s = c_base_sha c) \<and>
      active_run s db = None"
    using av st c by (simp add: refuse_def split: if_splits option.splits)
  with st c id that[of c] active_run_None[of s db] show ?thesis by (simp add: actionable_def)
qed

lemma retry_allowed:
  "av_allowed (retry_availability rid context asked db) \<Longrightarrow>
     av_allowed (source_review_action_availability rid ''retry'' [''failed''] context db)"
  by (auto simp: retry_availability_def refuse_def Let_def split: option.splits if_splits)

text \<open>Recording the request's event changes nothing the rules look at.\<close>

abbreviation recorded :: "provider_event \<Rightarrow> db \<Rightarrow> db" where
  "recorded v db \<equiv> draw (db\<lparr>inbox := inbox db @ [v]\<rparr>)"

lemma inbox_frame [simp]:
  "get_run (db\<lparr>inbox := vs\<rparr>) i = get_run db i" "get_task (db\<lparr>inbox := vs\<rparr>) i = get_task db i"
  "get_context (db\<lparr>inbox := vs\<rparr>) i = get_context db i"
  by (simp_all add: get_run_def get_task_def get_context_def)

lemma recorded_simps [simp]:
  "the_run (recorded v db) i = the_run db i" "the_task (recorded v db) i = the_task db i"
  "pull_request_context_for_run s (recorded v db) = pull_request_context_for_run s db"
  "get_latest_review_run_by_head p n nr h (recorded v db) = get_latest_review_run_by_head p n nr h db"
  "identities (recorded v db) = identities db"
  by (simp_all add: the_run_def the_task_def pull_request_context_for_run_def find_context_def
      get_latest_review_run_by_head_def identities_def split: option.splits)

lemma recorded_actionable [simp]: "actionable allowed s c (recorded v db) = actionable allowed s c db"
  by (simp add: actionable_def)

lemma recorded_availability:
  "source_review_action_availability rid action allowed ctx (recorded v db) =
     source_review_action_availability rid action allowed ctx db"
proof -
  have "active_run r (recorded v db) = active_run r db" for r
    by (simp add: active_run_def the_task_def)
  then show ?thesis by (simp only: source_review_action_availability_def recorded_simps)
qed

lemma answered_Inr:
  assumes "answered e eid rid h = (db', Inr (Some res))"
  obtains db2 new created where "h = (db2, Inr (new, created))" "rs_run_id res = new" "rs_event_id res = eid"
    "rs_deduplicated res = (\<not> created)" "res = review_request_result rid eid new (\<not> created) db'"
    "db' = upd_event eid (\<lambda>v. v\<lparr>ev_status := ''queued'', ev_review_run_id := Some new, ev_processed_at := Some (now e)\<rparr>) db2"
proof (cases "snd h")
  case (Inl x)
  then show ?thesis using assms by (cases h; cases x) (simp_all add: answered_def reject_review_request_def)
next
  case (Inr v)
  then obtain db2 new created where h: "h = (db2, Inr (new, created))" by (cases h; cases v) auto
  have d: "db' = upd_event eid (\<lambda>v. v\<lparr>ev_status := ''queued'', ev_review_run_id := Some new,
        ev_processed_at := Some (now e)\<rparr>) db2"
    and r: "res = review_request_result rid eid new (\<not> created) db'"
    using assms by (auto simp: h answered_def Let_def)
  have "rs_run_id res = new" "rs_event_id res = eid" "rs_deduplicated res = (\<not> created)"
    unfolding r review_request_result_def by simp_all
  then show ?thesis by (rule that[OF h _ _ _ r d])
qed

text \<open>An accepted request, from the event it records to the run it ends with\<close>

lemma submit_Inr:
  assumes "submit_request e eid s action dk db1 = (db', Inr (Some res))" and "get_run db1 (r_id s) = Some s"
  obtains c db2 created where "pull_request_context_for_run s db1 = Some c"
    "actionable (if action = ''retry'' then [''failed''] else rerun_source_statuses) s c db1"
    "handle_review_requested e
       \<lparr>qs_reason = action, qs_trigger_event_id = eid, qs_pull_request_context_id = c_id c,
        qs_source_run_id = Some (r_id s), qs_dedupe_key = Some dk\<rparr> db1 = (db2, Inr (rs_run_id res, created))"
    "rs_event_id res = eid" "rs_deduplicated res = (\<not> created)" "res = review_request_result (r_id s) eid (rs_run_id res) (\<not> created) db'"
    "db' = upd_event eid (\<lambda>v. v\<lparr>ev_status := ''queued'', ev_review_run_id := Some (rs_run_id res),
        ev_processed_at := Some (now e)\<rparr>) db2"
proof -
  let ?ctx = "pull_request_context_for_run s db1"
  let ?av = "if action = ''retry'' then retry_availability (r_id s) ?ctx (Some eid) db1
             else rerun_availability (r_id s) ?ctx db1"
  have allowed: "av_allowed ?av"
    using assms(1) by (auto simp: submit_eq Let_def reject_review_request_def split: if_splits)
  then have "av_allowed (source_review_action_availability (r_id s) (if action = ''retry'' then ''retry'' else ''rerun'')
      (if action = ''retry'' then [''failed''] else rerun_source_statuses) ?ctx db1)"
    using retry_allowed by (auto simp: rerun_availability_def split: if_splits)
  from availability_allowed[OF this assms(2) refl] obtain c where c: "?ctx = Some c"
    "actionable (if action = ''retry'' then [''failed''] else rerun_source_statuses) s c db1" .
  have "answered e eid (r_id s) (handle_review_requested e
       \<lparr>qs_reason = action, qs_trigger_event_id = eid, qs_pull_request_context_id = c_id c,
        qs_source_run_id = Some (r_id s), qs_dedupe_key = Some dk\<rparr> db1) = (db', Inr (Some res))"
    using assms(1) allowed c(1) by (simp add: submit_eq Let_def split: if_splits)
  then obtain db2 new created where a:
    "handle_review_requested e \<lparr>qs_reason = action, qs_trigger_event_id = eid, qs_pull_request_context_id = c_id c,
        qs_source_run_id = Some (r_id s), qs_dedupe_key = Some dk\<rparr> db1 = (db2, Inr (new, created))"
    "rs_run_id res = new" "rs_event_id res = eid" "rs_deduplicated res = (\<not> created)"
    "res = review_request_result (r_id s) eid new (\<not> created) db'"
    "db' = upd_event eid (\<lambda>v. v\<lparr>ev_status := ''queued'', ev_review_run_id := Some new, ev_processed_at := Some (now e)\<rparr>) db2"
    by (rule answered_Inr)
  show ?thesis
    by (rule that[of c db2 created]) (rule c a(1,3-)[folded a(2)])+
qed

lemma latest_Max:
  assumes "get_latest_review_run_by_head p n i h db = Some l"
  shows "Max (set (map r_attempt (filter (same_head p n i h) (runs db)))) = r_attempt l"
  using latest_Some[OF assms] by (intro Max_eqI) auto

lemma request_fresh:
  assumes "request_source_review_action e rid action dk db = (db', Inr (Some res))"
    and "get_provider_event db ''internal'' dk = None"
  obtains s where "get_run db rid = Some s" "r_id s = rid"
    "submit_request e (next_id e db) s action dk (recorded (request_event e (next_id e db) s action dk) db) = (db', Inr (Some res))"
proof -
  obtain s where s: "get_run db rid = Some s"
    using assms by (auto simp: request_source_review_action_def split: option.splits)
  then have "r_id s = rid" by (auto dest: get_run_SomeD)
  with s that assms show ?thesis by (auto simp: request_source_review_action_def)
qed

text \<open>
  C7. A retry or rerun is granted only for a settled run, failed for a retry and completed or
  cancelled for a rerun, of the open pull request's current revision, while no other run of that
  head is active; it then adds exactly one run, with the source's head and the attempt after the
  head's last one, unless the request is a duplicate, which adds none.
\<close>

theorem repeated_review_is_granted_alone:
  assumes "request_source_review_action e rid action dk db = (db', Inr (Some res))"
    and "get_provider_event db ''internal'' dk = None" and "action = ''retry'' \<or> action = ''rerun''" and "rid \<noteq> []"
  shows "\<exists>s c. get_run db rid = Some s \<and> pull_request_context_for_run s db = Some c \<and>
     actionable (if action = ''retry'' then [''failed''] else rerun_source_statuses) s c db \<and>
     identities db' =
       (if rs_deduplicated res then identities db
        else (map t_id (tasks db) @ [rs_run_id res],
              map (\<lambda>r. (r_id r, run_key r)) (runs db) @
                [(rs_run_id res, r_provider s, r_repo_full_name s, r_pull_request_number s, r_head_sha s,
                  1 + Max (set (map r_attempt (filter (same_head (r_provider s) (r_repo_full_name s)
                         (r_pull_request_number s) (r_head_sha s)) (runs db)))))]))"
proof -
  obtain s where s: "get_run db rid = Some s" "r_id s = rid"
    and sub: "submit_request e (next_id e db) s action dk (recorded (request_event e (next_id e db) s action dk) db) = (db', Inr (Some res))"
    by (rule request_fresh[OF assms(1,2)])
  let ?eid = "next_id e db"
  let ?db1 = "recorded (request_event e ?eid s action dk) db"
  have s1: "get_run ?db1 (r_id s) = Some s" using s by simp
  obtain c db2 created where f: "pull_request_context_for_run s ?db1 = Some c"
    "actionable (if action = ''retry'' then [''failed''] else rerun_source_statuses) s c ?db1"
    and h0: "handle_review_requested e
       \<lparr>qs_reason = action, qs_trigger_event_id = ?eid, qs_pull_request_context_id = c_id c,
        qs_source_run_id = Some (r_id s), qs_dedupe_key = Some dk\<rparr> ?db1 = (db2, Inr (rs_run_id res, created))"
    and d: "rs_deduplicated res = (\<not> created)"
    and i0: "db' = upd_event ?eid (\<lambda>v. v\<lparr>ev_status := ''queued'', ev_review_run_id := Some (rs_run_id res),
        ev_processed_at := Some (now e)\<rparr>) db2"
    by (rule submit_Inr[OF sub s1])
  have c: "pull_request_context_for_run s db = Some c"
    "actionable (if action = ''retry'' then [''failed''] else rerun_source_statuses) s c db"
    using f by simp_all
  have i2: "identities db' = identities db2" using i0 by simp
  note h = h0[unfolded s(2)]
  show ?thesis
  proof (rule handle_Inr[OF h], unfold review_request.simps)
    fix c' :: pull_request_context and base head force trigger db3
    let ?sp = "\<lparr>sp_provider = c_provider c', sp_repo_full_name = c_repo_full_name c',
        sp_pull_request_number = c_pull_request_number c', sp_base_sha = base, sp_head_sha = head, sp_force = force\<rparr>"
    let ?q = "\<lparr>qs_reason = action, qs_trigger_event_id = ?eid, qs_pull_request_context_id = c_id c,
        qs_source_run_id = Some rid, qs_dedupe_key = Some dk\<rparr>"
    assume r: "requested_revision ?q c' ?db1 = Inr (base, head, force)"
      and cr: "create_review_run_record e ?sp trigger ?eid (Some dk) ?db1 = (db3, Inr (rs_run_id res, created))"
      and a: "adopt_run e action c' (rs_run_id res) created db3 = (db2, Inr (rs_run_id res, created))"
    have rev: "head = r_head_sha s" "force" "c_provider c' = r_provider s" "c_repo_full_name c' = r_repo_full_name s"
      "c_pull_request_number c' = r_pull_request_number s"
      using r s assms(4) by (auto simp: requested_revision_def has_text_def Let_def split: if_splits)
    have i3: "identities db2 = identities db3" using adopt_identities(1)[OF a] .
    from cr show ?thesis
    proof (cases rule: create_cases)
      case (old l)
      then have "identities db3 = identities db" by auto
      with old(1) s(1) c d i2 i3 show ?thesis by auto
    next
      case new
      have sin: "s \<in> set (runs db)" "same_head (r_provider s) (r_repo_full_name s) (r_pull_request_number s) (r_head_sha s) s"
        using s by (auto simp: same_head_def dest: get_run_SomeD)
      then obtain l where l: "get_latest_review_run_by_head (r_provider s) (r_repo_full_name s) (r_pull_request_number s) (r_head_sha s) db = Some l"
        using latest_None[of "r_provider s" "r_repo_full_name s" "r_pull_request_number s" "r_head_sha s" db] by auto
      then have "next_attempt ?sp ?db1 = 1 + Max (set (map r_attempt (filter (same_head (r_provider s) (r_repo_full_name s)
          (r_pull_request_number s) (r_head_sha s)) (runs db))))"
        using latest_Max[OF l] by (simp add: next_attempt_def rev)
      then have "identities db3 = (map t_id (tasks db) @ [rs_run_id res],
          map (\<lambda>r. (r_id r, run_key r)) (runs db) @ [(rs_run_id res, r_provider s, r_repo_full_name s, r_pull_request_number s,
             r_head_sha s, 1 + Max (set (map r_attempt (filter (same_head (r_provider s) (r_repo_full_name s)
                (r_pull_request_number s) (r_head_sha s)) (runs db)))))])"
        using new rev by (simp add: identities_def run_key_def)
      moreover have "\<not> rs_deduplicated res" using new(1) d by simp
      ultimately show ?thesis using s(1) c i2 i3 by auto
    qed simp
  qed
qed

lemma request_event_simps [simp]:
  "ev_id (request_event e i s action dk) = i" "ev_provider (request_event e i s action dk) = ''internal''"
  "ev_delivery_id (request_event e i s action dk) = dk" "ev_created_at (request_event e i s action dk) = now e"
  "ev_provider_action (request_event e i s action dk) = Some action"
  "ev_internal_event (request_event e i s action dk) = Some ''review_requested''"
  "ev_repo_full_name (request_event e i s action dk) = Some (r_repo_full_name s)"
  "ev_pull_request_number (request_event e i s action dk) = Some (r_pull_request_number s)"
  by (simp_all add: request_event_def new_event_def Let_def)

lemma request_event_source [simp]:
  "jget (ev_payload (request_event e i s action dk)) ''source_review_run_id'' = JStr (r_id s)"
  by (simp add: request_event_def new_event_def Let_def request_payload_def jget_def dget_def)

text \<open>
  Asking again is safe: once a request under a key has been answered with a run, the same
  request under that key is answered with the same run, event and attempt, marked as a duplicate,
  and changes nothing.
\<close>

theorem repeated_request_is_answered_alike:
  assumes "request_source_review_action e rid action dk db = (db', Inr (Some res))"
    and "rs_run_id res \<noteq> []" and "next_id e db \<notin> ev_id ` set (inbox db)"
  shows "request_source_review_action e' rid action' dk db' = (db', Inr (Some (res\<lparr>rs_deduplicated := True\<rparr>)))"
proof (cases "get_provider_event db ''internal'' dk")
  case (Some v)
  with assms(1) have "answer_existing_request rid v db = (db', Inr (Some res))"
    by (simp add: request_source_review_action_def)
  moreover from this have "db' = db \<and> res\<lparr>rs_deduplicated := True\<rparr> = res"
    by (auto simp: answer_existing_request_def review_request_result_def split: if_splits option.splits)
  ultimately show ?thesis using Some by (simp add: request_source_review_action_def)
next
  case None
  obtain s where s: "get_run db rid = Some s" "r_id s = rid"
    and sub: "submit_request e (next_id e db) s action dk (recorded (request_event e (next_id e db) s action dk) db) = (db', Inr (Some res))"
    by (rule request_fresh[OF assms(1) None])
  let ?eid = "next_id e db"
  let ?ev = "request_event e ?eid s action dk"
  let ?mark = "\<lambda>v. v\<lparr>ev_status := ''queued'', ev_review_run_id := Some (rs_run_id res), ev_processed_at := Some (now e)\<rparr>"
  have s1: "get_run (recorded ?ev db) (r_id s) = Some s" using s by simp
  show ?thesis
  proof (rule submit_Inr[OF sub s1])
    fix c db2 created
    assume h: "handle_review_requested e
       \<lparr>qs_reason = action, qs_trigger_event_id = ?eid, qs_pull_request_context_id = c_id c,
        qs_source_run_id = Some (r_id s), qs_dedupe_key = Some dk\<rparr> (recorded ?ev db) = (db2, Inr (rs_run_id res, created))"
      and db': "db' = upd_event ?eid ?mark db2"
    have "upd_where (\<lambda>v. ev_id v = ?eid) ?mark (inbox db) = inbox db"
      unfolding upd_where_def using assms(3) by (intro map_idI) (metis image_eqI)
    then have "inbox db' = inbox db @ [?mark ?ev]"
      using handle_frame(1)[OF h] by (simp add: db' upd_event_def upd_where_def)
    then have ev: "get_provider_event db' ''internal'' dk = Some (?mark ?ev)"
      using None by (simp add: get_provider_event_def first_row_append)
    assume res: "res = review_request_result (r_id s) ?eid (rs_run_id res) (\<not> created) db'"
    then have again: "review_request_result rid ?eid (rs_run_id res) True db' = res\<lparr>rs_deduplicated := True\<rparr>"
      unfolding review_request_result_def s(2) by (metis request_result.update_convs(6))
    obtain x where x: "get_run db' (rs_run_id res) = Some x" "r_id x = rs_run_id res"
      using handle_frame(2)[OF h] db' by (auto dest: get_run_SomeD)
    show ?thesis
      using assms(2) ev x s(2) again
      by (simp add: request_source_review_action_def answer_existing_request_def has_text_def)
  qed
qed

section \<open>The limit on retries\<close>

lemma sort_key_newest:
  assumes "\<forall>y \<in> set xs. k x < k y"
  shows "sort_key k (xs @ [x]) = x # sort_key k xs"
proof -
  have "foldr (insort_key k) xs [x] = x # foldr (insort_key k) xs []"
    using assms by (induction xs) auto
  then show ?thesis by (simp add: sort_key_def)
qed

text \<open>
  The rule that a failed run is retried once looks at the newest retry event only, which is
  the request's own: under a key not used before, a retry is granted by the same conditions as
  if no retry had ever been asked for.
\<close>

theorem retry_limit_ignores_other_keys:
  assumes "get_run db rid = Some s" and "\<forall>v \<in> set (inbox db). ev_created_at v < now e"
  shows "retry_availability rid ctx (Some (next_id e db)) (recorded (request_event e (next_id e db) s ''retry'' dk) db) =
     source_review_action_availability rid ''retry'' [''failed''] ctx
       (recorded (request_event e (next_id e db) s ''retry'' dk) db)"
proof -
  let ?ev = "request_event e (next_id e db) s ''retry'' dk"
  have s: "the_run db rid = s" "r_id s = rid" using assms(1) by (auto simp: the_run_def dest: get_run_SomeD)
  have "retry_events s (recorded ?ev db) = ?ev # retry_events s db"
    using assms(2) by (simp add: retry_events_def sort_key_newest)
  then show ?thesis by (simp add: retry_availability_def Let_def s)
qed

section \<open>Examples\<close>

definition sample_request_db :: db where
  "sample_request_db = empty_db\<lparr>
     contexts := [(new_context ''c1'' 0 ''gh'' ''o/r'' 1 ''h1'')\<lparr>c_base_sha := Some ''b0''\<rparr>],
     inbox := [new_event ''e1'' 0 ''gh'' ''d1'' ''pull_request'' ''d1'' ''x'' []]\<rparr>"

definition sample_automatic :: review_request where
  "sample_automatic =
     \<lparr>qs_reason = ''automatic'', qs_trigger_event_id = ''e1'', qs_pull_request_context_id = ''c1'',
      qs_source_run_id = None, qs_dedupe_key = None\<rparr>"

theorem automatic_request_reviews_head_once_witness:
  "\<exists>db'. handle_review_requested (sample_env 5) sample_automatic sample_request_db = (db', Inr (''id-0'', True)) \<and>
     identities db' = ([''id-0''], [(''id-0'', ''gh'', ''o/r'', 1, ''h1'', 1)])"
proof -
  let ?h = "handle_review_requested (sample_env 5) sample_automatic sample_request_db"
  have "snd ?h = Inr (''id-0'', True)" by code_simp
  then obtain db' where h: "?h = (db', Inr (''id-0'', True))" by (cases ?h) simp
  have q: "qs_reason sample_automatic = ''automatic''" by (simp add: sample_automatic_def)
  have c: "get_context sample_request_db (qs_pull_request_context_id sample_automatic) =
      Some ((new_context ''c1'' 0 ''gh'' ''o/r'' 1 ''h1'')\<lparr>c_base_sha := Some ''b0''\<rparr>)"
    by (simp add: get_context_def sample_request_db_def sample_automatic_def new_context_def)
  have "identities db' = ([''id-0''], [(''id-0'', ''gh'', ''o/r'', 1, ''h1'', 1)])"
    using automatic_request_reviews_head_once[OF h q] c
    by (simp add: sample_request_db_def empty_db_def Let_def new_context_def)
  with h show ?thesis by (intro exI conjI)
qed

definition sample_failed_db :: db where
  "sample_failed_db = sample_request_db\<lparr>
     tasks := [(new_task ''r1'' ''review'' 0)\<lparr>t_status := ''failed'', t_execution_status := ''failed''\<rparr>],
     runs := [(new_run ''r1'' ''gh'' ''o/r'' 1 ''h1'')\<lparr>r_base_sha := Some ''b0''\<rparr>]\<rparr>"

abbreviation sample_retry :: "db \<times> (err + request_result option)" where
  "sample_retry \<equiv> request_source_review_action (sample_env 5) ''r1'' ''retry'' ''k1'' sample_failed_db"

lemma sample_retry_answer:
  obtains db' res where "sample_retry = (db', Inr (Some res))" "rs_run_id res = ''id-1''" "\<not> rs_deduplicated res"
proof -
  have "case snd sample_retry of Inr (Some x) \<Rightarrow> rs_run_id x = ''id-1'' \<and> \<not> rs_deduplicated x | _ \<Rightarrow> False"
    by code_simp
  then show ?thesis using that by (cases sample_retry) (auto split: sum.splits option.splits)
qed

lemma sample_failed_simps:
  "get_provider_event sample_failed_db ''internal'' k = None"
  "get_run sample_failed_db ''r1'' = Some ((new_run ''r1'' ''gh'' ''o/r'' 1 ''h1'')\<lparr>r_base_sha := Some ''b0''\<rparr>)"
  by (simp_all add: get_provider_event_def get_run_def sample_failed_db_def sample_request_db_def new_event_def new_run_def)

theorem repeated_review_is_granted_alone_witness:
  "\<exists>db' res. sample_retry = (db', Inr (Some res)) \<and>
     identities db' = ([''r1'', ''id-1''], [(''r1'', ''gh'', ''o/r'', 1, ''h1'', 1), (''id-1'', ''gh'', ''o/r'', 1, ''h1'', 2)])"
proof -
  obtain db' res where r: "sample_retry = (db', Inr (Some res))" "rs_run_id res = ''id-1''" "\<not> rs_deduplicated res"
    by (rule sample_retry_answer)
  have "identities db' = ([''r1'', ''id-1''], [(''r1'', ''gh'', ''o/r'', 1, ''h1'', 1), (''id-1'', ''gh'', ''o/r'', 1, ''h1'', 2)])"
    using repeated_review_is_granted_alone[OF r(1) sample_failed_simps(1)] r(2,3) sample_failed_simps(2)
    by (auto simp: sample_failed_db_def new_run_def new_task_def run_key_def same_head_def)
  with r(1) show ?thesis by (intro exI conjI)
qed

theorem repeated_request_is_answered_alike_witness:
  "\<exists>db' res. sample_retry = (db', Inr (Some res)) \<and>
     request_source_review_action (sample_env 9) ''r1'' ''retry'' ''k1'' db' = (db', Inr (Some (res\<lparr>rs_deduplicated := True\<rparr>)))"
proof -
  obtain db' res where r: "sample_retry = (db', Inr (Some res))" "rs_run_id res = ''id-1''"
    by (rule sample_retry_answer)
  have "next_id (sample_env 5) sample_failed_db \<notin> ev_id ` set (inbox sample_failed_db)"
    by (simp add: sample_failed_db_def sample_request_db_def next_id_def sample_env_def new_event_def)
  with r have "request_source_review_action (sample_env 9) ''r1'' ''retry'' ''k1'' db' = (db', Inr (Some (res\<lparr>rs_deduplicated := True\<rparr>)))"
    by (intro repeated_request_is_answered_alike) simp_all
  with r(1) show ?thesis by (intro exI conjI)
qed

text \<open>A failed run whose retry, asked for under another key, has failed as well\<close>

definition sample_retried_db :: db where
  "sample_retried_db = sample_failed_db\<lparr>
     inbox := [(new_event ''e2'' 5 ''internal'' ''k1'' ''review_request'' ''k1'' ''x'' [(''source_review_run_id'', JStr ''r1'')])
                 \<lparr>ev_provider_action := Some ''retry'', ev_internal_event := Some ''review_requested'',
                  ev_repo_full_name := Some ''o/r'', ev_pull_request_number := Some 1, ev_review_run_id := Some ''r2''\<rparr>],
     tasks := tasks sample_failed_db @ [(new_task ''r2'' ''review'' 5)\<lparr>t_status := ''failed''\<rparr>],
     runs := runs sample_failed_db @
       [(new_run ''r2'' ''gh'' ''o/r'' 1 ''h1'')\<lparr>r_base_sha := Some ''b0'', r_attempt := 2\<rparr>]\<rparr>"

theorem retry_limit_ignores_other_keys_witness:
  "\<exists>s. get_run sample_retried_db ''r1'' = Some s \<and>
     av_reason_code (retry_availability ''r1'' (pull_request_context_for_run s sample_retried_db) None sample_retried_db) =
       ''retry_already_requested'' \<and>
     av_allowed (retry_availability ''r1'' (pull_request_context_for_run s sample_retried_db)
       (Some (next_id (sample_env 9) sample_retried_db))
       (recorded (request_event (sample_env 9) (next_id (sample_env 9) sample_retried_db) s ''retry'' ''k2'') sample_retried_db))"
proof -
  let ?s = "(new_run ''r1'' ''gh'' ''o/r'' 1 ''h1'')\<lparr>r_base_sha := Some ''b0''\<rparr>"
  have s: "get_run sample_retried_db ''r1'' = Some ?s"
    by (simp add: get_run_def sample_retried_db_def sample_failed_db_def new_run_def)
  have old: "\<forall>v \<in> set (inbox sample_retried_db). ev_created_at v < now (sample_env 9)"
    by (simp add: sample_retried_db_def sample_env_def new_event_def)
  have refused: "av_reason_code (retry_availability ''r1'' (pull_request_context_for_run ?s sample_retried_db) None sample_retried_db) =
       ''retry_already_requested''" by code_simp
  have "av_allowed (source_review_action_availability ''r1'' ''retry'' [''failed'']
      (pull_request_context_for_run ?s sample_retried_db) sample_retried_db)"
    by code_simp
  then have "av_allowed (retry_availability ''r1'' (pull_request_context_for_run ?s sample_retried_db)
       (Some (next_id (sample_env 9) sample_retried_db))
       (recorded (request_event (sample_env 9) (next_id (sample_env 9) sample_retried_db) ?s ''retry'' ''k2'') sample_retried_db))"
    unfolding retry_limit_ignores_other_keys[OF s old] recorded_availability .
  with s refused show ?thesis by (intro exI conjI)
qed

end
