(* ===== verification/Regex.thy ===== *)
theory Regex
  imports PyText
begin

text \<open>
  The part of Python's \<open>re\<close> that the program uses: backtracking search for sequences of characters,
  repeated character classes, alternatives, word edges, line starts and one-character lookaround.
  Alternatives and repetition counts are tried in the engine's order, so the match found is the
  one \<open>re\<close> finds. Every pattern of the program matches at least one character.
\<close>

section \<open>Matching\<close>

datatype rx =
    One "char \<Rightarrow> bool"
  | Rep bool nat "char \<Rightarrow> bool"
  | Alt "rx list list"
  | WordEdge
  | LineStart
  | NotAfter "char \<Rightarrow> bool"
  | NotNext "char \<Rightarrow> bool"
  | Mark

fun first_some :: "('a \<Rightarrow> 'b option) \<Rightarrow> 'a list \<Rightarrow> 'b option" where
  "first_some f [] = None"
| "first_some f (x # xs) = (case f x of None \<Rightarrow> first_some f xs | Some y \<Rightarrow> Some y)"

lemma first_some_cong [fundef_cong]:
  "xs = ys \<Longrightarrow> (\<And>x. x \<in> set ys \<Longrightarrow> f x = g x) \<Longrightarrow> first_some f xs = first_some g ys"
  by (induction xs arbitrary: ys) (auto split: option.splits)

definition opt_word :: "char option \<Rightarrow> bool" where
  "opt_word x = (case x of None \<Rightarrow> False | Some c \<Rightarrow> is_word c)"

definition next_char :: "string \<Rightarrow> char option" where
  "next_char s = (case s of [] \<Rightarrow> None | c # _ \<Rightarrow> Some c)"

definition after :: "char option \<Rightarrow> nat \<Rightarrow> string \<Rightarrow> char option" where
  "after prev k s = (if k = 0 then prev else Some (s ! (k - 1)))"

definition rep_counts :: "bool \<Rightarrow> nat \<Rightarrow> (char \<Rightarrow> bool) \<Rightarrow> string \<Rightarrow> nat list" where
  "rep_counts greedy k P s =
     (let ks = [k ..< Suc (length (takeWhile P s))] in if greedy then rev ks else ks)"

text \<open>An alternative is smaller than the choice it belongs to.\<close>

lemma size_alternative:
  "a \<in> set as \<Longrightarrow> size_list size a < Suc (size_list (size_list size) as)"
  by (induction as) auto

text \<open>
  \<open>rx_match r prev n g s\<close> matches \<open>r\<close> at the start of \<open>s\<close>, after the character \<open>prev\<close>: the number of
  characters consumed, counted from \<open>n\<close>, and the count at the last mark passed.
\<close>

function rx_match :: "rx list \<Rightarrow> char option \<Rightarrow> nat \<Rightarrow> nat \<Rightarrow> string \<Rightarrow> (nat \<times> nat) option" where
  "rx_match [] prev n g s = Some (n, g)"
| "rx_match (One P # r) prev n g s =
     (case s of [] \<Rightarrow> None | c # cs \<Rightarrow> (if P c then rx_match r (Some c) (Suc n) g cs else None))"
| "rx_match (Rep greedy k P # r) prev n g s =
     first_some (\<lambda>j. rx_match r (after prev j s) (n + j) g (drop j s)) (rep_counts greedy k P s)"
| "rx_match (Alt as # r) prev n g s = first_some (\<lambda>a. rx_match (a @ r) prev n g s) as"
| "rx_match (WordEdge # r) prev n g s =
     (if opt_word prev \<noteq> opt_word (next_char s) then rx_match r prev n g s else None)"
| "rx_match (LineStart # r) prev n g s =
     (if prev = None \<or> prev = Some (CHR 0x0A) then rx_match r prev n g s else None)"
| "rx_match (NotAfter P # r) prev n g s =
     (if (case prev of None \<Rightarrow> False | Some c \<Rightarrow> P c) then None else rx_match r prev n g s)"
| "rx_match (NotNext P # r) prev n g s =
     (if (case next_char s of None \<Rightarrow> False | Some c \<Rightarrow> P c) then None else rx_match r prev n g s)"
| "rx_match (Mark # r) prev n g s = rx_match r prev n n s"
  by pat_completeness auto
termination
  by (relation "measure (\<lambda>(r, _). size_list size r)")
     (auto dest!: size_alternative)

section \<open>Search and substitution\<close>

fun search_from :: "rx list \<Rightarrow> char option \<Rightarrow> string \<Rightarrow> bool" where
  "search_from r prev [] = (rx_match r prev 0 0 [] \<noteq> None)"
| "search_from r prev (c # cs) = (rx_match r prev 0 0 (c # cs) \<noteq> None \<or> search_from r (Some c) cs)"

definition rx_search :: "rx list \<Rightarrow> string \<Rightarrow> bool" where
  "rx_search r s = search_from r None s"

text \<open>\<open>pattern.sub(f, text)\<close>: \<open>f\<close> is given the marked prefix of each match.\<close>

function sub_from :: "rx list \<Rightarrow> (string \<Rightarrow> string) \<Rightarrow> char option \<Rightarrow> string \<Rightarrow> string" where
  "sub_from r f prev [] = []"
| "sub_from r f prev (c # cs) =
     (case rx_match r prev 0 0 (c # cs) of
        Some (Suc n, g) \<Rightarrow> f (take g (c # cs)) @ sub_from r f (after prev (Suc n) (c # cs)) (drop n cs)
      | _ \<Rightarrow> c # sub_from r f (Some c) cs)"
  by pat_completeness auto
termination
  by (relation "measure (\<lambda>(r, f, prev, s). length s)") auto

definition rx_sub :: "rx list \<Rightarrow> (string \<Rightarrow> string) \<Rightarrow> string \<Rightarrow> string" where
  "rx_sub r f s = sub_from r f None s"

section \<open>Building patterns\<close>

definition literal :: "string \<Rightarrow> rx list" where
  "literal s = map (\<lambda>d. One (\<lambda>c. c = d)) s"

definition literal_ci :: "string \<Rightarrow> rx list" where
  "literal_ci s = map (\<lambda>d. One (\<lambda>c. lower_char c = lower_char d)) s"

definition one_of :: "string \<Rightarrow> rx" where
  "one_of s = One (\<lambda>c. c \<in> set s)"

end
