(* ===== verification/Redact.thy ===== *)
theory Redact
  imports Regex
begin

text \<open>
  Redaction of \<open>infrastructure/observability.py\<close> and of \<open>application/session_archive.py\<close>: texts lose
  stack traces and what looks like a credential, values lose what stands under a sensitive key.
\<close>

section \<open>Texts\<close>

definition redacted :: string where
  "redacted = ''[redacted]''"

definition redacted_stack_trace :: string where
  "redacted_stack_trace = ''[redacted stack trace]''"

definition uppers :: string where
  "uppers = ''ABCDEFGHIJKLMNOPQRSTUVWXYZ''"

definition alnums :: string where
  "alnums = uppers @ ''abcdefghijklmnopqrstuvwxyz0123456789''"

definition at_least :: "nat \<Rightarrow> string \<Rightarrow> rx" where
  "at_least n s = Rep True n (\<lambda>c. c \<in> set s)"

definition private_key_pattern :: "rx list" where
  "private_key_pattern =
     literal ''-----BEGIN '' @ [at_least 0 (uppers @ '' '')] @ literal ''PRIVATE KEY-----'' @
     [Rep False 0 (\<lambda>c. True)] @ literal ''-----END '' @ [at_least 0 (uppers @ '' '')] @ literal ''PRIVATE KEY-----''"

definition jwt_pattern :: "rx list" where
  "jwt_pattern =
     [WordEdge] @ literal ''eyJ'' @ [at_least 10 (alnums @ ''_-'')] @ literal ''.'' @ [at_least 10 (alnums @ ''_-'')] @
     literal ''.'' @ [at_least 10 (alnums @ ''_-''), WordEdge]"

definition token_pattern :: "rx list" where
  "token_pattern =
     [WordEdge,
      Alt [literal ''gh'' @ [one_of ''pousr''] @ literal ''_'' @ [at_least 20 (alnums @ ''_'')],
           literal ''github_pat_'' @ [at_least 20 (alnums @ ''_'')],
           literal ''glpat-'' @ [at_least 20 (alnums @ ''_-'')],
           literal ''sk-'' @ [at_least 20 (alnums @ ''_-'')],
           literal ''xox'' @ [one_of ''baprs''] @ literal ''-'' @ [at_least 10 (alnums @ ''-'')]],
      WordEdge]"

definition auth_header_pattern :: "rx list" where
  "auth_header_pattern =
     [WordEdge, Alt [literal_ci ''Bearer'', literal_ci ''Basic'', literal_ci ''token''], Mark,
      Rep True 1 is_space, at_least 8 (alnums @ ''._~+/=-'')]"

definition stack_trace_pattern :: "rx list" where
  "stack_trace_pattern =
     [Alt [literal ''Traceback (most recent call last):'',
           [LineStart, Rep True 1 is_space] @ literal ''at '' @ [Rep True 1 (\<lambda>c. is_word c \<or> c \<in> set ''.$'')] @
             literal ''('' @ [Rep True 0 (\<lambda>c. c \<noteq> CHR 0x0A)] @ literal '':'' @ [Rep True 1 is_digit] @ literal '')'',
           [LineStart, Rep True 1 is_space] @ literal ''File '' @ literal [CHR 0x22] @ [Rep True 1 (\<lambda>c. c \<noteq> CHR 0x0A)] @
             literal [CHR 0x22] @ literal '', line '' @ [Rep True 1 is_digit]]]"

definition redact_text :: "string \<Rightarrow> string" where
  "redact_text v =
     (if rx_search stack_trace_pattern v then redacted_stack_trace
      else rx_sub auth_header_pattern (\<lambda>g. g @ '' '' @ redacted)
             (rx_sub token_pattern (\<lambda>g. redacted)
               (rx_sub jwt_pattern (\<lambda>g. redacted)
                 (rx_sub private_key_pattern (\<lambda>g. redacted) v))))"

section \<open>Values\<close>

definition sensitive_key_terms :: "string list" where
  "sensitive_key_terms =
     [''access_token'', ''api_key'', ''authorization'', ''client_secret'', ''cookie'', ''hook'', ''installation'',
      ''password'', ''private_key'', ''secret'', ''set-cookie'', ''signature'', ''token'', ''x-gitlab-token'',
      ''x-hub-signature-256'']"

definition swap_char :: "char \<Rightarrow> char \<Rightarrow> string \<Rightarrow> string" where
  "swap_char old new s = map (\<lambda>c. if c = old then new else c) s"

definition is_sensitive_key :: "string \<Rightarrow> bool" where
  "is_sensitive_key key =
     (let lowered = swap_char (CHR ''_'') (CHR ''-'') (str_lower key);
          compact = swap_char (CHR ''-'') (CHR ''_'') lowered
      in list_ex (\<lambda>term. contains lowered term \<or> contains compact term) sensitive_key_terms)"

function redact_value :: "json \<Rightarrow> json" where
  "redact_value (JObj kvs) = JObj (map (\<lambda>(k, v). (k, if is_sensitive_key k then JStr redacted else redact_value v)) kvs)"
| "redact_value (JList xs) = JList (map redact_value xs)"
| "redact_value (JStr s) = JStr (redact_text s)"
| "redact_value JNull = JNull"
| "redact_value (JBool b) = JBool b"
| "redact_value (JInt i) = JInt i"
| "redact_value (JFloat r t) = JFloat r t"
  by pat_completeness auto
termination
  by (relation "measure size") (auto simp: size_list_estimation' less_Suc_eq_le intro: size_list_estimation')

definition is_number :: "json \<Rightarrow> bool" where
  "is_number j = (case j of JBool _ \<Rightarrow> True | JInt _ \<Rightarrow> True | JFloat _ _ \<Rightarrow> True | _ \<Rightarrow> False)"

function redact_archive_value :: "json \<Rightarrow> json" where
  "redact_archive_value (JObj kvs) =
     JObj (map (\<lambda>(k, v). (k, if is_sensitive_key k \<and> \<not> is_number v then JStr redacted else redact_archive_value v)) kvs)"
| "redact_archive_value (JList xs) = JList (map redact_archive_value xs)"
| "redact_archive_value (JStr s) = JStr (redact_text s)"
| "redact_archive_value JNull = JNull"
| "redact_archive_value (JBool b) = JBool b"
| "redact_archive_value (JInt i) = JInt i"
| "redact_archive_value (JFloat r t) = JFloat r t"
  by pat_completeness auto
termination
  by (relation "measure size") (auto simp: size_list_estimation' less_Suc_eq_le intro: size_list_estimation')


section \<open>What redaction removes and what it keeps\<close>

text \<open>Nothing but numbers and the placeholder stands under a sensitive key, and every text has been redacted.\<close>

function no_secrets :: "json \<Rightarrow> bool" where
  "no_secrets (JObj kvs) \<longleftrightarrow>
     list_all (\<lambda>(k, v). if is_sensitive_key k \<and> \<not> is_number v then v = JStr redacted else no_secrets v) kvs"
| "no_secrets (JList xs) \<longleftrightarrow> list_all no_secrets xs"
| "no_secrets (JStr s) \<longleftrightarrow> s \<in> range redact_text"
| "no_secrets JNull \<longleftrightarrow> True"
| "no_secrets (JBool b) \<longleftrightarrow> True"
| "no_secrets (JInt i) \<longleftrightarrow> True"
| "no_secrets (JFloat r t) \<longleftrightarrow> True"
  by pat_completeness auto
termination
  by (relation "measure size") (auto simp: size_list_estimation' less_Suc_eq_le intro: size_list_estimation')

text \<open>The public part of a value: texts and what stands under a sensitive key left out, all else kept.\<close>

function public_part :: "json \<Rightarrow> json" where
  "public_part (JObj kvs) =
     JObj (map (\<lambda>(k, v). (k, if is_sensitive_key k \<and> \<not> is_number v then JNull else public_part v)) kvs)"
| "public_part (JList xs) = JList (map public_part xs)"
| "public_part (JStr s) = JNull"
| "public_part JNull = JNull"
| "public_part (JBool b) = JBool b"
| "public_part (JInt i) = JInt i"
| "public_part (JFloat r t) = JFloat r t"
  by pat_completeness auto
termination
  by (relation "measure size") (auto simp: size_list_estimation' less_Suc_eq_le intro: size_list_estimation')

lemma redact_number [simp]: "is_number (redact_archive_value v) = is_number v"
  by (cases v) (simp_all add: is_number_def)

lemma is_number_text [simp]: "\<not> is_number (JStr s)" "\<not> is_number JNull"
  by (simp_all add: is_number_def)

lemma redacted_is_clean: "no_secrets (redact_archive_value v)"
  by (induction v rule: redact_archive_value.induct) (auto simp: list_all_iff)

lemma redacted_keeps_the_rest: "public_part (redact_archive_value v) = public_part v"
  by (induction v rule: redact_archive_value.induct) auto

end
