(* ===== verification/Archive.thy ===== *)
theory Archive
  imports Redact Models
begin

text \<open>
  \<open>application/session_archive.py\<close>: the permanent record of an agent session. Every observation of a
  session updates the attempt and the archive row of its task, redacted; the working copy's diff is
  captured up to a limit. The runtime's session value is the model of \<open>integrations/pi_agent.py\<close>.
\<close>

section \<open>The session as the runtime reports it\<close>

record agent_session =
  ag_id :: string
  ag_agent_id :: "string option"
  ag_agent_version :: "string option"
  ag_status :: string
  ag_stage :: string
  ag_provider :: "string option"
  ag_model :: "string option"
  ag_thinking_level :: "string option"
  ag_skills :: "string list"
  ag_profile :: "string option"
  ag_tools :: "string list"
  ag_execution_limits :: "(string \<times> int) list"
  ag_execution_counters :: "(string \<times> int) list"
  ag_resolved_preset :: "dict option"
  ag_execution_environment :: "dict option"
  ag_result :: "dict option"
  ag_session_archive :: "dict option"
  ag_error :: "string option"
  ag_session_file :: "string option"
  ag_events :: "json list"

definition session_statuses :: "string list" where
  "session_statuses =
     [''starting'', ''preparing'', ''running'', ''waiting_for_input'', ''validating_result'', ''completed'', ''failed'',
      ''cancelled'']"

definition jdict :: "dict option \<Rightarrow> json" where
  "jdict d = (case d of None \<Rightarrow> JNull | Some kvs \<Rightarrow> JObj kvs)"

definition jstrs :: "string list \<Rightarrow> json" where
  "jstrs xs = JList (map JStr xs)"

definition jints :: "(string \<times> int) list \<Rightarrow> json" where
  "jints kvs = JObj (map (\<lambda>(k, n). (k, JInt n)) kvs)"

section \<open>Capturing the diff of a working copy\<close>

text \<open>
  Git's outputs are the parameters: the tracked diff, the NUL-separated list of untracked paths and
  the diff of one path, each absent when the command could not be run. Texts here are bytes.
\<close>

fun add_untracked :: "(string \<Rightarrow> string option) \<Rightarrow> nat \<Rightarrow> string list \<Rightarrow> string \<times> bool \<Rightarrow> string \<times> bool" where
  "add_untracked diff_of limit [] acc = acc"
| "add_untracked diff_of limit (p # ps) (content, truncated) =
     (if p = [] then add_untracked diff_of limit ps (content, truncated)
      else if limit \<le> length content then (content, True)
      else (case diff_of p of
              None \<Rightarrow> add_untracked diff_of limit ps (content, truncated)
            | Some d \<Rightarrow>
                (let remaining = limit - length content
                 in add_untracked diff_of limit ps (content @ take remaining d, truncated \<or> remaining < length d))))"

definition capture_untracked_diffs :: "string option \<Rightarrow> (string \<Rightarrow> string option) \<Rightarrow> nat \<Rightarrow> string \<times> bool" where
  "capture_untracked_diffs listed diff_of limit =
     (case listed of
        None \<Rightarrow> ([], False)
      | Some out \<Rightarrow> add_untracked diff_of limit (split_on (CHR 0x00) out) ([], False))"

definition capture_workspace_diff ::
  "nat \<Rightarrow> bool \<Rightarrow> string option \<Rightarrow> string option \<Rightarrow> (string \<Rightarrow> string option) \<Rightarrow> string option \<times> bool" where
  "capture_workspace_diff limit is_repo tracked listed diff_of =
     (if \<not> is_repo then (None, False)
      else (case tracked of
              None \<Rightarrow> (None, False)
            | Some content \<Rightarrow>
                (let remaining = limit - min (length content) limit;
                     (untracked, cut) = (if 0 < remaining then capture_untracked_diffs listed diff_of remaining else ([], False));
                     whole = content @ untracked;
                     truncated = (limit < length whole \<or> cut)
                 in (Some (if truncated then take limit whole else whole), truncated))))"

definition max_workspace_diff_bytes :: nat where
  "max_workspace_diff_bytes = 500000"

section \<open>The attempt and the archive of a session\<close>

definition ended_statuses :: "string list" where
  "ended_statuses = [''completed'', ''failed'', ''cancelled'']"

definition workspace_of_task :: "db \<Rightarrow> string \<Rightarrow> string option" where
  "workspace_of_task db tid =
     (case get_run db tid of
        Some r \<Rightarrow> r_workspace_path r
      | None \<Rightarrow> (case get_agent db tid of Some a \<Rightarrow> a_workspace_path a | None \<Rightarrow> None))"

definition attempt_rows :: "db \<Rightarrow> string \<Rightarrow> string \<Rightarrow> task_attempt list" where
  "attempt_rows db tid run = filter (\<lambda>a. ta_task_id a = tid \<and> ta_agent_run_id a = Some run) (attempts db)"

definition last_attempt_no :: "db \<Rightarrow> string \<Rightarrow> int" where
  "last_attempt_no db tid = foldl max 0 (map ta_attempt_no (filter (\<lambda>a. ta_task_id a = tid) (attempts db)))"

definition observe_attempt :: "time \<Rightarrow> string option \<Rightarrow> json option \<Rightarrow> agent_session \<Rightarrow> task_attempt \<Rightarrow> task_attempt" where
  "observe_attempt t workspace preset s a =
     (let a1 = a\<lparr>ta_status := ag_status s, ta_stage := Some (ag_stage s), ta_agent_run_id := Some (ag_id s),
                 ta_workspace_path := workspace, ta_resolved_preset_json := preset\<rparr>;
          a2 = (case jget (or_else (ag_session_archive s) []) ''stats'' of
                  JObj kvs \<Rightarrow> a1\<lparr>ta_usage_json := Some (redact_archive_value (JObj kvs))\<rparr>
                | _ \<Rightarrow> a1)
      in if ag_status s \<in> set ended_statuses
         then a2\<lparr>ta_completed_at := Some t, ta_error_message := ag_error s,
                 ta_failure_category := (if ag_status s = ''completed'' then None else Some ''agent_failure'')\<rparr>
         else a2)"

definition get_or_create_attempt :: "env \<Rightarrow> string \<Rightarrow> agent_session \<Rightarrow> db \<Rightarrow> db \<times> (err + string)" where
  "get_or_create_attempt e tid s db =
     (let f = observe_attempt (now e) (workspace_of_task db tid) (t_resolved_preset_json (the_task db tid)) s
      in case attempt_rows db tid (ag_id s) of
           [] \<Rightarrow> (draw (db\<lparr>attempts := attempts db @ [f (new_attempt (next_id e db) (now e) tid (last_attempt_no db tid + 1))]\<rparr>),
                  Inr (next_id e db))
         | [a] \<Rightarrow> (db\<lparr>attempts := upd_where (\<lambda>x. ta_id x = ta_id a) f (attempts db)\<rparr>, Inr (ta_id a))
         | _ \<Rightarrow> (db, Inl MultipleResultsFound))"

definition raw_archive :: "agent_session \<Rightarrow> json" where
  "raw_archive s =
     (case ag_session_archive s of
        Some (kv # kvs) \<Rightarrow> JObj (kv # kvs)
      | _ \<Rightarrow> JObj [(''session_id'', JStr (ag_id s)), (''status'', JStr (ag_status s)), (''stage'', JStr (ag_stage s)),
                  (''events'', JList (ag_events s)), (''result'', jdict (ag_result s)),
                  (''session_file'', jopt (ag_session_file s))])"

definition task_subject :: "db \<Rightarrow> string \<Rightarrow> (string \<times> json) list" where
  "task_subject db tid =
     (case get_run db tid of
        Some r \<Rightarrow>
          [(''subject'', JObj [(''provider'', JStr (r_provider r)), (''repository'', JStr (r_repo_full_name r)),
             (''pull_request_number'', JInt (r_pull_request_number r)), (''base_sha'', jopt (r_base_sha r)),
             (''head_sha'', JStr (r_head_sha r))])]
      | None \<Rightarrow>
          (case get_agent db tid of
             Some a \<Rightarrow>
               [(''subject'', JObj [(''provider'', JStr (a_provider a)), (''repository'', JStr (a_repo_full_name a)),
                  (''pull_request_number'', JInt (a_pull_request_number a)), (''head_sha'', jopt (a_head_sha a)),
                  (''source_comment_id'', jopt (a_source_comment_id a)),
                  (''source_author_login'', jopt (a_source_author_login a)), (''command_text'', jopt (a_command_text a))])]
           | None \<Rightarrow> []))"

definition task_metadata :: "db \<Rightarrow> string \<Rightarrow> agent_session \<Rightarrow> json" where
  "task_metadata db tid s =
     (let t = the_task db tid in
      JObj ([(''task'', JObj [(''id'', JStr (t_id t)), (''kind'', JStr (t_kind t)), (''capability_id'', JStr (t_capability_id t)),
               (''status'', JStr (t_status t)), (''stage'', jopt (t_stage t)), (''execution_status'', JStr (t_execution_status t)),
               (''delivery_status'', JStr (t_delivery_status t)), (''queue'', JStr (t_queue t)), (''priority'', JInt (t_priority t)),
               (''resource_class'', JStr (t_resource_class t)), (''resource_context'', jdict (t_resource_context_json t)),
               (''resolved_preset'', or_else (t_resolved_preset_json t) JNull)]),
             (''runtime'', JObj [(''agent_run_id'', JStr (ag_id s)), (''agent_id'', jopt (ag_agent_id s)),
               (''agent_version'', jopt (ag_agent_version s)), (''provider'', jopt (ag_provider s)), (''model'', jopt (ag_model s)),
               (''thinking_level'', jopt (ag_thinking_level s)), (''skills'', jstrs (ag_skills s)), (''tools'', jstrs (ag_tools s)),
               (''execution_limits'', jints (ag_execution_limits s)), (''execution_counters'', jints (ag_execution_counters s)),
               (''execution_environment'', jdict (ag_execution_environment s)),
               (''resolved_preset'', jdict (ag_resolved_preset s))])] @ task_subject db tid))"

definition archived :: "time \<Rightarrow> string \<Rightarrow> json \<Rightarrow> json \<Rightarrow> string option \<times> bool \<Rightarrow> session_archive \<Rightarrow> session_archive" where
  "archived t att session metadata diff x =
     x\<lparr>sa_task_attempt_id := Some att, sa_session_json := redact_archive_value session,
       sa_task_metadata_json := redact_archive_value metadata, sa_workspace_diff := map_option redact_text (fst diff),
       sa_workspace_diff_truncated := snd diff, sa_redaction_version := ''1'', sa_updated_at := t\<rparr>"

definition find_archive :: "db \<Rightarrow> string \<Rightarrow> string \<Rightarrow> session_archive option" where
  "find_archive db tid run = first_row (\<lambda>x. sa_task_id x = tid \<and> sa_agent_run_id x = run) (archives db)"

text \<open>\<open>diff\<close> gives the captured and decoded diff of a workspace path.\<close>

definition archive_agent_session ::
  "env \<Rightarrow> (string \<Rightarrow> string option \<times> bool) \<Rightarrow> string \<Rightarrow> agent_session \<Rightarrow> db \<Rightarrow> db \<times> (err + unit)" where
  "archive_agent_session e diff tid s db =
     and_then (get_or_create_attempt e tid s db)
       (\<lambda>att db1.
          (let f = archived (now e) att (raw_archive s) (task_metadata db1 tid s)
                 (if has_text (workspace_of_task db1 tid) then diff (the (workspace_of_task db1 tid)) else (None, False))
           in case find_archive db1 tid (ag_id s) of
                Some x \<Rightarrow> (db1\<lparr>archives := upd_where (\<lambda>y. sa_id y = sa_id x) f (archives db1)\<rparr>, Inr ())
              | None \<Rightarrow>
                  (draw (db1\<lparr>archives := archives db1 @ [f (new_archive (next_id e db1) (now e) tid att (ag_id s))]\<rparr>), Inr ())))"


section \<open>The captured diff is bounded\<close>

text \<open>What the untracked files would add if there were no limit\<close>

definition untracked_content :: "(string \<Rightarrow> string option) \<Rightarrow> string list \<Rightarrow> string" where
  "untracked_content diff_of ps = concat (map (\<lambda>p. if p = [] then [] else or_else (diff_of p) []) ps)"

lemma add_untracked_bounded:
  assumes "length content \<le> limit" and "add_untracked diff_of limit ps (content, truncated) = (out, short)"
  shows "length out \<le> limit \<and> (truncated \<longrightarrow> short) \<and> (\<not> short \<longrightarrow> out = content @ untracked_content diff_of ps)"
  using assms
proof (induction ps arbitrary: content truncated)
  case Nil
  then show ?case by (simp add: untracked_content_def)
next
  case (Cons p ps)
  consider "p = []" | "p \<noteq> []" "limit \<le> length content" | "p \<noteq> []" "length content < limit" "diff_of p = None"
    | d where "p \<noteq> []" "length content < limit" "diff_of p = Some d" by (cases "diff_of p") fastforce+
  then show ?case
  proof cases
    case 4
    let ?new = "content @ take (limit - length content) d"
    have "length ?new \<le> limit" using Cons.prems(1) by simp
    from Cons.IH[OF this] Cons.prems(2) 4 have IH: "length out \<le> limit"
      "(truncated \<or> limit - length content < length d) \<longrightarrow> short" "\<not> short \<longrightarrow> out = ?new @ untracked_content diff_of ps"
      by (auto simp: Let_def)
    then show ?thesis using 4 by (auto simp: untracked_content_def or_else_def)
  next
    case 3
    with Cons.IH[of content truncated] Cons.prems show ?thesis by (simp add: untracked_content_def)
  qed (use Cons in \<open>auto simp: untracked_content_def\<close>)
qed

text \<open>
  A captured diff never exceeds its limit, and says when it is not complete: without the mark it is
  the tracked diff followed by the diffs of all untracked files, in the order git lists them, unless the
  tracked diff alone has exactly the limit's length, in which case the untracked files are left out
  unmarked.
\<close>

theorem captured_diff_is_bounded:
  "case capture_workspace_diff limit is_repo tracked listed diff_of of
     (None, short) \<Rightarrow> \<not> short \<and> (\<not> is_repo \<or> tracked = None)
   | (Some out, short) \<Rightarrow> length out \<le> limit \<and>
       (short \<or> out = or_else tracked [] @ untracked_content diff_of (split_on (CHR 0x00) (or_else listed [])) \<or>
        tracked = Some out \<and> length out = limit)"
proof (cases "is_repo \<and> tracked \<noteq> None")
  case False
  then show ?thesis by (auto simp: capture_workspace_diff_def)
next
  case True
  then obtain content where c: "is_repo" "tracked = Some content" by blast
  show ?thesis
  proof (cases "length content < limit")
    case True
    let ?r = "limit - length content"
    obtain extra short where u: "capture_untracked_diffs listed diff_of ?r = (extra, short)" by fastforce
    have "length extra \<le> ?r \<and> (\<not> short \<longrightarrow> extra = untracked_content diff_of (split_on (CHR 0x00) (or_else listed [])))"
    proof (cases listed)
      case None
      with u show ?thesis by (auto simp: capture_untracked_diffs_def untracked_content_def or_else_def)
    next
      case (Some out)
      with u have "add_untracked diff_of ?r (split_on (CHR 0x00) out) ([], False) = (extra, short)"
        by (simp add: capture_untracked_diffs_def)
      from add_untracked_bounded[OF _ this] Some show ?thesis by (simp add: or_else_def)
    qed
    with True c u show ?thesis by (auto simp: capture_workspace_diff_def Let_def or_else_def)
  next
    case False
    with c show ?thesis by (auto simp: capture_workspace_diff_def Let_def)
  qed
qed

theorem captured_diff_is_bounded_witness:
  "\<exists>out. capture_workspace_diff 5 True (Some ''abc'') (Some (''f'' @ [CHR 0x00])) (\<lambda>p. Some ''xyz'') = (Some out, True) \<and>
     length out \<le> 5"
proof -
  have "capture_workspace_diff 5 True (Some ''abc'') (Some (''f'' @ [CHR 0x00])) (\<lambda>p. Some ''xyz'') = (Some ''abcxy'', True)"
    by (simp add: capture_workspace_diff_def capture_untracked_diffs_def)
  with captured_diff_is_bounded[where limit = 5 and is_repo = True and tracked = "Some ''abc''" and
      listed = "Some (''f'' @ [CHR 0x00])" and diff_of = "\<lambda>p. Some ''xyz''"]
  show ?thesis by auto
qed


section \<open>The archive holds no secrets\<close>

definition clean_archive :: "session_archive \<Rightarrow> bool" where
  "clean_archive x \<longleftrightarrow> no_secrets (sa_session_json x) \<and> no_secrets (sa_task_metadata_json x) \<and>
     (case sa_workspace_diff x of None \<Rightarrow> True | Some d \<Rightarrow> d \<in> range redact_text)"

lemma archived_facts [simp]:
  "clean_archive (archived t att session metadata diff x)"
  "sa_id (archived t att session metadata diff x) = sa_id x"
  "sa_task_id (archived t att session metadata diff x) = sa_task_id x"
  "sa_agent_run_id (archived t att session metadata diff x) = sa_agent_run_id x"
  "public_part (sa_session_json (archived t att session metadata diff x)) = public_part session"
  "public_part (sa_task_metadata_json (archived t att session metadata diff x)) = public_part metadata"
  by (simp_all add: archived_def clean_archive_def redacted_is_clean redacted_keeps_the_rest split: option.splits)

lemma attempt_keeps_archives:
  "get_or_create_attempt e tid s db = (db', r) \<Longrightarrow> archives db' = archives db \<and> tasks db' = tasks db \<and> runs db' = runs db \<and> agents db' = agents db"
  by (auto simp: get_or_create_attempt_def Let_def draw_def split: list.splits)

lemma archive_effect:
  assumes "archive_agent_session e diff tid s db = (db', Inr ())"
  obtains att db1 d where "get_or_create_attempt e tid s db = (db1, Inr att)" "tasks db' = tasks db" "runs db' = runs db" "agents db' = agents db"
    "archives db' = (case find_archive db tid (ag_id s) of
       Some x \<Rightarrow> upd_where (\<lambda>y. sa_id y = sa_id x) (archived (now e) att (raw_archive s) (task_metadata db tid s) d) (archives db)
     | None \<Rightarrow> archives db @ [archived (now e) att (raw_archive s) (task_metadata db tid s) d
         (new_archive (next_id e db1) (now e) tid att (ag_id s))])"
proof -
  from assms obtain db1 att where a: "get_or_create_attempt e tid s db = (db1, Inr att)"
    by (auto simp: archive_agent_session_def and_then_Inr)
  note same = attempt_keeps_archives[OF a]
  have m: "task_metadata db1 tid s = task_metadata db tid s" "find_archive db1 tid (ag_id s) = find_archive db tid (ag_id s)"
  proof -
    have rows: "the_task db1 tid = the_task db tid" "get_run db1 tid = get_run db tid" "get_agent db1 tid = get_agent db tid"
      using same by (simp_all add: the_task_def get_task_def get_run_def get_agent_def)
    show "task_metadata db1 tid s = task_metadata db tid s" unfolding task_metadata_def task_subject_def rows ..
    show "find_archive db1 tid (ag_id s) = find_archive db tid (ag_id s)" using same by (simp add: find_archive_def)
  qed
  show thesis
    by (rule that[OF a, where d = "if has_text (workspace_of_task db1 tid) then diff (the (workspace_of_task db1 tid)) else (None, False)"])
       (use assms same in \<open>auto simp: archive_agent_session_def and_then_def a m Let_def draw_def split: option.splits\<close>)
qed

lemma archive_succeeds:
  assumes "length (attempt_rows db tid (ag_id s)) \<le> 1"
  shows "\<exists>db'. archive_agent_session e diff tid s db = (db', Inr ())"
proof -
  have "\<exists>db1 att. get_or_create_attempt e tid s db = (db1, Inr att)"
  proof (cases "attempt_rows db tid (ag_id s)")
    case (Cons a as)
    with assms have "as = []" by simp
    with Cons show ?thesis by (simp add: get_or_create_attempt_def)
  qed (simp add: get_or_create_attempt_def)
  then obtain db1 att where "get_or_create_attempt e tid s db = (db1, Inr att)" by blast
  then show ?thesis by (auto simp: archive_agent_session_def Let_def split: option.splits)
qed

lemma clean_upd_where:
  "list_all clean_archive xs \<Longrightarrow> (\<And>x. clean_archive (f x)) \<Longrightarrow> list_all clean_archive (upd_where P f xs)"
  by (auto simp: list_all_iff set_upd_where)


definition sample_session :: "string \<Rightarrow> agent_session" where
  "sample_session status =
     \<lparr>ag_id = ''g1'', ag_agent_id = None, ag_agent_version = None, ag_status = status, ag_stage = ''run'', ag_provider = None,
      ag_model = None, ag_thinking_level = None, ag_skills = [], ag_profile = None, ag_tools = [], ag_execution_limits = [],
      ag_execution_counters = [], ag_resolved_preset = None, ag_execution_environment = None, ag_result = None,
      ag_session_archive = None, ag_error = None, ag_session_file = None, ag_events = []\<rparr>"

definition secret_session :: agent_session where
  "secret_session = (sample_session ''running'')\<lparr>ag_session_archive := Some [(''token'', JStr ''s3cret''), (''tokens'', JInt 7)]\<rparr>"


end
