(* ===== verification/Reconcile.thy ===== *)
theory Reconcile
  imports Results
begin

text \<open>
  \<open>domain/reconciliation.py\<close>: persisting the findings of a run and reconciling them with the
  active findings of the pull request's latest completed run. New rows are collected first and
  written by the flush at the end, where the unique constraint on \<open>(review_run_id, fingerprint)\<close>
  is checked; a failing flush leaves the database as it was.
\<close>

record reconciliation_stats =
  n_new :: int
  n_existing :: int
  n_resolved :: int
  n_stale :: int

definition no_stats :: reconciliation_stats where
  "no_stats = \<lparr>n_new = 0, n_existing = 0, n_resolved = 0, n_stale = 0\<rparr>"

text \<open>\<open>if state in stats: stats[state] += 1\<close>\<close>

definition count_state :: "string \<Rightarrow> reconciliation_stats \<Rightarrow> reconciliation_stats" where
  "count_state s st =
     (if s = ''new'' then st\<lparr>n_new := n_new st + 1\<rparr>
      else if s = ''existing'' then st\<lparr>n_existing := n_existing st + 1\<rparr>
      else if s = ''resolved'' then st\<lparr>n_resolved := n_resolved st + 1\<rparr>
      else if s = ''stale'' then st\<lparr>n_stale := n_stale st + 1\<rparr>
      else st)"

definition completed_key :: "task \<Rightarrow> int \<times> int \<times> int" where
  "completed_key t =
     (case t_completed_at t of
        None \<Rightarrow> (1, 0, - t_created_at t)
      | Some c \<Rightarrow> (0, - c, - t_created_at t))"

definition previous_run :: "review_run \<Rightarrow> db \<Rightarrow> review_run option" where
  "previous_run r db =
     (case sort_key (\<lambda>x. completed_key (the_task db (r_id x)))
             (filter (\<lambda>x. r_provider x = r_provider r \<and> r_repo_full_name x = r_repo_full_name r \<and>
                          r_pull_request_number x = r_pull_request_number r \<and> r_id x \<noteq> r_id r \<and>
                          t_status (the_task db (r_id x)) = ''completed'') (runs db)) of
        [] \<Rightarrow> None
      | x # _ \<Rightarrow> Some x)"

definition previous_active_findings :: "review_run \<Rightarrow> db \<Rightarrow> finding list" where
  "previous_active_findings r db =
     (case previous_run r db of
        None \<Rightarrow> []
      | Some p \<Rightarrow> filter (\<lambda>f. f_review_run_id f = r_id p \<and> f_status f = ''active'') (findings db))"

text \<open>\<open>{finding.fingerprint: finding for ...}\<close>\<close>

definition by_fingerprint :: "finding list \<Rightarrow> (string \<times> finding) list" where
  "by_fingerprint fs = foldl (\<lambda>m f. dict_put (f_fingerprint f) f m) [] fs"

definition current_run_findings :: "review_run \<Rightarrow> db \<Rightarrow> (string \<times> finding) list" where
  "current_run_findings r db = by_fingerprint (filter (\<lambda>f. f_review_run_id f = r_id r) (findings db))"

definition severity_counts :: "publishable list \<Rightarrow> (string \<times> int) list" where
  "severity_counts ps = foldl (\<lambda>m p. dict_incr (rf_severity (pf_finding p)) m) [] ps"

text \<open>\<open>model_dump(mode="json")\<close> and the stored confidence\<close>

definition confidence_json :: "float_value \<Rightarrow> json" where
  "confidence_json f = JFloat (fl_repr f) (if fl_num f = 2 ^ fl_exp f then 1 else 0)"

definition jint :: "int option \<Rightarrow> json" where
  "jint x = (case x of None \<Rightarrow> JNull | Some i \<Rightarrow> JInt i)"

definition finding_dump :: "review_finding \<Rightarrow> json" where
  "finding_dump f =
     JObj [(''file'', JStr (rf_file f)), (''line'', jint (rf_line f)), (''line_end'', jint (rf_line_end f)),
           (''severity'', JStr (rf_severity f)), (''category'', jopt (rf_category f)),
           (''message'', JStr (rf_message f)), (''suggestion'', jopt (rf_suggestion f)),
           (''confidence'', confidence_json (rf_confidence f))]"

definition pending_finding :: "time \<Rightarrow> review_run \<Rightarrow> finding option \<Rightarrow> publishable \<Rightarrow> finding" where
  "pending_finding t r previous p =
     (let f = pf_finding p in
      (new_finding [] t (r_id r) (pf_fingerprint p) (rf_file f) (rf_severity f) (rf_message f))
        \<lparr>f_pull_request_context_id := r_pull_request_context_id r,
         f_line_start := rf_line f, f_line_end := rf_line_end f, f_category := rf_category f,
         f_suggestion := rf_suggestion f, f_confidence := confidence_json (rf_confidence f),
         f_status := ''active'',
         f_state := (case previous of None \<Rightarrow> ''new'' | Some _ \<Rightarrow> ''existing''),
         f_first_seen_run_id :=
           Some (case previous of
                   None \<Rightarrow> r_id r
                 | Some q \<Rightarrow> str_or (f_first_seen_run_id q) (f_review_run_id q)),
         f_last_seen_run_id := Some (r_id r),
         f_raw_payload_json := Some (finding_dump f)\<rparr>)"

fun collect_findings ::
  "time \<Rightarrow> review_run \<Rightarrow> (string \<times> finding) list \<Rightarrow> (string \<times> finding) list \<Rightarrow> publishable list \<Rightarrow>
     reconciliation_stats \<Rightarrow> finding list \<times> reconciliation_stats" where
  "collect_findings t r prev cur [] st = ([], st)"
| "collect_findings t r prev cur (p # ps) st =
     (case map_of cur (pf_fingerprint p) of
        Some c \<Rightarrow> collect_findings t r prev cur ps (count_state (f_state c) st)
      | None \<Rightarrow>
          (let previous = map_of prev (pf_fingerprint p);
               st1 = (case previous of
                        None \<Rightarrow> st\<lparr>n_new := n_new st + 1\<rparr>
                      | Some _ \<Rightarrow> st\<lparr>n_existing := n_existing st + 1\<rparr>);
               (rows, st2) = collect_findings t r prev cur ps st1
           in (pending_finding t r previous p # rows, st2)))"

definition resolve_finding :: "string \<Rightarrow> finding \<Rightarrow> finding" where
  "resolve_finding rid f =
     f\<lparr>f_status := ''resolved'', f_state := ''resolved'', f_resolved_run_id := Some rid\<rparr>"

primrec with_ids :: "env \<Rightarrow> nat \<Rightarrow> finding list \<Rightarrow> finding list" where
  "with_ids e n [] = []"
| "with_ids e n (f # fs) = f\<lparr>f_id := uuid4 e n\<rparr> # with_ids e (Suc n) fs"

definition finding_key :: "finding \<Rightarrow> string \<times> string" where
  "finding_key f = (f_review_run_id f, f_fingerprint f)"

definition persist_and_reconcile_findings ::
  "env \<Rightarrow> string \<Rightarrow> parsed_result \<Rightarrow> db \<Rightarrow> db \<times> (err + reconciliation_stats)" where
  "persist_and_reconcile_findings e rid parsed db =
     (let r = the_run db rid;
          previous = previous_active_findings r db;
          cur = current_run_findings r db;
          (rows, st) = collect_findings (now e) r (by_fingerprint previous) cur (pr_findings parsed) no_stats;
          seen = map pf_fingerprint (pr_findings parsed);
          gone = filter (\<lambda>f. f_fingerprint f \<notin> set seen) previous;
          resolved = upd_where (\<lambda>f. f_id f \<in> set (map f_id gone)) (resolve_finding rid) (findings db);
          new = with_ids e (drawn db) rows;
          db1 = db\<lparr>findings := resolved @ new, drawn := drawn db + length rows\<rparr>
      in if \<not> unique_on finding_key (resolved @ new)
         then (db, Inl (IntegrityError ''uq_finding_run''))
         else (upd_run rid (\<lambda>x. x\<lparr>r_finding_count_total := int (length (pr_findings parsed)),
                                 r_finding_count_by_severity := Some (severity_counts (pr_findings parsed))\<rparr>) db1,
               Inr (st\<lparr>n_resolved := n_resolved st + int (length gone)\<rparr>)))"

record archive_stats =
  n_accepted :: int
  n_rejected :: int
  n_archived_stale :: int

definition archive_findings_for_merged_pr :: "string \<Rightarrow> db \<Rightarrow> db \<times> archive_stats" where
  "archive_findings_for_merged_pr rid db =
     (let mine = (\<lambda>f. f_review_run_id f = rid \<and> f_status f = ''active'');
          stale = length (filter (\<lambda>f. mine f \<and> f_state f = ''stale'') (findings db));
          other = length (filter (\<lambda>f. mine f \<and> f_state f \<noteq> ''stale'') (findings db))
      in (db\<lparr>findings := upd_where mine
               (\<lambda>f. f\<lparr>f_outcome := Some (if f_state f = ''stale'' then ''stale'' else ''rejected'')\<rparr>)
               (findings db)\<rparr>,
          \<lparr>n_accepted = 0, n_rejected = int other, n_archived_stale = int stale\<rparr>))"

section \<open>Laws\<close>

lemma count_state_total:
  "s \<in> {''new'', ''existing'', ''resolved'', ''stale''} \<Longrightarrow>
     n_new (count_state s st) + n_existing (count_state s st) + n_resolved (count_state s st) + n_stale (count_state s st) =
     n_new st + n_existing st + n_resolved st + n_stale st + 1"
  by (auto simp: count_state_def)

lemma by_fingerprint_map: "map_of (by_fingerprint fs) k = map_of (rev (map (\<lambda>f. (f_fingerprint f, f)) fs)) k"
proof -
  have "map_of (foldl (\<lambda>m f. dict_put (f_fingerprint f) f m) m gs) k =
      map_of (rev (map (\<lambda>f. (f_fingerprint f, f)) gs) @ m) k" for gs m
    by (induction gs arbitrary: m) (auto simp: map_of_dict_put map_add_def split: option.splits)
  from this[of "[]" fs] show ?thesis by (simp add: by_fingerprint_def)
qed

lemma by_fingerprint_None: "map_of (by_fingerprint fs) k = None \<longleftrightarrow> k \<notin> f_fingerprint ` set fs"
  unfolding by_fingerprint_map map_of_eq_None_iff by (auto simp: image_iff)

lemma by_fingerprint_Some: "map_of (by_fingerprint fs) k = Some f \<Longrightarrow> f \<in> set fs \<and> f_fingerprint f = k"
  unfolding by_fingerprint_map by (auto dest!: map_of_SomeD)

lemma pending_finding_simps [simp]:
  "f_review_run_id (pending_finding t r q p) = r_id r"
  "f_fingerprint (pending_finding t r q p) = pf_fingerprint p"
  "f_status (pending_finding t r q p) = ''active''"
  "f_state (pending_finding t r q p) = (case q of None \<Rightarrow> ''new'' | Some _ \<Rightarrow> ''existing'')"
  by (simp_all add: pending_finding_def new_finding_def Let_def)

lemma collect_rows:
  "fst (collect_findings t r prev cur ps st) =
     map (\<lambda>p. pending_finding t r (map_of prev (pf_fingerprint p)) p)
         (filter (\<lambda>p. map_of cur (pf_fingerprint p) = None) ps)"
  by (induction ps arbitrary: st) (auto simp: Let_def case_prod_beta split: option.splits)

lemma with_ids_keys [simp]: "map finding_key (with_ids e n fs) = map finding_key fs"
  by (induction fs arbitrary: n) (simp_all add: finding_key_def)

lemma with_ids_map: "(\<And>f i. k (f\<lparr>f_id := i\<rparr>) = k f) \<Longrightarrow> map k (with_ids e n fs) = map k fs"
  by (induction fs arbitrary: n) simp_all

lemma in_with_ids: "f \<in> set (with_ids e n fs) \<Longrightarrow> \<exists>g \<in> set fs. \<exists>i. f = g\<lparr>f_id := i\<rparr>"
  by (induction fs arbitrary: n) auto

lemma with_ids_Nil [simp]: "with_ids e n fs = [] \<longleftrightarrow> fs = []"
  by (cases fs) simp_all

lemma resolve_key [simp]: "finding_key (resolve_finding rid f) = finding_key f"
  by (simp add: resolve_finding_def finding_key_def)

lemma previous_in: "f \<in> set (previous_active_findings r db) \<Longrightarrow>
    f \<in> set (findings db) \<and> f_review_run_id f \<noteq> r_id r \<and> f_status f = ''active''"
proof -
  assume f: "f \<in> set (previous_active_findings r db)"
  then obtain p where p: "previous_run r db = Some p" "f \<in> set (findings db)"
    "f_review_run_id f = r_id p" "f_status f = ''active''"
    by (cases "previous_run r db") (auto simp: previous_active_findings_def)
  from p(1) have "p \<in> set (filter (\<lambda>x. r_provider x = r_provider r \<and> r_repo_full_name x = r_repo_full_name r \<and>
                          r_pull_request_number x = r_pull_request_number r \<and> r_id x \<noteq> r_id r \<and>
                          t_status (the_task db (r_id x)) = ''completed'') (runs db))"
    unfolding previous_run_def by (auto split: list.splits dest!: arg_cong[of "sort_key _ _" _ set])
  with p show ?thesis by auto
qed

text \<open>What a successful call writes.\<close>

definition resolve_gone :: "string \<Rightarrow> finding list \<Rightarrow> string list \<Rightarrow> finding \<Rightarrow> finding" where
  "resolve_gone rid previous seen f =
     (if f \<in> set previous \<and> f_fingerprint f \<notin> set seen then resolve_finding rid f else f)"

lemma resolved_rows:
  assumes "unique_on f_id fs" and "set previous \<subseteq> set fs"
  shows "upd_where (\<lambda>f. f_id f \<in> set (map f_id (filter (\<lambda>f. f_fingerprint f \<notin> set seen) previous)))
           (resolve_finding rid) fs = map (resolve_gone rid previous seen) fs"
  unfolding upd_where_def
proof (rule map_cong[OF refl])
  fix f assume f: "f \<in> set fs"
  have "f_id f \<in> set (map f_id (filter (\<lambda>f. f_fingerprint f \<notin> set seen) previous)) \<longleftrightarrow>
      f \<in> set previous \<and> f_fingerprint f \<notin> set seen"
    using f assms by (auto dest: unique_on_inj)
  then show "(if f_id f \<in> set (map f_id (filter (\<lambda>f. f_fingerprint f \<notin> set seen) previous))
      then resolve_finding rid f else f) = resolve_gone rid previous seen f"
    by (simp add: resolve_gone_def)
qed

lemma resolve_gone_key [simp]: "finding_key (resolve_gone rid previous seen f) = finding_key f"
  by (simp add: resolve_gone_def)

definition new_rows :: "env \<Rightarrow> review_run \<Rightarrow> parsed_result \<Rightarrow> db \<Rightarrow> finding list" where
  "new_rows e r parsed db =
     map (\<lambda>p. pending_finding (now e) r
            (map_of (by_fingerprint (previous_active_findings r db)) (pf_fingerprint p)) p)
         (filter (\<lambda>p. map_of (current_run_findings r db) (pf_fingerprint p) = None) (pr_findings parsed))"

definition new_stats :: "env \<Rightarrow> review_run \<Rightarrow> parsed_result \<Rightarrow> db \<Rightarrow> reconciliation_stats" where
  "new_stats e r parsed db =
     snd (collect_findings (now e) r (by_fingerprint (previous_active_findings r db))
            (current_run_findings r db) (pr_findings parsed) no_stats)"

definition persisted :: "env \<Rightarrow> review_run \<Rightarrow> parsed_result \<Rightarrow> db \<Rightarrow> finding list" where
  "persisted e r parsed db =
     map (resolve_gone (r_id r) (previous_active_findings r db) (map pf_fingerprint (pr_findings parsed)))
         (findings db) @ with_ids e (drawn db) (new_rows e r parsed db)"

lemma persisted_keys: "unique_on finding_key (persisted e r parsed db) \<longleftrightarrow>
    unique_on finding_key (findings db @ new_rows e r parsed db)"
  by (simp add: unique_on_def comp_def persisted_def)

lemma persist_eq:
  assumes "get_run db rid = Some r" and "unique_on f_id (findings db)"
  shows "persist_and_reconcile_findings e rid parsed db =
     (if unique_on finding_key (findings db @ new_rows e r parsed db)
      then (upd_run rid (\<lambda>x. x\<lparr>r_finding_count_total := int (length (pr_findings parsed)),
                              r_finding_count_by_severity := Some (severity_counts (pr_findings parsed))\<rparr>)
              (db\<lparr>findings := persisted e r parsed db, drawn := drawn db + length (new_rows e r parsed db)\<rparr>),
            Inr ((new_stats e r parsed db)\<lparr>n_resolved := n_resolved (new_stats e r parsed db) +
               int (length (filter (\<lambda>f. f_fingerprint f \<notin> set (map pf_fingerprint (pr_findings parsed)))
                              (previous_active_findings r db)))\<rparr>))
      else (db, Inl (IntegrityError ''uq_finding_run'')))"
proof -
  have sub: "set (previous_active_findings r db) \<subseteq> set (findings db)" using previous_in by blast
  have rid: "the_run db rid = r" "r_id r = rid"
    using assms(1) get_run_SomeD[OF assms(1)] by (simp_all add: the_run_def)
  have c: "collect_findings (now e) r (by_fingerprint (previous_active_findings r db)) (current_run_findings r db)
      (pr_findings parsed) no_stats = (new_rows e r parsed db, new_stats e r parsed db)"
    by (rule prod_eqI) (simp_all only: collect_rows new_rows_def new_stats_def fst_conv snd_conv)
  note res = resolved_rows[OF assms(2) sub, of "map pf_fingerprint (pr_findings parsed)" rid]
  show ?thesis
    unfolding persist_and_reconcile_findings_def Let_def rid(1) c prod.case res persisted_keys[symmetric]
    by (simp add: persisted_def rid(2) del: set_map)
qed

lemma collect_stats_fresh:
  "n_new (snd (collect_findings t r prev [] ps st)) + n_existing (snd (collect_findings t r prev [] ps st)) =
     n_new st + n_existing st + int (length ps) \<and>
   n_resolved (snd (collect_findings t r prev [] ps st)) = n_resolved st"
  by (induction ps arbitrary: st) (auto simp: Let_def case_prod_beta split: option.splits)

lemma current_none: "\<forall>f \<in> set (findings db). f_review_run_id f \<noteq> r_id r \<Longrightarrow> current_run_findings r db = []"
  by (simp add: current_run_findings_def by_fingerprint_def)

lemma current_keys:
  "map_of (current_run_findings r db) k = None \<longleftrightarrow>
     (\<forall>f \<in> set (findings db). f_review_run_id f = r_id r \<longrightarrow> f_fingerprint f \<noteq> k)"
  by (auto simp: current_run_findings_def by_fingerprint_None)

section \<open>Properties\<close>

text \<open>How many of the reported findings have a row of the run in a state\<close>

definition reported_in :: "string \<Rightarrow> string \<Rightarrow> parsed_result \<Rightarrow> db \<Rightarrow> int" where
  "reported_in state rid parsed db =
     int (length (filter (\<lambda>p. \<exists>f \<in> set (findings db). finding_key f = (rid, pf_fingerprint p) \<and> f_state f = state)
       (pr_findings parsed)))"

definition state_now :: "(string \<times> finding) list \<Rightarrow> (string \<times> finding) list \<Rightarrow> publishable \<Rightarrow> string" where
  "state_now prev cur p =
     (case map_of cur (pf_fingerprint p) of
        Some c \<Rightarrow> f_state c
      | None \<Rightarrow> (if map_of prev (pf_fingerprint p) = None then ''new'' else ''existing''))"

lemma count_state_fields:
  "n_new (count_state s st) = n_new st + (if s = ''new'' then 1 else 0)"
  "n_existing (count_state s st) = n_existing st + (if s = ''existing'' then 1 else 0)"
  "n_resolved (count_state s st) = n_resolved st + (if s = ''resolved'' then 1 else 0)"
  "n_stale (count_state s st) = n_stale st + (if s = ''stale'' then 1 else 0)"
  by (simp_all add: count_state_def)

lemma collect_counts:
  "snd (collect_findings t r prev cur (p # ps) st) =
     snd (collect_findings t r prev cur ps (count_state (state_now prev cur p) st))"
  by (simp add: state_now_def count_state_def Let_def case_prod_beta split: option.split)

lemma collect_stats:
  "snd (collect_findings t r prev cur ps st) =
     \<lparr>n_new = n_new st + int (length (filter (\<lambda>p. state_now prev cur p = ''new'') ps)),
      n_existing = n_existing st + int (length (filter (\<lambda>p. state_now prev cur p = ''existing'') ps)),
      n_resolved = n_resolved st + int (length (filter (\<lambda>p. state_now prev cur p = ''resolved'') ps)),
      n_stale = n_stale st + int (length (filter (\<lambda>p. state_now prev cur p = ''stale'') ps))\<rparr>"
proof (induction ps arbitrary: st)
  case (Cons p ps)
  have one: "int (length (filter Q (p # ps))) = (if Q p then 1 else 0) + int (length (filter Q ps))" for Q by simp
  show ?case unfolding collect_counts Cons.IH count_state_fields one by (simp only: add.assoc)
qed simp

lemma in_with_ids_conv: "g \<in> set fs \<Longrightarrow> \<exists>i. g\<lparr>f_id := i\<rparr> \<in> set (with_ids e n fs)"
  by (induction fs arbitrary: n) auto

lemma state_after:
  assumes "get_run db rid = Some r" and "unique_on finding_key (persisted e r parsed db)" and "p \<in> set (pr_findings parsed)"
  shows "(\<exists>f \<in> set (persisted e r parsed db). finding_key f = (rid, pf_fingerprint p) \<and> f_state f = state) \<longleftrightarrow>
     state_now (by_fingerprint (previous_active_findings r db)) (current_run_findings r db) p = state"
proof -
  let ?prev = "previous_active_findings r db" and ?k = "pf_fingerprint p"
  have rid: "r_id r = rid" using get_run_SomeD[OF assms(1)] by simp
  have "\<exists>f \<in> set (persisted e r parsed db). finding_key f = (rid, ?k) \<and>
      f_state f = state_now (by_fingerprint ?prev) (current_run_findings r db) p"
  proof (cases "map_of (current_run_findings r db) ?k")
    case None
    let ?g = "pending_finding (now e) r (map_of (by_fingerprint ?prev) ?k) p"
    have "?g \<in> set (new_rows e r parsed db)" using assms(3) None by (auto simp: new_rows_def)
    then obtain i where "?g\<lparr>f_id := i\<rparr> \<in> set (persisted e r parsed db)"
      using in_with_ids_conv by (fastforce simp: persisted_def)
    moreover have "finding_key (?g\<lparr>f_id := i\<rparr>) = (rid, ?k)" by (simp add: finding_key_def rid)
    moreover have "f_state (?g\<lparr>f_id := i\<rparr>) = state_now (by_fingerprint ?prev) (current_run_findings r db) p"
      by (simp add: state_now_def None split: option.split)
    ultimately show ?thesis by blast
  next
    case (Some c)
    then have c: "c \<in> set (findings db)" "f_review_run_id c = rid" "f_fingerprint c = ?k"
      using rid by (auto simp: current_run_findings_def dest!: by_fingerprint_Some)
    then have "c \<notin> set ?prev" using previous_in[of c r db] rid by auto
    then have "c \<in> set (persisted e r parsed db)"
      using c(1) by (force simp: persisted_def resolve_gone_def)
    with c Some show ?thesis by (intro bexI[of _ c]) (simp_all add: finding_key_def state_now_def)
  qed
  then show ?thesis using assms(2) by (metis unique_on_inj)
qed

text \<open>
  C40. A reconciliation that succeeds accounts for every finding: each active finding of the latest completed run
  is either seen again and left alone, or resolved by this run; all other rows of the table stay; the run gets
  one active row per reported fingerprint it had none for, marked \<open>existing\<close> exactly when the
  latest completed run had it active, else \<open>new\<close>. The statistics count each reported finding once, under the state its
  row has now, and add the findings resolved by this run to the resolved ones.
\<close>

theorem reconciliation_accounts_for_every_finding:
  assumes "persist_and_reconcile_findings e rid parsed db = (db', Inr st)"
    and "get_run db rid = Some r" and "unique_on f_id (findings db)"
  shows "(\<exists>new. findings db' = map (resolve_gone rid (previous_active_findings r db)
              (map pf_fingerprint (pr_findings parsed))) (findings db) @ new \<and>
     map f_fingerprint new = filter (\<lambda>k. \<forall>f \<in> set (findings db). finding_key f \<noteq> (rid, k))
       (map pf_fingerprint (pr_findings parsed)) \<and>
     distinct (map f_fingerprint new) \<and>
     (\<forall>f \<in> set new. f_review_run_id f = rid \<and> f_status f = ''active'' \<and>
        f_state f = (if f_fingerprint f \<in> f_fingerprint ` set (previous_active_findings r db)
                     then ''existing'' else ''new'')) \<and>
     unique_on finding_key (findings db')) \<and>
   st = \<lparr>n_new = reported_in ''new'' rid parsed db', n_existing = reported_in ''existing'' rid parsed db',
         n_resolved = reported_in ''resolved'' rid parsed db' +
           int (length (filter (\<lambda>f. f_fingerprint f \<notin> set (map pf_fingerprint (pr_findings parsed)))
             (previous_active_findings r db))),
         n_stale = reported_in ''stale'' rid parsed db'\<rparr>"
proof -
  let ?prev = "previous_active_findings r db"
  let ?seen = "map pf_fingerprint (pr_findings parsed)"
  have rid: "r_id r = rid" using get_run_SomeD[OF assms(2)] by simp
  let ?rows = "new_rows e r parsed db"
  let ?new = "with_ids e (drawn db) ?rows"
  note eq = persist_eq[OF assms(2,3), of e parsed]
  have u: "unique_on finding_key (findings db @ ?rows)"
    using assms(1) eq by (auto split: if_splits)
  then have f': "findings db' = persisted e r parsed db"
    and st: "st = (new_stats e r parsed db)\<lparr>n_resolved := n_resolved (new_stats e r parsed db) +
               int (length (filter (\<lambda>f. f_fingerprint f \<notin> set ?seen) ?prev))\<rparr>"
    using assms(1) eq by auto
  have u': "unique_on finding_key (findings db')" using u by (simp add: f' persisted_keys)
  have fps: "map f_fingerprint ?new = filter (\<lambda>k. \<forall>f \<in> set (findings db). finding_key f \<noteq> (rid, k)) ?seen"
    by (subst with_ids_map) (simp_all add: new_rows_def filter_map comp_def current_keys rid finding_key_def)
  have "distinct (map finding_key ?rows)"
    using u by (simp add: unique_on_def)
  moreover have "map finding_key ?rows = map (Pair rid) (map f_fingerprint ?new)"
    by (subst with_ids_map) (simp_all add: new_rows_def finding_key_def rid)
  ultimately have "distinct (map f_fingerprint ?new)" by (metis distinct_map)
  moreover have "\<forall>f \<in> set ?new. f_review_run_id f = rid \<and> f_status f = ''active'' \<and>
        f_state f = (if f_fingerprint f \<in> f_fingerprint ` set ?prev then ''existing'' else ''new'')"
  proof
    fix f assume "f \<in> set ?new"
    then obtain p i where "f = (pending_finding (now e) r (map_of (by_fingerprint ?prev) (pf_fingerprint p)) p)\<lparr>f_id := i\<rparr>"
      unfolding new_rows_def by (auto dest!: in_with_ids)
    then show "f_review_run_id f = rid \<and> f_status f = ''active'' \<and>
        f_state f = (if f_fingerprint f \<in> f_fingerprint ` set ?prev then ''existing'' else ''new'')"
      using by_fingerprint_None[of ?prev "pf_fingerprint p"]
      by (cases "map_of (by_fingerprint ?prev) (pf_fingerprint p)") (auto simp: rid)
  qed
  moreover have "reported_in s rid parsed db' =
      int (length (filter (\<lambda>p. state_now (by_fingerprint ?prev) (current_run_findings r db) p = s) (pr_findings parsed)))" for s
    unfolding reported_in_def f' using state_after[OF assms(2) u'[unfolded f']] by (simp cong: filter_cong)
  ultimately show ?thesis
    using f' fps u' unfolding persisted_def rid st new_stats_def collect_stats no_stats_def
    by (intro conjI exI[of _ ?new]) simp_all
qed

definition sample_run_db :: db where
  "sample_run_db = empty_db\<lparr>
     tasks := [(new_task ''r0'' ''review'' 1)\<lparr>t_status := ''completed'', t_completed_at := Some 5\<rparr>,
               (new_task ''r1'' ''review'' 6)\<lparr>t_status := ''running''\<rparr>],
     runs := [new_run ''r0'' ''gh'' ''o/r'' 1 ''head'', new_run ''r1'' ''gh'' ''o/r'' 1 ''head''],
     findings := [new_finding ''f0'' 2 ''r0'' ''old'' ''a.py'' ''high'' ''m'']\<rparr>"

definition sample_publishable :: "string \<Rightarrow> publishable" where
  "sample_publishable k =
     \<lparr>pf_finding = \<lparr>rf_file = ''a.py'', rf_line = None, rf_line_end = None, rf_severity = ''high'',
        rf_category = None, rf_message = ''m'', rf_suggestion = None,
        rf_confidence = \<lparr>fl_repr = ''1.0'', fl_num = 1, fl_exp = 0\<rparr>\<rparr>,
      pf_fingerprint = k, pf_publish_as_line_comment = False, pf_reason = Some ''line_not_provided''\<rparr>"

definition sample_report :: "string list \<Rightarrow> parsed_result" where
  "sample_report ks =
     \<lparr>pr_result = \<lparr>rr_summary = ''s'', rr_findings = map (\<lambda>k. pf_finding (sample_publishable k)) ks\<rparr>,
      pr_findings = map sample_publishable ks, pr_summary_only = []\<rparr>"

theorem reconciliation_accounts_for_every_finding_witness:
  "\<exists>db' st. persist_and_reconcile_findings (sample_env 9) ''r1'' (sample_report [''k1'', ''k2'']) sample_run_db = (db', Inr st) \<and>
     map f_status (findings db') = [''resolved'', ''active'', ''active''] \<and> unique_on finding_key (findings db') \<and>
     n_new st = 2 \<and> n_new st = reported_in ''new'' ''r1'' (sample_report [''k1'', ''k2'']) db'"
proof -
  let ?r = "persist_and_reconcile_findings (sample_env 9) ''r1'' (sample_report [''k1'', ''k2'']) sample_run_db"
  have v: "map f_status (findings (fst ?r)) = [''resolved'', ''active'', ''active'']"
    "case snd ?r of Inl x \<Rightarrow> False | Inr st \<Rightarrow> n_new st = 2"
    by code_simp+
  then obtain st where st: "?r = (fst ?r, Inr st)" "n_new st = 2" by (cases ?r) (auto split: sum.splits)
  have "\<exists>r. get_run sample_run_db ''r1'' = Some r" "unique_on f_id (findings sample_run_db)"
    by (simp_all add: sample_run_db_def get_run_def new_run_def unique_on_def empty_db_def)
  then have "unique_on finding_key (findings (fst ?r)) \<and>
      n_new st = reported_in ''new'' ''r1'' (sample_report [''k1'', ''k2'']) (fst ?r)"
    using reconciliation_accounts_for_every_finding[OF st(1)] by force
  with v(1) st show ?thesis
    by (intro exI[of _ "fst ?r"] exI[of _ st]) (intro conjI; simp only:)
qed

text \<open>
  For a run without findings yet, reconciliation succeeds exactly when the reported
  fingerprints are distinct; then \<open>new\<close> and \<open>existing\<close> count them all. A result that reports one
  fingerprint twice (the fingerprint leaves out the line) raises \<open>IntegrityError\<close> and stores
  nothing.
\<close>

theorem duplicate_fingerprint_aborts_reconciliation:
  assumes "get_run db rid = Some r" and "unique_on f_id (findings db)"
    and "unique_on finding_key (findings db)" and "\<forall>f \<in> set (findings db). f_review_run_id f \<noteq> rid"
  shows "(case persist_and_reconcile_findings e rid parsed db of
            (db', Inl x) \<Rightarrow> \<not> distinct (map pf_fingerprint (pr_findings parsed)) \<and> db' = db \<and>
               x = IntegrityError ''uq_finding_run''
          | (db', Inr st) \<Rightarrow> distinct (map pf_fingerprint (pr_findings parsed)) \<and>
               n_new st + n_existing st = int (length (pr_findings parsed)) \<and>
               n_resolved st = int (length (filter (\<lambda>f. f_fingerprint f \<notin> set (map pf_fingerprint (pr_findings parsed)))
                                 (previous_active_findings r db))))"
proof -
  let ?prev = "previous_active_findings r db"
  let ?seen = "map pf_fingerprint (pr_findings parsed)"
  have rid: "r_id r = rid" using get_run_SomeD[OF assms(1)] by simp
  have cur: "current_run_findings r db = []" using assms(4) by (intro current_none) (simp add: rid)
  have "map finding_key (new_rows e r parsed db) = map (Pair rid) ?seen"
    by (simp add: new_rows_def cur finding_key_def rid comp_def)
  then have u: "unique_on finding_key (findings db @ new_rows e r parsed db) \<longleftrightarrow> distinct ?seen"
    using assms(3,4) by (auto simp: unique_on_def distinct_map inj_on_def finding_key_def)
  show ?thesis
  proof (cases "distinct ?seen")
    case True
    with u show ?thesis
      using collect_stats_fresh[of "now e" r "by_fingerprint ?prev" "pr_findings parsed" no_stats]
      by (simp add: persist_eq[OF assms(1,2)] new_stats_def cur no_stats_def)
  next
    case False
    with u show ?thesis by (simp add: persist_eq[OF assms(1,2)])
  qed
qed

theorem duplicate_fingerprint_aborts_reconciliation_witness:
  "persist_and_reconcile_findings (sample_env 9) ''r1'' (sample_report [''k'', ''k'']) sample_run_db =
     (sample_run_db, Inl (IntegrityError ''uq_finding_run''))"
proof -
  have "\<exists>r. get_run sample_run_db ''r1'' = Some r" "unique_on f_id (findings sample_run_db)"
    "unique_on finding_key (findings sample_run_db)" "\<forall>f \<in> set (findings sample_run_db). f_review_run_id f \<noteq> ''r1''"
    by (simp_all add: sample_run_db_def get_run_def new_run_def new_finding_def unique_on_def empty_db_def)
  moreover have "\<not> distinct (map pf_fingerprint (pr_findings (sample_report [''k'', ''k''])))"
    by (simp add: sample_report_def sample_publishable_def)
  ultimately show ?thesis
    using duplicate_fingerprint_aborts_reconciliation[of sample_run_db "''r1''" _ "sample_report [''k'', ''k'']" "sample_env 9"]
    by (fastforce split: prod.splits sum.splits)
qed

end
