(* ===== verification/Sessions.thy ===== *)
theory Sessions
  imports Archive Reconcile Lifecycle
begin

text \<open>
  The agent sessions of review runs: the client of \<open>integrations/pi_agent.py\<close> (what it sends, how it
  reads the runtime's replies) and the operations of \<open>application/services.py\<close> that start, observe and
  cancel a session and take over its result. HTTP and the validation of a reply against
  \<open>PiAgentSession\<close> are parameters; every observation is archived.
\<close>

section \<open>The client of the agent runtime\<close>

record preset =
  pt_agent_id :: string
  pt_task_type :: string
  pt_repository_skills :: "string list"

definition preset_fields :: "preset \<Rightarrow> bool" where
  "preset_fields p \<longleftrightarrow>
     pt_agent_id p \<noteq> [] \<and> length (pt_agent_id p) \<le> 128 \<and> pt_task_type p \<noteq> [] \<and> length (pt_task_type p) \<le> 128"

definition preset_json :: "preset \<Rightarrow> json" where
  "preset_json p =
     JObj [(''schema_version'', JStr ''1''),
       (''composition'', JObj [(''agent'', JObj [(''id'', JStr (pt_agent_id p))]),
          (''repository'', JObj [(''skills'', jstrs (pt_repository_skills p))]),
          (''task_type'', JObj [(''id'', JStr (pt_task_type p))])])]"

record review_input =
  ri_provider :: string
  ri_repo_full_name :: string
  ri_pr_number :: int
  ri_base_sha :: string
  ri_head_sha :: string
  ri_workspace_path :: string

definition review_input_fields :: "review_input \<Rightarrow> bool" where
  "review_input_fields i \<longleftrightarrow>
     ri_provider i \<noteq> [] \<and> length (ri_provider i) \<le> 64 \<and> ri_repo_full_name i \<noteq> [] \<and> length (ri_repo_full_name i) \<le> 512 \<and>
     0 < ri_pr_number i \<and> 7 \<le> length (ri_base_sha i) \<and> length (ri_base_sha i) \<le> 80 \<and>
     7 \<le> length (ri_head_sha i) \<and> length (ri_head_sha i) \<le> 80 \<and> ri_workspace_path i \<noteq> []"

definition review_input_json :: "review_input \<Rightarrow> json" where
  "review_input_json i =
     JObj [(''provider'', JStr (ri_provider i)), (''repo_full_name'', JStr (ri_repo_full_name i)),
       (''pr_number'', JInt (ri_pr_number i)), (''base_sha'', JStr (ri_base_sha i)), (''head_sha'', JStr (ri_head_sha i)),
       (''workspace_path'', JStr (ri_workspace_path i)), (''review_mode'', JStr ''pull_request_review'')]"

datatype http_body = NoBody | Json json | NotJson

datatype http_reply = Replied int string http_body | NotReached string

record pi_client =
  pi_http :: "string \<Rightarrow> string \<Rightarrow> json option \<Rightarrow> http_reply"
  pi_validate :: "json \<Rightarrow> err + agent_session"

definition client_request :: "string \<Rightarrow> string \<Rightarrow> http_reply \<Rightarrow> err + json" where
  "client_request method path reply =
     (let what = method @ '' '' @ path in
      case reply of
        NotReached m \<Rightarrow> Inl (PiAgentError (''pi-agent runtime request failed ('' @ what @ ''): '' @ m) None)
      | Replied status text body \<Rightarrow>
          (if status < 200 \<or> 300 \<le> status
           then Inl (PiAgentError (''pi-agent runtime request failed ('' @ show_int status @ '' '' @ what @ ''): '' @ take 500 text)
                  (Some status))
           else (case body of
                   NoBody \<Rightarrow> Inr (JObj [])
                 | Json j \<Rightarrow> (if status = 204 then Inr (JObj []) else Inr j)
                 | NotJson \<Rightarrow> (if status = 204 then Inr (JObj [])
                     else Inl (PiAgentError (''pi-agent runtime returned invalid JSON ('' @ what @ '').'') (Some status))))))"

definition infrastructure_failure :: "int option \<Rightarrow> bool" where
  "infrastructure_failure status = (case status of None \<Rightarrow> True | Some s \<Rightarrow> 500 \<le> s)"

definition client_call :: "pi_client \<Rightarrow> string \<Rightarrow> string \<Rightarrow> json option \<Rightarrow> err + agent_session" where
  "client_call c method path body =
     (case client_request method path (pi_http c method path body) of
        Inl x \<Rightarrow> Inl x
      | Inr j \<Rightarrow> pi_validate c j)"

definition agent_start_payload :: "preset \<Rightarrow> string \<Rightarrow> json \<Rightarrow> string option \<Rightarrow> string option \<Rightarrow> json" where
  "agent_start_payload p workspace input key title =
     JObj ([(''agent_id'', JStr (pt_agent_id p)), (''task_type'', JStr (pt_task_type p)),
            (''repository_skills'', jstrs (pt_repository_skills p)), (''workspace_path'', JStr workspace), (''input'', input)] @
           (if has_text key then [(''idempotency_key'', jopt key)] else []) @
           (if has_text title then [(''title'', jopt title)] else []))"

definition start_agent_session ::
  "pi_client \<Rightarrow> preset \<Rightarrow> string \<Rightarrow> json \<Rightarrow> string option \<Rightarrow> string option \<Rightarrow> err + agent_session" where
  "start_agent_session c p workspace input key title =
     client_call c ''POST'' ''/v1/sessions'' (Some (agent_start_payload p workspace input key title))"

definition start_session :: "pi_client \<Rightarrow> review_input \<Rightarrow> preset \<Rightarrow> err + agent_session" where
  "start_session c i p =
     start_agent_session c p (ri_workspace_path i) (review_input_json i) None
       (Some (''Review PR #'' @ show_int (ri_pr_number i) @ '': '' @ ri_repo_full_name i))"

definition get_session :: "pi_client \<Rightarrow> string \<Rightarrow> err + agent_session" where
  "get_session c sid = client_call c ''GET'' (''/v1/sessions/'' @ sid) None"

definition cancel_session :: "pi_client \<Rightarrow> string \<Rightarrow> err + agent_session" where
  "cancel_session c sid = client_call c ''DELETE'' (''/v1/sessions/'' @ sid) None"

section \<open>Sessions of a run\<close>

record session_settings =
  pi_agent_review_skill :: string
  pi_agent_review_agent :: string

definition session_for_run :: "db \<Rightarrow> string \<Rightarrow> review_session option" where
  "session_for_run db rid = first_row (\<lambda>s. rs_review_run_id s = rid) (sessions db)"

definition upd_session :: "string \<Rightarrow> (review_session \<Rightarrow> review_session) \<Rightarrow> db \<Rightarrow> db" where
  "upd_session rid f db = db\<lparr>sessions := upd_where (\<lambda>s. rs_review_run_id s = rid) f (sessions db)\<rparr>"

definition copy_pi_agent_state :: "agent_session \<Rightarrow> review_run \<Rightarrow> review_run" where
  "copy_pi_agent_state s r =
     r\<lparr>r_agent_session_id := Some (ag_id s), r_agent_status := Some (ag_status s), r_agent_provider := ag_provider s,
       r_agent_model := ag_model s, r_agent_thinking_level := ag_thinking_level s\<rparr>"

definition runtime_profile :: "agent_session \<Rightarrow> string option" where
  "runtime_profile s =
     (case jget (or_else (ag_resolved_preset s) []) ''composition'' of
        JObj composition \<Rightarrow>
          (case jget composition ''task_type'' of
             JObj task_type \<Rightarrow> (case jget task_type ''profile'' of JStr p \<Rightarrow> Some p | _ \<Rightarrow> ag_profile s)
           | _ \<Rightarrow> ag_profile s)
      | _ \<Rightarrow> ag_profile s)"

definition failed_task :: "time \<Rightarrow> task \<Rightarrow> task" where
  "failed_task t0 t = t\<lparr>t_status := ''failed'', t_completed_at := Some t0\<rparr>"

definition mark_failed :: "env \<Rightarrow> string \<Rightarrow> string \<Rightarrow> string \<Rightarrow> db \<Rightarrow> db" where
  "mark_failed e rid msg failure_code db =
     upd_session rid (\<lambda>s. s\<lparr>rs_status := ''failed'', rs_error_message := Some msg\<rparr>)
       (upd_run rid (\<lambda>r. r\<lparr>r_failure_code := Some failure_code, r_error := Some msg\<rparr>)
          (upd_task rid (failed_task (now e)) db))"

definition pi_failure_code :: "int option \<Rightarrow> string" where
  "pi_failure_code status = (if infrastructure_failure status then ''pi_agent_infrastructure_error'' else ''pi_agent_error'')"

definition may_start :: "db \<Rightarrow> string \<Rightarrow> string option \<Rightarrow> err + string \<times> string" where
  "may_start db rid workspace =
     (let t = the_task db rid; r = the_run db rid; path = (if has_text workspace then workspace else r_workspace_path r)
      in if t_status t \<in> {''cancelled'', ''superseded'', ''completed''}
         then Inl (TransitionError (''Review run '' @ rid @ '' cannot be started from '' @ t_status t @ ''.'') 409)
         else if (case find_slot db rid of None \<Rightarrow> True
                  | Some s \<Rightarrow> s_status s \<noteq> ''ready'' \<or> \<not> has_text (s_provider_comment_id s))
         then Inl (TransitionError ''Review placeholder must be delivered before Agent execution.'' 409)
         else if \<not> has_text path then Inl (TransitionError ''workspace_path is required to start review.'' 409)
         else if \<not> has_text (r_base_sha r) then Inl (TransitionError ''base_sha is required to start review.'' 409)
         else Inr (the path, the (r_base_sha r)))"

definition started_run :: "string \<Rightarrow> agent_session \<Rightarrow> review_run \<Rightarrow> review_run" where
  "started_run path s r =
     (let r1 = copy_pi_agent_state s (r\<lparr>r_workspace_path := Some path\<rparr>)
      in r1\<lparr>r_result_raw_json := (case ag_result s of None \<Rightarrow> r_result_raw_json r1 | Some d \<Rightarrow> Some (JObj d)),
            r_failure_code := None, r_error := None\<rparr>)"

definition started_task :: "time \<Rightarrow> agent_session \<Rightarrow> task \<Rightarrow> task" where
  "started_task t0 s t =
     t\<lparr>t_status := ''running'', t_started_at := Some t0, t_completed_at := None,
       t_resolved_preset_json := (case ag_resolved_preset s of None \<Rightarrow> t_resolved_preset_json t | Some d \<Rightarrow> Some (JObj d))\<rparr>"

definition open_session :: "env \<Rightarrow> string \<Rightarrow> db \<Rightarrow> db" where
  "open_session e rid db =
     (case session_for_run db rid of
        Some _ \<Rightarrow> db
      | None \<Rightarrow> draw (db\<lparr>sessions := sessions db @ [new_session (next_id e db) (now e) rid]\<rparr>))"

definition start_review_session ::
  "env \<Rightarrow> session_settings \<Rightarrow> pi_client \<Rightarrow> (string \<Rightarrow> string option \<times> bool) \<Rightarrow> string \<Rightarrow> string option \<Rightarrow> db \<Rightarrow> db \<times> (err + unit)" where
  "start_review_session e st c diff rid workspace db =
     (case may_start db rid workspace of
        Inl x \<Rightarrow> (db, Inl x)
      | Inr (path, base) \<Rightarrow>
          (let r = the_run db rid;
               input = \<lparr>ri_provider = r_provider r, ri_repo_full_name = r_repo_full_name r, ri_pr_number = r_pull_request_number r,
                        ri_base_sha = base, ri_head_sha = r_head_sha r, ri_workspace_path = path\<rparr>
           in if \<not> review_input_fields input then (db, Inl (ValueError ''invalid ReviewSkillInput''))
              else (case get_or_create_review_config e (r_provider r) (r_repo_full_name r) (pi_agent_review_skill st) ''pr-assistant'' db of
                (db1, cid) \<Rightarrow>
                  (let skill = (case first_row (\<lambda>x. rc_id x = cid) (configs db1) of
                                  Some x \<Rightarrow> rc_default_review_skill x | None \<Rightarrow> []);
                       p = \<lparr>pt_agent_id = pi_agent_review_agent st, pt_task_type = ''code-review'', pt_repository_skills = [skill]\<rparr>
                   in if \<not> preset_fields p then (db1, Inl (ValueError ''invalid AgentDomainPreset''))
                      else (let db2 = upd_task rid (\<lambda>t. t\<lparr>t_resolved_preset_json := Some (preset_json p)\<rparr>) db1
                            in case start_session c input p of
                              Inl (PiAgentError m status) \<Rightarrow>
                                (upd_run rid (\<lambda>r. r\<lparr>r_failure_code := Some (pi_failure_code status), r_error := Some m\<rparr>)
                                   (upd_task rid (failed_task (now e)) db2), Inr ())
                            | Inl x \<Rightarrow> (db2, Inl x)
                            | Inr s \<Rightarrow>
                                (let db3 = upd_run rid (started_run path s) (upd_task rid (started_task (now e) s) db2);
                                     db4 = upd_session rid (\<lambda>x. x\<lparr>rs_agent_session_id := Some (ag_id s), rs_status := ag_status s,
                                             rs_skill_name := Some skill, rs_profile_name := runtime_profile s,
                                             rs_input_snapshot_json := Some (review_input_json input)\<rparr>) (open_session e rid db3)
                                 in archive_agent_session e diff rid s db4))))))"

definition observed_run :: "agent_session \<Rightarrow> review_run \<Rightarrow> review_run" where
  "observed_run s r =
     (let r1 = copy_pi_agent_state s r
      in case ag_result s of None \<Rightarrow> r1 | Some d \<Rightarrow> r1\<lparr>r_result_raw_json := Some (JObj d)\<rparr>)"

definition observed_session :: "agent_session \<Rightarrow> review_session \<Rightarrow> review_session" where
  "observed_session s x =
     (let x1 = x\<lparr>rs_status := ag_status s, rs_error_message := ag_error s\<rparr>
      in if ag_result s = None then x1 else x1\<lparr>rs_result_ref := Some (''pi-agent:'' @ ag_id s @ '':result'')\<rparr>)"

definition observed_task :: "time \<Rightarrow> agent_session \<Rightarrow> task \<Rightarrow> task" where
  "observed_task t0 s t =
     (if ag_status s = ''cancelled''
      then t\<lparr>t_status := ''cancelled'', t_stage := Some ''cancelled'', t_completed_at := Some t0\<rparr>
      else if ag_status s = ''completed'' then t\<lparr>t_status := ''running'', t_stage := Some ''agent_completed''\<rparr>
      else t\<lparr>t_status := ''running'', t_stage := Some (ag_stage s)\<rparr>)"

definition sync_review_session ::
  "env \<Rightarrow> pi_client \<Rightarrow> (string \<Rightarrow> string option \<times> bool) \<Rightarrow> string \<Rightarrow> db \<Rightarrow> db \<times> (err + unit)" where
  "sync_review_session e c diff rid db =
     (if t_status (the_task db rid) \<in> set terminal_statuses then (db, Inr ())
      else if \<not> has_text (r_agent_session_id (the_run db rid))
      then (mark_failed e rid ''pi-agent session id is missing.'' ''pi_agent_error'' db, Inr ())
      else (case get_session c (the (r_agent_session_id (the_run db rid))) of
              Inl (PiAgentError m status) \<Rightarrow> (mark_failed e rid m (pi_failure_code status) db, Inr ())
            | Inl x \<Rightarrow> (db, Inl x)
            | Inr s \<Rightarrow>
                (let db1 = upd_session rid (observed_session s) (upd_run rid (observed_run s) db)
                 in if ag_status s = ''failed''
                    then archive_agent_session e diff rid s
                           (mark_failed e rid (str_or (ag_error s) ''pi-agent review failed.'') ''pi_agent_error'' db1)
                    else archive_agent_session e diff rid s (upd_task rid (observed_task (now e) s) db1))))"

definition cancel_review_session ::
  "env \<Rightarrow> pi_client \<Rightarrow> (string \<Rightarrow> string option \<times> bool) \<Rightarrow> string \<Rightarrow> string \<Rightarrow> db \<Rightarrow> db \<times> (err + unit)" where
  "cancel_review_session e c diff rid reason db =
     (let settle = (\<lambda>db1. let msg = r_error (the_run db1 rid) in
            (upd_session rid (\<lambda>s. s\<lparr>rs_status := ''cancelled'', rs_error_message := msg\<rparr>)
               (upd_task rid (\<lambda>t. t\<lparr>t_status := ''cancelled'', t_stage := Some ''cancelled'', t_completed_at := Some (now e)\<rparr>) db1),
             Inr ()))
      in if t_status (the_task db rid) \<in> {''completed'', ''cancelled'', ''superseded''} then (db, Inr ())
         else if has_text (r_agent_session_id (the_run db rid))
         then (case cancel_session c (the (r_agent_session_id (the_run db rid))) of
                 Inl (PiAgentError m status) \<Rightarrow>
                   settle (upd_run rid (\<lambda>r. r\<lparr>r_error := Some (''Cancel requested; pi-agent cleanup failed: '' @ m)\<rparr>) db)
               | Inl x \<Rightarrow> (db, Inl x)
               | Inr s \<Rightarrow>
                   and_then (archive_agent_session e diff rid s
                       (upd_run rid (\<lambda>r. (copy_pi_agent_state s r)\<lparr>r_error := Some reason\<rparr>) db)) (\<lambda>_. settle))
         else settle (upd_run rid (\<lambda>r. r\<lparr>r_error := Some reason\<rparr>) db))"

definition collect_review_result ::
  "env \<Rightarrow> pydantic \<Rightarrow> string \<Rightarrow> raw_output \<Rightarrow> changed_file list \<Rightarrow> db \<Rightarrow> db \<times> (err + parsed_result)" where
  "collect_review_result e py rid raw files db =
     (let r = the_run db rid in
      if \<not> has_text (r_base_sha r)
      then (db, Inl (TransitionError ''base_sha is required to collect review result.'' 409))
      else (case parse_review_result e py raw files (r_provider r) (r_repo_full_name r) (r_pull_request_number r)
                   (the (r_base_sha r)) (r_head_sha r) of
              Inl (ResultError cause m) \<Rightarrow>
                and_then (enqueue_review_comment_status e rid ''failed''
                    (upd_run rid (\<lambda>r. r\<lparr>r_failure_code := Some ''invalid_result'', r_error := Some (cause @ '': '' @ m)\<rparr>)
                       (upd_task rid (\<lambda>t. t\<lparr>t_status := ''failed''\<rparr>) db)))
                  (\<lambda>_ db1. (db1, Inl (ResultError cause m)))
            | Inl x \<Rightarrow> (db, Inl x)
            | Inr parsed \<Rightarrow>
                and_then (persist_and_reconcile_findings e rid parsed db)
                  (\<lambda>_ db1.
                     and_then (enqueue_review_comment_status e rid ''completed''
                         (upd_session rid (\<lambda>s. s\<lparr>rs_status := ''completed'',
                              rs_result_ref := Some (''review-run:'' @ rid @ '':result''), rs_error_message := None\<rparr>)
                           (upd_run rid (\<lambda>r. r\<lparr>r_review_summary := Some (rr_summary (pr_result parsed)), r_failure_code := None,
                                r_error := None\<rparr>)
                             (upd_task rid (\<lambda>t. t\<lparr>t_status := ''completed'', t_stage := Some ''completed'',
                                t_completed_at := Some (now e)\<rparr>) db1))))
                       (\<lambda>_ db2. (db2, Inr parsed)))))"

end
