(* ===== verification/Workspaces.thy ===== *)
theory Workspaces
  imports Providers
begin

text \<open>
  \<open>infrastructure/workspaces.py\<close>: git working copies for the heads of pull requests. Preparing one
  resolves where to clone from, records the workspace, runs git and records how it ended; leases
  keep a workspace from being cleaned up. Git, the file system and the process environment are
  the parameter \<open>host\<close> with its own state; the provider's checkout method is a parameter too.
\<close>

section \<open>Requests, answers and failures\<close>

record prepare_request =
  pq_provider :: string
  pq_full_name :: string
  pq_clone_url :: "string option"
  pq_number :: int
  pq_base_sha :: string
  pq_head_sha :: string
  pq_is_fork :: bool
  pq_token_ref :: "string option"
  pq_use_git_cache :: bool
  pq_force_refresh :: bool

record prepare_response =
  pr_workspace_id :: string
  pr_workspace_path :: string
  pr_base_sha :: string
  pr_head_sha :: string
  pr_status :: string
  pr_from_cache :: bool
  pr_failure_code :: "string option"
  pr_failure_message :: "string option"

record workspace_checkout =
  co_clone_url :: string
  co_auth_token :: "string option"
  co_auth_username :: string

definition prepare_request_fields :: "prepare_request \<Rightarrow> bool" where
  "prepare_request_fields q \<longleftrightarrow>
     1 \<le> length (pq_provider q) \<and> length (pq_provider q) \<le> 64 \<and>
     1 \<le> length (pq_full_name q) \<and> length (pq_full_name q) \<le> 512 \<and>
     opt_all (\<lambda>u. 1 \<le> length u \<and> length u \<le> 2048) (pq_clone_url q) \<and> 0 < pq_number q \<and>
     7 \<le> length (pq_base_sha q) \<and> length (pq_base_sha q) \<le> 80 \<and>
     7 \<le> length (pq_head_sha q) \<and> length (pq_head_sha q) \<le> 80 \<and>
     opt_all (\<lambda>t. length t \<le> 255) (pq_token_ref q)"

text \<open>A \<open>GitCommandError\<close>, or any other exception raised while git is prepared.\<close>

datatype git_failure = GitCommandError string string | Crash err

datatype git_outcome = Exit int string | TimedOut | Raised err

text \<open>
  \<open>run_git\<close> receives the environment and the command line and gives the exit code and the error
  output; removing a tree ignores errors, the other operations may raise.
\<close>

record 'h host =
  environ :: "(string \<times> string) list"
  run_command :: "(string \<times> string) list \<Rightarrow> string list \<Rightarrow> 'h \<Rightarrow> 'h \<times> git_outcome"
  path_exists :: "string \<Rightarrow> 'h \<Rightarrow> bool"
  make_dirs :: "string \<Rightarrow> 'h \<Rightarrow> 'h \<times> err option"
  remove_tree :: "string \<Rightarrow> 'h \<Rightarrow> 'h"
  make_private :: "string \<Rightarrow> 'h \<Rightarrow> 'h \<times> err option"

text \<open>Sequencing on the host, ended by the first failure\<close>

definition git_then :: "'h \<times> (git_failure + 'a) \<Rightarrow> ('a \<Rightarrow> 'h \<Rightarrow> 'h \<times> (git_failure + 'b)) \<Rightarrow> 'h \<times> (git_failure + 'b)" where
  "git_then r f = (case r of (h, Inl x) \<Rightarrow> (h, Inl x) | (h, Inr v) \<Rightarrow> f v h)"

definition os_step :: "'h \<times> err option \<Rightarrow> 'h \<times> (git_failure + unit)" where
  "os_step r = (case r of (h, Some x) \<Rightarrow> (h, Inl (Crash x)) | (h, None) \<Rightarrow> (h, Inr ()))"

section \<open>Identities and paths\<close>

definition repo_hash :: "env \<Rightarrow> string \<Rightarrow> string" where
  "repo_hash e repository = take 16 (sha256 e (str_lower (str_strip repository)))"

definition workspace_identity :: "env \<Rightarrow> string \<Rightarrow> string \<Rightarrow> int \<Rightarrow> string \<Rightarrow> string" where
  "workspace_identity e provider repository number head_sha =
     provider @ '':'' @ repo_hash e repository @ '':pr:'' @ show_int number @ '':head:'' @ head_sha"

text \<open>
  \<open>pathlib\<close> on a POSIX system: empty and dot components vanish, an absolute component starts the
  path anew, dot-dot stays.
\<close>

type_synonym path = "string \<times> string list"

definition path_root :: "string \<Rightarrow> string" where
  "path_root s =
     (if starts_with s ''//'' \<and> \<not> starts_with s ''///'' then ''//'' else if starts_with s ''/'' then ''/'' else [])"

definition path_of :: "string \<Rightarrow> path" where
  "path_of s = (path_root s, filter (\<lambda>p. p \<noteq> [] \<and> p \<noteq> ''.'') (split_on (CHR ''/'') s))"

definition path_join :: "path \<Rightarrow> string \<Rightarrow> path" where
  "path_join p s = (if path_root s \<noteq> [] then path_of s else (fst p, snd p @ snd (path_of s)))"

definition path_str :: "path \<Rightarrow> string" where
  "path_str p = (if fst p = [] \<and> snd p = [] then ''.'' else fst p @ join ''/'' (snd p))"

definition path_parent :: "path \<Rightarrow> path" where
  "path_parent p = (fst p, butlast (snd p))"

record workspace_paths =
  wp_repo_hash :: string
  wp_repo_path :: path
  wp_cache_path :: path

definition workspace_paths_for :: "env \<Rightarrow> string \<Rightarrow> string \<Rightarrow> string \<Rightarrow> prepare_request \<Rightarrow> workspace_paths" where
  "workspace_paths_for e workspace_root git_cache_root repository q =
     (let hashed = repo_hash e repository
      in \<lparr>wp_repo_hash = hashed,
          wp_repo_path = foldl path_join (path_of workspace_root)
            [pq_provider q, hashed, ''pr-'' @ show_int (pq_number q), pq_head_sha q, ''repo''],
          wp_cache_path = foldl path_join (path_of git_cache_root) [pq_provider q, hashed @ ''.git'']\<rparr>)"

section \<open>Credentials\<close>

text \<open>
  What \<open>urlsplit\<close> reads of a URL: scheme, host name and port; \<open>Inl\<close> is its \<open>ValueError\<close>. The
  inside of a bracketed host is taken as it is.
\<close>

definition letters :: string where
  "letters = ''abcdefghijklmnopqrstuvwxyzABCDEFGHIJKLMNOPQRSTUVWXYZ''"

definition scheme_char :: "char \<Rightarrow> bool" where
  "scheme_char c \<longleftrightarrow> c \<in> set letters \<or> c \<in> set ''0123456789+-.''"

definition clean_url :: "string \<Rightarrow> string" where
  "clean_url u = filter (\<lambda>c. code c \<notin> {9, 10, 13}) (dropWhile (\<lambda>c. code c \<le> 32) u)"

definition split_scheme :: "string \<Rightarrow> string \<times> string" where
  "split_scheme u =
     (case partition_at '':'' u of (s, found, rest) \<Rightarrow>
        if found \<and> s \<noteq> [] \<and> hd s \<in> set letters \<and> list_all scheme_char s
        then (str_lower s, rest) else ([], u))"

definition url_netloc :: "string \<Rightarrow> string" where
  "url_netloc u =
     (let rest = snd (split_scheme (clean_url u))
      in if starts_with rest ''//'' then takeWhile (\<lambda>c. c \<notin> set ''/?#'') (drop 2 rest) else [])"

definition host_info :: "string \<Rightarrow> string \<times> string" where
  "host_info netloc =
     (let hostinfo = snd (snd (rpartition_at (CHR ''@'') netloc))
      in case partition_at ''['' hostinfo of
           (_, True, bracketed) \<Rightarrow>
             (case partition_at '']'' bracketed of (h, _, p) \<Rightarrow> (h, snd (snd (partition_at '':'' p))))
         | (_, False, _) \<Rightarrow> (case partition_at '':'' hostinfo of (h, _, p) \<Rightarrow> (h, p)))"

definition host_name :: "string \<Rightarrow> string" where
  "host_name h = (case partition_at ''%'' h of (a, found, zone) \<Rightarrow> str_lower a @ (if found then ''%'' @ zone else []))"

definition authenticated_https_base :: "string \<Rightarrow> err + string option" where
  "authenticated_https_base u =
     (let netloc = url_netloc u in
      if (CHR ''['' \<in> set netloc) \<noteq> (CHR '']'' \<in> set netloc) then Inl (ValueError ''Invalid IPv6 URL'')
      else (case host_info netloc of (h, p) \<Rightarrow>
        if fst (split_scheme (clean_url u)) \<notin> {''http'', ''https''} \<or> h = [] then Inr None
        else if p \<noteq> [] \<and> \<not> list_all is_digit p
        then Inl (ValueError (''Port could not be cast to integer value as '' @ repr_str p))
        else if 65535 < int (read_digits p) then Inl (ValueError ''Port out of range 0-65535'')
        else Inr (Some (host_name h @ (if read_digits p \<noteq> 0 then '':'' @ show_nat (read_digits p) else []) @ ''/''))))"

definition auth_env :: "(string \<times> string) list \<Rightarrow> string \<Rightarrow> string \<Rightarrow> string \<Rightarrow> (string \<times> string) list" where
  "auth_env vars username token base =
     dict_put ''REVIEW_GIT_TOKEN_MASK'' token
       (dict_put ''GIT_CONFIG_VALUE_0'' (''https://'' @ base)
         (dict_put ''GIT_CONFIG_KEY_0'' (''url.https://'' @ username @ '':'' @ token @ ''@'' @ base @ ''.insteadOf'')
           (dict_put ''GIT_CONFIG_COUNT'' ''1'' vars)))"

definition git_env ::
  "(string \<times> string) list \<Rightarrow> prepare_request \<Rightarrow> string option \<Rightarrow> string \<Rightarrow> git_failure + (string \<times> string) list" where
  "git_env vars q auth_token auth_username =
     (let token = (if has_text auth_token then auth_token
                   else if has_text (pq_token_ref q) then map_of vars (the (pq_token_ref q)) else None)
      in if \<not> has_text token
         then (if has_text (pq_token_ref q)
               then Inl (GitCommandError ''auth_failed'' (''Token reference is not available: '' @ the (pq_token_ref q)))
               else Inr vars)
         else (case pq_clone_url q of
                 None \<Rightarrow> Inr vars
               | Some u \<Rightarrow>
                   (case authenticated_https_base u of
                      Inl x \<Rightarrow> Inl (Crash x)
                    | Inr None \<Rightarrow> Inr vars
                    | Inr (Some base) \<Rightarrow> Inr (auth_env vars auth_username (the token) base))))"

definition mask_secret :: "string \<Rightarrow> (string \<times> string) list \<Rightarrow> string" where
  "mask_secret v vars =
     (case map_of vars ''REVIEW_GIT_TOKEN_MASK'' of
        Some token \<Rightarrow> (if token \<noteq> [] then replace_all token ''***'' v else v)
      | None \<Rightarrow> v)"

definition safe_clone_url :: "string \<Rightarrow> string" where
  "safe_clone_url u =
     (if CHR ''@'' \<notin> set u then u
      else (case partition_at ''://'' u of
              (scheme, False, _) \<Rightarrow> u
            | (scheme, True, host_path) \<Rightarrow>
                (case rpartition_at (CHR ''@'') host_path of
                   (_, False, _) \<Rightarrow> u
                 | (_, True, safe) \<Rightarrow> scheme @ ''://'' @ safe)))"

section \<open>Running git\<close>

definition classify_git_error :: "string \<Rightarrow> string" where
  "classify_git_error stderr =
     (let s = str_lower stderr in
      if contains s ''authentication failed'' \<or> contains s ''could not read username'' then ''auth_failed''
      else if contains s ''repository not found'' \<or> contains s ''not appear to be a git repository'' then ''repo_not_found''
      else if contains s (''couldn'' @ [CHR 0x27] @ ''t find remote ref'') \<or> contains s ''not our ref'' then ''head_missing''
      else if contains s ''unable to access'' \<or> contains s ''could not resolve host'' then ''network_error''
      else if contains s ''not a valid object name'' \<or> contains s ''pathspec'' then ''head_missing''
      else ''git_error'')"

definition run_git :: "'h host \<Rightarrow> (string \<times> string) list \<Rightarrow> string list \<Rightarrow> 'h \<Rightarrow> 'h \<times> (git_failure + unit)" where
  "run_git m vars command h =
     (case run_command m vars command h of
        (h1, TimedOut) \<Rightarrow> (h1, Inl (GitCommandError ''network_error'' ''git command timed out''))
      | (h1, Raised x) \<Rightarrow> (h1, Inl (Crash x))
      | (h1, Exit rc err) \<Rightarrow>
          (if rc = 0 then (h1, Inr ())
           else (let stderr = mask_secret (str_strip err) vars
                 in (h1, Inl (GitCommandError (classify_git_error stderr)
                      (if stderr = [] then ''git command failed'' else stderr))))))"

definition ensure_cache :: "'h host \<Rightarrow> path \<Rightarrow> string \<Rightarrow> (string \<times> string) list \<Rightarrow> 'h \<Rightarrow> 'h \<times> (git_failure + unit)" where
  "ensure_cache m cache url vars h =
     git_then (os_step (make_dirs m (path_str (path_parent cache)) h))
       (\<lambda>_ h1. if path_exists m (path_str cache) h1
          then run_git m vars [''git'', ''-C'', path_str cache, ''remote'', ''update'', ''--prune''] h1
          else run_git m vars [''git'', ''clone'', ''--mirror'', url, path_str cache] h1)"

definition ensure_commit ::
  "'h host \<Rightarrow> path \<Rightarrow> string \<Rightarrow> (string \<times> string) list \<Rightarrow> bool \<Rightarrow> 'h \<Rightarrow> 'h \<times> (git_failure + unit)" where
  "ensure_commit m repo sha vars is_base h =
     (let check = [''git'', ''-C'', path_str repo, ''cat-file'', ''-e'', sha @ ''^{commit}'']
      in case run_git m vars check h of
           (h1, Inl (GitCommandError _ message)) \<Rightarrow>
             (case git_then (run_git m vars [''git'', ''-C'', path_str repo, ''fetch'', ''origin'', sha] h1)
                     (\<lambda>_ h2. run_git m vars check h2) of
                (h3, Inl (GitCommandError _ message2)) \<Rightarrow>
                  (h3, Inl (GitCommandError (if is_base then ''base_missing'' else ''head_missing'')
                         (if message2 = [] then message else message2)))
              | r \<Rightarrow> r)
         | r \<Rightarrow> r)"

definition prepare_git_workspace ::
  "'h host \<Rightarrow> workspace_paths \<Rightarrow> prepare_request \<Rightarrow> string \<Rightarrow> string option \<Rightarrow> string \<Rightarrow> 'h \<Rightarrow> 'h \<times> (git_failure + unit)" where
  "prepare_git_workspace m paths q clone_url auth_token auth_username h =
     (let repo = path_str (wp_repo_path paths) in
      git_then (os_step (make_dirs m (path_str (path_parent (wp_repo_path paths))) h))
        (\<lambda>_ h0. let h1 = (if pq_force_refresh q then remove_tree m repo h0 else h0) in
           case git_env (environ m) q auth_token auth_username of
             Inl x \<Rightarrow> (h1, Inl x)
           | Inr vars \<Rightarrow>
               git_then (if pq_use_git_cache q then ensure_cache m (wp_cache_path paths) clone_url vars h1 else (h1, Inr ()))
                 (\<lambda>_ h2. git_then (if path_exists m repo h2
                      then run_git m vars [''git'', ''-C'', repo, ''fetch'', ''--all''] h2
                      else run_git m vars [''git'', ''clone'',
                             (if pq_use_git_cache q then path_str (wp_cache_path paths) else clone_url), repo] h2)
                   (\<lambda>_ h3. git_then (ensure_commit m (wp_repo_path paths) (pq_base_sha q) vars True h3)
                     (\<lambda>_ h4. git_then (ensure_commit m (wp_repo_path paths) (pq_head_sha q) vars False h4)
                       (\<lambda>_ h5. git_then (run_git m vars [''git'', ''-C'', repo, ''checkout'', ''--detach'', pq_head_sha q] h5)
                         (\<lambda>_ h6. if path_exists m repo h6 then os_step (make_private m repo h6) else (h6, Inr ()))))))))"


section \<open>Workspaces and their leases\<close>

definition get_workspace :: "db \<Rightarrow> string \<Rightarrow> workspace option" where
  "get_workspace db wid = first_row (\<lambda>w. w_workspace_id w = wid) (workspaces db)"

definition upd_workspace :: "string \<Rightarrow> (workspace \<Rightarrow> workspace) \<Rightarrow> db \<Rightarrow> db" where
  "upd_workspace wid f db = db\<lparr>workspaces := upd_where (\<lambda>w. w_workspace_id w = wid) f (workspaces db)\<rparr>"

definition prepare_response_of :: "workspace \<Rightarrow> bool \<Rightarrow> prepare_response" where
  "prepare_response_of w from_cache =
     \<lparr>pr_workspace_id = w_workspace_id w, pr_workspace_path = w_workspace_path w, pr_base_sha = w_base_sha w,
      pr_head_sha = w_head_sha w, pr_status = w_status w, pr_from_cache = from_cache,
      pr_failure_code = w_failure_code w, pr_failure_message = w_failure_message w\<rparr>"

definition is_provider_error :: "err \<Rightarrow> bool" where
  "is_provider_error x =
     (case x of ProviderError _ _ _ \<Rightarrow> True | CapabilityError _ _ _ \<Rightarrow> True | OperationError _ _ _ \<Rightarrow> True | _ \<Rightarrow> False)"

definition checkout_failed :: "prepare_request \<Rightarrow> err \<Rightarrow> prepare_response" where
  "checkout_failed q x =
     \<lparr>pr_workspace_id = [], pr_workspace_path = [], pr_base_sha = pq_base_sha q, pr_head_sha = pq_head_sha q,
      pr_status = ''failed'', pr_from_cache = False,
      pr_failure_code = Some (case x of CapabilityError _ _ _ \<Rightarrow> ''git_error'' | _ \<Rightarrow> ''auth_failed''),
      pr_failure_message = Some (err_text x)\<rparr>"

text \<open>\<open>chk\<close> is \<open>get_workspace_checkout\<close> of the adapter with the given key.\<close>

definition resolve_workspace_checkout ::
  "(string \<Rightarrow> string \<Rightarrow> string option \<Rightarrow> err + workspace_checkout) \<Rightarrow> prepare_request \<Rightarrow> registry option \<Rightarrow> err + workspace_checkout" where
  "resolve_workspace_checkout chk q reg =
     (case reg of
        None \<Rightarrow>
          (case pq_clone_url q of
             None \<Rightarrow> Inl (CapabilityError (''Workspace provider is not configured: '' @ pq_provider q)
                       (Some (pq_provider q)) (Some ''get_workspace_checkout''))
           | Some u \<Rightarrow> Inr \<lparr>co_clone_url = u, co_auth_token = None, co_auth_username = ''oauth2''\<rparr>)
      | Some rg \<Rightarrow>
          (case require_capability rg (pq_provider q) ''workspace_checkout'' ''get_workspace_checkout'' of
             Inl x \<Rightarrow> Inl x
           | Inr a \<Rightarrow> chk (ad_key a) (pq_full_name q) (pq_clone_url q)))"

definition workspace_row :: "string \<Rightarrow> time \<Rightarrow> string \<Rightarrow> workspace_paths \<Rightarrow> string \<Rightarrow> prepare_request \<Rightarrow> workspace" where
  "workspace_row ident t wid paths clone_url q =
     \<lparr>w_id = ident, w_workspace_id = wid, w_provider = pq_provider q, w_repository = pq_full_name q,
      w_repository_clone_url = safe_clone_url clone_url, w_repo_hash = wp_repo_hash paths,
      w_pull_request_number = pq_number q, w_base_sha = pq_base_sha q, w_head_sha = pq_head_sha q,
      w_workspace_path = path_str (wp_repo_path paths),
      w_cache_path = (if pq_use_git_cache q then Some (path_str (wp_cache_path paths)) else None),
      w_status = ''preparing'', w_failure_code = None, w_failure_message = None, w_created_at = t,
      w_ready_at = None, w_last_used_at = None, w_expires_at = Some (t + seconds (24 * 3600)), w_updated_at = t\<rparr>"

definition announce_preparing :: "env \<Rightarrow> string \<Rightarrow> workspace_paths \<Rightarrow> string \<Rightarrow> prepare_request \<Rightarrow> db \<Rightarrow> db" where
  "announce_preparing e wid paths clone_url q db =
     (case get_workspace db wid of
        None \<Rightarrow> draw (db\<lparr>workspaces := workspaces db @ [workspace_row (next_id e db) (now e) wid paths clone_url q]\<rparr>)
      | Some _ \<Rightarrow>
          upd_workspace wid (\<lambda>w. w\<lparr>w_status := ''preparing'', w_failure_code := None, w_failure_message := None,
            w_base_sha := pq_base_sha q, w_repository_clone_url := safe_clone_url clone_url,
            w_cache_path := (if pq_use_git_cache q then Some (path_str (wp_cache_path paths)) else None)\<rparr>) db)"

definition git_failed :: "time \<Rightarrow> string \<Rightarrow> string \<Rightarrow> workspace \<Rightarrow> workspace" where
  "git_failed t cause message w =
     w\<lparr>w_status := ''failed'', w_failure_code := Some cause, w_failure_message := Some message,
       w_expires_at := Some (t + seconds (6 * 3600))\<rparr>"

definition git_ready :: "time \<Rightarrow> workspace \<Rightarrow> workspace" where
  "git_ready t w =
     w\<lparr>w_status := ''ready'', w_failure_code := None, w_failure_message := None, w_ready_at := Some t,
       w_last_used_at := Some t, w_expires_at := Some (t + seconds (24 * 3600))\<rparr>"

definition the_workspace :: "db \<Rightarrow> string \<Rightarrow> workspace" where
  "the_workspace db wid = the (get_workspace db wid)"

definition prepare_workspace ::
  "env \<Rightarrow> string \<Rightarrow> string \<Rightarrow> 'h host \<Rightarrow> (string \<Rightarrow> string \<Rightarrow> string option \<Rightarrow> err + workspace_checkout) \<Rightarrow>
   registry option \<Rightarrow> prepare_request \<Rightarrow> db \<times> 'h \<Rightarrow> (db \<times> 'h) \<times> (err + prepare_response)" where
  "prepare_workspace e workspace_root git_cache_root m chk reg q = (\<lambda>(db, h).
     (let wid = workspace_identity e (pq_provider q) (pq_full_name q) (pq_number q) (pq_head_sha q);
          existing = get_workspace db wid
      in if (case existing of Some w \<Rightarrow> w_status w = ''ready'' | None \<Rightarrow> False) \<and> \<not> pq_force_refresh q
         then (let db1 = upd_workspace wid (\<lambda>w. w\<lparr>w_last_used_at := Some (now e)\<rparr>) db
               in ((db1, h), Inr (prepare_response_of (the_workspace db1 wid) True)))
         else (case resolve_workspace_checkout chk q reg of
                 Inl x \<Rightarrow> ((db, h), if is_provider_error x then Inr (checkout_failed q x) else Inl x)
               | Inr c \<Rightarrow>
                   (let q1 = q\<lparr>pq_clone_url := Some (co_clone_url c)\<rparr>;
                        paths = workspace_paths_for e workspace_root git_cache_root (pq_full_name q) q1;
                        db1 = announce_preparing e wid paths (co_clone_url c) q1 db
                    in case prepare_git_workspace m paths q1 (co_clone_url c) (co_auth_token c) (co_auth_username c) h of
                         (h1, Inl (Crash x)) \<Rightarrow> ((db1, h1), Inl x)
                       | (h1, Inl (GitCommandError cause message)) \<Rightarrow>
                           (let db2 = upd_workspace wid (git_failed (now e) cause message) db1
                            in ((db2, h1), Inr (prepare_response_of (the_workspace db2 wid) False)))
                       | (h1, Inr _) \<Rightarrow>
                           (let db2 = upd_workspace wid (git_ready (now e)) db1
                            in ((db2, h1), Inr (prepare_response_of (the_workspace db2 wid) (pq_use_git_cache q))))))))"

definition lease_workspace :: "env \<Rightarrow> string \<Rightarrow> string option \<Rightarrow> string option \<Rightarrow> db \<Rightarrow> db \<times> (err + string)" where
  "lease_workspace e wid review_run_id session_id db =
     (case get_workspace db wid of
        None \<Rightarrow> (db, Inl (KeyError wid))
      | Some _ \<Rightarrow>
          (let ident = next_id e db;
               lease = (new_workspace_lease ident (now e) wid)\<lparr>wl_review_run_id := review_run_id, wl_session_id := session_id\<rparr>
           in (draw (upd_workspace wid (\<lambda>w. w\<lparr>w_status := ''leased'', w_last_used_at := Some (now e)\<rparr>) db
                     \<lparr>workspace_leases := workspace_leases db @ [lease]\<rparr>), Inr ident)))"

definition active_leases :: "db \<Rightarrow> string \<Rightarrow> workspace_lease list" where
  "active_leases db wid = filter (\<lambda>l. wl_workspace_id l = wid \<and> wl_released_at l = None) (workspace_leases db)"

text \<open>\<open>scalar_one_or_none() is not None\<close>\<close>

definition one_or_none :: "'a list \<Rightarrow> err + bool" where
  "one_or_none rows = (case rows of [] \<Rightarrow> Inr False | [_] \<Rightarrow> Inr True | _ \<Rightarrow> Inl MultipleResultsFound)"

definition has_active_lease :: "db \<Rightarrow> string \<Rightarrow> err + bool" where
  "has_active_lease db wid = one_or_none (active_leases db wid)"

definition has_other_active_lease :: "db \<Rightarrow> workspace_lease \<Rightarrow> err + bool" where
  "has_other_active_lease db l = one_or_none (filter (\<lambda>x. wl_id x \<noteq> wl_id l) (active_leases db (wl_workspace_id l)))"

definition release_workspace :: "env \<Rightarrow> string \<Rightarrow> db \<Rightarrow> db \<times> (err + workspace option)" where
  "release_workspace e lease_id db =
     (case first_row (\<lambda>l. wl_id l = lease_id) (workspace_leases db) of
        None \<Rightarrow> (db, Inr None)
      | Some l \<Rightarrow>
          (let db1 = db\<lparr>workspace_leases := upd_where (\<lambda>x. wl_id x = lease_id)
                 (\<lambda>x. if wl_released_at x = None then x\<lparr>wl_released_at := Some (now e)\<rparr> else x) (workspace_leases db)\<rparr>
           in case get_workspace db1 (wl_workspace_id l) of
                None \<Rightarrow> (db1, Inr None)
              | Some _ \<Rightarrow>
                  (case has_other_active_lease db1 l of
                     Inl x \<Rightarrow> (db1, Inl x)
                   | Inr True \<Rightarrow> (db1, Inr (get_workspace db1 (wl_workspace_id l)))
                   | Inr False \<Rightarrow>
                       (let db2 = upd_workspace (wl_workspace_id l)
                              (\<lambda>w. w\<lparr>w_status := ''idle'', w_last_used_at := Some (now e)\<rparr>) db1
                        in (db2, Inr (get_workspace db2 (wl_workspace_id l)))))))"

text \<open>Removing the tree ignores errors, so the handler of \<open>OSError\<close> is never reached.\<close>

definition cleanup_workspace :: "env \<Rightarrow> 'h host \<Rightarrow> string \<Rightarrow> bool \<Rightarrow> db \<times> 'h \<Rightarrow> (db \<times> 'h) \<times> (err + string)" where
  "cleanup_workspace e m wid force = (\<lambda>(db, h).
     (case get_workspace db wid of
        None \<Rightarrow> ((db, h), Inr ''deleted'')
      | Some w \<Rightarrow>
          (case (if force then Inr False else has_active_lease db wid) of
             Inl x \<Rightarrow> ((db, h), Inl x)
           | Inr True \<Rightarrow>
               ((upd_workspace wid (\<lambda>w. w\<lparr>w_failure_code := Some ''workspace_locked''\<rparr>) db, h), Inr ''workspace_locked'')
           | Inr False \<Rightarrow>
               ((upd_workspace wid (\<lambda>w. w\<lparr>w_status := ''deleted'', w_expires_at := Some (now e)\<rparr>)
                   (upd_workspace wid (\<lambda>w. w\<lparr>w_status := ''cleaning''\<rparr>) db),
                 remove_tree m (w_workspace_path w) h), Inr ''deleted''))))"

record cleanup_summary =
  cu_deleted :: int
  cu_skipped_locked :: int
  cu_failed :: int

definition count_cleanup :: "string \<Rightarrow> cleanup_summary \<Rightarrow> cleanup_summary" where
  "count_cleanup result s =
     (if result = ''deleted'' then s\<lparr>cu_deleted := cu_deleted s + 1\<rparr>
      else if result = ''workspace_locked'' then s\<lparr>cu_skipped_locked := cu_skipped_locked s + 1\<rparr>
      else s\<lparr>cu_failed := cu_failed s + 1\<rparr>)"

fun cleanup_from :: "env \<Rightarrow> 'h host \<Rightarrow> bool \<Rightarrow> string list \<Rightarrow> cleanup_summary \<Rightarrow> db \<times> 'h \<Rightarrow> (db \<times> 'h) \<times> (err + cleanup_summary)" where
  "cleanup_from e m force [] s st = (st, Inr s)"
| "cleanup_from e m force (wid # wids) s st =
     (case cleanup_workspace e m wid force st of
        (st1, Inl x) \<Rightarrow> (st1, Inl x)
      | (st1, Inr result) \<Rightarrow> cleanup_from e m force wids (count_cleanup result s) st1)"

definition cleanup_many :: "env \<Rightarrow> 'h host \<Rightarrow> string list \<Rightarrow> bool \<Rightarrow> db \<times> 'h \<Rightarrow> (db \<times> 'h) \<times> (err + cleanup_summary)" where
  "cleanup_many e m wids force st = cleanup_from e m force wids \<lparr>cu_deleted = 0, cu_skipped_locked = 0, cu_failed = 0\<rparr> st"

definition cleanup_pull_request_workspaces ::
  "env \<Rightarrow> 'h host \<Rightarrow> string \<Rightarrow> string \<Rightarrow> int \<Rightarrow> bool \<Rightarrow> db \<times> 'h \<Rightarrow> (db \<times> 'h) \<times> (err + cleanup_summary)" where
  "cleanup_pull_request_workspaces e m provider repository number force st =
     cleanup_many e m (map w_workspace_id (filter (\<lambda>w. w_provider w = provider \<and> w_repository w = repository \<and>
        w_pull_request_number w = number) (workspaces (fst st)))) force st"

definition cleanup_expired_workspaces ::
  "env \<Rightarrow> 'h host \<Rightarrow> time option \<Rightarrow> db \<times> 'h \<Rightarrow> (db \<times> 'h) \<times> (err + cleanup_summary)" where
  "cleanup_expired_workspaces e m at st =
     (let t = or_else at (now e)
      in cleanup_many e m (map w_workspace_id (filter (\<lambda>w. (case w_expires_at w of None \<Rightarrow> False | Some x \<Rightarrow> x \<le> t) \<and>
           w_status w \<noteq> ''deleted'') (workspaces (fst st)))) False st)"


section \<open>No credential in a failure message\<close>

lemma replaced_prefix:
  "CHR ''*'' \<notin> set p \<Longrightarrow> starts_with (replace_all tok ''***'' s) p \<Longrightarrow> starts_with s p"
proof (induction tok "''***''" s arbitrary: p rule: replace_all.induct)
  case (2 tok c cs)
  show ?case
  proof (cases p)
    case (Cons a q)
    show ?thesis
    proof (cases "tok \<noteq> [] \<and> starts_with (c # cs) tok")
      case True
      with 2(3,4) Cons show ?thesis by simp
    next
      case False
      with 2(2)[OF False, of q] 2(3,4) Cons show ?thesis by simp
    qed
  qed simp
qed simp

lemma masked_text:
  assumes "tok \<noteq> []" and "CHR ''*'' \<notin> set tok"
  shows "\<not> contains (replace_all tok ''***'' s) tok"
proof (induction s rule: length_induct)
  case (1 s)
  obtain a q where tok: "tok = a # q" using assms(1) by (cases tok) auto
  with assms(2) have star: "a \<noteq> CHR ''*''" "CHR ''*'' \<notin> set q" by auto
  show ?case
  proof (cases s)
    case Nil
    then show ?thesis using assms(1) by simp
  next
    case (Cons c cs)
    show ?thesis
    proof (cases "starts_with (c # cs) tok")
      case True
      let ?rest = "replace_all tok ''***'' (drop (length tok) (c # cs))"
      have "\<not> contains ?rest tok" using 1 Cons assms(1) by (simp del: replace_all.simps)
      moreover have "replace_all tok ''***'' s = ''***'' @ ?rest" using True Cons assms(1) by simp
      ultimately show ?thesis using star(1) tok by (simp del: replace_all.simps)
    next
      case False
      then have eq: "replace_all tok ''***'' s = c # replace_all tok ''***'' cs" using Cons by simp
      have "\<not> contains (replace_all tok ''***'' cs) tok" using 1 Cons by simp
      moreover have "\<not> starts_with (c # replace_all tok ''***'' cs) tok"
        using False replaced_prefix[OF star(2)] unfolding tok by (auto simp del: replace_all.simps)
      ultimately show ?thesis unfolding eq by (simp del: replace_all.simps)
    qed
  qed
qed

text \<open>A step on the host hides a text when no failure it reports contains it.\<close>

definition hides :: "string \<Rightarrow> 'h \<times> (git_failure + 'a) \<Rightarrow> bool" where
  "hides tok r = (case snd r of Inl (GitCommandError _ message) \<Rightarrow> \<not> contains message tok | _ \<Rightarrow> True)"

lemma hides_then: "hides tok r \<Longrightarrow> (\<And>v h. hides tok (f v h)) \<Longrightarrow> hides tok (git_then r f)"
  by (cases r; cases "snd r") (simp_all add: hides_def git_then_def)

lemma hides_os [simp]: "hides tok (os_step r)" "hides tok (h, Inr v)" "hides tok (h, Inl (Crash x))"
  by (simp_all add: hides_def os_step_def split: prod.splits option.splits)

definition masks :: "(string \<times> string) list \<Rightarrow> string \<Rightarrow> bool" where
  "masks vars tok \<longleftrightarrow> map_of vars ''REVIEW_GIT_TOKEN_MASK'' = Some tok \<and> tok \<noteq> [] \<and> CHR ''*'' \<notin> set tok \<and>
     \<not> contains ''git command timed out'' tok \<and> \<not> contains ''git command failed'' tok"

lemma run_hides: "masks vars tok \<Longrightarrow> hides tok (run_git m vars command h)"
  using masked_text[of tok]
  by (auto simp: masks_def mask_secret_def run_git_def hides_def Let_def split: prod.splits git_outcome.splits)

lemma cache_hides: "masks vars tok \<Longrightarrow> hides tok (ensure_cache m cache url vars h)"
  unfolding ensure_cache_def by (intro hides_then) (simp_all add: run_hides)

lemma commit_hides:
  assumes "masks vars tok"
  shows "hides tok (ensure_commit m repo sha vars b h)"
proof -
  let ?check = "[''git'', ''-C'', path_str repo, ''cat-file'', ''-e'', sha @ ''^{commit}'']"
  let ?r1 = "run_git m vars ?check h"
  let ?r2 = "git_then (run_git m vars [''git'', ''-C'', path_str repo, ''fetch'', ''origin'', sha] (fst ?r1))
      (\<lambda>_ h2. run_git m vars ?check h2)"
  have r1: "hides tok ?r1" by (rule run_hides[OF assms])
  have r2: "hides tok ?r2" by (intro hides_then run_hides assms)
  obtain h1 o1 h2 o2 where "?r1 = (h1, o1)" "?r2 = (h2, o2)" by fastforce
  with r1 r2 show ?thesis
    by (cases o1; cases o2) (auto simp: ensure_commit_def Let_def hides_def split: git_failure.splits)
qed

lemma prepare_git_hides:
  assumes "masks vars tok" and "git_env (environ m) q auth user = Inr vars"
  shows "hides tok (prepare_git_workspace m paths q url auth user h)"
proof -
  note steps = run_hides[OF assms(1)] cache_hides[OF assms(1)] commit_hides[OF assms(1)]
  show ?thesis
    unfolding prepare_git_workspace_def Let_def assms(2) sum.case
    by (intro hides_then steps hides_os) (auto simp: steps intro!: hides_then)
qed

lemma auth_env_masks:
  assumes "tok \<noteq> []" and "CHR ''*'' \<notin> set tok"
    and "\<not> contains ''git command timed out'' tok" and "\<not> contains ''git command failed'' tok"
  shows "masks (auth_env vars user tok base) tok"
  using assms by (simp add: masks_def auth_env_def map_of_dict_put)

lemma get_workspace_upd:
  assumes "\<And>w. w_workspace_id (f w) = w_workspace_id w" and "get_workspace db wid = Some w"
  shows "get_workspace (upd_workspace wid f db) wid = Some (f w)"
proof -
  have "w_workspace_id w = wid" using assms(2) first_row_SomeD unfolding get_workspace_def by fastforce
  with assms show ?thesis by (simp add: get_workspace_def upd_workspace_def first_row_upd_where)
qed

lemma get_announced:
  "\<exists>w. get_workspace (announce_preparing e wid paths url q db) wid = Some w"
proof (cases "get_workspace db wid")
  case None
  then show ?thesis by (simp add: announce_preparing_def get_workspace_def draw_def first_row_append workspace_row_def)
next
  case (Some w)
  then show ?thesis by (simp add: announce_preparing_def get_workspace_upd)
qed

text \<open>
  C30. A failed preparation never shows the credential it used. When the provider resolved an HTTP
  location with a token and the preparation fails, neither the answer nor the stored workspace carries
  a message that contains the token, whatever git printed. The token is not empty, has no asterisk and
  is not a part of the two fixed messages.
\<close>

theorem failed_preparation_hides_the_token:
  fixes q :: prepare_request
  assumes "prepare_workspace e root cache m chk reg q (db, h) = ((db', h'), Inr r)" and "pr_status r = ''failed''"
    and "resolve_workspace_checkout chk q reg = Inr c" and "co_auth_token c = Some tok"
    and "authenticated_https_base (co_clone_url c) = Inr (Some base)"
    and "tok \<noteq> []" and "CHR ''*'' \<notin> set tok"
    and "\<not> contains ''git command timed out'' tok" and "\<not> contains ''git command failed'' tok"
  shows "\<exists>message w. pr_failure_message r = Some message \<and> \<not> contains message tok \<and>
     get_workspace db' (workspace_identity e (pq_provider q) (pq_full_name q) (pq_number q) (pq_head_sha q)) = Some w \<and>
     w_failure_message w = Some message"
proof -
  let ?wid = "workspace_identity e (pq_provider q) (pq_full_name q) (pq_number q) (pq_head_sha q)"
  let ?q = "q\<lparr>pq_clone_url := Some (co_clone_url c)\<rparr>"
  let ?paths = "workspace_paths_for e root cache (pq_full_name q) ?q"
  let ?db1 = "announce_preparing e ?wid ?paths (co_clone_url c) ?q db"
  let ?g = "prepare_git_workspace m ?paths ?q (co_clone_url c) (co_auth_token c) (co_auth_username c) h"
  have env: "git_env (environ m) ?q (co_auth_token c) (co_auth_username c) =
      Inr (auth_env (environ m) (co_auth_username c) tok base)"
    using assms(4-6) by (simp add: git_env_def)
  have hid: "hides tok ?g"
    by (rule prepare_git_hides[OF auth_env_masks[OF assms(6-9)] env])
  obtain w where w: "get_workspace ?db1 ?wid = Some w" using get_announced by blast
  have cached: False if "get_workspace db ?wid = Some w0" "w_status w0 = ''ready''" "\<not> pq_force_refresh q" for w0
    using assms(1,2) that by (auto simp: prepare_workspace_def prepare_response_of_def the_workspace_def get_workspace_upd)
  obtain h1 o1 where g: "?g = (h1, o1)" by fastforce
  have step: "prepare_workspace e root cache m chk reg q (db, h) =
      (case ?g of (h1, Inl (Crash x)) \<Rightarrow> ((?db1, h1), Inl x)
        | (h1, Inl (GitCommandError cause message)) \<Rightarrow>
            (let db2 = upd_workspace ?wid (git_failed (now e) cause message) ?db1
             in ((db2, h1), Inr (prepare_response_of (the_workspace db2 ?wid) False)))
        | (h1, Inr _) \<Rightarrow>
            (let db2 = upd_workspace ?wid (git_ready (now e)) ?db1
             in ((db2, h1), Inr (prepare_response_of (the_workspace db2 ?wid) (pq_use_git_cache q)))))"
  proof -
    have fresh: "\<not> ((case get_workspace db ?wid of Some w \<Rightarrow> w_status w = ''ready'' | None \<Rightarrow> False) \<and> \<not> pq_force_refresh q)"
      using cached by (auto split: option.splits)
    show ?thesis unfolding prepare_workspace_def prod.case Let_def if_not_P[OF fresh] assms(3) sum.case ..
  qed
  obtain db1 where db1: "db1 = ?db1" by simp
  note res = assms(1)[unfolded step g, folded db1] and w1 = w[folded db1]
  show ?thesis
  proof (cases o1)
    case (Inr u)
    with res have "r = prepare_response_of (the_workspace (upd_workspace ?wid (git_ready (now e)) db1) ?wid) (pq_use_git_cache q)"
      by (auto simp: Let_def)
    moreover have "get_workspace (upd_workspace ?wid (git_ready (now e)) db1) ?wid = Some (git_ready (now e) w)"
      by (rule get_workspace_upd[OF _ w1]) (simp add: git_ready_def)
    ultimately have "pr_status r = ''ready''" by (simp add: the_workspace_def git_ready_def prepare_response_of_def)
    with assms(2) show ?thesis by simp
  next
    case (Inl x)
    with res obtain cause message where x: "x = GitCommandError cause message" by (cases x) auto
    with hid g Inl have message: "\<not> contains message tok" by (simp add: hides_def)
    let ?db2 = "upd_workspace ?wid (git_failed (now e) cause message) db1"
    from res Inl x have r: "db' = ?db2" "r = prepare_response_of (the_workspace ?db2 ?wid) False" by (auto simp: Let_def)
    have "get_workspace ?db2 ?wid = Some (git_failed (now e) cause message w)"
      by (rule get_workspace_upd[OF _ w1]) (simp add: git_failed_def)
    then show ?thesis using message r by (simp add: the_workspace_def git_failed_def prepare_response_of_def)
  qed
qed


section \<open>Cleaning up\<close>

definition expired :: "time \<Rightarrow> workspace \<Rightarrow> bool" where
  "expired t w \<longleftrightarrow> (case w_expires_at w of None \<Rightarrow> False | Some x \<Rightarrow> x \<le> t) \<and> w_status w \<noteq> ''deleted''"

lemma cleanup_found:
  assumes "get_workspace db wid = Some w"
  shows "cleanup_workspace e m wid False (db, h) =
     (case active_leases db wid of
        [] \<Rightarrow> ((upd_workspace wid (\<lambda>w. w\<lparr>w_status := ''deleted'', w_expires_at := Some (now e)\<rparr>)
                   (upd_workspace wid (\<lambda>w. w\<lparr>w_status := ''cleaning''\<rparr>) db), remove_tree m (w_workspace_path w) h), Inr ''deleted'')
      | [_] \<Rightarrow> ((upd_workspace wid (\<lambda>w. w\<lparr>w_failure_code := Some ''workspace_locked''\<rparr>) db, h), Inr ''workspace_locked'')
      | _ \<Rightarrow> ((db, h), Inl MultipleResultsFound))"
  using assms by (simp add: cleanup_workspace_def has_active_lease_def one_or_none_def split: list.splits)

text \<open>What a cleanup leaves as it is: the leases, and which paths belong to which workspace.\<close>

definition same_trees :: "db \<Rightarrow> db \<Rightarrow> bool" where
  "same_trees db db' \<longleftrightarrow> workspace_leases db' = workspace_leases db \<and>
     (\<forall>wid. map_option w_workspace_path (get_workspace db' wid) = map_option w_workspace_path (get_workspace db wid))"

lemma same_trees_upd:
  assumes "\<And>w. w_workspace_id (f w) = w_workspace_id w" "\<And>w. w_workspace_path (f w) = w_workspace_path w"
  shows "same_trees db (upd_workspace wid f db)"
proof -
  have "map_option w_workspace_path (get_workspace (upd_workspace wid f db) i) = map_option w_workspace_path (get_workspace db i)" for i
    using assms by (cases "get_workspace db i") (auto simp: get_workspace_def upd_workspace_def first_row_upd_where)
  then show ?thesis by (simp add: same_trees_def upd_workspace_def)
qed

lemma same_trees_trans: "same_trees a b \<Longrightarrow> same_trees b c \<Longrightarrow> same_trees a c"
  by (simp add: same_trees_def)

lemma same_trees_leases: "same_trees db db' \<Longrightarrow> active_leases db' wid = active_leases db wid"
  by (simp add: same_trees_def active_leases_def)

definition tree_of :: "db \<Rightarrow> string \<Rightarrow> string" where
  "tree_of db wid = w_workspace_path (the_workspace db wid)"

lemma same_trees_path:
  "same_trees db db' \<Longrightarrow> map_option w_workspace_path (get_workspace db' wid) = map_option w_workspace_path (get_workspace db wid)"
  by (simp add: same_trees_def)

lemma same_trees_tree:
  "same_trees db db' \<Longrightarrow> get_workspace db wid \<noteq> None \<Longrightarrow> get_workspace db' wid \<noteq> None \<and> tree_of db' wid = tree_of db wid"
  by (drule same_trees_path[of _ _ wid]) (auto simp: tree_of_def the_workspace_def)

lemma cleanup_step:
  assumes w: "get_workspace db wid = Some w" and "length (active_leases db wid) \<le> 1"
  obtains db1 h1 r where "cleanup_workspace e m wid False (db, h) = ((db1, h1), Inr r)" "same_trees db db1"
    "if active_leases db wid = [] then h1 = remove_tree m (tree_of db wid) h \<and> r = ''deleted'' else h1 = h \<and> r = ''workspace_locked''"
proof (cases "active_leases db wid")
  case Nil
  then show ?thesis
    by (intro that) (auto simp: cleanup_found[OF w] tree_of_def the_workspace_def w
        intro!: same_trees_trans[OF same_trees_upd same_trees_upd])
next
  case (Cons l ls)
  with assms(2) have "ls = []" by simp
  with Cons show ?thesis
    by (intro that) (auto simp: cleanup_found[OF w] intro!: same_trees_upd)
qed

lemma cleanup_from_removes:
  assumes "\<And>wid. wid \<in> set wids \<Longrightarrow> get_workspace db wid \<noteq> None"
    and "list_all (\<lambda>wid. length (active_leases db wid) \<le> 1) wids"
  shows "\<exists>db'. same_trees db db' \<and> cleanup_from e m False wids s (db, h) =
     ((db', foldl (\<lambda>h wid. remove_tree m (tree_of db wid) h) h (filter (\<lambda>wid. active_leases db wid = []) wids)),
      Inr (s\<lparr>cu_deleted := cu_deleted s + int (length (filter (\<lambda>wid. active_leases db wid = []) wids)),
             cu_skipped_locked := cu_skipped_locked s + int (length (filter (\<lambda>wid. active_leases db wid \<noteq> []) wids))\<rparr>))"
  using assms
proof (induction wids arbitrary: db s h)
  case Nil
  then show ?case by (intro exI[of _ db]) (simp add: same_trees_def)
next
  case (Cons wid wids)
  obtain w where w: "get_workspace db wid = Some w" using Cons.prems(1)[of wid] by auto
  obtain db1 h1 r where c: "cleanup_workspace e m wid False (db, h) = ((db1, h1), Inr r)" and same: "same_trees db db1"
    and eff: "if active_leases db wid = [] then h1 = remove_tree m (tree_of db wid) h \<and> r = ''deleted''
      else h1 = h \<and> r = ''workspace_locked''"
    using cleanup_step[OF w, of e m h] Cons.prems(2) by auto
  have found: "\<And>i. i \<in> set wids \<Longrightarrow> get_workspace db1 i \<noteq> None" and trees: "\<And>i. i \<in> set wids \<Longrightarrow> tree_of db1 i = tree_of db i"
    using Cons.prems(1) same_trees_tree[OF same] by simp_all
  note leases = same_trees_leases[OF same]
  have "list_all (\<lambda>wid. length (active_leases db1 wid) \<le> 1) wids" using Cons.prems(2) leases by simp
  from Cons.IH[OF found this, of "count_cleanup r s" h1] obtain db' where
    d: "same_trees db1 db'" "cleanup_from e m False wids (count_cleanup r s) (db1, h1) =
      ((db', foldl (\<lambda>h wid. remove_tree m (tree_of db1 wid) h) h1 (filter (\<lambda>wid. active_leases db wid = []) wids)),
       Inr ((count_cleanup r s)\<lparr>cu_deleted := cu_deleted (count_cleanup r s) + int (length (filter (\<lambda>wid. active_leases db wid = []) wids)),
        cu_skipped_locked := cu_skipped_locked (count_cleanup r s) + int (length (filter (\<lambda>wid. active_leases db wid \<noteq> []) wids))\<rparr>))"
    unfolding leases by blast
  have "foldl (\<lambda>h wid. remove_tree m (tree_of db1 wid) h) h1 (filter (\<lambda>wid. active_leases db wid = []) wids) =
      foldl (\<lambda>h wid. remove_tree m (tree_of db wid) h) h1 (filter (\<lambda>wid. active_leases db wid = []) wids)"
    by (rule foldl_cong) (simp_all add: trees)
  with d c eff same_trees_trans[OF same d(1)] show ?case
    by (intro exI[of _ db']) (auto simp: count_cleanup_def)
qed


lemma cleanup_from_raises:
  assumes "\<And>wid. wid \<in> set wids \<Longrightarrow> get_workspace db wid \<noteq> None"
    and "\<not> list_all (\<lambda>wid. length (active_leases db wid) \<le> 1) wids"
  shows "snd (cleanup_from e m False wids s (db, h)) = Inl MultipleResultsFound"
  using assms
proof (induction wids arbitrary: db s h)
  case (Cons wid wids)
  obtain w where w: "get_workspace db wid = Some w" using Cons.prems(1)[of wid] by auto
  show ?case
  proof (cases "length (active_leases db wid) \<le> 1")
    case True
    obtain db1 h1 r where c: "cleanup_workspace e m wid False (db, h) = ((db1, h1), Inr r)" and same: "same_trees db db1"
      using cleanup_step[OF w True, of e m h] by metis
    have "\<And>i. i \<in> set wids \<Longrightarrow> get_workspace db1 i \<noteq> None" using Cons.prems(1) same_trees_tree[OF same] by simp
    moreover have "\<not> list_all (\<lambda>wid. length (active_leases db1 wid) \<le> 1) wids"
      using Cons.prems(2) True same_trees_leases[OF same] by simp
    ultimately show ?thesis using Cons.IH c by simp
  next
    case False
    then show ?thesis by (auto simp: cleanup_found[OF w] split: list.splits)
  qed
qed simp

text \<open>
  C31. Cleaning up expired workspaces spares the leased ones. When no expired workspace has more than one
  active lease, the trees removed are those of the expired workspaces without an active lease, in table
  order; these count as deleted, the leased ones as skipped, none as failed, and no lease changes. When an
  expired workspace has two active leases, the whole cleanup raises.
\<close>

theorem expired_cleanup_spares_leased_workspaces:
  fixes db :: db and t :: time
  defines "late \<equiv> filter (expired t) (workspaces db)"
  defines "free \<equiv> filter (\<lambda>w. active_leases db (w_workspace_id w) = []) late"
  assumes "unique_on w_workspace_id (workspaces db)"
  shows "if list_all (\<lambda>w. length (active_leases db (w_workspace_id w)) \<le> 1) late
    then \<exists>db'. cleanup_expired_workspaces e m (Some t) (db, h) =
        ((db', foldl (\<lambda>h w. remove_tree m (w_workspace_path w) h) h free),
         Inr \<lparr>cu_deleted = int (length free), cu_skipped_locked = int (length late) - int (length free), cu_failed = 0\<rparr>) \<and>
      workspace_leases db' = workspace_leases db
    else snd (cleanup_expired_workspaces e m (Some t) (db, h)) = Inl MultipleResultsFound"
proof -
  let ?wids = "map w_workspace_id late"
  let ?zero = "\<lparr>cu_deleted = 0, cu_skipped_locked = 0, cu_failed = 0\<rparr>"
  have run: "cleanup_expired_workspaces e m (Some t) (db, h) = cleanup_from e m False ?wids ?zero (db, h)"
    by (simp add: cleanup_expired_workspaces_def cleanup_many_def late_def expired_def[abs_def] or_else_def)
  have row: "get_workspace db (w_workspace_id w) = Some w" if "w \<in> set late" for w
    unfolding get_workspace_def by (rule first_row_unique[OF assms(3)]) (use that in \<open>simp_all add: late_def\<close>)
  then have found: "\<And>wid. wid \<in> set ?wids \<Longrightarrow> get_workspace db wid \<noteq> None" by auto
  have trees: "foldl (\<lambda>h wid. remove_tree m (tree_of db wid) h) h (map w_workspace_id free) =
      foldl (\<lambda>h w. remove_tree m (w_workspace_path w) h) h free"
    unfolding foldl_map by (rule foldl_cong) (auto simp: tree_of_def the_workspace_def row free_def)
  have free: "filter (\<lambda>wid. active_leases db wid = []) ?wids = map w_workspace_id free"
    by (simp add: filter_map comp_def free_def)
  have "length (filter (\<lambda>wid. active_leases db wid \<noteq> []) ?wids) + length free = length late"
    using sum_length_filter_compl[of "\<lambda>w. active_leases db (w_workspace_id w) = []" late]
    by (simp add: filter_map comp_def free_def)
  then have skipped: "int (length (filter (\<lambda>wid. active_leases db wid \<noteq> []) ?wids)) = int (length late) - int (length free)"
    by linarith
  show ?thesis
  proof (cases "list_all (\<lambda>w. length (active_leases db (w_workspace_id w)) \<le> 1) late")
    case True
    then have "list_all (\<lambda>wid. length (active_leases db wid) \<le> 1) ?wids" by (simp add: list_all_iff)
    from cleanup_from_removes[OF found this, of e m ?zero h] obtain db' where "same_trees db db'"
      "cleanup_from e m False ?wids ?zero (db, h) = ((db', foldl (\<lambda>h w. remove_tree m (w_workspace_path w) h) h free),
         Inr \<lparr>cu_deleted = int (length free), cu_skipped_locked = int (length late) - int (length free), cu_failed = 0\<rparr>)"
      unfolding free trees skipped by auto
    with True show ?thesis unfolding run by (auto simp: same_trees_def)
  next
    case False
    then have "\<not> list_all (\<lambda>wid. length (active_leases db wid) \<le> 1) ?wids" by (simp add: list_all_iff)
    from cleanup_from_raises[OF found this] False show ?thesis unfolding run by simp
  qed
qed

section \<open>Examples\<close>

text \<open>A host whose state is the list of removed trees and whose git fails and prints the token.\<close>

definition leaky_host :: "string list host" where
  "leaky_host =
     \<lparr>environ = [], run_command = (\<lambda>vars command h. (h, Exit 128 (concat (map snd (filter (\<lambda>v. fst v = ''REVIEW_GIT_TOKEN_MASK'') vars))))),
      path_exists = (\<lambda>p h. False), make_dirs = (\<lambda>p h. (h, None)), remove_tree = (\<lambda>p h. h @ [p]),
      make_private = (\<lambda>p h. (h, None))\<rparr>"

definition sample_prepare :: prepare_request where
  "sample_prepare =
     \<lparr>pq_provider = ''gh'', pq_full_name = ''o/r'', pq_clone_url = None, pq_number = 1, pq_base_sha = ''base000'',
      pq_head_sha = ''head000'', pq_is_fork = False, pq_token_ref = None, pq_use_git_cache = False, pq_force_refresh = False\<rparr>"

definition sample_checkout :: workspace_checkout where
  "sample_checkout = \<lparr>co_clone_url = ''https://x.io/o/r.git'', co_auth_token = Some ''s3cret'', co_auth_username = ''oauth2''\<rparr>"

definition checkout_registry :: registry where
  "checkout_registry = sample_registry\<lparr>runtimes := map (\<lambda>(k, r). (k, r\<lparr>rt_provider :=
     (rt_provider r)\<lparr>ad_protocols := [''workspace_checkout'']\<rparr>\<rparr>)) (runtimes sample_registry)\<rparr>"


theorem failed_preparation_hides_the_token_witness:
  "\<exists>db' h' r. prepare_workspace (sample_env 5) ''ws'' ''cache'' leaky_host (\<lambda>_ _ _. Inr sample_checkout)
       (Some checkout_registry) sample_prepare (empty_db, []) = ((db', h'), Inr r) \<and>
     pr_failure_message r = Some ''***'' \<and> \<not> contains ''***'' ''s3cret''"
proof -
  let ?r = "prepare_workspace (sample_env 5) ''ws'' ''cache'' leaky_host (\<lambda>_ _ _. Inr sample_checkout)
       (Some checkout_registry) sample_prepare (empty_db, [])"
  have "case snd ?r of Inl _ \<Rightarrow> False | Inr r \<Rightarrow> pr_status r = ''failed'' \<and>
      pr_failure_message r = Some ''***''" by code_simp
  then obtain db' h' r where r: "?r = ((db', h'), Inr r)" "pr_status r = ''failed''" "pr_failure_message r = Some ''***''"
    by (cases ?r) (auto split: sum.splits)
  have c: "resolve_workspace_checkout (\<lambda>_ _ _. Inr sample_checkout) sample_prepare (Some checkout_registry) = Inr sample_checkout"
    "co_auth_token sample_checkout = Some ''s3cret''"
    "authenticated_https_base (co_clone_url sample_checkout) = Inr (Some ''x.io/'')" by code_simp+
  have t: "''s3cret'' \<noteq> []" "CHR ''*'' \<notin> set ''s3cret''" "\<not> contains ''git command timed out'' ''s3cret''"
    "\<not> contains ''git command failed'' ''s3cret''" by simp_all
  from failed_preparation_hides_the_token[OF r(1,2) c t] r show ?thesis by auto
qed

definition sample_workspace :: "string \<Rightarrow> time \<Rightarrow> workspace" where
  "sample_workspace wid until = (workspace_row wid 0 wid \<lparr>wp_repo_hash = ''h'', wp_repo_path = ([], [wid]), wp_cache_path = ([], [''c''])\<rparr>
     ''u'' sample_prepare)\<lparr>w_status := ''idle'', w_expires_at := Some until\<rparr>"

definition sample_disk :: db where
  "sample_disk = empty_db\<lparr>
     workspaces := [sample_workspace ''w1'' 3, sample_workspace ''w2'' 3, sample_workspace ''w3'' 9],
     workspace_leases := [new_workspace_lease ''l2'' 0 ''w2'']\<rparr>"

theorem expired_cleanup_spares_leased_workspaces_witness:
  "\<exists>db'. cleanup_expired_workspaces (sample_env 5) leaky_host (Some 5) (sample_disk, []) =
     ((db', [''w1'']), Inr \<lparr>cu_deleted = 1, cu_skipped_locked = 1, cu_failed = 0\<rparr>)"
proof -
  have u: "unique_on w_workspace_id (workspaces sample_disk)"
    "list_all (\<lambda>w. length (active_leases sample_disk (w_workspace_id w)) \<le> 1) (filter (expired 5) (workspaces sample_disk))"
    by code_simp+
  have f: "filter (expired 5) (workspaces sample_disk) = [sample_workspace ''w1'' 3, sample_workspace ''w2'' 3]"
    "filter (\<lambda>w. active_leases sample_disk (w_workspace_id w) = []) [sample_workspace ''w1'' 3, sample_workspace ''w2'' 3] =
      [sample_workspace ''w1'' 3]" by code_simp+
  have p: "foldl (\<lambda>h w. remove_tree leaky_host (w_workspace_path w) h) [] [sample_workspace ''w1'' 3] = [''w1'']"
    by code_simp
  from expired_cleanup_spares_leased_workspaces[OF u(1), of 5 "sample_env 5" leaky_host "[]"] u(2) show ?thesis
    unfolding f p by auto
qed

end
