(* ===== verification/Worker.thy ===== *)
theory Worker
  imports Sessions Ending Scheduler Workspaces
begin

text \<open>
  The review worker of \<open>application/worker.py\<close>: claim a review run, prepare its workspace, start or
  observe its agent session, take over the result, and release the claim. Every exception ends the
  run as failed. When a statement violates a constraint the transaction is rolled back and the
  session refuses further work, so such an error leaves the worker without any of its handlers.
\<close>

section \<open>The worker's surroundings\<close>

record worker_settings =
  ws_scheduler :: scheduler_settings
  ws_sessions :: session_settings
  ws_workspace_root :: string
  ws_git_cache_root :: string
  ws_lock_seconds :: int
  ws_poll_interval :: time
  ws_retry_max_attempts :: int
  ws_retry_initial_delay_seconds :: int
  ws_review_soft_timeout_seconds :: int
  ws_review_timeout_seconds :: int
  ws_agent_command_skill :: string
  ws_agent_command_agent :: string
  ws_agent_soft_timeout_seconds :: int
  ws_agent_timeout_seconds :: int
  ws_max_history_turns :: int
  ws_max_history_chars :: int

text \<open>
  The adapter methods the worker awaits are functions of the adapter's key; \<open>wk_disk\<close> is the state of
  the host when the worker starts.
\<close>

record 'h worker =
  wk_settings :: worker_settings
  wk_registry :: registry
  wk_client :: pi_client
  wk_diff :: "string \<Rightarrow> string option \<times> bool"
  wk_host :: "'h host"
  wk_disk :: 'h
  wk_checkout :: "string \<Rightarrow> string \<Rightarrow> string option \<Rightarrow> err + workspace_checkout"
  wk_changed_files :: "string \<Rightarrow> review_run \<Rightarrow> err + changed_file list"
  wk_pull_request :: "string \<Rightarrow> agent_task \<Rightarrow> err + pull_request_context option"
  wk_pydantic :: pydantic
  wk_resolve :: "path \<Rightarrow> path"
  wk_is_file :: "path \<Rightarrow> bool"

text \<open>\<open>except Exception\<close>: the handler sees the session as the exception left it, unless it is broken.\<close>

definition handling :: "db \<times> (err + 'a) \<Rightarrow> (err \<Rightarrow> db \<Rightarrow> db \<times> (err + 'a)) \<Rightarrow> db \<times> (err + 'a)" where
  "handling r h = (case r of (db, Inl x) \<Rightarrow> (if breaks_session x then (db, Inl x) else h x db) | (db, Inr v) \<Rightarrow> (db, Inr v))"

text \<open>A broken session is back at its last commit.\<close>

definition rolling_back :: "db \<Rightarrow> db \<times> (err + 'a) \<Rightarrow> db \<times> (err + 'a)" where
  "rolling_back db0 r = (case r of (db, Inl x) \<Rightarrow> (if breaks_session x then (db0, Inl x) else (db, Inl x)) | (db, Inr v) \<Rightarrow> (db, Inr v))"

definition acquire_next :: "env \<Rightarrow> worker_settings \<Rightarrow> string \<Rightarrow> string \<Rightarrow> db \<Rightarrow> db \<times> (err + string option)" where
  "acquire_next e st kind worker db =
     (case policy_from_settings (ws_scheduler st) of
        Inl x \<Rightarrow> (db, Inl x)
      | Inr pol \<Rightarrow> claim_next_task e worker [kind] [] (ws_lock_seconds st) None pol db)"

definition review_run_context :: "db \<Rightarrow> review_run \<Rightarrow> pull_request_context option" where
  "review_run_context db r =
     (if has_text (r_pull_request_context_id r) then get_context db (the (r_pull_request_context_id r))
      else find_context db (r_provider r) (r_repo_full_name r) (r_pull_request_number r))"

definition workspace_request_from_context :: "pull_request_context \<Rightarrow> err + prepare_request" where
  "workspace_request_from_context c =
     (case c_base_sha c of
        None \<Rightarrow> Inl (ValueError ''invalid WorkspacePrepareRequest'')
      | Some base \<Rightarrow>
          (let q = \<lparr>pq_provider = c_provider c, pq_full_name = c_repo_full_name c, pq_clone_url = None,
                    pq_number = c_pull_request_number c, pq_base_sha = base, pq_head_sha = c_head_sha c,
                    pq_is_fork = c_is_fork c, pq_token_ref = None, pq_use_git_cache = True, pq_force_refresh = False\<rparr>
           in if prepare_request_fields q then Inr q else Inl (ValueError ''invalid WorkspacePrepareRequest'')))"

definition prepare_for_context :: "env \<Rightarrow> 'h worker \<Rightarrow> pull_request_context \<Rightarrow> db \<Rightarrow> db \<times> (err + prepare_response)" where
  "prepare_for_context e w c db =
     (case workspace_request_from_context c of
        Inl x \<Rightarrow> (db, Inl x)
      | Inr q \<Rightarrow>
          (case prepare_workspace e (ws_workspace_root (wk_settings w)) (ws_git_cache_root (wk_settings w)) (wk_host w)
                  (wk_checkout w) (Some (wk_registry w)) q (db, wk_disk w) of
             ((db1, _), r) \<Rightarrow> (db1, r)))"

section \<open>Failing and retrying\<close>

definition fail_review :: "env \<Rightarrow> string \<Rightarrow> string \<Rightarrow> string option \<Rightarrow> db \<Rightarrow> db \<times> (err + unit)" where
  "fail_review e rid cause msg db =
     enqueue_review_comment_status e rid ''failed''
       (upd_run rid (\<lambda>r. r\<lparr>r_failure_code := Some cause, r_error := msg\<rparr>)
          (upd_task rid (\<lambda>t. t\<lparr>t_status := ''failed''\<rparr>) db))"

definition has_code :: "string \<Rightarrow> json \<Rightarrow> bool" where
  "has_code c warning = (case warning of JObj kvs \<Rightarrow> jget kvs ''code'' = JStr c | _ \<Rightarrow> False)"

definition start_retries :: "review_run \<Rightarrow> nat" where
  "start_retries r = length (filter (has_code ''pi_agent_start_retry'') (or_else (r_validation_warnings_json r) []))"

definition session_retry_warning :: "review_run \<Rightarrow> json" where
  "session_retry_warning r =
     JObj [(''code'', JStr ''pi_agent_session_retry''),
           (''message'', JStr (str_or (r_error r) ''pi-agent session request temporarily failed.''))]"

definition start_retry_warning :: "review_run \<Rightarrow> json" where
  "start_retry_warning r =
     JObj [(''code'', JStr ''pi_agent_start_retry''),
           (''message'', JStr (str_or (r_error r) ''pi-agent runtime infrastructure start failure.'')),
           (''retry'', JInt (int (start_retries r) + 1))]"

definition resumed :: "string \<Rightarrow> time \<Rightarrow> task \<Rightarrow> task" where
  "resumed stage at t = t\<lparr>t_status := ''running'', t_stage := Some stage, t_completed_at := None, t_available_at := at\<rparr>"

definition schedule_pi_agent_retry :: "env \<Rightarrow> worker_settings \<Rightarrow> string \<Rightarrow> db \<Rightarrow> db \<times> bool" where
  "schedule_pi_agent_retry e st rid db =
     (let r = the_run db rid; warnings = or_else (r_validation_warnings_json r) []
      in if r_failure_code r \<noteq> Some ''pi_agent_infrastructure_error'' then (db, False)
         else if has_text (r_agent_session_id r)
         then (upd_run rid (\<lambda>r. r\<lparr>r_failure_code := None, r_error := None,
                 r_validation_warnings_json := Some (if list_ex (has_code ''pi_agent_session_retry'') warnings then warnings
                                                     else warnings @ [session_retry_warning r])\<rparr>)
               (upd_task rid (resumed ''waiting_for_agent'' (now e + ws_poll_interval st)) db), True)
         else if ws_retry_max_attempts st \<le> int (start_retries r) then (db, False)
         else (upd_run rid (\<lambda>r. r\<lparr>r_agent_session_id := None, r_agent_status := None, r_agent_provider := None,
                 r_agent_model := None, r_agent_thinking_level := None, r_failure_code := None, r_error := None,
                 r_validation_warnings_json := Some (warnings @ [start_retry_warning r])\<rparr>)
               (upd_task rid (resumed ''retrying_agent_start''
                  (now e + seconds (ws_retry_initial_delay_seconds st * 2 ^ start_retries r))) db), True))"

definition retry_or_announce :: "env \<Rightarrow> worker_settings \<Rightarrow> string \<Rightarrow> db \<Rightarrow> db \<times> (err + unit)" where
  "retry_or_announce e st rid db =
     (case schedule_pi_agent_retry e st rid db of
        (db1, True) \<Rightarrow> (db1, Inr ())
      | (db1, False) \<Rightarrow> enqueue_review_comment_status e rid ''failed'' db1)"

section \<open>One turn of a review\<close>

definition add_warning :: "string \<Rightarrow> string \<Rightarrow> review_run \<Rightarrow> review_run" where
  "add_warning c msg r =
     r\<lparr>r_validation_warnings_json :=
         Some (or_else (r_validation_warnings_json r) [] @ [JObj [(''code'', JStr c), (''message'', JStr msg)]])\<rparr>"

definition fetch_changed_files :: "'h worker \<Rightarrow> string \<Rightarrow> db \<Rightarrow> db \<times> (err + changed_file list)" where
  "fetch_changed_files w rid db =
     (let r = the_run db rid in
      case capability (wk_registry w) (r_provider r) ''changed_files'' of
        None \<Rightarrow> (db, Inr [])
      | Some a \<Rightarrow>
          (case wk_changed_files w (ad_key a) r of
             Inr files \<Rightarrow> (db, Inr files)
           | Inl x \<Rightarrow>
               (if is_provider_error x
                then (upd_run rid (add_warning ''changed_files_lookup_failed'' (''Using summary-only fallback: '' @ err_text x)) db,
                      Inr [])
                else (db, Inl x))))"

definition changed_file_json :: "changed_file \<Rightarrow> json" where
  "changed_file_json f =
     JObj [(''path'', JStr (cf_path f)), (''commentable_lines'', JList (map JInt (cf_commentable_lines f)))]"

definition enqueue_review_line_comments :: "env \<Rightarrow> string \<Rightarrow> changed_file list \<Rightarrow> db \<Rightarrow> db \<times> (err + unit)" where
  "enqueue_review_line_comments e rid files db =
     (let r = the_run db rid in
      and_then (enqueue_delivery e rid (r_provider r) ''review_line_comments''
          (r_provider r @ '':'' @ r_repo_full_name r @ '':pr:'' @ show_int (r_pull_request_number r) @ '':line-comments'')
          (''review:'' @ rid @ '':line-comments:attempt:'' @ show_int (r_attempt r))
          [(''changed_files'', JList (map changed_file_json files)), (''final_status'', JStr ''completed''),
           (''final_stage'', JStr ''completed'')]
          True (Some (t_priority (the_task db rid))) 5 False db)
        (\<lambda>_ db1. (db1, Inr ())))"

definition line_comments_step :: "env \<Rightarrow> 'h worker \<Rightarrow> string \<Rightarrow> changed_file list \<Rightarrow> db \<Rightarrow> db \<times> (err + unit)" where
  "line_comments_step e w rid files db =
     (let r = the_run db rid in
      case get_or_create_review_config e (r_provider r) (r_repo_full_name r) ''code-review'' ''pr-assistant'' db of
        (db1, cid) \<Rightarrow>
          (if (case first_row (\<lambda>c. rc_id c = cid) (configs db1) of Some c \<Rightarrow> rc_line_comments_enabled c | None \<Rightarrow> False)
           then (if capability (wk_registry w) (r_provider r) ''line_comments'' \<noteq> None
                 then enqueue_review_line_comments e rid files db1
                 else (upd_run rid (add_warning ''line_comments_unsupported''
                         (''Provider '' @ repr_str (r_provider r) @
                          '' does not support line comments; the summary was queued for delivery.'')) db1, Inr ()))
           else (db1, Inr ())))"

definition wait_for_agent :: "time \<Rightarrow> task \<Rightarrow> task" where
  "wait_for_agent at t =
     t\<lparr>t_stage := (if t_stage t = Some ''waiting_for_human'' then t_stage t else Some (str_or (t_stage t) ''waiting_for_agent'')),
       t_available_at := at\<rparr>"

definition take_result :: "env \<Rightarrow> 'h worker \<Rightarrow> string \<Rightarrow> dict \<Rightarrow> db \<Rightarrow> db \<times> (err + unit)" where
  "take_result e w rid result db =
     and_then (fetch_changed_files w rid db)
       (\<lambda>files db1.
          case rolling_back db1 (collect_review_result e (wk_pydantic w) rid (RawObj result) files db1) of
            (db2, Inr _) \<Rightarrow> line_comments_step e w rid files db2
          | (db2, Inl x) \<Rightarrow>
              handling (db2, Inl x) (\<lambda>x db2.
                if t_execution_status (the_task db2 rid) \<noteq> ''failed''
                then fail_review e rid ''worker_exception'' (Some (err_text x))
                       (upd_task rid (\<lambda>t. t\<lparr>t_completed_at := Some (now e)\<rparr>) db2)
                else (db2, Inr ())))"

text \<open>The column holds what the runtime reported as the session's result, which is an object.\<close>

definition observe_step :: "env \<Rightarrow> 'h worker \<Rightarrow> string \<Rightarrow> db \<Rightarrow> db \<times> (err + unit)" where
  "observe_step e w rid db =
     and_then (sync_review_session e (wk_client w) (wk_diff w) rid db)
       (\<lambda>_ db1.
          let t = the_task db1 rid; r = the_run db1 rid in
          if t_status t = ''failed'' then retry_or_announce e (wk_settings w) rid db1
          else if t_status t = ''cancelled'' then (db1, Inr ())
          else (case (if r_agent_status r = Some ''completed'' then r_result_raw_json r else None) of
                  Some (JObj result) \<Rightarrow> take_result e w rid result db1
                | Some _ \<Rightarrow> (db1, Inl (TypeError ''the JSON object must be str, bytes or bytearray''))
                | None \<Rightarrow> (upd_task rid (wait_for_agent (now e + ws_poll_interval (wk_settings w))) db1, Inr ())))"

definition start_step :: "env \<Rightarrow> 'h worker \<Rightarrow> string \<Rightarrow> db \<Rightarrow> db \<times> (err + unit)" where
  "start_step e w rid db =
     (if has_text (r_agent_session_id (the_run db rid)) then observe_step e w rid db
      else and_then (start_review_session e (ws_sessions (wk_settings w)) (wk_client w) (wk_diff w) rid
               (r_workspace_path (the_run db rid)) db)
             (\<lambda>_ db1. if t_status (the_task db1 rid) = ''failed'' then retry_or_announce e (wk_settings w) rid db1
                      else observe_step e w rid db1))"

definition workspace_step :: "env \<Rightarrow> 'h worker \<Rightarrow> string \<Rightarrow> pull_request_context \<Rightarrow> db \<Rightarrow> db \<times> (err + unit)" where
  "workspace_step e w rid c db =
     (if has_text (r_workspace_path (the_run db rid)) then start_step e w rid db
      else (case prepare_for_context e w c db of
              (db1, Inl x) \<Rightarrow> fail_review e rid ''workspace_failed'' (Some (err_text x)) db1
            | (db1, Inr p) \<Rightarrow>
                (if pr_status p = ''failed''
                 then fail_review e rid (str_or (pr_failure_code p) ''workspace_failed'') (pr_failure_message p) db1
                 else start_step e w rid (upd_run rid (\<lambda>r. r\<lparr>r_workspace_path := Some (pr_workspace_path p)\<rparr>) db1))))"

definition comment_is_ready :: "comment_slot option \<Rightarrow> bool" where
  "comment_is_ready s = (case s of None \<Rightarrow> False | Some s \<Rightarrow> s_status s = ''ready'' \<and> has_text (s_provider_comment_id s))"

definition review_turn :: "env \<Rightarrow> 'h worker \<Rightarrow> string \<Rightarrow> db \<Rightarrow> db \<times> (err + unit)" where
  "review_turn e w rid db =
     (let slot = find_slot db rid in
      if \<not> comment_is_ready slot
      then and_then (ensure_review_placeholder_requested e rid
               (case slot of
                  Some s \<Rightarrow> (if s_status s = ''ready'' then upd_slot (s_id s) (\<lambda>s. s\<lparr>s_status := ''pending''\<rparr>) db else db)
                | None \<Rightarrow> db))
             (\<lambda>_ db1. (db1, Inr ()))
      else (case review_run_context db (the_run db rid) of
              None \<Rightarrow> fail_review e rid ''missing_pr_context'' (Some ''Pull request context is required for automatic execution.'') db
            | Some c \<Rightarrow> workspace_step e w rid c db))"

definition release_review_run_lock :: "env \<Rightarrow> string \<Rightarrow> db \<Rightarrow> db" where
  "release_review_run_lock e rid db = fst (release_task_claim e rid None None None db)"

definition worker_exception :: "env \<Rightarrow> string \<Rightarrow> err \<Rightarrow> db \<Rightarrow> db \<times> (err + unit)" where
  "worker_exception e rid x db =
     enqueue_review_comment_status e rid ''failed''
       (upd_run rid (\<lambda>r. r\<lparr>r_failure_code := Some (str_or (r_failure_code r) ''worker_exception''),
                          r_error := Some (str_or (r_error r) (err_text x))\<rparr>)
          (upd_task rid (failed_task (now e)) db))"

text \<open>\<open>finally\<close>: the claim is released unless the session is broken.\<close>

definition finally_release :: "env \<Rightarrow> string \<Rightarrow> db \<times> (err + unit) \<Rightarrow> db \<times> (err + unit)" where
  "finally_release e rid r =
     (case r of
        (db, Inl x) \<Rightarrow> (if breaks_session x then (db, Inl x) else (release_review_run_lock e rid db, Inl x))
      | (db, Inr v) \<Rightarrow> (release_review_run_lock e rid db, Inr v))"

definition run_review :: "env \<Rightarrow> 'h worker \<Rightarrow> string \<Rightarrow> db \<Rightarrow> db \<times> (err + unit)" where
  "run_review e w rid db =
     (case require_capability (wk_registry w) (r_provider (the_run db rid)) ''review_summary'' ''publish_review_summary'' of
        Inl x \<Rightarrow>
          (release_review_run_lock e rid
             (upd_run rid (\<lambda>r. r\<lparr>r_failure_code := Some ''provider_capability_missing'', r_error := Some (err_text x)\<rparr>)
                (upd_task rid (failed_task (now e)) db)), Inr ())
      | Inr _ \<Rightarrow> finally_release e rid (handling (review_turn e w rid db) (worker_exception e rid)))"

definition process_next_review_run :: "env \<Rightarrow> 'h worker \<Rightarrow> string \<Rightarrow> db \<Rightarrow> db \<times> (err + string option)" where
  "process_next_review_run e w worker db =
     and_then (acquire_next e (wk_settings w) ''review'' worker db)
       (\<lambda>claimed db1. case claimed of
          None \<Rightarrow> (db1, Inr None)
        | Some rid \<Rightarrow> and_then (run_review e w rid db1) (\<lambda>_ db2. (db2, Inr (Some rid))))"


section \<open>Claims are released\<close>

definition unclaimed :: "string \<Rightarrow> db \<Rightarrow> bool" where
  "unclaimed i db \<longleftrightarrow> list_all (\<lambda>l. l_task_id l \<noteq> i) (leases db) \<and>
     (case get_task db i of None \<Rightarrow> True | Some t \<Rightarrow> t_lock_owner t = None \<and> t_locked_until t = None)"

lemma release_unclaimed: "unclaimed i (fst (release_task_claim e i None delay t db))"
proof (cases "get_task (db\<lparr>leases := del_where (\<lambda>l. l_task_id l = i) (leases db)\<rparr>) i")
  case None
  then show ?thesis
    by (auto simp: release_task_claim_def unclaimed_def Let_def del_where_def list_all_iff)
next
  case (Some tk)
  moreover have "t_id tk = i" using Some first_row_SomeD unfolding get_task_def by fastforce
  ultimately show ?thesis
    by (auto simp: release_task_claim_def unclaimed_def Let_def del_where_def list_all_iff get_task_def upd_task_def
        first_row_upd_where split: option.splits)
qed

lemma run_review_releases:
  assumes "run_review e w rid db = (db', r)" and "case r of Inl x \<Rightarrow> \<not> breaks_session x | Inr _ \<Rightarrow> True"
  shows "unclaimed rid db'"
  using assms
  by (auto simp: run_review_def finally_release_def release_review_run_lock_def release_unclaimed
      split: sum.splits prod.splits if_splits)


section \<open>Starting the agent is retried finitely often\<close>

text \<open>
  A failed start that was put back for another attempt, up to the next time the start has failed; what
  happened in between may only have added warnings.
\<close>

inductive retry_step :: "worker_settings \<Rightarrow> string \<Rightarrow> db \<Rightarrow> db \<Rightarrow> bool" for st :: worker_settings and rid :: string where
  "get_run db rid \<noteq> None \<Longrightarrow> \<not> has_text (r_agent_session_id (the_run db rid)) \<Longrightarrow>
   schedule_pi_agent_retry e st rid db = (db1, True) \<Longrightarrow>
   start_retries (the_run db1 rid) \<le> start_retries (the_run db2 rid) \<Longrightarrow> retry_step st rid db db2"

inductive_cases retry_stepE: "retry_step st rid db db2"

lemma the_run_upd:
  assumes "get_run db rid = Some r" and "\<And>r. r_id (f r) = r_id r"
  shows "the_run (upd_run rid f db) rid = f r"
proof -
  have "r_id r = rid" using assms(1) first_row_SomeD unfolding get_run_def by fastforce
  with assms show ?thesis by (simp add: the_run_def get_run_def upd_run_def first_row_upd_where)
qed

lemma schedule_counts:
  assumes "get_run db rid \<noteq> None" and "\<not> has_text (r_agent_session_id (the_run db rid))"
    and "schedule_pi_agent_retry e st rid db = (db1, True)"
  shows "int (start_retries (the_run db rid)) < ws_retry_max_attempts st"
    "start_retries (the_run db1 rid) = Suc (start_retries (the_run db rid))"
proof -
  obtain r where r: "get_run db rid = Some r" using assms(1) by auto
  then have the_r: "the_run db rid = r" by (simp add: the_run_def)
  let ?f = "\<lambda>x. x\<lparr>r_agent_session_id := None, r_agent_status := None, r_agent_provider := None,
      r_agent_model := None, r_agent_thinking_level := None, r_failure_code := None, r_error := None,
      r_validation_warnings_json := Some (or_else (r_validation_warnings_json r) [] @ [start_retry_warning x])\<rparr>"
  have s: "int (start_retries r) < ws_retry_max_attempts st"
    "db1 = upd_run rid ?f (upd_task rid (resumed ''retrying_agent_start''
      (now e + seconds (ws_retry_initial_delay_seconds st * 2 ^ start_retries r))) db)"
    using assms(2,3) unfolding the_r by (auto simp: schedule_pi_agent_retry_def the_r Let_def split: if_splits)
  have "get_run (upd_task rid (resumed ''retrying_agent_start''
      (now e + seconds (ws_retry_initial_delay_seconds st * 2 ^ start_retries r))) db) rid = Some r"
    using r by (simp add: get_run_def)
  from the_run_upd[OF this, of ?f] have "the_run db1 rid = ?f r" unfolding s(2) by simp
  then show "start_retries (the_run db1 rid) = Suc (start_retries (the_run db rid))"
    by (simp add: start_retries_def the_r has_code_def start_retry_warning_def)
  show "int (start_retries (the_run db rid)) < ws_retry_max_attempts st" using s(1) the_r by simp
qed

lemma retry_step_counts:
  assumes "retry_step st rid db db2"
  shows "start_retries (the_run db rid) < start_retries (the_run db2 rid)"
    "int (start_retries (the_run db rid)) < ws_retry_max_attempts st"
  using assms schedule_counts by (fastforce elim: retry_stepE)+

text \<open>
  Starting the agent of a review is retried finitely often. After n starts that failed and were put back
  for another attempt, n is at most what the configured number of retries leaves; so retries never go on
  forever.
\<close>

theorem agent_start_retries_end:
  "((retry_step st rid ^^ n) db db' \<longrightarrow>
      int n \<le> max 0 (ws_retry_max_attempts st - int (start_retries (the_run db rid)))) \<and>
   wfp (\<lambda>later earlier. retry_step st rid earlier later)"
proof
  show "(retry_step st rid ^^ n) db db' \<longrightarrow>
      int n \<le> max 0 (ws_retry_max_attempts st - int (start_retries (the_run db rid)))"
  proof (induction n arbitrary: db)
    case (Suc n)
    show ?case
    proof
      assume "(retry_step st rid ^^ Suc n) db db'"
      then obtain db2 where "retry_step st rid db db2" "(retry_step st rid ^^ n) db2 db'"
        by (metis relpowp_Suc_E2)
      with Suc.IH[of db2] retry_step_counts[of st rid db db2]
      show "int (Suc n) \<le> max 0 (ws_retry_max_attempts st - int (start_retries (the_run db rid)))" by auto
    qed
  qed simp
  have "wfp (\<lambda>later earlier. nat (ws_retry_max_attempts st - int (start_retries (the_run later rid)))
      < nat (ws_retry_max_attempts st - int (start_retries (the_run earlier rid))))"
    by (rule wfp_if_convertible_to_nat[where f = "\<lambda>db. nat (ws_retry_max_attempts st - int (start_retries (the_run db rid)))"]) simp
  then show "wfp (\<lambda>later earlier. retry_step st rid earlier later)"
    by (rule wfp_subset) (use retry_step_counts in fastforce)
qed

section \<open>A worker to evaluate\<close>

definition sample_settings :: worker_settings where
  "sample_settings =
     \<lparr>ws_scheduler = \<lparr>task_resource_capacities = None, task_priority_aging_seconds = 300, task_scheduler_scan_limit = 64\<rparr>,
      ws_sessions = \<lparr>pi_agent_review_skill = ''code-review'', pi_agent_review_agent = ''code-review''\<rparr>,
      ws_workspace_root = ''ws'', ws_git_cache_root = ''cache'', ws_lock_seconds = 300, ws_poll_interval = seconds 5,
      ws_retry_max_attempts = 2, ws_retry_initial_delay_seconds = 60, ws_review_soft_timeout_seconds = 900,
      ws_review_timeout_seconds = 1800, ws_agent_command_skill = ''pr-assistant'', ws_agent_command_agent = ''pr-assistant'',
      ws_agent_soft_timeout_seconds = 120, ws_agent_timeout_seconds = 600, ws_max_history_turns = 6,
      ws_max_history_chars = 24000\<rparr>"

definition unreachable_client :: pi_client where
  "unreachable_client = \<lparr>pi_http = (\<lambda>m p b. NotReached ''down''), pi_validate = (\<lambda>j. Inl (ValueError ''x''))\<rparr>"

definition sample_worker :: "string list worker" where
  "sample_worker =
     \<lparr>wk_settings = sample_settings, wk_registry = sample_registry, wk_client = unreachable_client, wk_diff = (\<lambda>p. (None, False)),
      wk_host = leaky_host, wk_disk = [], wk_checkout = (\<lambda>k n u. Inr sample_checkout), wk_changed_files = (\<lambda>k r. Inr []),
      wk_pull_request = (\<lambda>k a. Inr None), wk_pydantic = sample_pydantic, wk_resolve = (\<lambda>p. p), wk_is_file = (\<lambda>p. True)\<rparr>"

definition sample_review_db :: db where
  "sample_review_db = empty_db\<lparr>
     tasks := [(new_task ''r1'' ''review'' 0)\<lparr>t_concurrency_key := Some ''k''\<rparr>],
     runs := [new_run ''r1'' ''gh'' ''o/r'' 1 ''head000'']\<rparr>"


definition failing_start :: "db \<Rightarrow> db" where
  "failing_start db = upd_run ''r1'' (\<lambda>r. r\<lparr>r_failure_code := Some ''pi_agent_infrastructure_error''\<rparr>) db"

definition retried_once :: db where
  "retried_once = failing_start (fst (schedule_pi_agent_retry (sample_env 5) sample_settings ''r1'' (failing_start sample_review_db)))"

theorem agent_start_retries_end_witness:
  "\<exists>db'. (retry_step sample_settings ''r1'' ^^ 2) (failing_start sample_review_db) db' \<and>
     int 2 \<le> max 0 (ws_retry_max_attempts sample_settings - int (start_retries (the_run (failing_start sample_review_db) ''r1'')))"
proof -
  have step: "retry_step sample_settings ''r1'' db (failing_start db1)"
    if "schedule_pi_agent_retry (sample_env 5) sample_settings ''r1'' db = (db1, True)" "get_run db ''r1'' \<noteq> None"
      "\<not> has_text (r_agent_session_id (the_run db ''r1''))" "start_retries (the_run db1 ''r1'') \<le> start_retries (the_run (failing_start db1) ''r1'')"
    for db db1 using that by (intro retry_step.intros)
  let ?a = "failing_start sample_review_db"
  have s: "snd (schedule_pi_agent_retry (sample_env 5) sample_settings ''r1'' ?a)"
    "snd (schedule_pi_agent_retry (sample_env 5) sample_settings ''r1'' retried_once)"
    "\<not> has_text (r_agent_session_id (the_run ?a ''r1''))" "\<not> has_text (r_agent_session_id (the_run retried_once ''r1''))"
    "get_run ?a ''r1'' \<noteq> None" "get_run retried_once ''r1'' \<noteq> None"
    "start_retries (the_run (fst (schedule_pi_agent_retry (sample_env 5) sample_settings ''r1'' ?a)) ''r1'') \<le>
       start_retries (the_run retried_once ''r1'')"
    "start_retries (the_run (fst (schedule_pi_agent_retry (sample_env 5) sample_settings ''r1'' retried_once)) ''r1'') \<le>
       start_retries (the_run (failing_start (fst (schedule_pi_agent_retry (sample_env 5) sample_settings ''r1'' retried_once))) ''r1'')"
    by code_simp+
  have one: "retry_step sample_settings ''r1'' ?a retried_once"
    using step[of ?a] s(1,3,5,7) unfolding retried_once_def by (metis prod.collapse)
  obtain db' where two: "retry_step sample_settings ''r1'' retried_once db'"
    using step[of retried_once] s(2,4,6,8) by (metis prod.collapse)
  from one two have chain: "(retry_step sample_settings ''r1'' ^^ 2) ?a db'" by (auto simp: numeral_2_eq_2)
  have "int 2 \<le> max 0 (ws_retry_max_attempts sample_settings - int (start_retries (the_run ?a ''r1'')))"
    using agent_start_retries_end[where st = sample_settings and rid = "''r1''" and n = 2 and db = ?a and db' = db'] chain by blast
  with chain show ?thesis by blast
qed

end
