(* ===== verification/Commands.thy ===== *)
theory Commands
  imports Worker "HOL-Library.Sublist"
begin

text \<open>
  The agent-task worker of \<open>application/worker.py\<close>: message commands move from their placeholder through
  workspace, agent session and result to a delivered comment, one turn per claim; mention tasks ask
  for a review. Comments are messages of the outbox.
\<close>

section \<open>Comments of a command\<close>

definition text_entry :: "string \<Rightarrow> string option \<Rightarrow> dict" where
  "text_entry k v = (case v of None \<Rightarrow> [] | Some s \<Rightarrow> [(k, JStr s)])"

definition enqueue_agent_task_comment ::
  "env \<Rightarrow> string \<Rightarrow> string \<Rightarrow> bool \<Rightarrow> (string \<times> string) option \<Rightarrow> (string \<times> string) option \<Rightarrow> bool \<Rightarrow> db \<Rightarrow> db \<times> (err + unit)" where
  "enqueue_agent_task_comment e tid state mandatory success final supersede db =
     (let a = the_agent db tid in
      and_then (enqueue_delivery e tid (a_provider a) ''agent_task_comment''
          (a_provider a @ '':'' @ a_repo_full_name a @ '':pr:'' @ show_int (a_pull_request_number a) @ '':task:'' @ tid)
          (''agent-task:'' @ tid @ '':comment:'' @ state @ '':attempt:'' @ show_int (a_attempt a))
          ([(''state'', JStr state)] @ text_entry ''success_status'' (map_option fst success) @
           text_entry ''success_stage'' (map_option snd success) @ text_entry ''final_status'' (map_option fst final) @
           text_entry ''final_stage'' (map_option snd final))
          mandatory (Some (t_priority (the_task db tid))) 5 supersede db)
        (\<lambda>_ db1. (db1, Inr ())))"

definition parked_command :: "string \<Rightarrow> string option \<Rightarrow> task \<Rightarrow> task" where
  "parked_command stage execution t =
     t\<lparr>t_status := ''awaiting_delivery'', t_stage := Some stage,
       t_execution_status := or_else execution (t_execution_status t)\<rparr>"

definition complete_command_agent_task :: "env \<Rightarrow> string \<Rightarrow> db \<Rightarrow> db \<times> (err + unit)" where
  "complete_command_agent_task e tid db =
     enqueue_agent_task_comment e tid ''completed'' True None (Some (''completed'', ''completed'')) True
       (upd_agent tid (\<lambda>a. a\<lparr>a_error_message := None, a_failure_code := None\<rparr>)
          (upd_task tid (parked_command ''result_delivery_pending'' (Some ''completed'')) db))"

definition fail_command_agent_task :: "env \<Rightarrow> string \<Rightarrow> string \<Rightarrow> string \<Rightarrow> db \<Rightarrow> db \<times> (err + unit)" where
  "fail_command_agent_task e tid failure_code msg db =
     enqueue_agent_task_comment e tid ''failed'' True None (Some (''failed'', ''failed'')) True
       (upd_agent tid (\<lambda>a. a\<lparr>a_failure_code := Some failure_code, a_error_message := Some msg\<rparr>)
          (upd_task tid (parked_command ''failure_delivery_pending'' (Some ''failed'')) db))"

definition cancel_command_agent_task :: "env \<Rightarrow> 'h worker \<Rightarrow> string \<Rightarrow> db \<Rightarrow> db \<times> (err + unit)" where
  "cancel_command_agent_task e w tid db =
     and_then
       (if has_text (a_agent_session_id (the_agent db tid))
        then (case cancel_session (wk_client w) (the (a_agent_session_id (the_agent db tid))) of
                Inl (PiAgentError m status) \<Rightarrow> (db, Inr ())
              | Inl x \<Rightarrow> (db, Inl x)
              | Inr s \<Rightarrow> archive_agent_session e (wk_diff w) tid s db)
        else (db, Inr ()))
       (\<lambda>_ db1. enqueue_agent_task_comment e tid ''cancelled'' True None (Some (''cancelled'', ''cancelled'')) True
          (upd_task tid (parked_command ''cancellation_delivery_pending'' (Some ''cancelled'')) db1))"

section \<open>The instruction\<close>

record history_item =
  hi_author_login :: string
  hi_command :: string
  hi_answer :: string
  hi_outcome :: string
  hi_head_sha :: string

record instruction =
  in_idempotency_key :: string
  in_workspace_path :: string
  in_provider :: string
  in_repo_full_name :: string
  in_pr_number :: int
  in_base_sha :: "string option"
  in_head_sha :: string
  in_text :: string
  in_author_login :: string
  in_source_url :: "string option"
  in_agent_task_id :: string
  in_history :: "history_item list"

definition outcomes :: "string list" where
  "outcomes = [''answered'', ''needs_clarification'', ''refused'']"

definition instruction_fields :: "instruction \<Rightarrow> bool" where
  "instruction_fields i \<longleftrightarrow>
     in_idempotency_key i \<noteq> [] \<and> length (in_idempotency_key i) \<le> 256 \<and> in_workspace_path i \<noteq> [] \<and>
     0 < in_pr_number i \<and> in_base_sha i \<noteq> None \<and> in_text i \<noteq> [] \<and> length (in_text i) \<le> 8000 \<and>
     in_author_login i \<noteq> [] \<and> length (in_author_login i) \<le> 255 \<and>
     in_agent_task_id i \<noteq> [] \<and> length (in_agent_task_id i) \<le> 36 \<and> length (in_history i) \<le> 6"

definition same_pr :: "agent_task \<Rightarrow> agent_task \<Rightarrow> bool" where
  "same_pr a b \<longleftrightarrow> a_provider a = a_provider b \<and> a_repo_full_name a = a_repo_full_name b \<and>
     a_pull_request_number a = a_pull_request_number b"

definition older_commands :: "db \<Rightarrow> string \<Rightarrow> agent_task list" where
  "older_commands db tid =
     filter (\<lambda>a. same_pr a (the_agent db tid) \<and> a_task_type a = ''message_command'' \<and>
        t_created_at (the_task db (a_id a)) < t_created_at (the_task db tid)) (agents db)"

definition answered_commands :: "db \<Rightarrow> string \<Rightarrow> agent_task list" where
  "answered_commands db tid =
     filter (\<lambda>a. t_status (the_task db (a_id a)) = ''completed'' \<and> a_result_text a \<noteq> None) (older_commands db tid)"

definition history_outcome :: "agent_task \<Rightarrow> string" where
  "history_outcome a =
     (case dget (or_else (a_result_json a) []) ''outcome'' of
        Some (JStr s) \<Rightarrow> (if s \<in> set outcomes then s else ''answered'')
      | _ \<Rightarrow> ''answered'')"

definition history_entry :: "pull_request_context \<Rightarrow> agent_task \<Rightarrow> history_item" where
  "history_entry c a =
     \<lparr>hi_author_login = str_or (a_source_author_login a) ''user'', hi_command = str_or (a_command_text a) [],
      hi_answer = str_or (a_result_text a) [], hi_outcome = history_outcome a, hi_head_sha = str_or (a_head_sha a) (c_head_sha c)\<rparr>"

definition entry_size :: "history_item \<Rightarrow> int" where
  "entry_size h = int (length (hi_command h) + length (hi_answer h))"

text \<open>Oldest first, each exchange that still fits into the remaining characters\<close>

fun fit_history :: "int \<Rightarrow> history_item list \<Rightarrow> history_item list" where
  "fit_history remaining [] = []"
| "fit_history remaining (h # hs) =
     (if remaining < entry_size h then fit_history remaining hs else h # fit_history (remaining - entry_size h) hs)"

definition recent_answers :: "db \<Rightarrow> string \<Rightarrow> int \<Rightarrow> agent_task list" where
  "recent_answers db tid turns =
     take (nat turns) (sort_key (\<lambda>a. - t_created_at (the_task db (a_id a))) (answered_commands db tid))"

definition build_history :: "worker_settings \<Rightarrow> pull_request_context \<Rightarrow> string \<Rightarrow> db \<Rightarrow> history_item list" where
  "build_history st c tid db =
     fit_history (ws_max_history_chars st) (map (history_entry c) (rev (recent_answers db tid (ws_max_history_turns st))))"

definition build_agent_instruction :: "worker_settings \<Rightarrow> pull_request_context \<Rightarrow> string \<Rightarrow> db \<Rightarrow> err + instruction" where
  "build_agent_instruction st c tid db =
     (let a = the_agent db tid;
          i = \<lparr>in_idempotency_key = ''agent-task:'' @ tid @ '':attempt:'' @ show_int (a_attempt a),
               in_workspace_path = str_or (a_workspace_path a) [], in_provider = a_provider a,
               in_repo_full_name = a_repo_full_name a, in_pr_number = a_pull_request_number a, in_base_sha = c_base_sha c,
               in_head_sha = str_or (a_head_sha a) (c_head_sha c), in_text = str_or (a_command_text a) [],
               in_author_login = str_or (a_source_author_login a) ''user'', in_source_url = a_source_url a,
               in_agent_task_id = tid, in_history = build_history st c tid db\<rparr>
      in if instruction_fields i then Inr i else Inl (ValueError ''invalid AgentInstructionInput''))"

definition history_json :: "history_item \<Rightarrow> json" where
  "history_json h =
     JObj [(''author_login'', JStr (hi_author_login h)), (''command'', JStr (hi_command h)), (''answer'', JStr (hi_answer h)),
       (''outcome'', JStr (hi_outcome h)), (''head_sha'', JStr (hi_head_sha h))]"

definition instruction_json :: "instruction \<Rightarrow> json" where
  "instruction_json i =
     JObj [(''repository_context'', JObj [(''provider'', JStr (in_provider i)), (''repo_full_name'', JStr (in_repo_full_name i)),
              (''pr_number'', JInt (in_pr_number i)), (''base_sha'', jopt (in_base_sha i)), (''head_sha'', JStr (in_head_sha i))]),
       (''instruction'', JObj ([(''text'', JStr (in_text i)), (''author_login'', JStr (in_author_login i)),
              (''history'', JList (map history_json (in_history i)))] @
           (if has_text (in_source_url i) then [(''source_url'', jopt (in_source_url i))] else []))),
       (''orchestration_context'', JObj [(''agent_task_id'', JStr (in_agent_task_id i))])]"

definition start_instruction_session :: "pi_client \<Rightarrow> instruction \<Rightarrow> preset \<Rightarrow> err + agent_session" where
  "start_instruction_session c i p =
     start_agent_session c p (in_workspace_path i) (instruction_json i) (Some (in_idempotency_key i))
       (Some (''PR #'' @ show_int (in_pr_number i) @ '' command from '' @ in_author_login i))"

section \<open>The result\<close>

record task_reference =
  tr_path :: string
  tr_line_start :: "int option"
  tr_line_end :: "int option"

record task_result =
  tr_outcome :: string
  tr_answer :: string
  tr_references :: "task_reference list"

definition validate_reference :: "pydantic \<Rightarrow> json \<Rightarrow> task_reference option" where
  "validate_reference py j =
     (case j of
        JObj kvs \<Rightarrow>
          (case (dget kvs ''path'', opt_pos_int py (dget kvs ''line_start''), opt_pos_int py (dget kvs ''line_end'')) of
             (Some (JStr p), Some a, Some b) \<Rightarrow>
               (if p \<noteq> [] \<and> length p \<le> 1024 \<and> (case (a, b) of (Some x, Some y) \<Rightarrow> x \<le> y | _ \<Rightarrow> True)
                then Some \<lparr>tr_path = p, tr_line_start = a, tr_line_end = b\<rparr> else None)
           | _ \<Rightarrow> None)
      | _ \<Rightarrow> None)"

definition validate_task_result :: "pydantic \<Rightarrow> dict option \<Rightarrow> task_result option" where
  "validate_task_result py d =
     (case d of
        None \<Rightarrow> None
      | Some kvs \<Rightarrow>
          (case (dget kvs ''outcome'', dget kvs ''answer'',
                 case dget kvs ''references'' of None \<Rightarrow> Some [] | Some (JList js) \<Rightarrow> validate_all (validate_reference py) js | _ \<Rightarrow> None) of
             (Some (JStr out), Some (JStr answer), Some refs) \<Rightarrow>
               (if out \<in> set outcomes \<and> answer \<noteq> [] \<and> length answer \<le> 30000 \<and> length refs \<le> 50
                then Some \<lparr>tr_outcome = out, tr_answer = answer, tr_references = refs\<rparr> else None)
           | _ \<Rightarrow> None))"

definition jline :: "int option \<Rightarrow> json" where
  "jline n = (case n of None \<Rightarrow> JNull | Some i \<Rightarrow> JInt i)"

definition task_result_json :: "task_result \<Rightarrow> dict" where
  "task_result_json r =
     [(''outcome'', JStr (tr_outcome r)), (''answer'', JStr (tr_answer r)),
      (''references'', JList (map (\<lambda>x. JObj [(''path'', JStr (tr_path x)), (''line_start'', jline (tr_line_start x)),
         (''line_end'', jline (tr_line_end x))]) (tr_references r)))]"

text \<open>
  \<open>wk_resolve\<close> is \<open>Path.resolve\<close>, \<open>wk_is_file\<close> is \<open>Path.is_file\<close> of a resolved path; a target is
  inside the workspace when the workspace's components are a prefix of its own.
\<close>

definition references_valid :: "'h worker \<Rightarrow> string option \<Rightarrow> task_result \<Rightarrow> bool" where
  "references_valid w workspace r \<longleftrightarrow>
     has_text workspace \<and>
     (let root = wk_resolve w (path_of (the workspace))
      in list_all (\<lambda>x. let target = wk_resolve w (path_join root (tr_path x))
                       in fst target = fst root \<and> take (length (snd root)) (snd target) = snd root \<and> wk_is_file w target)
           (tr_references r))"


section \<open>The context of a task\<close>

definition task_context :: "db \<Rightarrow> agent_task \<Rightarrow> pull_request_context option" where
  "task_context db a =
     (if has_text (a_pull_request_context_id a) then get_context db (the (a_pull_request_context_id a))
      else find_context db (a_provider a) (a_repo_full_name a) (a_pull_request_number a))"

definition hydrate_task_context :: "env \<Rightarrow> 'h worker \<Rightarrow> string \<Rightarrow> db \<Rightarrow> db \<times> (err + pull_request_context option)" where
  "hydrate_task_context e w tid db =
     (let a = the_agent db tid in
      case capability (wk_registry w) (a_provider a) ''pull_request'' of
        None \<Rightarrow> (db, Inr None)
      | Some ad \<Rightarrow>
          (case wk_pull_request w (ad_key ad) a of
             Inl x \<Rightarrow> (db, Inl x)
           | Inr None \<Rightarrow> (db, Inr None)
           | Inr (Some c) \<Rightarrow>
               (if find_context db (c_provider c) (c_repo_full_name c) (c_pull_request_number c) \<noteq> None
                then (db, Inl (IntegrityError ''uq_pr_context''))
                else (let c1 = c\<lparr>c_id := next_id e db\<rparr>
                      in (upd_agent tid (\<lambda>a. a\<lparr>a_pull_request_context_id := Some (c_id c1)\<rparr>)
                            (draw (db\<lparr>contexts := contexts db @ [c1]\<rparr>)), Inr (Some c1))))))"

text \<open>The context, or the failure code and message of the \<open>ProviderError\<close> that looking it up raised\<close>

definition lookup_context :: "env \<Rightarrow> 'h worker \<Rightarrow> string \<Rightarrow> db \<Rightarrow> db \<times> (err + (string + pull_request_context option))" where
  "lookup_context e w tid db =
     (case task_context db (the_agent db tid) of
        Some c \<Rightarrow> (db, Inr (Inr (Some c)))
      | None \<Rightarrow>
          (case hydrate_task_context e w tid db of
             (db1, Inl x) \<Rightarrow> (if is_provider_error x then (db1, Inr (Inl (err_text x))) else (db1, Inl x))
           | (db1, Inr c) \<Rightarrow> (db1, Inr (Inr c))))"

section \<open>One turn of a command\<close>

definition observed_agent :: "agent_session \<Rightarrow> agent_task \<Rightarrow> agent_task" where
  "observed_agent s a =
     a\<lparr>a_agent_status := Some (ag_status s), a_agent_provider := ag_provider s, a_agent_model := ag_model s,
       a_agent_thinking_level := ag_thinking_level s\<rparr>"

definition settle_session :: "env \<Rightarrow> 'h worker \<Rightarrow> string \<Rightarrow> agent_session \<Rightarrow> db \<Rightarrow> db \<times> (err + unit)" where
  "settle_session e w tid s db =
     and_then (archive_agent_session e (wk_diff w) tid s
         (upd_task tid (\<lambda>t. case ag_resolved_preset s of None \<Rightarrow> t | Some d \<Rightarrow> t\<lparr>t_resolved_preset_json := Some (JObj d)\<rparr>) db))
       (\<lambda>_ db1. let db2 = upd_agent tid (observed_agent s) db1 in
          if ag_status s = ''completed''
          then (case validate_task_result (wk_pydantic w) (ag_result s) of
                  Some r \<Rightarrow>
                    (if references_valid w (a_workspace_path (the_agent db2 tid)) r
                     then complete_command_agent_task e tid
                            (upd_agent tid (\<lambda>a. a\<lparr>a_result_text := Some (tr_answer r), a_result_json := Some (task_result_json r)\<rparr>) db2)
                     else fail_command_agent_task e tid ''invalid_result'' ''Agent returned an invalid structured task result.'' db2)
                | None \<Rightarrow> fail_command_agent_task e tid ''invalid_result'' ''Agent returned an invalid structured task result.'' db2)
          else if ag_status s \<in> {''failed'', ''cancelled''}
          then fail_command_agent_task e tid (if ag_status s = ''cancelled'' then ''agent_cancelled'' else ''agent_failed'')
                 (str_or (ag_error s) (''Agent session '' @ ag_status s @ ''.'')) db2
          else (upd_task tid (\<lambda>t. t\<lparr>t_status := ''running'', t_stage := Some ''waiting_for_agent''\<rparr>) db2, Inr ()))"

definition starting_task :: "env \<Rightarrow> worker_settings \<Rightarrow> task \<Rightarrow> task" where
  "starting_task e st t =
     (let started = or_else (t_started_at t) (now e)
      in t\<lparr>t_status := ''running'', t_stage := Some ''starting_agent'', t_started_at := Some started,
           t_deadline_at := Some (started + seconds (ws_agent_timeout_seconds st))\<rparr>)"

definition retry_agent_start :: "env \<Rightarrow> worker_settings \<Rightarrow> string \<Rightarrow> string \<Rightarrow> db \<Rightarrow> db" where
  "retry_agent_start e st tid msg db =
     upd_agent tid (\<lambda>a. a\<lparr>a_error_message := Some msg\<rparr>)
       (upd_task tid (\<lambda>t. t\<lparr>t_status := ''queued'', t_stage := Some ''retrying_agent_start'',
          t_available_at := now e + seconds (ws_retry_initial_delay_seconds st)\<rparr>) db)"

definition start_agent :: "env \<Rightarrow> 'h worker \<Rightarrow> string \<Rightarrow> pull_request_context \<Rightarrow> string \<Rightarrow> db \<Rightarrow> db \<times> (err + unit)" where
  "start_agent e w tid c skill db =
     (let st = wk_settings w; db1 = upd_task tid (starting_task e st) db in
      case build_agent_instruction st c tid db1 of
        Inl x \<Rightarrow> (db1, Inl x)
      | Inr i \<Rightarrow>
          (let db2 = upd_agent tid (\<lambda>a. a\<lparr>a_agent_start_attempts := a_agent_start_attempts a + 1\<rparr>) db1;
               p = \<lparr>pt_agent_id = ws_agent_command_agent st, pt_task_type = ''message-command'', pt_repository_skills = [skill]\<rparr>
           in if \<not> preset_fields p then (db2, Inl (ValueError ''invalid AgentDomainPreset''))
              else (let db3 = upd_task tid (\<lambda>t. t\<lparr>t_resolved_preset_json := Some (preset_json p)\<rparr>) db2
                    in case start_instruction_session (wk_client w) i p of
                         Inl (PiAgentError m status) \<Rightarrow>
                           (if infrastructure_failure status \<and> a_agent_start_attempts (the_agent db3 tid) < ws_retry_max_attempts st
                            then (retry_agent_start e st tid m db3, Inr ())
                            else fail_command_agent_task e tid ''agent_start_failed'' m db3)
                       | Inl x \<Rightarrow> (db3, Inl x)
                       | Inr s \<Rightarrow>
                           settle_session e w tid s
                             (upd_agent tid (\<lambda>a. a\<lparr>a_agent_session_id := Some (ag_id s), a_error_message := None\<rparr>) db3))))"

definition agent_step :: "env \<Rightarrow> 'h worker \<Rightarrow> string \<Rightarrow> pull_request_context \<Rightarrow> string \<Rightarrow> db \<Rightarrow> db \<times> (err + unit)" where
  "agent_step e w tid c skill db =
     (case a_agent_session_id (the_agent db tid) of
        None \<Rightarrow> start_agent e w tid c skill db
      | Some sid \<Rightarrow>
          (case get_session (wk_client w) sid of
             Inl (PiAgentError m status) \<Rightarrow> fail_command_agent_task e tid ''agent_sync_failed'' m db
           | Inl x \<Rightarrow> (db, Inl x)
           | Inr s \<Rightarrow> settle_session e w tid s db))"

definition checkout_step :: "env \<Rightarrow> 'h worker \<Rightarrow> string \<Rightarrow> pull_request_context \<Rightarrow> string \<Rightarrow> db \<Rightarrow> db \<times> (err + unit)" where
  "checkout_step e w tid c skill db =
     (if a_workspace_path (the_agent db tid) \<noteq> None then agent_step e w tid c skill db
      else (let db1 = upd_task tid (\<lambda>t. t\<lparr>t_status := ''running'', t_stage := Some ''preparing_workspace''\<rparr>) db
            in case prepare_for_context e w c db1 of
                 (db2, Inl x) \<Rightarrow> fail_command_agent_task e tid ''workspace_failed'' (err_text x) db2
               | (db2, Inr p) \<Rightarrow>
                   (if pr_status p = ''failed''
                    then fail_command_agent_task e tid (str_or (pr_failure_code p) ''workspace_failed'')
                           (str_or (pr_failure_message p) ''Workspace preparation failed.'') db2
                    else agent_step e w tid c skill
                           (upd_agent tid (\<lambda>a. a\<lparr>a_workspace_path := Some (pr_workspace_path p)\<rparr>) db2))))"

definition context_step :: "env \<Rightarrow> 'h worker \<Rightarrow> string \<Rightarrow> db \<Rightarrow> db \<times> (err + unit)" where
  "context_step e w tid db =
     and_then (lookup_context e w tid db)
       (\<lambda>found db1. case found of
          Inl m \<Rightarrow> fail_command_agent_task e tid ''provider_context_lookup_failed'' m db1
        | Inr None \<Rightarrow> fail_command_agent_task e tid ''missing_pr_context'' ''Pull request context was not found for message command.'' db1
        | Inr (Some c) \<Rightarrow>
            (if c_status c \<notin> {''open'', ''opened''}
             then fail_command_agent_task e tid ''pull_request_closed'' ''The pull request is no longer open.'' db1
             else (let a = the_agent db1 tid in
               case get_or_create_review_config e (a_provider a) (a_repo_full_name a) ''code-review''
                      (ws_agent_command_skill (wk_settings w)) db1 of
                 (db2, cid) \<Rightarrow>
                   (let config = the (first_row (\<lambda>x. rc_id x = cid) (configs db2)) in
                    if \<not> rc_agent_commands_enabled config
                    then fail_command_agent_task e tid ''agent_commands_disabled'' ''Agent commands are disabled for this repository.'' db2
                    else checkout_step e w tid c (rc_default_agent_command_skill config)
                           (upd_agent tid (\<lambda>a. a\<lparr>a_head_sha := Some (str_or (a_head_sha a) (c_head_sha c))\<rparr>) db2)))))"

definition waits_for_older :: "db \<Rightarrow> string \<Rightarrow> bool" where
  "waits_for_older db tid =
     list_ex (\<lambda>a. t_status (the_task db (a_id a)) \<in> {''queued'', ''running'', ''awaiting_delivery''}) (older_commands db tid)"

definition command_turn :: "env \<Rightarrow> 'h worker \<Rightarrow> string \<Rightarrow> db \<Rightarrow> db \<times> (err + unit)" where
  "command_turn e w tid db =
     (let a = the_agent db tid; t = the_task db tid in
      if a_response_comment_id a = None \<and> t_stage t = Some ''placeholder_pending''
      then enqueue_agent_task_comment e tid ''working'' True (Some (''queued'', ''placeholder_delivered'')) None False
             (upd_task tid (parked_command ''placeholder_delivery_pending'' None) db)
      else if t_stage t = Some ''cancellation_pending'' then cancel_command_agent_task e w tid db
      else if t_stage t = Some ''publishing_failure''
      then fail_command_agent_task e tid (str_or (a_failure_code a) ''agent_task_failed'')
             (str_or (a_error_message a) ''Agent task failed.'') db
      else if str_strip (str_or (a_command_text a) []) = []
      then complete_command_agent_task e tid
             (upd_agent tid (\<lambda>a. a\<lparr>a_result_text := Some ''Please include a request after the bot mention.'',
                a_result_json := Some [(''outcome'', JStr ''needs_clarification''),
                  (''answer'', JStr ''Please include a request after the bot mention.''), (''references'', JList [])]\<rparr>) db)
      else if waits_for_older db tid
      then enqueue_agent_task_comment e tid ''queued'' False None None False
             (upd_task tid (\<lambda>t. t\<lparr>t_status := ''queued'', t_stage := Some ''waiting_for_turn''\<rparr>) db)
      else context_step e w tid db)"

definition release_agent_task_lock :: "env \<Rightarrow> string \<Rightarrow> time \<Rightarrow> db \<Rightarrow> db" where
  "release_agent_task_lock e tid retry_after db =
     (case get_agent db tid of
        None \<Rightarrow> db
      | Some _ \<Rightarrow>
          (let t = the_task db tid;
               delay = (if t_stage t \<noteq> Some ''retrying_agent_start'' \<and> t_status t \<in> {''queued'', ''running''} \<and>
                           t_stage t \<in> Some ` {''waiting_for_turn'', ''waiting_for_agent'', ''publishing_result'',
                             ''publishing_failure'', ''cancellation_pending'', ''placeholder_pending''}
                        then Some retry_after else None)
           in fst (release_task_claim e tid None delay None db)))"

definition run_command :: "env \<Rightarrow> 'h worker \<Rightarrow> string \<Rightarrow> db \<Rightarrow> db \<times> (err + unit)" where
  "run_command e w tid db =
     (if capability (wk_registry w) (a_provider (the_agent db tid)) ''agent_task_comments'' = None
      then fail_command_agent_task e tid ''provider_capability_missing''
             (''Provider '' @ repr_str (a_provider (the_agent db tid)) @ '' does not support agent task comment publishing.'') db
      else (case handling (rolling_back db (command_turn e w tid db))
                   (\<lambda>x db1. fail_command_agent_task e tid ''agent_task_failed'' (err_text x) db1) of
              (db1, Inl x) \<Rightarrow>
                (if breaks_session x then (db1, Inl x)
                 else (release_agent_task_lock e tid (ws_poll_interval (wk_settings w)) db1, Inl x))
            | (db1, Inr v) \<Rightarrow> (release_agent_task_lock e tid (ws_poll_interval (wk_settings w)) db1, Inr v)))"


section \<open>Mention tasks\<close>

definition mention_event :: "env \<Rightarrow> string \<Rightarrow> string \<Rightarrow> pull_request_context \<Rightarrow> provider_event" where
  "mention_event e ident tid c =
     (let delivery_id = ''agent-task:'' @ tid @ '':review-request'' in
      (new_event ident (now e) ''internal'' delivery_id ''review_request'' delivery_id (sha256 e delivery_id)
         [(''schema_version'', JStr ''1''), (''trigger_type'', JStr ''mention''), (''source_agent_task_id'', JStr tid),
          (''target_provider'', JStr (c_provider c))])
        \<lparr>ev_provider_action := Some ''mention'', ev_internal_event := Some ''review_requested'',
         ev_repo_full_name := Some (c_repo_full_name c), ev_pull_request_number := Some (c_pull_request_number c),
         ev_head_sha := Some (c_head_sha c), ev_coalesce_key := Some (''review-request:agent-task:'' @ tid),
         ev_status := ''received''\<rparr>)"

definition review_request_event_for_agent_task :: "env \<Rightarrow> string \<Rightarrow> pull_request_context \<Rightarrow> db \<Rightarrow> db \<times> (err + string)" where
  "review_request_event_for_agent_task e tid c db =
     (let known = a_provider_event_id (the_agent db tid) in
      if has_text known \<and> get_event db (the known) \<noteq> None then (db, Inr (the known))
      else (let ident = next_id e db; v = mention_event e ident tid c
            in if get_provider_event db ''internal'' (ev_delivery_id v) \<noteq> None
               then (db, Inl (IntegrityError ''uq_provider_delivery''))
               else (upd_agent tid (\<lambda>a. a\<lparr>a_provider_event_id := Some ident\<rparr>) (draw (db\<lparr>inbox := inbox db @ [v]\<rparr>)), Inr ident)))"

definition mention_request :: "string \<Rightarrow> string \<Rightarrow> review_request" where
  "mention_request eid cid =
     \<lparr>qs_reason = ''mention'', qs_trigger_event_id = eid, qs_pull_request_context_id = cid, qs_source_run_id = None,
      qs_dedupe_key = None\<rparr>"

definition request_mentioned :: "env \<Rightarrow> string \<Rightarrow> pull_request_context \<Rightarrow> db \<Rightarrow> db \<times> (err + string \<times> string)" where
  "request_mentioned e tid c db =
     rolling_back db (and_then (review_request_event_for_agent_task e tid c db)
       (\<lambda>eid db1. and_then (handle_review_requested e (mention_request eid (c_id c)) db1)
         (\<lambda>(rid, _) db2. (db2, Inr (eid, rid)))))"

definition link_event :: "env \<Rightarrow> string \<Rightarrow> string \<Rightarrow> db \<Rightarrow> db" where
  "link_event e eid rid db =
     upd_event eid (\<lambda>v. v\<lparr>ev_status := ''queued'', ev_review_run_id := Some rid, ev_processed_at := Some (now e)\<rparr>) db"

definition fail_agent_task :: "env \<Rightarrow> string \<Rightarrow> string \<Rightarrow> string \<Rightarrow> db \<Rightarrow> db \<times> (err + unit)" where
  "fail_agent_task e tid failure_code msg db =
     (let db1 = upd_agent tid (\<lambda>a. a\<lparr>a_failure_code := Some failure_code, a_error_message := Some msg\<rparr>)
            (upd_task tid (\<lambda>t. t\<lparr>t_status := ''failed''\<rparr>) db)
      in case task_context db1 (the_agent db1 tid) of
           None \<Rightarrow> (db1, Inr ())
         | Some c \<Rightarrow>
             handling (and_then (request_mentioned e tid c db1)
                 (\<lambda>(eid, rid) db2.
                    enqueue_review_comment_status e rid ''failed''
                      (link_event e eid rid
                        (upd_run rid (\<lambda>r. r\<lparr>r_failure_code := Some failure_code, r_error := Some msg\<rparr>)
                          (upd_task rid (failed_task (now e)) db2)))))
               (\<lambda>x db2. (upd_agent tid (\<lambda>a. a\<lparr>a_result_json :=
                    Some (dict_put ''summary_publish_error'' (JStr (err_text x)) (or_else (a_result_json a) []))\<rparr>) db2, Inr ())))"

definition mention_turn :: "env \<Rightarrow> 'h worker \<Rightarrow> string \<Rightarrow> db \<Rightarrow> db \<times> (err + unit)" where
  "mention_turn e w tid db =
     and_then (lookup_context e w tid db)
       (\<lambda>found db1. case found of
          Inl m \<Rightarrow> fail_agent_task e tid ''provider_context_lookup_failed'' m db1
        | Inr None \<Rightarrow> fail_agent_task e tid ''missing_pr_context'' ''Pull request context was not found for mention task.'' db1
        | Inr (Some c) \<Rightarrow>
            and_then (request_mentioned e tid c db1)
              (\<lambda>(eid, rid) db2.
                 (upd_agent tid (\<lambda>a. a\<lparr>a_result_json :=
                      Some [(''review_run_id'', JStr rid), (''status'', JStr (t_status (the_task db2 rid)))]\<rparr>)
                    (upd_task tid (\<lambda>t. t\<lparr>t_status := ''completed''\<rparr>) (link_event e eid rid db2)), Inr ())))"

definition run_mention :: "env \<Rightarrow> 'h worker \<Rightarrow> string \<Rightarrow> string \<Rightarrow> db \<Rightarrow> db \<times> (err + unit)" where
  "run_mention e w worker tid db =
     handling (mention_turn e w tid (upd_agent tid (\<lambda>a. a\<lparr>a_result_json := Some [(''worker_id'', JStr worker)]\<rparr>) db))
       (\<lambda>x db1. fail_agent_task e tid ''agent_task_failed'' (err_text x) db1)"

text \<open>The worker runs with its settings and a client of the agent runtime.\<close>

definition process_next_agent_task :: "env \<Rightarrow> 'h worker \<Rightarrow> string \<Rightarrow> db \<Rightarrow> db \<times> (err + string option)" where
  "process_next_agent_task e w worker db =
     and_then (acquire_next e (wk_settings w) ''agent'' worker db)
       (\<lambda>claimed db1. case claimed of
          None \<Rightarrow> (db1, Inr None)
        | Some tid \<Rightarrow>
            and_then (if a_task_type (the_agent db1 tid) = ''message_command'' then run_command e w tid db1
                      else run_mention e w worker tid db1)
              (\<lambda>_ db2. (db2, Inr (Some tid))))"


section \<open>The history of an instruction\<close>

lemma fit_history_bounds:
  "0 \<le> remaining \<Longrightarrow> sum_list (map entry_size (fit_history remaining hs)) \<le> remaining"
  by (induction remaining hs rule: fit_history.induct) auto

lemma fit_history_sub:
  "\<exists>as'. fit_history remaining (map f as) = map f as' \<and> subseq as' as"
proof (induction as arbitrary: remaining)
  case (Cons a as)
  show ?case
  proof (cases "remaining < entry_size (f a)")
    case True
    with Cons.IH[of remaining] show ?thesis by auto
  next
    case False
    obtain as' where "fit_history (remaining - entry_size (f a)) (map f as) = map f as'" "subseq as' as"
      using Cons.IH by blast
    with False show ?thesis by (intro exI[of _ "a # as'"]) simp
  qed
qed simp

lemma subseq_set_subset: "subseq xs ys \<Longrightarrow> set xs \<subseteq> set ys"
  by (induction rule: list_emb.induct) auto

lemma sorted_subseq: "subseq xs ys \<Longrightarrow> sorted ys \<Longrightarrow> sorted xs"
  by (induction rule: list_emb.induct) (auto dest: subseq_set_subset)

lemma recent_answers_sorted:
  "sorted (map (\<lambda>a. t_created_at (the_task db (a_id a))) (rev (recent_answers db tid turns)))"
proof -
  let ?k = "\<lambda>a. t_created_at (the_task db (a_id a))"
  have "sorted (map (\<lambda>a. - ?k a) (recent_answers db tid turns))"
    unfolding recent_answers_def take_map[symmetric] by (intro sorted_wrt_take) simp
  then show ?thesis
    unfolding rev_map[symmetric] sorted_rev_iff_nth_mono by (simp add: sorted_iff_nth_mono)
qed

text \<open>
  C14. The history an instruction carries stays within its budgets: at most the configured number of turns
  and of characters, oldest first, and only completed, older commands of the same pull request. When more
  than six turns fit, the instruction is refused.
\<close>

theorem agent_history_stays_within_its_budget:
  assumes "0 \<le> ws_max_history_chars st"
  shows "(\<exists>as. build_history st c tid db = map (history_entry c) as \<and> int (length as) \<le> max 0 (ws_max_history_turns st) \<and>
       sum_list (map entry_size (build_history st c tid db)) \<le> ws_max_history_chars st \<and>
       sorted (map (\<lambda>a. t_created_at (the_task db (a_id a))) as) \<and> set as \<subseteq> set (answered_commands db tid)) \<and>
     (6 < length (build_history st c tid db) \<longrightarrow> (\<exists>x. build_agent_instruction st c tid db = Inl x))"
proof (intro conjI impI)
  let ?recent = "rev (recent_answers db tid (ws_max_history_turns st))"
  obtain as where as: "build_history st c tid db = map (history_entry c) as" "subseq as ?recent"
    using fit_history_sub[of "ws_max_history_chars st" "history_entry c" ?recent] by (auto simp: build_history_def)
  have "length as \<le> length ?recent" using as(2) by (rule list_emb_length)
  also have "length ?recent \<le> nat (ws_max_history_turns st)" by (simp add: recent_answers_def)
  finally have "int (length as) \<le> max 0 (ws_max_history_turns st)" by linarith
  moreover have "sorted (map (\<lambda>a. t_created_at (the_task db (a_id a))) as)"
    using sorted_subseq[OF subseq_map[OF as(2)] recent_answers_sorted] .
  moreover have "set as \<subseteq> set (answered_commands db tid)"
    using subseq_set_subset[OF as(2)] set_take_subset[of "nat (ws_max_history_turns st)"]
    by (fastforce simp: recent_answers_def)
  moreover have budget: "sum_list (map entry_size (build_history st c tid db)) \<le> ws_max_history_chars st"
    unfolding build_history_def by (rule fit_history_bounds[OF assms])
  ultimately show "\<exists>as. build_history st c tid db = map (history_entry c) as \<and> int (length as) \<le> max 0 (ws_max_history_turns st) \<and>
       sum_list (map entry_size (build_history st c tid db)) \<le> ws_max_history_chars st \<and>
       sorted (map (\<lambda>a. t_created_at (the_task db (a_id a))) as) \<and> set as \<subseteq> set (answered_commands db tid)"
    using as(1) budget by (intro exI[of _ as] conjI)
  assume "6 < length (build_history st c tid db)"
  then show "\<exists>x. build_agent_instruction st c tid db = Inl x"
    by (auto simp: build_agent_instruction_def Let_def instruction_fields_def)
qed

definition sample_commands_db :: db where
  "sample_commands_db = empty_db\<lparr>
     tasks := [(new_task ''a1'' ''agent'' 1)\<lparr>t_status := ''completed''\<rparr>, (new_task ''a2'' ''agent'' 2)\<lparr>t_status := ''completed''\<rparr>,
               new_task ''a3'' ''agent'' 3],
     agents := [(new_agent_task ''a1'' ''gh'' ''o/r'' 1)\<lparr>a_task_type := ''message_command'', a_command_text := Some ''long question'',
                  a_result_text := Some ''answer''\<rparr>,
                (new_agent_task ''a2'' ''gh'' ''o/r'' 1)\<lparr>a_task_type := ''message_command'', a_command_text := Some ''q'',
                  a_result_text := Some ''a''\<rparr>,
                (new_agent_task ''a3'' ''gh'' ''o/r'' 1)\<lparr>a_task_type := ''message_command''\<rparr>]\<rparr>"

theorem agent_history_stays_within_its_budget_witness:
  "\<exists>as. build_history (sample_settings\<lparr>ws_max_history_chars := 4\<rparr>) (new_context ''c1'' 0 ''gh'' ''o/r'' 1 ''h1'') ''a3'' sample_commands_db =
       map (history_entry (new_context ''c1'' 0 ''gh'' ''o/r'' 1 ''h1'')) as \<and> length as = 1 \<and>
     sum_list (map entry_size (build_history (sample_settings\<lparr>ws_max_history_chars := 4\<rparr>)
       (new_context ''c1'' 0 ''gh'' ''o/r'' 1 ''h1'') ''a3'' sample_commands_db)) \<le> 4"
proof -
  let ?st = "sample_settings\<lparr>ws_max_history_chars := 4\<rparr>" and ?c = "new_context ''c1'' 0 ''gh'' ''o/r'' 1 ''h1''"
  have "0 \<le> ws_max_history_chars ?st" and four: "ws_max_history_chars ?st = 4" by simp_all
  from agent_history_stays_within_its_budget[OF this(1), of ?c "''a3''" sample_commands_db] obtain as where
    as: "build_history ?st ?c ''a3'' sample_commands_db = map (history_entry ?c) as"
      "sum_list (map entry_size (build_history ?st ?c ''a3'' sample_commands_db)) \<le> 4"
    unfolding four by (elim conjE exE)
  have "length (build_history ?st ?c ''a3'' sample_commands_db) = 1" by code_simp
  with as show ?thesis by (intro exI[of _ as]) simp
qed

section \<open>Claims are released\<close>

lemma run_command_releases:
  assumes "run_command e w tid db = (db', r)" and "case r of Inl x \<Rightarrow> \<not> breaks_session x | Inr _ \<Rightarrow> True"
    and "capability (wk_registry w) (a_provider (the_agent db tid)) ''agent_task_comments'' \<noteq> None"
    and "get_agent db' tid \<noteq> None"
  shows "unclaimed tid db'"
proof -
  obtain db1 o1 where t: "handling (rolling_back db (command_turn e w tid db))
      (\<lambda>x db1. fail_command_agent_task e tid ''agent_task_failed'' (err_text x) db1) = (db1, o1)" by fastforce
  have "o1 = r \<and> db' = (if (case o1 of Inl x \<Rightarrow> breaks_session x | Inr _ \<Rightarrow> False) then db1
      else release_agent_task_lock e tid (ws_poll_interval (wk_settings w)) db1)"
    using assms(1,3) by (auto simp: run_command_def t split: sum.splits if_splits)
  with assms(2) have db': "db' = release_agent_task_lock e tid (ws_poll_interval (wk_settings w)) db1"
    by (cases r) auto
  have "get_agent db1 tid \<noteq> None"
    using assms(4) unfolding db' by (auto simp: release_agent_task_lock_def split: option.splits)
  then show ?thesis
    unfolding db' release_agent_task_lock_def Let_def by (auto simp: release_unclaimed)
qed

text \<open>
  C11. A worker's turn gives back what it claimed. After a review worker has run a claimed review, and after
  an agent worker has run a claimed message command whose provider can publish its comments, whatever
  the turn did and whether it raised, the task has no lock and holds no resource. The one exception is a
  turn that broke the database session.
\<close>

theorem worker_gives_back_its_claim:
  assumes "case r of Inl x \<Rightarrow> \<not> breaks_session x | Inr _ \<Rightarrow> True"
  shows "(acquire_next e (wk_settings w) ''review'' name db = (db1, Inr (Some i)) \<and>
        process_next_review_run e w name db = (db', r) \<longrightarrow> unclaimed i db') \<and>
     (acquire_next e (wk_settings w) ''agent'' name db = (db1, Inr (Some i)) \<and>
        a_task_type (the_agent db1 i) = ''message_command'' \<and>
        capability (wk_registry w) (a_provider (the_agent db1 i)) ''agent_task_comments'' \<noteq> None \<and>
        get_agent db' i \<noteq> None \<and> process_next_agent_task e w name db = (db', r) \<longrightarrow> unclaimed i db')"
proof (intro conjI impI; elim conjE)
  assume a: "acquire_next e (wk_settings w) ''review'' name db = (db1, Inr (Some i))"
    and p: "process_next_review_run e w name db = (db', r)"
  obtain db2 o2 where t: "run_review e w i db1 = (db2, o2)" by fastforce
  have "db2 = db' \<and> (case o2 of Inl x \<Rightarrow> \<not> breaks_session x | Inr _ \<Rightarrow> True)"
    using p assms by (cases o2) (auto simp: process_next_review_run_def a t)
  with run_review_releases[OF t] show "unclaimed i db'" by simp
next
  assume a: "acquire_next e (wk_settings w) ''agent'' name db = (db1, Inr (Some i))"
    and k: "a_task_type (the_agent db1 i) = ''message_command''"
    and c: "capability (wk_registry w) (a_provider (the_agent db1 i)) ''agent_task_comments'' \<noteq> None"
    and g: "get_agent db' i \<noteq> None" and p: "process_next_agent_task e w name db = (db', r)"
  obtain db2 o2 where t: "run_command e w i db1 = (db2, o2)" by fastforce
  have "db2 = db' \<and> (case o2 of Inl x \<Rightarrow> \<not> breaks_session x | Inr _ \<Rightarrow> True)"
    using p assms by (cases o2) (auto simp: process_next_agent_task_def a t k)
  with run_command_releases[OF t _ c] g show "unclaimed i db'" by simp
qed


theorem worker_gives_back_its_claim_witness:
  "\<exists>db1 db'. acquire_next (sample_env 5) sample_settings ''review'' ''w'' sample_review_db = (db1, Inr (Some ''r1'')) \<and>
     \<not> unclaimed ''r1'' db1 \<and>
     process_next_review_run (sample_env 5) sample_worker ''w'' sample_review_db = (db', Inr (Some ''r1'')) \<and> unclaimed ''r1'' db'"
proof -
  let ?a = "acquire_next (sample_env 5) sample_settings ''review'' ''w'' sample_review_db"
  let ?p = "process_next_review_run (sample_env 5) sample_worker ''w'' sample_review_db"
  have "snd ?a = Inr (Some ''r1'') \<and> \<not> unclaimed ''r1'' (fst ?a)" by code_simp
  then obtain db1 where a: "?a = (db1, Inr (Some ''r1''))" "\<not> unclaimed ''r1'' db1" by (cases ?a) simp
  have "snd ?p = Inr (Some ''r1'')" by code_simp
  then obtain db' where p: "?p = (db', Inr (Some ''r1''))" by (cases ?p) simp
  have s: "wk_settings sample_worker = sample_settings" by (simp add: sample_worker_def)
  have "unclaimed ''r1'' db'"
    using worker_gives_back_its_claim[of "Inr (Some ''r1'')" "sample_env 5" sample_worker "''w''" sample_review_db db1 "''r1''" db']
      a p s by simp
  with a p show ?thesis by (intro exI conjI)
qed

end
