(* ===== verification/Timeouts.thy ===== *)
theory Timeouts
  imports Commands
begin

text \<open>
  Timeouts of \<open>application/worker.py\<close>: a review that runs too long is announced as delayed and then
  failed, with one internal event each; an agent command is warned about and then failed. A mark on
  the row records that a timeout has been emitted.
\<close>

section \<open>Reviews\<close>

datatype timeout_kind = Soft | Hard

fun kind_text :: "timeout_kind \<Rightarrow> string" where
  "kind_text Soft = ''soft''"
| "kind_text Hard = ''hard''"

definition timeout_event_name :: "timeout_kind \<Rightarrow> string" where
  "timeout_event_name k = ''review_run.'' @ kind_text k @ ''_timeout''"

fun timeout_mark :: "timeout_kind \<Rightarrow> review_run \<Rightarrow> time option" where
  "timeout_mark Soft r = r_soft_timeout_emitted_at r"
| "timeout_mark Hard r = r_hard_timeout_emitted_at r"

fun set_timeout_mark :: "timeout_kind \<Rightarrow> time \<Rightarrow> review_run \<Rightarrow> review_run" where
  "set_timeout_mark Soft t0 r = r\<lparr>r_soft_timeout_emitted_at := Some t0\<rparr>"
| "set_timeout_mark Hard t0 r =
     r\<lparr>r_hard_timeout_emitted_at := Some t0, r_failure_code := Some ''hard_timeout'',
       r_error := Some ''Review run exceeded hard timeout.''\<rparr>"

fun timed_out_task :: "timeout_kind \<Rightarrow> time \<Rightarrow> task \<Rightarrow> task" where
  "timed_out_task Soft t0 t = t\<lparr>t_stage := Some (timeout_event_name Soft)\<rparr>"
| "timed_out_task Hard t0 t =
     t\<lparr>t_stage := Some (timeout_event_name Hard), t_status := ''failed'', t_completed_at := Some t0, t_lock_owner := None,
       t_locked_until := None\<rparr>"

definition timeout_event :: "env \<Rightarrow> string \<Rightarrow> review_run \<Rightarrow> timeout_kind \<Rightarrow> time \<Rightarrow> provider_event" where
  "timeout_event e ident r k t0 =
     (let name = timeout_event_name k in
      (new_event ident (now e) ''internal'' (r_id r @ '':'' @ name) ''review_run'' (''internal:'' @ r_id r @ '':'' @ name)
         (sha256 e (r_id r @ [CHR 0x0A] @ name)) [(''review_run_id'', JStr (r_id r)), (''timeout_kind'', JStr (kind_text k))])
        \<lparr>ev_provider_action := Some (kind_text k), ev_internal_event := Some name, ev_repo_full_name := Some (r_repo_full_name r),
         ev_pull_request_number := Some (r_pull_request_number r), ev_head_sha := Some (r_head_sha r),
         ev_coalesce_key := Some (''internal:'' @ r_provider r @ '':'' @ r_repo_full_name r @ '':'' @
           show_int (r_pull_request_number r) @ '':timeout''),
         ev_status := ''received'', ev_review_run_id := Some (r_id r), ev_processed_at := Some t0\<rparr>)"

definition get_internal_event :: "db \<Rightarrow> string \<Rightarrow> string \<Rightarrow> provider_event option" where
  "get_internal_event db rid name =
     first_row (\<lambda>v. ev_provider v = ''internal'' \<and> ev_review_run_id v = Some rid \<and> ev_internal_event v = Some name) (inbox db)"

definition emit_timeout_event :: "env \<Rightarrow> string \<Rightarrow> timeout_kind \<Rightarrow> time \<Rightarrow> db \<Rightarrow> db \<times> (err + string option)" where
  "emit_timeout_event e rid k t0 db =
     (case get_run db rid of
        None \<Rightarrow> (db, Inr None)
      | Some r \<Rightarrow>
          (if t_status (the_task db rid) \<in> set terminal_statuses then (db, Inr None)
           else if timeout_mark k r \<noteq> None
           then (db, Inr (map_option ev_id (get_internal_event db rid (timeout_event_name k))))
           else (let ident = next_id e db; v = timeout_event e ident r k t0
                 in if get_provider_event db ''internal'' (ev_delivery_id v) \<noteq> None
                    then (db, Inl (IntegrityError ''uq_provider_delivery''))
                    else (upd_run rid (set_timeout_mark k t0)
                            (upd_task rid (timed_out_task k t0) (draw (db\<lparr>inbox := inbox db @ [v]\<rparr>))), Inr (Some ident)))))"

definition cancel_after_hard_timeout :: "'h worker \<Rightarrow> string \<Rightarrow> db \<Rightarrow> db \<times> (err + unit)" where
  "cancel_after_hard_timeout w rid db =
     (let r = the_run db rid in
      if \<not> has_text (r_agent_session_id r) then (db, Inr ())
      else (case cancel_session (wk_client w) (the (r_agent_session_id r)) of
              Inl (PiAgentError m status) \<Rightarrow>
                (upd_run rid (\<lambda>r. r\<lparr>r_error := Some (str_or (r_error r) ''Review run exceeded hard timeout.'' @
                    '' pi-agent cleanup failed: '' @ m)\<rparr>) db, Inr ())
            | Inl x \<Rightarrow> (db, Inl x)
            | Inr s \<Rightarrow> (db, Inr ())))"

definition overdue :: "db \<Rightarrow> string \<Rightarrow> int \<Rightarrow> timeout_kind \<Rightarrow> time \<Rightarrow> bool" where
  "overdue db rid limit k t0 \<longleftrightarrow>
     (let t = the_task db rid
      in seconds limit \<le> t0 - or_else (t_started_at t) (t_created_at t) \<and> timeout_mark k (the_run db rid) = None)"

definition time_out_review :: "env \<Rightarrow> 'h worker \<Rightarrow> time \<Rightarrow> string \<Rightarrow> db \<Rightarrow> db \<times> (err + bool)" where
  "time_out_review e w t0 rid db =
     (if overdue db rid (ws_review_timeout_seconds (wk_settings w)) Hard t0
      then and_then (emit_timeout_event e rid Hard t0 db)
             (\<lambda>_ db1. and_then (cancel_after_hard_timeout w rid db1)
                (\<lambda>_ db2. and_then (enqueue_review_comment_status e rid ''failed'' db2) (\<lambda>_ db3. (db3, Inr True))))
      else if overdue db rid (ws_review_soft_timeout_seconds (wk_settings w)) Soft t0
      then and_then (emit_timeout_event e rid Soft t0 db)
             (\<lambda>_ db1. and_then (enqueue_review_comment_status e rid ''delayed'' db1) (\<lambda>_ db2. (db2, Inr True)))
      else (db, Inr False))"

fun time_out_all :: "(string \<Rightarrow> db \<Rightarrow> db \<times> (err + bool)) \<Rightarrow> string list \<Rightarrow> db \<Rightarrow> db \<times> (err + string list)" where
  "time_out_all step [] db = (db, Inr [])"
| "time_out_all step (i # is) db =
     and_then (step i db) (\<lambda>touched db1. and_then (time_out_all step is db1)
       (\<lambda>rest db2. (db2, Inr (if touched then i # rest else rest))))"

definition active_runs :: "db \<Rightarrow> string list" where
  "active_runs db = map r_id (filter (\<lambda>r. t_status (the_task db (r_id r)) \<in> {''queued'', ''running''}) (runs db))"

definition process_review_run_timeouts :: "env \<Rightarrow> 'h worker \<Rightarrow> time option \<Rightarrow> db \<Rightarrow> db \<times> (err + string list)" where
  "process_review_run_timeouts e w at db = time_out_all (time_out_review e w (or_else at (now e))) (active_runs db) db"

section \<open>Commands\<close>

definition watched_commands :: "db \<Rightarrow> string list" where
  "watched_commands db =
     map a_id (filter (\<lambda>a. a_task_type a = ''message_command'' \<and>
        (let t = the_task db (a_id a)
         in t_status t \<in> {''queued'', ''running''} \<and>
            t_stage t \<in> Some ` {''starting_agent'', ''waiting_for_agent'', ''retrying_agent_start''} \<and> t_started_at t \<noteq> None))
       (agents db))"

text \<open>An error of the runtime client is ignored.\<close>

definition stop_command :: "'h worker \<Rightarrow> string option \<Rightarrow> db \<Rightarrow> db \<times> (err + unit)" where
  "stop_command w sid db =
     (if \<not> has_text sid then (db, Inr ())
      else (case cancel_session (wk_client w) (the sid) of
              Inl (PiAgentError m status) \<Rightarrow> (db, Inr ())
            | Inl x \<Rightarrow> (db, Inl x)
            | Inr s \<Rightarrow> (db, Inr ())))"

definition time_out_command :: "env \<Rightarrow> 'h worker \<Rightarrow> time \<Rightarrow> string \<Rightarrow> db \<Rightarrow> db \<times> (err + bool)" where
  "time_out_command e w t0 tid db =
     (let a = the_agent db tid in
      case t_started_at (the_task db tid) of
        None \<Rightarrow> (db, Inr False)
      | Some started \<Rightarrow>
          (if seconds (ws_agent_timeout_seconds (wk_settings w)) \<le> t0 - started
           then (if a_hard_timeout_emitted_at a \<noteq> None then (db, Inr False)
                 else (let db1 = upd_agent tid (\<lambda>a. a\<lparr>a_hard_timeout_emitted_at := Some t0\<rparr>) db
                       in and_then (stop_command w (a_agent_session_id a) db1)
                            (\<lambda>_ db2. and_then
                               (fail_command_agent_task e tid ''hard_timeout'' ''Agent task exceeded the hard timeout.'' db2)
                               (\<lambda>_ db3. (db3, Inr True)))))
           else if seconds (ws_agent_soft_timeout_seconds (wk_settings w)) \<le> t0 - started \<and> a_soft_timeout_emitted_at a = None
           then and_then (enqueue_agent_task_comment e tid ''soft_timeout'' False None None False
                    (upd_agent tid (\<lambda>a. a\<lparr>a_soft_timeout_emitted_at := Some t0\<rparr>) db))
                  (\<lambda>_ db1. (db1, Inr True))
           else (db, Inr False)))"

definition process_agent_task_timeouts :: "env \<Rightarrow> 'h worker \<Rightarrow> time option \<Rightarrow> db \<Rightarrow> db \<times> (err + string list)" where
  "process_agent_task_timeouts e w at db = time_out_all (time_out_command e w (or_else at (now e))) (watched_commands db) db"

definition mark_review_run_stage :: "string \<Rightarrow> string \<Rightarrow> db \<Rightarrow> db \<times> string option" where
  "mark_review_run_stage rid stage db =
     (case get_run db rid of
        None \<Rightarrow> (db, None)
      | Some _ \<Rightarrow>
          (if t_status (the_task db rid) \<in> set terminal_statuses then (db, Some rid)
           else (upd_task rid (\<lambda>t. t\<lparr>t_stage := Some stage\<rparr>) db, Some rid)))"

section \<open>A pass is complete\<close>

text \<open>When a task was created and started is written once; messages leave it alone.\<close>

definition times :: "task \<Rightarrow> string \<times> time option \<times> time" where
  "times t = (t_id t, t_started_at t, t_created_at t)"

definition times_of :: "db \<Rightarrow> (string \<times> time option \<times> time) list" where
  "times_of db = map times (tasks db)"

lemma times_of_upd [simp]:
  "(\<And>t. times (f t) = times t) \<Longrightarrow> times_of (upd_task i f db) = times_of db"
  "times_of (upd_run i g db) = times_of db" "times_of (upd_slot i h db) = times_of db" "times_of (draw db) = times_of db"
  "times_of (db\<lparr>inbox := vs\<rparr>) = times_of db" "times_of (db\<lparr>slots := ss\<rparr>) = times_of db"
  by (auto simp: times_of_def upd_task_def upd_where_def)

lemma times_status [simp]: "times (parked b t) = times t" "times (announced_task text t) = times t"
  "times (timed_out_task k t0 t) = times t"
  by (simp_all add: times_def parked_def announced_task_def) (cases k; simp)

lemma times_of_enqueue [simp]:
  "times_of (fst (enqueue_delivery e tid p op dst key pl m pr ma sp db)) = times_of db"
  by (auto simp: enqueue_delivery_def Let_def times_of_def times_def upd_where_def split: option.splits)

lemma times_of_and_then:
  "times_of (fst r) = times_of db0 \<Longrightarrow> (\<And>v db. times_of db = times_of db0 \<Longrightarrow> times_of (fst (f v db)) = times_of db0) \<Longrightarrow>
     times_of (fst (and_then r f)) = times_of db0"
  by (cases r; cases "snd r") (auto simp: and_then_def split: sum.splits)

lemma times_of_placeholder [simp]: "times_of (fst (request_placeholder e rid s db)) = times_of db"
  by (simp add: request_placeholder_def Let_def times_of_and_then)

lemma times_of_announce [simp]: "times_of (fst (announce e rid text sid db)) = times_of db"
  by (simp add: announce_def Let_def times_of_and_then)

lemma times_of_ensure [simp]: "times_of (fst (ensure_review_placeholder_requested e rid db)) = times_of db"
  by (auto simp: ensure_review_placeholder_requested_def create_slot_def Let_def split: option.splits)

lemma times_of_status [simp]: "times_of (fst (enqueue_review_comment_status e rid text db)) = times_of db"
  unfolding enqueue_review_comment_status_def by (auto intro!: times_of_and_then split: option.splits)

lemma first_times:
  assumes "map times ts' = map times ts"
  shows "map_option times (first_row (\<lambda>t. t_id t = i) ts') = map_option times (first_row (\<lambda>t. t_id t = i) ts)"
  using assms
proof (induction ts arbitrary: ts')
  case (Cons t ts)
  then obtain u us where ts': "ts' = u # us" "times u = times t" "map times us = map times ts" by (cases ts') auto
  then have "t_id u = t_id t" by (simp add: times_def)
  then show ?case using ts' Cons.IH[OF ts'(3)] by simp
qed simp

lemma times_of_the_task:
  assumes "times_of db' = times_of db"
  shows "t_started_at (the_task db' i) = t_started_at (the_task db i)"
    "t_created_at (the_task db' i) = t_created_at (the_task db i)"
    "get_task db' i = None \<longleftrightarrow> get_task db i = None"
proof -
  have "map_option times (get_task db' i) = map_option times (get_task db i)"
    using assms first_times[of "tasks db'" "tasks db" i] by (simp add: get_task_def times_of_def)
  then show "t_started_at (the_task db' i) = t_started_at (the_task db i)"
    "t_created_at (the_task db' i) = t_created_at (the_task db i)"
    "get_task db' i = None \<longleftrightarrow> get_task db i = None"
    by (cases "get_task db' i"; cases "get_task db i"; simp add: the_task_def times_def)+
qed

text \<open>A message about a run leaves the runs and the other tasks alone.\<close>

lemma status_frame:
  assumes "enqueue_review_comment_status e rid text db = (db', Inr ())"
  shows "runs db' = runs db \<and> times_of db' = times_of db \<and> (\<forall>j. j \<noteq> rid \<longrightarrow> get_task db' j = get_task db j)"
proof -
  have t: "times_of db' = times_of db" using times_of_status[of e rid "text" db] assms by simp
  show ?thesis
  proof (cases "find_slot db rid")
    case (Some s)
    then have "announce e rid text (s_id s) db = (db', Inr ())"
      using assms by (simp add: enqueue_review_comment_status_def)
    from announce_effect[OF this] t show ?thesis by simp
  next
    case None
    then obtain sid db1 where a: "ensure_review_placeholder_requested e rid db = (db1, Inr sid)"
      "announce e rid text sid db1 = (db', Inr ())"
      using assms by (auto simp: enqueue_review_comment_status_def and_then_Inr)
    from ensure_effect[OF a(1)] announce_effect[OF a(2)] t show ?thesis by simp
  qed
qed

definition active :: "db \<Rightarrow> string \<Rightarrow> bool" where
  "active db i \<longleftrightarrow> t_status (the_task db i) \<in> {''queued'', ''running''}"

definition due :: "'h worker \<Rightarrow> time \<Rightarrow> db \<Rightarrow> string \<Rightarrow> timeout_kind \<Rightarrow> bool" where
  "due w t0 db i k \<longleftrightarrow>
     overdue db i (case k of Hard \<Rightarrow> ws_review_timeout_seconds (wk_settings w)
       | Soft \<Rightarrow> ws_review_soft_timeout_seconds (wk_settings w)) k t0"

text \<open>What one step of a pass does to its run, and to everything else\<close>

lemma emit_effect:
  assumes "emit_timeout_event e i k t0 db = (db1, Inr x)" and "active db i" and "get_run db i \<noteq> None"
    and "timeout_mark k (the_run db i) = None"
  shows "runs db1 = upd_where (\<lambda>r. r_id r = i) (set_timeout_mark k t0) (runs db) \<and>
     (\<forall>j. get_task db1 j = (if j = i then map_option (timed_out_task k t0) (get_task db j) else get_task db j)) \<and>
     times_of db1 = times_of db \<and> outbox db1 = outbox db"
proof -
  obtain v where "db1 = upd_run i (set_timeout_mark k t0) (upd_task i (timed_out_task k t0) (draw (db\<lparr>inbox := inbox db @ [v]\<rparr>)))"
    using assms by (auto simp: emit_timeout_event_def active_def terminal_statuses_def the_run_def or_else_def Let_def
        split: option.splits if_splits)
  moreover have "t_id (timed_out_task k t0 t) = t_id t" for t by (cases k; simp)
  moreover have "get_task (draw (db\<lparr>inbox := inbox db @ [v]\<rparr>)) j = get_task db j" for j by (simp add: get_task_def)
  ultimately show ?thesis by (simp add: get_task_upd)
qed

lemma cancel_effect:
  assumes "cancel_after_hard_timeout w i db = (db1, Inr x)"
  shows "tasks db1 = tasks db \<and> outbox db1 = outbox db \<and> (runs db1 = runs db \<or> (\<exists>m. runs db1 = upd_where (\<lambda>r. r_id r = i)
      (\<lambda>r. r\<lparr>r_error := Some (str_or (r_error r) ''Review run exceeded hard timeout.'' @ '' pi-agent cleanup failed: '' @ m)\<rparr>) (runs db)))"
  using assms by (auto simp: cancel_after_hard_timeout_def Let_def split: if_splits sum.splits err.splits)


text \<open>What the pass announces about a run\<close>

definition announcement_of :: "'h worker \<Rightarrow> time \<Rightarrow> db \<Rightarrow> string \<Rightarrow> string" where
  "announcement_of w t0 db i = (if due w t0 db i Hard then ''failed'' else ''delayed'')"

text \<open>What a step answers and leaves for its run, with everything else as it was\<close>

definition stepped :: "env \<Rightarrow> 'h worker \<Rightarrow> time \<Rightarrow> db \<Rightarrow> string \<Rightarrow> db \<Rightarrow> bool \<Rightarrow> bool" where
  "stepped e w t0 db i db1 b \<longleftrightarrow>
     set (outbox db) \<subseteq> set (outbox db1) \<and> (b \<longrightarrow> posted e i (announcement_of w t0 db i) db1) \<and>
     map r_id (runs db1) = map r_id (runs db) \<and> times_of db1 = times_of db \<and>
     (\<forall>j. j \<noteq> i \<longrightarrow> get_task db1 j = get_task db j \<and> get_run db1 j = get_run db j) \<and>
     (b \<longleftrightarrow> due w t0 db i Hard \<or> due w t0 db i Soft) \<and>
     (due w t0 db i Hard \<longrightarrow> (\<exists>t. get_task db1 i = Some t \<and> ending ''failed'' (Some t0) t)) \<and>
     (active db1 i \<longrightarrow> \<not> due w t0 db1 i Hard \<and> \<not> due w t0 db1 i Soft)"

lemma get_run_where:
  assumes "runs db' = upd_where (\<lambda>r. r_id r = i) f (runs db)" and "\<And>r. r_id (f r) = r_id r"
  shows "get_run db' j = (if j = i then map_option f (get_run db j) else get_run db j)"
    "map r_id (runs db') = map r_id (runs db)"
  using get_run_upd[of f i db j] assms by (simp_all add: get_run_def upd_where_def comp_def)

lemma mark_simps [simp]: "r_id (set_timeout_mark k t0 r) = r_id r" "timeout_mark k (set_timeout_mark k t0 r) = Some t0"
  "timeout_mark Hard (set_timeout_mark Soft t0 r) = timeout_mark Hard r"
  by (cases k; simp)+

lemma due_mark: "due w t0 db i k \<Longrightarrow> timeout_mark k (the_run db i) = None"
  by (simp add: due_def overdue_def Let_def)

lemma due_same:
  assumes "times_of db1 = times_of db" and "timeout_mark k (the_run db1 i) = timeout_mark k (the_run db i)"
  shows "due w t0 db1 i k = due w t0 db i k"
  using assms times_of_the_task[of db1 db i] by (simp add: due_def overdue_def Let_def)

lemma stepped_hard:
  assumes "time_out_review e w t0 i db = (db1, Inr b)" and "due w t0 db i Hard" and "active db i"
    and "get_run db i \<noteq> None" and "get_task db i \<noteq> None"
  shows "stepped e w t0 db i db1 b"
proof -
  obtain x dba dbb where a: "emit_timeout_event e i Hard t0 db = (dba, Inr x)"
    and c: "cancel_after_hard_timeout w i dba = (dbb, Inr ())"
    and s: "enqueue_review_comment_status e i ''failed'' dbb = (db1, Inr ())" and b: "b"
    using assms(1,2) by (auto simp: time_out_review_def due_def and_then_Inr)
  note A = emit_effect[OF a assms(3,4) due_mark[OF assms(2)]]
  have fin: "''failed'' \<in> set terminal_statuses" by (simp add: terminal_statuses_def)
  note S = status_ending[OF s fin] status_frame[OF s] status_posts[OF s]
  have tb: "get_task dbb j = get_task dba j" for j using cancel_effect[OF c] by (simp add: get_task_def)
  have runs: "map r_id (runs dbb) = map r_id (runs dba)" "j \<noteq> i \<Longrightarrow> get_run dbb j = get_run dba j" for j
  proof -
    obtain m where "runs dbb = runs dba \<or> runs dbb = upd_where (\<lambda>r. r_id r = i)
      (\<lambda>r. r\<lparr>r_error := Some (str_or (r_error r) ''Review run exceeded hard timeout.'' @ '' pi-agent cleanup failed: '' @ m)\<rparr>) (runs dba)"
      using cancel_effect[OF c] by blast
    then show "map r_id (runs dbb) = map r_id (runs dba)" "j \<noteq> i \<Longrightarrow> get_run dbb j = get_run dba j"
      using get_run_where(1)[of dbb i _ dba j] get_run_where(2)[of dbb i _ dba] by (auto simp: get_run_def)
  qed
  have times: "times_of db1 = times_of db" using A S cancel_effect[OF c] by (simp add: times_of_def)
  have rows: "get_task db1 j = get_task db j \<and> get_run db1 j = get_run db j" if "j \<noteq> i" for j
    using that A S tb runs(2) get_run_where(1)[OF conjunct1[OF A], of j] by (simp add: get_run_def)
  obtain t where t: "get_task dbb i = Some (timed_out_task Hard t0 t)" using assms(5) A tb by fastforce
  have e: "\<exists>t. get_task db1 i = Some t \<and> ending ''failed'' (Some t0) t" using S t by fastforce
  then have "\<not> active db1 i" by (auto simp: active_def the_task_def ending_def)
  then show ?thesis
    using times rows e b assms(2) runs(1) S A cancel_effect[OF c] get_run_where[OF conjunct1[OF A]]
    by (simp add: stepped_def announcement_of_def)
qed

lemma stepped_soft:
  assumes "time_out_review e w t0 i db = (db1, Inr b)" and "\<not> due w t0 db i Hard" "due w t0 db i Soft" and "active db i"
    and "get_run db i \<noteq> None" and "get_task db i \<noteq> None"
  shows "stepped e w t0 db i db1 b"
proof -
  obtain x dba where a: "emit_timeout_event e i Soft t0 db = (dba, Inr x)"
    and s: "enqueue_review_comment_status e i ''delayed'' dba = (db1, Inr ())" and b: "b"
    using assms(1,2,3) by (auto simp: time_out_review_def due_def and_then_Inr)
  note A = emit_effect[OF a assms(4,5) due_mark[OF assms(3)]]
  note S = status_frame[OF s] status_posts[OF s]
  have run: "get_run db1 j = (if j = i then map_option (set_timeout_mark Soft t0) (get_run db j) else get_run db j)"
    "map r_id (runs db1) = map r_id (runs db)" for j
    using get_run_where(1)[OF conjunct1[OF A], of j] get_run_where(2)[OF conjunct1[OF A]] S by (simp_all add: get_run_def)
  have times: "times_of db1 = times_of db" using A S by simp
  have "timeout_mark Soft (the_run db1 i) \<noteq> None" "timeout_mark Hard (the_run db1 i) = timeout_mark Hard (the_run db i)"
    using run(1)[of i] assms(5) by (auto simp: the_run_def)
  then have "\<not> due w t0 db1 i Soft" "\<not> due w t0 db1 i Hard"
    using due_mark[of w t0 db1 i Soft] due_same[OF times, where k = Hard and i = i] assms(2) by auto
  then show ?thesis using times run S A b assms(2,3) by (simp add: stepped_def announcement_of_def)
qed

lemma stepped_step:
  assumes "time_out_review e w t0 i db = (db1, Inr b)" and "active db i"
    and "get_run db i \<noteq> None" and "get_task db i \<noteq> None"
  shows "stepped e w t0 db i db1 b"
proof (cases "due w t0 db i Hard \<or> due w t0 db i Soft")
  case True
  then show ?thesis using assms stepped_hard stepped_soft by metis
next
  case False
  then have "db1 = db" "\<not> b" using assms(1) by (simp_all add: time_out_review_def due_def)
  with False show ?thesis by (simp add: stepped_def)
qed

lemma stepped_others:
  assumes "stepped e w t0 db i db1 b" and "j \<noteq> i"
  shows "active db1 j = active db j" "due w t0 db1 j k = due w t0 db j k" "announcement_of w t0 db1 j = announcement_of w t0 db j"
  using assms times_of_the_task[of db1 db j]
  by (auto simp: stepped_def active_def announcement_of_def due_def overdue_def the_task_def the_run_def Let_def)

lemma pass_effect:
  assumes "time_out_all (time_out_review e w t0) is db = (db1, Inr touched)" and "distinct is"
    and "\<And>i. i \<in> set is \<Longrightarrow> active db i \<and> get_run db i \<noteq> None \<and> get_task db i \<noteq> None"
  shows "map r_id (runs db1) = map r_id (runs db) \<and> set (outbox db) \<subseteq> set (outbox db1) \<and>
     (\<forall>j. j \<notin> set is \<longrightarrow> active db1 j = active db j) \<and>
     (\<forall>i \<in> set touched. posted e i (announcement_of w t0 db i) db1) \<and>
     touched = filter (\<lambda>i. due w t0 db i Hard \<or> due w t0 db i Soft) is \<and>
     (\<forall>i \<in> set is. (due w t0 db i Hard \<longrightarrow> (\<exists>t. get_task db1 i = Some t \<and> ending ''failed'' (Some t0) t)) \<and>
        (active db1 i \<longrightarrow> \<not> due w t0 db1 i Hard \<and> \<not> due w t0 db1 i Soft)) \<and>
     (\<forall>j k. j \<notin> set is \<longrightarrow> get_task db1 j = get_task db j \<and> due w t0 db1 j k = due w t0 db j k)"
  using assms
proof (induction "is" arbitrary: db touched)
  case (Cons i "is")
  obtain b dba rest where s: "time_out_review e w t0 i db = (dba, Inr b)"
    and r: "time_out_all (time_out_review e w t0) is dba = (db1, Inr rest)" and t: "touched = (if b then i # rest else rest)"
    using Cons.prems(1) by (auto simp: and_then_Inr)
  have S: "stepped e w t0 db i dba b" using stepped_step[OF s] Cons.prems(3) by simp
  have new: "i \<notin> set is" "distinct is" using Cons.prems(2) by auto
  have pre: "active dba j \<and> get_run dba j \<noteq> None \<and> get_task dba j \<noteq> None" if "j \<in> set is" for j
  proof -
    from that new have "j \<noteq> i" by auto
    then show ?thesis using Cons.prems(3)[of j] that S stepped_others(1)[OF S] by (simp add: stepped_def)
  qed
  note IH = Cons.IH[OF r new(2) pre]
  have "filter (\<lambda>i. due w t0 dba i Hard \<or> due w t0 dba i Soft) is = filter (\<lambda>i. due w t0 db i Hard \<or> due w t0 db i Soft) is"
    using new(1) stepped_others(2)[OF S] by (intro filter_cong refl) metis
  then have "touched = filter (\<lambda>i. due w t0 db i Hard \<or> due w t0 db i Soft) (i # is)"
    using IH t S by (simp add: stepped_def)
  moreover have "map r_id (runs db1) = map r_id (runs db) \<and> set (outbox db) \<subseteq> set (outbox db1)"
    using IH S by (auto simp: stepped_def)
  moreover have "posted e j (announcement_of w t0 db j) db1" if "j \<in> set touched" for j
  proof (cases "j = i \<and> b")
    case True
    then have "posted e i (announcement_of w t0 db i) dba" using S by (simp add: stepped_def)
    then show ?thesis using True IH posted_mono by blast
  next
    case False
    then have "j \<in> set rest" "j \<noteq> i" using that t IH new(1) by (auto split: if_splits)
    then show ?thesis using IH stepped_others(3)[OF S] by metis
  qed
  moreover have "active db1 j = active db j \<and> get_task db1 j = get_task db j \<and> due w t0 db1 j k = due w t0 db j k"
    if "j \<notin> set (i # is)" for j k
    using that IH stepped_others[OF S, of j] S by (simp add: stepped_def)
  moreover have "(due w t0 db j Hard \<longrightarrow> (\<exists>t. get_task db1 j = Some t \<and> ending ''failed'' (Some t0) t)) \<and>
        (active db1 j \<longrightarrow> \<not> due w t0 db1 j Hard \<and> \<not> due w t0 db1 j Soft)" if "j \<in> set (i # is)" for j
  proof (cases "j = i")
    case True
    then show ?thesis using IH S new(1) by (simp add: stepped_def)
  next
    case False
    then show ?thesis using that IH stepped_others(2)[OF S, of j] by simp
  qed
  ultimately show ?case by blast
qed simp

text \<open>
  C12. A pass over the active reviews answers exactly those that are overdue and queues a message about each of them in its
  comment, \<open>failed\<close> past the hard timeout and \<open>delayed\<close> past the soft one only; it leaves each one past its hard
  timeout failed and waiting for the announcement to be delivered, and is complete: a second pass at the same
  time finds nothing to do and changes nothing.
\<close>

theorem timeout_pass_is_idempotent:
  assumes "process_review_run_timeouts e w (Some t0) db = (db1, Inr touched)" and "runs_ok u db"
  shows "touched = filter (\<lambda>i. due w t0 db i Hard \<or> due w t0 db i Soft) (active_runs db) \<and>
    list_all (\<lambda>i. posted e i (if due w t0 db i Hard then ''failed'' else ''delayed'') db1) touched \<and>
    list_all (\<lambda>i. \<not> due w t0 db i Hard \<or> (\<exists>t. get_task db1 i = Some t \<and> ending ''failed'' (Some t0) t)) (active_runs db) \<and>
    process_review_run_timeouts e' w (Some t0) db1 = (db1, Inr [])"
proof -
  have act: "set (active_runs db') = {i. i \<in> r_id ` set (runs db') \<and> active db' i}" for db'
    by (auto simp: active_runs_def active_def)
  have "distinct (active_runs db)"
    using assms(2) by (auto simp: active_runs_def runs_ok_def unique_on_def distinct_map intro: inj_on_subset)
  moreover have "active db i \<and> get_run db i \<noteq> None \<and> get_task db i \<noteq> None" if "i \<in> set (active_runs db)" for i
    using that assms(2) run_has_task[OF assms(2)] by (intro conjI get_run_iff[THEN iffD2]) (auto simp: act)
  ultimately have P: "map r_id (runs db1) = map r_id (runs db) \<and>
     (\<forall>i \<in> set touched. posted e i (announcement_of w t0 db i) db1) \<and>
     (\<forall>j. j \<notin> set (active_runs db) \<longrightarrow> active db1 j = active db j) \<and>
     touched = filter (\<lambda>i. due w t0 db i Hard \<or> due w t0 db i Soft) (active_runs db) \<and>
     (\<forall>i \<in> set (active_runs db). (due w t0 db i Hard \<longrightarrow> (\<exists>t. get_task db1 i = Some t \<and> ending ''failed'' (Some t0) t)) \<and>
        (active db1 i \<longrightarrow> \<not> due w t0 db1 i Hard \<and> \<not> due w t0 db1 i Soft))"
    using pass_effect[of e w t0 "active_runs db" db db1 touched] assms(1) by (simp add: process_review_run_timeouts_def)
  have "r_id ` set (runs db1) = r_id ` set (runs db)" using P by (metis list.set_map)
  then have quiet: "\<not> due w t0 db1 i Hard \<and> \<not> due w t0 db1 i Soft" if "i \<in> set (active_runs db1)" for i
    using that P by (auto simp: act)
  have "time_out_all (time_out_review e' w t0) is db1 = (db1, Inr [])" if "set is \<subseteq> set (active_runs db1)" for "is"
    using that by (induction "is") (use quiet in \<open>auto simp: time_out_review_def due_def\<close>)
  then show ?thesis using P by (auto simp: process_review_run_timeouts_def list_all_iff announcement_of_def)
qed

theorem timeout_pass_is_idempotent_witness:
  "\<exists>db1. process_review_run_timeouts (sample_env 5) sample_worker (Some (seconds 2000)) sample_review_db = (db1, Inr [''r1'']) \<and>
     process_review_run_timeouts (sample_env 7) sample_worker (Some (seconds 2000)) db1 = (db1, Inr [])"
proof -
  have a: "snd (process_review_run_timeouts (sample_env 5) sample_worker (Some (seconds 2000)) sample_review_db) = Inr [''r1'']"
    by code_simp
  then obtain db1 where p:
    "process_review_run_timeouts (sample_env 5) sample_worker (Some (seconds 2000)) sample_review_db = (db1, Inr [''r1''])"
    by (metis prod.collapse)
  have ok: "runs_ok (\<lambda>k. ''u'') sample_review_db"
    by (simp add: runs_ok_def sample_review_db_def empty_db_def attempts_dense_def unique_on_def new_run_def new_task_def)
  from timeout_pass_is_idempotent[OF p ok, of "sample_env 7"] p show ?thesis by blast
qed

end
