(* ===== verification/Webhooks.thy ===== *)
theory Webhooks
  imports Regex Providers "HOL-Library.Sublist"
begin

text \<open>
  Webhooks of \<open>integrations/github.py\<close> and \<open>integrations/gitlab.py\<close>: authentication of a delivery, its
  normalization to a provider-neutral event with the snapshot of the pull request, and the recognition
  of a command to the bot in a comment.
\<close>

section \<open>Failures and the standard library\<close>

text \<open>
  A delivery is rejected with a status, an error code and a message, or an exception of the standard
  library escapes.
\<close>

datatype webhook_failure = Rejected int string string | Raised err

datatype json_text = NotJson | NotText string | Json json

text \<open>
  \<open>json.loads\<close> of the body's bytes, \<open>hmac\<close> with SHA-256 of a secret and a body as hexadecimal digits, and
  \<open>datetime.fromisoformat\<close>, which raises on any other text.
\<close>

record codec =
  cd_json :: "string \<Rightarrow> json_text"
  cd_hmac :: "string \<Rightarrow> string \<Rightarrow> string"
  cd_iso :: "string \<Rightarrow> time option"

text \<open>\<open>hmac.compare_digest\<close> of two texts, which have to be ASCII\<close>

definition compare_digest :: "string \<Rightarrow> string \<Rightarrow> err + bool" where
  "compare_digest a b =
     (if list_all (\<lambda>c. code c < 128) a \<and> list_all (\<lambda>c. code c < 128) b then Inr (a = b)
      else Inl (TypeError ''comparing strings with non-ASCII characters is not supported''))"

text \<open>\<open>text.upper()\<close>; \<open>upper_char\<close> keeps the two letters whose capitals lie above code point 255.\<close>

definition str_upper :: "string \<Rightarrow> string" where
  "str_upper s = concat (map (\<lambda>c. if code c = 223 then ''SS'' else [upper_char c]) s)"

record hook_settings =
  hs_review_bot_login :: string
  hs_agent_command_enabled :: bool
  hs_allowed_associations :: string
  hs_max_command_chars :: int

section \<open>Reading values\<close>

text \<open>\<open>isinstance(value, int)\<close> holds of truth values as well.\<close>

definition int_or_none :: "json \<Rightarrow> int option" where
  "int_or_none j = (case j of JInt i \<Rightarrow> Some i | JBool b \<Rightarrow> Some (if b then 1 else 0) | _ \<Rightarrow> None)"

definition id_to_str :: "json \<Rightarrow> string option" where
  "id_to_str j = (case j of JInt i \<Rightarrow> Some (py_str j) | JBool b \<Rightarrow> Some (py_str j) | JStr s \<Rightarrow> Some s | _ \<Rightarrow> None)"

definition is_dict :: "json \<Rightarrow> bool" where
  "is_dict j = (case j of JObj _ \<Rightarrow> True | _ \<Rightarrow> False)"

definition sha_of :: "json \<Rightarrow> string option" where
  "sha_of r = str_or_none (obj_get r ''sha'')"

definition ref_of :: "json \<Rightarrow> string option" where
  "ref_of r = str_or_none (obj_get r ''ref'')"

definition repo_full_name :: "json \<Rightarrow> string option" where
  "repo_full_name repo = str_or_none (obj_get repo ''full_name'')"

definition login_of :: "json \<Rightarrow> string option" where
  "login_of user = str_or_none (obj_get user ''login'')"

definition parse_datetime :: "codec \<Rightarrow> json \<Rightarrow> err + time option" where
  "parse_datetime cd j =
     (case str_or_none j of
        None \<Rightarrow> Inr None
      | Some s \<Rightarrow>
          (case cd_iso cd (replace_all ''Z'' ''+00:00'' s) of
             None \<Rightarrow> Inl (ValueError (''Invalid isoformat string: '' @ repr_str (replace_all ''Z'' ''+00:00'' s)))
           | Some t \<Rightarrow> Inr (Some t)))"

section \<open>The pull request of a GitHub payload\<close>

definition repository_name :: "dict \<Rightarrow> string option" where
  "repository_name payload = repo_full_name (jget payload ''repository'')"

definition pull_request_number :: "dict \<Rightarrow> int option" where
  "pull_request_number payload =
     (case int_or_none (obj_get (jget payload ''pull_request'') ''number'') of
        Some n \<Rightarrow> Some n
      | None \<Rightarrow>
          (let issue = jget payload ''issue''
           in if is_dict (obj_get issue ''pull_request'') then int_or_none (obj_get issue ''number'') else None))"

definition pull_request_head_sha :: "dict \<Rightarrow> string option" where
  "pull_request_head_sha payload = sha_of (obj_get (jget payload ''pull_request'') ''head'')"

definition pull_request_merged :: "dict \<Rightarrow> bool" where
  "pull_request_merged payload \<longleftrightarrow> obj_get (jget payload ''pull_request'') ''merged'' = JBool True"

definition github_pull_request_snapshot :: "codec \<Rightarrow> dict \<Rightarrow> err + pull_request_snapshot option" where
  "github_pull_request_snapshot cd payload =
     (let pr = jget payload ''pull_request''; repo = jget payload ''repository'';
          base = obj_get pr ''base''; head = obj_get pr ''head''
      in case (repo_full_name repo, int_or_none (obj_get pr ''number''), sha_of head) of
           (Some name, Some n, Some sha) \<Rightarrow>
             (case (parse_datetime cd (obj_get pr ''closed_at''), parse_datetime cd (obj_get pr ''merged_at'')) of
                (Inl x, _) \<Rightarrow> Inl x
              | (_, Inl x) \<Rightarrow> Inl x
              | (Inr t1, Inr t2) \<Rightarrow>
                  Inr (Some \<lparr>ps_repository = name, ps_number = n, ps_head_sha = sha,
                    ps_provider_repo_id = id_to_str (obj_get repo ''id''), ps_provider_pr_id = id_to_str (obj_get pr ''id''),
                    ps_title = str_or_none (obj_get pr ''title''), ps_author_login = login_of (obj_get pr ''user''),
                    ps_base_ref = ref_of base, ps_base_sha = sha_of base, ps_head_ref = ref_of head,
                    ps_base_repo_full_name = repo_full_name (obj_get base ''repo''),
                    ps_head_repo_full_name = repo_full_name (obj_get head ''repo''),
                    ps_status = (if obj_get pr ''merged'' = JBool True then ''merged''
                                 else or_else (str_or_none (obj_get pr ''state'')) ''open''),
                    ps_html_url = str_or_none (obj_get pr ''html_url''), ps_closed_at = t1, ps_merged_at = t2\<rparr>))
         | _ \<Rightarrow> Inr None)"

section \<open>Commands in comments\<close>

definition mention_char :: "char \<Rightarrow> bool" where
  "mention_char c \<longleftrightarrow>
     c \<in> set ''ABCDEFGHIJKLMNOPQRSTUVWXYZabcdefghijklmnopqrstuvwxyz0123456789_-''"

definition mention_pattern :: "string \<Rightarrow> rx list" where
  "mention_pattern login = [NotAfter mention_char] @ literal ''@'' @ literal_ci login @ [NotNext mention_char]"

definition accepted_action :: "string \<Rightarrow> string option" where
  "accepted_action event =
     map_of [(''issue_comment'', ''created''), (''pull_request_review'', ''submitted''),
             (''pull_request_review_comment'', ''created'')] event"

definition extract_agent_command ::
  "string \<Rightarrow> string option \<Rightarrow> dict \<Rightarrow> string option \<Rightarrow> bool \<Rightarrow> string list option \<Rightarrow> int \<Rightarrow> agent_command option" where
  "extract_agent_command event action payload login enabled allowed max_chars =
     (if \<not> enabled \<or> \<not> has_text login \<or> action \<noteq> accepted_action event then None
      else
        (let source = (if is_dict (jget payload ''comment'') then jget payload ''comment'' else jget payload ''review'')
         in case (obj_get source ''body'', id_to_str (obj_get source ''id''), login_of (obj_get source ''user'')) of
              (JStr body, Some source_id, Some author) \<Rightarrow>
                (let kind = str_or_none (obj_get (obj_get source ''user'') ''type'');
                     assoc = (case str_or_none (obj_get source ''author_association'') of
                                Some x \<Rightarrow> Some x | None \<Rightarrow> str_or_none (jget payload ''author_association''));
                     command = str_strip (rx_sub (mention_pattern (the login)) (\<lambda>g. []) body)
                 in if str_lower author = str_lower (the login) \<or> (kind \<noteq> None \<and> str_lower (the kind) = ''bot'')
                       \<or> (allowed \<noteq> None \<and> (assoc = None \<or> str_upper (the assoc) \<notin> set (the allowed)))
                       \<or> \<not> rx_search (mention_pattern (the login)) body \<or> max_chars < int (length command)
                    then None
                    else Some \<lparr>ac_source_kind = event, ac_source_comment_id = source_id,
                           ac_source_url = str_or_none (obj_get source ''html_url''), ac_author_login = author,
                           ac_author_association = assoc, ac_command_text = command\<rparr>)
            | _ \<Rightarrow> None))"

section \<open>Normalizing a GitHub event\<close>

definition pr_actions_to_internal_event :: "(string \<times> string) list" where
  "pr_actions_to_internal_event =
     [(''opened'', ''pr_opened''), (''synchronize'', ''pr_updated''), (''reopened'', ''pr_reopened''),
      (''closed'', ''pr_closed''), (''edited'', ''pr_metadata_changed''), (''ready_for_review'', ''pr_ready_for_review''),
      (''converted_to_draft'', ''pr_converted_to_draft''), (''labeled'', ''pr_metadata_changed''),
      (''unlabeled'', ''pr_metadata_changed''), (''assigned'', ''pr_metadata_changed''),
      (''unassigned'', ''pr_metadata_changed'')]"

definition review_run_actions :: "string list" where
  "review_run_actions = [''opened'', ''synchronize'', ''reopened'', ''ready_for_review'']"

definition comment_context_events :: "string list" where
  "comment_context_events = [''issue_comment'', ''pull_request_review'', ''pull_request_review_comment'']"

definition event_status :: "string option \<Rightarrow> string" where
  "event_status internal = (if internal \<noteq> None then ''received'' else ''ignored'')"

definition normalize_pull_request_event :: "codec \<Rightarrow> string option \<Rightarrow> dict \<Rightarrow> webhook_failure + webhook_event" where
  "normalize_pull_request_event cd action payload =
     (let internal = (if action = Some ''closed'' \<and> pull_request_merged payload then Some ''pr_merged''
                      else map_of pr_actions_to_internal_event (or_else action []))
      in case github_pull_request_snapshot cd payload of
           Inl x \<Rightarrow> Inl (Raised x)
         | Inr snapshot \<Rightarrow>
             (if internal \<noteq> None \<and> snapshot = None
              then Inl (Rejected 400 ''github_payload_invalid'' ''GitHub pull_request payload is missing PR identity fields.'')
              else Inr \<lparr>we_provider = ''github'', we_provider_event = ''pull_request'', we_provider_action = action,
                     we_internal_event = internal, we_repository = repository_name payload,
                     we_pull_request_number = pull_request_number payload, we_head_sha = pull_request_head_sha payload,
                     we_should_update_context = (internal \<noteq> None),
                     we_should_create_review_run = (action \<in> Some ` set review_run_actions),
                     we_should_create_agent_task = False, we_status = event_status internal,
                     we_agent_command = None, we_pull_request = snapshot\<rparr>))"

text \<open>A pull request number 0 is neither absent nor true.\<close>

definition normalize_comment_context_event ::
  "string \<Rightarrow> string option \<Rightarrow> dict \<Rightarrow> string option \<Rightarrow> bool \<Rightarrow> string list option \<Rightarrow> int \<Rightarrow> webhook_event" where
  "normalize_comment_context_event event action payload login enabled allowed max_chars =
     (let number = pull_request_number payload;
          command = extract_agent_command event action payload login enabled allowed max_chars;
          internal = (if number \<noteq> None \<and> number \<noteq> Some 0
                      then Some (if command \<noteq> None then ''agent_command'' else ''pr_comment_context'') else None)
      in \<lparr>we_provider = ''github'', we_provider_event = event, we_provider_action = action, we_internal_event = internal,
          we_repository = repository_name payload, we_pull_request_number = number,
          we_head_sha = pull_request_head_sha payload, we_should_update_context = False,
          we_should_create_review_run = False, we_should_create_agent_task = (number \<noteq> None \<and> command \<noteq> None),
          we_status = event_status internal, we_agent_command = command, we_pull_request = None\<rparr>)"

definition normalize_github_event ::
  "codec \<Rightarrow> string \<Rightarrow> dict \<Rightarrow> string option \<Rightarrow> bool \<Rightarrow> string list option \<Rightarrow> int \<Rightarrow> webhook_failure + webhook_event" where
  "normalize_github_event cd event payload login enabled allowed max_chars =
     (let action = str_or_none (jget payload ''action'')
      in if event = ''pull_request'' then normalize_pull_request_event cd action payload
         else if event \<in> set comment_context_events
         then Inr (normalize_comment_context_event event action payload login enabled allowed max_chars)
         else Inr \<lparr>we_provider = ''github'', we_provider_event = event, we_provider_action = action, we_internal_event = None,
                we_repository = repository_name payload, we_pull_request_number = pull_request_number payload,
                we_head_sha = pull_request_head_sha payload, we_should_update_context = False,
                we_should_create_review_run = False, we_should_create_agent_task = False, we_status = ''ignored'',
                we_agent_command = None, we_pull_request = None\<rparr>)"

section \<open>Receiving a GitHub webhook\<close>

definition verify_signature :: "codec \<Rightarrow> string \<Rightarrow> string option \<Rightarrow> string option \<Rightarrow> webhook_failure + unit" where
  "verify_signature cd body signature secret =
     (if \<not> has_text secret then Inr ()
      else if \<not> has_text signature then Inl (Rejected 401 ''github_signature_invalid'' ''Missing X-Hub-Signature-256 header.'')
      else (case compare_digest (''sha256='' @ cd_hmac cd (the secret) body) (the signature) of
              Inl x \<Rightarrow> Inl (Raised x)
            | Inr same \<Rightarrow>
                (if same then Inr () else Inl (Rejected 401 ''github_signature_invalid'' ''Invalid GitHub webhook signature.''))))"

definition parse_json_body :: "codec \<Rightarrow> string \<Rightarrow> string \<Rightarrow> string \<Rightarrow> webhook_failure + dict" where
  "parse_json_body cd error_code provider body =
     (case cd_json cd body of
        Json (JObj kvs) \<Rightarrow> Inr kvs
      | Json _ \<Rightarrow> Inl (Rejected 400 error_code (provider @ '' webhook payload must be a JSON object.''))
      | NotJson \<Rightarrow> Inl (Rejected 400 error_code (provider @ '' webhook payload is not valid JSON.''))
      | NotText m \<Rightarrow> Inl (Raised (ValueError m)))"

definition associations :: "string \<Rightarrow> string list" where
  "associations text = map (\<lambda>item. str_upper (str_strip item)) (filter (\<lambda>item. str_strip item \<noteq> []) (split_on (CHR '','') text))"

definition parse_github_webhook ::
  "codec \<Rightarrow> (string \<times> string) list \<Rightarrow> string \<Rightarrow> hook_settings option \<Rightarrow> string option \<Rightarrow> webhook_failure + parsed_webhook" where
  "parse_github_webhook cd headers body st secret =
     (let hs = lower_headers headers; delivery = map_of hs ''x-github-delivery''; event = map_of hs ''x-github-event''
      in if \<not> has_text delivery then Inl (Rejected 400 ''github_payload_invalid'' ''Missing X-GitHub-Delivery header.'')
         else if \<not> has_text event then Inl (Rejected 400 ''github_payload_invalid'' ''Missing X-GitHub-Event header.'')
         else
           (case verify_signature cd body (map_of hs ''x-hub-signature-256'') secret of
              Inl x \<Rightarrow> Inl x
            | Inr _ \<Rightarrow>
                (case parse_json_body cd ''github_payload_invalid'' ''GitHub'' body of
                   Inl x \<Rightarrow> Inl x
                 | Inr payload \<Rightarrow>
                     (case normalize_github_event cd (the event) payload (map_option hs_review_bot_login st)
                             (or_else (map_option hs_agent_command_enabled st) True)
                             (Some (associations (or_else (map_option hs_allowed_associations st) ''OWNER,MEMBER,COLLABORATOR'')))
                             (or_else (map_option hs_max_command_chars st) 8000) of
                        Inl x \<Rightarrow> Inl x
                      | Inr w \<Rightarrow> Inr \<lparr>pw_delivery_id = the delivery, pw_provider_event = w, pw_payload = payload,
                                       pw_raw_body = body\<rparr>))))"


section \<open>GitLab\<close>

definition project_path :: "json \<Rightarrow> string option" where
  "project_path project = str_or_none (obj_get project ''path_with_namespace'')"

definition gitlab_author :: "json \<Rightarrow> string option" where
  "gitlab_author author =
     (case str_or_none (obj_get author ''username'') of Some s \<Rightarrow> Some s | None \<Rightarrow> str_or_none (obj_get author ''name''))"

text \<open>Missing keys of a change read as \<open>None\<close>.\<close>

definition source_commit_changed :: "json \<Rightarrow> bool" where
  "source_commit_changed attrs \<longleftrightarrow>
     list_ex (\<lambda>key. let v = obj_get (obj_get attrs ''changes'') key
                    in is_dict v \<and> obj_get v ''previous'' \<noteq> obj_get v ''current'')
       [''last_commit'', ''source_branch_sha'']"

definition gitlab_pull_request_snapshot :: "codec \<Rightarrow> dict \<Rightarrow> err + pull_request_snapshot option" where
  "gitlab_pull_request_snapshot cd payload =
     (let attrs = jget payload ''object_attributes''; project = jget payload ''project'';
          head = (case str_or_none (obj_get (obj_get attrs ''last_commit'') ''id'') of
                    Some s \<Rightarrow> Some s | None \<Rightarrow> str_or_none (obj_get attrs ''last_commit_id''))
      in case (project_path project, int_or_none (obj_get attrs ''iid''), head) of
           (Some name, Some n, Some sha) \<Rightarrow>
             (case (parse_datetime cd (obj_get attrs ''closed_at''), parse_datetime cd (obj_get attrs ''merged_at'')) of
                (Inl x, _) \<Rightarrow> Inl x
              | (_, Inl x) \<Rightarrow> Inl x
              | (Inr t1, Inr t2) \<Rightarrow>
                  Inr (Some \<lparr>ps_repository = name, ps_number = n, ps_head_sha = sha,
                    ps_provider_repo_id = id_to_str (obj_get project ''id''), ps_provider_pr_id = id_to_str (obj_get attrs ''id''),
                    ps_title = str_or_none (obj_get attrs ''title''), ps_author_login = gitlab_author (jget payload ''user''),
                    ps_base_ref = str_or_none (obj_get attrs ''target_branch''),
                    ps_base_sha = str_or_none (obj_get attrs ''target_branch_sha''),
                    ps_head_ref = str_or_none (obj_get attrs ''source_branch''),
                    ps_base_repo_full_name = project_path (obj_get attrs ''target''),
                    ps_head_repo_full_name = project_path (obj_get attrs ''source''),
                    ps_status = or_else (str_or_none (obj_get attrs ''state'')) ''open'',
                    ps_html_url = str_or_none (obj_get attrs ''url''), ps_closed_at = t1, ps_merged_at = t2\<rparr>))
         | _ \<Rightarrow> Inr None)"

definition gitlab_internal_event :: "string \<Rightarrow> bool \<Rightarrow> string option" where
  "gitlab_internal_event action source_changed =
     (if action \<in> {''update'', ''updated''} then Some (if source_changed then ''pr_updated'' else ''pr_metadata_changed'')
      else map_of [(''open'', ''pr_opened''), (''opened'', ''pr_opened''), (''reopen'', ''pr_reopened''),
                   (''reopened'', ''pr_reopened''), (''merge'', ''pr_merged''), (''merged'', ''pr_merged''),
                   (''close'', ''pr_closed''), (''closed'', ''pr_closed'')] action)"

definition normalize_gitlab_event :: "codec \<Rightarrow> string \<Rightarrow> dict \<Rightarrow> webhook_failure + webhook_event" where
  "normalize_gitlab_event cd event payload =
     (let attrs = jget payload ''object_attributes'' in
      if event \<noteq> ''Merge Request Hook''
      then Inr \<lparr>we_provider = ''gitlab'', we_provider_event = event, we_provider_action = str_or_none (jget payload ''object_kind''),
             we_internal_event = None, we_repository = project_path (jget payload ''project''), we_pull_request_number = None,
             we_head_sha = None, we_should_update_context = False, we_should_create_review_run = False,
             we_should_create_agent_task = False, we_status = ''ignored'', we_agent_command = None, we_pull_request = None\<rparr>
      else if \<not> is_dict attrs
      then Inl (Rejected 400 ''provider_payload_invalid'' ''GitLab merge request payload is missing attributes.'')
      else
        (let action = (case str_or_none (obj_get attrs ''action'') of Some a \<Rightarrow> Some a | None \<Rightarrow> str_or_none (obj_get attrs ''state''));
             internal = gitlab_internal_event (or_else action []) (source_commit_changed attrs)
         in case gitlab_pull_request_snapshot cd payload of
              Inl x \<Rightarrow> Inl (Raised x)
            | Inr snapshot \<Rightarrow>
                (if internal \<noteq> None \<and> snapshot = None
                 then Inl (Rejected 400 ''provider_payload_invalid'' ''GitLab merge request payload is missing MR identity fields.'')
                 else Inr \<lparr>we_provider = ''gitlab'', we_provider_event = event, we_provider_action = action,
                        we_internal_event = internal, we_repository = project_path (jget payload ''project''),
                        we_pull_request_number = int_or_none (obj_get attrs ''iid''),
                        we_head_sha = (if is_dict (obj_get attrs ''last_commit'')
                                       then str_or_none (obj_get (obj_get attrs ''last_commit'') ''id'')
                                       else str_or_none (obj_get attrs ''last_commit_id'')),
                        we_should_update_context = (internal \<noteq> None),
                        we_should_create_review_run =
                          (or_else action [] \<in> {''open'', ''opened'', ''reopen'', ''reopened''} \<or> internal = Some ''pr_updated''),
                        we_should_create_agent_task = False, we_status = event_status internal,
                        we_agent_command = None, we_pull_request = snapshot\<rparr>)))"

definition parse_gitlab_webhook ::
  "codec \<Rightarrow> (string \<times> string) list \<Rightarrow> string \<Rightarrow> string option \<Rightarrow> webhook_failure + parsed_webhook" where
  "parse_gitlab_webhook cd headers body secret =
     (let hs = lower_headers headers; event = map_of hs ''x-gitlab-event'';
          delivery = (if has_text (map_of hs ''x-gitlab-event-uuid'') then map_of hs ''x-gitlab-event-uuid'' else map_of hs ''x-request-id'')
      in if \<not> has_text delivery then Inl (Rejected 400 ''provider_payload_invalid'' ''Missing X-Gitlab-Event-UUID header.'')
         else if \<not> has_text event then Inl (Rejected 400 ''provider_payload_invalid'' ''Missing X-Gitlab-Event header.'')
         else
           (case (if \<not> has_text secret then Inr True
                  else case map_of hs ''x-gitlab-token'' of None \<Rightarrow> Inr False | Some token \<Rightarrow> compare_digest token (the secret)) of
              Inl x \<Rightarrow> Inl (Raised x)
            | Inr False \<Rightarrow> Inl (Rejected 401 ''provider_signature_invalid'' ''Invalid GitLab webhook token.'')
            | Inr True \<Rightarrow>
                (case parse_json_body cd ''provider_payload_invalid'' ''GitLab'' body of
                   Inl x \<Rightarrow> Inl x
                 | Inr payload \<Rightarrow>
                     (case normalize_gitlab_event cd (the event) payload of
                        Inl x \<Rightarrow> Inl x
                      | Inr w \<Rightarrow> Inr \<lparr>pw_delivery_id = the delivery, pw_provider_event = w, pw_payload = payload,
                                       pw_raw_body = body\<rparr>))))"

section \<open>The mention pattern\<close>

text \<open>A mention is the bot's login in any case after an at sign, with no login character on either side.\<close>

definition mentions :: "string \<Rightarrow> string \<Rightarrow> bool" where
  "mentions login body \<longleftrightarrow>
     (\<exists>a m b. body = a @ CHR ''@'' # m @ b \<and> str_lower m = str_lower login \<and>
        (a = [] \<or> \<not> mention_char (last a)) \<and> (b = [] \<or> \<not> mention_char (hd b)))"

lemma match_literal_ci:
  "rx_match (literal_ci p @ r) prev n g s =
     (if str_lower (take (length p) s) = str_lower p
      then rx_match r (if p = [] then prev else Some (last (take (length p) s))) (n + length p) g (drop (length p) s)
      else None)"
proof (induction p arbitrary: prev n s)
  case Nil
  show ?case by (simp add: literal_ci_def str_lower_def)
next
  case (Cons c p)
  show ?case
  proof (cases s)
    case Nil
    then show ?thesis by (simp add: literal_ci_def str_lower_def)
  next
    case (Cons d t)
    show ?thesis
      using Cons.IH[of "Some d" "Suc n" t] unfolding Cons by (auto simp: literal_ci_def str_lower_def)
  qed
qed

lemma search_from_iff:
  "search_from r prev s \<longleftrightarrow>
     (\<exists>a b. s = a @ b \<and> rx_match r (if a = [] then prev else Some (last a)) 0 0 b \<noteq> None)"
proof (induction s arbitrary: prev)
  case Nil
  show ?case by simp
next
  case (Cons c cs)
  have "(\<exists>a b. c # cs = a @ b \<and> rx_match r (if a = [] then prev else Some (last a)) 0 0 b \<noteq> None) \<longleftrightarrow>
     rx_match r prev 0 0 (c # cs) \<noteq> None \<or>
     (\<exists>a b. cs = a @ b \<and> rx_match r (if a = [] then Some c else Some (last a)) 0 0 b \<noteq> None)"
    (is "?l \<longleftrightarrow> ?h \<or> ?t")
  proof
    assume ?l
    then obtain a b where "c # cs = a @ b" "rx_match r (if a = [] then prev else Some (last a)) 0 0 b \<noteq> None" by blast
    then show "?h \<or> ?t" by (cases a) (auto split: if_splits)
  next
    assume "?h \<or> ?t"
    then show ?l
    proof
      assume ?h
      then show ?l by (intro exI[of _ "[]"] exI[of _ "c # cs"]) simp
    next
      assume ?t
      then obtain a b where "cs = a @ b" "rx_match r (if a = [] then Some c else Some (last a)) 0 0 b \<noteq> None" by blast
      then show ?l by (intro exI[of _ "c # a"] exI[of _ b]) (auto split: if_splits)
    qed
  qed
  then show ?case using Cons.IH by simp
qed


lemma mention_pattern_finds:
  assumes "login \<noteq> []"
  shows "rx_search (mention_pattern login) body \<longleftrightarrow> mentions login body"
proof -
  have len: "length m = length login" if "str_lower m = str_lower login" for m
    using that map_eq_imp_length_eq unfolding str_lower_def by blast
  have m: "rx_match (mention_pattern login) prev 0 0 b \<noteq> None \<longleftrightarrow>
      (case prev of None \<Rightarrow> True | Some c \<Rightarrow> \<not> mention_char c) \<and>
      (\<exists>m t. b = CHR ''@'' # m @ t \<and> str_lower m = str_lower login \<and> (t = [] \<or> \<not> mention_char (hd t)))" for prev b
  proof (cases b)
    case Nil
    then show ?thesis by (simp add: mention_pattern_def literal_def split: option.splits)
  next
    case (Cons c cs)
    have n: "(case next_char t of None \<Rightarrow> False | Some x \<Rightarrow> mention_char x) \<longleftrightarrow> \<not> (t = [] \<or> \<not> mention_char (hd t))" for t
      by (cases t) (simp_all add: next_char_def)
    have "(\<exists>m t. cs = m @ t \<and> str_lower m = str_lower login \<and> (t = [] \<or> \<not> mention_char (hd t))) \<longleftrightarrow>
      str_lower (take (length login) cs) = str_lower login \<and>
        (drop (length login) cs = [] \<or> \<not> mention_char (hd (drop (length login) cs)))"
    proof
      assume "\<exists>m t. cs = m @ t \<and> str_lower m = str_lower login \<and> (t = [] \<or> \<not> mention_char (hd t))"
      then obtain m t where t: "cs = m @ t" "str_lower m = str_lower login" "t = [] \<or> \<not> mention_char (hd t)" by blast
      then have "take (length login) cs = m" "drop (length login) cs = t" using len[of m] by simp_all
      with t show "str_lower (take (length login) cs) = str_lower login \<and>
        (drop (length login) cs = [] \<or> \<not> mention_char (hd (drop (length login) cs)))" by simp
    next
      assume "str_lower (take (length login) cs) = str_lower login \<and>
        (drop (length login) cs = [] \<or> \<not> mention_char (hd (drop (length login) cs)))"
      then show "\<exists>m t. cs = m @ t \<and> str_lower m = str_lower login \<and> (t = [] \<or> \<not> mention_char (hd t))"
        by (intro exI[of _ "take (length login) cs"] exI[of _ "drop (length login) cs"]) simp
    qed
    with Cons assms show ?thesis
      by (auto simp: mention_pattern_def literal_def match_literal_ci n split: option.splits if_splits)
  qed
  have e: "(case if a = [] then None else Some (last a) of None \<Rightarrow> True | Some c \<Rightarrow> \<not> mention_char c) \<longleftrightarrow>
      a = [] \<or> \<not> mention_char (last a)" for a
    by simp
  show ?thesis
    unfolding rx_search_def search_from_iff mentions_def m e by blast
qed

text \<open>
  The text without its mentions, read from left to right: at an at sign that begins a mention both are
  left out, any other character stays.
\<close>

function without_mentions :: "string \<Rightarrow> char option \<Rightarrow> string \<Rightarrow> string" where
  "without_mentions login prev [] = []"
| "without_mentions login prev (c # cs) =
     (let m = take (length login) cs; rest = drop (length login) cs
      in if c = CHR ''@'' \<and> str_lower m = str_lower login \<and> \<not> (prev \<noteq> None \<and> mention_char (the prev)) \<and>
              (rest = [] \<or> \<not> mention_char (hd rest))
         then without_mentions login (Some (last (c # m))) rest
         else c # without_mentions login (Some c) cs)"
  by pat_completeness auto
termination
  by (relation "measure (\<lambda>(login, prev, s). length s)") auto

lemma mention_pattern_match:
  assumes "login \<noteq> []"
  shows "rx_match (mention_pattern login) prev 0 0 (c # cs) =
     (if c = CHR ''@'' \<and> str_lower (take (length login) cs) = str_lower login \<and>
         \<not> (prev \<noteq> None \<and> mention_char (the prev)) \<and>
         (drop (length login) cs = [] \<or> \<not> mention_char (hd (drop (length login) cs)))
      then Some (Suc (length login), 0) else None)"
  using assms
  by (auto simp: mention_pattern_def literal_def match_literal_ci next_char_def split: option.splits list.splits)

lemma after_mention:
  assumes "str_lower (take (length login) cs) = str_lower login"
  shows "after prev (Suc (length login)) (c # cs) = Some (last (c # take (length login) cs))"
proof -
  have "length login \<le> length cs"
    using arg_cong[OF assms, of length] by (simp add: str_lower_def)
  then show ?thesis
    by (cases cs; cases "length login") (auto simp: after_def last_conv_nth nth_Cons' split: nat.split)
qed

lemma mentions_cut_from:
  assumes "login \<noteq> []"
  shows "sub_from (mention_pattern login) (\<lambda>g. []) prev s = without_mentions login prev s"
  using assms
proof (induction login prev s rule: without_mentions.induct)
  case (2 login prev c cs)
  then show ?case by (auto simp: Let_def mention_pattern_match after_mention)
qed simp

lemma mentions_cut: "login \<noteq> [] \<Longrightarrow> rx_sub (mention_pattern login) (\<lambda>g. []) s = without_mentions login None s"
  by (simp add: rx_sub_def mentions_cut_from)

section \<open>What a webhook can bring about\<close>

text \<open>The comment or review a payload is about.\<close>

definition written_part :: "dict \<Rightarrow> json" where
  "written_part payload =
     (if is_dict (jget payload ''comment'') then jget payload ''comment'' else jget payload ''review'')"

lemma extract_Some:
  assumes "extract_agent_command event action payload login enabled allowed max_chars = Some c"
  shows "enabled \<and> has_text login \<and> action = accepted_action event \<and> ac_source_kind c = event \<and>
     login_of (obj_get (written_part payload) ''user'') = Some (ac_author_login c) \<and>
     str_lower (ac_author_login c) \<noteq> str_lower (the login) \<and>
     ac_author_association c = (case str_or_none (obj_get (written_part payload) ''author_association'') of
        Some x \<Rightarrow> Some x | None \<Rightarrow> str_or_none (jget payload ''author_association'')) \<and>
     (allowed = None \<or> (\<exists>assoc. ac_author_association c = Some assoc \<and> str_upper assoc \<in> set (the allowed))) \<and>
     int (length (ac_command_text c)) \<le> max_chars \<and>
     (\<exists>body. obj_get (written_part payload) ''body'' = JStr body \<and> mentions (the login) body \<and>
        ac_command_text c = str_strip (without_mentions (the login) None body))"
proof -
  have e: "enabled" "has_text login" "action = accepted_action event"
    using assms by (auto simp: extract_agent_command_def split: if_splits)
  then have l: "the login \<noteq> []" by (cases login) auto
  from assms e obtain body sid author where
    b: "obj_get (written_part payload) ''body'' = JStr body" "id_to_str (obj_get (written_part payload) ''id'') = Some sid"
      "login_of (obj_get (written_part payload) ''user'') = Some author"
    unfolding extract_agent_command_def written_part_def[symmetric] Let_def[of "written_part payload"]
    by (auto split: json.splits option.splits)
  then show ?thesis
    using assms e mention_pattern_finds[OF l] mentions_cut[OF l] unfolding extract_agent_command_def written_part_def[symmetric]
    by (auto simp: Let_def split: if_splits)
qed


text \<open>
  C15. A command that a GitHub webhook brings is authentic and authorised. With a secret configured, the
  delivery carries the HMAC signature of its body. The command's author is the user the comment or review
  of the payload names, is not the bot, and has the association the payload gives, which is allowed. The
  written text mentions the bot as a word of its own, and the command is exactly that text without the
  mentions, trimmed; it is at most as long as allowed.
\<close>

theorem commands_are_authentic_and_authorised:
  assumes "parse_github_webhook cd headers body (Some st) secret = Inr p"
    and "we_agent_command (pw_provider_event p) = Some c"
  shows "(has_text secret \<longrightarrow>
        map_of (lower_headers headers) ''x-hub-signature-256'' = Some (''sha256='' @ cd_hmac cd (the secret) body)) \<and>
     hs_agent_command_enabled st \<and> we_provider_action (pw_provider_event p) = accepted_action (ac_source_kind c) \<and>
     login_of (obj_get (written_part (pw_payload p)) ''user'') = Some (ac_author_login c) \<and>
     str_lower (ac_author_login c) \<noteq> str_lower (hs_review_bot_login st) \<and>
     ac_author_association c = (case str_or_none (obj_get (written_part (pw_payload p)) ''author_association'') of
        Some x \<Rightarrow> Some x | None \<Rightarrow> str_or_none (jget (pw_payload p) ''author_association'')) \<and>
     (\<exists>assoc. ac_author_association c = Some assoc \<and> str_upper assoc \<in> set (associations (hs_allowed_associations st))) \<and>
     int (length (ac_command_text c)) \<le> hs_max_command_chars st \<and>
     (\<exists>text. obj_get (written_part (pw_payload p)) ''body'' = JStr text \<and> mentions (hs_review_bot_login st) text \<and>
        ac_command_text c = str_strip (without_mentions (hs_review_bot_login st) None text))"
proof -
  define hs where "hs = lower_headers headers"
  obtain event payload w where v: "verify_signature cd body (map_of hs ''x-hub-signature-256'') secret = Inr ()"
    and n: "normalize_github_event cd event payload (Some (hs_review_bot_login st)) (hs_agent_command_enabled st)
        (Some (associations (hs_allowed_associations st))) (hs_max_command_chars st) = Inr w"
    and p: "pw_provider_event p = w" "pw_payload p = payload"
    using assms(1) unfolding parse_github_webhook_def hs_def[symmetric]
    by (auto simp: Let_def split: if_splits sum.splits)
  have s: "map_of hs ''x-hub-signature-256'' = Some (''sha256='' @ cd_hmac cd (the secret) body)" if "has_text secret"
    using v that by (auto simp: verify_signature_def compare_digest_def has_text_def split: if_splits sum.splits option.splits)
  have x: "extract_agent_command event (we_provider_action w) payload (Some (hs_review_bot_login st)) (hs_agent_command_enabled st)
        (Some (associations (hs_allowed_associations st))) (hs_max_command_chars st) = Some c"
    using n assms(2) unfolding p
    by (auto simp: normalize_github_event_def normalize_pull_request_event_def normalize_comment_context_event_def Let_def
        split: if_splits sum.splits)
  note written = extract_Some[OF x, simplified]
  show ?thesis using written s unfolding p hs_def by blast
qed


definition sample_codec :: "json \<Rightarrow> codec" where
  "sample_codec j = \<lparr>cd_json = (\<lambda>s. Json j), cd_hmac = (\<lambda>k b. ''a1''), cd_iso = (\<lambda>s. None)\<rparr>"

definition sample_comment_payload :: dict where
  "sample_comment_payload =
     [(''action'', JStr ''created''), (''repository'', JObj [(''full_name'', JStr ''o/r'')]),
      (''issue'', JObj [(''number'', JInt 7), (''pull_request'', JObj [])]),
      (''comment'', JObj [(''id'', JInt 5), (''body'', JStr ''hi @Bot fix''), (''author_association'', JStr ''member''),
         (''user'', JObj [(''login'', JStr ''ann'')])])]"

definition sample_hook_settings :: hook_settings where
  "sample_hook_settings = \<lparr>hs_review_bot_login = ''bot'', hs_agent_command_enabled = True,
     hs_allowed_associations = ''OWNER, member'', hs_max_command_chars = 20\<rparr>"

definition sample_github_headers :: "string \<Rightarrow> (string \<times> string) list" where
  "sample_github_headers event =
     [(''X-GitHub-Delivery'', ''d1''), (''X-GitHub-Event'', event), (''X-Hub-Signature-256'', ''sha256=a1'')]"

theorem commands_are_authentic_and_authorised_witness:
  "\<exists>p c. parse_github_webhook (sample_codec (JObj sample_comment_payload)) (sample_github_headers ''issue_comment'') ''{}''
       (Some sample_hook_settings) (Some ''key'') = Inr p \<and> we_agent_command (pw_provider_event p) = Some c \<and>
     ac_command_text c = ''hi  fix'' \<and> ac_author_login c = ''ann'' \<and> int (length (ac_command_text c)) \<le> 20 \<and> str_lower (ac_author_login c) \<noteq> str_lower ''bot''"
proof -
  let ?r = "parse_github_webhook (sample_codec (JObj sample_comment_payload)) (sample_github_headers ''issue_comment'') ''{}''
       (Some sample_hook_settings) (Some ''key'')"
  have "(case ?r of Inl x \<Rightarrow> None | Inr p \<Rightarrow> map_option (\<lambda>c. (ac_command_text c, ac_author_login c)) (we_agent_command (pw_provider_event p))) =
      Some (''hi  fix'', ''ann'')"
    by code_simp
  then obtain p c where p: "?r = Inr p" "we_agent_command (pw_provider_event p) = Some c" "ac_command_text c = ''hi  fix''"
    "ac_author_login c = ''ann''"
    by (auto split: sum.splits)
  have s: "hs_max_command_chars sample_hook_settings = 20" "hs_review_bot_login sample_hook_settings = ''bot''"
    by (simp_all add: sample_hook_settings_def)
  from commands_are_authentic_and_authorised[OF p(1,2)] p show ?thesis unfolding s by blast
qed

end
