(* ===== verification/Inbox.thy ===== *)
theory Inbox
  imports Ending
begin

text \<open>
  The webhook inbox of \<open>application/services.py\<close>: a normalized provider event is recorded once,
  updates the context of its pull request, ends the work of a closed pull request, and asks for a
  review or creates a message command. The request's session is rolled back when the operation
  raises, so an exception leaves what had been committed by then.
\<close>

section \<open>Events and the tasks they created\<close>

record webhook_accepted =
  wa_provider :: string
  wa_delivery_id :: string
  wa_status :: string
  wa_internal_event :: "string option"
  wa_review_run_id :: "string option"
  wa_agent_task_id :: "string option"
  wa_duplicate :: bool

definition get_agent_task_id_for_event :: "db \<Rightarrow> string \<Rightarrow> string option" where
  "get_agent_task_id_for_event db eid =
     (case sort_key (\<lambda>a. - t_created_at (the_task db (a_id a)))
             (filter (\<lambda>a. a_provider_event_id a = Some eid) (agents db)) of
        [] \<Rightarrow> None
      | a # _ \<Rightarrow> Some (a_id a))"

definition get_agent_task_ids_for_events :: "db \<Rightarrow> string list \<Rightarrow> (string \<times> string) list" where
  "get_agent_task_ids_for_events db eids =
     foldl (\<lambda>m a. case a_provider_event_id a of
                    None \<Rightarrow> m
                  | Some eid \<Rightarrow> (if eid \<in> fst ` set m then m else m @ [(eid, a_id a)]))
       []
       (if eids = [] then []
        else sort_key (\<lambda>a. - t_created_at (the_task db (a_id a)))
          (filter (\<lambda>a. case a_provider_event_id a of None \<Rightarrow> False | Some eid \<Rightarrow> eid \<in> set eids) (agents db)))"

section \<open>The context of the pull request\<close>

definition snapshot_is_fork :: "pull_request_snapshot \<Rightarrow> bool" where
  "snapshot_is_fork p \<longleftrightarrow>
     has_text (ps_head_repo_full_name p) \<and> ps_head_repo_full_name p \<noteq> ps_base_repo_full_name p"

definition apply_snapshot :: "string \<Rightarrow> pull_request_snapshot \<Rightarrow> pull_request_context \<Rightarrow> pull_request_context" where
  "apply_snapshot eid p c =
     c\<lparr>c_provider_repo_id := ps_provider_repo_id p, c_provider_pr_id := ps_provider_pr_id p,
       c_title := ps_title p, c_author_login := ps_author_login p, c_base_ref := ps_base_ref p,
       c_base_sha := ps_base_sha p, c_head_ref := ps_head_ref p, c_head_sha := ps_head_sha p,
       c_head_repo_full_name := ps_head_repo_full_name p, c_is_fork := snapshot_is_fork p,
       c_status := ps_status p, c_html_url := ps_html_url p, c_latest_event_id := Some eid,
       c_closed_at := ps_closed_at p, c_merged_at := ps_merged_at p\<rparr>"

definition upsert_pull_request_context :: "env \<Rightarrow> string \<Rightarrow> pull_request_snapshot \<Rightarrow> db \<Rightarrow> db \<times> string" where
  "upsert_pull_request_context e eid p db =
     (let provider = ev_provider (the_event db eid) in
      case find_context db provider (ps_repository p) (ps_number p) of
        Some c \<Rightarrow> (upd_context (c_id c) (apply_snapshot eid p) db, c_id c)
      | None \<Rightarrow>
          (draw (db\<lparr>contexts := contexts db @
              [apply_snapshot eid p
                 (new_context (next_id e db) (now e) provider (ps_repository p) (ps_number p) (ps_head_sha p))]\<rparr>),
           next_id e db))"

section \<open>Message commands\<close>

definition command_task_row :: "string \<Rightarrow> time \<Rightarrow> provider_event \<Rightarrow> agent_command \<Rightarrow> task" where
  "command_task_row ident t v cmd =
     (let p = ev_provider v; repo = the (ev_repo_full_name v); n = show_int (the (ev_pull_request_number v))
      in (new_task ident ''agent'' t)
           \<lparr>t_capability_id := ''pr-assistant'', t_status := ''queued'', t_execution_status := ''pending'',
            t_delivery_status := ''pending'', t_queue := ''interactive'', t_priority := 80,
            t_effective_priority := 80, t_concurrency_key := Some (p @ '':'' @ repo @ '':pr:'' @ n),
            t_resource_context_json := Some
              [(''user'', JStr (ac_author_login cmd)), (''repository'', JStr (p @ ''/'' @ repo)),
               (''pr'', JStr (p @ ''/'' @ repo @ ''/'' @ n)),
               (''comment'', JStr (if ac_source_comment_id cmd \<noteq> [] then p @ ''/'' @ ac_source_comment_id cmd
                                   else p @ ''/event/'' @ ev_id v))],
            t_stage := Some ''placeholder_pending''\<rparr>)"

definition command_agent_row :: "string \<Rightarrow> provider_event \<Rightarrow> agent_command \<Rightarrow> pull_request_context option \<Rightarrow> agent_task" where
  "command_agent_row ident v cmd c =
     (new_agent_task ident (ev_provider v) (the (ev_repo_full_name v)) (the (ev_pull_request_number v)))
       \<lparr>a_provider_event_id := Some (ev_id v), a_pull_request_context_id := map_option c_id c,
        a_task_type := ''message_command'', a_source_kind := Some (ac_source_kind cmd),
        a_source_comment_id := Some (ac_source_comment_id cmd), a_source_url := ac_source_url cmd,
        a_source_author_login := Some (ac_author_login cmd), a_command_text := Some (ac_command_text cmd),
        a_head_sha := (case c of Some x \<Rightarrow> Some (c_head_sha x) | None \<Rightarrow> ev_head_sha v),
        a_input_json := Some
          [(''internal_event'', jopt (ev_internal_event v)), (''provider_action'', jopt (ev_provider_action v)),
           (''author_association'', jopt (ac_author_association cmd)),
           (''payload_digest'', JStr (ev_payload_digest v))]\<rparr>"

definition create_agent_task_from_event ::
  "env \<Rightarrow> string \<Rightarrow> agent_command \<Rightarrow> string option \<Rightarrow> db \<Rightarrow> db \<times> (err + string)" where
  "create_agent_task_from_event e eid cmd context db =
     (let v = the_event db eid in
      if \<not> has_text (ev_repo_full_name v) \<or> ev_pull_request_number v = None
      then (db, Inl (ValueError ''Agent task event is missing PR identity fields.''))
      else (let c = (case context of
                       Some i \<Rightarrow> get_context db i
                     | None \<Rightarrow> find_context db (ev_provider v) (the (ev_repo_full_name v)) (the (ev_pull_request_number v)));
                ident = next_id e db
            in (draw (db\<lparr>tasks := tasks db @ [command_task_row ident (now e) v cmd],
                         agents := agents db @ [command_agent_row ident v cmd c]\<rparr>), Inr ident)))"

section \<open>Accepting a webhook\<close>

definition webhook_event_row :: "string \<Rightarrow> time \<Rightarrow> string \<Rightarrow> string \<Rightarrow> string \<Rightarrow> webhook_event \<Rightarrow> dict \<Rightarrow> provider_event" where
  "webhook_event_row ident t digest delivery_id event_name w payload =
     (let p = we_provider w in
      (new_event ident t p delivery_id event_name (p @ '':'' @ delivery_id) digest payload)
        \<lparr>ev_provider_action := we_provider_action w, ev_internal_event := we_internal_event w,
         ev_repo_full_name := we_repository w, ev_pull_request_number := we_pull_request_number w,
         ev_head_sha := we_head_sha w,
         ev_coalesce_key := build_coalesce_key p (we_repository w) (we_pull_request_number w) (we_head_sha w),
         ev_status := we_status w\<rparr>)"

definition accept_context :: "env \<Rightarrow> string \<Rightarrow> webhook_event \<Rightarrow> db \<Rightarrow> db \<times> (err + string option)" where
  "accept_context e eid w db =
     (if we_should_update_context w
      then (case we_pull_request w of
              None \<Rightarrow> (db, Inl (ValueError (''Provider '' @ repr_str (we_provider w) @ '' did not supply normalized PR context.'')))
            | Some p \<Rightarrow> (case upsert_pull_request_context e eid p db of (db1, cid) \<Rightarrow> (db1, Inr (Some cid))))
      else (db, Inr None))"

definition closes_pr :: "webhook_event \<Rightarrow> bool" where
  "closes_pr w \<longleftrightarrow> we_internal_event w = Some ''pr_closed'' \<or> we_internal_event w = Some ''pr_merged''"

text \<open>The result says whether the cancellation of the commands has committed.\<close>

definition accept_closing :: "env \<Rightarrow> webhook_event \<Rightarrow> db \<Rightarrow> db \<times> (err + bool)" where
  "accept_closing e w db =
     (if closes_pr w
      then and_then (cancel_active_review_runs_for_pr e (we_provider w) (we_repository w) (we_pull_request_number w)
                       (the (we_internal_event w)) db)
             (\<lambda>_ db1. case cancel_active_agent_tasks_for_pr (we_provider w) (we_repository w) (we_pull_request_number w)
                             (the (we_internal_event w)) db1 of
                        (db2, ids) \<Rightarrow> (db2, Inr (ids \<noteq> [])))
      else (db, Inr False))"

definition accept_review :: "env \<Rightarrow> string \<Rightarrow> webhook_event \<Rightarrow> string option \<Rightarrow> db \<Rightarrow> db \<times> (err + string option)" where
  "accept_review e eid w context db =
     (if we_should_create_review_run w
      then (case context of
              None \<Rightarrow> (db, Inl (ValueError ''Review-triggering event is missing PR context.''))
            | Some cid \<Rightarrow>
                and_then (handle_review_requested e
                    \<lparr>qs_reason = ''automatic'', qs_trigger_event_id = eid, qs_pull_request_context_id = cid,
                     qs_source_run_id = None, qs_dedupe_key = None\<rparr> db)
                  (\<lambda>(rid, _) db1.
                     (upd_context cid (\<lambda>c. c\<lparr>c_latest_review_run_id := Some rid\<rparr>)
                        (upd_event eid (\<lambda>v. v\<lparr>ev_review_run_id := Some rid, ev_status := ''queued''\<rparr>) db1),
                      Inr (Some rid))))
      else (db, Inr None))"

definition accept_command :: "env \<Rightarrow> string \<Rightarrow> webhook_event \<Rightarrow> string option \<Rightarrow> db \<Rightarrow> db \<times> (err + string option)" where
  "accept_command e eid w context db =
     (if we_should_create_agent_task w
      then (case we_agent_command w of
              None \<Rightarrow> (db, Inl (ValueError ''Agent command event is missing command metadata.''))
            | Some cmd \<Rightarrow>
                and_then (create_agent_task_from_event e eid cmd context db)
                  (\<lambda>tid db1. (upd_event eid (\<lambda>v. v\<lparr>ev_status := ''queued''\<rparr>) db1, Inr (Some tid))))
      else (db, Inr None))"

definition finish_event :: "time \<Rightarrow> provider_event \<Rightarrow> provider_event" where
  "finish_event t v =
     (if ev_status v = ''received'' then v\<lparr>ev_status := ''processed''\<rparr> else v)\<lparr>ev_processed_at := Some t\<rparr>"

definition accepted_answer :: "webhook_event \<Rightarrow> string \<Rightarrow> provider_event \<Rightarrow> string option \<Rightarrow> string option \<Rightarrow> bool \<Rightarrow> webhook_accepted" where
  "accepted_answer w delivery_id v rid tid duplicate =
     \<lparr>wa_provider = we_provider w, wa_delivery_id = delivery_id, wa_status = ev_status v,
      wa_internal_event = ev_internal_event v, wa_review_run_id = rid, wa_agent_task_id = tid,
      wa_duplicate = duplicate\<rparr>"

text \<open>Undoing what has not been committed: \<open>db0\<close> is the last committed state.\<close>

definition or_rollback :: "db \<Rightarrow> db \<times> (err + 'a) \<Rightarrow> db \<times> (err + 'a)" where
  "or_rollback db0 r = (case r of (db1, Inl x) \<Rightarrow> (db0, Inl x) | (db1, Inr v) \<Rightarrow> (db1, Inr v))"

definition accept_provider_webhook ::
  "env \<Rightarrow> string \<Rightarrow> string \<Rightarrow> webhook_event \<Rightarrow> dict \<Rightarrow> string \<Rightarrow> db \<Rightarrow> db \<times> (err + webhook_accepted)" where
  "accept_provider_webhook e delivery_id event_name w payload raw_body db =
     (case get_provider_event db (we_provider w) delivery_id of
        Some v \<Rightarrow>
          (db, Inr (accepted_answer w delivery_id v (ev_review_run_id v) (get_agent_task_id_for_event db (ev_id v)) True))
      | None \<Rightarrow>
          (let eid = next_id e db;
               db1 = draw (db\<lparr>inbox := inbox db @
                       [webhook_event_row eid (now e) (sha256 e raw_body) delivery_id event_name w payload]\<rparr>)
           in and_then (or_rollback db (and_then (accept_context e eid w db1)
                  (\<lambda>context db2. and_then (accept_closing e w db2)
                     (\<lambda>committed db3. (db3, Inr (context, committed))))))
                (\<lambda>(context, committed) db3.
                   and_then (or_rollback (if committed then db3 else db)
                       (and_then (accept_review e eid w context db3)
                          (\<lambda>rid db4. and_then (accept_command e eid w context db4)
                             (\<lambda>tid db5. (db5, Inr (rid, tid))))))
                     (\<lambda>(rid, tid) db5.
                        let db6 = upd_event eid (finish_event (now e)) db5
                        in (db6, Inr (accepted_answer w delivery_id (the_event db6 eid) rid tid False))))))"

section \<open>What accepting an event leaves behind\<close>

lemma event_row_simps [simp]:
  "ev_id (webhook_event_row i t g did nm w pl) = i" "ev_provider (webhook_event_row i t g did nm w pl) = we_provider w"
  "ev_delivery_id (webhook_event_row i t g did nm w pl) = did"
  "ev_internal_event (webhook_event_row i t g did nm w pl) = we_internal_event w"
  "ev_review_run_id (webhook_event_row i t g did nm w pl) = None"
  "ev_repo_full_name (webhook_event_row i t g did nm w pl) = we_repository w"
  "ev_pull_request_number (webhook_event_row i t g did nm w pl) = we_pull_request_number w"
  by (simp_all add: webhook_event_row_def new_event_def Let_def)

lemma finish_event_simps [simp]:
  "ev_id (finish_event t v) = ev_id v" "ev_provider (finish_event t v) = ev_provider v"
  "ev_delivery_id (finish_event t v) = ev_delivery_id v" "ev_internal_event (finish_event t v) = ev_internal_event v"
  "ev_review_run_id (finish_event t v) = ev_review_run_id v"
  by (simp_all add: finish_event_def)

lemma or_rollback_Inr [simp]: "or_rollback db0 r = (db', Inr v) \<longleftrightarrow> r = (db', Inr v)"
  by (cases r; cases "snd r") (auto simp: or_rollback_def)

lemma upsert_frame:
  assumes "upsert_pull_request_context e eid p db = (db', cid)"
  shows "inbox db' = inbox db" "agents db' = agents db" "tasks db' = tasks db" "runs db' = runs db"
    "outbox db' = outbox db" "identities db' = identities db" "drawn db \<le> drawn db'"
  using assms by (auto simp: upsert_pull_request_context_def Let_def identities_def split: option.splits)

lemma context_frame:
  assumes "accept_context e eid w db = (db', Inr c)"
  shows "inbox db' = inbox db" "agents db' = agents db" "tasks db' = tasks db" "runs db' = runs db"
    "outbox db' = outbox db" "identities db' = identities db" "drawn db \<le> drawn db'"
  using assms upsert_frame by (auto simp: accept_context_def split: if_splits option.splits prod.splits)

lemma closing_cases:
  assumes "accept_closing e w db = (db', Inr b)"
  obtains (other) "\<not> closes_pr w" "db' = db"
  | (closed) rids db1 where "closes_pr w"
      "cancel_active_review_runs_for_pr e (we_provider w) (we_repository w) (we_pull_request_number w)
         (the (we_internal_event w)) db = (db1, Inr rids)"
      "cancel_active_agent_tasks_for_pr (we_provider w) (we_repository w) (we_pull_request_number w)
         (the (we_internal_event w)) db1 = (db', snd (cancel_active_agent_tasks_for_pr (we_provider w) (we_repository w)
           (we_pull_request_number w) (the (we_internal_event w)) db1))"
proof (cases "closes_pr w")
  case False
  with assms other show ?thesis by (simp add: accept_closing_def)
next
  case True
  with assms obtain rids db1 where *: "cancel_active_review_runs_for_pr e (we_provider w) (we_repository w)
      (we_pull_request_number w) (the (we_internal_event w)) db = (db1, Inr rids)"
    by (auto simp: accept_closing_def and_then_Inr)
  with assms True show ?thesis
    by (cases "cancel_active_agent_tasks_for_pr (we_provider w) (we_repository w) (we_pull_request_number w)
      (the (we_internal_event w)) db1") (intro closed[OF True *], simp add: accept_closing_def and_then_def)
qed

definition same_command :: "agent_task \<Rightarrow> string \<times> string option" where
  "same_command a = (a_id a, a_provider_event_id a)"

lemma cancel_commands_frame:
  "inbox (fst (cancel_active_agent_tasks_for_pr p n i c db)) = inbox db"
  "map same_command (agents (fst (cancel_active_agent_tasks_for_pr p n i c db))) = map same_command (agents db)"
  by (auto simp: cancel_active_agent_tasks_for_pr_def Let_def same_command_def upd_where_def split: option.splits)

lemma closing_frame:
  assumes "accept_closing e w db = (db', Inr b)"
  shows "inbox db' = inbox db" "map same_command (agents db') = map same_command (agents db)"
proof -
  from assms have "inbox db' = inbox db \<and> map same_command (agents db') = map same_command (agents db)"
  proof (cases rule: closing_cases)
    case (closed rids db1)
    have "inbox db1 = inbox db" "agents db1 = agents db"
      using inbox_kept.cancel_pr_keeps[of db "inbox db"] agents_kept.cancel_pr_keeps[of db "agents db"] closed(2)
      by (metis fst_conv)+
    with cancel_commands_frame closed(3) show ?thesis by (metis fst_conv)
  qed simp
  then show "inbox db' = inbox db" "map same_command (agents db') = map same_command (agents db)" by simp_all
qed

text \<open>The event after a review has been asked for\<close>

definition with_run :: "string option \<Rightarrow> provider_event \<Rightarrow> provider_event" where
  "with_run rid v = (case rid of None \<Rightarrow> v | Some r \<Rightarrow> v\<lparr>ev_review_run_id := Some r, ev_status := ''queued''\<rparr>)"

definition with_command :: "string option \<Rightarrow> provider_event \<Rightarrow> provider_event" where
  "with_command tid v = (case tid of None \<Rightarrow> v | Some t \<Rightarrow> v\<lparr>ev_status := ''queued''\<rparr>)"

lemma with_run_simps [simp]:
  "ev_id (with_run r v) = ev_id v" "ev_provider (with_run r v) = ev_provider v"
  "ev_delivery_id (with_run r v) = ev_delivery_id v" "ev_id (with_command t v) = ev_id v"
  "ev_provider (with_command t v) = ev_provider v" "ev_delivery_id (with_command t v) = ev_delivery_id v"
  "ev_review_run_id (with_command t v) = ev_review_run_id v"
  "ev_review_run_id v = None \<Longrightarrow> ev_review_run_id (with_run r v) = r"
  by (simp_all add: with_run_def with_command_def split: option.splits)

lemma with_None [simp]: "upd_where P (with_run None) xs = xs" "upd_where P (with_command None) xs = xs"
  by (induction xs) (simp_all add: with_run_def with_command_def)

lemma review_frame:
  assumes "accept_review e eid w c db = (db', Inr rid)"
  shows "inbox db' = upd_where (\<lambda>v. ev_id v = eid) (with_run rid) (inbox db)" "agents db' = agents db"
proof -
  have "inbox db' = upd_where (\<lambda>v. ev_id v = eid) (with_run rid) (inbox db) \<and> agents db' = agents db"
  proof (cases "we_should_create_review_run w")
    case False
    with assms show ?thesis by (auto simp: accept_review_def)
  next
    case True
    then obtain cid r cr db1 where
      h: "handle_review_requested e \<lparr>qs_reason = ''automatic'', qs_trigger_event_id = eid, qs_pull_request_context_id = cid,
            qs_source_run_id = None, qs_dedupe_key = None\<rparr> db = (db1, Inr (r, cr))" and
      d: "rid = Some r" "db' = upd_context cid (\<lambda>c. c\<lparr>c_latest_review_run_id := Some r\<rparr>)
                     (upd_event eid (\<lambda>v. v\<lparr>ev_review_run_id := Some r, ev_status := ''queued''\<rparr>) db1)"
      using assms by (auto simp: accept_review_def and_then_Inr split: option.splits)
    then show ?thesis using handle_frame(1,3)[OF h]
      by (simp add: with_run_def[abs_def] upd_event_def)
  qed
  then show "inbox db' = upd_where (\<lambda>v. ev_id v = eid) (with_run rid) (inbox db)" "agents db' = agents db" by simp_all
qed

lemma command_frame:
  assumes "accept_command e eid w c db = (db', Inr tid)"
  shows "inbox db' = upd_where (\<lambda>v. ev_id v = eid) (with_command tid) (inbox db)"
    "(tid = None \<and> agents db' = agents db) \<or>
     (\<exists>i a. tid = Some i \<and> agents db' = agents db @ [a] \<and> a_id a = i \<and> a_provider_event_id a = Some (ev_id (the_event db eid)))"
proof -
  have "inbox db' = upd_where (\<lambda>v. ev_id v = eid) (with_command tid) (inbox db) \<and>
    ((tid = None \<and> agents db' = agents db) \<or>
     (\<exists>i a. tid = Some i \<and> agents db' = agents db @ [a] \<and> a_id a = i \<and> a_provider_event_id a = Some (ev_id (the_event db eid))))"
  proof (cases "we_should_create_agent_task w")
    case False
    with assms show ?thesis by (auto simp: accept_command_def)
  next
    case True
    then obtain cmd db1 i where
      h: "create_agent_task_from_event e eid cmd c db = (db1, Inr i)" and
      d: "tid = Some i" "db' = upd_event eid (\<lambda>v. v\<lparr>ev_status := ''queued''\<rparr>) db1"
      using assms by (auto simp: accept_command_def and_then_Inr split: option.splits)
    then show ?thesis
      by (auto simp: create_agent_task_from_event_def Let_def with_command_def[abs_def] upd_event_def
          command_agent_row_def new_agent_task_def split: if_splits)
  qed
  then show "inbox db' = upd_where (\<lambda>v. ev_id v = eid) (with_command tid) (inbox db)"
    "(tid = None \<and> agents db' = agents db) \<or>
     (\<exists>i a. tid = Some i \<and> agents db' = agents db @ [a] \<and> a_id a = i \<and> a_provider_event_id a = Some (ev_id (the_event db eid)))"
    by simp_all
qed


text \<open>An accepted delivery adds one event, and at most one message command that names it.\<close>

lemma upd_last_event:
  assumes "i \<notin> ev_id ` set vs" "ev_id v = i"
  shows "upd_where (\<lambda>v. ev_id v = i) f (vs @ [v]) = vs @ [f v]"
proof -
  from assms(1) have "upd_where (\<lambda>v. ev_id v = i) f vs = vs" by (intro upd_where_none) blast
  with assms(2) show ?thesis by (simp add: upd_where_append)
qed

lemma the_last_event:
  assumes "inbox db = vs @ [v]" "i \<notin> ev_id ` set vs" "ev_id v = i"
  shows "the_event db i = v"
proof -
  from assms(2) have "first_row (\<lambda>v. ev_id v = i) vs = None" by (auto simp: first_row_None)
  with assms(1,3) show ?thesis by (simp add: the_event_def get_event_def first_row_append or_else_def)
qed

lemma command_keys:
  assumes "map same_command as = map same_command bs"
  shows "map a_id as = map a_id bs" "map a_provider_event_id as = map a_provider_event_id bs"
  using arg_cong[OF assms, of "map fst"] arg_cong[OF assms, of "map snd"]
  by (simp_all add: same_command_def comp_def)

lemma agent_of_event:
  assumes "\<forall>a \<in> set xs. a_provider_event_id a \<noteq> Some i"
  shows "agents db = xs \<Longrightarrow> get_agent_task_id_for_event db i = None"
    "agents db = xs @ [a] \<Longrightarrow> a_provider_event_id a = Some i \<Longrightarrow> get_agent_task_id_for_event db i = Some (a_id a)"
  using assms by (simp_all add: get_agent_task_id_for_event_def filter_empty_conv[THEN iffD2])

lemma accept_new:
  assumes new: "get_provider_event db (we_provider w) d = None"
    and ok: "accept_provider_webhook e d nm w pl raw db = (db', Inr a)"
    and fresh: "next_id e db \<notin> ev_id ` set (inbox db)"
    and unused: "Some (next_id e db) \<notin> a_provider_event_id ` set (agents db)"
  obtains v where "inbox db' = inbox db @ [v]" "ev_id v = next_id e db" "ev_provider v = we_provider w"
    "ev_delivery_id v = d"
    "a = accepted_answer w d v (ev_review_run_id v) (get_agent_task_id_for_event db' (next_id e db)) False"
proof -
  let ?i = "next_id e db"
  let ?v = "webhook_event_row ?i (now e) (sha256 e raw) d nm w pl"
  let ?db1 = "draw (db\<lparr>inbox := inbox db @ [?v]\<rparr>)"
  from new ok obtain c db2 k db3 rid db4 tid db5 where
    h: "accept_context e ?i w ?db1 = (db2, Inr c)" "accept_closing e w db2 = (db3, Inr k)"
      "accept_review e ?i w c db3 = (db4, Inr rid)" "accept_command e ?i w c db4 = (db5, Inr tid)"
    and d: "db' = upd_event ?i (finish_event (now e)) db5" "a = accepted_answer w d (the_event db' ?i) rid tid False"
    by (auto simp: accept_provider_webhook_def Let_def and_then_Inr)
  let ?u = "with_command tid (with_run rid ?v)"
  have i3: "inbox db3 = inbox db @ [?v]" using context_frame(1)[OF h(1)] closing_frame(1)[OF h(2)] by simp
  have i4: "inbox db4 = inbox db @ [with_run rid ?v]"
    by (simp add: review_frame(1)[OF h(3)] i3 upd_last_event[OF fresh])
  have i5: "inbox db5 = inbox db @ [?u]"
    by (simp add: command_frame(1)[OF h(4)] i4 upd_last_event[OF fresh])
  have i6: "inbox db' = inbox db @ [finish_event (now e) ?u]"
    by (simp add: d(1) upd_event_def i5 upd_last_event[OF fresh])
  have k3: "map same_command (agents db3) = map same_command (agents db)"
    using context_frame(2)[OF h(1)] closing_frame(2)[OF h(2)] by simp
  have agents4: "agents db4 = agents db3" by (rule review_frame(2)[OF h(3)])
  have none: "\<forall>a \<in> set (agents db3). a_provider_event_id a \<noteq> Some ?i"
    using command_keys(2)[OF k3] unused by (metis image_eqI list.set_map)
  have v4: "ev_id (the_event db4 ?i) = ?i" using the_last_event[OF i4 fresh] by simp
  have "get_agent_task_id_for_event db5 ?i = tid"
    using command_frame(2)[OF h(4)] unfolding agents4 v4
  proof (elim disjE exE conjE)
    assume "tid = None" "agents db5 = agents db3"
    then show ?thesis by (simp add: agent_of_event(1)[OF none])
  next
    fix i a
    assume "tid = Some i" "agents db5 = agents db3 @ [a]" "a_id a = i" "a_provider_event_id a = Some ?i"
    then show ?thesis by (simp add: agent_of_event(2)[OF none])
  qed
  then have "get_agent_task_id_for_event db' ?i = tid"
    by (simp add: d(1) get_agent_task_id_for_event_def upd_event_def the_task_def get_task_def)
  with i6 d(2) show thesis
    by (intro that[of "finish_event (now e) ?u"]) (simp_all add: the_last_event[OF i6 fresh])
qed

text \<open>
  C9. A webhook delivered twice is handled once. Once the delivery has been accepted, accepting the same
  provider's delivery again, whatever the second request carries, changes nothing and gives the same
  answer as the first time, marked as a duplicate.
\<close>

theorem redelivered_webhook_changes_nothing:
  assumes "get_provider_event db (we_provider w) d = None"
    and "accept_provider_webhook e d nm w pl raw db = (db', Inr a)"
    and "next_id e db \<notin> ev_id ` set (inbox db)"
    and "Some (next_id e db) \<notin> a_provider_event_id ` set (agents db)"
    and same: "we_provider w' = we_provider w"
  shows "accept_provider_webhook e' d nm' w' pl' raw' db' = (db', Inr (a\<lparr>wa_duplicate := True\<rparr>))"
proof -
  from accept_new[OF assms(1-4)] obtain v where v: "inbox db' = inbox db @ [v]" "ev_id v = next_id e db"
    "ev_provider v = we_provider w" "ev_delivery_id v = d"
    "a = accepted_answer w d v (ev_review_run_id v) (get_agent_task_id_for_event db' (next_id e db)) False" by metis
  have "get_provider_event db' (we_provider w) d = Some v"
    using assms(1) v by (simp add: get_provider_event_def first_row_append)
  with v(2,5) same show ?thesis by (simp add: accept_provider_webhook_def accepted_answer_def)
qed


section \<open>Closing a pull request\<close>

text \<open>The unfinished message commands of a pull request, and how their tasks are told to stop.\<close>

definition commands_of_pr :: "string \<Rightarrow> string \<Rightarrow> int \<Rightarrow> db \<Rightarrow> string list" where
  "commands_of_pr p n i db = map a_id (filter (\<lambda>a. a_provider a = p \<and> a_repo_full_name a = n \<and>
     a_pull_request_number a = i \<and> a_task_type a = ''message_command'' \<and>
     t_status (the_task db (a_id a)) \<in> {''queued'', ''running''}) (agents db))"

definition told_to_stop :: "task \<Rightarrow> task" where
  "told_to_stop t = t\<lparr>t_status := ''running'', t_stage := Some ''cancellation_pending'',
     t_lock_owner := None, t_locked_until := None\<rparr>"

lemma cancel_commands_effect:
  "get_task (fst (cancel_active_agent_tasks_for_pr p (Some n) (Some i) c db)) j =
     (if j \<in> set (commands_of_pr p n i db) then map_option told_to_stop (get_task db j) else get_task db j)"
proof -
  let ?ids = "set (commands_of_pr p n i db)"
  have "tasks (fst (cancel_active_agent_tasks_for_pr p (Some n) (Some i) c db)) =
      upd_where (\<lambda>t. t_id t \<in> ?ids) told_to_stop (tasks db)"
    by (simp add: cancel_active_agent_tasks_for_pr_def Let_def commands_of_pr_def told_to_stop_def[abs_def])
  then have "get_task (fst (cancel_active_agent_tasks_for_pr p (Some n) (Some i) c db)) j =
      map_option (\<lambda>r. if t_id r \<in> ?ids then told_to_stop r else r) (get_task db j)"
    by (simp add: get_task_def first_row_upd_where told_to_stop_def)
  moreover have "t_id t = j" if "get_task db j = Some t" for t
    using first_row_SomeD that unfolding get_task_def by fastforce
  ultimately show ?thesis by (cases "get_task db j") auto
qed

lemma commands_of_pr_same:
  assumes "agents db' = agents db" and "\<And>a. a \<in> set (agents db) \<Longrightarrow> get_task db' (a_id a) = get_task db (a_id a)"
  shows "commands_of_pr p n i db' = commands_of_pr p n i db"
  using assms by (auto simp: commands_of_pr_def the_task_def intro!: arg_cong[of _ _ "map a_id"] filter_cong)

lemma cancelled_effect:
  assumes "cancel_active_review_runs_for_pr e p (Some n) (Some i) fc db = (db', Inr rids)" and "runs_ok u db"
  shows "rids = runs_of_pr p n i (\<lambda>r. True) db"
    "runs db' = upd_where (\<lambda>r. r_id r \<in> set rids) (\<lambda>r. r\<lparr>r_failure_code := Some fc\<rparr>) (runs db)"
    "\<And>j. j \<notin> set rids \<Longrightarrow> get_task db' j = get_task db j"
    "\<And>j. j \<in> set rids \<Longrightarrow> \<exists>t'. get_task db' j = Some t' \<and> ending ''cancelled'' (Some (now e)) t'"
proof -
  let ?f = "\<lambda>t. t\<lparr>t_status := ''cancelled'', t_execution_status := ''cancelled'', t_stage := Some ''cleanup'',
      t_completed_at := Some (now e)\<rparr>"
  let ?g = "\<lambda>r. r\<lparr>r_failure_code := Some fc\<rparr>"
  show rids: "rids = runs_of_pr p n i (\<lambda>r. True) db"
    using assms(1) by (auto simp: cancel_active_review_runs_for_pr_def Let_def and_then_Inr)
  have e: "end_runs e ''cancelled'' ?f ?g rids db = (db', Inr ())"
    using assms(1) by (auto simp: cancel_active_review_runs_for_pr_def Let_def and_then_Inr)
  have d: "distinct rids" unfolding rids by (rule runs_of_pr_distinct[OF assms(2)])
  have t: "''cancelled'' \<in> set terminal_statuses" by (simp add: terminal_statuses_def)
  have E: "runs db' = upd_where (\<lambda>r. r_id r \<in> set rids) ?g (runs db) \<and> set (outbox db) \<subseteq> set (outbox db') \<and>
     (\<forall>j. j \<notin> set rids \<longrightarrow> get_task db' j = get_task db j) \<and>
     (\<forall>j \<in> set rids. get_task db j \<noteq> None \<longrightarrow> (\<exists>t'. get_task db' j = Some t' \<and> ending ''cancelled'' (Some (now e)) t'))"
    by (rule end_runs_ending[OF e t d]) simp_all
  then show "runs db' = upd_where (\<lambda>r. r_id r \<in> set rids) ?g (runs db)"
    and "\<And>j. j \<notin> set rids \<Longrightarrow> get_task db' j = get_task db j" by simp_all
  show "\<exists>t'. get_task db' j = Some t' \<and> ending ''cancelled'' (Some (now e)) t'" if j: "j \<in> set rids" for j
  proof -
    obtain r where "r \<in> set (runs db)" "r_id r = j" using j unfolding rids runs_of_pr_in by blast
    with run_has_task[OF assms(2)] have "get_task db j \<noteq> None" by blast
    with E j show ?thesis by blast
  qed
qed

lemma accept_closed:
  assumes "get_provider_event db (we_provider w) d = None" and "accept_provider_webhook e d nm w pl raw db = (db', Inr a)"
    and "\<not> we_should_create_review_run w" and "\<not> we_should_create_agent_task w"
  obtains db1 k db2 where "tasks db1 = tasks db" "runs db1 = runs db" "agents db1 = agents db"
    "identities db1 = identities db" "drawn db \<le> drawn db1" "accept_closing e w db1 = (db2, Inr k)" "tasks db' = tasks db2" "runs db' = runs db2"
proof -
  let ?v = "webhook_event_row (next_id e db) (now e) (sha256 e raw) d nm w pl"
  from assms(1,2) obtain c db1 k db2 where
    h: "accept_context e (next_id e db) w (draw (db\<lparr>inbox := inbox db @ [?v]\<rparr>)) = (db1, Inr c)"
      "accept_closing e w db1 = (db2, Inr k)" "db' = upd_event (next_id e db) (finish_event (now e)) db2"
    by (auto simp: accept_provider_webhook_def Let_def and_then_Inr accept_review_def[of _ _ w] accept_command_def[of _ _ w]
        assms(3,4))
  show thesis
    by (rule that[OF _ _ _ _ _ h(2)]) (use context_frame[OF h(1)] in \<open>simp_all add: h(3) upd_event_def identities_def draw_def\<close>)
qed


text \<open>
  C10. Closing or merging a pull request ends its work and nothing else. After a closing event has been
  accepted, each of its queued, running or delivering review runs is cancelled at that time, parked until
  the announcement is delivered, and names the event as its failure code; each of its queued or running
  message commands waits for its cancellation with its lock released; every other task is as it was.
\<close>

theorem closed_pull_request_ends_its_work:
  fixes w :: webhook_event
  defines "p \<equiv> we_provider w"
  assumes "get_provider_event db (we_provider w) d = None" and "accept_provider_webhook e d nm w pl raw db = (db', Inr a)"
    and "closes_pr w" and "we_repository w = Some n" and "we_pull_request_number w = Some i"
    and "\<not> we_should_create_review_run w" and "\<not> we_should_create_agent_task w"
    and "runs_ok u db" and "r_id ` set (runs db) \<inter> a_id ` set (agents db) = {}"
  shows "(\<forall>j. if j \<in> set (runs_of_pr p n i (\<lambda>r. True) db)
           then \<exists>t'. get_task db' j = Some t' \<and> ending ''cancelled'' (Some (now e)) t'
         else if j \<in> set (commands_of_pr p n i db)
           then get_task db' j = map_option told_to_stop (get_task db j)
         else get_task db' j = get_task db j) \<and>
     runs db' = map (\<lambda>r. if r_id r \<in> set (runs_of_pr p n i (\<lambda>r. True) db)
       then r\<lparr>r_failure_code := we_internal_event w\<rparr> else r) (runs db)"
proof -
  obtain db1 k db2 where same: "tasks db1 = tasks db" "runs db1 = runs db" "agents db1 = agents db"
    "identities db1 = identities db" "drawn db \<le> drawn db1"
    and c: "accept_closing e w db1 = (db2, Inr k)" and d: "tasks db' = tasks db2" "runs db' = runs db2"
    using accept_closed[OF assms(2,3,7,8)] .
  let ?fc = "the (we_internal_event w)"
  from c assms(4) obtain rids db3 where
    r: "cancel_active_review_runs_for_pr e p (Some n) (Some i) ?fc db1 = (db3, Inr rids)"
    and m: "db2 = fst (cancel_active_agent_tasks_for_pr p (Some n) (Some i) ?fc db3)"
    by (cases rule: closing_cases) (simp_all add: assms(5,6) p_def prod_eq_iff)
  have ok1: "runs_ok u db1" using runs_ok_identities[OF assms(9)] same(3-5) by simp
  note R = cancelled_effect[OF r ok1]
  have rids: "rids = runs_of_pr p n i (\<lambda>r. True) db"
    using R(1) same by (simp add: runs_of_pr_def the_task_def get_task_def)
  have commands: "commands_of_pr p n i db3 = commands_of_pr p n i db"
  proof (rule commands_of_pr_same)
    show "agents db3 = agents db" using agents_kept.cancel_pr_keeps[of db1 "agents db"] r same(3) by (metis fst_conv)
    fix a assume "a \<in> set (agents db)"
    with assms(10) have "a_id a \<notin> set rids" unfolding rids runs_of_pr_in by blast
    then show "get_task db3 (a_id a) = get_task db (a_id a)" using R(3) same(1) by (simp add: get_task_def)
  qed
  have disjoint: "j \<notin> set (commands_of_pr p n i db)" if "j \<in> set rids" for j
    using that assms(10) unfolding rids runs_of_pr_in commands_of_pr_def by auto
  have t2: "get_task db' j = (if j \<in> set (commands_of_pr p n i db)
      then map_option told_to_stop (get_task db3 j) else get_task db3 j)" for j
    using cancel_commands_effect[of p n i ?fc db3 j] d(1) m commands by (simp add: get_task_def)
  have "runs db2 = runs db3"
    unfolding m by (simp add: cancel_active_agent_tasks_for_pr_def Let_def)
  moreover have "Some ?fc = we_internal_event w" using assms(4) by (auto simp: closes_pr_def)
  ultimately have "runs db' = map (\<lambda>r. if r_id r \<in> set rids then r\<lparr>r_failure_code := we_internal_event w\<rparr> else r) (runs db)"
    using R(2) d(2) same(2) by (simp add: upd_where_def)
  moreover have "if j \<in> set rids then \<exists>t'. get_task db' j = Some t' \<and> ending ''cancelled'' (Some (now e)) t'
      else if j \<in> set (commands_of_pr p n i db) then get_task db' j = map_option told_to_stop (get_task db j)
      else get_task db' j = get_task db j" for j
    using R(3,4)[of j] disjoint[of j] t2[of j] same(1) by (simp add: get_task_def)
  ultimately show ?thesis unfolding rids by blast
qed


section \<open>Examples\<close>

definition sample_event :: "string \<Rightarrow> webhook_event" where
  "sample_event internal =
     \<lparr>we_provider = ''gh'', we_provider_event = ''x'', we_provider_action = None, we_internal_event = Some internal,
      we_repository = Some ''o/r'', we_pull_request_number = Some 1, we_head_sha = Some ''h1'',
      we_should_update_context = False, we_should_create_review_run = False, we_should_create_agent_task = False,
      we_status = ''received'', we_agent_command = None, we_pull_request = None\<rparr>"

definition sample_command_event :: webhook_event where
  "sample_command_event = (sample_event ''pr_comment_command'')
     \<lparr>we_should_create_agent_task := True,
      we_agent_command := Some \<lparr>ac_source_kind = ''issue_comment'', ac_source_comment_id = ''9'', ac_source_url = None,
        ac_author_login = ''ann'', ac_author_association = None, ac_command_text = ''explain''\<rparr>\<rparr>"

theorem redelivered_webhook_changes_nothing_witness:
  "\<exists>db' a. accept_provider_webhook (sample_env 5) ''d1'' ''issue_comment'' sample_command_event [] ''raw'' empty_db = (db', Inr a) \<and>
     wa_agent_task_id a = Some ''id-1'' \<and> \<not> wa_duplicate a \<and>
     accept_provider_webhook (sample_env 7) ''d1'' ''issue_comment'' sample_command_event [] ''other'' db' =
       (db', Inr (a\<lparr>wa_duplicate := True\<rparr>))"
proof -
  let ?r = "accept_provider_webhook (sample_env 5) ''d1'' ''issue_comment'' sample_command_event [] ''raw'' empty_db"
  have "case snd ?r of Inr a \<Rightarrow> wa_agent_task_id a = Some ''id-1'' \<and> \<not> wa_duplicate a | Inl _ \<Rightarrow> False" by code_simp
  then obtain db' a where r: "?r = (db', Inr a)" "wa_agent_task_id a = Some ''id-1''" "\<not> wa_duplicate a"
    by (cases ?r) (auto split: sum.splits)
  have n: "get_provider_event empty_db (we_provider sample_command_event) ''d1'' = None"
    by (simp add: get_provider_event_def empty_db_def)
  have "next_id (sample_env 5) empty_db \<notin> ev_id ` set (inbox empty_db)"
    "Some (next_id (sample_env 5) empty_db) \<notin> a_provider_event_id ` set (agents empty_db)"
    by (simp_all add: empty_db_def)
  from redelivered_webhook_changes_nothing[OF n r(1) this refl] r show ?thesis by (intro exI conjI)
qed

definition sample_open_db :: db where
  "sample_open_db = empty_db\<lparr>
     tasks := [(new_task ''r1'' ''review'' 0)\<lparr>t_status := ''running'', t_execution_status := ''running''\<rparr>,
               (new_task ''a1'' ''agent'' 1)\<lparr>t_status := ''queued'', t_lock_owner := Some ''w''\<rparr>,
               (new_task ''r2'' ''review'' 2)\<lparr>t_status := ''queued''\<rparr>],
     runs := [new_run ''r1'' ''gh'' ''o/r'' 1 ''h1'', new_run ''r2'' ''gh'' ''o/r'' 2 ''h1''],
     agents := [(new_agent_task ''a1'' ''gh'' ''o/r'' 1)\<lparr>a_task_type := ''message_command''\<rparr>],
     slots := [new_slot ''s1'' 0 ''r1'' ''gh'' ''o/r'' 1 ''h1'' ''m'']\<rparr>"

theorem closed_pull_request_ends_its_work_witness:
  "\<exists>db' a t'. accept_provider_webhook (sample_env 5) ''d1'' ''pull_request'' (sample_event ''pr_merged'') [] ''raw'' sample_open_db =
       (db', Inr a) \<and> get_task db' ''r1'' = Some t' \<and> ending ''cancelled'' (Some 5) t' \<and>
     get_task db' ''a1'' = map_option told_to_stop (get_task sample_open_db ''a1'') \<and>
     get_task db' ''r2'' = get_task sample_open_db ''r2''"
proof -
  let ?r = "accept_provider_webhook (sample_env 5) ''d1'' ''pull_request'' (sample_event ''pr_merged'') [] ''raw'' sample_open_db"
  have "case snd ?r of Inr a \<Rightarrow> True | Inl _ \<Rightarrow> False" by code_simp
  then obtain db' a where r: "?r = (db', Inr a)" by (cases ?r) (auto split: sum.splits)
  have ev: "get_provider_event sample_open_db (we_provider (sample_event ''pr_merged'')) ''d1'' = None"
    "closes_pr (sample_event ''pr_merged'')" "we_repository (sample_event ''pr_merged'') = Some ''o/r''"
    "we_pull_request_number (sample_event ''pr_merged'') = Some 1" "\<not> we_should_create_review_run (sample_event ''pr_merged'')"
    "\<not> we_should_create_agent_task (sample_event ''pr_merged'')" "we_provider (sample_event ''pr_merged'') = ''gh''"
    by (simp_all add: get_provider_event_def sample_open_db_def empty_db_def sample_event_def closes_pr_def)
  have ok: "runs_ok (\<lambda>k. ''u'') sample_open_db"
    "r_id ` set (runs sample_open_db) \<inter> a_id ` set (agents sample_open_db) = {}"
    by (simp_all add: runs_ok_def sample_open_db_def attempts_dense_def unique_on_def run_key_def new_run_def new_task_def
        new_agent_task_def)
  have ids: "runs_of_pr ''gh'' ''o/r'' 1 (\<lambda>r. True) sample_open_db = [''r1'']"
    "commands_of_pr ''gh'' ''o/r'' 1 sample_open_db = [''a1'']" by code_simp+
  have n: "now (sample_env 5) = 5" by (simp add: sample_env_def)
  note closed = closed_pull_request_ends_its_work[OF ev(1) r ev(2-6) ok]
  have all: "\<forall>j. if j \<in> set [''r1''] then \<exists>t'. get_task db' j = Some t' \<and> ending ''cancelled'' (Some 5) t'
      else if j \<in> set [''a1''] then get_task db' j = map_option told_to_stop (get_task sample_open_db j)
      else get_task db' j = get_task sample_open_db j"
    using conjunct1[OF closed] unfolding ev(7) ids n .
  obtain t' where t: "get_task db' ''r1'' = Some t'" "ending ''cancelled'' (Some 5) t'" using spec[OF all, of "''r1''"] by auto
  have "get_task db' ''a1'' = map_option told_to_stop (get_task sample_open_db ''a1'')" using spec[OF all, of "''a1''"] by simp
  moreover have "get_task db' ''r2'' = get_task sample_open_db ''r2''" using spec[OF all, of "''r2''"] by simp
  ultimately show ?thesis using r t by (intro exI conjI)
qed

end
