(* ===== verification/Intake.thy ===== *)
theory Intake
  imports Webhooks Inbox
begin

text \<open>
  From the provider's webhook to the inbox: what normalization promises of an event is what accepting it
  relies on.
\<close>

lemma github_snapshot_Some:
  assumes "github_pull_request_snapshot cd payload = Inr (Some s)"
  shows "repository_name payload = Some (ps_repository s) \<and> pull_request_number payload = Some (ps_number s) \<and>
     pull_request_head_sha payload = Some (ps_head_sha s)"
  using assms
  by (auto simp: github_pull_request_snapshot_def repository_name_def pull_request_number_def pull_request_head_sha_def Let_def
      split: option.splits sum.splits)

lemma gitlab_snapshot_Some:
  assumes "gitlab_pull_request_snapshot cd payload = Inr (Some s)"
  shows "project_path (jget payload ''project'') = Some (ps_repository s) \<and>
     int_or_none (obj_get (jget payload ''object_attributes'') ''iid'') = Some (ps_number s)"
  using assms by (auto simp: gitlab_pull_request_snapshot_def Let_def split: option.splits sum.splits)

definition suits_inbox :: "webhook_event \<Rightarrow> bool" where
  "suits_inbox w \<longleftrightarrow>
     (we_status w = ''received'') = (we_internal_event w \<noteq> None) \<and>
     (we_should_create_review_run w \<longrightarrow> we_should_update_context w) \<and>
     (we_should_update_context w \<longrightarrow> (\<exists>s. we_pull_request w = Some s \<and> we_repository w = Some (ps_repository s) \<and>
        we_pull_request_number w = Some (ps_number s))) \<and>
     (we_should_create_agent_task w \<longrightarrow> we_agent_command w \<noteq> None \<and> we_pull_request_number w \<noteq> None) \<and>
     (closes_pr w \<longrightarrow> we_should_update_context w)"

lemma github_suits:
  assumes "normalize_github_event cd event payload login enabled allowed m = Inr w"
  shows "suits_inbox w"
proof -
  have acts: "map_of pr_actions_to_internal_event a = None \<Longrightarrow> a \<notin> set review_run_actions" for a
    by (auto simp: review_run_actions_def pr_actions_to_internal_event_def)
  show ?thesis
    using assms
    by (auto dest: acts github_snapshot_Some simp: normalize_github_event_def normalize_pull_request_event_def normalize_comment_context_event_def
        suits_inbox_def closes_pr_def event_status_def or_else_def Let_def split: if_splits sum.splits option.splits)
qed

lemma gitlab_opening:
  "a \<in> {''open'', ''opened'', ''reopen'', ''reopened''} \<Longrightarrow> gitlab_internal_event a b \<noteq> None"
  by (auto simp: gitlab_internal_event_def)

lemma gitlab_suits:
  assumes "normalize_gitlab_event cd event payload = Inr w"
  shows "suits_inbox w"
proof (cases "event = ''Merge Request Hook''")
  case False
  with assms show ?thesis
    by (auto simp: normalize_gitlab_event_def suits_inbox_def closes_pr_def)
next
  case True
  let ?attrs = "jget payload ''object_attributes''"
  define action where "action = (case str_or_none (obj_get ?attrs ''action'') of Some a \<Rightarrow> Some a | None \<Rightarrow> str_or_none (obj_get ?attrs ''state''))"
  define internal where "internal = gitlab_internal_event (or_else action []) (source_commit_changed ?attrs)"
  obtain snapshot where s: "gitlab_pull_request_snapshot cd payload = Inr snapshot" "internal \<noteq> None \<longrightarrow> snapshot \<noteq> None"
    and w: "we_internal_event w = internal" "we_repository w = project_path (jget payload ''project'')"
      "we_pull_request_number w = int_or_none (obj_get ?attrs ''iid'')" "we_should_update_context w = (internal \<noteq> None)"
      "we_should_create_review_run w =
         (or_else action [] \<in> {''open'', ''opened'', ''reopen'', ''reopened''} \<or> internal = Some ''pr_updated'')"
      "\<not> we_should_create_agent_task w" "we_status w = event_status internal" "we_pull_request w = snapshot"
    using assms True unfolding normalize_gitlab_event_def action_def[symmetric] Let_def internal_def[symmetric]
    by (auto split: if_splits sum.splits)
  have "we_should_create_review_run w \<longrightarrow> internal \<noteq> None"
    using w(5) gitlab_opening[of "or_else action []"] unfolding internal_def by blast
  moreover have "(event_status internal = ''received'') = (internal \<noteq> None)" by (simp add: event_status_def)
  moreover have "closes_pr w \<longrightarrow> internal \<noteq> None" by (auto simp: closes_pr_def w(1))
  moreover have "internal \<noteq> None \<longrightarrow> (\<exists>x. snapshot = Some x \<and> project_path (jget payload ''project'') = Some (ps_repository x) \<and>
      int_or_none (obj_get ?attrs ''iid'') = Some (ps_number x))"
    using s gitlab_snapshot_Some by blast
  ultimately show ?thesis by (simp add: suits_inbox_def w)
qed


definition sample_closed_payload :: dict where
  "sample_closed_payload =
     [(''action'', JStr ''closed''), (''repository'', JObj [(''full_name'', JStr ''o/r'')]),
      (''pull_request'', JObj [(''number'', JInt 7), (''merged'', JBool True), (''head'', JObj [(''sha'', JStr ''abc'')])])]"


end
