(* ===== verification/Changes.thy ===== *)
theory Changes
  imports Webhooks Results
begin

text \<open>
  What the providers answer about a pull request (\<open>integrations/github.py\<close>, \<open>integrations/gitlab.py\<close>): the
  changed files of a pull request and the lines of a diff that can carry a comment.
\<close>

section \<open>Lines of a diff\<close>

text \<open>\<open>header.split(" +", 1)\<close> has two parts when the separator occurs.\<close>

definition parse_hunk_new_start :: "string \<Rightarrow> int option" where
  "parse_hunk_new_start header =
     (case partition_at '' +'' header of
        (_, False, _) \<Rightarrow> None
      | (_, True, rest) \<Rightarrow> int_of_str (hd (split_on (CHR '','') (hd (split_on (CHR '' '') rest)))))"

fun commentable_from :: "int option \<Rightarrow> string list \<Rightarrow> int list" where
  "commentable_from new_line [] = []"
| "commentable_from new_line (raw # rest) =
     (if starts_with raw ''@@'' then commentable_from (parse_hunk_new_start raw) rest
      else (case new_line of
              None \<Rightarrow> commentable_from None rest
            | Some n \<Rightarrow>
                (if starts_with raw ''+'' \<and> \<not> starts_with raw ''+++'' then n # commentable_from (Some (n + 1)) rest
                 else if starts_with raw ''-'' \<and> \<not> starts_with raw ''---'' then commentable_from (Some n) rest
                 else commentable_from (Some (n + 1)) rest)))"

definition parse_commentable_lines :: "json \<Rightarrow> int list" where
  "parse_commentable_lines patch =
     (case patch of JStr s \<Rightarrow> commentable_from None (split_lines s) | _ \<Rightarrow> [])"

definition github_changed_files :: "json list \<Rightarrow> changed_file list" where
  "github_changed_files items =
     map (\<lambda>item. \<lparr>cf_path = the (str_or_none (obj_get item ''filename'')),
                  cf_commentable_lines = parse_commentable_lines (obj_get item ''patch'')\<rparr>)
       (filter (\<lambda>item. str_or_none (obj_get item ''filename'') \<noteq> None) items)"

text \<open>\<open>a or b\<close> on JSON values\<close>

definition json_or :: "json \<Rightarrow> json \<Rightarrow> json" where
  "json_or a b = (if is_truthy a then a else b)"

definition gitlab_changed_files :: "dict \<Rightarrow> changed_file list" where
  "gitlab_changed_files response =
     (let path = (\<lambda>item. str_or_none (json_or (obj_get item ''new_path'') (obj_get item ''old_path''))) in
      case jget response ''changes'' of
        JList items \<Rightarrow>
          map (\<lambda>item. \<lparr>cf_path = the (path item), cf_commentable_lines = parse_commentable_lines (obj_get item ''diff'')\<rparr>)
            (filter (\<lambda>item. is_dict item \<and> path item \<noteq> None) items)
      | _ \<Rightarrow> [])"

section \<open>A reference: printed diffs\<close>

datatype diff_line = Kept string | Added string | Removed string

record hunk =
  hk_old_start :: nat
  hk_old_count :: nat
  hk_new_start :: nat
  hk_new_count :: nat
  hk_heading :: string
  hk_lines :: "diff_line list"
  hk_unterminated :: bool

fun print_line :: "diff_line \<Rightarrow> string" where
  "print_line (Kept s) = CHR '' '' # s"
| "print_line (Added s) = CHR ''+'' # s"
| "print_line (Removed s) = CHR ''-'' # s"

definition print_header :: "hunk \<Rightarrow> string" where
  "print_header h =
     ''@@ -'' @ show_nat (hk_old_start h) @ '','' @ show_nat (hk_old_count h) @ '' +'' @ show_nat (hk_new_start h) @ '','' @
     show_nat (hk_new_count h) @ '' @@'' @ hk_heading h"

definition no_newline_marker :: string where
  "no_newline_marker = CHR 0x5C # '' No newline at end of file''"

definition print_hunk :: "hunk \<Rightarrow> string list" where
  "print_hunk h =
     print_header h # map print_line (hk_lines h) @ (if hk_unterminated h then [no_newline_marker] else [])"

definition print_diff :: "hunk list \<Rightarrow> string" where
  "print_diff hs = join [CHR 0x0A] (concat (map print_hunk hs))"

text \<open>
  The marker of a file that does not end with a line end stands after its last line, here at the end of a
  hunk.
\<close>

text \<open>The numbers, in the new file, of the lines a hunk adds\<close>

fun added_from :: "int \<Rightarrow> diff_line list \<Rightarrow> int list" where
  "added_from n [] = []"
| "added_from n (Added s # ls) = n # added_from (n + 1) ls"
| "added_from n (Kept s # ls) = added_from (n + 1) ls"
| "added_from n (Removed s # ls) = added_from n ls"

definition added_lines :: "hunk \<Rightarrow> int list" where
  "added_lines h = added_from (int (hk_new_start h)) (hk_lines h)"

definition one_line :: "string \<Rightarrow> bool" where
  "one_line s \<longleftrightarrow> list_all (\<lambda>c. \<not> is_line_end c) s"

text \<open>
  What the parser takes for a file header, an added text beginning with two plus signs or a removed text
  beginning with two minus signs, does not occur.
\<close>

fun plain_line :: "diff_line \<Rightarrow> bool" where
  "plain_line (Kept s) = one_line s"
| "plain_line (Added s) = (one_line s \<and> \<not> starts_with s ''++'')"
| "plain_line (Removed s) = (one_line s \<and> \<not> starts_with s ''--'')"

definition plain_hunk :: "hunk \<Rightarrow> bool" where
  "plain_hunk h \<longleftrightarrow> one_line (hk_heading h) \<and> list_all plain_line (hk_lines h)"

subsection \<open>Reading a header\<close>

lemma split_on_prefix: "d \<notin> set w \<Longrightarrow> hd (split_on d (w @ d # rest)) = w"
  by (induction w) (auto split: list.splits)

lemma partition_at_prefix:
  assumes "p \<noteq> []" and "hd p \<notin> set w"
  shows "partition_at p (w @ p @ rest) = (w, True, rest)"
  using assms(2)
proof (induction w)
  case Nil
  then show ?case using assms(1) by (cases p) (auto simp: starts_with_iff)
next
  case (Cons c w)
  then have "\<not> starts_with (c # w @ p @ rest) p" using assms(1) by (cases p) auto
  then show ?case using Cons by simp
qed

lemma digits_ok_digits: "s \<noteq> [] \<Longrightarrow> \<forall>c \<in> set s. is_digit c \<Longrightarrow> digits_ok s"
proof (induction s rule: digits_ok.induct)
  case (3 c d cs)
  moreover have "d \<noteq> CHR ''_''" using 3(4) by (auto simp: is_digit_def code_def)
  ultimately show ?case by simp
qed auto

lemma digit_chars:
  assumes "is_digit c"
  shows "\<not> is_space c" "c \<noteq> CHR ''-''" "c \<noteq> CHR ''+''" "c \<noteq> CHR '',''" "c \<noteq> CHR '' ''" "\<not> is_line_end c"
  using assms by (auto simp: is_digit_def is_space_def is_line_end_def code_def)

lemma int_of_show_nat: "int_of_str (show_nat n) = Some (int n)"
proof -
  let ?s = "show_nat n"
  have d: "\<forall>c \<in> set ?s. is_digit c" by (rule show_nat_digits)
  then have sp: "\<forall>c \<in> set ?s. \<not> is_space c" using digit_chars(1) by blast
  have keep: "dropWhile is_space xs = xs" if "\<forall>c \<in> set xs. \<not> is_space c" for xs using that by (cases xs) auto
  have "str_strip ?s = ?s" using keep[of ?s] keep[of "rev ?s"] sp by (simp add: str_strip_def str_lstrip_def str_rstrip_def)
  moreover obtain c cs where s: "?s = c # cs" using show_nat_nonempty[of n] by (cases ?s) auto
  then have "\<not> starts_with ?s ''-''" "\<not> starts_with ?s ''+''" using d digit_chars(2,3)[of c] by auto
  moreover have "filter is_digit ?s = ?s" using d by (simp add: filter_id_conv)
  moreover have "digits_ok ?s" using d by (intro digits_ok_digits) simp_all
  ultimately show ?thesis by (simp add: int_of_str_def Let_def)
qed

lemma header_start: "parse_hunk_new_start (print_header h) = Some (int (hk_new_start h))"
proof -
  let ?w = "''@@ -'' @ show_nat (hk_old_start h) @ '','' @ show_nat (hk_old_count h)"
  let ?rest = "show_nat (hk_new_start h) @ '','' @ show_nat (hk_new_count h) @ '' @@'' @ hk_heading h"
  have d: "c \<in> set (show_nat n) \<Longrightarrow> is_digit c" for c n using show_nat_digits by blast
  have "partition_at '' +'' (print_header h) = (?w, True, ?rest)"
  proof (cases "CHR '' '' \<in> set ?w")
    case False
    then show ?thesis using partition_at_prefix[of "'' +''" ?w ?rest] by (simp add: print_header_def)
  next
    case True
    have "CHR '' '' \<notin> set (''-'' @ show_nat (hk_old_start h) @ '','' @ show_nat (hk_old_count h))"
      using d digit_chars(5) by fastforce
    then have "partition_at '' +'' ((''-'' @ show_nat (hk_old_start h) @ '','' @ show_nat (hk_old_count h)) @ '' +'' @ ?rest) =
       (''-'' @ show_nat (hk_old_start h) @ '','' @ show_nat (hk_old_count h), True, ?rest)"
      by (intro partition_at_prefix) simp_all
    then show ?thesis by (simp add: print_header_def)
  qed
  moreover have "hd (split_on (CHR '' '') ?rest) = show_nat (hk_new_start h) @ '','' @ show_nat (hk_new_count h)"
  proof -
    have "CHR '' '' \<notin> set (show_nat (hk_new_start h) @ '','' @ show_nat (hk_new_count h))"
      using d digit_chars(5) by fastforce
    from split_on_prefix[OF this, of "''@@'' @ hk_heading h"] show ?thesis by simp
  qed
  moreover have "hd (split_on (CHR '','') (show_nat (hk_new_start h) @ '','' @ show_nat (hk_new_count h))) = show_nat (hk_new_start h)"
  proof -
    have "CHR '','' \<notin> set (show_nat (hk_new_start h))" using d digit_chars(4) by blast
    from split_on_prefix[OF this, of "show_nat (hk_new_count h)"] show ?thesis by simp
  qed
  ultimately show ?thesis by (simp add: parse_hunk_new_start_def int_of_show_nat)
qed


subsection \<open>Splitting what was joined\<close>

lemma split_lines_aux_line:
  assumes "one_line s"
  shows "split_lines_aux acc (s @ CHR 0x0A # rest) = rev (rev s @ acc) # split_lines_aux [] rest"
    "split_lines_aux acc s = (if s = [] \<and> acc = [] then [] else [rev (rev s @ acc)])"
  using assms by (induction s arbitrary: acc) (auto simp: one_line_def is_line_end_def code_def)

lemma split_joined:
  assumes "list_all (\<lambda>s. one_line s \<and> s \<noteq> []) ls"
  shows "split_lines (join [CHR 0x0A] ls) = ls"
  using assms
proof (induction "[CHR 0x0A]" ls rule: join.induct)
  case (2 w)
  then show ?case by (simp add: split_lines_def split_lines_aux_line(2))
next
  case (3 w v ws)
  then show ?case by (simp add: split_lines_def split_lines_aux_line(1))
qed (simp add: split_lines_def)

lemma header_one_line: "one_line (hk_heading h) \<Longrightarrow> one_line (print_header h)"
  using show_nat_digits digit_chars(6)
  by (auto simp: print_header_def one_line_def list_all_iff is_line_end_def code_def)

lemma printed_one_line: "plain_line l \<Longrightarrow> one_line (print_line l) \<and> print_line l \<noteq> []"
  by (cases l) (auto simp: one_line_def is_line_end_def code_def)

lemma marker_one_line: "one_line no_newline_marker \<and> no_newline_marker \<noteq> []"
  by (simp add: no_newline_marker_def one_line_def is_line_end_def code_def)

lemma marker_begins [simp]:
  "\<not> starts_with no_newline_marker ''@@''" "\<not> starts_with no_newline_marker ''+''" "\<not> starts_with no_newline_marker ''-''"
  by (simp_all add: no_newline_marker_def)

lemma hunk_parsed:
  assumes "list_all plain_line ls"
  shows "commentable_from (Some n) (map print_line ls @ rest) =
    added_from n ls @ commentable_from (Some (n + int (length (filter (\<lambda>l. case l of Removed s \<Rightarrow> False | _ \<Rightarrow> True) ls)))) rest"
  using assms
proof (induction ls arbitrary: n)
  case (Cons l ls)
  then show ?case by (cases l) (auto simp: algebra_simps)
qed simp

lemma diff_parsed:
  assumes "list_all plain_hunk hs"
  shows "commentable_from at (concat (map print_hunk hs)) = concat (map added_lines hs)"
  using assms
proof (induction hs arbitrary: at)
  case (Cons h hs)
  have "starts_with (print_header h) ''@@''" by (simp add: print_header_def)
  then have "commentable_from at (concat (map print_hunk (h # hs))) =
    commentable_from (Some (int (hk_new_start h))) (map print_line (hk_lines h) @
      ((if hk_unterminated h then [no_newline_marker] else []) @ concat (map print_hunk hs)))"
    by (simp add: print_hunk_def header_start)
  also have "\<dots> = added_lines h @ concat (map added_lines hs)"
    using Cons.IH Cons.prems hunk_parsed[of "hk_lines h"]
    by (simp add: plain_hunk_def added_lines_def[of h])
  finally show ?case by simp
qed simp



definition sample_hunk :: "diff_line list \<Rightarrow> hunk" where
  "sample_hunk ls = \<lparr>hk_old_start = 3, hk_old_count = 2, hk_new_start = 12, hk_new_count = 2, hk_heading = '' main'',
     hk_lines = ls, hk_unterminated = False\<rparr>"


text \<open>
  Without the hypotheses the numbers are wrong: removing a line that begins with two minus signs, such as an
  SQL comment, moves every later comment of the hunk down by one line.
\<close>

lemma lookalike_removal_shifts_lines:
  "parse_commentable_lines (JStr (print_diff [sample_hunk [Removed ''-- old'', Added ''x'']])) = [13]"
  "concat (map added_lines [sample_hunk [Removed ''-- old'', Added ''x'']]) = [12]"
proof -
  let ?h = "sample_hunk [Removed ''-- old'', Added ''x'']"
  have "list_all (\<lambda>s. one_line s \<and> s \<noteq> []) (print_hunk ?h)"
    using header_one_line[of ?h] by (simp add: print_hunk_def sample_hunk_def print_header_def one_line_def is_line_end_def code_def)
  from split_joined[OF this] have "split_lines (print_diff [?h]) = print_hunk ?h" by (simp add: print_diff_def)
  moreover have "commentable_from None (print_hunk ?h) = [13]"
  proof -
    have "starts_with (print_header ?h) ''@@''" by (simp add: print_header_def)
    moreover have "hk_new_start ?h = 12" "hk_lines ?h = [Removed ''-- old'', Added ''x'']" by (simp_all add: sample_hunk_def)
    ultimately show ?thesis by (simp add: print_hunk_def header_start)
  qed
  ultimately show "parse_commentable_lines (JStr (print_diff [?h])) = [13]" by (simp add: parse_commentable_lines_def)
qed (simp add: sample_hunk_def added_lines_def)

text \<open>A marker between the lines of a hunk moves every later comment of the hunk down by one line.\<close>

lemma marker_shifts_lines:
  "commentable_from None (print_header h # map print_line [Removed ''a''] @ [no_newline_marker] @ map print_line [Added ''a'']) =
     [int (hk_new_start h) + 1]"
  "added_from (int (hk_new_start h)) [Removed ''a'', Added ''a''] = [int (hk_new_start h)]"
proof -
  have "starts_with (print_header h) ''@@''" by (simp add: print_header_def)
  then show "commentable_from None (print_header h # map print_line [Removed ''a''] @ [no_newline_marker] @ map print_line [Added ''a'']) =
     [int (hk_new_start h) + 1]"
    by (simp add: header_start)
qed simp

end
