(* ===== verification/Clients.thy ===== *)
theory Clients
  imports Webhooks Workspaces Changes
begin

text \<open>
  The HTTP clients of \<open>integrations/github.py\<close> and \<open>integrations/gitlab.py\<close>: requests with their
  credentials and errors, paginated listings, comments and merge request notes. The provider on the other
  side is a state of type \<open>'w\<close> and a function that answers a request in it.
\<close>

section \<open>Requests and answers\<close>

text \<open>The client's own error class, which the adapters catch, and every other exception\<close>

datatype client_failure = ClientError string | Escaped err

text \<open>
  What \<open>httpx\<close> reports: a status that \<open>raise_for_status\<close> refuses, a transport error, another exception
  (a body that is not JSON among them), an empty body or a JSON value.
\<close>

datatype reply = Refused int | Unreachable | Broken err | NoContent | Answer json

text \<open>
  \<open>send\<close> is given the base URL, method, path, body, parameters and headers; \<open>app_token\<close> is the token provider
  (\<open>Inl\<close> the text of its \<open>GitHubAuthenticationError\<close>); \<open>lax_comment\<close> is pydantic's validation of a comment
  whose fields do not have the declared types exactly.
\<close>

record 'w http =
  send :: "string \<Rightarrow> string \<Rightarrow> string \<Rightarrow> json option \<Rightarrow> (string \<times> int) list \<Rightarrow> (string \<times> string) list \<Rightarrow> 'w \<Rightarrow> 'w \<times> reply"
  app_token :: "string \<Rightarrow> 'w \<Rightarrow> 'w \<times> (string + string option)"
  lax_comment :: "json \<Rightarrow> (string \<times> string option) option"

text \<open>A computation on the provider: \<open>None\<close> when it does not return\<close>

type_synonym ('w, 'a) io = "'w \<Rightarrow> ('w \<times> (client_failure + 'a)) option"

definition io_return :: "'a \<Rightarrow> ('w, 'a) io" where
  "io_return v w = Some (w, Inr v)"

definition io_fail :: "client_failure \<Rightarrow> ('w, 'a) io" where
  "io_fail x w = Some (w, Inl x)"

definition io_bind :: "('w, 'a) io \<Rightarrow> ('a \<Rightarrow> ('w, 'b) io) \<Rightarrow> ('w, 'b) io" where
  "io_bind m f w =
     (case m w of
        None \<Rightarrow> None
      | Some (w1, Inl x) \<Rightarrow> Some (w1, Inl x)
      | Some (w1, Inr v) \<Rightarrow> f v w1)"

definition io_lift :: "('w \<Rightarrow> 'w \<times> (client_failure + 'a)) \<Rightarrow> ('w, 'a) io" where
  "io_lift f w = Some (f w)"

definition io_result :: "client_failure + 'a \<Rightarrow> ('w, 'a) io" where
  "io_result r w = Some (w, r)"

lemma io_simps [simp]:
  "io_return v w = Some (w, Inr v)" "io_fail x w = Some (w, Inl x)" "io_lift g w = Some (g w)" "io_result r w = Some (w, r)"
  by (simp_all add: io_return_def io_fail_def io_lift_def io_result_def)

lemma io_bind_Some:
  "io_bind m f w = Some (w', r) \<longleftrightarrow>
     (\<exists>w1 x. m w = Some (w1, Inl x) \<and> w' = w1 \<and> r = Inl x) \<or> (\<exists>w1 v. m w = Some (w1, Inr v) \<and> f v w1 = Some (w', r))"
  by (auto simp: io_bind_def split: option.splits sum.splits)

text \<open>\<open>response[key]\<close> on a JSON value\<close>

definition item_at :: "json \<Rightarrow> string \<Rightarrow> client_failure + json" where
  "item_at j k =
     (case j of
        JObj kvs \<Rightarrow> (case dget kvs k of Some v \<Rightarrow> Inr v | None \<Rightarrow> Inl (Escaped (KeyError k)))
      | _ \<Rightarrow> Inl (Escaped (TypeError ''object is not subscriptable by text'')))"

definition id_of_response :: "json \<Rightarrow> client_failure + string" where
  "id_of_response j = (case item_at j ''id'' of Inl x \<Rightarrow> Inl x | Inr v \<Rightarrow> Inr (py_str v))"

section \<open>Pages\<close>

text \<open>
  Both clients collect pages of 100 items until one is shorter; \<open>get p\<close> requests page \<open>p\<close>.
\<close>

partial_function (option) pages ::
  "string \<Rightarrow> (int \<Rightarrow> 'w \<Rightarrow> 'w \<times> (client_failure + json)) \<Rightarrow> int \<Rightarrow> json list \<Rightarrow> 'w \<Rightarrow> ('w \<times> (client_failure + json list)) option" where
  "pages complaint get p items w =
     (case get p w of
        (w1, Inl x) \<Rightarrow> Some (w1, Inl x)
      | (w1, Inr answer) \<Rightarrow>
          (case answer of
             JList xs \<Rightarrow> (if length xs < 100 then Some (w1, Inr (items @ xs)) else pages complaint get (p + 1) (items @ xs) w1)
           | _ \<Rightarrow> Some (w1, Inl (ClientError complaint))))"

declare pages.simps [code]

section \<open>The GitHub client\<close>

record github_client =
  gc_api_base_url :: string
  gc_token :: "string option"

definition rstrip_slash :: "string \<Rightarrow> string" where
  "rstrip_slash s = rev (dropWhile (\<lambda>c. c = CHR ''/'') (rev s))"

definition new_github_client :: "string \<Rightarrow> string option \<Rightarrow> github_client" where
  "new_github_client url token = \<lparr>gc_api_base_url = rstrip_slash url, gc_token = token\<rparr>"

definition github_get_token :: "'w http \<Rightarrow> string \<Rightarrow> 'w \<Rightarrow> 'w \<times> (client_failure + string option)" where
  "github_get_token ht repo w =
     (case app_token ht repo w of (w1, Inl m) \<Rightarrow> (w1, Inl (ClientError m)) | (w1, Inr t) \<Rightarrow> (w1, Inr t))"

definition github_headers :: "string option \<Rightarrow> (string \<times> string) list" where
  "github_headers token =
     [(''Accept'', ''application/vnd.github+json''), (''X-GitHub-Api-Version'', ''2022-11-28'')] @
     (if has_text token then [(''Authorization'', ''Bearer '' @ the token)] else [])"

definition reply_result :: "string \<Rightarrow> string \<Rightarrow> string \<Rightarrow> reply \<Rightarrow> client_failure + json" where
  "reply_result host method path rep =
     (case rep of
        Refused n \<Rightarrow> Inl (ClientError (host @ '' request failed ('' @ show_int n @ '' '' @ method @ '' '' @ path @ '').''))
      | Unreachable \<Rightarrow> Inl (ClientError (host @ '' request failed ('' @ method @ '' '' @ path @ ''): transport error.''))
      | Broken x \<Rightarrow> Inl (Escaped x)
      | NoContent \<Rightarrow> Inr (JObj [])
      | Answer j \<Rightarrow> Inr j)"

definition github_request ::
  "'w http \<Rightarrow> github_client \<Rightarrow> string \<Rightarrow> string \<Rightarrow> json option \<Rightarrow> (string \<times> int) list \<Rightarrow> string \<Rightarrow> 'w \<Rightarrow> 'w \<times> (client_failure + json)" where
  "github_request ht c method path body params repo w =
     (case (if repo \<noteq> [] then github_get_token ht repo w else (w, Inr (gc_token c))) of
        (w1, Inl x) \<Rightarrow> (w1, Inl x)
      | (w1, Inr token) \<Rightarrow>
          (case send ht (gc_api_base_url c) method path body params (github_headers token) w1 of
             (w2, rep) \<Rightarrow> (w2, reply_result ''GitHub'' method path rep)))"

definition page_params :: "int \<Rightarrow> (string \<times> int) list" where
  "page_params p = [(''per_page'', 100), (''page'', p)]"

definition github_paginate :: "'w http \<Rightarrow> github_client \<Rightarrow> string \<Rightarrow> string \<Rightarrow> ('w, json list) io" where
  "github_paginate ht c path repo =
     pages (''GitHub response for '' @ path @ '' is not a list.'')
       (\<lambda>p. github_request ht c ''GET'' path None (page_params p) repo) 1 []"

text \<open>
  \<open>GitHubComment.model_validate\<close> and \<open>GitLabNote.model_validate\<close>, as far as the program reads the result: the text
  of the identifier and the body.
\<close>

definition comment_of :: "'w http \<Rightarrow> json \<Rightarrow> (string \<times> string option) option" where
  "comment_of ht j =
     (case (obj_get j ''id'', obj_get j ''body'') of
        (JInt i, JStr b) \<Rightarrow> Some (show_int i, Some b)
      | (JInt i, JNull) \<Rightarrow> Some (show_int i, None)
      | (JStr i, JStr b) \<Rightarrow> Some (i, Some b)
      | (JStr i, JNull) \<Rightarrow> Some (i, None)
      | _ \<Rightarrow> lax_comment ht j)"

definition comments_of :: "'w http \<Rightarrow> json list \<Rightarrow> client_failure + (string \<times> string option) list" where
  "comments_of ht items =
     (if list_all (\<lambda>j. comment_of ht j \<noteq> None) items then Inr (map (\<lambda>j. the (comment_of ht j)) items)
      else Inl (Escaped (ValueError ''invalid comment'')))"

definition repo_path :: "string \<Rightarrow> string" where
  "repo_path repo = ''/repos/'' @ repo"

definition list_pull_request_files :: "'w http \<Rightarrow> github_client \<Rightarrow> string \<Rightarrow> int \<Rightarrow> ('w, json list) io" where
  "list_pull_request_files ht c repo n = github_paginate ht c (repo_path repo @ ''/pulls/'' @ show_int n @ ''/files'') repo"

definition get_pull_request :: "'w http \<Rightarrow> github_client \<Rightarrow> string \<Rightarrow> int \<Rightarrow> ('w, dict) io" where
  "get_pull_request ht c repo n =
     io_bind (io_lift (github_request ht c ''GET'' (repo_path repo @ ''/pulls/'' @ show_int n) None [] repo))
       (\<lambda>j. case j of JObj kvs \<Rightarrow> io_return kvs
                     | _ \<Rightarrow> io_fail (ClientError ''GitHub pull request response is not an object.''))"

definition issue_comments_path :: "string \<Rightarrow> int \<Rightarrow> string" where
  "issue_comments_path repo n = repo_path repo @ ''/issues/'' @ show_int n @ ''/comments''"

definition list_issue_comments :: "'w http \<Rightarrow> github_client \<Rightarrow> string \<Rightarrow> int \<Rightarrow> ('w, (string \<times> string option) list) io" where
  "list_issue_comments ht c repo n =
     io_bind (github_paginate ht c (issue_comments_path repo n) repo) (\<lambda>items. io_result (comments_of ht items))"

definition review_comments_path :: "string \<Rightarrow> int \<Rightarrow> string" where
  "review_comments_path repo n = repo_path repo @ ''/pulls/'' @ show_int n @ ''/comments''"

definition list_review_comments :: "'w http \<Rightarrow> github_client \<Rightarrow> string \<Rightarrow> int \<Rightarrow> ('w, (string \<times> string option) list) io" where
  "list_review_comments ht c repo n =
     io_bind (github_paginate ht c (review_comments_path repo n) repo) (\<lambda>items. io_result (comments_of ht items))"

definition body_json :: "string \<Rightarrow> json option" where
  "body_json body = Some (JObj [(''body'', JStr body)])"

definition create_issue_comment :: "'w http \<Rightarrow> github_client \<Rightarrow> string \<Rightarrow> int \<Rightarrow> string \<Rightarrow> ('w, string) io" where
  "create_issue_comment ht c repo n body =
     io_bind (io_lift (github_request ht c ''POST'' (issue_comments_path repo n) (body_json body) [] repo))
       (\<lambda>j. io_result (id_of_response j))"

definition update_issue_comment :: "'w http \<Rightarrow> github_client \<Rightarrow> string \<Rightarrow> string \<Rightarrow> string \<Rightarrow> ('w, string) io" where
  "update_issue_comment ht c repo i body =
     io_bind (io_lift (github_request ht c ''PATCH'' (repo_path repo @ ''/issues/comments/'' @ i) (body_json body) [] repo))
       (\<lambda>j. io_result (id_of_response j))"

definition create_review_comment ::
  "'w http \<Rightarrow> github_client \<Rightarrow> string \<Rightarrow> int \<Rightarrow> string \<Rightarrow> string \<Rightarrow> string \<Rightarrow> int \<Rightarrow> ('w, string) io" where
  "create_review_comment ht c repo n body commit path line =
     io_bind (io_lift (github_request ht c ''POST'' (review_comments_path repo n)
         (Some (JObj [(''body'', JStr body), (''commit_id'', JStr commit), (''path'', JStr path), (''line'', JInt line),
                      (''side'', JStr ''RIGHT'')])) [] repo))
       (\<lambda>j. io_result (id_of_response j))"

definition update_review_comment :: "'w http \<Rightarrow> github_client \<Rightarrow> string \<Rightarrow> string \<Rightarrow> string \<Rightarrow> ('w, string) io" where
  "update_review_comment ht c repo i body =
     io_bind (io_lift (github_request ht c ''PATCH'' (repo_path repo @ ''/pulls/comments/'' @ i) (body_json body) [] repo))
       (\<lambda>j. io_result (id_of_response j))"

section \<open>The GitLab client\<close>

text \<open>\<open>quote(value, safe="")\<close>: the UTF-8 bytes of every other character are written with a percent sign.\<close>

definition upper_hex :: "nat \<Rightarrow> char" where
  "upper_hex d = (if d < 10 then char_of (48 + d) else char_of (55 + d))"

definition percent :: "nat \<Rightarrow> string" where
  "percent b = [CHR ''%'', upper_hex (b div 16), upper_hex (b mod 16)]"

definition quoted_char :: "char \<Rightarrow> string" where
  "quoted_char c =
     (if c \<in> set letters \<or> is_digit c \<or> c \<in> set ''_.-~'' then [c]
      else if code c < 128 then percent (code c)
      else percent (192 + code c div 64) @ percent (128 + code c mod 64))"

definition quoted :: "string \<Rightarrow> string" where
  "quoted s = concat (map quoted_char s)"

record gitlab_client =
  lc_api_base_url :: string
  lc_token :: "string option"

definition new_gitlab_client :: "string \<Rightarrow> string option \<Rightarrow> gitlab_client" where
  "new_gitlab_client url token = \<lparr>lc_api_base_url = rstrip_slash url, lc_token = token\<rparr>"

definition gitlab_headers :: "string option \<Rightarrow> (string \<times> string) list" where
  "gitlab_headers token =
     (''Accept'', ''application/json'') # (if has_text token then [(''PRIVATE-TOKEN'', the token)] else [])"

definition gitlab_request ::
  "'w http \<Rightarrow> gitlab_client \<Rightarrow> string \<Rightarrow> string \<Rightarrow> json option \<Rightarrow> (string \<times> int) list \<Rightarrow> 'w \<Rightarrow> 'w \<times> (client_failure + json)" where
  "gitlab_request ht c method path body params w =
     (case send ht (lc_api_base_url c) method path body params (gitlab_headers (lc_token c)) w of
        (w1, rep) \<Rightarrow> (w1, reply_result ''GitLab'' method path rep))"

definition gitlab_paginate :: "'w http \<Rightarrow> gitlab_client \<Rightarrow> string \<Rightarrow> ('w, json list) io" where
  "gitlab_paginate ht c path =
     pages (''GitLab response for '' @ path @ '' is not a list.'')
       (\<lambda>p. gitlab_request ht c ''GET'' path None (page_params p)) 1 []"

definition merge_request_path :: "string \<Rightarrow> int \<Rightarrow> string" where
  "merge_request_path project n = ''/projects/'' @ quoted project @ ''/merge_requests/'' @ show_int n"

definition gitlab_object :: "string \<Rightarrow> ('w \<Rightarrow> 'w \<times> (client_failure + json)) \<Rightarrow> ('w, dict) io" where
  "gitlab_object complaint request =
     io_bind (io_lift request) (\<lambda>j. case j of JObj kvs \<Rightarrow> io_return kvs | _ \<Rightarrow> io_fail (ClientError complaint))"

definition get_merge_request :: "'w http \<Rightarrow> gitlab_client \<Rightarrow> string \<Rightarrow> int \<Rightarrow> ('w, dict) io" where
  "get_merge_request ht c project n =
     gitlab_object ''GitLab merge request response is not an object.''
       (gitlab_request ht c ''GET'' (merge_request_path project n) None [])"

definition get_merge_request_changes :: "'w http \<Rightarrow> gitlab_client \<Rightarrow> string \<Rightarrow> int \<Rightarrow> ('w, dict) io" where
  "get_merge_request_changes ht c project n =
     gitlab_object ''GitLab changes response is not an object.''
       (gitlab_request ht c ''GET'' (merge_request_path project n @ ''/changes'') None [])"

definition list_merge_request_notes :: "'w http \<Rightarrow> gitlab_client \<Rightarrow> string \<Rightarrow> int \<Rightarrow> ('w, (string \<times> string option) list) io" where
  "list_merge_request_notes ht c project n =
     io_bind (gitlab_paginate ht c (merge_request_path project n @ ''/notes'')) (\<lambda>items. io_result (comments_of ht items))"

definition create_merge_request_note :: "'w http \<Rightarrow> gitlab_client \<Rightarrow> string \<Rightarrow> int \<Rightarrow> string \<Rightarrow> ('w, string) io" where
  "create_merge_request_note ht c project n body =
     io_bind (io_lift (gitlab_request ht c ''POST'' (merge_request_path project n @ ''/notes'') (body_json body) []))
       (\<lambda>j. io_result (id_of_response j))"

definition update_merge_request_note :: "'w http \<Rightarrow> gitlab_client \<Rightarrow> string \<Rightarrow> int \<Rightarrow> string \<Rightarrow> string \<Rightarrow> ('w, string) io" where
  "update_merge_request_note ht c project n i body =
     io_bind (io_lift (gitlab_request ht c ''PUT'' (merge_request_path project n @ ''/notes/'' @ i) (body_json body) []))
       (\<lambda>j. io_result (id_of_response j))"

definition list_merge_request_discussions :: "'w http \<Rightarrow> gitlab_client \<Rightarrow> string \<Rightarrow> int \<Rightarrow> ('w, json list) io" where
  "list_merge_request_discussions ht c project n = gitlab_paginate ht c (merge_request_path project n @ ''/discussions'')"

definition discussion_ids :: "json \<Rightarrow> client_failure + string \<times> string" where
  "discussion_ids j =
     (case j of
        JObj kvs \<Rightarrow>
          (case jget kvs ''notes'' of
             JList (JObj note # _) \<Rightarrow>
               (case id_of_response (JObj note) of
                  Inl x \<Rightarrow> Inl x
                | Inr i \<Rightarrow> (case id_of_response j of Inl x \<Rightarrow> Inl x | Inr d \<Rightarrow> Inr (i, d)))
           | _ \<Rightarrow> Inl (ClientError ''GitLab discussion response has no note.''))
      | _ \<Rightarrow> Inl (ClientError ''GitLab discussion response is not an object.''))"

definition create_merge_request_discussion ::
  "'w http \<Rightarrow> gitlab_client \<Rightarrow> string \<Rightarrow> int \<Rightarrow> string \<Rightarrow> dict \<Rightarrow> ('w, string \<times> string) io" where
  "create_merge_request_discussion ht c project n body position =
     io_bind (io_lift (gitlab_request ht c ''POST'' (merge_request_path project n @ ''/discussions'')
         (Some (JObj [(''body'', JStr body), (''position'', JObj position)])) []))
       (\<lambda>j. io_result (discussion_ids j))"

definition update_merge_request_discussion_note ::
  "'w http \<Rightarrow> gitlab_client \<Rightarrow> string \<Rightarrow> int \<Rightarrow> string \<Rightarrow> string \<Rightarrow> string \<Rightarrow> ('w, string \<times> string) io" where
  "update_merge_request_discussion_note ht c project n discussion note body =
     io_bind (io_lift (gitlab_request ht c ''PUT''
         (merge_request_path project n @ ''/discussions/'' @ discussion @ ''/notes/'' @ note) (body_json body) []))
       (\<lambda>j. io_result (case id_of_response j of Inl x \<Rightarrow> Inl x | Inr i \<Rightarrow> Inr (i, discussion)))"

section \<open>Listings\<close>

text \<open>
  A provider that lists \<open>view\<close> a page at a time: reading changes nothing, and a page that is answered with a
  list holds the items from \<open>100 * (p - 1)\<close> on. A request may fail at any time.
\<close>

definition page_of :: "int \<Rightarrow> 'a list \<Rightarrow> 'a list" where
  "page_of p xs = take 100 (drop (100 * nat (p - 1)) xs)"

definition lists_pages :: "('w \<Rightarrow> json list) \<Rightarrow> (int \<Rightarrow> 'w \<Rightarrow> 'w \<times> (client_failure + json)) \<Rightarrow> bool" where
  "lists_pages view get \<longleftrightarrow>
     (\<forall>p w. 1 \<le> p \<longrightarrow> view (fst (get p w)) = view w \<and> (\<forall>xs. snd (get p w) = Inr (JList xs) \<longrightarrow> xs = page_of p (view w)))"

definition answers_page :: "(int \<Rightarrow> 'w \<Rightarrow> 'w \<times> (client_failure + json)) \<Rightarrow> int \<Rightarrow> 'w \<Rightarrow> bool" where
  "answers_page get p w \<longleftrightarrow> (case snd (get p w) of Inr (JList xs) \<Rightarrow> True | _ \<Rightarrow> False)"

lemma lists_pagesD:
  assumes "lists_pages view get" and "1 \<le> p" and "get p w = (w1, r)"
  shows "view w1 = view w" "r = Inr (JList xs) \<Longrightarrow> xs = page_of p (view w)"
  using assms unfolding lists_pages_def by (metis fst_conv, metis snd_conv)

lemma pages_complete:
  assumes "lists_pages view get" and "1 \<le> p"
  shows "\<exists>w' r. pages m get p items w = Some (w', r) \<and> view w' = view w \<and>
     (\<forall>ys. r = Inr ys \<longrightarrow> ys = items @ drop (100 * nat (p - 1)) (view w)) \<and>
     ((\<exists>x. r = Inl x) \<longrightarrow> (\<exists>q v. 1 \<le> q \<and> \<not> answers_page get q v))"
  using assms(2)
proof (induction "length (view w) - 100 * nat (p - 1)" arbitrary: p items w rule: less_induct)
  case less
  obtain w1 r where g: "get p w = (w1, r)" by fastforce
  note page = lists_pagesD[OF assms(1) less.prems g]
  consider x where "r = Inl x" | xs where "r = Inr (JList xs)" | j where "r = Inr j" "\<forall>xs. j \<noteq> JList xs"
    by (cases r) auto
  then show ?case
  proof cases
    case 1
    then have "\<not> answers_page get p w" using g by (simp add: answers_page_def)
    moreover have "pages m get p items w = Some (w1, Inl x)" using g 1 by (subst pages.simps) simp
    ultimately show ?thesis using page(1) less.prems by auto
  next
    case 3
    then have "pages m get p items w = Some (w1, Inl (ClientError m))"
      using g by (subst pages.simps) (cases j; simp)
    moreover have "\<not> answers_page get p w" using g 3 by (cases j) (simp_all add: answers_page_def)
    ultimately show ?thesis using page(1) less.prems by auto
  next
    case 2
    then have xs: "xs = page_of p (view w)" using page(2) by simp
    show ?thesis
    proof (cases "length xs < 100")
      case True
      then have "length (view w) - 100 * nat (p - 1) < 100" using xs by (simp add: page_of_def)
      then have "xs = drop (100 * nat (p - 1)) (view w)" using xs by (simp add: page_of_def)
      moreover have "pages m get p items w = Some (w1, Inr (items @ xs))" using g 2 True by (subst pages.simps) simp
      ultimately show ?thesis using page(1) by auto
    next
      case False
      then have long: "100 \<le> length (view w) - 100 * nat (p - 1)" using xs by (simp add: page_of_def)
      have next_page: "nat (p + 1 - 1) = nat (p - 1) + 1" using less.prems by simp
      have "length (view w1) - 100 * nat (p + 1 - 1) < length (view w) - 100 * nat (p - 1)"
        using long page(1) unfolding next_page by simp
      have "1 \<le> p + 1" using less.prems by simp
      from less.hyps[OF \<open>length (view w1) - 100 * nat (p + 1 - 1) < length (view w) - 100 * nat (p - 1)\<close> this, of "items @ xs"]
      obtain w' r' where
        ih: "pages m get (p + 1) (items @ xs) w1 = Some (w', r')" "view w' = view w1"
          "\<forall>ys. r' = Inr ys \<longrightarrow> ys = (items @ xs) @ drop (100 * nat (p + 1 - 1)) (view w1)"
          "(\<exists>x. r' = Inl x) \<longrightarrow> (\<exists>q v. 1 \<le> q \<and> \<not> answers_page get q v)"
        by (elim exE conjE)
      have "pages m get p items w = Some (w', r')" using g 2 False ih(1) by (subst pages.simps) simp
      moreover have "xs @ drop (100 * nat (p + 1 - 1)) (view w) = drop (100 * nat (p - 1)) (view w)"
        unfolding next_page xs page_of_def
        by (metis append_take_drop_id drop_drop add.commute distrib_left mult.right_neutral)
      ultimately show ?thesis using ih(2-4) page(1) by simp
    qed
  qed
qed

text \<open>
  C24. A paginated listing always ends, changes nothing, and is complete: however many pages there are, the last
  one full or not, what it returns is the whole list of the provider; and it fails only when a page was not
  answered with a list.
\<close>

theorem listings_are_complete:
  assumes "lists_pages view (\<lambda>p. github_request ht c ''GET'' path None (page_params p) repo)"
  shows "\<exists>w' r. github_paginate ht c path repo w = Some (w', r) \<and> view w' = view w \<and>
     (r = Inr (view w) \<or>
      (\<exists>x q v. r = Inl x \<and> 1 \<le> q \<and>
         \<not> answers_page (\<lambda>p. github_request ht c ''GET'' path None (page_params p) repo) q v))"
proof -
  obtain w' r where r: "github_paginate ht c path repo w = Some (w', r)" "view w' = view w"
      "\<forall>ys. r = Inr ys \<longrightarrow> ys = [] @ drop (100 * nat (1 - 1)) (view w)"
      "(\<exists>x. r = Inl x) \<longrightarrow> (\<exists>q v. 1 \<le> q \<and> \<not> answers_page (\<lambda>p. github_request ht c ''GET'' path None (page_params p) repo) q v)"
    using pages_complete[OF assms order_refl] unfolding github_paginate_def by blast
  then show ?thesis by (cases r) auto
qed

text \<open>A provider with one pull request of the repository \<open>o/r\<close>\<close>

type_synonym sample_world = "(string \<times> string) list"

definition sample_item :: "string \<times> string \<Rightarrow> json" where
  "sample_item x = JObj [(''id'', JStr (fst x)), (''body'', JStr (snd x))]"

definition sent_body :: "json option \<Rightarrow> string" where
  "sent_body body = (case body of Some j \<Rightarrow> py_str (obj_get j ''body'') | None \<Rightarrow> [])"

definition sample_new_id :: "sample_world \<Rightarrow> string" where
  "sample_new_id w = replicate (Suc (sum_list (map (\<lambda>x. length (fst x)) w))) (CHR ''c'')"

definition sample_http :: "sample_world http" where
  "sample_http =
     \<lparr>send = (\<lambda>base method path body params hs w.
        if method = ''GET''
        then (w, Answer (JList (page_of (dict_get params ''page'' 1) (map sample_item w))))
        else if method = ''POST''
        then (let i = sample_new_id w in (w @ [(i, sent_body body)], Answer (JObj [(''id'', JStr i)])))
        else (let i = drop (length (repo_path ''o/r'' @ ''/issues/comments/'')) path in
              if i \<in> fst ` set w
              then (map (\<lambda>x. if fst x = i then (i, sent_body body) else x) w, Answer (JObj [(''id'', JStr i)]))
              else (w, Refused 404))),
      app_token = (\<lambda>repo w. (w, Inr None)), lax_comment = (\<lambda>j. None)\<rparr>"

definition sample_github :: github_client where
  "sample_github = new_github_client ''https://api.github.com/'' None"

lemma sample_get:
  "github_request sample_http c ''GET'' path None (page_params p) repo w =
     (w, Inr (JList (page_of p (map sample_item w))))"
  by (simp add: github_request_def github_get_token_def sample_http_def reply_result_def page_params_def dict_get_def or_else_def)

theorem listings_are_complete_witness:
  "github_paginate sample_http sample_github ''/x'' ''o/r'' (replicate 100 (''i'', ''b'')) =
     Some (replicate 100 (''i'', ''b''), Inr (map sample_item (replicate 100 (''i'', ''b''))))"
proof -
  have "lists_pages (map sample_item) (\<lambda>p. github_request sample_http sample_github ''GET'' ''/x'' None (page_params p) ''o/r'')"
    by (simp add: lists_pages_def sample_get)
  from listings_are_complete[OF this, of "replicate 100 (''i'', ''b'')"] obtain w' r where
    r: "github_paginate sample_http sample_github ''/x'' ''o/r'' (replicate 100 (''i'', ''b'')) = Some (w', r)"
      "map sample_item w' = map sample_item (replicate 100 (''i'', ''b''))"
      "r = Inr (map sample_item (replicate 100 (''i'', ''b'')))"
    by (auto simp: answers_page_def sample_get)
  have "inj sample_item" by (auto simp: inj_def sample_item_def)
  then have "w' = replicate 100 (''i'', ''b'')" using r(2) by (simp only: inj_map_eq_map)
  with r show ?thesis by simp
qed

end
