(* ===== verification/Comments.thy ===== *)
theory Comments
  imports Clients Lifecycle Outbox
begin

text \<open>
  \<open>integrations/comments.py\<close>: the texts of comments with what they may say of an error, the comments a review
  and an agent task publish, found again by their markers, and the references kept of them.
\<close>

section \<open>Texts of errors\<close>

definition value_gap :: "char \<Rightarrow> bool" where
  "value_gap c \<longleftrightarrow> c \<in> set '' :=_-'' \<or> c = CHR 0x09"

definition value_end :: "char \<Rightarrow> bool" where
  "value_end c \<longleftrightarrow> c \<in> set '' ,;'' \<or> c = CHR 0x09"

lemma partition_found_length:
  "partition_at (m # ms) s = (b, True, r) \<Longrightarrow> length b + Suc (length ms) \<le> length s"
proof (induction s arbitrary: b r)
  case (Cons c s)
  show ?case
  proof (cases "starts_with (c # s) (m # ms)")
    case True
    then have "length (m # ms) \<le> length (c # s)"
      by (metis starts_with_iff append_take_drop_id length_append le_add1)
    with True Cons.prems show ?thesis by simp
  next
    case False
    with Cons show ?thesis by (auto split: prod.splits)
  qed
qed simp

lemma redaction_progress:
  assumes "(b, q) = partition_at (m # ms) (str_lower s)" and "(True, r) = q"
  shows "length (drop k (dropWhile P (drop (length b + Suc (length ms)) s))) < length s"
proof -
  have "length b + Suc (length ms) \<le> length s"
    using partition_found_length[of m ms "str_lower s" b r] assms by (simp add: str_lower_def)
  then have "length (drop (length b + Suc (length ms)) s) < length s" by simp
  moreover have "length (dropWhile P xs) \<le> length xs" for xs :: string by (rule length_dropWhile_le)
  ultimately show ?thesis by (metis le_less_trans length_drop diff_le_self)
qed

text \<open>
  \<open>_redact_marker_value(text, marker)\<close> for a marker \<open>m # ms\<close> (the code's four markers are not empty): the value
  after each occurrence of the marker, searched from where the last one ended.
\<close>

function redact_from :: "char \<Rightarrow> string \<Rightarrow> string \<Rightarrow> string" where
  "redact_from m ms text =
     (case partition_at (m # ms) (str_lower text) of
        (_, False, _) \<Rightarrow> text
      | (before, True, _) \<Rightarrow>
          (let rest = drop (length before + Suc (length ms)) text;
               seen = take (length before + Suc (length ms)) text @ takeWhile value_gap rest;
               rest' = dropWhile value_gap rest;
               v = takeWhile (\<lambda>c. \<not> value_end c) rest'
           in seen @ (if v \<noteq> [] then ''[redacted]'' else []) @ redact_from m ms (drop (length v) rest')))"
  by pat_completeness auto
termination
  by (relation "measure (\<lambda>(m, ms, text). length text)") (simp, simp only: in_measure prod.case, erule redaction_progress, assumption)

definition redact_marker_value :: "string \<Rightarrow> string \<Rightarrow> string" where
  "redact_marker_value text marker = redact_from (hd marker) (tl marker) text"

definition safe_error_text :: "string \<Rightarrow> string" where
  "safe_error_text error =
     (let redacted = foldl redact_marker_value (map (\<lambda>c. if c = CHR 0x0D \<or> c = CHR 0x0A then CHR '' '' else c) error)
            [''token'', ''secret'', ''password'', ''authorization'']
      in if 500 < length redacted then str_rstrip (take 497 redacted) @ ''...'' else redacted)"

section \<open>Bodies\<close>

text \<open>The emoji and the ellipsis of the texts are left out.\<close>

definition agent_task_marker :: "agent_task \<Rightarrow> string" where
  "agent_task_marker a =
     ''<!-- review-orchestrator:agent-task task_id='' @ a_id a @ '' source_id='' @
     str_or (a_source_comment_id a) ''unknown'' @ '' -->''"

definition reference_line :: "json \<Rightarrow> string option" where
  "reference_line reference =
     (case obj_get reference ''path'' of
        JStr path \<Rightarrow>
          (let start = obj_get reference ''line_start''; stop = obj_get reference ''line_end'';
               suffix = (case as_int start of
                           None \<Rightarrow> []
                         | Some n \<Rightarrow> '':'' @ py_str start @
                             (case as_int stop of Some k \<Rightarrow> (if k \<noteq> n then ''-'' @ py_str stop else []) | None \<Rightarrow> []))
           in Some (''- `'' @ path @ suffix @ ''`''))
      | _ \<Rightarrow> None)"

definition reference_lines :: "agent_task \<Rightarrow> string list" where
  "reference_lines a =
     (case jget (or_else (a_result_json a) []) ''references'' of
        JList (r # rs) \<Rightarrow> [[], ''References:''] @ List.map_filter reference_line (take 50 (r # rs))
      | _ \<Rightarrow> [])"

definition lines_text :: "string list \<Rightarrow> string" where
  "lines_text ls = join [CHR 0x0A] ls"

definition build_agent_task_comment_body :: "agent_task \<Rightarrow> string \<Rightarrow> string" where
  "build_agent_task_comment_body a state =
     (let author = str_or (a_source_author_login a) ''user''; marker = agent_task_marker a; short = take 8 (a_id a) in
      if state = ''completed''
      then lines_text ([marker, ''Answer for @'' @ author, [], str_or (a_result_text a) ''The agent completed without an answer.''] @
             reference_lines a @ [[], ''Task: `'' @ short @ ''` - completed''])
      else if state = ''soft_timeout''
      then lines_text [marker, ''Still working on @'' @ author @ [CHR 0x27] @ ''s request'', [],
             ''The task is taking longer than expected and is still running.'', ''Task: `'' @ short @ ''`'']
      else if state = ''cancelled''
      then lines_text [marker, ''Request for @'' @ author @ '' was cancelled.'', [], ''Task: `'' @ short @ ''` - cancelled'']
      else if state = ''failed''
      then lines_text ([marker, ''Request for @'' @ author @ '' failed.'', [],
               if a_failure_code a = Some ''hard_timeout''
               then ''The task timed out before the agent produced a valid result.'' else ''Could not complete the request.''] @
             (if has_text (a_failure_code a) then [''Failure category: `'' @ the (a_failure_code a) @ ''`''] else []) @
             (if has_text (a_error_message a) then [''Error: '' @ safe_error_text (the (a_error_message a))] else []) @
             [[], ''Task: `'' @ short @ ''` - failed''])
      else lines_text [marker, ''Working on @'' @ author @ [CHR 0x27] @ ''s request'', [],
             ''Status: '' @ (if state = ''queued'' then ''queued'' else ''preparing repository context''), ''Task: `'' @ short @ ''`''])"

definition summary_marker :: string where
  "summary_marker = ''<!-- review-orchestrator:summary''"

definition build_summary_comment_body ::
  "review_run \<Rightarrow> string \<Rightarrow> (string \<times> int) list option \<Rightarrow> comment_slot option \<Rightarrow> string" where
  "build_summary_comment_body r status stats slot =
     (let items = map (\<lambda>kv. fst kv @ '': '' @ show_int (snd kv)) (sort_key fst (or_else stats []));
          stat_text = (if join '', '' items = [] then ''no findings published'' else join '', '' items);
          marker = (case slot of Some s \<Rightarrow> ''<!-- '' @ s_marker s | None \<Rightarrow> summary_marker)
      in lines_text
           ([marker @ '' run_id='' @ r_id r @ '' head_sha='' @ r_head_sha r @ '' attempt='' @ show_int (r_attempt r) @ '' -->'',
             ''Review status: '' @ status] @
            (if has_text (r_failure_code r) then [''Failure category: '' @ the (r_failure_code r)] else []) @
            (if has_text (r_error r) then [''Error: '' @ safe_error_text (the (r_error r))] else []) @
            [[], ''Findings: '' @ stat_text]))"

definition line_comment_body :: "finding \<Rightarrow> string" where
  "line_comment_body f =
     f_message f @ [CHR 0x0A, CHR 0x0A] @ ''Severity: '' @ f_severity f @
     (if has_text (f_suggestion f) then [CHR 0x0A, CHR 0x0A] @ ''Suggestion: '' @ the (f_suggestion f) else [])"

definition body_hash :: "env \<Rightarrow> string \<Rightarrow> string" where
  "body_hash e body = sha256 e body"

section \<open>References to published comments\<close>

text \<open>\<open>scalar_one_or_none()\<close> of a query that may find several rows\<close>

definition scalar_one_or_none :: "'a list \<Rightarrow> err + 'a option" where
  "scalar_one_or_none xs = (case xs of [] \<Rightarrow> Inr None | [x] \<Rightarrow> Inr (Some x) | _ \<Rightarrow> Inl MultipleResultsFound)"

definition summary_refs :: "db \<Rightarrow> string \<Rightarrow> comment_ref list" where
  "summary_refs db rid = filter (\<lambda>c. cr_review_run_id c = Some rid \<and> cr_comment_type c = ''summary'') (comment_refs db)"

definition existing_summary_ref_with_body :: "env \<Rightarrow> string \<Rightarrow> string \<Rightarrow> db \<Rightarrow> err + comment_ref option" where
  "existing_summary_ref_with_body e rid body db =
     scalar_one_or_none (filter (\<lambda>c. cr_last_published_body_hash c = Some (body_hash e body)) (summary_refs db rid))"

definition existing_line_ref :: "string \<Rightarrow> db \<Rightarrow> err + comment_ref option" where
  "existing_line_ref fid db =
     scalar_one_or_none (filter (\<lambda>c. cr_finding_id c = Some fid \<and> cr_comment_type c = ''line'') (comment_refs db))"

text \<open>The unique constraint of the table\<close>

definition ref_clash :: "comment_ref \<Rightarrow> db \<Rightarrow> bool" where
  "ref_clash c db \<longleftrightarrow>
     (\<exists>o' \<in> set (comment_refs db). cr_id o' \<noteq> cr_id c \<and> cr_provider o' = cr_provider c \<and>
        cr_repo_full_name o' = cr_repo_full_name c \<and> cr_pull_request_number o' = cr_pull_request_number c \<and>
        cr_provider_comment_id o' = cr_provider_comment_id c)"

definition put_ref :: "comment_ref \<Rightarrow> db \<Rightarrow> db" where
  "put_ref c db = db\<lparr>comment_refs := upd_where (\<lambda>x. cr_id x = cr_id c) (\<lambda>_. c) (comment_refs db)\<rparr>"

definition add_ref :: "comment_ref \<Rightarrow> db \<Rightarrow> db" where
  "add_ref c db = draw (db\<lparr>comment_refs := comment_refs db @ [c]\<rparr>)"

text \<open>A violated constraint is an error of the commit, which leaves the last committed state.\<close>

definition upsert_summary_comment_ref ::
  "env \<Rightarrow> string \<Rightarrow> string \<Rightarrow> string \<Rightarrow> comment_slot option \<Rightarrow> db \<Rightarrow> db \<times> (err + comment_ref)" where
  "upsert_summary_comment_ref e rid cid body slot db =
     (case scalar_one_or_none (summary_refs db rid) of
        Inl x \<Rightarrow> (db, Inl x)
      | Inr found \<Rightarrow>
          (let r = the_run db rid;
               base = (case found of
                         Some c \<Rightarrow> c
                       | None \<Rightarrow> new_comment_ref (next_id e db) (now e) (r_provider r) (r_repo_full_name r)
                                  (r_pull_request_number r) ''summary'' cid);
               ref = base\<lparr>cr_review_run_id := Some rid, cr_provider_comment_id := cid, cr_status := ''active'',
                          cr_last_published_body_hash := Some (body_hash e body)\<rparr>;
               db1 = upd_run rid (\<lambda>r. r\<lparr>r_summary_comment_id := Some cid\<rparr>)
                       (if found = None then add_ref ref db else put_ref ref db)
           in if ref_clash ref db then (db, Inl (IntegrityError ''uq_provider_comment''))
              else (case slot of
                      None \<Rightarrow> (db1, Inr ref)
                    | Some s \<Rightarrow>
                        (let s' = s\<lparr>s_provider_comment_id := Some cid, s_last_error := None\<rparr>
                         in if slot_clash s' db then (db, Inl (IntegrityError ''uq_review_comment_slot_provider_comment''))
                            else (upd_slot (s_id s) (\<lambda>_. s') db1, Inr ref)))))"

definition ensure_line_comment_ref ::
  "env \<Rightarrow> string \<Rightarrow> finding \<Rightarrow> string \<Rightarrow> string \<Rightarrow> db \<Rightarrow> db \<times> (err + comment_ref \<times> bool)" where
  "ensure_line_comment_ref e rid f cid body db =
     (case existing_line_ref (f_id f) db of
        Inl x \<Rightarrow> (db, Inl x)
      | Inr (Some c) \<Rightarrow> (db, Inr (c, False))
      | Inr None \<Rightarrow>
          (let r = the_run db rid;
               ref = (new_comment_ref (next_id e db) (now e) (r_provider r) (r_repo_full_name r) (r_pull_request_number r)
                        ''line'' cid)
                     \<lparr>cr_review_run_id := Some rid, cr_finding_id := Some (f_id f),
                      cr_last_published_body_hash := Some (body_hash e body)\<rparr>
           in if ref_clash ref db then (db, Inl (IntegrityError ''uq_provider_comment''))
              else (add_ref ref db, Inr (ref, True))))"

section \<open>Publishing\<close>

text \<open>A session and a provider: computations on a database and a world\<close>

definition on_host :: "('w, 'a) io \<Rightarrow> (db \<times> 'w, 'a) io" where
  "on_host m s = (case m (snd s) of None \<Rightarrow> None | Some (w, r) \<Rightarrow> Some ((fst s, w), r))"

definition on_db :: "(db \<Rightarrow> db \<times> (err + 'a)) \<Rightarrow> (db \<times> 'w, 'a) io" where
  "on_db f s =
     (case f (fst s) of
        (db, Inl x) \<Rightarrow> Some ((db, snd s), Inl (Escaped x))
      | (db, Inr v) \<Rightarrow> Some ((db, snd s), Inr v))"

text \<open>\<open>except GitHubClientError\<close> or \<open>GitLabClientError\<close>\<close>

definition io_catch :: "('s, 'a) io \<Rightarrow> (string \<Rightarrow> ('s, 'a) io) \<Rightarrow> ('s, 'a) io" where
  "io_catch m h s = (case m s of Some (s1, Inl (ClientError x)) \<Rightarrow> h x s1 | r \<Rightarrow> r)"

definition note_denied :: "string \<Rightarrow> string \<Rightarrow> db \<Rightarrow> db" where
  "note_denied rid m db =
     upd_run rid (\<lambda>r. r\<lparr>r_failure_code := Some ''provider_permission_denied'', r_error := Some m\<rparr>) db"

text \<open>The first comment that holds the marker is brought up to date; without one, a comment is created.\<close>

definition holds_marker :: "string \<Rightarrow> string \<times> string option \<Rightarrow> bool" where
  "holds_marker marker c \<longleftrightarrow> (case snd c of Some b \<Rightarrow> b \<noteq> [] \<and> contains b marker | None \<Rightarrow> False)"

definition upsert_marked ::
  "('w, (string \<times> string option) list) io \<Rightarrow> (string \<Rightarrow> ('w, string) io) \<Rightarrow> (string \<Rightarrow> string \<Rightarrow> ('w, string) io) \<Rightarrow>
   string option \<Rightarrow> string \<Rightarrow> string \<Rightarrow> ('w, string) io" where
  "upsert_marked list_all_comments create update known body marker =
     (if has_text known then update (the known) body
      else io_bind list_all_comments (\<lambda>cs.
             case first_row (holds_marker marker) cs of
               Some c \<Rightarrow> update (fst c) body
             | None \<Rightarrow> create body))"

definition upsert_github_issue_comment :: "'w http \<Rightarrow> github_client \<Rightarrow> review_run \<Rightarrow> string \<Rightarrow> string \<Rightarrow> ('w, string) io" where
  "upsert_github_issue_comment ht c r body marker =
     upsert_marked (list_issue_comments ht c (r_repo_full_name r) (r_pull_request_number r))
       (create_issue_comment ht c (r_repo_full_name r) (r_pull_request_number r))
       (update_issue_comment ht c (r_repo_full_name r)) (r_summary_comment_id r) body marker"

definition upsert_gitlab_note :: "'w http \<Rightarrow> gitlab_client \<Rightarrow> review_run \<Rightarrow> string \<Rightarrow> string \<Rightarrow> ('w, string) io" where
  "upsert_gitlab_note ht c r body marker =
     upsert_marked (list_merge_request_notes ht c (r_repo_full_name r) (r_pull_request_number r))
       (create_merge_request_note ht c (r_repo_full_name r) (r_pull_request_number r))
       (update_merge_request_note ht c (r_repo_full_name r) (r_pull_request_number r)) (r_summary_comment_id r) body marker"

text \<open>Both providers publish a summary alike, with their own way to find, create and update a comment.\<close>

definition slot_marker :: "comment_slot option \<Rightarrow> string" where
  "slot_marker slot = (case slot of Some s \<Rightarrow> s_marker s | None \<Rightarrow> summary_marker)"

definition publish_summary ::
  "(review_run \<Rightarrow> string \<Rightarrow> string \<Rightarrow> ('w, string) io) \<Rightarrow>
   env \<Rightarrow> string \<Rightarrow> string \<Rightarrow> (string \<times> int) list option \<Rightarrow> (db \<times> 'w, comment_ref option) io" where
  "publish_summary upsert e rid status stats s0 =
     (let db = fst s0; r = the_run db rid; slot = find_slot db rid;
          body = build_summary_comment_body r status stats slot
      in case existing_summary_ref_with_body e rid body db of
           Inl x \<Rightarrow> Some (s0, Inl (Escaped x))
         | Inr (Some c) \<Rightarrow> Some (s0, Inr (Some c))
         | Inr None \<Rightarrow>
             (case on_host (upsert r body (slot_marker slot)) s0 of
                None \<Rightarrow> None
              | Some ((db1, w1), Inl (ClientError m)) \<Rightarrow> Some ((note_denied rid m db1, w1), Inr None)
              | Some (s1, Inl x) \<Rightarrow> Some (s1, Inl x)
              | Some (s1, Inr cid) \<Rightarrow>
                  io_bind (on_db (upsert_summary_comment_ref e rid cid body slot)) (\<lambda>c. io_return (Some c)) s1))"

definition publish_github_summary_comment ::
  "'w http \<Rightarrow> github_client \<Rightarrow> env \<Rightarrow> string \<Rightarrow> string \<Rightarrow> (string \<times> int) list option \<Rightarrow> (db \<times> 'w, comment_ref option) io" where
  "publish_github_summary_comment ht c = publish_summary (upsert_github_issue_comment ht c)"

definition publish_gitlab_summary_comment ::
  "'w http \<Rightarrow> gitlab_client \<Rightarrow> env \<Rightarrow> string \<Rightarrow> string \<Rightarrow> (string \<times> int) list option \<Rightarrow> (db \<times> 'w, comment_ref option) io" where
  "publish_gitlab_summary_comment ht c = publish_summary (upsert_gitlab_note ht c)"

text \<open>Line comments: every active finding of the run in turn, with the counts so far\<close>

definition commentable_of :: "changed_file list \<Rightarrow> string \<Rightarrow> int list option" where
  "commentable_of files path = map_of (rev (map (\<lambda>f. (cf_path f, cf_commentable_lines f)) files)) path"

definition may_comment :: "changed_file list \<Rightarrow> finding \<Rightarrow> bool" where
  "may_comment files f \<longleftrightarrow>
     (case (f_line_start f, commentable_of files (f_file_path f)) of
        (Some line, Some ls) \<Rightarrow> ls \<noteq> [] \<and> line \<in> set ls
      | _ \<Rightarrow> False)"

definition empty_stats :: "(string \<times> int) list" where
  "empty_stats = [(''published'', 0), (''summary_only'', 0), (''deduped'', 0), (''failed'', 0)]"

definition post_line_comment :: "'w http \<Rightarrow> github_client \<Rightarrow> review_run \<Rightarrow> finding \<Rightarrow> ('w, string) io" where
  "post_line_comment ht c r f =
     create_review_comment ht c (r_repo_full_name r) (r_pull_request_number r) (line_comment_body f) (r_head_sha r)
       (f_file_path f) (the (f_line_start f))"

text \<open>\<open>post\<close> creates the comment of a finding; the result is the key of the count that goes up.\<close>

definition line_comment ::
  "(review_run \<Rightarrow> finding \<Rightarrow> ('w, string) io) \<Rightarrow> env \<Rightarrow> string \<Rightarrow> changed_file list \<Rightarrow> finding \<Rightarrow> (db \<times> 'w, string) io" where
  "line_comment post e rid files f s =
     (if \<not> may_comment files f then Some (s, Inr ''summary_only'')
      else (case existing_line_ref (f_id f) (fst s) of
              Inl x \<Rightarrow> Some (s, Inl (Escaped x))
            | Inr (Some c) \<Rightarrow> Some (s, Inr ''deduped'')
            | Inr None \<Rightarrow>
                (case on_host (post (the_run (fst s) rid) f) s of
                   None \<Rightarrow> None
                 | Some ((db1, w1), Inl (ClientError m)) \<Rightarrow> Some ((note_denied rid m db1, w1), Inr ''failed'')
                 | Some (s1, Inl x) \<Rightarrow> Some (s1, Inl x)
                 | Some (s1, Inr cid) \<Rightarrow>
                     io_bind (on_db (ensure_line_comment_ref e rid f cid (line_comment_body f)))
                       (\<lambda>(c, created). io_return (if created then ''published'' else ''deduped'')) s1)))"

fun line_comments ::
  "(review_run \<Rightarrow> finding \<Rightarrow> ('w, string) io) \<Rightarrow> env \<Rightarrow> string \<Rightarrow> changed_file list \<Rightarrow> finding list \<Rightarrow>
   (string \<times> int) list \<Rightarrow> (db \<times> 'w, (string \<times> int) list) io" where
  "line_comments post e rid files [] stats s = Some (s, Inr stats)"
| "line_comments post e rid files (f # fs) stats s =
     (case line_comment post e rid files f s of
        None \<Rightarrow> None
      | Some (s1, Inl x) \<Rightarrow> Some (s1, Inl x)
      | Some (s1, Inr k) \<Rightarrow> line_comments post e rid files fs (dict_incr k stats) s1)"

definition active_findings :: "db \<Rightarrow> string \<Rightarrow> finding list" where
  "active_findings db rid = filter (\<lambda>f. f_review_run_id f = rid \<and> f_status f = ''active'') (findings db)"

definition publish_github_line_comments ::
  "'w http \<Rightarrow> github_client \<Rightarrow> env \<Rightarrow> string \<Rightarrow> changed_file list \<Rightarrow> (db \<times> 'w, (string \<times> int) list) io" where
  "publish_github_line_comments ht c e rid files s =
     line_comments (post_line_comment ht c) e rid files (active_findings (fst s) rid) empty_stats s"

text \<open>The comment of an agent task\<close>

definition answered_comment :: "env \<Rightarrow> string \<Rightarrow> string \<Rightarrow> agent_task \<Rightarrow> agent_task" where
  "answered_comment e cid digest a =
     a\<lparr>a_response_comment_id := Some cid, a_response_body_hash := Some digest, a_response_published_at := Some (now e),
       a_publish_attempts := a_publish_attempts a + 1, a_last_publish_error := None\<rparr>"

definition publish_github_agent_task_comment ::
  "'w http \<Rightarrow> github_client \<Rightarrow> env \<Rightarrow> string \<Rightarrow> string \<Rightarrow> (db \<times> 'w, string) io" where
  "publish_github_agent_task_comment ht c e aid state s =
     (let a = the_agent (fst s) aid; body = build_agent_task_comment_body a state; digest = body_hash e body;
          repo = a_repo_full_name a; n = a_pull_request_number a
      in if has_text (a_response_comment_id a) \<and> a_response_body_hash a = Some digest
         then Some (s, Inr (the (a_response_comment_id a)))
         else io_bind (on_host
                (case a_response_comment_id a of
                   Some i \<Rightarrow> update_issue_comment ht c repo i body
                 | None \<Rightarrow>
                     io_bind (list_issue_comments ht c repo n) (\<lambda>cs.
                       case first_row (holds_marker (agent_task_marker a)) cs of
                         Some x \<Rightarrow> update_issue_comment ht c repo (fst x) body
                       | None \<Rightarrow> create_issue_comment ht c repo n body)))
                (\<lambda>cid. on_db (\<lambda>db. (upd_agent aid (answered_comment e cid digest) db, Inr cid))) s)"

end
