(* ===== verification/ProviderApi.thy ===== *)
theory ProviderApi
  imports Comments
begin

text \<open>
  The platform and provider classes of \<open>integrations/github.py\<close> and \<open>integrations/gitlab.py\<close> but for webhooks:
  credentials, checkouts, publishing comments for a caller with idempotency keys, queries and their pages,
  changed files, the context of a pull request, and the adapter's calls with their errors made safe.
\<close>

section \<open>Shared helpers\<close>

definition idempotency_marker :: "env \<Rightarrow> string \<Rightarrow> string" where
  "idempotency_marker e key = ''<!-- review-orchestrator:'' @ sha256 e key @ '' -->''"

definition idempotent_comment_body :: "env \<Rightarrow> string \<Rightarrow> string option \<Rightarrow> string" where
  "idempotent_comment_body e body key =
     (case key of
        None \<Rightarrow> body
      | Some k \<Rightarrow> (if contains body (idempotency_marker e k) then body
                  else body @ [CHR 0x0A, CHR 0x0A] @ idempotency_marker e k))"

definition secret_pattern :: "rx list" where
  "secret_pattern =
     [Alt [[WordEdge] @ literal_ci ''bearer'' @ [Rep True 1 is_space],
           [WordEdge, Alt [literal_ci ''private-token'', literal_ci ''token'', literal_ci ''password''],
            Rep True 0 is_space, one_of '':='', Rep True 0 is_space]],
      Mark, Rep True 1 (\<lambda>c. \<not> is_space c \<and> c \<notin> set '',;'')]"

definition safe_platform_error :: "string \<Rightarrow> err + string" where
  "safe_platform_error m =
     (case split_lines m of
        [] \<Rightarrow> Inl IndexError
      | line # _ \<Rightarrow> Inr (rx_sub secret_pattern (\<lambda>g. g @ ''[REDACTED]'') (take 1000 line)))"

definition operation_error :: "string \<Rightarrow> string \<Rightarrow> string \<Rightarrow> err" where
  "operation_error provider op m =
     (case safe_platform_error m of Inl x \<Rightarrow> x | Inr safe \<Rightarrow> OperationError safe (Some provider) (Some op))"

text \<open>\<open>except GitHubClientError as exc: raise self._operation_error(operation, exc)\<close>\<close>

definition with_operation_error :: "string \<Rightarrow> string \<Rightarrow> ('s, 'a) io \<Rightarrow> ('s, 'a) io" where
  "with_operation_error provider op m = io_catch m (\<lambda>x. io_fail (Escaped (operation_error provider op x)))"

definition bad_cursor :: err where
  "bad_cursor = CapabilityError ''Query cursor must be a non-negative integer.'' None (Some ''query'')"

definition query_page :: "'a list \<Rightarrow> string option \<Rightarrow> int \<Rightarrow> err + 'a list \<times> string option" where
  "query_page items cursor page_size =
     (case (case cursor of None \<Rightarrow> Some 0 | Some c \<Rightarrow> int_of_str c) of
        None \<Rightarrow> Inl bad_cursor
      | Some offset \<Rightarrow>
          (if offset < 0 then Inl bad_cursor
           else (let page = take (nat page_size) (drop (nat offset) items); next_offset = offset + int (length page)
                 in Inr (page, if next_offset < int (length items) then Some (show_int next_offset) else None))))"

definition or_text :: "string option \<Rightarrow> string option \<Rightarrow> string option" where
  "or_text a b = (if has_text a then a else b)"

record credential =
  cr_value :: string
  cr_username :: "string option"

record checkout_target =
  ct_remote_url :: string
  ct_username :: "string option"
  ct_password :: "string option"

record query_result =
  qs_action :: string
  qs_data :: "dict option"
  qs_items :: "dict list"
  qs_next_cursor :: "string option"

text \<open>\<open>removesuffix\<close>\<close>

definition remove_suffix :: "string \<Rightarrow> string \<Rightarrow> string" where
  "remove_suffix s x = (if x \<noteq> [] \<and> ends_with s x then take (length s - length x) s else s)"

text \<open>The clone URL of a repository, from an API base URL that names a host\<close>

definition url_path :: "string \<Rightarrow> string" where
  "url_path u =
     (let rest = snd (split_scheme (clean_url u));
          rest' = (if starts_with rest ''//'' then dropWhile (\<lambda>c. c \<notin> set ''/?#'') (drop 2 rest) else rest)
      in takeWhile (\<lambda>c. c \<notin> set ''?#'') rest')"

definition unsplit_origin :: "string \<Rightarrow> string \<Rightarrow> string \<Rightarrow> string" where
  "unsplit_origin scheme netloc path =
     (if scheme \<noteq> [] then scheme @ '':'' else []) @
     (if netloc \<noteq> [] then ''//'' @ netloc @ (if path \<noteq> [] \<and> \<not> starts_with path ''/'' then ''/'' @ path else path) else path)"

definition clone_url_of :: "string \<Rightarrow> string \<Rightarrow> string \<Rightarrow> string" where
  "clone_url_of api_base ending repo =
     rstrip_slash (unsplit_origin (fst (split_scheme (clean_url api_base))) (url_netloc api_base)
       (remove_suffix (rstrip_slash (url_path api_base)) ending)) @ ''/'' @ repo @ ''.git''"

definition bad_brackets :: "string \<Rightarrow> bool" where
  "bad_brackets u \<longleftrightarrow> (CHR ''['' \<in> set (url_netloc u)) \<noteq> (CHR '']'' \<in> set (url_netloc u))"

definition github_clone_url :: "string \<Rightarrow> string \<Rightarrow> err + string" where
  "github_clone_url api_base repo =
     (if bad_brackets api_base then Inl (ValueError ''Invalid IPv6 URL'')
      else if host_name (fst (host_info (url_netloc api_base))) = ''api.github.com''
      then Inr (''https://github.com/'' @ repo @ ''.git'')
      else Inr (clone_url_of api_base ''/api/v3'' repo))"

definition gitlab_clone_url :: "string \<Rightarrow> string \<Rightarrow> err + string" where
  "gitlab_clone_url api_base repo =
     (if bad_brackets api_base then Inl (ValueError ''Invalid IPv6 URL'') else Inr (clone_url_of api_base ''/api/v4'' repo))"

definition escaped :: "err + 'a \<Rightarrow> client_failure + 'a" where
  "escaped r = (case r of Inl x \<Rightarrow> Inl (Escaped x) | Inr v \<Rightarrow> Inr v)"

section \<open>The GitHub platform\<close>

record github_platform =
  gp_client :: "github_client option"
  gp_webhook_secret :: "string option"

definition github_require_client :: "github_platform \<Rightarrow> string \<Rightarrow> client_failure + github_client" where
  "github_require_client p op =
     (case gp_client p of
        None \<Rightarrow> Inl (Escaped (CapabilityError ''GitHub client is not configured.'' (Some ''github'') (Some op)))
      | Some c \<Rightarrow> Inr c)"

definition with_github :: "github_platform \<Rightarrow> string \<Rightarrow> (github_client \<Rightarrow> ('s, 'a) io) \<Rightarrow> ('s, 'a) io" where
  "with_github p op f = io_bind (io_result (github_require_client p op)) f"

definition client_scopes :: "string list" where
  "client_scopes = [''git:read'', ''comment:write'', ''query:read'']"

definition github_get_credential :: "'w http \<Rightarrow> github_platform \<Rightarrow> string \<Rightarrow> string \<Rightarrow> ('w, credential) io" where
  "github_get_credential ht p target scope =
     (if scope = ''webhook'' then io_return \<lparr>cr_value = or_else (gp_webhook_secret p) [], cr_username = None\<rparr>
      else if scope \<notin> set client_scopes
      then io_fail (Escaped (CapabilityError (''GitHub does not support credential scope '' @ repr_str scope @ ''.'')
             (Some ''github'') (Some ''get_credential'')))
      else with_github p ''get_credential'' (\<lambda>c.
             io_bind (with_operation_error ''github'' ''get_credential'' (io_lift (github_get_token ht target)))
               (\<lambda>t. io_return \<lparr>cr_value = or_else t [], cr_username = Some ''x-access-token''\<rparr>)))"

definition github_platform_clone_url :: "github_platform \<Rightarrow> string \<Rightarrow> client_failure + string" where
  "github_platform_clone_url p repo =
     (case github_require_client p ''resolve_git_checkout'' of
        Inl x \<Rightarrow> Inl x
      | Inr c \<Rightarrow> escaped (github_clone_url (gc_api_base_url c) repo))"

text \<open>\<open>model_dump(mode="json")\<close> of a validated comment\<close>

definition comment_dump :: "'w http \<Rightarrow> json \<Rightarrow> dict" where
  "comment_dump ht j =
     (case (j, comment_of ht j) of
        (JObj kvs, Some (i, b)) \<Rightarrow>
          dict_put ''id'' (case jget kvs ''id'' of JInt n \<Rightarrow> JInt n | _ \<Rightarrow> JStr i) (dict_put ''body'' (jopt b) kvs)
      | _ \<Rightarrow> [])"

definition github_comment_dumps :: "'w http \<Rightarrow> github_client \<Rightarrow> string \<Rightarrow> string \<Rightarrow> ('w, dict list) io" where
  "github_comment_dumps ht c path repo =
     io_bind (github_paginate ht c path repo) (\<lambda>items.
       io_result (case comments_of ht items of Inl x \<Rightarrow> Inl x | Inr _ \<Rightarrow> Inr (map (comment_dump ht) items)))"

definition list_pull_request_comments :: "'w http \<Rightarrow> github_platform \<Rightarrow> string \<Rightarrow> int \<Rightarrow> ('w, dict list) io" where
  "list_pull_request_comments ht p repo n =
     with_github p ''pull_request.comments.list'' (\<lambda>c.
       io_bind (github_comment_dumps ht c (issue_comments_path repo n) repo) (\<lambda>xs.
         io_bind (github_comment_dumps ht c (review_comments_path repo n) repo) (\<lambda>ys. io_return (xs @ ys))))"

definition assertion :: "'a option \<Rightarrow> client_failure + 'a" where
  "assertion x = (case x of None \<Rightarrow> Inl (Escaped (AssertionFailed [])) | Some v \<Rightarrow> Inr v)"

definition found_by_marker :: "string \<Rightarrow> (string \<times> string option) list \<Rightarrow> string option" where
  "found_by_marker marker cs = map_option fst (first_row (\<lambda>c. contains (or_else (snd c) []) marker) cs)"

definition github_publish_comment :: "'w http \<Rightarrow> env \<Rightarrow> github_platform \<Rightarrow> string \<Rightarrow> int \<Rightarrow> comment_item \<Rightarrow> ('w, string) io" where
  "github_publish_comment ht e p repo n item =
     with_github p ''publish_comments'' (\<lambda>c.
       let body = idempotent_comment_body e (ci_body item) (ci_idempotency_key item);
           known = or_text (ci_comment_id item) (ci_thread_id item)
       in io_bind
            (if known = None \<and> has_text (ci_idempotency_key item)
             then io_bind (if ci_kind item = ''line'' then list_review_comments ht c repo n else list_issue_comments ht c repo n)
                    (\<lambda>cs. io_return (found_by_marker (idempotency_marker e (the (ci_idempotency_key item))) cs))
             else io_return known)
            (\<lambda>comment_id.
               if ci_kind item = ''line''
               then (case comment_id of
                       Some i \<Rightarrow> update_review_comment ht c repo i body
                     | None \<Rightarrow>
                         io_bind (io_result (assertion (ci_path item))) (\<lambda>path.
                         io_bind (io_result (assertion (ci_line item))) (\<lambda>line.
                         io_bind (io_result (assertion (ci_commit_sha item))) (\<lambda>commit.
                           create_review_comment ht c repo n body commit path line))))
               else (case comment_id of
                       Some i \<Rightarrow> update_issue_comment ht c repo i body
                     | None \<Rightarrow> create_issue_comment ht c repo n body)))"

section \<open>The GitHub provider\<close>

definition github_resolve_git_checkout :: "'w http \<Rightarrow> github_platform \<Rightarrow> string \<Rightarrow> string option \<Rightarrow> ('w, checkout_target) io" where
  "github_resolve_git_checkout ht p repo clone_url =
     io_bind (github_get_credential ht p repo ''git:read'') (\<lambda>cred.
       io_bind (if has_text clone_url then io_return (the clone_url) else io_result (github_platform_clone_url p repo)) (\<lambda>url.
         io_return \<lparr>ct_remote_url = url, ct_username = cr_username cred,
                    ct_password = (if cr_value cred = [] then None else Some (cr_value cred))\<rparr>))"

definition github_comment_url :: "github_platform \<Rightarrow> string \<Rightarrow> int \<Rightarrow> string \<Rightarrow> string \<Rightarrow> client_failure + string" where
  "github_comment_url p repo n i kind =
     (case github_platform_clone_url p repo of
        Inl x \<Rightarrow> Inl x
      | Inr url \<Rightarrow> Inr (remove_suffix url ''.git'' @ ''/pull/'' @ show_int n @ ''#'' @
                      (if kind = ''line'' then ''discussion_r'' else ''issuecomment-'') @ i))"

text \<open>Both providers publish the comments of a request one after another and report the client's errors.\<close>

fun publish_all ::
  "(comment_item \<Rightarrow> ('w, published_comment) io) \<Rightarrow> comment_item list \<Rightarrow> published_comment list \<Rightarrow> ('w, comment_result) io" where
  "publish_all one [] results w =
     (let failed = int (length (filter (\<lambda>r. pc_error r \<noteq> None) results))
      in Some (w, Inr (expose_single_comment
           \<lparr>cs_comments = results, cs_published = int (length results) - failed, cs_failed = failed,
            cs_comment_id = None, cs_thread_id = None, cs_url = None, cs_error = None\<rparr>)))"
| "publish_all one (item # items) results w =
     (case one item w of
        None \<Rightarrow> None
      | Some (w1, Inl (ClientError m)) \<Rightarrow>
          (case safe_platform_error m of
             Inl x \<Rightarrow> Some (w1, Inl (Escaped x))
           | Inr safe \<Rightarrow>
               publish_all one items (results @ [\<lparr>pc_kind = ci_kind item, pc_comment_id = None, pc_thread_id = None, pc_url = None,
                 pc_error = Some safe\<rparr>]) w1)
      | Some (w1, Inl x) \<Rightarrow> Some (w1, Inl x)
      | Some (w1, Inr r) \<Rightarrow> publish_all one items (results @ [r]) w1)"

definition github_publish_one :: "'w http \<Rightarrow> env \<Rightarrow> github_platform \<Rightarrow> string \<Rightarrow> int \<Rightarrow> comment_item \<Rightarrow> ('w, published_comment) io" where
  "github_publish_one ht e p repo n item =
     io_bind (github_publish_comment ht e p repo n item) (\<lambda>i.
       io_bind (io_result (github_comment_url p repo n i (ci_kind item))) (\<lambda>url.
         io_return \<lparr>pc_kind = ci_kind item, pc_comment_id = Some i,
                    pc_thread_id = (if ci_kind item = ''line'' then Some i else None), pc_url = Some url, pc_error = None\<rparr>))"

definition github_publish_comments :: "'w http \<Rightarrow> env \<Rightarrow> github_platform \<Rightarrow> comment_request \<Rightarrow> ('w, comment_result) io" where
  "github_publish_comments ht e p q =
     io_bind (github_get_credential ht p (cq_repository q) ''comment:write'') (\<lambda>_.
       publish_all (github_publish_one ht e p (cq_repository q) (cq_pull_request_number q)) (cq_comments q) [])"

text \<open>Queries; \<open>pull_request.get\<close> and \<open>pull_request.status.get\<close> answer with data, the others with a page of items.\<close>

definition dget_or :: "dict \<Rightarrow> string \<Rightarrow> json \<Rightarrow> json" where
  "dget_or d k v = or_else (dget d k) v"

definition github_query_pull_request :: "string \<Rightarrow> int \<Rightarrow> dict \<Rightarrow> dict" where
  "github_query_pull_request repo n pr =
     [(''provider'', JStr ''github''), (''repository'', JStr repo), (''number'', dget_or pr ''number'' (JInt n)),
      (''provider_id'', jopt (id_to_str (jget pr ''id''))), (''title'', jget pr ''title''),
      (''author'', jopt (login_of (jget pr ''user''))),
      (''status'', if is_truthy (jget pr ''merged'') then JStr ''merged'' else jget pr ''state''),
      (''url'', jget pr ''html_url''), (''base_ref'', jopt (ref_of (jget pr ''base''))), (''base_sha'', jopt (sha_of (jget pr ''base''))),
      (''head_ref'', jopt (ref_of (jget pr ''head''))), (''head_sha'', jopt (sha_of (jget pr ''head'')))]"

definition github_query_status :: "dict \<Rightarrow> dict" where
  "github_query_status pr =
     [(''status'', if is_truthy (jget pr ''merged'') then JStr ''merged'' else jget pr ''state''), (''state'', jget pr ''state''),
      (''merged'', JBool (is_truthy (jget pr ''merged''))), (''head_sha'', jopt (sha_of (jget pr ''head'')))]"

definition github_query_change :: "dict \<Rightarrow> dict" where
  "github_query_change item =
     [(''path'', jget item ''filename''), (''previous_path'', jget item ''previous_filename''), (''status'', jget item ''status''),
      (''patch'', jget item ''patch''), (''additions'', jget item ''additions''), (''deletions'', jget item ''deletions'')]"

definition github_query_comment :: "dict \<Rightarrow> dict" where
  "github_query_comment item =
     [(''comment_id'', jopt (id_to_str (jget item ''id''))), (''thread_id'', jopt (id_to_str (jget item ''pull_request_review_id''))),
      (''kind'', JStr (if is_truthy (jget item ''path'') then ''line'' else ''summary'')), (''body'', jget item ''body''),
      (''author'', jopt (login_of (jget item ''user''))), (''url'', jget item ''html_url''), (''created_at'', jget item ''created_at''),
      (''updated_at'', jget item ''updated_at''), (''path'', jget item ''path''),
      (''line'', json_or (jget item ''line'') (jget item ''original_line''))]"

text \<open>Items of a listing that are no objects end a query with an \<open>AttributeError\<close>.\<close>

definition as_dict :: "json \<Rightarrow> dict option" where
  "as_dict j = (case j of JObj kvs \<Rightarrow> Some kvs | _ \<Rightarrow> None)"

definition convert_items :: "(dict \<Rightarrow> dict) \<Rightarrow> json list \<Rightarrow> client_failure + dict list" where
  "convert_items f items =
     (if list_all (\<lambda>j. as_dict j \<noteq> None) items then Inr (map (\<lambda>j. f (the (as_dict j))) items)
      else Inl (Escaped (OtherError ''object has no attribute get'')))"

definition data_result :: "string \<Rightarrow> dict \<Rightarrow> query_result" where
  "data_result action d = \<lparr>qs_action = action, qs_data = Some d, qs_items = [], qs_next_cursor = None\<rparr>"

definition page_result :: "query_request \<Rightarrow> (dict \<Rightarrow> dict) \<Rightarrow> json list \<Rightarrow> client_failure + query_result" where
  "page_result q f items =
     (case query_page items (qr_cursor q) (qr_page_size q) of
        Inl x \<Rightarrow> Inl (Escaped x)
      | Inr (page, next_cursor) \<Rightarrow>
          (case convert_items f page of
             Inl x \<Rightarrow> Inl x
           | Inr ds \<Rightarrow> Inr \<lparr>qs_action = qr_action q, qs_data = None, qs_items = ds, qs_next_cursor = next_cursor\<rparr>))"

definition unsupported_query :: "string \<Rightarrow> string \<Rightarrow> err" where
  "unsupported_query provider action =
     CapabilityError (''Unsupported query action: '' @ action) (Some provider) (Some ''query'')"

definition github_query :: "'w http \<Rightarrow> github_platform \<Rightarrow> query_request \<Rightarrow> ('w, query_result) io" where
  "github_query ht p q =
     io_bind (github_get_credential ht p (qr_repository q) ''query:read'') (\<lambda>_.
       let repo = qr_repository q; n = qr_pull_request_number q; action = qr_action q;
           pull_request = with_github p ''pull_request.get'' (\<lambda>c. get_pull_request ht c repo n)
       in if action = ''pull_request.get''
          then io_bind (with_operation_error ''github'' action pull_request) (\<lambda>pr. io_return (data_result action (github_query_pull_request repo n pr)))
          else if action = ''pull_request.status.get''
          then io_bind (with_operation_error ''github'' action pull_request) (\<lambda>pr. io_return (data_result action (github_query_status pr)))
          else if action = ''pull_request.changes.list''
          then io_bind (with_operation_error ''github'' action (with_github p ''pull_request.changes.list'' (\<lambda>c. list_pull_request_files ht c repo n)))
                 (\<lambda>items. io_result (page_result q github_query_change items))
          else if action = ''pull_request.comments.list''
          then io_bind (with_operation_error ''github'' action (list_pull_request_comments ht p repo n))
                 (\<lambda>items. io_result (page_result q github_query_comment (map JObj items)))
          else io_fail (Escaped (unsupported_query ''github'' action)))"

text \<open>The context of a pull request for a task that has none; the row's identifier is drawn when it is added.\<close>

definition context_from_pull_request_task :: "env \<Rightarrow> agent_task \<Rightarrow> dict \<Rightarrow> pull_request_context" where
  "context_from_pull_request_task e a pr =
     (let base = jget pr ''base''; head = jget pr ''head'';
          head_repo = repo_full_name (obj_get head ''repo''); base_repo = repo_full_name (obj_get base ''repo'')
      in (new_context [] (now e) (a_provider a) (a_repo_full_name a) (a_pull_request_number a) (or_else (sha_of head) []))
           \<lparr>c_provider_pr_id := id_to_str (jget pr ''id''), c_title := str_or_none (jget pr ''title''),
            c_author_login := login_of (jget pr ''user''), c_base_ref := ref_of base, c_base_sha := sha_of base,
            c_head_ref := ref_of head, c_head_repo_full_name := head_repo,
            c_is_fork := (head_repo \<noteq> None \<and> head_repo \<noteq> base_repo),
            c_status := or_else (str_or_none (jget pr ''state'')) ''open'', c_html_url := str_or_none (jget pr ''html_url'')\<rparr>)"

definition github_pull_request_context :: "'w http \<Rightarrow> env \<Rightarrow> github_platform \<Rightarrow> agent_task \<Rightarrow> ('w, pull_request_context) io" where
  "github_pull_request_context ht e p a =
     io_bind (with_operation_error ''github'' ''get_pull_request_context''
                (with_github p ''pull_request.get'' (\<lambda>c. get_pull_request ht c (a_repo_full_name a) (a_pull_request_number a))))
       (\<lambda>pr. io_return (context_from_pull_request_task e a pr))"

definition workspace_checkout_of :: "string \<Rightarrow> checkout_target \<Rightarrow> workspace_checkout" where
  "workspace_checkout_of default_user t =
     \<lparr>co_clone_url = ct_remote_url t, co_auth_token = ct_password t, co_auth_username = str_or (ct_username t) default_user\<rparr>"

definition github_workspace_checkout :: "'w http \<Rightarrow> github_platform \<Rightarrow> string \<Rightarrow> string option \<Rightarrow> ('w, workspace_checkout) io" where
  "github_workspace_checkout ht p repo clone_url =
     io_bind (github_resolve_git_checkout ht p repo clone_url) (\<lambda>t. io_return (workspace_checkout_of ''x-access-token'' t))"

definition github_list_changed_files :: "'w http \<Rightarrow> github_platform \<Rightarrow> review_run \<Rightarrow> ('w, changed_file list) io" where
  "github_list_changed_files ht p r =
     with_operation_error ''github'' ''list_changed_files''
       (with_github p ''list_changed_files'' (\<lambda>c.
          io_bind (list_pull_request_files ht c (r_repo_full_name r) (r_pull_request_number r)) (\<lambda>items.
            io_result (if list_all (\<lambda>j. as_dict j \<noteq> None) items then Inr (github_changed_files items)
                       else Inl (Escaped (OtherError ''object has no attribute get''))))))"

text \<open>The calls the outbox makes\<close>

definition github_adapter_summary ::
  "'w http \<Rightarrow> github_platform \<Rightarrow> env \<Rightarrow> string \<Rightarrow> string \<Rightarrow> (string \<times> int) list option \<Rightarrow> (db \<times> 'w, comment_ref option) io" where
  "github_adapter_summary ht p e rid status stats =
     with_operation_error ''github'' ''publish_summary_comment''
       (with_github p ''publish_summary_comment'' (\<lambda>c. publish_github_summary_comment ht c e rid status stats))"

definition github_adapter_lines ::
  "'w http \<Rightarrow> github_platform \<Rightarrow> env \<Rightarrow> string \<Rightarrow> changed_file list \<Rightarrow> (db \<times> 'w, (string \<times> int) list) io" where
  "github_adapter_lines ht p e rid files =
     with_operation_error ''github'' ''publish_line_comments''
       (with_github p ''publish_line_comments'' (\<lambda>c. publish_github_line_comments ht c e rid files))"

definition github_adapter_agent ::
  "'w http \<Rightarrow> github_platform \<Rightarrow> env \<Rightarrow> string \<Rightarrow> string \<Rightarrow> (db \<times> 'w, string) io" where
  "github_adapter_agent ht p e aid state =
     with_operation_error ''github'' ''publish_agent_task_comment''
       (with_github p ''publish_agent_task_comment'' (\<lambda>c. publish_github_agent_task_comment ht c e aid state))"

definition github_agent_task_comment_url :: "github_platform \<Rightarrow> agent_task \<Rightarrow> client_failure + string option" where
  "github_agent_task_comment_url p a =
     (if \<not> has_text (a_response_comment_id a) then Inr None
      else (case github_comment_url p (a_repo_full_name a) (a_pull_request_number a) (the (a_response_comment_id a)) ''agent'' of
              Inl x \<Rightarrow> Inl x
            | Inr url \<Rightarrow> Inr (Some url)))"

section \<open>The GitLab platform\<close>

record gitlab_platform =
  lp_client :: "gitlab_client option"
  lp_webhook_secret :: "string option"

definition gitlab_require_client :: "gitlab_platform \<Rightarrow> string \<Rightarrow> client_failure + gitlab_client" where
  "gitlab_require_client p op =
     (case lp_client p of
        None \<Rightarrow> Inl (Escaped (CapabilityError ''GitLab client is not configured.'' (Some ''gitlab'') (Some op)))
      | Some c \<Rightarrow> Inr c)"

definition with_gitlab :: "gitlab_platform \<Rightarrow> string \<Rightarrow> (gitlab_client \<Rightarrow> ('s, 'a) io) \<Rightarrow> ('s, 'a) io" where
  "with_gitlab p op f = io_bind (io_result (gitlab_require_client p op)) f"

definition gitlab_get_credential :: "gitlab_platform \<Rightarrow> string \<Rightarrow> ('w, credential) io" where
  "gitlab_get_credential p scope =
     (if scope = ''webhook'' then io_return \<lparr>cr_value = or_else (lp_webhook_secret p) [], cr_username = None\<rparr>
      else if scope \<notin> set client_scopes
      then io_fail (Escaped (CapabilityError (''GitLab does not support credential scope '' @ repr_str scope @ ''.'')
             (Some ''gitlab'') (Some ''get_credential'')))
      else with_gitlab p ''get_credential'' (\<lambda>c.
             io_return \<lparr>cr_value = str_or (lc_token c) [], cr_username = Some ''oauth2''\<rparr>))"

definition gitlab_platform_clone_url :: "gitlab_platform \<Rightarrow> string \<Rightarrow> client_failure + string" where
  "gitlab_platform_clone_url p repo =
     (case gitlab_require_client p ''resolve_git_checkout'' of
        Inl x \<Rightarrow> Inl x
      | Inr c \<Rightarrow> escaped (gitlab_clone_url (lc_api_base_url c) repo))"

definition list_merge_request_comments :: "'w http \<Rightarrow> gitlab_platform \<Rightarrow> string \<Rightarrow> int \<Rightarrow> ('w, dict list) io" where
  "list_merge_request_comments ht p repo n =
     with_gitlab p ''pull_request.comments.list'' (\<lambda>c.
       io_bind (gitlab_paginate ht c (merge_request_path repo n @ ''/notes'')) (\<lambda>items.
         io_result (case comments_of ht items of Inl x \<Rightarrow> Inl x | Inr _ \<Rightarrow> Inr (map (comment_dump ht) items))))"

text \<open>The first note that holds the marker, with its discussion\<close>

definition text_or_number :: "json \<Rightarrow> string option" where
  "text_or_number j =
     (case j of JStr s \<Rightarrow> Some s | JInt i \<Rightarrow> Some (py_str j) | JBool b \<Rightarrow> Some (py_str j) | _ \<Rightarrow> None)"

fun find_note :: "string \<Rightarrow> json list \<Rightarrow> string option" where
  "find_note marker [] = None"
| "find_note marker (note # notes) =
     (case note of
        JObj kvs \<Rightarrow>
          (case (contains (py_str (dget_or kvs ''body'' (JStr []))) marker, text_or_number (jget kvs ''id'')) of
             (True, Some i) \<Rightarrow> Some i
           | _ \<Rightarrow> find_note marker notes)
      | _ \<Rightarrow> find_note marker notes)"

fun find_in_discussions :: "string \<Rightarrow> dict list \<Rightarrow> (string \<times> string) option" where
  "find_in_discussions marker [] = None"
| "find_in_discussions marker (d # ds) =
     (case (text_or_number (jget d ''id''), jget d ''notes'') of
        (Some did, JList notes) \<Rightarrow>
          (case find_note marker notes of Some i \<Rightarrow> Some (i, did) | None \<Rightarrow> find_in_discussions marker ds)
      | _ \<Rightarrow> find_in_discussions marker ds)"

definition find_discussion_comment :: "'w http \<Rightarrow> gitlab_platform \<Rightarrow> string \<Rightarrow> int \<Rightarrow> string \<Rightarrow> ('w, (string \<times> string) option) io" where
  "find_discussion_comment ht p repo n marker =
     with_gitlab p ''publish_comments'' (\<lambda>c.
       io_bind (list_merge_request_discussions ht c repo n) (\<lambda>items.
         io_result (if list_all (\<lambda>j. as_dict j \<noteq> None) items
                    then Inr (find_in_discussions marker (map (\<lambda>j. the (as_dict j)) items))
                    else Inl (Escaped (OtherError ''object has no attribute get'')))))"

text \<open>A new line comment needs the commits the diff was made from.\<close>

definition diff_position :: "comment_item \<Rightarrow> dict \<Rightarrow> client_failure + dict" where
  "diff_position item mr =
     (case jget mr ''diff_refs'' of
        JObj refs \<Rightarrow>
          (case (jget refs ''base_sha'', jget refs ''start_sha'') of
             (JStr base, JStr start) \<Rightarrow>
               (case (assertion (ci_commit_sha item), assertion (ci_path item), assertion (ci_line item)) of
                  (Inr commit, Inr path, Inr line) \<Rightarrow>
                    Inr [(''position_type'', JStr ''text''), (''base_sha'', JStr base), (''start_sha'', JStr start),
                         (''head_sha'', JStr commit), (''new_path'', JStr path), (''new_line'', JInt line)]
                | _ \<Rightarrow> Inl (Escaped (AssertionFailed [])))
           | _ \<Rightarrow> Inl (ClientError ''GitLab merge request has incomplete diff refs.''))
      | _ \<Rightarrow> Inl (ClientError ''GitLab merge request has no diff refs for a line comment.''))"

definition gitlab_known_comment ::
  "'w http \<Rightarrow> env \<Rightarrow> gitlab_platform \<Rightarrow> gitlab_client \<Rightarrow> string \<Rightarrow> int \<Rightarrow> comment_item \<Rightarrow> ('w, string option \<times> string option) io" where
  "gitlab_known_comment ht e p c repo n item =
     (let known = or_text (ci_comment_id item) (ci_thread_id item); key = ci_idempotency_key item
      in if known \<noteq> None \<or> \<not> has_text key then io_return (known, ci_thread_id item)
         else if ci_kind item = ''line''
         then io_bind (find_discussion_comment ht p repo n (idempotency_marker e (the key)))
                (\<lambda>found. io_return (map_option fst found, map_option snd found))
         else io_bind (list_merge_request_notes ht c repo n)
                (\<lambda>cs. io_return (found_by_marker (idempotency_marker e (the key)) cs, ci_thread_id item)))"

definition gitlab_publish_comment ::
  "'w http \<Rightarrow> env \<Rightarrow> gitlab_platform \<Rightarrow> string \<Rightarrow> int \<Rightarrow> comment_item \<Rightarrow> ('w, string \<times> string option) io" where
  "gitlab_publish_comment ht e p repo n item =
     with_gitlab p ''publish_comments'' (\<lambda>c.
       let body = idempotent_comment_body e (ci_body item) (ci_idempotency_key item)
       in io_bind (gitlab_known_comment ht e p c repo n item) (\<lambda>(comment_id, thread_id).
            if ci_kind item = ''line''
            then (case (comment_id, thread_id) of
                    (Some i, Some d) \<Rightarrow>
                      io_bind (update_merge_request_discussion_note ht c repo n d i body) (\<lambda>(i', d'). io_return (i', Some d'))
                  | (Some i, None) \<Rightarrow> io_bind (update_merge_request_note ht c repo n i body) (\<lambda>i'. io_return (i', None))
                  | (None, _) \<Rightarrow>
                      io_bind (with_gitlab p ''pull_request.get'' (\<lambda>c. get_merge_request ht c repo n)) (\<lambda>mr.
                        io_bind (io_result (diff_position item mr)) (\<lambda>position.
                          io_bind (create_merge_request_discussion ht c repo n body position) (\<lambda>(i, d). io_return (i, Some d)))))
            else (case comment_id of
                    Some i \<Rightarrow> io_bind (update_merge_request_note ht c repo n i body) (\<lambda>i'. io_return (i', None))
                  | None \<Rightarrow> io_bind (create_merge_request_note ht c repo n body) (\<lambda>i'. io_return (i', None)))))"

section \<open>The GitLab provider\<close>

definition gitlab_resolve_git_checkout :: "gitlab_platform \<Rightarrow> string \<Rightarrow> string option \<Rightarrow> ('w, checkout_target) io" where
  "gitlab_resolve_git_checkout p repo clone_url =
     io_bind (gitlab_get_credential p ''git:read'') (\<lambda>cred.
       io_bind (if has_text clone_url then io_return (the clone_url) else io_result (gitlab_platform_clone_url p repo)) (\<lambda>url.
         io_return \<lparr>ct_remote_url = url, ct_username = cr_username cred,
                    ct_password = (if cr_value cred = [] then None else Some (cr_value cred))\<rparr>))"

definition gitlab_comment_url :: "gitlab_platform \<Rightarrow> string \<Rightarrow> int \<Rightarrow> string \<Rightarrow> client_failure + string" where
  "gitlab_comment_url p repo n i =
     (case gitlab_platform_clone_url p repo of
        Inl x \<Rightarrow> Inl x
      | Inr url \<Rightarrow> Inr (remove_suffix url ''.git'' @ ''/-/merge_requests/'' @ show_int n @ ''#note_'' @ i))"

definition gitlab_publish_one :: "'w http \<Rightarrow> env \<Rightarrow> gitlab_platform \<Rightarrow> string \<Rightarrow> int \<Rightarrow> comment_item \<Rightarrow> ('w, published_comment) io" where
  "gitlab_publish_one ht e p repo n item =
     io_bind (gitlab_publish_comment ht e p repo n item) (\<lambda>(i, d).
       io_bind (io_result (gitlab_comment_url p repo n i)) (\<lambda>url.
         io_return \<lparr>pc_kind = ci_kind item, pc_comment_id = Some i, pc_thread_id = d, pc_url = Some url, pc_error = None\<rparr>))"

definition gitlab_publish_comments :: "'w http \<Rightarrow> env \<Rightarrow> gitlab_platform \<Rightarrow> comment_request \<Rightarrow> ('w, comment_result) io" where
  "gitlab_publish_comments ht e p q =
     io_bind (gitlab_get_credential p ''comment:write'') (\<lambda>_.
       publish_all (gitlab_publish_one ht e p (cq_repository q) (cq_pull_request_number q)) (cq_comments q) [])"

definition gitlab_status :: "json \<Rightarrow> json" where
  "gitlab_status j = (case j of JStr s \<Rightarrow> (if s = ''opened'' then JStr ''open'' else j) | _ \<Rightarrow> JNull)"

definition gitlab_query_pull_request :: "string \<Rightarrow> int \<Rightarrow> dict \<Rightarrow> dict" where
  "gitlab_query_pull_request repo n mr =
     [(''provider'', JStr ''gitlab''), (''repository'', JStr repo), (''number'', dget_or mr ''iid'' (JInt n)),
      (''provider_id'', jopt (id_to_str (jget mr ''id''))), (''title'', jget mr ''title''),
      (''author'', jopt (gitlab_author (jget mr ''author''))), (''status'', gitlab_status (jget mr ''state'')),
      (''url'', jget mr ''web_url''), (''base_ref'', jget mr ''target_branch''),
      (''base_sha'', obj_get (jget mr ''diff_refs'') ''base_sha''), (''head_ref'', jget mr ''source_branch''),
      (''head_sha'', jget mr ''sha'')]"

definition gitlab_query_status :: "dict \<Rightarrow> dict" where
  "gitlab_query_status mr =
     [(''status'', gitlab_status (jget mr ''state'')), (''state'', gitlab_status (jget mr ''state'')),
      (''merged'', JBool (jget mr ''state'' = JStr ''merged'')), (''head_sha'', jget mr ''sha'')]"

definition gitlab_query_change :: "dict \<Rightarrow> dict" where
  "gitlab_query_change item =
     [(''path'', json_or (jget item ''new_path'') (jget item ''old_path'')), (''previous_path'', jget item ''old_path''),
      (''status'', JStr (if is_truthy (jget item ''new_file'') then ''added''
                        else if is_truthy (jget item ''deleted_file'') then ''removed''
                        else if is_truthy (jget item ''renamed_file'') then ''renamed'' else ''modified'')),
      (''patch'', jget item ''diff''), (''additions'', JNull), (''deletions'', JNull)]"

definition gitlab_query_comment :: "dict \<Rightarrow> dict" where
  "gitlab_query_comment item =
     (let position = jget item ''position'' in
     [(''comment_id'', jopt (id_to_str (jget item ''id''))), (''thread_id'', jopt (id_to_str (jget item ''discussion_id''))),
      (''kind'', JStr (if is_dict position then ''line'' else ''summary'')), (''body'', jget item ''body''),
      (''author'', jopt (gitlab_author (jget item ''author''))), (''url'', jget item ''web_url''),
      (''created_at'', jget item ''created_at''), (''updated_at'', jget item ''updated_at''),
      (''path'', obj_get position ''new_path''), (''line'', obj_get position ''new_line'')])"

definition list_or_empty :: "json \<Rightarrow> json list" where
  "list_or_empty j = (case j of JList xs \<Rightarrow> xs | _ \<Rightarrow> [])"

definition gitlab_query :: "'w http \<Rightarrow> gitlab_platform \<Rightarrow> query_request \<Rightarrow> ('w, query_result) io" where
  "gitlab_query ht p q =
     io_bind (gitlab_get_credential p ''query:read'') (\<lambda>_.
       let repo = qr_repository q; n = qr_pull_request_number q; action = qr_action q;
           merge_request = with_gitlab p ''pull_request.get'' (\<lambda>c. get_merge_request ht c repo n)
       in if action = ''pull_request.get''
          then io_bind (with_operation_error ''gitlab'' action merge_request)
                 (\<lambda>mr. io_return (data_result action (gitlab_query_pull_request repo n mr)))
          else if action = ''pull_request.status.get''
          then io_bind (with_operation_error ''gitlab'' action merge_request)
                 (\<lambda>mr. io_return (data_result action (gitlab_query_status mr)))
          else if action = ''pull_request.changes.list''
          then io_bind (with_operation_error ''gitlab'' action
                          (with_gitlab p ''pull_request.changes.list'' (\<lambda>c. get_merge_request_changes ht c repo n)))
                 (\<lambda>response. io_result (page_result q gitlab_query_change (list_or_empty (jget response ''changes''))))
          else if action = ''pull_request.comments.list''
          then io_bind (with_operation_error ''gitlab'' action (list_merge_request_comments ht p repo n))
                 (\<lambda>items. io_result (page_result q gitlab_query_comment (map JObj items)))
          else io_fail (Escaped (unsupported_query ''gitlab'' action)))"

definition context_from_merge_request_task :: "env \<Rightarrow> agent_task \<Rightarrow> dict \<Rightarrow> pull_request_context" where
  "context_from_merge_request_task e a mr =
     (new_context [] (now e) (a_provider a) (a_repo_full_name a) (a_pull_request_number a) (or_else (str_or_none (jget mr ''sha'')) []))
       \<lparr>c_provider_pr_id := id_to_str (jget mr ''id''), c_title := str_or_none (jget mr ''title''),
        c_author_login := gitlab_author (jget mr ''author''), c_base_ref := str_or_none (jget mr ''target_branch''),
        c_base_sha := str_or_none (obj_get (jget mr ''diff_refs'') ''base_sha''),
        c_head_ref := str_or_none (jget mr ''source_branch''), c_head_repo_full_name := Some (a_repo_full_name a),
        c_is_fork := False, c_status := or_else (str_or_none (jget mr ''state'')) ''opened'',
        c_html_url := str_or_none (jget mr ''web_url'')\<rparr>"

definition gitlab_pull_request_context :: "'w http \<Rightarrow> env \<Rightarrow> gitlab_platform \<Rightarrow> agent_task \<Rightarrow> ('w, pull_request_context) io" where
  "gitlab_pull_request_context ht e p a =
     io_bind (with_operation_error ''gitlab'' ''get_pull_request_context''
                (with_gitlab p ''pull_request.get'' (\<lambda>c. get_merge_request ht c (a_repo_full_name a) (a_pull_request_number a))))
       (\<lambda>mr. io_return (context_from_merge_request_task e a mr))"

definition gitlab_workspace_checkout :: "gitlab_platform \<Rightarrow> string \<Rightarrow> string option \<Rightarrow> ('w, workspace_checkout) io" where
  "gitlab_workspace_checkout p repo clone_url =
     io_bind (gitlab_resolve_git_checkout p repo clone_url) (\<lambda>t. io_return (workspace_checkout_of ''oauth2'' t))"

definition gitlab_list_changed_files :: "'w http \<Rightarrow> gitlab_platform \<Rightarrow> review_run \<Rightarrow> ('w, changed_file list) io" where
  "gitlab_list_changed_files ht p r =
     with_operation_error ''gitlab'' ''list_changed_files''
       (with_gitlab p ''list_changed_files'' (\<lambda>c.
          io_bind (get_merge_request_changes ht c (r_repo_full_name r) (r_pull_request_number r))
            (\<lambda>response. io_return (gitlab_changed_files response))))"

definition gitlab_adapter_summary ::
  "'w http \<Rightarrow> gitlab_platform \<Rightarrow> env \<Rightarrow> string \<Rightarrow> string \<Rightarrow> (string \<times> int) list option \<Rightarrow> (db \<times> 'w, comment_ref option) io" where
  "gitlab_adapter_summary ht p e rid status stats =
     with_operation_error ''gitlab'' ''publish_summary_comment''
       (with_gitlab p ''publish_summary_comment'' (\<lambda>c. publish_gitlab_summary_comment ht c e rid status stats))"

definition gitlab_agent_task_comment_url :: "gitlab_platform \<Rightarrow> agent_task \<Rightarrow> client_failure + string option" where
  "gitlab_agent_task_comment_url p a =
     (if \<not> has_text (a_response_comment_id a) then Inr None
      else (case gitlab_comment_url p (a_repo_full_name a) (a_pull_request_number a) (the (a_response_comment_id a)) of
              Inl x \<Rightarrow> Inl x
            | Inr url \<Rightarrow> Inr (Some url)))"

end
