(* ===== verification/Querying.thy ===== *)
theory Querying
  imports ProviderApi
begin

text \<open>
  Queries through the provider API (\<open>query\<close> in \<open>integrations/github.py\<close>, \<open>_query_page\<close>): a client that follows
  the cursors from page to page reads every item of the listing once and in its order.
\<close>

section \<open>One page\<close>

lemma page_at:
  assumes "0 < n" and "k \<le> length items"
  shows "query_page items (Some (show_nat k)) n =
     Inr (take (nat n) (drop k items), if k + nat n < length items then Some (show_nat (k + nat n)) else None)"
proof -
  have "int k + int (length (take (nat n) (drop k items))) < int (length items) \<longleftrightarrow> k + nat n < length items"
    using assms by (auto simp: min_def)
  moreover have "show_int (int k + int (length (take (nat n) (drop k items)))) = show_nat (k + nat n)" if "k + nat n < length items"
  proof -
    have "int k + int (length (take (nat n) (drop k items))) = int (k + nat n)" using that by simp
    then show ?thesis by (simp only: show_int_def nat_int) simp
  qed
  ultimately show ?thesis by (simp add: query_page_def int_of_show_nat Let_def)
qed

lemma first_page: "query_page items None n = query_page items (Some (show_nat 0)) n"
  by (simp add: query_page_def int_of_show_nat)

section \<open>Following the cursors\<close>

text \<open>What the documents of the API tell a client to do, with fuel for the number of requests\<close>

fun follow :: "nat \<Rightarrow> (query_request \<Rightarrow> ('w, query_result) io) \<Rightarrow> query_request \<Rightarrow> ('w, dict list) io" where
  "follow 0 query q w = None"
| "follow (Suc k) query q w =
     io_bind (query q) (\<lambda>r.
       case qs_next_cursor r of
         None \<Rightarrow> io_return (qs_items r)
       | Some cursor \<Rightarrow>
           io_bind (follow k query (q\<lparr>qr_cursor := Some cursor\<rparr>)) (\<lambda>rest. io_return (qs_items r @ rest))) w"

definition answers_listing :: "'w http \<Rightarrow> github_client \<Rightarrow> string \<Rightarrow> string \<Rightarrow> ('w \<Rightarrow> json list) \<Rightarrow> bool" where
  "answers_listing ht c path repo view \<longleftrightarrow>
     (\<forall>w. \<exists>w' t. app_token ht repo w = (w', Inr t) \<and> view w' = view w) \<and>
     (\<forall>p w. \<exists>w'. github_request ht c ''GET'' path None (page_params p) repo w = (w', Inr (JList (page_of p (view w)))) \<and>
        view w' = view w)"

lemma whole_listing:
  assumes "answers_listing ht c path repo view"
  shows "\<exists>w'. github_paginate ht c path repo w = Some (w', Inr (view w)) \<and> view w' = view w"
proof -
  let ?get = "\<lambda>p. github_request ht c ''GET'' path None (page_params p) repo"
  have one: "\<exists>w'. ?get p v = (w', Inr (JList (page_of p (view v)))) \<and> view w' = view v" for p v
    using assms unfolding answers_listing_def by blast
  have "view (fst (?get p v)) = view v \<and> snd (?get p v) = Inr (JList (page_of p (view v)))" for p v
    using one[of p v] by auto
  then have pages: "lists_pages view ?get" and "answers_page ?get p v" for p v
    by (simp_all add: lists_pages_def answers_page_def)
  obtain w' r where r: "github_paginate ht c path repo w = Some (w', r)" "view w' = view w"
      "\<forall>ys. r = Inr ys \<longrightarrow> ys = [] @ drop (100 * nat (1 - 1)) (view w)"
      "(\<exists>x. r = Inl x) \<longrightarrow> (\<exists>q v. 1 \<le> q \<and> \<not> answers_page ?get q v)"
    using pages_complete[OF pages order_refl] unfolding github_paginate_def by blast
  with \<open>\<And>p v. answers_page ?get p v\<close> show ?thesis by (cases r) auto
qed

definition files_path :: "string \<Rightarrow> int \<Rightarrow> string" where
  "files_path repo n = repo_path repo @ ''/pulls/'' @ show_int n @ ''/files''"

lemma changes_query:
  assumes "gp_client p = Some c" and "qr_action q = ''pull_request.changes.list''"
    and "answers_listing ht c (files_path (qr_repository q) (qr_pull_request_number q)) (qr_repository q) view"
  shows "\<exists>w'. github_query ht p q w = Some (w', page_result q github_query_change (view w)) \<and> view w' = view w"
proof -
  obtain w1 t where t: "app_token ht (qr_repository q) w = (w1, Inr t)" "view w1 = view w"
    using assms(3) unfolding answers_listing_def by blast
  have "github_get_credential ht p (qr_repository q) ''query:read'' w =
      Some (w1, Inr \<lparr>cr_value = or_else t [], cr_username = Some ''x-access-token''\<rparr>)"
    by (simp add: github_get_credential_def client_scopes_def with_github_def github_require_client_def assms(1) io_bind_def
        with_operation_error_def io_catch_def github_get_token_def t(1))
  moreover obtain w2 where w2: "github_paginate ht c (files_path (qr_repository q) (qr_pull_request_number q)) (qr_repository q) w1 =
      Some (w2, Inr (view w1))" "view w2 = view w1"
    using whole_listing[OF assms(3)] by blast
  ultimately have "github_query ht p q w = Some (w2, page_result q github_query_change (view w1))"
    by (simp add: github_query_def io_bind_def Let_def assms(1,2) with_github_def github_require_client_def with_operation_error_def
        io_catch_def list_pull_request_files_def files_path_def)
  then show ?thesis using t(2) w2(2) by auto
qed

lemma page_result_at:
  assumes "0 < qr_page_size q" and "k \<le> length items" and "list_all (\<lambda>j. as_dict j \<noteq> None) items"
    and "qr_cursor q = Some (show_nat k) \<or> k = 0 \<and> qr_cursor q = None"
  shows "page_result q f items = Inr
     \<lparr>qs_action = qr_action q, qs_data = None, qs_items = take (nat (qr_page_size q)) (drop k (map (\<lambda>j. f (the (as_dict j))) items)),
      qs_next_cursor = (if k + nat (qr_page_size q) < length items then Some (show_nat (k + nat (qr_page_size q))) else None)\<rparr>"
proof -
  let ?n = "nat (qr_page_size q)"
  have "query_page items (qr_cursor q) (qr_page_size q) =
      Inr (take ?n (drop k items), if k + ?n < length items then Some (show_nat (k + ?n)) else None)"
    using assms(4) page_at[OF assms(1,2)] by (auto simp: first_page)
  moreover have "list_all (\<lambda>j. as_dict j \<noteq> None) (take ?n (drop k items))"
    using assms(3) by (auto simp: list_all_iff dest: in_set_takeD in_set_dropD)
  ultimately show ?thesis by (simp add: page_result_def convert_items_def take_map drop_map)
qed

lemma follow_all:
  assumes "gp_client p = Some c" and "qr_action q = ''pull_request.changes.list''" and "0 < qr_page_size q"
    and "answers_listing ht c (files_path (qr_repository q) (qr_pull_request_number q)) (qr_repository q) view"
    and "list_all (\<lambda>j. as_dict j \<noteq> None) (view w)" and "k \<le> length (view w)" and "length (view w) - k < fuel"
    and "cursor = Some (show_nat k) \<or> k = 0 \<and> cursor = None"
  shows "\<exists>w'. follow fuel (github_query ht p) (q\<lparr>qr_cursor := cursor\<rparr>) w =
     Some (w', Inr (drop k (map (\<lambda>j. github_query_change (the (as_dict j))) (view w)))) \<and> view w' = view w"
  using assms(5-8)
proof (induction fuel arbitrary: k cursor w)
  case (Suc fuel)
  let ?q = "q\<lparr>qr_cursor := cursor\<rparr>" and ?n = "nat (qr_page_size q)"
  let ?all = "map (\<lambda>j. github_query_change (the (as_dict j))) (view w)"
  obtain w1 where w1: "github_query ht p ?q w = Some (w1, page_result ?q github_query_change (view w))" "view w1 = view w"
    using changes_query[of p c ?q ht view w] assms(1,2,4) by auto
  have r: "page_result ?q github_query_change (view w) = Inr \<lparr>qs_action = qr_action q, qs_data = None,
      qs_items = take ?n (drop k ?all), qs_next_cursor = (if k + ?n < length (view w) then Some (show_nat (k + ?n)) else None)\<rparr>"
    using page_result_at[of ?q k "view w" github_query_change] assms(3) Suc.prems by simp
  show ?case
  proof (cases "k + ?n < length (view w)")
    case False
    then have "take ?n (drop k ?all) = drop k ?all" by simp
    then show ?thesis using False w1 r by (simp add: io_bind_def)
  next
    case True
    have "length (view w) - (k + ?n) < fuel" using Suc.prems(3) assms(3) True by linarith
    then obtain w2 where w2: "follow fuel (github_query ht p) (q\<lparr>qr_cursor := Some (show_nat (k + ?n))\<rparr>) w1 =
        Some (w2, Inr (drop (k + ?n) ?all))" "view w2 = view w1"
      using Suc.IH[of w1 "k + ?n" "Some (show_nat (k + ?n))"] Suc.prems(1) True w1(2) by auto
    have "take ?n (drop k ?all) @ drop (k + ?n) ?all = drop k ?all"
      unfolding add.commute[of k] drop_drop[symmetric] by (rule append_take_drop_id)
    then show ?thesis using True w1 w2 r by (simp add: io_bind_def)
  qed
qed simp

text \<open>
  Queries are complete: with a provider that answers, a client that asks for the changes of a pull request page by
  page, with any page size and each time with the cursor of the page before, gets every changed file once and in
  the provider's order, with at most one request for each file and one more; and a cursor that is no number, or a negative
  one, is refused.
\<close>

theorem query_pages_are_complete:
  assumes "gp_client p = Some c" and "qr_action q = ''pull_request.changes.list''" and "0 < qr_page_size q" and "qr_cursor q = None"
    and "answers_listing ht c (files_path (qr_repository q) (qr_pull_request_number q)) (qr_repository q) view"
    and "list_all (\<lambda>j. as_dict j \<noteq> None) (view w)"
  shows "(\<exists>w'. follow (Suc (length (view w))) (github_query ht p) q w =
       Some (w', Inr (map (\<lambda>j. github_query_change (the (as_dict j))) (view w))) \<and> view w' = view w) \<and>
     (int_of_str cursor = None \<or> (\<exists>i < 0. int_of_str cursor = Some i) \<longrightarrow>
        (\<exists>w'. github_query ht p (q\<lparr>qr_cursor := Some cursor\<rparr>) w = Some (w', Inl (Escaped bad_cursor)) \<and> view w' = view w))"
proof
  have q: "q\<lparr>qr_cursor := None\<rparr> = q" using assms(4) by (cases q) simp
  have "length (view w) - 0 < Suc (length (view w))" by simp
  from follow_all[OF assms(1-3,5,6) le0 this disjI2[OF conjI[OF refl refl]]]
  show "\<exists>w'. follow (Suc (length (view w))) (github_query ht p) q w =
       Some (w', Inr (map (\<lambda>j. github_query_change (the (as_dict j))) (view w))) \<and> view w' = view w"
    unfolding q drop_0 .
  show "int_of_str cursor = None \<or> (\<exists>i < 0. int_of_str cursor = Some i) \<longrightarrow>
        (\<exists>w'. github_query ht p (q\<lparr>qr_cursor := Some cursor\<rparr>) w = Some (w', Inl (Escaped bad_cursor)) \<and> view w' = view w)"
  proof
    assume bad: "int_of_str cursor = None \<or> (\<exists>i < 0. int_of_str cursor = Some i)"
    let ?q = "q\<lparr>qr_cursor := Some cursor\<rparr>"
    have "page_result ?q github_query_change (view w) = Inl (Escaped bad_cursor)"
      using bad by (auto simp: page_result_def query_page_def)
    then show "\<exists>w'. github_query ht p ?q w = Some (w', Inl (Escaped bad_cursor)) \<and> view w' = view w"
      using changes_query[of p c ?q ht view w] assms(1,2,5) by simp
  qed
qed

theorem query_pages_are_complete_witness:
  "\<exists>w'. follow 4 (github_query sample_http \<lparr>gp_client = Some sample_github, gp_webhook_secret = None\<rparr>)
       \<lparr>qr_action = ''pull_request.changes.list'', qr_repository = ''o/r'', qr_pull_request_number = 1, qr_cursor = None, qr_page_size = 2\<rparr>
       [(''1'', ''a''), (''2'', ''b''), (''3'', ''c'')] =
     Some (w', Inr (map (\<lambda>j. github_query_change (the (as_dict j))) (map sample_item [(''1'', ''a''), (''2'', ''b''), (''3'', ''c'')])))"
proof -
  let ?q = "\<lparr>qr_action = ''pull_request.changes.list'', qr_repository = ''o/r'', qr_pull_request_number = 1, qr_cursor = None, qr_page_size = 2\<rparr>"
  let ?p = "\<lparr>gp_client = Some sample_github, gp_webhook_secret = None\<rparr>" and ?w = "[(''1'', ''a''), (''2'', ''b''), (''3'', ''c'')]"
  have "answers_listing sample_http sample_github (files_path (qr_repository ?q) (qr_pull_request_number ?q)) (qr_repository ?q) (map sample_item)"
    unfolding answers_listing_def sample_get by (auto simp: sample_http_def)
  note listing = this
  have "\<exists>w'. follow (Suc (length (map sample_item ?w))) (github_query sample_http ?p) ?q ?w =
      Some (w', Inr (map (\<lambda>j. github_query_change (the (as_dict j))) (map sample_item ?w))) \<and> map sample_item w' = map sample_item ?w"
    by (rule conjunct1[OF query_pages_are_complete[of ?p sample_github ?q, OF _ _ _ _ listing]])
      (simp_all add: as_dict_def sample_item_def)
  moreover have "Suc (length (map sample_item ?w)) = 4" by simp
  ultimately show ?thesis by metis
qed

end
