(* ===== verification/Delivering.thy ===== *)
theory Delivering
  imports Outbox
begin

text \<open>
  The outbox of \<open>application/delivery.py\<close> seen from outside: a post office that takes letters, each under
  its own key, and carries every letter through its phases. And its progress: whatever the providers answer,
  a letter with a limited number of attempts is sent or given up.
\<close>

section \<open>A processing round with adapters that leave the outbox alone\<close>

definition rows_since :: "delivery list \<Rightarrow> nat \<Rightarrow> db \<Rightarrow> bool" where
  "rows_since rows n db \<longleftrightarrow> outbox db = rows \<and> n \<le> drawn db"

definition calls_quiet :: "adapter_calls \<Rightarrow> bool" where
  "calls_quiet calls \<longleftrightarrow> (\<forall>rows n. calls_keep (rows_since rows n) calls)"

lemma provider_call_quiet:
  assumes "calls_quiet calls" and "provider_call calls reg py did db = (db', res)"
  shows "outbox db' = outbox db \<and> drawn db \<le> drawn db'"
proof -
  have "calls_keep (rows_since (outbox db) (drawn db)) calls" using assms(1) unfolding calls_quiet_def by blast
  then have "rows_since (outbox db) (drawn db) (fst (provider_call calls reg py did db))"
    by (rule provider_call_keeps) (simp_all add: rows_since_def)
  with assms(2) show ?thesis by (simp add: rows_since_def)
qed

text \<open>Adapters that violate no constraint\<close>

definition calls_settle :: "adapter_calls \<Rightarrow> bool" where
  "calls_settle calls \<longleftrightarrow>
     (\<forall>p i s st db x. snd (publish_summary_comment calls p i s st db) = Inl x \<longrightarrow> \<not> breaks_session x) \<and>
     (\<forall>p i fs db x. snd (publish_line_comments calls p i fs db) = Inl x \<longrightarrow> \<not> breaks_session x) \<and>
     (\<forall>p i s db x. snd (publish_agent_task_comment calls p i s db) = Inl x \<longrightarrow> \<not> breaks_session x)"

lemma breaks_session_simps [simp]:
  "breaks_session (IntegrityError m)" "\<not> breaks_session (ValueError m)" "\<not> breaks_session (TypeError m)"
  "\<not> breaks_session (KeyError m)" "\<not> breaks_session IndexError" "\<not> breaks_session (AssertionFailed m)"
  "\<not> breaks_session (ProviderError m p op)" "\<not> breaks_session (CapabilityError m p op)"
  "\<not> breaks_session (OperationError m p op)" "\<not> breaks_session (OtherError m)"
  by (simp_all add: breaks_session_def)

text \<open>
  What happens to the claimed row: sent, put back or given up, or left leased when recording the outcome raises.
\<close>

definition served :: "bool \<Rightarrow> int \<Rightarrow> time \<Rightarrow> delivery \<Rightarrow> (delivery \<Rightarrow> delivery) \<Rightarrow> bool" where
  "served settled delay t0 d f \<longleftrightarrow>
     (\<exists>m. f = delivered_row t0 m) \<or> (\<exists>x. f = failed_row d x delay t0) \<or>
     (f = (\<lambda>r. r) \<and> (d_operation d \<in> set comment_operations \<or> \<not> settled))"

lemma leased_simps [simp]:
  "d_id (leased token until t0 d) = d_id d" "d_status (leased token until t0 d) = ''running''"
  "d_lock_owner (leased token until t0 d) = Some token" "d_operation (leased token until t0 d) = d_operation d"
  "d_attempt (leased token until t0 d) = d_attempt d + 1" "d_max_attempts (leased token until t0 d) = d_max_attempts d"
  by (simp_all add: leased_def)

lemma requeued_simps [simp]: "d_id (requeued t0 d) = d_id d" "d_idempotency_key (requeued t0 d) = d_idempotency_key d"
  by (simp_all add: requeued_def)

lemma reclaimed_drawn [simp]: "drawn (reclaimed t0 db) = drawn db"
  by (simp add: reclaimed_def)

lemma unique_reclaimed: "unique_on d_id (outbox db) \<Longrightarrow> unique_on d_id (outbox (reclaimed t0 db))"
  by (simp add: reclaimed_def unique_on_upd_where)

lemma apply_Inl:
  assumes "apply_delivery_success t0 tid did db = (db', Inl x)"
  shows "d_operation (the_delivery db did) \<in> set comment_operations"
  using assms by (auto simp: apply_delivery_success_def Let_def split: if_splits option.splits)

lemma apply_drawn: "drawn (fst (apply_delivery_success t0 tid did db)) = drawn db"
  by (auto simp: apply_delivery_success_def Let_def split: option.splits)

lemma failure_drawn: "drawn (failure_recorded d t x delay t0 db) = drawn db"
  by (simp add: failure_recorded_def Let_def split: option.splits)

lemma provider_call_settles:
  assumes "calls_settle calls" and "snd (provider_call calls reg py did db) = Inl x"
  shows "\<not> breaks_session x"
proof -
  have s: "publish_summary_comment calls p i st s db = (db', Inl x) \<Longrightarrow> \<not> breaks_session x"
    and l: "publish_line_comments calls p i fs db = (db', Inl x) \<Longrightarrow> \<not> breaks_session x"
    and a: "publish_agent_task_comment calls p i st db = (db', Inl x) \<Longrightarrow> \<not> breaks_session x" for p i st s fs db db' x
    using assms(1) unfolding calls_settle_def by (metis snd_conv)+
  show ?thesis
    using assms(2) by (auto simp: provider_call_def execute_delivery_def send_summary_def slot_gate_def delivery_error_def
        require_capability_def Let_def split: if_splits option.splits sum.splits prod.splits json.splits gate.splits
        dest: s l a)
qed

lemma deliver_effect:
  assumes "calls_quiet calls" and "unique_on d_id (outbox db)"
    and "process_next_delivery e calls reg py w secs delay (Some t0) db = (db', r)"
  obtains (idle) "outbox db' = outbox (reclaimed t0 db)" "drawn db \<le> drawn db'"
      "\<forall>d \<in> set (outbox (reclaimed t0 db)). \<not> deliverable e t0 d"
  | (work) d token until f where "d \<in> set (outbox (reclaimed t0 db))" "deliverable e t0 d" "drawn db \<le> drawn db'"
      "served (calls_settle calls) delay t0 (leased token until t0 d) f"
      "outbox db' = upd_where (\<lambda>r. d_id r = d_id d) (\<lambda>r. f (leased token until t0 r)) (outbox (reclaimed t0 db))"
proof (rule claim_cases[where e = e and w = w and secs = secs and t = "Some t0" and db = db])
  assume c: "claim_next_delivery e w secs (Some t0) db = (reclaimed (or_else (Some t0) (now e)) db, None)"
    and n: "\<forall>d \<in> set (outbox (reclaimed (or_else (Some t0) (now e)) db)). \<not> deliverable e (or_else (Some t0) (now e)) d"
  then have "db' = reclaimed t0 db" using assms(3) by (simp add: process_eq)
  with n show ?thesis using idle by simp
next
  fix d
  assume "d \<in> set (outbox (reclaimed (or_else (Some t0) (now e)) db))" "deliverable e (or_else (Some t0) (now e)) d"
    and c0: "claim_next_delivery e w secs (Some t0) db =
      (draw (upd_delivery (d_id d) (leased (w @ '':'' @ next_id e db) (or_else (Some t0) (now e) + seconds secs) (or_else (Some t0) (now e)))
         (reclaimed (or_else (Some t0) (now e)) db)), Some (d_id d))"
  then have 2: "d \<in> set (outbox (reclaimed t0 db))" "deliverable e t0 d" by simp_all
  let ?token = "w @ '':'' @ next_id e db" and ?until = "t0 + seconds secs"
  let ?l = "leased ?token ?until t0"
  define db1 where "db1 = draw (upd_delivery (d_id d) ?l (reclaimed t0 db))"
  have c: "claim_next_delivery e w secs (Some t0) db = (db1, Some (d_id d))" using c0 by (simp add: db1_def)
  have rows1: "outbox db1 = upd_where (\<lambda>r. d_id r = d_id d) ?l (outbox (reclaimed t0 db))" by (simp add: db1_def)
  have "get_delivery (reclaimed t0 db) (d_id d) = Some d"
    using first_row_unique[OF unique_reclaimed[OF assms(2)]] 2(1) by (simp add: get_delivery_def)
  then have g1: "get_delivery db1 (d_id d) = Some (?l d)" by (simp add: db1_def get_delivery_upd)
  obtain db2 res where p: "provider_call calls reg py (d_id d) db1 = (db2, res)" by fastforce
  have q: "outbox db2 = outbox db1" "drawn db1 \<le> drawn db2" using provider_call_quiet[OF assms(1) p] by auto
  have g2: "get_delivery db2 (d_id d) = Some (?l d)" using g1 q(1) by (simp add: get_delivery_def)
  have dr: "drawn db \<le> drawn db1" by (simp add: db1_def)
  have t1: "the_delivery db1 (d_id d) = ?l d" using g1 by (simp add: the_delivery_def)
  have compose: "upd_where (\<lambda>r. d_id r = d_id d) f (outbox db2) =
      upd_where (\<lambda>r. d_id r = d_id d) (\<lambda>r. f (?l r)) (outbox (reclaimed t0 db))" for f
    unfolding q(1) rows1 by (simp add: upd_where_def)
  show ?thesis
  proof (cases res)
    case (Inl x)
    show ?thesis
    proof (cases "breaks_session x")
      case True
      then have "db' = db2" and "\<not> calls_settle calls"
        using assms(3) c p t1 Inl provider_call_settles[of calls reg py "d_id d" db1] by (auto simp: process_eq Let_def)
      then show ?thesis
        using 2 q dr compose[of "\<lambda>r. r"] by (intro work[of d ?token ?until "\<lambda>r. r"]) (auto simp: served_def rows1)
    next
      case False
      then have "db' = failure_recorded (?l d) (get_task db1 (d_task_id (?l d))) x delay t0 db2"
        using assms(3) c p t1 Inl by (simp add: process_eq Let_def)
      then have "outbox db' = upd_where (\<lambda>r. d_id r = d_id d) (\<lambda>r. failed_row (?l d) x delay t0 (?l r)) (outbox (reclaimed t0 db))"
        and "drawn db' = drawn db2"
        using compose[of "failed_row (?l d) x delay t0"] by (simp_all add: outbox_failure failure_drawn)
      then show ?thesis
        using 2 q(2) dr by (intro work[of d ?token ?until "failed_row (?l d) x delay t0"]) (auto simp: served_def)
    qed
  next
    case (Inr m)
    define db3 where "db3 = upd_delivery (d_id d) (delivered_row t0 m) db2"
    obtain db4 s where a: "apply_delivery_success t0 (d_task_id (?l d)) (d_id d) db3 = (db4, s)" by fastforce
    have o4: "outbox db4 = outbox db3" "drawn db4 = drawn db3"
      using apply_success_outbox[of t0 "d_task_id (?l d)" "d_id d" db3] apply_drawn[of t0 "d_task_id (?l d)" "d_id d" db3] a by simp_all
    have o3: "outbox db3 = upd_where (\<lambda>r. d_id r = d_id d) (\<lambda>r. delivered_row t0 m (?l r)) (outbox (reclaimed t0 db))"
      using compose[of "delivered_row t0 m"] by (simp add: db3_def)
    have d': "db' = (case s of Inl x \<Rightarrow> db2 | Inr _ \<Rightarrow> db4)"
      using assms(3) c p Inr t1 g2 a by (auto simp: process_eq Let_def db3_def split: sum.splits)
    show ?thesis
    proof (cases s)
      case (Inl x)
      have "d_operation (the_delivery db3 (d_id d)) \<in> set comment_operations" using apply_Inl a Inl by blast
      moreover have "the_delivery db3 (d_id d) = delivered_row t0 m (?l d)"
        using g2 by (simp add: the_delivery_def db3_def get_delivery_upd delivered_row_def)
      ultimately have "d_operation d \<in> set comment_operations" by (simp add: delivered_row_def)
      then show ?thesis
        using 2 q dr d' Inl compose[of "\<lambda>r. r"]
        by (intro work[of d ?token ?until "\<lambda>r. r"]) (auto simp: served_def rows1)
    next
      case (Inr u)
      then show ?thesis
        using 2 q dr d' o3 o4
        by (intro work[of d ?token ?until "delivered_row t0 m"]) (auto simp: served_def db3_def)
    qed
  qed
qed


section \<open>The post office\<close>

datatype phase = Waiting | Sending | Sent | Dead | Dropped

text \<open>What is written on a letter when it is taken, and never changed\<close>

record letter =
  lt_id :: string
  lt_task :: string
  lt_provider :: string
  lt_operation :: string
  lt_destination :: string
  lt_payload :: dict
  lt_mandatory :: bool

definition letter_of :: "delivery \<Rightarrow> letter" where
  "letter_of d = \<lparr>lt_id = d_id d, lt_task = d_task_id d, lt_provider = d_provider d, lt_operation = d_operation d,
     lt_destination = d_destination_key d, lt_payload = d_payload_json d, lt_mandatory = d_mandatory d\<rparr>"

definition phase_of :: "delivery \<Rightarrow> phase" where
  "phase_of d =
     (if d_status d = ''queued'' then Waiting else if d_status d = ''running'' then Sending
      else if d_status d = ''delivered'' then Sent else if d_status d = ''superseded'' then Dropped else Dead)"

type_synonym post = "string \<Rightarrow> (letter \<times> phase) option"

definition post :: "db \<Rightarrow> post" where
  "post db key = map_option (\<lambda>d. (letter_of d, phase_of d)) (find_delivery db key)"

text \<open>
  A step of the post office: it may take one new letter under a free key; a waiting letter may be sent for,
  sent, given up or dropped; a letter on its way may come back, be sent or be given up; nothing else changes.
\<close>

definition moves :: "phase \<Rightarrow> phase \<Rightarrow> bool" where
  "moves p q \<longleftrightarrow> q = p \<or> p = Waiting \<or> (p = Sending \<and> q \<noteq> Dropped)"

definition post_step :: "post \<Rightarrow> post \<Rightarrow> bool" where
  "post_step m m' \<longleftrightarrow>
     (\<forall>k l p. m k = Some (l, p) \<longrightarrow> (\<exists>q. m' k = Some (l, q) \<and> moves p q)) \<and>
     (\<exists>new. \<forall>k. m k = None \<longrightarrow> m' k = None \<or> (k = new \<and> (\<exists>l. m' k = Some (l, Waiting))))"

definition final :: "phase \<Rightarrow> bool" where
  "final p \<longleftrightarrow> p \<in> {Sent, Dead, Dropped}"

lemma post_step_refl: "post_step m m"
proof -
  have "\<exists>q. m k = Some (l, q) \<and> moves p q" if "m k = Some (l, p)" for k l p using that by (simp add: moves_def)
  moreover have "m k = None \<or> (k = new \<and> (\<exists>l. m k = Some (l, Waiting)))" if "m k = None" for k new using that by simp
  ultimately show ?thesis unfolding post_step_def by blast
qed

lemma post_steps_keep:
  assumes "post_step\<^sup>*\<^sup>* m m'" and "m k = Some (l, p)" and "final p"
  shows "m' k = Some (l, p)"
  using assms
proof (induction rule: rtranclp_induct)
  case (step m1 m2)
  then obtain q where "m2 k = Some (l, q)" "moves p q" unfolding post_step_def by blast
  with step.prems(2) show ?case by (auto simp: moves_def final_def)
qed simp

text \<open>A change of rows in place is a step when it keeps what is written on them and moves their phases.\<close>

definition row_moves :: "(delivery \<Rightarrow> delivery) \<Rightarrow> delivery \<Rightarrow> bool" where
  "row_moves f d \<longleftrightarrow>
     d_idempotency_key (f d) = d_idempotency_key d \<and> letter_of (f d) = letter_of d \<and> moves (phase_of d) (phase_of (f d))"

lemma post_map_step:
  assumes "outbox db' = map f (outbox db)" and "\<And>d. d \<in> set (outbox db) \<Longrightarrow> row_moves f d"
  shows "post_step (post db) (post db')"
proof -
  have "first_row (\<lambda>d. d_idempotency_key d = k) (map f ds) = map_option f (first_row (\<lambda>d. d_idempotency_key d = k) ds)"
    if "\<And>d. d \<in> set ds \<Longrightarrow> row_moves f d" for ds k
    using that by (induction ds) (auto simp: row_moves_def)
  then have f: "find_delivery db' k = map_option f (find_delivery db k)" for k
    using assms by (simp add: find_delivery_def)
  have "\<exists>q. post db' k = Some (l, q) \<and> moves p q" if "post db k = Some (l, p)" for k l p
  proof -
    from that obtain d where d: "find_delivery db k = Some d" "l = letter_of d" "p = phase_of d" by (auto simp: post_def)
    then have "row_moves f d" using assms(2) find_delivery_SomeD by blast
    with d f show ?thesis by (simp add: post_def row_moves_def)
  qed
  moreover have "post db k = None \<Longrightarrow> post db' k = None" for k using f by (simp add: post_def)
  ultimately show ?thesis by (simp add: post_step_def)
qed

lemma moves_requeued: "row_moves (\<lambda>d. if lease_expired t0 d then requeued t0 d else d) d"
  by (auto simp: row_moves_def requeued_def letter_of_def phase_of_def moves_def lease_expired_def)

lemma failed_row_fields:
  "letter_of (failed_row d x delay t0 r) = letter_of r" "d_idempotency_key (failed_row d x delay t0 r) = d_idempotency_key r"
  "d_id (failed_row d x delay t0 r) = d_id r"
  "d_status (failed_row d x delay t0 r) = (if exhausted d then ''failed'' else ''queued'')"
  by (simp_all add: failed_row_def letter_of_def Let_def)

lemma moves_served:
  assumes "served settled delay t0 d0 f" and "d_status d \<in> {''queued'', ''running''}"
  shows "row_moves (\<lambda>d. f (leased token until t0 d)) d"
  using assms
proof -
  have from_lease: "moves (phase_of d) (phase_of r)" if "d_status r \<in> {''running'', ''delivered'', ''queued'', ''failed''}" for r
    using assms(2) that by (auto simp: phase_of_def moves_def)
  have l: "letter_of (leased token until t0 d) = letter_of d" "d_idempotency_key (leased token until t0 d) = d_idempotency_key d"
    by (simp_all add: letter_of_def leased_def)
  from assms(1) consider m where "f = delivered_row t0 m" | x where "f = failed_row d0 x delay t0" | "f = (\<lambda>r. r)"
    unfolding served_def by blast
  then show ?thesis
  proof cases
    case 1
    then have "letter_of (f (leased token until t0 d)) = letter_of (leased token until t0 d)"
      and "d_idempotency_key (f (leased token until t0 d)) = d_idempotency_key (leased token until t0 d)"
      by (simp_all add: letter_of_def delivered_row_def)
    then show ?thesis using l from_lease by (simp add: row_moves_def 1 delivered_row_def)
  next
    case 2
    then show ?thesis unfolding row_moves_def using l from_lease failed_row_fields by simp
  next
    case 3
    then show ?thesis using l from_lease by (simp add: row_moves_def)
  qed
qed

lemma post_enqueue: "post_step (post db) (post (fst (enqueue_entry e key v db)))"
proof (cases "find_delivery db key")
  case (Some d)
  then have "fst (enqueue_entry e key v db) = db" by (simp add: enqueue_entry_eq)
  then show ?thesis by (simp only: post_step_refl)
next
  case None
  let ?db' = "fst (enqueue_entry e key v db)"
  have rows: "outbox ?db' = superseding e v (outbox db) @ [entry_row e key v db]"
    using None by (simp add: enqueue_entry_eq Let_def)
  have k: "d_idempotency_key (entry_row e key v db) = key" by (simp add: entry_row_def)
  have "\<exists>q. post ?db' k' = Some (l, q) \<and> moves p q" if "post db k' = Some (l, p)" for k' l p
  proof -
    from that obtain d where d: "find_delivery db k' = Some d" "l = letter_of d" "p = phase_of d" by (auto simp: post_def)
    then obtain d' where "find_delivery ?db' k' = Some d'"
      and "d' = d \<or> d_status d = ''queued'' \<and> d' = d\<lparr>d_status := ''superseded'', d_updated_at := now e\<rparr>"
      unfolding find_delivery_def rows first_row_append superseding_find by simp
    with d(2,3) show ?thesis by (auto simp: post_def letter_of_def phase_of_def moves_def)
  qed
  moreover have "post ?db' k' = None \<or> (k' = key \<and> (\<exists>l. post ?db' k' = Some (l, Waiting)))" if "post db k' = None" for k'
  proof -
    have "find_delivery db k' = None" using that by (simp add: post_def)
    then have "find_delivery ?db' k' = (if k' = key then Some (entry_row e key v db) else None)"
      unfolding find_delivery_def rows first_row_append superseding_find by (simp add: k)
    then show ?thesis by (simp add: post_def phase_of_def entry_row_def new_delivery_def)
  qed
  ultimately show ?thesis unfolding post_step_def by blast
qed

text \<open>Identifiers of deliveries are among those drawn so far.\<close>

definition ids_ok :: "(nat \<Rightarrow> string) \<Rightarrow> db \<Rightarrow> bool" where
  "ids_ok u db \<longleftrightarrow> unique_on d_id (outbox db) \<and> (\<forall>k. drawn db \<le> k \<longrightarrow> u k \<notin> d_id ` set (outbox db))"

lemma ids_ok_rows:
  assumes "ids_ok u db" and "map d_id (outbox db') = map d_id (outbox db)" and "drawn db \<le> drawn db'"
  shows "ids_ok u db'"
proof -
  have "unique_on d_id (outbox db') = unique_on d_id (outbox db)"
    using assms(2) unfolding unique_on_def by (metis distinct_map)
  moreover have "d_id ` set (outbox db') = d_id ` set (outbox db)" using assms(2) by (metis list.set_map)
  ultimately show ?thesis using assms(1,3) by (auto simp: ids_ok_def)
qed


lemma ids_ok_enqueue:
  assumes "ids_ok (uuid4 e) db" and "inj (uuid4 e)"
  shows "ids_ok (uuid4 e) (fst (enqueue_entry e key v db))"
proof (cases "find_delivery db key")
  case (Some d)
  then have "fst (enqueue_entry e key v db) = db" by (simp add: enqueue_entry_eq)
  then show ?thesis using assms(1) by simp
next
  case None
  let ?db' = "fst (enqueue_entry e key v db)"
  have rows: "outbox ?db' = superseding e v (outbox db) @ [entry_row e key v db]" and n: "drawn ?db' = Suc (drawn db)"
    using None by (simp_all add: enqueue_entry_eq Let_def upd_task_def)
  have new: "d_id (entry_row e key v db) = uuid4 e (drawn db)" by (simp add: entry_row_def next_id_def)
  have same: "map d_id (superseding e v (outbox db)) = map d_id (outbox db)"
    by (simp add: superseding_def map_upd_where)
  then have ids: "d_id ` set (superseding e v (outbox db)) = d_id ` set (outbox db)" by (metis list.set_map)
  have "unique_on d_id (superseding e v (outbox db))" using assms(1) same by (simp add: ids_ok_def unique_on_def)
  moreover have "uuid4 e (drawn db) \<notin> d_id ` set (outbox db)" using assms(1) by (simp add: ids_ok_def)
  moreover have "uuid4 e k \<noteq> uuid4 e (drawn db) \<and> uuid4 e k \<notin> d_id ` set (outbox db)" if "Suc (drawn db) \<le> k" for k
    using that assms by (auto simp: ids_ok_def inj_eq)
  ultimately show ?thesis
    unfolding ids_ok_def rows n unique_on_snoc by (simp add: ids new)
qed

text \<open>Every operation is a sequence of steps of the post office, and keeps the identifiers apart.\<close>

lemma reclaimed_rows: "outbox (reclaimed t0 db) = map (\<lambda>d. if lease_expired t0 d then requeued t0 d else d) (outbox db)"
  by (simp add: reclaimed_def upd_where_def)

lemma reclaimed_posts: "post_step (post db) (post (reclaimed t0 db))"
  using reclaimed_rows moves_requeued by (rule post_map_step)

lemma reclaimed_ids: "ids_ok u db \<Longrightarrow> ids_ok u (reclaimed t0 db)"
  by (erule ids_ok_rows) (simp_all add: reclaimed_rows comp_def if_distrib cong: if_cong)

lemma served_id: "served settled delay t0 d f \<Longrightarrow> d_id (f r) = d_id r"
  by (auto simp: served_def delivered_row_def failed_row_fields)

lemma post_rows: "outbox db' = outbox db \<Longrightarrow> post db' = post db"
  by (rule ext) (simp add: post_def find_delivery_def)

lemma deliver_posts:
  assumes "calls_quiet calls" and "ids_ok u db"
    and "process_next_delivery e calls reg py w secs delay (Some t0) db = (db', r)"
  shows "post_step\<^sup>*\<^sup>* (post db) (post db') \<and> ids_ok u db'"
proof -
  let ?mid = "reclaimed t0 db"
  have mid: "post_step (post db) (post ?mid)" and ids: "ids_ok u ?mid"
    using reclaimed_posts reclaimed_ids assms(2) by blast+
  have uniq: "unique_on d_id (outbox db)" using assms(2) by (simp add: ids_ok_def)
  from assms(1) uniq assms(3) show ?thesis
  proof (cases rule: deliver_effect)
    case idle
    have "ids_ok u db'" using ids_ok_rows[OF ids, of db'] idle(1,2) by simp
    then show ?thesis using mid post_rows[OF idle(1)] by auto
  next
    case (work d token until f)
    let ?g = "\<lambda>r. if d_id r = d_id d then f (leased token until t0 r) else r"
    have rows: "outbox db' = map ?g (outbox ?mid)" using work(5) by (simp add: upd_where_def)
    have "row_moves ?g r" if "r \<in> set (outbox ?mid)" for r
    proof (cases "d_id r = d_id d")
      case True
      then have "r = d" using unique_on_inj[OF unique_reclaimed[OF uniq] that work(1)] by simp
      then have "d_status r \<in> {''queued'', ''running''}" using work(2) by (simp add: deliverable_def)
      then have "row_moves (\<lambda>d. f (leased token until t0 d)) r" by (rule moves_served[OF work(4)])
      then show ?thesis using True by (simp add: row_moves_def)
    next
      case False
      then show ?thesis by (simp add: row_moves_def moves_def)
    qed
    then have "post_step (post ?mid) (post db')" by (rule post_map_step[OF rows])
    moreover have "map d_id (outbox db') = map d_id (outbox ?mid)"
      using served_id[OF work(4)] by (simp add: rows)
    then have "ids_ok u db'" using work(3) by (intro ids_ok_rows[OF ids]) simp_all
    ultimately show ?thesis using mid by auto
  qed
qed

lemma outbox_step_posts:
  assumes "calls_quiet calls" and "inj (uuid4 e)" and "ids_ok (uuid4 e) db"
  shows "post_step\<^sup>*\<^sup>* (post db) (post (outbox_step e calls reg py op db)) \<and> ids_ok (uuid4 e) (outbox_step e calls reg py op db)"
proof (cases op)
  case (Enqueue key v)
  then show ?thesis using post_enqueue ids_ok_enqueue[OF assms(3,2)] by auto
next
  case (Deliver w secs delay t)
  obtain db' r where p: "process_next_delivery e calls reg py w secs delay (Some t) db = (db', r)" by fastforce
  show ?thesis using deliver_posts[OF assms(1,3) p] by (simp add: Deliver p)
next
  case (Reclaim t)
  then show ?thesis using reclaimed_posts reclaimed_ids[OF assms(3)] by (auto simp: reclaim_eq)
qed

lemma outbox_steps_post:
  assumes "calls_quiet calls" and "inj (uuid4 e)" and "ids_ok (uuid4 e) db"
  shows "post_step\<^sup>*\<^sup>* (post db) (post (fold (outbox_step e calls reg py) ops db)) \<and>
     ids_ok (uuid4 e) (fold (outbox_step e calls reg py) ops db)"
  using assms(3)
proof (induction ops arbitrary: db)
  case (Cons op ops)
  note one = outbox_step_posts[OF assms(1,2) Cons.prems, of reg py op]
  note rest = Cons.IH[OF conjunct2[OF one]]
  show ?case using rtranclp_trans[OF conjunct1[OF one] conjunct1[OF rest]] rest by simp
qed simp

section \<open>Progress\<close>

definition finished :: "delivery \<Rightarrow> bool" where
  "finished d \<longleftrightarrow> d_status d \<in> {''delivered'', ''failed'', ''superseded''}"

text \<open>A queued delivery that still has an attempt, can be claimed at time \<open>t\<close>, and binds no review comment\<close>

definition ready :: "time \<Rightarrow> delivery \<Rightarrow> bool" where
  "ready t d \<longleftrightarrow>
     d_status d = ''queued'' \<and> d_locked_until d = None \<and> d_available_at d \<le> t \<and>
     0 \<le> d_attempt d \<and> d_attempt d < d_max_attempts d \<and> d_operation d \<notin> set comment_operations"

definition tries :: "delivery \<Rightarrow> nat" where
  "tries d = (if d_status d = ''queued'' then nat (d_max_attempts d - d_attempt d) else 0)"

definition tries_left :: "db \<Rightarrow> nat" where
  "tries_left db = sum_list (map tries (outbox db))"

definition orderly :: "time \<Rightarrow> db \<Rightarrow> bool" where
  "orderly t db \<longleftrightarrow> unique_on d_id (outbox db) \<and> (\<forall>d \<in> set (outbox db). finished d \<or> ready t d)"

text \<open>The delay after a failure is at most this many seconds.\<close>

definition longest_backoff :: "int \<Rightarrow> time" where
  "longest_backoff delay = seconds (delay * 256)"

lemma backoff_le: "0 \<le> delay \<Longrightarrow> backoff delay d \<le> longest_backoff delay"
proof -
  assume "0 \<le> delay"
  moreover have "(2::int) ^ nat (min 8 (max 0 (d_attempt d - 1))) \<le> 2 ^ 8" by (rule power_increasing) simp_all
  ultimately have "delay * 2 ^ nat (min 8 (max 0 (d_attempt d - 1))) \<le> delay * 256" by (intro mult_left_mono) simp_all
  then show ?thesis by (simp add: backoff_def longest_backoff_def)
qed

lemma ready_later: "ready t d \<Longrightarrow> t \<le> t' \<Longrightarrow> ready t' d"
  by (simp add: ready_def)

lemma sum_tries_less:
  assumes "d \<in> set ds" and "tries (f d) < tries d" and "\<And>r. r \<in> set ds \<Longrightarrow> r \<noteq> d \<Longrightarrow> f r = r"
  shows "sum_list (map tries (map f ds)) < sum_list (map tries ds)"
proof -
  have le: "tries (f r) \<le> tries r" if "r \<in> set ds" for r using assms(2,3) that by (cases "r = d") auto
  show ?thesis using assms(1) le
  proof (induction ds)
    case (Cons r rs)
    have "sum_list (map tries (map f rs)) \<le> sum_list (map tries rs)"
      using Cons.prems(2) by (simp add: sum_list_mono comp_def)
    then show ?case using Cons assms(2) by (cases "r = d") (auto intro: add_le_less_mono add_less_le_mono)
  qed simp
qed

lemma reclaimed_orderly: "orderly t db \<Longrightarrow> outbox (reclaimed t0 db) = outbox db"
  by (auto simp: reclaimed_def orderly_def finished_def ready_def lease_expired_def intro!: upd_where_none)

lemma ready_served:
  assumes "ready t d" and "served True delay t (leased token until t d) f" and "0 \<le> delay"
  shows "(finished (f (leased token until t d)) \<or> ready (t + longest_backoff delay) (f (leased token until t d))) \<and>
     tries (f (leased token until t d)) < tries d"
proof -
  let ?l = "leased token until t d"
  have l: "d_attempt ?l = d_attempt d + 1" "d_max_attempts ?l = d_max_attempts d" "d_operation ?l = d_operation d" by simp_all
  have d: "d_status d = ''queued''" "d_operation d \<notin> set comment_operations" "0 \<le> d_attempt d" "d_attempt d < d_max_attempts d"
    using assms(1) by (simp_all add: ready_def)
  from assms(2) d(2) consider m where "f = delivered_row t m" | x where "f = failed_row ?l x delay t"
    unfolding served_def l by blast
  then show ?thesis
  proof cases
    case 1
    then show ?thesis using d by (simp add: finished_def tries_def delivered_row_def)
  next
    case 2
    show ?thesis
    proof (cases "exhausted ?l")
      case True
      then show ?thesis using d by (simp add: 2 finished_def tries_def failed_row_fields)
    next
      case False
      then have "d_attempt d + 1 < d_max_attempts d" using d by (simp add: exhausted_def)
      then show ?thesis
        using False d backoff_le[OF assms(3), of ?l]
        by (simp add: 2 ready_def tries_def failed_row_def Let_def)
    qed
  qed
qed

lemma deliver_progress:
  assumes "calls_quiet calls" and "dialect e \<noteq> Postgresql" and "0 \<le> delay" and "calls_settle calls" and "orderly t db"
  shows "orderly (t + longest_backoff delay) (outbox_step e calls reg py (Deliver w secs delay t) db) \<and>
     tries_left (outbox_step e calls reg py (Deliver w secs delay t) db) \<le> tries_left db - 1"
proof -
  obtain db' r where p: "process_next_delivery e calls reg py w secs delay (Some t) db = (db', r)" by fastforce
  have same: "outbox (reclaimed t db) = outbox db" by (rule reclaimed_orderly[OF assms(5)])
  have uniq: "unique_on d_id (outbox db)" and all: "\<And>d. d \<in> set (outbox db) \<Longrightarrow> finished d \<or> ready t d"
    using assms(5) by (auto simp: orderly_def)
  have gap: "t \<le> t + longest_backoff delay" using assms(3) by (simp add: longest_backoff_def)
  from assms(1) uniq p have "orderly (t + longest_backoff delay) db' \<and> tries_left db' \<le> tries_left db - 1"
  proof (cases rule: deliver_effect)
    case idle
    have "\<not> ready t d" if "d \<in> set (outbox db)" for d
      using idle(3) that assms(2) unfolding same by (fastforce simp: deliverable_def ready_def)
    then have fin: "finished d" if "d \<in> set (outbox db)" for d using all that by blast
    have "tries d = 0" if "d \<in> set (outbox db)" for d
      using fin[OF that] by (auto simp: tries_def finished_def)
    then have "tries_left db = 0" by (simp add: tries_left_def sum_list_nonneg_eq_0_iff)
    moreover have rows: "outbox db' = outbox db" using idle(1) same by simp
    then have "tries_left db' = tries_left db" by (simp add: tries_left_def)
    moreover have "orderly (t + longest_backoff delay) db'" using fin uniq by (simp add: orderly_def rows)
    ultimately show ?thesis by simp
  next
    case (work d token until f)
    let ?g = "\<lambda>r. if d_id r = d_id d then f (leased token until t r) else r"
    have rows: "outbox db' = map ?g (outbox db)" using work(5) unfolding same upd_where_def .
    have d: "d \<in> set (outbox db)" using work(1) same by simp
    have "ready t d" using all[OF d] work(2) by (auto simp: deliverable_def finished_def)
    moreover have "served True delay t (leased token until t d) f" using work(4) assms(4) by simp
    ultimately have served: "(finished (f (leased token until t d)) \<or> ready (t + longest_backoff delay) (f (leased token until t d))) \<and>
        tries (f (leased token until t d)) < tries d" using assms(3) by (rule ready_served)
    have other: "?g r = r" if "r \<in> set (outbox db)" "r \<noteq> d" for r using unique_on_inj[OF uniq that(1) d] that(2) by auto
    have "sum_list (map tries (map ?g (outbox db))) < sum_list (map tries (outbox db))"
      by (rule sum_tries_less[OF d]) (use served other in simp_all)
    then have "tries_left db' \<le> tries_left db - 1" by (simp add: tries_left_def rows)
    moreover have g: "finished (?g r) \<or> ready (t + longest_backoff delay) (?g r)" if "r \<in> set (outbox db)" for r
      using served other[OF that] all[OF that] ready_later[OF _ gap] by (cases "r = d") auto
    moreover have "unique_on d_id (outbox db')"
      using uniq served_id[OF work(4)] by (simp add: rows unique_on_def comp_def if_distrib cong: if_cong)
    then have "orderly (t + longest_backoff delay) db'"
      unfolding orderly_def rows set_map ball_simps(9) using g by blast
    ultimately show ?thesis by simp
  qed
  then show ?thesis using p by simp
qed

text \<open>Processing rounds, each by a worker with its lock time, at a given time\<close>

definition deliver_rounds ::
  "env \<Rightarrow> adapter_calls \<Rightarrow> registry \<Rightarrow> pydantic \<Rightarrow> int \<Rightarrow> (string \<times> int \<times> time) list \<Rightarrow> db \<Rightarrow> db" where
  "deliver_rounds e calls reg py delay =
     fold (\<lambda>(w, secs, t) db. outbox_step e calls reg py (Deliver w secs delay t) db)"

lemma deliver_rounds_Cons:
  "deliver_rounds e calls reg py delay ((w, secs, u) # rounds) db =
     deliver_rounds e calls reg py delay rounds (outbox_step e calls reg py (Deliver w secs delay u) db)"
  by (simp add: deliver_rounds_def)

lemma deliver_run:
  assumes "calls_quiet calls" and "dialect e \<noteq> Postgresql" and "0 \<le> delay" and "calls_settle calls"
  shows "orderly t db \<Longrightarrow> sorted_wrt (\<lambda>a b. a + longest_backoff delay \<le> b) (map (snd \<circ> snd) rounds) \<Longrightarrow>
     (\<And>r. r \<in> set rounds \<Longrightarrow> t \<le> snd (snd r)) \<Longrightarrow>
     \<exists>t'. orderly t' (deliver_rounds e calls reg py delay rounds db) \<and>
       tries_left (deliver_rounds e calls reg py delay rounds db) \<le> tries_left db - length rounds"
proof (induction rounds arbitrary: t db)
  case (Cons r rounds)
  obtain w secs u where r: "r = (w, secs, u)" by (cases r)
  have "t \<le> u" using Cons.prems(3)[of r] r by simp
  then have "orderly u db" using Cons.prems(1) ready_later by (auto simp: orderly_def)
  note one = deliver_progress[OF assms this, of reg py w secs]
  have later: "u + longest_backoff delay \<le> snd (snd r')" if "r' \<in> set rounds" for r'
    using Cons.prems(2) that by (simp add: r)
  have sorted: "sorted_wrt (\<lambda>a b. a + longest_backoff delay \<le> b) (map (snd \<circ> snd) rounds)"
    using Cons.prems(2) by (simp add: comp_def)
  obtain t' where t': "orderly t' (deliver_rounds e calls reg py delay rounds
        (outbox_step e calls reg py (Deliver w secs delay u) db))"
    "tries_left (deliver_rounds e calls reg py delay rounds
        (outbox_step e calls reg py (Deliver w secs delay u) db)) \<le>
       tries_left (outbox_step e calls reg py (Deliver w secs delay u) db) - length rounds"
    using Cons.IH[OF conjunct1[OF one] sorted later] by blast
  then have "tries_left (deliver_rounds e calls reg py delay rounds
        (outbox_step e calls reg py (Deliver w secs delay u) db)) \<le> tries_left db - Suc (length rounds)"
    using conjunct2[OF one] by linarith
  with t'(1) show ?case unfolding r deliver_rounds_Cons by auto
qed (auto simp: deliver_rounds_def)

section \<open>Properties\<close>

definition counting_env :: env where
  "counting_env = (sample_env 5)\<lparr>uuid4 := (\<lambda>k. replicate k CHR ''a'')\<rparr>"

definition line_entry :: outbox_entry where
  "line_entry = (sample_entry ''review_line_comments'' [])\<lparr>oe_supersede := False\<rparr>"

definition line_db :: db where
  "line_db = fst (enqueue_entry counting_env ''k'' line_entry sample_outbox_db)"

text \<open>Adapters that fail on a line comment\<close>

definition refusing_calls :: adapter_calls where
  "refusing_calls = sample_calls\<lparr>publish_line_comments := (\<lambda>p i fs db. (db, Inr [(''failed'', 1)]))\<rparr>"

definition dead_db :: db where
  "dead_db = fold (outbox_step counting_env refusing_calls sample_registry sample_pydantic)
     [Deliver ''w'' 60 30 7, Deliver ''w'' 60 30 (seconds 100)] line_db"

lemma refusing_quiet: "calls_quiet refusing_calls"
  by (simp add: calls_quiet_def calls_keep_def refusing_calls_def sample_calls_def)

lemma refusing_settle: "calls_settle refusing_calls"
  by (simp add: calls_settle_def refusing_calls_def sample_calls_def)

lemma counting_inj: "inj (uuid4 counting_env)"
  by (simp add: counting_env_def inj_def)






end
