(* ===== verification/Published.thy ===== *)
theory Published
  imports Comments Delivering
begin

text \<open>
  What publishing comments (\<open>integrations/comments.py\<close>) does to the provider and to the database: one summary
  comment of a review however often its publication is repeated or breaks off, one comment for each finding,
  and nothing that the outbox depends on.
\<close>

section \<open>A provider's comments\<close>

text \<open>
  The comments of a pull request as a client sees them. A listing is complete or fails; creating adds a comment
  under a new identifier or fails, and it may fail after the comment was added; an update likewise.
\<close>

type_synonym comment_list = "(string \<times> string option) list"

definition rewritten :: "string \<Rightarrow> string \<Rightarrow> comment_list \<Rightarrow> comment_list" where
  "rewritten i b cs = map (\<lambda>x. if fst x = i then (i, Some b) else x) cs"

definition lists_comments :: "('w \<Rightarrow> comment_list) \<Rightarrow> ('w, comment_list) io \<Rightarrow> bool" where
  "lists_comments seen list \<longleftrightarrow>
     (\<forall>w. \<exists>w' r. list w = Some (w', r) \<and> seen w' = seen w \<and> (\<forall>cs. r = Inr cs \<longrightarrow> cs = seen w))"

definition creates_comments :: "('w \<Rightarrow> comment_list) \<Rightarrow> (string \<Rightarrow> ('w, string) io) \<Rightarrow> bool" where
  "creates_comments seen create \<longleftrightarrow>
     (\<forall>b w. \<exists>w' r. create b w = Some (w', r) \<and>
        (seen w' = seen w \<and> (\<exists>x. r = Inl x) \<or>
         (\<exists>i. i \<notin> fst ` set (seen w) \<and> seen w' = seen w @ [(i, Some b)] \<and> (\<forall>cid. r = Inr cid \<longrightarrow> cid = i))))"

definition updates_comments :: "('w \<Rightarrow> comment_list) \<Rightarrow> (string \<Rightarrow> string \<Rightarrow> ('w, string) io) \<Rightarrow> bool" where
  "updates_comments seen update \<longleftrightarrow>
     (\<forall>i b w. \<exists>w' r. update i b w = Some (w', r) \<and>
        (seen w' = seen w \<and> (\<exists>x. r = Inl x) \<or>
         i \<in> fst ` set (seen w) \<and> seen w' = rewritten i b (seen w) \<and> (\<forall>cid. r = Inr cid \<longrightarrow> cid = i)))"

text \<open>At most one comment holds the marker, and it is the one the run knows, if it knows one.\<close>

definition sole :: "string \<Rightarrow> string option \<Rightarrow> comment_list \<Rightarrow> bool" where
  "sole m known cs \<longleftrightarrow>
     distinct (map fst cs) \<and> length (filter (holds_marker m) cs) \<le> 1 \<and>
     (has_text known \<longrightarrow> (\<forall>c \<in> set cs. holds_marker m c \<longrightarrow> fst c = the known))"

lemma map_fst_rewritten [simp]: "map fst (rewritten i b cs) = map fst cs"
  by (induction cs) (auto simp: rewritten_def)

lemma filter_none: "(\<forall>c \<in> set cs. \<not> P c) \<Longrightarrow> filter P cs = []"
  by (simp add: filter_empty_conv)

lemma filter_rewritten:
  assumes "distinct (map fst cs)" and "i \<in> fst ` set cs" and "holds_marker m (i, Some b)"
    and "\<forall>c \<in> set cs. holds_marker m c \<longrightarrow> fst c = i"
  shows "filter (holds_marker m) (rewritten i b cs) = [(i, Some b)]"
  using assms(1,2,4)
proof (induction cs)
  case (Cons c cs)
  show ?case
  proof (cases "fst c = i")
    case True
    then have "i \<notin> fst ` set cs" using Cons.prems(1) by simp
    then have none: "\<forall>x \<in> set cs. fst x \<noteq> i" by auto
    then have "rewritten i b cs = cs" by (auto simp: rewritten_def intro!: map_idI)
    moreover have "filter (holds_marker m) cs = []" using none Cons.prems(3) by (intro filter_none) auto
    ultimately show ?thesis using True assms(3) by (simp add: rewritten_def)
  next
    case False
    then have "\<not> holds_marker m c" using Cons.prems(3) by simp
    moreover have "filter (holds_marker m) (rewritten i b cs) = [(i, Some b)]" using Cons False by simp
    ultimately show ?thesis using False by (simp add: rewritten_def)
  qed
qed simp

lemma sole_one:
  assumes "distinct (map fst cs)" and "filter (holds_marker m) cs = [(i, Some b)]" and "known = Some i \<or> \<not> has_text known"
  shows "sole m known cs"
proof -
  have "fst c = i" if "c \<in> set cs" "holds_marker m c" for c
  proof -
    have "c \<in> set (filter (holds_marker m) cs)" using that by simp
    then show ?thesis unfolding assms(2) by simp
  qed
  then show ?thesis using assms by (auto simp: sole_def has_text_def)
qed

text \<open>Updating the comment the marker was found in, or the one that is known, leaves it the only one.\<close>

lemma update_sole:
  assumes "updates_comments seen update" and "sole m known (seen w)" and "holds_marker m (i, Some body)"
    and "\<forall>c \<in> set (seen w). holds_marker m c \<longrightarrow> fst c = i" and "known = Some i \<or> \<not> has_text known"
  shows "\<exists>w' r. update i body w = Some (w', r) \<and> sole m known (seen w') \<and>
     (\<forall>cid. r = Inr cid \<longrightarrow> filter (holds_marker m) (seen w') = [(cid, Some body)] \<and> distinct (map fst (seen w')))"
proof -
  obtain w' r where u: "update i body w = Some (w', r)"
      "seen w' = seen w \<and> (\<exists>x. r = Inl x) \<or>
         i \<in> fst ` set (seen w) \<and> seen w' = rewritten i body (seen w) \<and> (\<forall>cid. r = Inr cid \<longrightarrow> cid = i)"
    using assms(1) unfolding updates_comments_def by meson
  from u(2) show ?thesis
  proof
    assume "seen w' = seen w \<and> (\<exists>x. r = Inl x)"
    then show ?thesis using u(1) assms(2) by auto
  next
    assume r: "i \<in> fst ` set (seen w) \<and> seen w' = rewritten i body (seen w) \<and> (\<forall>cid. r = Inr cid \<longrightarrow> cid = i)"
    have d: "distinct (map fst (seen w))" using assms(2) by (simp add: sole_def)
    have f: "filter (holds_marker m) (seen w') = [(i, Some body)]"
      using filter_rewritten[OF d _ assms(3,4)] r by simp
    moreover have d': "distinct (map fst (seen w'))" using d r by simp
    ultimately have "sole m known (seen w')" using assms(5) by (intro sole_one)
    then show ?thesis using u(1) r f d' by auto
  qed
qed

lemma upsert_sole:
  assumes "lists_comments seen list" and "creates_comments seen create" and "updates_comments seen update"
    and "sole m known (seen w)" and "body \<noteq> []" and "contains body m"
  shows "\<exists>w' r. upsert_marked list create update known body m w = Some (w', r) \<and> sole m known (seen w') \<and>
     (\<forall>cid. r = Inr cid \<longrightarrow> filter (holds_marker m) (seen w') = [(cid, Some body)] \<and> distinct (map fst (seen w')))"
proof (cases "has_text known")
  case True
  then have "\<forall>c \<in> set (seen w). holds_marker m c \<longrightarrow> fst c = the known" "known = Some (the known)"
    using assms(4) by (auto simp: sole_def has_text_def split: option.splits)
  then show ?thesis
    using update_sole[OF assms(3,4), of "the known" body] assms(5,6) True by (simp add: upsert_marked_def holds_marker_def)
next
  case False
  obtain w1 r1 where l: "list w = Some (w1, r1)" "seen w1 = seen w" "\<forall>cs. r1 = Inr cs \<longrightarrow> cs = seen w"
    using assms(1) unfolding lists_comments_def by meson
  show ?thesis
  proof (cases r1)
    case (Inl x)
    then show ?thesis using False l assms(4) by (simp add: upsert_marked_def io_bind_def)
  next
    case (Inr cs)
    then have cs: "cs = seen w1" using l by simp
    have s1: "sole m known (seen w1)" using assms(4) l(2) by simp
    have holds: "holds_marker m (i, Some body)" for i using assms(5,6) by (simp add: holds_marker_def)
    show ?thesis
    proof (cases "first_row (holds_marker m) cs")
      case (Some c)
      then have c: "c \<in> set (seen w1)" "holds_marker m c" using first_row_SomeD cs by fastforce+
      have "fst x = fst c" if "x \<in> set (seen w1)" "holds_marker m x" for x
      proof -
        have "x \<in> set (filter (holds_marker m) (seen w1))" "c \<in> set (filter (holds_marker m) (seen w1))" using c that by auto
        moreover have "length (filter (holds_marker m) (seen w1)) \<le> 1" using s1 by (simp add: sole_def)
        ultimately show ?thesis by (cases "filter (holds_marker m) (seen w1)") auto
      qed
      then have "\<exists>w' r. update (fst c) body w1 = Some (w', r) \<and> sole m known (seen w') \<and>
         (\<forall>cid. r = Inr cid \<longrightarrow> filter (holds_marker m) (seen w') = [(cid, Some body)] \<and> distinct (map fst (seen w')))"
        using False by (intro update_sole[OF assms(3) s1 holds]) auto
      then show ?thesis using False l(1) Inr Some by (simp add: upsert_marked_def io_bind_def)
    next
      case None
      then have none: "filter (holds_marker m) (seen w1) = []" using cs by (simp add: first_row_None filter_empty_conv)
      obtain w2 r2 where cr: "create body w1 = Some (w2, r2)"
          "seen w2 = seen w1 \<and> (\<exists>x. r2 = Inl x) \<or>
           (\<exists>i. i \<notin> fst ` set (seen w1) \<and> seen w2 = seen w1 @ [(i, Some body)] \<and> (\<forall>cid. r2 = Inr cid \<longrightarrow> cid = i))"
        using assms(2) unfolding creates_comments_def by meson
      have "sole m known (seen w2) \<and>
         (\<forall>cid. r2 = Inr cid \<longrightarrow> filter (holds_marker m) (seen w2) = [(cid, Some body)] \<and> distinct (map fst (seen w2)))"
        using cr(2)
      proof
        assume "\<exists>i. i \<notin> fst ` set (seen w1) \<and> seen w2 = seen w1 @ [(i, Some body)] \<and> (\<forall>cid. r2 = Inr cid \<longrightarrow> cid = i)"
        then obtain i where i: "i \<notin> fst ` set (seen w1)" "seen w2 = seen w1 @ [(i, Some body)]" "\<forall>cid. r2 = Inr cid \<longrightarrow> cid = i"
          by blast
        have f: "filter (holds_marker m) (seen w2) = [(i, Some body)]" using none holds by (simp add: i(2))
        have d: "distinct (map fst (seen w2))" using s1 i(1,2) by (simp add: sole_def)
        show ?thesis using sole_one[OF d f] False f d i(3) by auto
      qed (use s1 in auto)
      then show ?thesis using False l(1) Inr None cr(1) by (simp add: upsert_marked_def io_bind_def)
    qed
  qed
qed

section \<open>GitHub as a provider of comments\<close>

text \<open>
  The documented behaviour of the comment endpoints of an issue. \<open>view\<close> are the comments as JSON. A GET answers a
  page or fails, and changes nothing; a POST adds a comment or fails, perhaps after adding it; a PATCH replaces the
  body of an existing comment or fails; getting a token changes no comment.
\<close>

definition seen_in :: "'w http \<Rightarrow> ('w \<Rightarrow> json list) \<Rightarrow> 'w \<Rightarrow> comment_list" where
  "seen_in ht view w = map (\<lambda>j. the (comment_of ht j)) (view w)"

definition answered_id :: "reply \<Rightarrow> string option" where
  "answered_id rep = (case rep of Answer j \<Rightarrow> (case id_of_response j of Inr i \<Rightarrow> Some i | Inl x \<Rightarrow> None) | _ \<Rightarrow> None)"

definition answers_pages :: "'w http \<Rightarrow> string \<Rightarrow> string \<Rightarrow> ('w \<Rightarrow> json list) \<Rightarrow> bool" where
  "answers_pages ht base path view \<longleftrightarrow>
     (\<forall>p hs w w' rep. send ht base ''GET'' path None (page_params p) hs w = (w', rep) \<longrightarrow>
        view w' = view w \<and> (\<forall>xs. rep = Answer (JList xs) \<longrightarrow> xs = page_of p (view w)))"

definition answers_posts :: "'w http \<Rightarrow> string \<Rightarrow> string \<Rightarrow> ('w \<Rightarrow> json list) \<Rightarrow> bool" where
  "answers_posts ht base path view \<longleftrightarrow>
     (\<forall>b hs w w' rep. send ht base ''POST'' path (body_json b) [] hs w = (w', rep) \<longrightarrow>
        view w' = view w \<and> answered_id rep = None \<or>
        (\<exists>i. i \<notin> fst ` set (seen_in ht view w) \<and> seen_in ht view w' = seen_in ht view w @ [(i, Some b)] \<and>
           answered_id rep \<in> {None, Some i}))"

definition answers_patches :: "'w http \<Rightarrow> string \<Rightarrow> string \<Rightarrow> ('w \<Rightarrow> json list) \<Rightarrow> bool" where
  "answers_patches ht base path view \<longleftrightarrow>
     (\<forall>i b hs w w' rep. send ht base ''PATCH'' (path @ i) (body_json b) [] hs w = (w', rep) \<longrightarrow>
        view w' = view w \<and> answered_id rep = None \<or>
        i \<in> fst ` set (seen_in ht view w) \<and> seen_in ht view w' = rewritten i b (seen_in ht view w) \<and>
           answered_id rep \<in> {None, Some i})"

definition github_host :: "'w http \<Rightarrow> github_client \<Rightarrow> string \<Rightarrow> int \<Rightarrow> ('w \<Rightarrow> json list) \<Rightarrow> bool" where
  "github_host ht c repo n view \<longleftrightarrow>
     (\<forall>w. list_all (\<lambda>j. comment_of ht j \<noteq> None) (view w)) \<and> (\<forall>w. view (fst (app_token ht repo w)) = view w) \<and>
     answers_pages ht (gc_api_base_url c) (issue_comments_path repo n) view \<and>
     answers_posts ht (gc_api_base_url c) (issue_comments_path repo n) view \<and>
     answers_patches ht (gc_api_base_url c) (repo_path repo @ ''/issues/comments/'') view"

lemma reply_id:
  "(case reply_result h m path rep of Inl x \<Rightarrow> Inl x | Inr j \<Rightarrow> id_of_response j) = Inr i \<longleftrightarrow> answered_id rep = Some i"
  by (auto simp: reply_result_def answered_id_def id_of_response_def item_at_def dget_def split: reply.splits sum.splits option.splits)

text \<open>A request that asks for an identifier, as the client sees it\<close>

lemma id_request:
  assumes "\<And>w. view (fst (app_token ht repo w)) = view w"
    and "\<forall>hs w w' rep. send ht (gc_api_base_url c) verb path body [] hs w = (w', rep) \<longrightarrow>
      (view w' = view w \<and> answered_id rep = None) \<or> (\<exists>i. P i (view w) (view w') \<and> answered_id rep \<in> {None, Some i})"
  shows "\<exists>w' r. io_bind (io_lift (github_request ht c verb path body [] repo)) (\<lambda>j. io_result (id_of_response j)) w = Some (w', r) \<and>
     ((view w' = view w \<and> (\<exists>x. r = Inl x)) \<or> (\<exists>i. P i (view w) (view w') \<and> (\<forall>cid. r = Inr cid \<longrightarrow> cid = i)))"
proof -
  obtain w1 t where t: "(if repo \<noteq> [] then github_get_token ht repo w else (w, Inr (gc_token c))) = (w1, t)" by fastforce
  have v1: "view w1 = view w"
    using t assms(1)[of w] by (auto simp: github_get_token_def split: if_splits prod.splits sum.splits)
  show ?thesis
  proof (cases t)
    case (Inl x)
    then show ?thesis using t v1 by (simp add: io_bind_def github_request_def)
  next
    case (Inr token)
    obtain w2 rep where s: "send ht (gc_api_base_url c) verb path body [] (github_headers token) w1 = (w2, rep)" by fastforce
    let ?r = "case reply_result ''GitHub'' verb path rep of Inl x \<Rightarrow> Inl x | Inr j \<Rightarrow> id_of_response j"
    have e: "io_bind (io_lift (github_request ht c verb path body [] repo)) (\<lambda>j. io_result (id_of_response j)) w = Some (w2, ?r)"
      using t Inr s by (simp add: io_bind_def github_request_def split: sum.splits)
    from assms(2) s have "(view w2 = view w1 \<and> answered_id rep = None) \<or>
        (\<exists>i. P i (view w1) (view w2) \<and> answered_id rep \<in> {None, Some i})" by blast
    then show ?thesis
    proof
      assume a: "view w2 = view w1 \<and> answered_id rep = None"
      then have "\<exists>x. ?r = Inl x" using reply_id[of "''GitHub''" verb path rep] by (cases ?r) auto
      then show ?thesis using e a v1 by auto
    next
      assume "\<exists>i. P i (view w1) (view w2) \<and> answered_id rep \<in> {None, Some i}"
      then obtain i where i: "P i (view w1) (view w2)" "answered_id rep \<in> {None, Some i}" by blast
      have "cid = i" if "?r = Inr cid" for cid
        using that i(2) unfolding reply_id by auto
      then show ?thesis using e i(1) v1 by auto
    qed
  qed
qed

lemma github_comments:
  assumes "github_host ht c repo n view"
  shows "lists_comments (seen_in ht view) (list_issue_comments ht c repo n)"
    and "creates_comments (seen_in ht view) (create_issue_comment ht c repo n)"
    and "updates_comments (seen_in ht view) (update_issue_comment ht c repo)"
proof -
  have valid: "list_all (\<lambda>j. comment_of ht j \<noteq> None) (view w)" and token: "view (fst (app_token ht repo w)) = view w" for w
    using assms unfolding github_host_def by blast+
  have gets: "answers_pages ht (gc_api_base_url c) (issue_comments_path repo n) view"
    and posts: "answers_posts ht (gc_api_base_url c) (issue_comments_path repo n) view"
    and patches: "answers_patches ht (gc_api_base_url c) (repo_path repo @ ''/issues/comments/'') view"
    using assms unfolding github_host_def by blast+
  let ?get = "\<lambda>p. github_request ht c ''GET'' (issue_comments_path repo n) None (page_params p) repo"
  have page: "view w' = view w \<and> (\<forall>xs. rep = Answer (JList xs) \<longrightarrow> xs = page_of p (view w))"
    if "send ht (gc_api_base_url c) ''GET'' (issue_comments_path repo n) None (page_params p) hs w = (w', rep)" for p hs w w' rep
    using gets that unfolding answers_pages_def by blast
  have "view (fst (?get p w)) = view w \<and> (\<forall>xs. snd (?get p w) = Inr (JList xs) \<longrightarrow> xs = page_of p (view w))" for p w
  proof -
    obtain w1 t where t: "(if repo \<noteq> [] then github_get_token ht repo w else (w, Inr (gc_token c))) = (w1, t)" by fastforce
    have v1: "view w1 = view w"
      using t token[of w] by (auto simp: github_get_token_def split: if_splits prod.splits sum.splits)
    show ?thesis
    proof (cases t)
      case (Inr tk)
      obtain w2 rep where s: "send ht (gc_api_base_url c) ''GET'' (issue_comments_path repo n) None (page_params p) (github_headers tk) w1 = (w2, rep)"
        by fastforce
      have "reply_result h m q rep = Inr (JList xs) \<Longrightarrow> rep = Answer (JList xs)" for h m q xs
        by (cases rep) (auto simp: reply_result_def)
      then show ?thesis using t Inr s v1 page[OF s] by (auto simp: github_request_def)
    qed (use t v1 in \<open>simp add: github_request_def\<close>)
  qed
  then have pages: "lists_pages view ?get" by (simp add: lists_pages_def)
  show "lists_comments (seen_in ht view) (list_issue_comments ht c repo n)"
    unfolding lists_comments_def
  proof
    fix w
    obtain w' r where p: "github_paginate ht c (issue_comments_path repo n) repo w = Some (w', r)" "view w' = view w"
        "\<forall>ys. r = Inr ys \<longrightarrow> ys = [] @ drop (100 * nat (1 - 1)) (view w)"
      using pages_complete[OF pages order_refl] unfolding github_paginate_def by blast
    show "\<exists>w' r. list_issue_comments ht c repo n w = Some (w', r) \<and> seen_in ht view w' = seen_in ht view w \<and>
       (\<forall>cs. r = Inr cs \<longrightarrow> cs = seen_in ht view w)"
    proof (cases r)
      case (Inl x)
      then show ?thesis using p by (simp add: list_issue_comments_def io_bind_def seen_in_def)
    next
      case (Inr ys)
      then have "ys = view w" using p(3) by simp
      then show ?thesis using p valid[of w] Inr by (simp add: list_issue_comments_def io_bind_def seen_in_def comments_of_def)
    qed
  qed
  show "creates_comments (seen_in ht view) (create_issue_comment ht c repo n)"
    unfolding creates_comments_def
  proof (intro allI)
    fix b w
    have "\<forall>hs w w' rep. send ht (gc_api_base_url c) ''POST'' (issue_comments_path repo n) (body_json b) [] hs w = (w', rep) \<longrightarrow>
      (view w' = view w \<and> answered_id rep = None) \<or>
        (\<exists>i. (i \<notin> fst ` set (seen_in ht view w) \<and> seen_in ht view w' = seen_in ht view w @ [(i, Some b)]) \<and> answered_id rep \<in> {None, Some i})"
      using posts unfolding answers_posts_def by meson
    note id_request[where view = view and ht = ht and repo = repo and P = "\<lambda>i v v'. i \<notin> fst ` set (map (\<lambda>j. the (comment_of ht j)) v) \<and>
        map (\<lambda>j. the (comment_of ht j)) v' = map (\<lambda>j. the (comment_of ht j)) v @ [(i, Some b)]" and c = c and w = w and verb = "''POST''"
        and path = "issue_comments_path repo n" and body = "body_json b", OF token this[unfolded seen_in_def]]
    then show "\<exists>w' r. create_issue_comment ht c repo n b w = Some (w', r) \<and>
        (seen_in ht view w' = seen_in ht view w \<and> (\<exists>x. r = Inl x) \<or>
         (\<exists>i. i \<notin> fst ` set (seen_in ht view w) \<and> seen_in ht view w' = seen_in ht view w @ [(i, Some b)] \<and> (\<forall>cid. r = Inr cid \<longrightarrow> cid = i)))"
      unfolding create_issue_comment_def seen_in_def by (elim exE conjE disjE) (intro exI conjI, assumption, fastforce)+
  qed
  show "updates_comments (seen_in ht view) (update_issue_comment ht c repo)"
    unfolding updates_comments_def
  proof (intro allI)
    fix i b w
    have "\<forall>hs w w' rep. send ht (gc_api_base_url c) ''PATCH'' ((repo_path repo @ ''/issues/comments/'') @ i) (body_json b) [] hs w = (w', rep) \<longrightarrow>
      (view w' = view w \<and> answered_id rep = None) \<or>
        (\<exists>k. (k = i \<and> i \<in> fst ` set (seen_in ht view w) \<and> seen_in ht view w' = rewritten i b (seen_in ht view w)) \<and> answered_id rep \<in> {None, Some k})"
      using patches unfolding answers_patches_def by meson
    then have "\<forall>hs w w' rep. send ht (gc_api_base_url c) ''PATCH'' (repo_path repo @ ''/issues/comments/'' @ i) (body_json b) [] hs w = (w', rep) \<longrightarrow>
      (view w' = view w \<and> answered_id rep = None) \<or>
        (\<exists>k. (k = i \<and> i \<in> fst ` set (seen_in ht view w) \<and> seen_in ht view w' = rewritten i b (seen_in ht view w)) \<and> answered_id rep \<in> {None, Some k})"
      unfolding append_assoc .
    note id_request[where view = view and ht = ht and repo = repo and P = "\<lambda>k v v'. k = i \<and> i \<in> fst ` set (map (\<lambda>j. the (comment_of ht j)) v) \<and>
        map (\<lambda>j. the (comment_of ht j)) v' = rewritten i b (map (\<lambda>j. the (comment_of ht j)) v)" and c = c and w = w and verb = "''PATCH''"
        and path = "repo_path repo @ ''/issues/comments/'' @ i" and body = "body_json b", OF token this[unfolded seen_in_def]]
    then show "\<exists>w' r. update_issue_comment ht c repo i b w = Some (w', r) \<and>
        (seen_in ht view w' = seen_in ht view w \<and> (\<exists>x. r = Inl x) \<or>
         i \<in> fst ` set (seen_in ht view w) \<and> seen_in ht view w' = rewritten i b (seen_in ht view w) \<and> (\<forall>cid. r = Inr cid \<longrightarrow> cid = i))"
      unfolding update_issue_comment_def seen_in_def by (elim exE conjE disjE) (intro exI conjI, assumption, fastforce)+
  qed
qed

section \<open>The summary comment\<close>

lemma join_prefix: "\<exists>t. join d (x # xs) = x @ t"
  by (cases xs) auto

lemma lines_two: "lines_text ([x, y] @ zs) = join [CHR 0x0A] (x # y # zs)"
  by (simp add: lines_text_def)

lemma body_holds_marker:
  "contains (build_summary_comment_body r status stats slot) (slot_marker slot)" (is ?holds)
  "build_summary_comment_body r status stats slot \<noteq> []" (is ?filled)
proof -
  define line where "line = (case slot of Some s \<Rightarrow> ''<!-- '' @ s_marker s | None \<Rightarrow> summary_marker) @ '' run_id='' @ r_id r @
    '' head_sha='' @ r_head_sha r @ '' attempt='' @ show_int (r_attempt r) @ '' -->''"
  obtain ls where "build_summary_comment_body r status stats slot = join [CHR 0x0A] (line # ls)"
    unfolding build_summary_comment_body_def Let_def lines_two line_def by blast
  then obtain t where t: "build_summary_comment_body r status stats slot = line @ t" using join_prefix by metis
  have "\<exists>a b. line = a @ slot_marker slot @ b"
  proof (cases slot)
    case None
    then have "line = [] @ slot_marker slot @ ('' run_id='' @ r_id r @ '' head_sha='' @ r_head_sha r @ '' attempt='' @
      show_int (r_attempt r) @ '' -->'')" by (simp add: line_def slot_marker_def)
    then show ?thesis by blast
  next
    case (Some s)
    then have "line = ''<!-- '' @ slot_marker slot @ ('' run_id='' @ r_id r @ '' head_sha='' @ r_head_sha r @ '' attempt='' @
      show_int (r_attempt r) @ '' -->'')" by (simp add: line_def slot_marker_def)
    then show ?thesis by blast
  qed
  then obtain a b where "line = a @ slot_marker slot @ b" by blast
  then show ?holds unfolding t contains_iff by auto
  have "line \<noteq> []" by (simp add: line_def)
  then show ?filled by (simp add: t)
qed

lemma first_row_replaced:
  assumes "first_row (\<lambda>s. k s = x) ss = Some s" and "k s' = x" and "m s' = m s"
  shows "\<exists>s2. first_row (\<lambda>s. k s = x) (upd_where (\<lambda>r. j r = j s) (\<lambda>_. s') ss) = Some s2 \<and> m s2 = m s"
  using assms by (induction ss) (auto split: if_splits)

lemma slot_marker_bound:
  assumes "find_slot db rid = Some s" and "s_marker s' = s_marker s" and "s_review_run_id s' = s_review_run_id s" and "slots db' = slots db"
  shows "slot_marker (find_slot (upd_slot (s_id s) (\<lambda>_. s') db') rid) = slot_marker (Some s)"
proof -
  have "s_review_run_id s' = rid" using assms(1,3) first_row_SomeD unfolding find_slot_def by fastforce
  from first_row_replaced[where k = s_review_run_id and j = s_id and m = s_marker, OF assms(1)[unfolded find_slot_def] this assms(2)]
  obtain s2 where "find_slot (upd_slot (s_id s) (\<lambda>_. s') db') rid = Some s2" "s_marker s2 = s_marker s"
    by (auto simp: find_slot_def upd_slot_def assms(4))
  then show ?thesis by (simp add: slot_marker_def)
qed

lemma upsert_ref_run:
  assumes "upsert_summary_comment_ref e rid cid body (find_slot db rid) db = (db', Inr c)" and "get_run db rid = Some r"
  shows "get_run db' rid = Some (r\<lparr>r_summary_comment_id := Some cid\<rparr>) \<and>
     slot_marker (find_slot db' rid) = slot_marker (find_slot db rid) \<and> cr_provider_comment_id c = cid"
proof -
  have frames: "slots (add_ref c db) = slots db" "slots (put_ref c db) = slots db"
     "runs (add_ref c db) = runs db" "runs (put_ref c db) = runs db" for c db
    by (simp_all add: add_ref_def put_ref_def draw_def)
  then have get: "get_run (add_ref c db) rid = get_run db rid" "get_run (put_ref c db) rid = get_run db rid" for c
    by (simp_all add: get_run_def)
  show ?thesis
  proof (cases "find_slot db rid")
    case None
    then show ?thesis
      using assms frames get
      by (auto simp: upsert_summary_comment_ref_def Let_def find_slot_def get_run_upd split: sum.splits if_splits option.splits)
  next
    case (Some s)
    let ?s' = "s\<lparr>s_provider_comment_id := Some cid, s_last_error := None\<rparr>"
    obtain db1 where db1: "db' = upd_slot (s_id s) (\<lambda>_. ?s') (upd_run rid (\<lambda>r. r\<lparr>r_summary_comment_id := Some cid\<rparr>) db1)"
        "slots db1 = slots db" "get_run db1 rid = get_run db rid" and c: "cr_provider_comment_id c = cid"
      using assms(1) Some frames get
      by (auto simp: upsert_summary_comment_ref_def Let_def split: sum.splits if_splits option.splits)
    have "get_run db' rid = Some (r\<lparr>r_summary_comment_id := Some cid\<rparr>)"
      using assms(2) by (simp add: db1 get_run_upd)
    moreover have "slot_marker (find_slot db' rid) = slot_marker (Some s)"
      unfolding db1(1) by (rule slot_marker_bound[OF Some]) (simp_all add: db1(2))
    ultimately show ?thesis using Some c by simp
  qed
qed

text \<open>
  An attempt to publish the summary of a run. One that breaks off after the provider's answer loses what the
  session had not committed.
\<close>

record summary_attempt =
  sa_env :: env
  sa_status :: string
  sa_stats :: "(string \<times> int) list option"
  sa_breaks_off :: bool

definition attempt_summary :: "'w http \<Rightarrow> github_client \<Rightarrow> string \<Rightarrow> summary_attempt \<Rightarrow> db \<times> 'w \<Rightarrow> db \<times> 'w" where
  "attempt_summary ht c rid a s =
     (case publish_github_summary_comment ht c (sa_env a) rid (sa_status a) (sa_stats a) s of
        None \<Rightarrow> s
      | Some (s', r) \<Rightarrow> (if sa_breaks_off a then (fst s, snd s') else s'))"

text \<open>The run, where its comments are, and its marker, which at most one comment of the provider holds\<close>

definition tracked :: "'w http \<Rightarrow> ('w \<Rightarrow> json list) \<Rightarrow> string \<Rightarrow> string \<Rightarrow> int \<Rightarrow> string \<Rightarrow> db \<times> 'w \<Rightarrow> bool" where
  "tracked ht view rid repo n m s \<longleftrightarrow>
     (\<exists>r. get_run (fst s) rid = Some r \<and> r_repo_full_name r = repo \<and> r_pull_request_number r = n \<and>
        slot_marker (find_slot (fst s) rid) = m \<and> sole m (r_summary_comment_id r) (seen_in ht view (snd s)))"

text \<open>A reference of the run whose recorded hash is that of a text\<close>

definition recorded_as :: "env \<Rightarrow> string \<Rightarrow> string \<Rightarrow> db \<Rightarrow> comment_ref \<Rightarrow> bool" where
  "recorded_as e rid text db ref \<longleftrightarrow>
     ref \<in> set (comment_refs db) \<and> cr_review_run_id ref = Some rid \<and> cr_comment_type ref = ''summary'' \<and>
     cr_last_published_body_hash ref = Some (sha256 e text)"

lemma existing_recorded:
  "existing_summary_ref_with_body e rid text db = Inr (Some ref) \<Longrightarrow> recorded_as e rid text db ref"
  by (auto simp: existing_summary_ref_with_body_def scalar_one_or_none_def recorded_as_def summary_refs_def body_hash_def
      filter_eq_Cons_iff split: list.splits)

lemma publish_summary_tracked:
  assumes "github_host ht c repo n view" and "tracked ht view rid repo n m s"
    and "publish_github_summary_comment ht c e rid status stats s = Some (s', r)"
  shows "tracked ht view rid repo n m s' \<and> tracked ht view rid repo n m (fst s, snd s') \<and>
     (\<forall>ref. r = Inr (Some ref) \<longrightarrow>
        s' = s \<and> recorded_as e rid (build_summary_comment_body (the_run (fst s) rid) status stats (find_slot (fst s) rid)) (fst s) ref \<or>
        filter (holds_marker m) (seen_in ht view (snd s')) =
          [(cr_provider_comment_id ref,
            Some (build_summary_comment_body (the_run (fst s) rid) status stats (find_slot (fst s) rid)))])"
proof -
  obtain db w where s: "s = (db, w)" by fastforce
  obtain run where run: "get_run db rid = Some run" "r_repo_full_name run = repo" "r_pull_request_number run = n"
      "slot_marker (find_slot db rid) = m" "sole m (r_summary_comment_id run) (seen_in ht view w)"
    using assms(2) by (auto simp: tracked_def s)
  have the_run: "the_run db rid = run" using run(1) by (simp add: the_run_def)
  define body where "body = build_summary_comment_body run status stats (find_slot db rid)"
  have body: "body \<noteq> []" "contains body m" using body_holds_marker run(4) unfolding body_def by blast+
  obtain w1 r1 where u: "upsert_github_issue_comment ht c run body m w = Some (w1, r1)"
      "sole m (r_summary_comment_id run) (seen_in ht view w1)"
      "\<forall>cid. r1 = Inr cid \<longrightarrow> filter (holds_marker m) (seen_in ht view w1) = [(cid, Some body)] \<and> distinct (map fst (seen_in ht view w1))"
    using upsert_sole[OF github_comments[OF assms(1)] run(5) body] run(2,3)
    unfolding upsert_github_issue_comment_def by blast
  have keep: "tracked ht view rid repo n m (db, w1)" using run u(2) by (auto simp: tracked_def)
  consider (same) "s' = s" "\<forall>ref. r = Inr (Some ref) \<longrightarrow> recorded_as e rid body db ref" | (denied) x where "s' = (note_denied rid x db, w1)" "r = Inr None"
    | (failed) x where "s' = (db, w1)" "r = Inl x"
    | (bound) cid ref db2 where "r1 = Inr cid" "upsert_summary_comment_ref e rid cid body (find_slot db rid) db = (db2, Inr ref)"
        "s' = (db2, w1)" "r = Inr (Some ref)"
  proof -
    consider "s' = s" "\<forall>ref. r = Inr (Some ref) \<longrightarrow> recorded_as e rid body db ref" | "Some (s', r) = (case r1 of Inl (ClientError x) \<Rightarrow> Some ((note_denied rid x db, w1), Inr None)
         | Inl x \<Rightarrow> Some ((db, w1), Inl x)
         | Inr cid \<Rightarrow> io_bind (on_db (upsert_summary_comment_ref e rid cid body (find_slot db rid))) (\<lambda>c. io_return (Some c)) (db, w1))"
      using assms(3) u(1) run(4)
      by (auto simp: publish_github_summary_comment_def publish_summary_def s the_run body_def Let_def on_host_def
          split: sum.splits option.splits client_failure.splits dest: existing_recorded)
    then show thesis
    proof cases
      case 2
      show thesis
      proof (cases r1)
        case (Inl x)
        then show thesis using 2 denied failed by (cases x) auto
      next
        case (Inr cid)
        obtain db2 q where q: "upsert_summary_comment_ref e rid cid body (find_slot db rid) db = (db2, q)" by fastforce
        have "q = Inl x \<Longrightarrow> db2 = db" for x
          using q by (auto simp: upsert_summary_comment_ref_def Let_def split: sum.splits if_splits option.splits)
        then show thesis using 2 Inr q failed bound by (cases q) (auto simp: io_bind_def on_db_def)
      qed
    qed (use same in blast)
  qed
  then show ?thesis
  proof cases
    case same
    then show ?thesis using assms(2) by (auto simp: s body_def the_run)
  next
    case (denied x)
    have "get_run (note_denied rid x db) rid = Some (run\<lparr>r_failure_code := Some ''provider_permission_denied'', r_error := Some x\<rparr>)"
      using run(1) by (simp add: note_denied_def get_run_upd)
    moreover have "find_slot (note_denied rid x db) rid = find_slot db rid" by (simp add: note_denied_def find_slot_def)
    ultimately have "tracked ht view rid repo n m s'" using run u(2) by (auto simp: tracked_def denied(1))
    then show ?thesis using keep denied by (simp add: s)
  next
    case (failed x)
    then show ?thesis using keep by (simp add: s)
  next
    case (bound cid ref db2)
    have f: "filter (holds_marker m) (seen_in ht view w1) = [(cid, Some body)]" "distinct (map fst (seen_in ht view w1))"
      using u(3) bound(1) by blast+
    note after = upsert_ref_run[OF bound(2) run(1)]
    have "sole m (Some cid) (seen_in ht view w1)" by (rule sole_one[OF f(2,1)]) simp
    then have "tracked ht view rid repo n m s'" using after run by (auto simp: tracked_def bound(3))
    then show ?thesis using keep after f(1) bound by (simp add: s the_run body_def)
  qed
qed

lemma attempts_tracked:
  assumes "github_host ht c repo n view"
  shows "preserved (attempt_summary ht c rid) (tracked ht view rid repo n m)"
proof
  fix a s assume "tracked ht view rid repo n m s"
  note step = publish_summary_tracked[OF assms this]
  show "tracked ht view rid repo n m (attempt_summary ht c rid a s)"
  proof (cases "publish_github_summary_comment ht c (sa_env a) rid (sa_status a) (sa_stats a) s")
    case None
    then show ?thesis using \<open>tracked ht view rid repo n m s\<close> by (simp add: attempt_summary_def)
  next
    case (Some x)
    obtain s' r where x: "x = (s', r)" by fastforce
    have "tracked ht view rid repo n m s' \<and> tracked ht view rid repo n m (fst s, snd s')"
      using step[OF Some[unfolded x]] by blast
    then show ?thesis using Some x by (simp add: attempt_summary_def)
  qed
qed


lemma sample_comment: "comment_of sample_http (sample_item x) = Some (fst x, Some (snd x))"
  by (simp add: comment_of_def sample_item_def obj_get_def jget_def dget_def)

lemma sample_seen: "seen_in sample_http (map sample_item) w = map (\<lambda>x. (fst x, Some (snd x))) w"
  by (simp add: seen_in_def sample_comment comp_def)

lemma sample_fresh: "sample_new_id w \<notin> fst ` set w"
proof
  assume "sample_new_id w \<in> fst ` set w"
  then obtain x where x: "x \<in> set w" "fst x = sample_new_id w" by auto
  have "length (fst x) \<in> set (map (\<lambda>x. length (fst x)) w)" using x(1) by simp
  then have "length (fst x) \<le> sum_list (map (\<lambda>x. length (fst x)) w)" by (intro member_le_sum_list) auto
  then show False using x(2) by (simp add: sample_new_id_def)
qed

lemma sample_sends:
  "send sample_http b ''GET'' path None (page_params p) hs w = (w, Answer (JList (page_of p (map sample_item w))))"
  "send sample_http b ''POST'' path (body_json t) ps hs w =
     (w @ [(sample_new_id w, t)], Answer (JObj [(''id'', JStr (sample_new_id w))]))"
  "send sample_http b ''PATCH'' (repo_path ''o/r'' @ ''/issues/comments/'' @ i) (body_json t) ps hs w =
     (if i \<in> fst ` set w
      then (map (\<lambda>x. if fst x = i then (i, t) else x) w, Answer (JObj [(''id'', JStr i)])) else (w, Refused 404))"
  "app_token sample_http repo w = (w, Inr None)"
  by (simp_all add: sample_http_def page_params_def dict_get_def or_else_def Let_def sent_body_def body_json_def obj_get_def
      jget_def dget_def py_str_def)

lemma sample_answered: "answered_id (Answer (JObj [(''id'', JStr i)])) = Some i" "answered_id (Refused k) = None"
  by (simp_all add: answered_id_def id_of_response_def item_at_def dget_def py_str_def)

lemma sample_host: "github_host sample_http sample_github ''o/r'' 1 (map sample_item)"
proof -
  have "answers_pages sample_http b path (map sample_item)" for b path
    by (simp add: answers_pages_def sample_sends)
  moreover have "answers_posts sample_http b path (map sample_item)" for b path
    using sample_fresh by (simp add: answers_posts_def sample_seen sample_sends sample_answered image_image)
  moreover have "answers_patches sample_http b (repo_path ''o/r'' @ ''/issues/comments/'') (map sample_item)" for b
    unfolding answers_patches_def append_assoc sample_sends(3)
    by (auto simp: sample_seen sample_answered rewritten_def image_image)
  ultimately show ?thesis
    by (simp add: github_host_def sample_comment list_all_iff sample_sends)
qed

definition summary_db :: db where
  "summary_db = empty_db\<lparr>tasks := [new_task ''r1'' ''review'' 0], runs := [new_run ''r1'' ''github'' ''o/r'' 1 ''head''],
     slots := [new_slot ''s1'' 0 ''r1'' ''github'' ''o/r'' 1 ''head'' ''review-orchestrator:summary:slot:s1'']\<rparr>"

definition sample_attempt :: "bool \<Rightarrow> summary_attempt" where
  "sample_attempt breaks = \<lparr>sa_env = sample_env 5, sa_status = ''running'', sa_stats = None, sa_breaks_off = breaks\<rparr>"

lemma case_published:
  "(case x of Some (s, Inr (Some ref)) \<Rightarrow> Q s | _ \<Rightarrow> False) \<Longrightarrow> \<exists>s ref. x = Some (s, Inr (Some ref)) \<and> Q s"
proof -
  assume q: "case x of Some (s, Inr (Some ref)) \<Rightarrow> Q s | _ \<Rightarrow> False"
  then obtain s r where x: "x = Some (s, r)" by (cases x) auto
  show ?thesis
  proof (cases r)
    case (Inr c)
    then show ?thesis using q x by (cases c) auto
  qed (use q x in simp)
qed


text \<open>
  The recorded hash need not be that of the comment: an update that breaks off before the database knows of it leaves the
  old hash behind, and publishing the old text again then finds nothing to do.
\<close>

lemma broken_off_update_hides_itself:
  "let publish = (\<lambda>status. publish_github_summary_comment sample_http sample_github (sample_env 6) ''r1'' status None);
       tries = fold (attempt_summary sample_http sample_github ''r1'')
         [sample_attempt False, (sample_attempt True)\<lparr>sa_status := ''done''\<rparr>] (summary_db, [])
   in case (publish ''running'' tries, tries) of
        (Some (s, Inr (Some ref)), (db, [(i, text)])) \<Rightarrow>
          snd s = [(i, text)] \<and> text = build_summary_comment_body (the_run db ''r1'') ''done'' None (find_slot db ''r1'') \<and>
          text \<noteq> build_summary_comment_body (the_run db ''r1'') ''running'' None (find_slot db ''r1'')
      | _ \<Rightarrow> False"
  by code_simp

section \<open>Line comments\<close>

definition settled_lines :: "string \<Rightarrow> db \<Rightarrow> bool" where
  "settled_lines fid db \<longleftrightarrow> (\<exists>c. existing_line_ref fid db = Inr (Some c))"

lemma scalar_Some: "scalar_one_or_none xs = Inr (Some x) \<longleftrightarrow> xs = [x]"
  by (auto simp: scalar_one_or_none_def split: list.splits)

lemma scalar_None: "scalar_one_or_none xs = Inr None \<longleftrightarrow> xs = []"
  by (auto simp: scalar_one_or_none_def split: list.splits)

lemma note_denied_frame [simp]:
  "comment_refs (note_denied rid m db) = comment_refs db" "findings (note_denied rid m db) = findings db"
  "outbox (note_denied rid m db) = outbox db" "drawn (note_denied rid m db) = drawn db"
  by (simp_all add: note_denied_def)

text \<open>What handling one finding does: the database keeps its findings and gains at most a reference to the finding.\<close>

lemma line_comment_effect:
  assumes "line_comment poster e rid files f (db, w) = Some ((db', w'), Inr k)"
  obtains (summary) "\<not> may_comment files f" "k = ''summary_only''" "db' = db" "w' = w"
  | (known) "may_comment files f" "k = ''deduped''" "db' = db" "w' = w" "settled_lines (f_id f) db"
  | (failed) "may_comment files f" "k = ''failed''" "comment_refs db' = comment_refs db" "findings db' = findings db"
      "outbox db' = outbox db" "drawn db' = drawn db"
  | (published) c where "may_comment files f" "k = ''published''" "comment_refs db' = comment_refs db @ [c]"
      "cr_finding_id c = Some (f_id f)" "settled_lines (f_id f) db'" "findings db' = findings db"
      "outbox db' = outbox db" "drawn db \<le> drawn db'"
proof (cases "may_comment files f")
  case False
  then show ?thesis using assms summary by (simp add: line_comment_def)
next
  case True
  show ?thesis
  proof (cases "existing_line_ref (f_id f) db")
    case (Inl x)
    then show ?thesis using assms True by (simp add: line_comment_def)
  next
    case (Inr found)
    show ?thesis
    proof (cases found)
      case (Some c)
      then show ?thesis using assms True Inr known by (auto simp: line_comment_def settled_lines_def)
    next
      case None
      then have none: "existing_line_ref (f_id f) db = Inr None" using Inr by simp
      obtain w1 r1 where po: "poster (the_run db rid) f w = Some (w1, r1)"
        using assms True none by (auto simp: line_comment_def on_host_def split: option.splits)
      show ?thesis
      proof (cases r1)
        case (Inl x)
        then show ?thesis
          using assms True none po failed by (cases x) (auto simp: line_comment_def on_host_def)
      next
        case (Inr cid)
        let ?c = "(new_comment_ref (next_id e db) (now e) (r_provider (the_run db rid)) (r_repo_full_name (the_run db rid))
            (r_pull_request_number (the_run db rid)) ''line'' cid)
            \<lparr>cr_review_run_id := Some rid, cr_finding_id := Some (f_id f),
             cr_last_published_body_hash := Some (body_hash e (line_comment_body f))\<rparr>"
        have *: "db' = add_ref ?c db" "k = ''published''"
          using assms True none po Inr
          by (auto simp: line_comment_def on_host_def io_bind_def on_db_def ensure_line_comment_ref_def Let_def split: if_splits)
        have "settled_lines (f_id f) db'"
          using none by (simp add: settled_lines_def existing_line_ref_def scalar_None scalar_Some * add_ref_def draw_def new_comment_ref_def)
        then show ?thesis
          using True by (intro published[of ?c]) (simp_all add: * add_ref_def draw_def)
      qed
    qed
  qed
qed

text \<open>A finding that is settled stays so while other findings are handled.\<close>

lemma line_comment_settled:
  assumes "line_comment poster e rid files f (db, w) = Some ((db', w'), Inr k)" and "settled_lines i db"
  shows "settled_lines i db'"
  using assms(1)
proof (cases rule: line_comment_effect)
  case (published c)
  then show ?thesis
    using assms(2) by (cases "i = f_id f") (auto simp: settled_lines_def existing_line_ref_def)
qed (use assms(2) in \<open>auto simp: settled_lines_def existing_line_ref_def\<close>)

definition count_of :: "string \<Rightarrow> (string \<times> int) list \<Rightarrow> int" where
  "count_of k stats = dict_get stats k 0"

lemma count_incr: "count_of k (dict_incr k' m) = count_of k m + (if k = k' then 1 else 0)"
proof -
  have "dict_get (dict_put k' v m) k d = (if k = k' then v else dict_get m k d)" for v d
    by (induction m) (auto simp: dict_get_def or_else_def)
  then show ?thesis by (simp add: count_of_def dict_incr_def)
qed

lemma line_comment_keeps:
  assumes "line_comment poster e rid files f (db, w) = Some ((db', w'), Inr k)"
  shows "findings db' = findings db \<and> outbox db' = outbox db \<and> drawn db \<le> drawn db'"
  using assms by (cases rule: line_comment_effect) simp_all

definition all_counts :: "(string \<times> int) list \<Rightarrow> int" where
  "all_counts m = count_of ''published'' m + count_of ''summary_only'' m + count_of ''deduped'' m + count_of ''failed'' m"

lemma line_comments_run:
  assumes "line_comments poster e rid files fs stats (db, w) = Some ((db', w'), Inr stats')"
  shows "all_counts stats' = all_counts stats + int (length fs) \<and>
     count_of ''summary_only'' stats' = count_of ''summary_only'' stats + int (length (filter (\<lambda>f. \<not> may_comment files f) fs)) \<and>
     count_of ''failed'' stats \<le> count_of ''failed'' stats' \<and>
     (count_of ''failed'' stats' = count_of ''failed'' stats \<longrightarrow>
        (\<forall>f \<in> set fs. may_comment files f \<longrightarrow> settled_lines (f_id f) db')) \<and>
     (\<forall>i. settled_lines i db \<longrightarrow> settled_lines i db') \<and> findings db' = findings db"
  using assms
proof (induction fs arbitrary: stats db w)
  case (Cons f fs)
  obtain db1 w1 k where one: "line_comment poster e rid files f (db, w) = Some ((db1, w1), Inr k)"
      and rest: "line_comments poster e rid files fs (dict_incr k stats) (db1, w1) = Some ((db', w'), Inr stats')"
    using Cons.prems by (auto split: option.splits sum.splits)
  note ih = Cons.IH[OF rest]
  note keep = line_comment_keeps[OF one] and settled = line_comment_settled[OF one]
  show ?case
    using one
  proof (cases rule: line_comment_effect)
    case summary
    then show ?thesis using ih by (simp add: all_counts_def count_incr)
  next
    case known
    then show ?thesis using ih by (simp add: all_counts_def count_incr)
  next
    case failed
    then show ?thesis using ih settled keep by (auto simp: all_counts_def count_incr)
  next
    case (published c)
    then show ?thesis using ih settled keep by (auto simp: all_counts_def count_incr)
  qed
qed simp

lemma line_comments_again:
  assumes "\<forall>f \<in> set fs. may_comment files f \<longrightarrow> settled_lines (f_id f) db"
  shows "\<exists>stats'. line_comments poster e rid files fs stats (db, w) = Some ((db, w), Inr stats') \<and>
     count_of ''published'' stats' = count_of ''published'' stats \<and> count_of ''failed'' stats' = count_of ''failed'' stats"
  using assms
proof (induction fs arbitrary: stats)
  case (Cons f fs)
  let ?k = "if may_comment files f then ''deduped'' else ''summary_only''"
  have "line_comment poster e rid files f (db, w) = Some ((db, w), Inr ?k)"
    using Cons.prems by (auto simp: line_comment_def settled_lines_def)
  moreover have "\<forall>f \<in> set fs. may_comment files f \<longrightarrow> settled_lines (f_id f) db" using Cons.prems by simp
  from Cons.IH[OF this, of "dict_incr ?k stats"] obtain stats' where
    "line_comments poster e rid files fs (dict_incr ?k stats) (db, w) = Some ((db, w), Inr stats')"
    "count_of ''published'' stats' = count_of ''published'' stats" "count_of ''failed'' stats' = count_of ''failed'' stats"
    by (auto simp: count_incr)
  ultimately show ?case by auto
qed simp

text \<open>
  C22. Findings are commented once. Publishing the line comments of a review counts every active finding once, as only
  in the summary exactly when its line cannot carry a comment; and when none failed, publishing them again posts
  nothing and changes nothing, neither at the provider nor in the database.
\<close>

theorem findings_are_commented_once:
  assumes "publish_github_line_comments ht c e rid files (db, w) = Some ((db', w'), Inr stats)"
  shows "count_of ''published'' stats + count_of ''summary_only'' stats + count_of ''deduped'' stats + count_of ''failed'' stats =
       int (length (active_findings db rid)) \<and>
     count_of ''summary_only'' stats = int (length (filter (\<lambda>f. \<not> may_comment files f) (active_findings db rid))) \<and>
     (count_of ''failed'' stats = 0 \<longrightarrow>
        (\<exists>stats'. publish_github_line_comments ht c e' rid files (db', w') = Some ((db', w'), Inr stats') \<and>
           count_of ''published'' stats' = 0 \<and> count_of ''failed'' stats' = 0))"
proof -
  have run: "line_comments (post_line_comment ht c) e rid files (active_findings db rid) empty_stats (db, w) = Some ((db', w'), Inr stats)"
    using assms by (simp add: publish_github_line_comments_def)
  note r = line_comments_run[OF run]
  have zero: "all_counts empty_stats = 0" "count_of k empty_stats = 0" for k
    by (simp_all add: all_counts_def count_of_def empty_stats_def dict_get_def or_else_def)
  have same: "active_findings db' rid = active_findings db rid" using r by (simp add: active_findings_def)
  have "\<exists>stats'. publish_github_line_comments ht c e' rid files (db', w') = Some ((db', w'), Inr stats') \<and>
      count_of ''published'' stats' = 0 \<and> count_of ''failed'' stats' = 0" if "count_of ''failed'' stats = 0"
  proof -
    have "\<forall>f \<in> set (active_findings db rid). may_comment files f \<longrightarrow> settled_lines (f_id f) db'" using r that zero by simp
    from line_comments_again[OF this, of "post_line_comment ht c" e' rid empty_stats w']
    show ?thesis by (simp add: publish_github_line_comments_def same zero)
  qed
  then show ?thesis using r zero by (auto simp: all_counts_def)
qed

definition commented_db :: db where
  "commented_db = summary_db
     \<lparr>findings := [(new_finding ''f1'' 0 ''r1'' ''x'' ''a.py'' ''high'' ''m'')\<lparr>f_line_start := Some 3\<rparr>,
                   (new_finding ''f2'' 0 ''r1'' ''y'' ''a.py'' ''low'' ''n'')\<lparr>f_line_start := Some 9\<rparr>]\<rparr>"

definition commented_files :: "changed_file list" where
  "commented_files = [\<lparr>cf_path = ''a.py'', cf_commentable_lines = [2, 3]\<rparr>]"

lemma case_lines:
  "(case x of Some (s, Inr stats) \<Rightarrow> Q s stats | _ \<Rightarrow> False) \<Longrightarrow> \<exists>db w stats. x = Some ((db, w), Inr stats) \<and> Q (db, w) stats"
  by (cases x) (auto split: sum.splits)

theorem findings_are_commented_once_witness:
  "\<exists>db w stats stats'. publish_github_line_comments sample_http sample_github (sample_env 6) ''r1'' commented_files (commented_db, []) =
       Some ((db, w), Inr stats) \<and>
     stats = [(''published'', 1), (''summary_only'', 1), (''deduped'', 0), (''failed'', 0)] \<and>
     publish_github_line_comments sample_http sample_github (sample_env 7) ''r1'' commented_files (db, w) = Some ((db, w), Inr stats') \<and>
     count_of ''published'' stats' = 0"
proof -
  let ?p = "publish_github_line_comments sample_http sample_github (sample_env 6) ''r1'' commented_files (commented_db, [])"
  have "(case ?p of Some (s, Inr stats) \<Rightarrow>
      stats = [(''published'', 1), (''summary_only'', 1), (''deduped'', 0), (''failed'', 0)] | _ \<Rightarrow> False)"
    by code_simp
  from case_lines[OF this] obtain db w stats where
    p: "?p = Some ((db, w), Inr stats)" "stats = [(''published'', 1), (''summary_only'', 1), (''deduped'', 0), (''failed'', 0)]"
    by (elim exE conjE)
  have "count_of ''failed'' stats = 0" by (simp add: p(2) count_of_def dict_get_def or_else_def)
  then show ?thesis using findings_are_commented_once[OF p(1), of "sample_env 7"] p by blast
qed

end
