(* ===== verification/Adapters.thy ===== *)
theory Adapters
  imports Published ProviderApi
begin

text \<open>
  The adapters of \<open>integrations/github.py\<close> and \<open>integrations/gitlab.py\<close> as the outbox calls them
  (\<open>application/delivery.py\<close>): publishing changes runs, slots, references and tasks but never a delivery, and
  it returns whenever the listings it reads have pages.
\<close>

section \<open>Computations that leave the outbox alone\<close>

definition leaves_outbox :: "(db \<times> 'w, 'a) io \<Rightarrow> bool" where
  "leaves_outbox m \<longleftrightarrow>
     (\<forall>s s' r. m s = Some (s', r) \<longrightarrow> outbox (fst s') = outbox (fst s) \<and> drawn (fst s) \<le> drawn (fst s'))"

lemma leavesI:
  "(\<And>db w db' w' r. m (db, w) = Some ((db', w'), r) \<Longrightarrow> outbox db' = outbox db \<and> drawn db \<le> drawn db') \<Longrightarrow> leaves_outbox m"
  by (auto simp: leaves_outbox_def)

lemma leaves_pure [intro]: "leaves_outbox (io_return v)" "leaves_outbox (io_fail x)" "leaves_outbox (io_result q)"
  by (simp_all add: leaves_outbox_def)

lemma leaves_bind [intro]:
  assumes "leaves_outbox m" and "\<And>v. leaves_outbox (f v)"
  shows "leaves_outbox (io_bind m f)"
  unfolding leaves_outbox_def
proof (intro allI impI)
  fix s s' r assume "io_bind m f s = Some (s', r)"
  then consider x where "m s = Some (s', Inl x)" | s1 v where "m s = Some (s1, Inr v)" "f v s1 = Some (s', r)"
    by (auto simp: io_bind_Some)
  then show "outbox (fst s') = outbox (fst s) \<and> drawn (fst s) \<le> drawn (fst s')"
  proof cases
    case 1
    then show ?thesis using assms(1) unfolding leaves_outbox_def by blast
  next
    case (2 s1 v)
    have "outbox (fst s1) = outbox (fst s) \<and> drawn (fst s) \<le> drawn (fst s1)" using assms(1) 2(1) unfolding leaves_outbox_def by blast
    moreover have "outbox (fst s') = outbox (fst s1) \<and> drawn (fst s1) \<le> drawn (fst s')"
      using assms(2)[of v] 2(2) unfolding leaves_outbox_def by blast
    ultimately show ?thesis by simp
  qed
qed

lemma leaves_catch [intro]:
  assumes "leaves_outbox m" and "\<And>x. leaves_outbox (h x)"
  shows "leaves_outbox (io_catch m h)"
  unfolding leaves_outbox_def
proof (intro allI impI)
  fix s s' r assume c: "io_catch m h s = Some (s', r)"
  show "outbox (fst s') = outbox (fst s) \<and> drawn (fst s) \<le> drawn (fst s')"
  proof (cases "\<exists>s1 x. m s = Some (s1, Inl (ClientError x))")
    case True
    then obtain s1 x where m: "m s = Some (s1, Inl (ClientError x))" by blast
    then have "h x s1 = Some (s', r)" using c by (simp add: io_catch_def)
    then have "outbox (fst s') = outbox (fst s1) \<and> drawn (fst s1) \<le> drawn (fst s')"
      using assms(2)[of x] unfolding leaves_outbox_def by blast
    moreover have "outbox (fst s1) = outbox (fst s) \<and> drawn (fst s) \<le> drawn (fst s1)" using assms(1) m unfolding leaves_outbox_def by blast
    ultimately show ?thesis by simp
  next
    case False
    then have "m s = Some (s', r)"
      using c by (auto simp: io_catch_def split: option.splits sum.splits client_failure.splits)
    then show ?thesis using assms(1) unfolding leaves_outbox_def by blast
  qed
qed

lemma leaves_on_host [intro]: "leaves_outbox (on_host m)"
  by (rule leavesI) (auto simp: on_host_def split: option.splits)

lemma leaves_adapter:
  "(\<And>c. leaves_outbox (f c)) \<Longrightarrow> leaves_outbox (with_operation_error name op (with_github p op f))"
  "(\<And>c. leaves_outbox (g c)) \<Longrightarrow> leaves_outbox (with_operation_error name op (with_gitlab q op g))"
  unfolding with_operation_error_def with_github_def with_gitlab_def by (intro leaves_catch leaves_bind leaves_pure; simp)+

lemma upsert_ref_quiet:
  assumes "upsert_summary_comment_ref e rid cid body slot db = (db', r)"
  shows "outbox db' = outbox db \<and> drawn db \<le> drawn db'"
proof -
  have "outbox (add_ref c db) = outbox db \<and> drawn db \<le> drawn (add_ref c db)"
    "outbox (put_ref c db) = outbox db \<and> drawn (put_ref c db) = drawn db" for c
    by (simp_all add: add_ref_def put_ref_def draw_def)
  then show ?thesis
    using assms by (auto simp: upsert_summary_comment_ref_def Let_def split: sum.splits if_splits option.splits)
qed

lemma publish_summary_quiet: "leaves_outbox (publish_summary upsert e rid status stats)"
proof (rule leavesI)
  fix db w db' w' r assume p: "publish_summary upsert e rid status stats (db, w) = Some ((db', w'), r)"
  let ?slot = "find_slot db rid"
  let ?body = "build_summary_comment_body (the_run db rid) status stats ?slot"
  consider "db' = db" | x where "db' = note_denied rid x db"
    | cid q where "upsert_summary_comment_ref e rid cid ?body ?slot db = (db', q)"
  proof (cases "existing_summary_ref_with_body e rid ?body db")
    case (Inr found)
    then show ?thesis
      using p that
      by (cases found) (auto simp: publish_summary_def Let_def on_host_def on_db_def io_bind_Some
          split: option.splits sum.splits client_failure.splits prod.splits)
  qed (use p that in \<open>simp add: publish_summary_def Let_def\<close>)
  then show "outbox db' = outbox db \<and> drawn db \<le> drawn db'"
    by cases (simp_all, rule upsert_ref_quiet)
qed

lemma line_comment_quiet:
  assumes "line_comment poster e rid files f (db, w) = Some ((db', w'), r)"
  shows "outbox db' = outbox db \<and> drawn db \<le> drawn db'"
proof (cases r)
  case (Inr k)
  then show ?thesis using line_comment_keeps[OF assms[unfolded Inr]] by blast
next
  case (Inl x)
  then show ?thesis
    using assms by (auto simp: line_comment_def on_host_def io_bind_Some on_db_def ensure_line_comment_ref_def Let_def
        split: option.splits sum.splits if_splits client_failure.splits prod.splits)
qed

lemma line_comments_quiet:
  "line_comments poster e rid files fs stats (db, w) = Some ((db', w'), r) \<Longrightarrow> outbox db' = outbox db \<and> drawn db \<le> drawn db'"
proof (induction fs arbitrary: stats db w)
  case (Cons f fs)
  obtain db1 w1 q where one: "line_comment poster e rid files f (db, w) = Some ((db1, w1), q)"
    using Cons.prems by (auto split: option.splits)
  note first = line_comment_quiet[OF one]
  show ?case
  proof (cases q)
    case (Inl x)
    then show ?thesis using Cons.prems one first by simp
  next
    case (Inr k)
    then have "line_comments poster e rid files fs (dict_incr k stats) (db1, w1) = Some ((db', w'), r)" using Cons.prems one by simp
    then show ?thesis using Cons.IH first by fastforce
  qed
qed simp

lemma publish_lines_quiet: "leaves_outbox (publish_github_line_comments ht c e rid files)"
  by (rule leavesI) (simp add: publish_github_line_comments_def line_comments_quiet)

lemma publish_agent_quiet: "leaves_outbox (publish_github_agent_task_comment ht c e aid state)"
proof -
  have put: "leaves_outbox (on_db (\<lambda>db. (upd_agent aid (answered_comment e cid digest) db, Inr cid)))" for cid digest
    by (rule leavesI) (auto simp: on_db_def upd_agent_def)
  have answer: "leaves_outbox (io_bind (on_host m) (\<lambda>cid. on_db (\<lambda>db. (upd_agent aid (answered_comment e cid digest) db, Inr cid))))"
    for m :: "('a, string) io" and digest
    by (rule leaves_bind[OF leaves_on_host put])
  show ?thesis
    unfolding leaves_outbox_def
  proof (intro allI impI)
    fix s s' r assume p: "publish_github_agent_task_comment ht c e aid state s = Some (s', r)"
    then consider "s' = s" | m digest where
      "io_bind (on_host m) (\<lambda>cid. on_db (\<lambda>db. (upd_agent aid (answered_comment e cid digest) db, Inr cid))) s = Some (s', r)"
      unfolding publish_github_agent_task_comment_def Let_def by (auto split: if_splits)
    then show "outbox (fst s') = outbox (fst s) \<and> drawn (fst s) \<le> drawn (fst s')"
      using answer unfolding leaves_outbox_def by cases (simp, blast)
  qed
qed

lemma github_adapter_quiet:
  "leaves_outbox (github_adapter_summary ht p e rid status stats)"
  "leaves_outbox (github_adapter_lines ht p e rid files)"
  "leaves_outbox (github_adapter_agent ht p e aid state)"
  unfolding github_adapter_summary_def github_adapter_lines_def github_adapter_agent_def
    publish_github_summary_comment_def
  by (intro leaves_adapter publish_summary_quiet publish_lines_quiet publish_agent_quiet)+

lemma gitlab_adapter_quiet: "leaves_outbox (gitlab_adapter_summary ht q e rid status stats)"
  unfolding gitlab_adapter_summary_def publish_gitlab_summary_comment_def by (intro leaves_adapter publish_summary_quiet)

text \<open>
  The calls of the outbox are answered by a provider's adapter: at some time, in some state of the provider, with
  the adapter's result. Line comments and agent comments are GitHub's only.
\<close>

definition plain :: "client_failure + 'a \<Rightarrow> err + 'a" where
  "plain r = (case r of Inl (Escaped x) \<Rightarrow> Inl x | Inl (ClientError m) \<Rightarrow> Inl (OtherError m) | Inr v \<Rightarrow> Inr v)"

definition ref_id :: "err + comment_ref option \<Rightarrow> err + string option" where
  "ref_id r = (case r of Inl x \<Rightarrow> Inl x | Inr c \<Rightarrow> Inr (map_option cr_provider_comment_id c))"

definition answers_call :: "(env \<Rightarrow> (db \<times> 'w, 'a) io) \<Rightarrow> (err + 'a \<Rightarrow> 'b) \<Rightarrow> (db \<Rightarrow> db \<times> 'b) \<Rightarrow> bool" where
  "answers_call adapter result call \<longleftrightarrow>
     (\<forall>db. \<exists>e w w' r. adapter e (db, w) = Some ((fst (call db), w'), r) \<and> snd (call db) = result (plain r))"

definition answered_by :: "'w http \<Rightarrow> github_platform \<Rightarrow> gitlab_platform \<Rightarrow> adapter_calls \<Rightarrow> bool" where
  "answered_by ht p q calls \<longleftrightarrow>
     (\<forall>name rid status stats.
        answers_call (\<lambda>e. github_adapter_summary ht p e rid status stats) ref_id (publish_summary_comment calls name rid status stats) \<or>
        answers_call (\<lambda>e. gitlab_adapter_summary ht q e rid status stats) ref_id (publish_summary_comment calls name rid status stats)) \<and>
     (\<forall>name rid files.
        answers_call (\<lambda>e. github_adapter_lines ht p e rid files) (\<lambda>r. r) (publish_line_comments calls name rid files)) \<and>
     (\<forall>name aid state.
        answers_call (\<lambda>e. github_adapter_agent ht p e aid state) (\<lambda>r. r) (publish_agent_task_comment calls name aid state))"

lemma answers_call_keeps:
  assumes "answers_call adapter result call" and "\<And>e. leaves_outbox (adapter e)" and "rows_since rows n db"
  shows "rows_since rows n (fst (call db))"
proof -
  obtain e w w' r where "adapter e (db, w) = Some ((fst (call db), w'), r)" using assms(1) unfolding answers_call_def by blast
  then have "outbox (fst (call db)) = outbox db \<and> drawn db \<le> drawn (fst (call db))"
    using assms(2)[of e] unfolding leaves_outbox_def by fastforce
  then show ?thesis using assms(3) by (simp add: rows_since_def)
qed

lemma answered_quiet:
  assumes "answered_by ht p q calls"
  shows "calls_quiet calls"
proof -
  note by_github = answers_call_keeps[OF _ github_adapter_quiet(1)] and by_gitlab = answers_call_keeps[OF _ gitlab_adapter_quiet]
  have "rows_since rows n (fst (publish_summary_comment calls name rid status stats db))"
    if "rows_since rows n db" for rows n name rid status stats db
  proof -
    consider "answers_call (\<lambda>e. github_adapter_summary ht p e rid status stats) ref_id (publish_summary_comment calls name rid status stats)"
      | "answers_call (\<lambda>e. gitlab_adapter_summary ht q e rid status stats) ref_id (publish_summary_comment calls name rid status stats)"
      using assms unfolding answered_by_def by blast
    then show ?thesis by cases (erule by_github[OF _ that], erule by_gitlab[OF _ that])
  qed
  moreover have "rows_since rows n (fst (publish_line_comments calls name rid files db))"
    if "rows_since rows n db" for rows n name rid files db
  proof -
    have "answers_call (\<lambda>e. github_adapter_lines ht p e rid files) (\<lambda>r. r) (publish_line_comments calls name rid files)"
      using assms unfolding answered_by_def by blast
    then show ?thesis by (rule answers_call_keeps[OF _ github_adapter_quiet(2) that])
  qed
  moreover have "rows_since rows n (fst (publish_agent_task_comment calls name aid state db))"
    if "rows_since rows n db" for rows n name aid state db
  proof -
    have "answers_call (\<lambda>e. github_adapter_agent ht p e aid state) (\<lambda>r. r) (publish_agent_task_comment calls name aid state)"
      using assms unfolding answered_by_def by blast
    then show ?thesis by (rule answers_call_keeps[OF _ github_adapter_quiet(3) that])
  qed
  ultimately show ?thesis by (simp add: calls_quiet_def calls_keep_def)
qed

section \<open>Adapters that return\<close>

text \<open>
  A provider that lists its pages, whatever the path, makes every publication return; then the adapter is a set of
  total calls.
\<close>

definition io_returns :: "('s, 'a) io \<Rightarrow> bool" where
  "io_returns m \<longleftrightarrow> (\<forall>s. m s \<noteq> None)"

lemma returns_intros [intro]:
  "io_returns (io_return v)" "io_returns (io_fail x)" "io_returns (io_result r)" "io_returns (io_lift f)"
  "io_returns (on_db g)"
  "io_returns m \<Longrightarrow> io_returns (on_host m)"
  by (auto simp: io_returns_def on_db_def on_host_def split: option.splits sum.splits prod.splits)

lemma returns_bind [intro]: "io_returns m \<Longrightarrow> (\<And>v. io_returns (k v)) \<Longrightarrow> io_returns (io_bind m k)"
  by (auto simp: io_returns_def io_bind_def split: option.splits sum.splits)

lemma returns_catch [intro]: "io_returns m \<Longrightarrow> (\<And>x. io_returns (h x)) \<Longrightarrow> io_returns (io_catch m h)"
  by (auto simp: io_returns_def io_catch_def split: option.splits sum.splits client_failure.splits)

definition github_listings :: "'w http \<Rightarrow> github_client \<Rightarrow> bool" where
  "github_listings ht c \<longleftrightarrow>
     (\<forall>path repo. \<exists>view. lists_pages view (\<lambda>p. github_request ht c ''GET'' path None (page_params p) repo))"

lemma github_paginate_returns: "github_listings ht c \<Longrightarrow> io_returns (github_paginate ht c path repo)"
  unfolding io_returns_def
proof
  fix w assume "github_listings ht c"
  then obtain view where "lists_pages view (\<lambda>p. github_request ht c ''GET'' path None (page_params p) repo)"
    unfolding github_listings_def by blast
  from pages_complete[OF this order_refl, of "''GitHub response for '' @ path @ '' is not a list.''" "[]" w]
  show "github_paginate ht c path repo w \<noteq> None" unfolding github_paginate_def by (elim exE conjE) simp
qed

lemma github_comments_return:
  assumes "github_listings ht c"
  shows "io_returns (list_issue_comments ht c repo n)" "io_returns (create_issue_comment ht c repo n b)"
    "io_returns (update_issue_comment ht c repo i b)" "io_returns (create_review_comment ht c repo n b commit path line)"
  using github_paginate_returns[OF assms]
  unfolding list_issue_comments_def create_issue_comment_def update_issue_comment_def create_review_comment_def by blast+

lemma upsert_marked_returns:
  assumes "io_returns list" and "\<And>b. io_returns (create b)" and "\<And>i b. io_returns (update i b)"
  shows "io_returns (upsert_marked list create update known body marker)"
  unfolding upsert_marked_def using assms by (auto split: option.splits)

lemma publish_summary_returns:
  assumes "\<And>r b m. io_returns (upsert r b m)"
  shows "io_returns (publish_summary upsert e rid status stats)"
proof -
  have "publish_summary upsert e rid status stats s \<noteq> None" for s
  proof -
    have "on_host (upsert r b m) s \<noteq> None" for r b m using assms by (auto simp: io_returns_def on_host_def split: option.splits)
    then obtain db1 w1 q where h: "on_host (upsert (the_run (fst s) rid)
        (build_summary_comment_body (the_run (fst s) rid) status stats (find_slot (fst s) rid)) (slot_marker (find_slot (fst s) rid))) s =
        Some ((db1, w1), q)" by fastforce
    have b: "io_bind (on_db g) (\<lambda>c. io_return (Some c)) s1 \<noteq> None" for g :: "db \<Rightarrow> db \<times> (err + comment_ref)" and s1 :: "db \<times> 'a"
      by (auto simp: io_bind_def on_db_def split: option.splits sum.splits prod.splits)
    show ?thesis
    proof (cases "existing_summary_ref_with_body e rid
        (build_summary_comment_body (the_run (fst s) rid) status stats (find_slot (fst s) rid)) (fst s)")
      case (Inr found)
      then show ?thesis
        using h b by (cases found; cases q) (simp_all add: publish_summary_def Let_def split: client_failure.split)
    qed (simp add: publish_summary_def Let_def)
  qed
  then show ?thesis by (simp add: io_returns_def)
qed

lemma line_comments_return:
  assumes "\<And>r f. io_returns (poster r f)"
  shows "io_returns (line_comments poster e rid files fs stats)"
proof -
  have one: "line_comment poster e rid files f s \<noteq> None" for f s
  proof -
    have "on_host (poster r f) s \<noteq> None" for r using assms by (auto simp: io_returns_def on_host_def split: option.splits)
    then obtain s1 q where h: "on_host (poster (the_run (fst s) rid) f) s = Some (s1, q)" by fastforce
    have "io_bind (on_db g) (\<lambda>(c, created). io_return (if created then a else b)) s1 \<noteq> None"
      for g :: "db \<Rightarrow> db \<times> (err + comment_ref \<times> bool)" and a b :: string
      by (auto simp: io_bind_def on_db_def split: option.splits sum.splits prod.splits)
    with h show ?thesis
      unfolding line_comment_def by (cases s1; cases q) (auto split: option.splits sum.splits client_failure.splits)
  qed
  have "line_comments poster e rid files fs stats s \<noteq> None" for s
  proof (induction fs arbitrary: stats s)
    case (Cons f fs)
    obtain s1 q where "line_comment poster e rid files f s = Some (s1, q)" using one[of f s] by fastforce
    then show ?case using Cons.IH by (cases q) simp_all
  qed simp
  then show ?thesis by (simp add: io_returns_def)
qed

lemma publish_agent_returns:
  assumes "github_listings ht c"
  shows "io_returns (publish_github_agent_task_comment ht c e aid state)"
proof -
  note r = github_comments_return[OF assms]
  have "io_returns (case a of Some i \<Rightarrow> update_issue_comment ht c repo i body
      | None \<Rightarrow> io_bind (list_issue_comments ht c repo n) (\<lambda>cs. case first_row (holds_marker m) cs of
            Some x \<Rightarrow> update_issue_comment ht c repo (fst x) body | None \<Rightarrow> create_issue_comment ht c repo n body))" for a repo body n m
    using r by (auto split: option.splits)
  then have "io_returns (io_bind (on_host (case a of Some i \<Rightarrow> update_issue_comment ht c repo i body
      | None \<Rightarrow> io_bind (list_issue_comments ht c repo n) (\<lambda>cs. case first_row (holds_marker m) cs of
            Some x \<Rightarrow> update_issue_comment ht c repo (fst x) body | None \<Rightarrow> create_issue_comment ht c repo n body))) k)"
    if "\<And>v. io_returns (k v)" for a repo body n m and k :: "string \<Rightarrow> (db \<times> 'a, string) io"
    using that by blast
  note this[OF returns_intros(5)]
  then show ?thesis
    unfolding io_returns_def publish_github_agent_task_comment_def Let_def by simp
qed

lemma adapter_returns: "(\<And>c. gp_client p = Some c \<Longrightarrow> io_returns (f c)) \<Longrightarrow> io_returns (with_operation_error name op (with_github p op f))"
  unfolding with_operation_error_def with_github_def
  by (intro returns_catch returns_intros)
    (auto simp: github_require_client_def io_returns_def io_bind_def split: option.splits)

text \<open>The adapter, used in one state of the provider\<close>

definition call_of :: "(db \<times> 'w, 'a) io \<Rightarrow> (err + 'a \<Rightarrow> 'b) \<Rightarrow> 'w \<Rightarrow> db \<Rightarrow> db \<times> 'b" where
  "call_of m result w db = (case the (m (db, w)) of (s, r) \<Rightarrow> (fst s, result (plain r)))"

definition github_calls :: "'w http \<Rightarrow> github_platform \<Rightarrow> env \<Rightarrow> 'w \<Rightarrow> adapter_calls" where
  "github_calls ht p e w =
     \<lparr>publish_summary_comment = (\<lambda>name rid status stats. call_of (github_adapter_summary ht p e rid status stats) ref_id w),
      publish_line_comments = (\<lambda>name rid files. call_of (github_adapter_lines ht p e rid files) (\<lambda>r. r) w),
      publish_agent_task_comment = (\<lambda>name aid state. call_of (github_adapter_agent ht p e aid state) (\<lambda>r. r) w)\<rparr>"

lemma call_of_answers:
  assumes "\<And>e. io_returns (adapter e)"
  shows "answers_call adapter result (call_of (adapter e) result w)"
  unfolding answers_call_def
proof (intro allI exI conjI)
  fix db
  have "adapter e (db, w) \<noteq> None" using assms unfolding io_returns_def by blast
  then obtain s r where s: "adapter e (db, w) = Some (s, r)" by fastforce
  show "adapter e (db, w) = Some ((fst (call_of (adapter e) result w db), snd (fst (the (adapter e (db, w))))), snd (the (adapter e (db, w))))"
    by (cases s) (simp add: s call_of_def)
  show "snd (call_of (adapter e) result w db) = result (plain (snd (the (adapter e (db, w)))))"
    by (simp add: s call_of_def)
qed

lemma github_calls_answered:
  assumes "\<And>c. gp_client p = Some c \<Longrightarrow> github_listings ht c"
  shows "answered_by ht p q (github_calls ht p e w)"
proof -
  have "io_returns (github_adapter_summary ht p e rid status stats)" "io_returns (github_adapter_lines ht p e rid files)"
    "io_returns (github_adapter_agent ht p e aid state)" for e rid status stats files aid state
  proof -
    have upsert: "io_returns (upsert_github_issue_comment ht c r b m)" if "gp_client p = Some c" for c r b m
      unfolding upsert_github_issue_comment_def using github_comments_return[OF assms[OF that]] by (intro upsert_marked_returns)
    show "io_returns (github_adapter_summary ht p e rid status stats)"
      unfolding github_adapter_summary_def publish_github_summary_comment_def
      using upsert by (intro adapter_returns publish_summary_returns)
    have post: "io_returns (post_line_comment ht c r f)" if "gp_client p = Some c" for c r f
      unfolding post_line_comment_def using github_comments_return[OF assms[OF that]] by blast
    show "io_returns (github_adapter_lines ht p e rid files)"
      unfolding github_adapter_lines_def
    proof (rule adapter_returns)
      fix c assume "gp_client p = Some c"
      from line_comments_return[OF post[OF this]]
      show "io_returns (publish_github_line_comments ht c e rid files)"
        by (simp add: io_returns_def publish_github_line_comments_def)
    qed
    show "io_returns (github_adapter_agent ht p e aid state)"
      unfolding github_adapter_agent_def using assms by (intro adapter_returns publish_agent_returns)
  qed
  note all_return = this
  show ?thesis
    unfolding answered_by_def github_calls_def
    unfolding adapter_calls.simps
    by (intro conjI allI disjI1)
      (rule call_of_answers[where adapter = "\<lambda>e. github_adapter_summary ht p e rid status stats" for rid status stats, OF all_return(1)]
        call_of_answers[where adapter = "\<lambda>e. github_adapter_lines ht p e rid files" for rid files, OF all_return(2)]
        call_of_answers[where adapter = "\<lambda>e. github_adapter_agent ht p e aid state" for aid state, OF all_return(3)])+
qed


definition sample_platform :: github_platform where
  "sample_platform = \<lparr>gp_client = Some sample_github, gp_webhook_secret = None\<rparr>"

definition no_gitlab :: gitlab_platform where
  "no_gitlab = \<lparr>lp_client = None, lp_webhook_secret = None\<rparr>"


end
