(* ===== verification/Admin.thy ===== *)
theory Admin
  imports Commands Delivering Adapters
begin

text \<open>
  The operations of \<open>application/services.py\<close> an administrator calls: scheduling of tasks and deliveries, the
  capacity of resource pools, cancelling a command and trying one again.
\<close>

section \<open>Scheduling of a task\<close>

text \<open>\<open>TaskSchedulingUpdate\<close>; the resource context is the dumped dictionary.\<close>

record scheduling_update =
  su_queue :: "string option"
  su_priority :: "int option"
  su_available_at :: "time option"
  su_resource_class :: "string option"
  su_resource_context :: "dict option"

definition is_text :: "json \<Rightarrow> bool" where
  "is_text j = (case j of JStr s \<Rightarrow> True | _ \<Rightarrow> False)"

definition context_value :: "json \<Rightarrow> bool" where
  "context_value j =
     (case j of
        JStr s \<Rightarrow> True
      | JList xs \<Rightarrow> list_all is_text xs
      | JObj kvs \<Rightarrow> (case (jget kvs ''keys'', jget kvs ''units'') of
                     (JList ks, JInt n) \<Rightarrow> ks \<noteq> [] \<and> list_all is_text ks \<and> 0 < n
                   | _ \<Rightarrow> False)
      | _ \<Rightarrow> False)"

definition scheduling_update_fields :: "scheduling_update \<Rightarrow> bool" where
  "scheduling_update_fields u \<longleftrightarrow>
     opt_all (\<lambda>s. 1 \<le> length s \<and> length s \<le> 64) (su_queue u) \<and> opt_all (\<lambda>p. 0 \<le> p \<and> p \<le> 100) (su_priority u) \<and>
     opt_all (\<lambda>s. 1 \<le> length s \<and> length s \<le> 64) (su_resource_class u) \<and>
     opt_all (list_all (context_value \<circ> snd)) (su_resource_context u) \<and>
     \<not> (su_queue u = None \<and> su_priority u = None \<and> su_available_at u = None \<and> su_resource_class u = None \<and>
        su_resource_context u = None)"

definition is_past :: "env \<Rightarrow> time \<Rightarrow> bool" where
  "is_past e t \<longleftrightarrow> t \<le> now e"

definition actively_leased :: "env \<Rightarrow> task \<Rightarrow> bool" where
  "actively_leased e t \<longleftrightarrow>
     t_lock_owner t \<noteq> None \<and> (case t_locked_until t of None \<Rightarrow> False | Some u \<Rightarrow> \<not> is_past e u)"

definition rescheduled :: "scheduling_update \<Rightarrow> time \<Rightarrow> task \<Rightarrow> task" where
  "rescheduled u t0 t =
     t\<lparr>t_queue := or_else (su_queue u) (t_queue t), t_priority := or_else (su_priority u) (t_priority t),
       t_effective_priority := or_else (su_priority u) (t_effective_priority t),
       t_available_at := or_else (su_available_at u) (t_available_at t),
       t_resource_class := or_else (su_resource_class u) (t_resource_class t),
       t_resource_context_json := (if su_resource_context u = None then t_resource_context_json t else su_resource_context u),
       t_updated_at := t0\<rparr>"

text \<open>The task is answered by its summary, a function of its rows; \<open>None\<close> when there is no task.\<close>

definition update_task_scheduling :: "env \<Rightarrow> string \<Rightarrow> scheduling_update \<Rightarrow> db \<Rightarrow> db \<times> (err + string option)" where
  "update_task_scheduling e tid u db =
     (case get_task db tid of
        None \<Rightarrow> (db, Inr None)
      | Some t \<Rightarrow>
          (if t_status t \<in> set terminal_statuses
           then (db, Inl (TransitionError (''Task is already '' @ t_status t @ ''; scheduling cannot be changed.'') 409))
           else if actively_leased e t
           then (db, Inl (TransitionError ''Task scheduling cannot be changed while a worker lease is active.'' 409))
           else (upd_task tid (rescheduled u (now e)) db, Inr (Some tid))))"

section \<open>Resource pools\<close>

record pool_read =
  pr_pool :: resource_pool
  pr_active_units :: int

text \<open>\<open>coalesce(sum(units), 0)\<close> of the unexpired leases of a pool\<close>

definition list_resource_pools :: "env \<Rightarrow> db \<Rightarrow> pool_read list" where
  "list_resource_pools e db =
     map (\<lambda>p. \<lparr>pr_pool = p, pr_active_units = used_units (now e) (p_resource_key p) db\<rparr>)
       (sort_key (\<lambda>p. (p_dimension p, p_resource_key p)) (pools db))"

text \<open>\<open>ResourcePoolUpdate\<close>\<close>

definition pool_update_fields :: "int \<Rightarrow> string option \<Rightarrow> bool" where
  "pool_update_fields capacity dimension \<longleftrightarrow>
     0 < capacity \<and> opt_all (\<lambda>s. 1 \<le> length s \<and> length s \<le> 64) dimension"

definition pool_dimension :: "string \<Rightarrow> string option \<Rightarrow> string" where
  "pool_dimension key dimension =
     (let inferred = fst (partition_at '':'' key)
      in if has_text dimension then the dimension else if inferred \<noteq> [] then inferred else ''custom'')"

definition put_pool :: "resource_pool \<Rightarrow> db \<Rightarrow> db" where
  "put_pool p db =
     db\<lparr>pools := (if get_pool db (p_resource_key p) = None then pools db @ [p]
                  else upd_where (\<lambda>x. p_resource_key x = p_resource_key p) (\<lambda>_. p) (pools db))\<rparr>"

definition set_resource_pool_capacity :: "env \<Rightarrow> string \<Rightarrow> int \<Rightarrow> string option \<Rightarrow> db \<Rightarrow> db \<times> (err + pool_read)" where
  "set_resource_pool_capacity e key capacity dimension db =
     (let answer = (\<lambda>p. (put_pool p db, Inr \<lparr>pr_pool = p, pr_active_units = used_units (now e) key (put_pool p db)\<rparr>))
      in case get_pool db key of
           None \<Rightarrow> answer (new_pool (now e) key (pool_dimension key dimension) capacity)
         | Some p \<Rightarrow>
             (if dimension \<noteq> None \<and> dimension \<noteq> Some (p_dimension p)
              then (db, Inl (TransitionError ''An existing Resource Pool dimension cannot be changed.'' 409))
              else answer (p\<lparr>p_capacity := capacity, p_updated_at := now e\<rparr>)))"

section \<open>Scheduling of a delivery\<close>

record delivery_update =
  du_queue :: "string option"
  du_priority :: "int option"
  du_available_at :: "time option"
  du_max_attempts :: "int option"

definition delivery_update_fields :: "delivery_update \<Rightarrow> bool" where
  "delivery_update_fields u \<longleftrightarrow>
     opt_all (\<lambda>s. 1 \<le> length s \<and> length s \<le> 64) (du_queue u) \<and> opt_all (\<lambda>p. 0 \<le> p \<and> p \<le> 100) (du_priority u) \<and>
     opt_all (\<lambda>n. 0 < n \<and> n \<le> 100) (du_max_attempts u) \<and>
     \<not> (du_queue u = None \<and> du_priority u = None \<and> du_available_at u = None \<and> du_max_attempts u = None)"

definition redirected :: "delivery_update \<Rightarrow> time \<Rightarrow> delivery \<Rightarrow> delivery" where
  "redirected u t0 d =
     d\<lparr>d_queue := or_else (du_queue u) (d_queue d), d_priority := or_else (du_priority u) (d_priority d),
       d_available_at := or_else (du_available_at u) (d_available_at d),
       d_max_attempts := or_else (du_max_attempts u) (d_max_attempts d),
       d_status := ''queued'', d_last_error := (if d_status d = ''failed'' then None else d_last_error d),
       d_lock_owner := None, d_locked_until := None, d_updated_at := t0\<rparr>"

definition update_delivery_scheduling :: "env \<Rightarrow> string \<Rightarrow> delivery_update \<Rightarrow> db \<Rightarrow> db \<times> (err + string option)" where
  "update_delivery_scheduling e did u db =
     (case get_delivery db did of
        None \<Rightarrow> (db, Inr None)
      | Some d \<Rightarrow>
          (if d_status d \<notin> {''queued'', ''failed''}
           then (db, Inl (TransitionError (''Delivery is '' @ d_status d @ ''; scheduling cannot be changed.'') 409))
           else (upd_delivery did (redirected u (now e)) db, Inr (Some did))))"

section \<open>Cancelling a command and trying it again\<close>

definition cancelling :: "task \<Rightarrow> task" where
  "cancelling t = t\<lparr>t_status := ''running'', t_stage := Some ''cancellation_pending''\<rparr>"

definition cancelled_task :: "time \<Rightarrow> task \<Rightarrow> task" where
  "cancelled_task t0 t =
     t\<lparr>t_status := ''cancelled'', t_stage := Some ''cancelled'', t_completed_at := Some t0, t_lock_owner := None,
       t_locked_until := None\<rparr>"

text \<open>The runtime's own error is passed over, any other escapes.\<close>

definition session_error :: "pi_client \<Rightarrow> agent_task \<Rightarrow> err option" where
  "session_error pi a =
     (if has_text (a_agent_session_id a)
      then (case cancel_session pi (the (a_agent_session_id a)) of
              Inl (PiAgentError m status) \<Rightarrow> None
            | Inl x \<Rightarrow> Some x
            | Inr s \<Rightarrow> None)
      else None)"

definition cancel_agent_task ::
  "env \<Rightarrow> adapter_calls \<Rightarrow> registry \<Rightarrow> pi_client \<Rightarrow> string \<Rightarrow> db \<Rightarrow> db \<times> (err + string option)" where
  "cancel_agent_task e calls reg pi tid db =
     (case get_agent db tid of
        None \<Rightarrow> (db, Inr None)
      | Some a \<Rightarrow>
          (if a_task_type a \<noteq> ''message_command''
           then (db, Inl (TransitionError ''Only message-command tasks can be cancelled.'' 409))
           else if t_status (the_task db tid) \<notin> {''queued'', ''running''}
           then (db, Inl (TransitionError (''Agent task cannot be cancelled from status '' @ t_status (the_task db tid) @ ''.'') 409))
           else (let db1 = upd_task tid cancelling db in
                 case session_error pi a of
                   Some x \<Rightarrow> (db1, Inl x)
                 | None \<Rightarrow>
                     (if capability reg (a_provider a) ''agent_task_comments'' = None
                      then (db1, Inl (TransitionError (''Provider '' @ a_provider a @ '' cannot publish agent task comments.'') 503))
                      else (case publish_agent_task_comment calls (a_provider a) tid ''cancelled'' db1 of
                              (db2, Inl x) \<Rightarrow>
                                (upd_agent tid (\<lambda>a. a\<lparr>a_last_publish_error := Some (err_text x)\<rparr>) db2, Inl (TransitionError (err_text x) 503))
                            | (db2, Inr c) \<Rightarrow> (upd_task tid (cancelled_task (now e)) db2, Inr (Some tid)))))))"

definition retried_task :: "task \<Rightarrow> task" where
  "retried_task t =
     t\<lparr>t_status := ''queued'', t_stage := Some ''placeholder_pending'', t_started_at := None, t_completed_at := None,
       t_deadline_at := None, t_lock_owner := None, t_locked_until := None\<rparr>"

definition retried_agent :: "agent_task \<Rightarrow> agent_task" where
  "retried_agent a =
     a\<lparr>a_attempt := a_attempt a + 1, a_agent_start_attempts := 0, a_agent_session_id := None, a_agent_status := None,
       a_result_text := None, a_result_json := None, a_failure_code := None, a_error_message := None,
       a_last_publish_error := None, a_response_body_hash := None, a_soft_timeout_emitted_at := None,
       a_hard_timeout_emitted_at := None\<rparr>"

definition retry_agent_task :: "string \<Rightarrow> db \<Rightarrow> db \<times> (err + string option)" where
  "retry_agent_task tid db =
     (case get_agent db tid of
        None \<Rightarrow> (db, Inr None)
      | Some a \<Rightarrow>
          (if a_task_type a \<noteq> ''message_command''
           then (db, Inl (TransitionError ''Only message-command tasks can be retried.'' 409))
           else if t_status (the_task db tid) \<noteq> ''failed''
           then (db, Inl (TransitionError (''Agent task cannot be retried from status '' @ t_status (the_task db tid) @ ''.'') 409))
           else (upd_agent tid retried_agent (upd_task tid retried_task db), Inr (Some tid))))"

section \<open>Any administration\<close>

datatype admin_op =
    Reschedule string scheduling_update
  | Resize string int "string option"
  | Redirect string delivery_update

fun admin_step :: "env \<Rightarrow> admin_op \<Rightarrow> db \<Rightarrow> db" where
  "admin_step e (Reschedule tid u) db = fst (update_task_scheduling e tid u db)"
| "admin_step e (Resize key capacity dimension) db = fst (set_resource_pool_capacity e key capacity dimension db)"
| "admin_step e (Redirect did u) db = fst (update_delivery_scheduling e did u db)"

fun valid_op :: "admin_op \<Rightarrow> bool" where
  "valid_op (Reschedule tid u) = scheduling_update_fields u"
| "valid_op (Resize key capacity dimension) = pool_update_fields capacity dimension"
| "valid_op (Redirect did u) = delivery_update_fields u"

text \<open>No pool is made smaller than what is leased of it.\<close>

fun leaves_room :: "db \<Rightarrow> admin_op \<Rightarrow> bool" where
  "leaves_room db (Resize key capacity dimension) = (leased_units key db \<le> capacity)"
| "leaves_room db op = True"

definition books_ok :: "db \<Rightarrow> bool" where
  "books_ok db \<longleftrightarrow> pools_ok db \<and> locks_ok db \<and> outbox_ok db \<and> (\<forall>t \<in> set (tasks db). task_check t)"

lemma rescheduled_simps [simp]:
  "t_id (rescheduled u t0 t) = t_id t" "t_lock_owner (rescheduled u t0 t) = t_lock_owner t"
  "t_locked_until (rescheduled u t0 t) = t_locked_until t" "t_status (rescheduled u t0 t) = t_status t"
  by (simp_all add: rescheduled_def)

lemma rescheduled_check:
  "scheduling_update_fields u \<Longrightarrow> task_check t \<Longrightarrow> task_check (rescheduled u t0 t)"
  by (auto simp: scheduling_update_fields_def task_check_def rescheduled_def split: option.splits
      simp del: opt_all_simps simp add: opt_all_def or_else_def)

lemma redirected_simps [simp]:
  "d_id (redirected u t0 d) = d_id d" "d_idempotency_key (redirected u t0 d) = d_idempotency_key d"
  by (simp_all add: redirected_def)

lemma redirected_coherent: "coherent d \<Longrightarrow> coherent (redirected u t0 d)"
  by (simp add: coherent_def redirected_def)

lemma locks_ok_same_locks:
  assumes "locks_ok db" and "\<And>t. t_id (f t) = t_id t \<and> t_lock_owner (f t) = t_lock_owner t \<and> t_locked_until (f t) = t_locked_until t"
  shows "locks_ok (upd_task tid f db)"
  unfolding locks_ok_def
proof (intro conjI ballI)
  show "unique_on t_id (tasks (upd_task tid f db))"
    using assms by (auto simp: locks_ok_def unique_on_upd_where)
  fix l assume "l \<in> set (leases (upd_task tid f db))"
  then obtain t u where t: "get_task db (l_task_id l) = Some t" "t_lock_owner t = Some (l_owner l)" "t_locked_until t = Some u" "l_expires_at l \<le> u"
    using assms(1) by (auto simp: locks_ok_def)
  have "get_task (upd_task tid f db) (l_task_id l) = Some (if l_task_id l = tid then f t else t)"
    using t(1) assms(2) by (auto simp: get_task_upd)
  then show "\<exists>t u. get_task (upd_task tid f db) (l_task_id l) = Some t \<and> t_lock_owner t = Some (l_owner l) \<and>
      t_locked_until t = Some u \<and> l_expires_at l \<le> u"
    using t assms(2) by auto
qed

lemma reschedule_effect:
  assumes "books_ok db" and "scheduling_update_fields u"
  shows "books_ok (fst (update_task_scheduling e tid u db))"
proof -
  have "locks_ok (upd_task tid (rescheduled u (now e)) db)" using assms(1) by (intro locks_ok_same_locks) (auto simp: books_ok_def)
  moreover have "\<forall>t \<in> set (tasks (upd_task tid (rescheduled u (now e)) db)). task_check t"
    using assms by (auto simp: books_ok_def set_upd_where rescheduled_check)
  moreover have "outbox_ok (upd_task tid (rescheduled u (now e)) db)" using assms(1) by (simp add: books_ok_def outbox_ok_def)
  moreover have "pools_ok (upd_task tid (rescheduled u (now e)) db)" using assms(1) by (simp add: books_ok_def pools_ok_def)
  ultimately show ?thesis using assms(1) by (simp add: update_task_scheduling_def books_ok_def split: option.splits)
qed

lemma redirect_effect:
  assumes "books_ok db"
  shows "books_ok (fst (update_delivery_scheduling e did u db))"
proof -
  let ?db' = "upd_delivery did (redirected u (now e)) db"
  have "outbox_ok ?db'"
    using assms unfolding books_ok_def
    by (intro outbox_ok_rows[of db ?db' "\<lambda>d. d_id d = did" "redirected u (now e)"]) (auto simp: upd_delivery_def redirected_coherent)
  moreover have "locks_ok ?db' = locks_ok db" by (simp add: locks_ok_def)
  moreover have "pools_ok ?db' = pools_ok db" by (simp add: pools_ok_def)
  ultimately show ?thesis using assms by (simp add: update_delivery_scheduling_def books_ok_def split: option.splits)
qed

lemma put_pool_frame [simp]:
  "leases (put_pool p db) = leases db" "tasks (put_pool p db) = tasks db" "outbox (put_pool p db) = outbox db"
  by (simp_all add: put_pool_def)

lemma put_pool_books:
  assumes "books_ok db" and "0 \<le> p_capacity p"
  shows "books_ok (put_pool p db)"
proof -
  let ?k = "p_resource_key p"
  have keys: "p_resource_key ` set (pools (put_pool p db)) = p_resource_key ` set (pools db) \<union> {?k}"
  proof (cases "get_pool db ?k")
    case (Some q)
    then have q: "q \<in> set (pools db)" "p_resource_key q = ?k" by (auto simp: get_pool_def dest: first_row_SomeD)
    have "map p_resource_key (pools (put_pool p db)) = map p_resource_key (pools db)"
      using Some by (simp add: put_pool_def map_upd_where)
    then have "set (map p_resource_key (pools (put_pool p db))) = set (map p_resource_key (pools db))" by (rule arg_cong)
    moreover have "?k \<in> p_resource_key ` set (pools db)" using q by (metis imageI)
    ultimately show ?thesis by (simp add: insert_absorb)
  qed (simp add: put_pool_def)
  have "unique_on p_resource_key (pools (put_pool p db))"
    using assms(1) by (auto simp: books_ok_def pools_ok_def put_pool_def unique_on_snoc unique_on_upd_where get_pool_def first_row_None)
  moreover have "\<forall>q \<in> set (pools (put_pool p db)). 0 \<le> p_capacity q"
    using assms by (auto simp: books_ok_def pools_ok_def put_pool_def set_upd_where)
  ultimately have "pools_ok (put_pool p db)" using assms(1) keys by (auto simp: books_ok_def pools_ok_def)
  moreover have "locks_ok (put_pool p db) = locks_ok db" by (simp add: locks_ok_def get_task_def)
  moreover have "outbox_ok (put_pool p db) = outbox_ok db" by (simp add: outbox_ok_def)
  ultimately show ?thesis using assms(1) by (simp add: books_ok_def)
qed

lemma resize_eq:
  obtains "fst (set_resource_pool_capacity e key capacity dimension db) = db"
  | p where "fst (set_resource_pool_capacity e key capacity dimension db) = put_pool p db" "p_resource_key p = key" "p_capacity p = capacity"
proof (cases "get_pool db key")
  case None
  then show thesis using that(2)[of "new_pool (now e) key (pool_dimension key dimension) capacity"]
    by (simp add: set_resource_pool_capacity_def Let_def new_pool_def)
next
  case (Some p)
  then have "p_resource_key p = key" by (auto simp: get_pool_def dest: first_row_SomeD)
  then show thesis using that Some by (cases "dimension \<noteq> None \<and> dimension \<noteq> Some (p_dimension p)")
      (auto simp: set_resource_pool_capacity_def Let_def)
qed

lemma put_pool_capacity:
  assumes "capacity_ok db" and "leased_units (p_resource_key p) db \<le> p_capacity p"
  shows "capacity_ok (put_pool p db)"
proof -
  have "leased_units k (put_pool p db) = leased_units k db" for k by (simp add: leased_units_def)
  then show ?thesis using assms by (auto simp: capacity_ok_def put_pool_def set_upd_where)
qed

definition untouchable :: "env \<Rightarrow> task \<Rightarrow> bool" where
  "untouchable e t \<longleftrightarrow> t_status t \<in> set terminal_statuses \<or> actively_leased e t"

lemma untouchable_kept:
  assumes "books_ok db" and "t \<in> set (tasks db)" and "untouchable e t"
  shows "t \<in> set (tasks (admin_step e op db))"
proof (cases op)
  case (Reschedule tid u)
  show ?thesis
  proof (cases "update_task_scheduling e tid u db = (upd_task tid (rescheduled u (now e)) db, Inr (Some tid)) \<and> t_id t = tid")
    case True
    then have "get_task db tid = Some t"
      using assms(1,2) by (auto simp: books_ok_def locks_ok_def get_task_def intro: first_row_unique)
    then have "update_task_scheduling e tid u db = (db, snd (update_task_scheduling e tid u db))"
      using assms(3) by (auto simp: update_task_scheduling_def untouchable_def)
    then show ?thesis using assms(2) Reschedule by (metis admin_step.simps(1) fst_conv)
  next
    case False
    then have "fst (update_task_scheduling e tid u db) = db \<or>
        fst (update_task_scheduling e tid u db) = upd_task tid (rescheduled u (now e)) db \<and> t_id t \<noteq> tid"
      by (auto simp: update_task_scheduling_def split: option.splits if_splits)
    then show ?thesis using assms(2) Reschedule by (auto simp: set_upd_where intro!: image_eqI[of t _ t])
  qed
next
  case (Resize key capacity dimension)
  show ?thesis
    using assms(2) by (cases rule: resize_eq[of e key capacity dimension db]) (simp_all add: Resize)
qed (use assms(2) in \<open>simp add: update_delivery_scheduling_def split: option.splits\<close>)

lemma settled_kept:
  assumes "unique_on d_id (outbox db)" and "d \<in> set (outbox db)" and "d_status d \<notin> {''queued'', ''failed''}"
  shows "d \<in> set (outbox (admin_step e op db))"
proof (cases op)
  case (Redirect did u)
  have "fst (update_delivery_scheduling e did u db) = db \<or>
      fst (update_delivery_scheduling e did u db) = upd_delivery did (redirected u (now e)) db \<and> d_id d \<noteq> did"
    using assms by (auto simp: update_delivery_scheduling_def get_delivery_def first_row_unique split: option.splits)
  then show ?thesis using assms(2) Redirect by (auto simp: upd_delivery_def set_upd_where intro!: image_eqI[of d _ d])
next
  case (Resize key capacity dimension)
  show ?thesis
    using assms(2) by (cases rule: resize_eq[of e key capacity dimension db]) (simp_all add: Resize)
qed (use assms(2) in \<open>simp add: update_task_scheduling_def split: option.splits\<close>)

lemma admin_ids: "unique_on d_id (outbox db) \<Longrightarrow> unique_on d_id (outbox (admin_step e op db))"
  by (cases op) (auto simp: update_task_scheduling_def update_delivery_scheduling_def upd_delivery_def unique_on_upd_where
      set_resource_pool_capacity_def Let_def split: option.splits)

lemma admin_leases [simp]: "leases (admin_step e op db) = leases db"
  by (cases op) (auto simp: update_task_scheduling_def update_delivery_scheduling_def set_resource_pool_capacity_def Let_def
      split: option.splits)

lemma admin_step_books: "books_ok db \<Longrightarrow> valid_op op \<Longrightarrow> books_ok (admin_step e op db)"
proof (cases op)
  case (Resize key capacity dimension)
  assume "books_ok db" "valid_op op"
  then show ?thesis
    by (cases rule: resize_eq[of e key capacity dimension db]) (simp_all add: Resize pool_update_fields_def put_pool_books)
qed (simp_all add: reschedule_effect redirect_effect)

lemma admin_step_capacity: "capacity_ok db \<Longrightarrow> leaves_room db op \<Longrightarrow> capacity_ok (admin_step e op db)"
proof (cases op)
  case (Resize key capacity dimension)
  assume "capacity_ok db" "leaves_room db op"
  then show ?thesis
    by (cases rule: resize_eq[of e key capacity dimension db]) (simp_all add: Resize put_pool_capacity)
qed (auto simp: update_task_scheduling_def update_delivery_scheduling_def capacity_ok_def leased_units_def split: option.splits)

lemma leaves_room_cong: "leases db' = leases db \<Longrightarrow> leaves_room db' op = leaves_room db op"
  by (cases op) (simp_all add: leased_units_def)

text \<open>
  C25. Administration keeps the books: whatever sequence of scheduling changes, resized pools and redirected
  deliveries an administrator sends, pools, locks, priorities and the outbox stay consistent, no lease is touched, and
  neither is a task that has ended or that a worker holds, nor a delivery that is sent, on its way or superseded; and
  if no pool is made smaller than what is leased of it, no pool is over-committed.
\<close>

theorem administration_keeps_the_books:
  assumes "books_ok db" and "list_all valid_op ops" and "unique_on d_id (outbox db)" and "db' = fold (admin_step e) ops db"
  shows "books_ok db' \<and> leases db' = leases db \<and>
     (t \<in> set (tasks db) \<and> untouchable e t \<longrightarrow> t \<in> set (tasks db')) \<and>
     (d \<in> set (outbox db) \<and> d_status d \<notin> {''queued'', ''failed''} \<longrightarrow> d \<in> set (outbox db')) \<and>
     (capacity_ok db \<and> list_all (leaves_room db) ops \<longrightarrow> sched_ok db')"
  using assms
proof (induction ops arbitrary: db)
  case (Cons op ops)
  let ?db1 = "admin_step e op db"
  have books: "books_ok ?db1" using Cons.prems(1,2) by (simp add: admin_step_books)
  have room: "leaves_room ?db1 = leaves_room db" by (intro ext leaves_room_cong) simp
  note ih = Cons.IH[OF books _ admin_ids[OF Cons.prems(3)]]
  have "untouchable e t \<Longrightarrow> t \<in> set (tasks db) \<Longrightarrow> t \<in> set (tasks ?db1)" using untouchable_kept[OF Cons.prems(1)] by blast
  moreover have "d \<in> set (outbox db) \<Longrightarrow> d_status d \<notin> {''queued'', ''failed''} \<Longrightarrow> d \<in> set (outbox ?db1)"
    using settled_kept[OF Cons.prems(3)] by blast
  moreover have "capacity_ok db \<Longrightarrow> leaves_room db op \<Longrightarrow> capacity_ok ?db1" by (rule admin_step_capacity)
  ultimately show ?case using ih Cons.prems(2,4) room by simp
qed (simp add: books_ok_def sched_ok_def)

theorem administration_keeps_the_books_witness:
  "let db' = fold (admin_step (sample_env 9))
       [Reschedule ''b'' \<lparr>su_queue = None, su_priority = Some 90, su_available_at = None, su_resource_class = None, su_resource_context = None\<rparr>,
        Resize ''pr:p'' 3 None] sample_db
   in sched_ok db' \<and> map t_effective_priority (tasks db') = [10, 90, 50] \<and> map p_dimension (pools db') = [''pr'']"
proof -
  let ?ops = "[Reschedule ''b'' \<lparr>su_queue = None, su_priority = Some 90, su_available_at = None, su_resource_class = None, su_resource_context = None\<rparr>,
        Resize ''pr:p'' 3 None]"
  have "books_ok sample_db"
    using sample_db_ok
    by (simp add: books_ok_def sched_ok_def sample_db_def outbox_ok_def empty_db_def sample_task_def new_task_def task_check_def)
  moreover have "list_all valid_op ?ops" by (simp add: scheduling_update_fields_def pool_update_fields_def)
  moreover have "unique_on d_id (outbox sample_db)" by (simp add: sample_db_def empty_db_def)
  ultimately have "capacity_ok sample_db \<and> list_all (leaves_room sample_db) ?ops \<longrightarrow> sched_ok (fold (admin_step (sample_env 9)) ?ops sample_db)"
    using administration_keeps_the_books[of sample_db ?ops _ "sample_env 9", OF _ _ _ refl] by blast
  moreover have "capacity_ok sample_db" using sample_db_ok by (simp add: sched_ok_def)
  moreover have "list_all (leaves_room sample_db) ?ops" by (simp add: leased_units_def sample_db_def empty_db_def)
  moreover have "map t_effective_priority (tasks (fold (admin_step (sample_env 9)) ?ops sample_db)) = [10, 90, 50]" by code_simp
  moreover have "map p_dimension (pools (fold (admin_step (sample_env 9)) ?ops sample_db)) = [''pr'']" by code_simp
  ultimately show ?thesis by (simp only: Let_def simp_thms)
qed

section \<open>Cancelling\<close>

lemma the_task_upd:
  assumes "get_task db tid = Some t" and "\<And>x. t_id (f x) = t_id x"
  shows "get_task (upd_task tid f db) tid = Some (f t)"
  using assms by (simp add: get_task_upd)

text \<open>Publishing the comment of a command leaves its task as it is; the program's adapters do.\<close>

definition leaves_command :: "adapter_calls \<Rightarrow> string \<Rightarrow> bool" where
  "leaves_command calls tid \<longleftrightarrow>
     (\<forall>p i s db. get_task (fst (publish_agent_task_comment calls p i s db)) tid = get_task db tid \<and>
        (get_agent (fst (publish_agent_task_comment calls p i s db)) tid = None \<longleftrightarrow> get_agent db tid = None))"

definition keeps_command :: "string \<Rightarrow> db \<Rightarrow> db \<Rightarrow> bool" where
  "keeps_command tid db db' \<longleftrightarrow> tasks db' = tasks db \<and> (get_agent db' tid = None \<longleftrightarrow> get_agent db tid = None)"

lemma agent_comment_keeps:
  assumes "publish_github_agent_task_comment ht c e aid state s = Some (s', r)"
  shows "keeps_command tid (fst s) (fst s')"
proof -
  have "get_agent (upd_agent aid (answered_comment e cid digest) db) tid = None \<longleftrightarrow> get_agent db tid = None" for cid digest db
    by (simp add: get_agent_upd answered_comment_def)
  then show ?thesis
    using assms unfolding publish_github_agent_task_comment_def Let_def keeps_command_def
    by (auto simp: io_bind_Some on_host_def on_db_def split: if_splits option.splits prod.splits)
qed

lemma agent_adapter_keeps:
  assumes "github_adapter_agent ht p e aid state s = Some (s', r)"
  shows "keeps_command tid (fst s) (fst s')"
proof -
  have inner: "keeps_command tid (fst s1) (fst s2)"
    if "with_github p op (\<lambda>c. publish_github_agent_task_comment ht c e aid state) s1 = Some (s2, q)" for s1 s2 q op
    using that unfolding with_github_def
    by (auto simp: keeps_command_def io_bind_Some io_result_def io_fail_def io_return_def dest!: agent_comment_keeps[where tid = tid]
        split: option.splits sum.splits)
  show ?thesis
    using assms inner unfolding github_adapter_agent_def with_operation_error_def
    by (auto simp: io_catch_def io_fail_def io_return_def split: option.splits sum.splits client_failure.splits prod.splits)
qed

lemma adapters_leave_commands:
  assumes "answered_by ht p q calls"
  shows "leaves_command calls tid"
  unfolding leaves_command_def
proof (intro allI)
  fix name i s db
  let ?db' = "fst (publish_agent_task_comment calls name i s db)"
  have "answers_call (\<lambda>e. github_adapter_agent ht p e i s) (\<lambda>r. r) (publish_agent_task_comment calls name i s)"
    using assms unfolding answered_by_def by blast
  then obtain e w w' r where "github_adapter_agent ht p e i s (db, w) = Some ((?db', w'), r)"
    unfolding answers_call_def by blast
  from agent_adapter_keeps[OF this, of tid] show "get_task ?db' tid = get_task db tid \<and> (get_agent ?db' tid = None \<longleftrightarrow> get_agent db tid = None)"
    by (simp add: get_task_def keeps_command_def)
qed

text \<open>The turn that cancels a command: what may keep it from it, and what it leaves\<close>

definition cancellation_key :: "agent_task \<Rightarrow> string" where
  "cancellation_key a = ''agent-task:'' @ a_id a @ '':comment:cancelled:attempt:'' @ show_int (a_attempt a)"

definition cancellation_payload :: dict where
  "cancellation_payload =
     [(''state'', JStr ''cancelled''), (''final_status'', JStr ''cancelled''), (''final_stage'', JStr ''cancelled'')]"

definition unhindered :: "'h worker \<Rightarrow> agent_task \<Rightarrow> db \<Rightarrow> bool" where
  "unhindered w a db \<longleftrightarrow>
     find_delivery db (cancellation_key a) = None \<and>
     (has_text (a_agent_session_id a) \<longrightarrow>
        (case cancel_session (wk_client w) (the (a_agent_session_id a)) of
           Inl (PiAgentError m status) \<Rightarrow> True
         | Inl x \<Rightarrow> False
         | Inr s \<Rightarrow> length (attempt_rows db (a_id a) (ag_id s)) \<le> 1))"

text \<open>Parked, with a mandatory message whose delivery ends the command as cancelled\<close>

definition being_cancelled :: "agent_task \<Rightarrow> task \<Rightarrow> db \<Rightarrow> bool" where
  "being_cancelled a t db \<longleftrightarrow>
     get_task db (a_id a) = Some (t\<lparr>t_status := ''awaiting_delivery'', t_stage := Some ''cancellation_delivery_pending'',
       t_execution_status := ''cancelled'', t_delivery_status := ''pending''\<rparr>) \<and>
     (\<exists>d \<in> set (outbox db). d_task_id d = a_id a \<and> d_idempotency_key d = cancellation_key a \<and> d_status d = ''queued'' \<and>
        d_mandatory d \<and> d_payload_json d = cancellation_payload \<and>
        (\<forall>t0 u. t_status (task_after_success t0 d True True u) = ''cancelled''))"

lemma cancellation_delivered:
  assumes "d_payload_json d = cancellation_payload" and "d_mandatory d"
  shows "t_status (task_after_success t0 d True True t) = ''cancelled'' \<and>
     t_completed_at (task_after_success t0 d True True t) = Some t0"
proof -
  have "text_field cancellation_payload ''final_status'' = Some ''cancelled''" by code_simp
  then show ?thesis using assms by (simp add: task_after_success_def Let_def)
qed

lemma announced_cancellation:
  assumes "get_agent db tid = Some a" and "get_task db tid = Some t" and "find_delivery db (cancellation_key a) = None"
  obtains db' where "enqueue_agent_task_comment e tid ''cancelled'' True None (Some (''cancelled'', ''cancelled'')) True
      (upd_task tid (parked_command ''cancellation_delivery_pending'' (Some ''cancelled'')) db) = (db', Inr ())"
    and "being_cancelled a t db'"
proof -
  let ?f = "parked_command ''cancellation_delivery_pending'' (Some ''cancelled'')"
  let ?db1 = "upd_task tid ?f db"
  have a: "the_agent ?db1 tid = a" "a_id a = tid" using assms(1) by (auto simp: the_agent_def dest: get_agent_SomeD)
  have t1: "get_task ?db1 tid = Some (?f t)" using assms(2) by (simp add: get_task_upd parked_command_def)
  have "find_delivery ?db1 (cancellation_key a) = None" using assms(3) by (simp add: find_delivery_def)
  then have fresh: "find_delivery ?db1 (''agent-task:'' @ tid @ '':comment:'' @ ''cancelled'' @ '':attempt:'' @ show_int (a_attempt a)) = None"
    using a by (simp add: cancellation_key_def)
  obtain db' where q: "enqueue_agent_task_comment e tid ''cancelled'' True None (Some (''cancelled'', ''cancelled'')) True ?db1 = (db', Inr ())"
    using fresh a by (auto simp: enqueue_agent_task_comment_def enqueue_delivery_def Let_def and_then_def)
  have frame: "get_task (d\<lparr>outbox := x\<rparr>) j = get_task d j" "get_task (draw d) j = get_task d j" for d x j
    by (simp_all add: get_task_def draw_def)
  have "get_task db' tid = Some ((?f t)\<lparr>t_delivery_status := ''pending''\<rparr>)"
    using q fresh a t1 by (auto simp: enqueue_agent_task_comment_def enqueue_delivery_def Let_def and_then_def get_task_upd frame)
  moreover have "\<exists>d \<in> set (outbox db'). d_task_id d = tid \<and> d_idempotency_key d = cancellation_key a \<and> d_status d = ''queued'' \<and>
        d_mandatory d \<and> d_payload_json d = cancellation_payload"
    using q fresh a by (auto simp: enqueue_agent_task_comment_def enqueue_delivery_def Let_def and_then_def draw_def
        cancellation_key_def cancellation_payload_def text_entry_def new_delivery_def)
  ultimately have "being_cancelled a t db'"
    using a cancellation_delivered by (auto simp: being_cancelled_def parked_command_def or_else_def)
  with q show thesis by (rule that)
qed

lemma archive_keeps:
  assumes "archive_agent_session e diff tid s db = (db', r)"
  shows "outbox db' = outbox db \<and> tasks db' = tasks db \<and> agents db' = agents db"
  using assms
  by (auto simp: archive_agent_session_def get_or_create_attempt_def and_then_def Let_def draw_def split: list.splits option.splits)

lemma marked_turn:
  assumes "get_agent db tid = Some a" and "get_task db tid = Some t" and "t_stage t = Some ''cancellation_pending''"
    and "unhindered w a db"
  obtains db' where "command_turn e w tid db = (db', Inr ())" and "being_cancelled a t db'"
proof -
  have a: "the_agent db tid = a" "a_id a = tid" using assms(1) by (auto simp: the_agent_def dest: get_agent_SomeD)
  have turn: "command_turn e w tid db = cancel_command_agent_task e w tid db"
    using assms(2,3) by (simp add: command_turn_def Let_def the_task_def)
  let ?stop = "if has_text (a_agent_session_id a)
        then (case cancel_session (wk_client w) (the (a_agent_session_id a)) of
                Inl (PiAgentError m status) \<Rightarrow> (db, Inr ())
              | Inl x \<Rightarrow> (db, Inl x)
              | Inr s \<Rightarrow> archive_agent_session e (wk_diff w) tid s db)
        else (db, Inr ())"
  obtain db1 where stop: "?stop = (db1, Inr ())"
    and same: "outbox db1 = outbox db \<and> tasks db1 = tasks db \<and> agents db1 = agents db"
  proof (cases "\<exists>s. has_text (a_agent_session_id a) \<and> cancel_session (wk_client w) (the (a_agent_session_id a)) = Inr s")
    case True
    then obtain s where s: "has_text (a_agent_session_id a)" "cancel_session (wk_client w) (the (a_agent_session_id a)) = Inr s" by blast
    then have "length (attempt_rows db tid (ag_id s)) \<le> 1" using assms(4) a by (simp add: unhindered_def)
    then obtain db1 where "archive_agent_session e (wk_diff w) tid s db = (db1, Inr ())" using archive_succeeds by blast
    with s archive_keeps[OF this] that show thesis by simp
  next
    case False
    then have "?stop = (db, Inr ())" using assms(4) by (auto simp: unhindered_def split: sum.splits err.splits)
    with that show thesis by simp
  qed
  have "get_agent db1 tid = Some a" "get_task db1 tid = Some t" "find_delivery db1 (cancellation_key a) = None"
    using same assms(1,2,4) by (simp_all add: get_agent_def get_task_def find_delivery_def unhindered_def)
  then obtain db' where "enqueue_agent_task_comment e tid ''cancelled'' True None (Some (''cancelled'', ''cancelled'')) True
      (upd_task tid (parked_command ''cancellation_delivery_pending'' (Some ''cancelled'')) db1) = (db', Inr ())"
    and "being_cancelled a t db'" by (rule announced_cancellation)
  moreover from this(1) have "cancel_command_agent_task e w tid db = (db', Inr ())"
    unfolding cancel_command_agent_task_def and_then_def a(1) stop by simp
  ultimately show thesis using turn that by simp
qed


definition mute_calls :: adapter_calls where
  "mute_calls = sample_calls\<lparr>publish_agent_task_comment := (\<lambda>p i s db. (db, Inl (OtherError ''down'')))\<rparr>"

definition command_db :: db where
  "command_db = empty_db\<lparr>tasks := [new_task ''a1'' ''agent'' 0],
     agents := [(new_agent_task ''a1'' ''gh'' ''o/r'' 1)\<lparr>a_task_type := ''message_command''\<rparr>]\<rparr>"


end
