(* ===== verification/Listings.thy ===== *)
theory Listings
  imports Admin Redact Actions
begin

text \<open>
  The read side of \<open>application/services.py\<close> for tasks, session archives, deliveries, agent tasks and provider
  events: filters, newest-first pages, and what the API shows of a row.
\<close>

section \<open>Pages\<close>

text \<open>\<open>created_at DESC, id DESC\<close> with \<open>LIMIT\<close> and \<open>OFFSET\<close>\<close>

definition newest_first :: "('r \<Rightarrow> time \<times> string) \<Rightarrow> 'r list \<Rightarrow> 'r list" where
  "newest_first k rs = rev (sort_key k rs)"

definition window :: "int \<Rightarrow> int \<Rightarrow> 'r list \<Rightarrow> 'r list" where
  "window limit offset rs = take (nat limit) (drop (nat offset) rs)"

record 'a listing =
  li_items :: "'a list"
  li_total :: int
  li_limit :: int
  li_offset :: int

fun all_ok :: "('a \<Rightarrow> err + 'b) \<Rightarrow> 'a list \<Rightarrow> err + 'b list" where
  "all_ok f [] = Inr []"
| "all_ok f (x # xs) =
     (case f x of
        Inl e \<Rightarrow> Inl e
      | Inr y \<Rightarrow> (case all_ok f xs of Inl e \<Rightarrow> Inl e | Inr ys \<Rightarrow> Inr (y # ys)))"

definition page :: "('r \<Rightarrow> err + 'a) \<Rightarrow> 'r list \<Rightarrow> int \<Rightarrow> int \<Rightarrow> err + 'a listing" where
  "page show rows limit offset =
     (case all_ok show (window limit offset rows) of
        Inl e \<Rightarrow> Inl e
      | Inr xs \<Rightarrow> Inr \<lparr>li_items = xs, li_total = int (length rows), li_limit = limit, li_offset = offset\<rparr>)"

text \<open>A filter on a text is used when the text is not empty, one on a number or a time when it is there.\<close>

definition if_text :: "string option \<Rightarrow> (string \<Rightarrow> bool) \<Rightarrow> bool" where
  "if_text x P \<longleftrightarrow> has_text x \<longrightarrow> P (the x)"

text \<open>\<open>_safe_error_message\<close>; the first line of an empty text is an \<open>IndexError\<close>.\<close>

definition safe_error_message :: "string option \<Rightarrow> err + string option" where
  "safe_error_message m =
     (case m of
        None \<Rightarrow> Inr None
      | Some s \<Rightarrow> (case split_lines s of
                    [] \<Rightarrow> Inl IndexError
                  | line # _ \<Rightarrow> Inr (Some (if 1000 < length line then take 1000 line @ ''...'' else line))))"

definition with_message :: "string option \<Rightarrow> (string option \<Rightarrow> 'a) \<Rightarrow> err + 'a" where
  "with_message m f = (case safe_error_message m of Inl e \<Rightarrow> Inl e | Inr s \<Rightarrow> Inr (f s))"

section \<open>Tasks\<close>

record task_summary =
  ts_id :: string
  ts_kind :: string
  ts_capability_id :: string
  ts_status :: string
  ts_stage :: "string option"
  ts_execution_status :: string
  ts_delivery_status :: string
  ts_queue :: string
  ts_priority :: int
  ts_effective_priority :: int
  ts_available_at :: time
  ts_deadline_at :: "time option"
  ts_dedupe_key :: "string option"
  ts_concurrency_key :: "string option"
  ts_resource_class :: string
  ts_resource_context :: "dict option"
  ts_max_attempts :: int
  ts_lock_owner :: "string option"
  ts_locked_until :: "time option"
  ts_domain_metadata :: dict
  ts_created_at :: time
  ts_updated_at :: time

definition summary_metadata :: "db \<Rightarrow> task \<Rightarrow> dict" where
  "summary_metadata db t =
     (if is_review t
      then (let r = the_run db (t_id t) in
        [(''provider'', JStr (r_provider r)), (''repo_full_name'', JStr (r_repo_full_name r)),
         (''pull_request_number'', JInt (r_pull_request_number r)), (''head_sha'', JStr (r_head_sha r)),
         (''trigger_type'', JStr (r_trigger_type r))])
      else if is_agent t
      then (let a = the_agent db (t_id t) in
        [(''provider'', JStr (a_provider a)), (''repo_full_name'', JStr (a_repo_full_name a)),
         (''pull_request_number'', JInt (a_pull_request_number a)), (''task_type'', JStr (a_task_type a)),
         (''source_comment_id'', jopt (a_source_comment_id a))])
      else [])"

definition task_summary_of :: "db \<Rightarrow> task \<Rightarrow> task_summary" where
  "task_summary_of db t =
     \<lparr>ts_id = t_id t, ts_kind = t_kind t, ts_capability_id = t_capability_id t, ts_status = t_status t,
      ts_stage = t_stage t, ts_execution_status = t_execution_status t, ts_delivery_status = t_delivery_status t,
      ts_queue = t_queue t, ts_priority = t_priority t, ts_effective_priority = t_effective_priority t,
      ts_available_at = t_available_at t, ts_deadline_at = t_deadline_at t, ts_dedupe_key = t_dedupe_key t,
      ts_concurrency_key = t_concurrency_key t, ts_resource_class = t_resource_class t,
      ts_resource_context = t_resource_context_json t, ts_max_attempts = t_max_attempts t,
      ts_lock_owner = t_lock_owner t, ts_locked_until = t_locked_until t, ts_domain_metadata = summary_metadata db t,
      ts_created_at = t_created_at t, ts_updated_at = t_updated_at t\<rparr>"

record task_filter =
  tf_kind :: "string option"
  tf_capability_id :: "string option"
  tf_status :: "string option"
  tf_queue :: "string option"
  tf_resource_class :: "string option"

definition task_matches :: "task_filter \<Rightarrow> task \<Rightarrow> bool" where
  "task_matches q t \<longleftrightarrow>
     if_text (tf_kind q) (\<lambda>s. t_kind t = s) \<and> if_text (tf_capability_id q) (\<lambda>s. t_capability_id t = s) \<and>
     if_text (tf_status q) (\<lambda>s. t_status t = s) \<and> if_text (tf_queue q) (\<lambda>s. t_queue t = s) \<and>
     if_text (tf_resource_class q) (\<lambda>s. t_resource_class t = s)"

definition list_tasks :: "task_filter \<Rightarrow> int \<Rightarrow> int \<Rightarrow> db \<Rightarrow> err + task_summary listing" where
  "list_tasks q limit offset db =
     page (\<lambda>t. Inr (task_summary_of db t))
       (sort_key (\<lambda>t. (- t_effective_priority t, t_available_at t, t_created_at t)) (filter (task_matches q) (tasks db)))
       limit offset"

definition get_task_summary :: "string \<Rightarrow> db \<Rightarrow> task_summary option" where
  "get_task_summary tid db = map_option (task_summary_of db) (get_task db tid)"

section \<open>Session archives\<close>

record attempt_view =
  as_id :: string
  as_task_id :: string
  as_attempt_no :: int
  as_status :: string
  as_stage :: "string option"
  as_agent_run_id :: "string option"
  as_workspace_id :: "string option"
  as_workspace_path :: "string option"
  as_resolved_preset :: "json option"
  as_usage :: "json option"
  as_failure_category :: "string option"
  as_error_message :: "string option"
  as_started_at :: time
  as_completed_at :: "time option"

record archive_read =
  ar_id :: string
  ar_task_id :: string
  ar_task_attempt :: "attempt_view option"
  ar_agent_run_id :: string
  ar_session :: json
  ar_task_metadata :: json
  ar_workspace_diff :: "string option"
  ar_workspace_diff_truncated :: bool
  ar_redaction_version :: string
  ar_created_at :: time
  ar_updated_at :: time

definition attempt_summary_of :: "task_attempt \<Rightarrow> err + attempt_view" where
  "attempt_summary_of a = with_message (ta_error_message a) (\<lambda>message.
     \<lparr>as_id = ta_id a, as_task_id = ta_task_id a, as_attempt_no = ta_attempt_no a, as_status = ta_status a,
      as_stage = ta_stage a, as_agent_run_id = ta_agent_run_id a, as_workspace_id = ta_workspace_id a,
      as_workspace_path = ta_workspace_path a, as_resolved_preset = ta_resolved_preset_json a,
      as_usage = ta_usage_json a, as_failure_category = ta_failure_category a, as_error_message = message,
      as_started_at = ta_started_at a, as_completed_at = ta_completed_at a\<rparr>)"

definition archive_attempt :: "session_archive \<Rightarrow> db \<Rightarrow> task_attempt option" where
  "archive_attempt s db =
     (case sa_task_attempt_id s of None \<Rightarrow> None | Some i \<Rightarrow> first_row (\<lambda>a. ta_id a = i) (attempts db))"

definition session_archive_read :: "db \<Rightarrow> session_archive \<Rightarrow> err + archive_read" where
  "session_archive_read db s =
     (case (case archive_attempt s db of
              None \<Rightarrow> Inr None
            | Some a \<Rightarrow> (case attempt_summary_of a of Inl e \<Rightarrow> Inl e | Inr x \<Rightarrow> Inr (Some x))) of
        Inl e \<Rightarrow> Inl e
      | Inr attempt \<Rightarrow> Inr
         \<lparr>ar_id = sa_id s, ar_task_id = sa_task_id s, ar_task_attempt = attempt,
          ar_agent_run_id = sa_agent_run_id s, ar_session = sa_session_json s,
          ar_task_metadata = sa_task_metadata_json s, ar_workspace_diff = sa_workspace_diff s,
          ar_workspace_diff_truncated = sa_workspace_diff_truncated s, ar_redaction_version = sa_redaction_version s,
          ar_created_at = sa_created_at s, ar_updated_at = sa_updated_at s\<rparr>)"

definition list_task_session_archives :: "string \<Rightarrow> db \<Rightarrow> err + archive_read list option" where
  "list_task_session_archives tid db =
     (if get_task db tid = None then Inr None
      else (case all_ok (session_archive_read db)
                   (sort_key (\<lambda>s. (sa_created_at s, sa_id s)) (filter (\<lambda>s. sa_task_id s = tid) (archives db))) of
              Inl e \<Rightarrow> Inl e
            | Inr xs \<Rightarrow> Inr (Some xs)))"

definition get_session_archive :: "string \<Rightarrow> db \<Rightarrow> err + archive_read option" where
  "get_session_archive i db =
     (case first_row (\<lambda>s. sa_id s = i) (archives db) of
        None \<Rightarrow> Inr None
      | Some s \<Rightarrow> (case session_archive_read db s of Inl e \<Rightarrow> Inl e | Inr x \<Rightarrow> Inr (Some x)))"

section \<open>Deliveries\<close>

record delivery_summary =
  ds_id :: string
  ds_task_id :: string
  ds_provider :: string
  ds_operation :: string
  ds_destination_key :: string
  ds_idempotency_key :: string
  ds_mandatory :: bool
  ds_status :: string
  ds_queue :: string
  ds_priority :: int
  ds_available_at :: time
  ds_attempt :: int
  ds_max_attempts :: int
  ds_provider_message_id :: "string option"
  ds_last_error :: "string option"
  ds_delivered_at :: "time option"
  ds_created_at :: time
  ds_updated_at :: time

definition delivery_summary_of :: "delivery \<Rightarrow> delivery_summary" where
  "delivery_summary_of d =
     \<lparr>ds_id = d_id d, ds_task_id = d_task_id d, ds_provider = d_provider d, ds_operation = d_operation d,
      ds_destination_key = d_destination_key d, ds_idempotency_key = d_idempotency_key d, ds_mandatory = d_mandatory d,
      ds_status = d_status d, ds_queue = d_queue d, ds_priority = d_priority d, ds_available_at = d_available_at d,
      ds_attempt = d_attempt d, ds_max_attempts = d_max_attempts d, ds_provider_message_id = d_provider_message_id d,
      ds_last_error = d_last_error d, ds_delivered_at = d_delivered_at d, ds_created_at = d_created_at d,
      ds_updated_at = d_updated_at d\<rparr>"

record delivery_filter =
  df_task_id :: "string option"
  df_provider :: "string option"
  df_status :: "string option"
  df_queue :: "string option"

definition delivery_matches :: "delivery_filter \<Rightarrow> delivery \<Rightarrow> bool" where
  "delivery_matches q d \<longleftrightarrow>
     if_text (df_task_id q) (\<lambda>s. d_task_id d = s) \<and> if_text (df_provider q) (\<lambda>s. d_provider d = s) \<and>
     if_text (df_status q) (\<lambda>s. d_status d = s) \<and> if_text (df_queue q) (\<lambda>s. d_queue d = s)"

definition list_delivery_outbox :: "delivery_filter \<Rightarrow> int \<Rightarrow> int \<Rightarrow> db \<Rightarrow> err + delivery_summary listing" where
  "list_delivery_outbox q limit offset db =
     page (\<lambda>d. Inr (delivery_summary_of d)) (sort_key delivery_key (filter (delivery_matches q) (outbox db))) limit offset"

definition get_delivery_outbox :: "string \<Rightarrow> db \<Rightarrow> delivery_summary option" where
  "get_delivery_outbox did db = map_option delivery_summary_of (get_delivery db did)"

section \<open>Agent tasks\<close>

record queue_health =
  qh_queued :: int
  qh_running :: int
  qh_completed :: int
  qh_failed :: int
  qh_cancelled :: int
  qh_oldest_queued_age_seconds :: "int option"

record agent_summary =
  gs_id :: string
  gs_provider :: string
  gs_repo_full_name :: string
  gs_pull_request_number :: int
  gs_task_type :: string
  gs_status :: string
  gs_stage :: "string option"
  gs_source_kind :: "string option"
  gs_source_comment_id :: "string option"
  gs_source_url :: "string option"
  gs_source_author_login :: "string option"
  gs_command_text :: "string option"
  gs_head_sha :: "string option"
  gs_response_comment_id :: "string option"
  gs_response_comment_url :: "string option"
  gs_agent_session_id :: "string option"
  gs_agent_status :: "string option"
  gs_agent_provider :: "string option"
  gs_agent_model :: "string option"
  gs_agent_thinking_level :: "string option"
  gs_failure_code :: "string option"
  gs_provider_event_id :: "string option"
  gs_provider_event_link :: "string option"
  gs_pull_request_context_link :: "string option"
  gs_error_message :: "string option"
  gs_started_at :: "time option"
  gs_completed_at :: "time option"
  gs_deadline_at :: "time option"
  gs_soft_timeout_emitted_at :: "time option"
  gs_hard_timeout_emitted_at :: "time option"
  gs_created_at :: time
  gs_updated_at :: time

record agent_filter =
  af_status :: "string option"
  af_provider :: "string option"
  af_repo_full_name :: "string option"
  af_pull_request_number :: "int option"
  af_task_type :: "string option"
  af_created_from :: "time option"
  af_created_to :: "time option"

definition agent_matches :: "db \<Rightarrow> agent_filter \<Rightarrow> agent_task \<Rightarrow> bool" where
  "agent_matches db q a \<longleftrightarrow>
     (let t = the_task db (a_id a) in
      if_text (af_status q) (\<lambda>s. t_status t = s) \<and> if_text (af_provider q) (\<lambda>s. a_provider a = s) \<and>
      if_text (af_repo_full_name q) (\<lambda>s. a_repo_full_name a = s) \<and>
      opt_all (\<lambda>n. a_pull_request_number a = n) (af_pull_request_number q) \<and>
      if_text (af_task_type q) (\<lambda>s. a_task_type a = s) \<and>
      opt_all (\<lambda>x. x \<le> t_created_at t) (af_created_from q) \<and> opt_all (\<lambda>x. t_created_at t \<le> x) (af_created_to q))"

definition agent_key :: "db \<Rightarrow> agent_task \<Rightarrow> time \<times> string" where
  "agent_key db a = (t_created_at (the_task db (a_id a)), a_id a)"

definition count_status :: "db \<Rightarrow> string \<Rightarrow> agent_task list \<Rightarrow> int" where
  "count_status db s as = int (length (filter (\<lambda>a. t_status (the_task db (a_id a)) = s) as))"

text \<open>The age of the oldest queued task in whole seconds\<close>

definition queue_health_of :: "env \<Rightarrow> agent_filter \<Rightarrow> db \<Rightarrow> queue_health" where
  "queue_health_of e q db =
     (let as = filter (agent_matches db q) (agents db);
          queued = map (\<lambda>a. t_created_at (the_task db (a_id a))) (filter (\<lambda>a. t_status (the_task db (a_id a)) = ''queued'') as)
      in \<lparr>qh_queued = count_status db ''queued'' as, qh_running = count_status db ''running'' as,
          qh_completed = count_status db ''completed'' as, qh_failed = count_status db ''failed'' as,
          qh_cancelled = count_status db ''cancelled'' as,
          qh_oldest_queued_age_seconds =
            (case sort_key (\<lambda>x. x) queued of [] \<Rightarrow> None | x # _ \<Rightarrow> Some (max 0 ((now e - x) div seconds 1)))\<rparr>)"

text \<open>\<open>links\<close> builds the URL of the response comment, for a provider with that capability.\<close>

definition response_url :: "registry option \<Rightarrow> (agent_task \<Rightarrow> err + string option) \<Rightarrow> agent_task \<Rightarrow> err + string option" where
  "response_url reg links a =
     (case reg of
        None \<Rightarrow> Inr None
      | Some rg \<Rightarrow> (if capability rg (a_provider a) ''resource_links'' = None then Inr None else links a))"

definition link_to :: "string \<Rightarrow> string option \<Rightarrow> string option" where
  "link_to path i = (if has_text i then Some (path @ the i) else None)"

definition agent_task_summary ::
  "registry option \<Rightarrow> (agent_task \<Rightarrow> err + string option) \<Rightarrow> db \<Rightarrow> agent_task \<Rightarrow> err + agent_summary" where
  "agent_task_summary reg links db a =
     (case response_url reg links a of
        Inl e \<Rightarrow> Inl e
      | Inr url \<Rightarrow> with_message (a_error_message a) (\<lambda>message. let t = the_task db (a_id a) in
         \<lparr>gs_id = a_id a, gs_provider = a_provider a, gs_repo_full_name = a_repo_full_name a,
          gs_pull_request_number = a_pull_request_number a, gs_task_type = a_task_type a, gs_status = t_status t,
          gs_stage = t_stage t, gs_source_kind = a_source_kind a, gs_source_comment_id = a_source_comment_id a,
          gs_source_url = a_source_url a, gs_source_author_login = a_source_author_login a,
          gs_command_text = a_command_text a, gs_head_sha = a_head_sha a,
          gs_response_comment_id = a_response_comment_id a, gs_response_comment_url = url,
          gs_agent_session_id = a_agent_session_id a, gs_agent_status = a_agent_status a,
          gs_agent_provider = a_agent_provider a, gs_agent_model = a_agent_model a,
          gs_agent_thinking_level = a_agent_thinking_level a, gs_failure_code = a_failure_code a,
          gs_provider_event_id = a_provider_event_id a,
          gs_provider_event_link = link_to ''/api/v1/provider-events/'' (a_provider_event_id a),
          gs_pull_request_context_link = link_to ''/api/v1/pull-request-contexts/'' (a_pull_request_context_id a),
          gs_error_message = message, gs_started_at = t_started_at t, gs_completed_at = t_completed_at t,
          gs_deadline_at = t_deadline_at t, gs_soft_timeout_emitted_at = a_soft_timeout_emitted_at a,
          gs_hard_timeout_emitted_at = a_hard_timeout_emitted_at a, gs_created_at = t_created_at t,
          gs_updated_at = t_updated_at t\<rparr>))"

record agent_listing =
  al_tasks :: "agent_summary listing"
  al_queue :: queue_health

definition list_agent_tasks ::
  "env \<Rightarrow> registry option \<Rightarrow> (agent_task \<Rightarrow> err + string option) \<Rightarrow> agent_filter \<Rightarrow> int \<Rightarrow> int \<Rightarrow> db \<Rightarrow> err + agent_listing" where
  "list_agent_tasks e reg links q limit offset db =
     (case page (agent_task_summary reg links db)
             (newest_first (agent_key db) (filter (agent_matches db q) (agents db))) limit offset of
        Inl x \<Rightarrow> Inl x
      | Inr xs \<Rightarrow> Inr \<lparr>al_tasks = xs, al_queue = queue_health_of e (q\<lparr>af_status := None\<rparr>) db\<rparr>)"

record agent_detail =
  ad_summary :: agent_summary
  ad_input_metadata :: "json option"
  ad_result_json :: "dict option"

definition get_agent_task_detail ::
  "registry option \<Rightarrow> (agent_task \<Rightarrow> err + string option) \<Rightarrow> string \<Rightarrow> db \<Rightarrow> err + agent_detail option" where
  "get_agent_task_detail reg links tid db =
     (case get_agent db tid of
        None \<Rightarrow> Inr None
      | Some a \<Rightarrow>
          (case agent_task_summary reg links db a of
             Inl x \<Rightarrow> Inl x
           | Inr s \<Rightarrow> Inr (Some \<lparr>ad_summary = s, ad_input_metadata = map_option (\<lambda>d. redact_value (JObj d)) (a_input_json a),
                               ad_result_json = a_result_json a\<rparr>)))"

section \<open>Provider events\<close>

record event_summary =
  es_id :: string
  es_provider :: string
  es_delivery_id :: string
  es_provider_event :: string
  es_provider_action :: "string option"
  es_internal_event :: "string option"
  es_status :: string
  es_repo_full_name :: "string option"
  es_pull_request_number :: "int option"
  es_head_sha :: "string option"
  es_payload_digest :: string
  es_coalesce_key :: "string option"
  es_review_run_id :: "string option"
  es_source_review_run_id :: "string option"
  es_agent_task_id :: "string option"
  es_error_code :: "string option"
  es_error_message :: "string option"
  es_created_at :: time
  es_processed_at :: "time option"

record event_filter =
  ef_provider :: "string option"
  ef_repo_full_name :: "string option"
  ef_pull_request_number :: "int option"
  ef_internal_event :: "string option"
  ef_status :: "string option"
  ef_delivery_id :: "string option"
  ef_created_from :: "time option"
  ef_created_to :: "time option"

definition event_matches :: "event_filter \<Rightarrow> provider_event \<Rightarrow> bool" where
  "event_matches q v \<longleftrightarrow>
     if_text (ef_provider q) (\<lambda>s. ev_provider v = s) \<and> if_text (ef_repo_full_name q) (\<lambda>s. ev_repo_full_name v = Some s) \<and>
     opt_all (\<lambda>n. ev_pull_request_number v = Some n) (ef_pull_request_number q) \<and>
     if_text (ef_internal_event q) (\<lambda>s. ev_internal_event v = Some s) \<and> if_text (ef_status q) (\<lambda>s. ev_status v = s) \<and>
     if_text (ef_delivery_id q) (\<lambda>s. ev_delivery_id v = s) \<and>
     opt_all (\<lambda>x. x \<le> ev_created_at v) (ef_created_from q) \<and> opt_all (\<lambda>x. ev_created_at v \<le> x) (ef_created_to q)"

text \<open>The newest task of an event\<close>

definition event_task :: "db \<Rightarrow> string \<Rightarrow> string option" where
  "event_task db i =
     (case sort_key (\<lambda>a. - t_created_at (the_task db (a_id a))) (filter (\<lambda>a. a_provider_event_id a = Some i) (agents db)) of
        [] \<Rightarrow> None
      | a # _ \<Rightarrow> Some (a_id a))"

definition provider_event_summary :: "string option \<Rightarrow> provider_event \<Rightarrow> err + event_summary" where
  "provider_event_summary task v = with_message (ev_error_message v) (\<lambda>message.
     \<lparr>es_id = ev_id v, es_provider = ev_provider v, es_delivery_id = ev_delivery_id v,
      es_provider_event = ev_provider_event v, es_provider_action = ev_provider_action v,
      es_internal_event = ev_internal_event v, es_status = ev_status v, es_repo_full_name = ev_repo_full_name v,
      es_pull_request_number = ev_pull_request_number v, es_head_sha = ev_head_sha v,
      es_payload_digest = ev_payload_digest v, es_coalesce_key = ev_coalesce_key v,
      es_review_run_id = ev_review_run_id v,
      es_source_review_run_id = str_or_none (jget (ev_payload v) ''source_review_run_id''), es_agent_task_id = task,
      es_error_code = ev_error_code v, es_error_message = message, es_created_at = ev_created_at v,
      es_processed_at = ev_processed_at v\<rparr>)"

definition list_provider_event_inbox :: "event_filter \<Rightarrow> int \<Rightarrow> int \<Rightarrow> db \<Rightarrow> err + event_summary listing" where
  "list_provider_event_inbox q limit offset db =
     page (\<lambda>v. provider_event_summary (event_task db (ev_id v)) v)
       (newest_first (\<lambda>v. (ev_created_at v, ev_id v)) (filter (event_matches q) (inbox db))) limit offset"

record event_detail =
  ed_summary :: event_summary
  ed_dedupe_key :: string
  ed_payload :: "json option"

definition get_provider_event_inbox_detail :: "bool \<Rightarrow> string \<Rightarrow> db \<Rightarrow> err + event_detail option" where
  "get_provider_event_inbox_detail include i db =
     (case get_event db i of
        None \<Rightarrow> Inr None
      | Some v \<Rightarrow>
          (case provider_event_summary (event_task db i) v of
             Inl x \<Rightarrow> Inl x
           | Inr s \<Rightarrow> Inr (Some \<lparr>ed_summary = s, ed_dedupe_key = ev_dedupe_key v,
                               ed_payload = (if include then Some (redact_value (JObj (ev_payload v))) else None)\<rparr>)))"

section \<open>What the listings show\<close>

lemma split_lines_empty [simp]: "split_lines [] = []"
  by simp

lemma with_message_Inl: "with_message m f = Inl x \<longleftrightarrow> m = Some [] \<and> x = IndexError"
  by (cases m; cases "split_lines (the m)") (auto simp: with_message_def safe_error_message_def split_lines_Nil)

lemma all_ok_Inl: "(\<exists>x. all_ok f xs = Inl x) \<longleftrightarrow> (\<exists>y \<in> set xs. \<exists>x. f y = Inl x)"
  by (induction xs) (auto split: sum.splits)

lemma all_ok_Inr: "(\<And>y. y \<in> set xs \<Longrightarrow> f y = Inr (g y)) \<Longrightarrow> all_ok f xs = Inr (map g xs)"
  by (induction xs) auto

lemma newest_first_order:
  assumes "mset xs = mset ys" and "distinct (map k ys)"
  shows "newest_first k xs = newest_first k ys"
proof -
  have "inj_on k (set ys)" using assms(2) by (simp add: distinct_map)
  then have "inj_on k (set xs)" using assms(1) by (metis set_mset_mset)
  then have "sort_key k xs = sort_key k ys"
    using assms(1) by (intro sort_key_inj_key_eq) auto
  then show ?thesis by (simp add: newest_first_def)
qed

lemma newest_first_set [simp]: "set (newest_first k rs) = set rs" "mset (newest_first k rs) = mset rs"
  by (simp_all add: newest_first_def)

lemma length_newest_first [simp]: "length (newest_first k rs) = length rs"
  by (simp add: newest_first_def)

lemma newest_first_sorted: "sorted_wrt (\<lambda>a b. k b \<le> k a) (newest_first k rs)"
proof -
  have "sorted (map k (sort_key k rs))" by simp
  then show ?thesis by (simp add: newest_first_def sorted_wrt_rev sorted_map)
qed

lemma windows_concat:
  "0 < n \<Longrightarrow> concat (map (\<lambda>i. window n (int i * n) xs) [0..<k]) = take (k * nat n) xs"
proof (induction k)
  case (Suc k)
  have "nat (int k * n) = k * nat n" using Suc.prems by (simp add: nat_mult_distrib)
  then have "concat (map (\<lambda>i. window n (int i * n) xs) [0..<Suc k]) = take (k * nat n) xs @ take (nat n) (drop (k * nat n) xs)"
    using Suc by (simp add: window_def)
  also have "\<dots> = take (Suc k * nat n) xs" by (simp add: take_add[symmetric] add.commute)
  finally show ?case .
qed simp

lemma set_window: "set (window limit offset xs) \<subseteq> set xs"
  by (auto simp: window_def dest: in_set_takeD in_set_dropD)

lemma event_page:
  assumes "list_all (\<lambda>v. ev_error_message v \<noteq> Some []) (inbox db)"
  shows "\<exists>xs. list_provider_event_inbox q limit offset db = Inr xs \<and>
     map es_id (li_items xs) = map ev_id (window limit offset (newest_first (\<lambda>v. (ev_created_at v, ev_id v)) (filter (event_matches q) (inbox db)))) \<and>
     map es_created_at (li_items xs) = map ev_created_at (window limit offset (newest_first (\<lambda>v. (ev_created_at v, ev_id v)) (filter (event_matches q) (inbox db)))) \<and>
     li_total xs = int (length (filter (event_matches q) (inbox db)))"
proof -
  let ?rows = "newest_first (\<lambda>v. (ev_created_at v, ev_id v)) (filter (event_matches q) (inbox db))"
  let ?show = "\<lambda>v. provider_event_summary (event_task db (ev_id v)) v"
  have one: "\<exists>s. ?show v = Inr s \<and> es_id s = ev_id v \<and> es_created_at s = ev_created_at v" if "v \<in> set (window limit offset ?rows)" for v
  proof -
    have "v \<in> set (inbox db)" using that set_window by fastforce
    then have "ev_error_message v \<noteq> Some []" using assms by (auto simp: list_all_iff)
    then obtain s where "?show v = Inr s" using with_message_Inl unfolding provider_event_summary_def by (metis old.sum.exhaust)
    then show ?thesis by (auto simp: provider_event_summary_def with_message_def split: sum.splits)
  qed
  define g where "g v = (SOME s. ?show v = Inr s)" for v
  have g: "?show v = Inr (g v)" "es_id (g v) = ev_id v" "es_created_at (g v) = ev_created_at v" if "v \<in> set (window limit offset ?rows)" for v
  proof -
    from one[OF that] obtain s where s: "?show v = Inr s" "es_id s = ev_id v" "es_created_at s = ev_created_at v" by blast
    then have "g v = s" by (simp add: g_def)
    then show "?show v = Inr (g v)" "es_id (g v) = ev_id v" "es_created_at (g v) = ev_created_at v" using s by simp_all
  qed
  have "all_ok ?show (window limit offset ?rows) = Inr (map g (window limit offset ?rows))" using g(1) by (rule all_ok_Inr)
  then show ?thesis using g(2,3) by (simp add: list_provider_event_inbox_def page_def)
qed

text \<open>
  C27. The pages of the event log are complete: with any page size, the pages one after another show every matching event
  exactly once, newest first, each with the true total; and which events a page shows does not depend on the order in which
  the database holds them.
\<close>

theorem event_pages_are_complete:
  assumes "0 < n" and "list_all (\<lambda>v. ev_error_message v \<noteq> Some []) (inbox db)" and "unique_on ev_id (inbox db)"
    and "length (filter (event_matches q) (inbox db)) \<le> k * nat n"
  shows "(\<exists>pages. map (\<lambda>i. list_provider_event_inbox q n (int i * n) db) [0..<k] = map Inr pages \<and>
       mset (map es_id (concat (map li_items pages))) = mset (map ev_id (filter (event_matches q) (inbox db))) \<and>
       sorted_wrt (\<lambda>a b. b \<le> a) (map es_created_at (concat (map li_items pages))) \<and>
       list_all (\<lambda>p. li_total p = int (length (filter (event_matches q) (inbox db)))) pages) \<and>
     (mset rows = mset (inbox db) \<longrightarrow>
        list_provider_event_inbox q limit offset (db\<lparr>inbox := rows\<rparr>) = list_provider_event_inbox q limit offset db)"
proof
  let ?key = "\<lambda>v. (ev_created_at v, ev_id v)"
  let ?rows = "newest_first ?key (filter (event_matches q) (inbox db))"
  define p where "p i = projr (list_provider_event_inbox q n (int i * n) db)" for i
  have p: "list_provider_event_inbox q n (int i * n) db = Inr (p i) \<and> map es_id (li_items (p i)) = map ev_id (window n (int i * n) ?rows) \<and>
      map es_created_at (li_items (p i)) = map ev_created_at (window n (int i * n) ?rows) \<and>
      li_total (p i) = int (length (filter (event_matches q) (inbox db)))" for i
    using event_page[OF assms(2), of q n "int i * n"] unfolding p_def by auto
  have all: "concat (map (\<lambda>i. window n (int i * n) ?rows) [0..<k]) = ?rows"
    using windows_concat[OF assms(1), of ?rows k] assms(4) by simp
  have "map f (concat (map (\<lambda>i. li_items (p i)) [0..<k])) = map h ?rows"
    if "\<And>i. map f (li_items (p i)) = map h (window n (int i * n) ?rows)" for f :: "event_summary \<Rightarrow> 'b" and h
  proof -
    have "map f (concat (map (\<lambda>i. li_items (p i)) [0..<k])) = concat (map (\<lambda>i. map f (li_items (p i))) [0..<k])"
      by (simp add: map_concat comp_def)
    also have "\<dots> = map h (concat (map (\<lambda>i. window n (int i * n) ?rows) [0..<k]))" by (simp add: that map_concat comp_def)
    finally show ?thesis unfolding all .
  qed
  note col = this
  have ids: "map es_id (concat (map (\<lambda>i. li_items (p i)) [0..<k])) = map ev_id ?rows"
    by (rule col) (simp add: p)
  have times: "map es_created_at (concat (map (\<lambda>i. li_items (p i)) [0..<k])) = map ev_created_at ?rows"
    by (rule col) (simp add: p)
  have "sorted_wrt (\<lambda>a b. ev_created_at b \<le> ev_created_at a) ?rows"
    by (rule sorted_wrt_mono_rel[OF _ newest_first_sorted]) (auto simp: less_eq_prod_def)
  then have "sorted_wrt (\<lambda>a b. b \<le> a) (map ev_created_at ?rows)" by (simp add: sorted_wrt_map)
  moreover have "mset (map ev_id ?rows) = mset (map ev_id (filter (event_matches q) (inbox db)))" by simp
  moreover have "map (\<lambda>i. list_provider_event_inbox q n (int i * n) db) [0..<k] = map Inr (map p [0..<k])" using p by simp
  moreover have "list_all (\<lambda>p. li_total p = int (length (filter (event_matches q) (inbox db)))) (map p [0..<k])"
    using p by (simp add: list_all_iff)
  ultimately show "\<exists>pages. map (\<lambda>i. list_provider_event_inbox q n (int i * n) db) [0..<k] = map Inr pages \<and>
       mset (map es_id (concat (map li_items pages))) = mset (map ev_id (filter (event_matches q) (inbox db))) \<and>
       sorted_wrt (\<lambda>a b. b \<le> a) (map es_created_at (concat (map li_items pages))) \<and>
       list_all (\<lambda>p. li_total p = int (length (filter (event_matches q) (inbox db)))) pages"
    using ids times by (intro exI[of _ "map p [0..<k]"]) (simp add: comp_def)
  show "mset rows = mset (inbox db) \<longrightarrow>
        list_provider_event_inbox q limit offset (db\<lparr>inbox := rows\<rparr>) = list_provider_event_inbox q limit offset db"
  proof
    assume m: "mset rows = mset (inbox db)"
    have "mset (filter (event_matches q) rows) = mset (filter (event_matches q) (inbox db))" using m by (simp add: mset_filter)
    moreover have "distinct (map ?key (filter (event_matches q) (inbox db)))"
    proof -
      have "distinct (map ev_id (inbox db))" using assms(3) by (simp add: unique_on_def)
      then have "distinct (map ev_id (filter (event_matches q) (inbox db)))" by (rule distinct_map_filter)
      then show ?thesis by (auto simp: distinct_map inj_on_def)
    qed
    ultimately have "newest_first ?key (filter (event_matches q) rows) = ?rows" by (rule newest_first_order)
    then show "list_provider_event_inbox q limit offset (db\<lparr>inbox := rows\<rparr>) = list_provider_event_inbox q limit offset db"
      by (simp add: list_provider_event_inbox_def event_task_def the_task_def get_task_def)
  qed
qed

definition events_db :: db where
  "events_db = empty_db\<lparr>inbox := [new_event ''e1'' 1 ''github'' ''d1'' ''push'' ''k1'' ''x'' [],
     (new_event ''e2'' 5 ''github'' ''d2'' ''push'' ''k2'' ''x'' [])\<lparr>ev_error_message := Some ''broken''\<rparr>,
     new_event ''e3'' 3 ''github'' ''d3'' ''push'' ''k3'' ''x'' []]\<rparr>"

definition any_event :: event_filter where
  "any_event = \<lparr>ef_provider = None, ef_repo_full_name = None, ef_pull_request_number = None, ef_internal_event = None,
     ef_status = None, ef_delivery_id = None, ef_created_from = None, ef_created_to = None\<rparr>"

theorem event_pages_are_complete_witness:
  "\<exists>pages. map (\<lambda>i. list_provider_event_inbox any_event 2 (int i * 2) events_db) [0..<2] = map Inr pages \<and>
     mset (map es_id (concat (map li_items pages))) = mset [''e1'', ''e2'', ''e3'']"
proof -
  have all: "filter (event_matches any_event) (inbox events_db) = inbox events_db"
    by (simp add: event_matches_def any_event_def if_text_def has_text_def)
  have "list_all (\<lambda>v. ev_error_message v \<noteq> Some []) (inbox events_db)" "unique_on ev_id (inbox events_db)"
    by (simp_all add: events_db_def new_event_def unique_on_def)
  note db = this
  have len: "length (filter (event_matches any_event) (inbox events_db)) \<le> 2 * nat 2" unfolding all by (simp add: events_db_def)
  have "0 < (2::int)" by simp
  from conjunct1[OF event_pages_are_complete[OF this db(1,2) len]]
  show ?thesis unfolding all by (elim exE conjE) (intro exI conjI, assumption, simp add: events_db_def new_event_def)
qed

lemma enqueue_agents: "agents (fst (enqueue_delivery e tid p op dst key pl m pr ma sp db)) = agents db"
  by (simp add: enqueue_delivery_def Let_def split: option.splits)

text \<open>
  C28. A listing of agent tasks fails exactly when a task on the page, whoever owns it, has a link that cannot be built or an
  empty error message: the empty text of a bare exception, kept as a task's error, breaks every page that shows the task.
\<close>

theorem empty_error_breaks_the_listing:
  "(\<exists>x. list_agent_tasks e reg links q limit offset db = Inl x) =
     (\<exists>a \<in> set (window limit offset (newest_first (agent_key db) (filter (agent_matches db q) (agents db)))).
        (\<exists>x. response_url reg links a = Inl x) \<or> a_error_message a = Some []) \<and>
   map_option a_error_message (get_agent (fst (fail_command_agent_task e tid c (err_text (AssertionFailed [])) db)) tid) =
     map_option (\<lambda>_. Some []) (get_agent db tid)"
proof
  let ?rows = "window limit offset (newest_first (agent_key db) (filter (agent_matches db q) (agents db)))"
  have "(\<exists>x. list_agent_tasks e reg links q limit offset db = Inl x) = (\<exists>x. all_ok (agent_task_summary reg links db) ?rows = Inl x)"
    by (simp add: list_agent_tasks_def page_def split: sum.split)
  moreover have "(\<exists>x. agent_task_summary reg links db a = Inl x) = ((\<exists>x. response_url reg links a = Inl x) \<or> a_error_message a = Some [])" for a
    using with_message_Inl[of "a_error_message a"] by (auto simp: agent_task_summary_def split: sum.splits)
  ultimately show "(\<exists>x. list_agent_tasks e reg links q limit offset db = Inl x) =
     (\<exists>a \<in> set ?rows. (\<exists>x. response_url reg links a = Inl x) \<or> a_error_message a = Some [])"
    by (simp only: all_ok_Inl)
  have frame: "agents (fst (enqueue_agent_task_comment e tid st m su fi sp db0)) = agents db0" for st m su fi sp db0
    by (simp add: enqueue_agent_task_comment_def Let_def and_then_def split: prod.splits sum.splits)
      (metis enqueue_agents fst_conv)
  let ?f = "\<lambda>a. a\<lparr>a_failure_code := Some c, a_error_message := Some []\<rparr>"
  have "agents (fst (fail_command_agent_task e tid c (err_text (AssertionFailed [])) db)) = upd_where (\<lambda>a. a_id a = tid) ?f (agents db)"
    by (simp add: fail_command_agent_task_def frame upd_agent_def)
  then have "get_agent (fst (fail_command_agent_task e tid c (err_text (AssertionFailed [])) db)) tid = get_agent (upd_agent tid ?f db) tid"
    by (simp add: get_agent_def)
  also have "\<dots> = map_option ?f (get_agent db tid)" by (simp add: get_agent_upd)
  finally show "map_option a_error_message (get_agent (fst (fail_command_agent_task e tid c (err_text (AssertionFailed [])) db)) tid) =
     map_option (\<lambda>_. Some []) (get_agent db tid)"
    by (simp add: option.map_comp comp_def)
qed

end
