(* ===== verification/Overview.thy ===== *)
theory Overview
  imports Listings
begin

text \<open>
  The read side of \<open>application/services.py\<close> for review runs: the list with its filters, the detail with everything that
  hangs on a run, the operational states shown, and the diagnostics of a run's agent session.
\<close>

section \<open>Operational state\<close>

definition ebind :: "err + 'a \<Rightarrow> ('a \<Rightarrow> err + 'b) \<Rightarrow> err + 'b" where
  "ebind r f = (case r of Inl x \<Rightarrow> Inl x | Inr v \<Rightarrow> f v)"

definition maybe :: "('a \<Rightarrow> err + 'b) \<Rightarrow> 'a option \<Rightarrow> err + 'b option" where
  "maybe f x = (case x of None \<Rightarrow> Inr None | Some v \<Rightarrow> ebind (f v) (\<lambda>y. Inr (Some y)))"

definition lock_state :: "env \<Rightarrow> task \<Rightarrow> string" where
  "lock_state e t =
     (if t_lock_owner t = None then ''unlocked''
      else (case t_locked_until t of
              Some u \<Rightarrow> (if is_past e u then ''expired'' else ''locked'')
            | None \<Rightarrow> ''locked''))"

definition timeout_state :: "env \<Rightarrow> task \<Rightarrow> review_run \<Rightarrow> string" where
  "timeout_state e t r =
     (if r_hard_timeout_emitted_at r \<noteq> None then ''hard_timeout''
      else if r_soft_timeout_emitted_at r \<noteq> None then ''soft_timeout''
      else (case t_deadline_at t of
              Some d \<Rightarrow> (if is_past e d then ''deadline_elapsed'' else ''none'')
            | None \<Rightarrow> ''none''))"

definition worker_state :: "env \<Rightarrow> task \<Rightarrow> review_run \<Rightarrow> string" where
  "worker_state e t r =
     (if t_status t \<in> set terminal_statuses then ''terminal''
      else if lock_state e t = ''locked'' then ''locked_by_worker''
      else if lock_state e t = ''expired'' then ''worker_lock_expired''
      else if t_status t = ''awaiting_delivery''
      then (if t_stage t = Some ''placeholder_delivery_pending'' then ''waiting_for_placeholder'' else ''waiting_for_result_delivery'')
      else if t_status t = ''queued'' then ''waiting_for_worker''
      else if t_status t = ''running'' \<and> \<not> has_text (r_agent_session_id r) then ''waiting_for_agent''
      else if t_status t = ''running'' then ''running_in_pi_agent''
      else t_status t)"

record operational_state =
  os_lock_state :: string
  os_timeout_state :: string
  os_worker_state :: string

definition operational_state_of :: "env \<Rightarrow> task \<Rightarrow> review_run \<Rightarrow> operational_state" where
  "operational_state_of e t r =
     \<lparr>os_lock_state = lock_state e t, os_timeout_state = timeout_state e t r, os_worker_state = worker_state e t r\<rparr>"

section \<open>What hangs on a run\<close>

record publishing =
  pb_summary_comment_id :: "string option"
  pb_summary_comment_ref_id :: "string option"
  pb_summary_comment_status :: "string option"
  pb_summary_published :: bool
  pb_line_comment_count :: int
  pb_line_comment_status_counts :: "(string \<times> int) list"

fun tally :: "('a \<Rightarrow> string) \<Rightarrow> 'a list \<Rightarrow> (string \<times> int) list \<Rightarrow> (string \<times> int) list" where
  "tally k [] m = m"
| "tally k (x # xs) m = tally k xs (dict_incr (k x) m)"

definition publishing_from_refs :: "comment_ref list \<Rightarrow> publishing" where
  "publishing_from_refs refs =
     (let summary = first_row (\<lambda>c. cr_comment_type c = ''summary'') refs; lines = filter (\<lambda>c. cr_comment_type c = ''line'') refs
      in \<lparr>pb_summary_comment_id = map_option cr_provider_comment_id summary, pb_summary_comment_ref_id = map_option cr_id summary,
          pb_summary_comment_status = map_option cr_status summary, pb_summary_published = (summary \<noteq> None),
          pb_line_comment_count = int (length lines), pb_line_comment_status_counts = tally cr_status lines []\<rparr>)"

definition no_publishing :: publishing where
  "no_publishing =
     \<lparr>pb_summary_comment_id = None, pb_summary_comment_ref_id = None, pb_summary_comment_status = None,
      pb_summary_published = False, pb_line_comment_count = 0, pb_line_comment_status_counts = []\<rparr>"

definition publishing_for_run :: "string \<Rightarrow> db \<Rightarrow> publishing option" where
  "publishing_for_run rid db =
     (case filter (\<lambda>c. cr_review_run_id c = Some rid) (comment_refs db) of
        [] \<Rightarrow> None
      | refs \<Rightarrow> Some (publishing_from_refs refs))"

record context_view =
  cv_id :: "string option"
  cv_title :: "string option"
  cv_author_login :: "string option"
  cv_base_ref :: "string option"
  cv_base_sha :: "string option"
  cv_head_ref :: "string option"
  cv_head_sha :: "string option"
  cv_head_repo_full_name :: "string option"
  cv_is_fork :: "bool option"
  cv_status :: "string option"
  cv_html_url :: "string option"
  cv_latest_event_id :: "string option"
  cv_closed_at :: "time option"
  cv_merged_at :: "time option"

definition pull_request_context_summary :: "pull_request_context option \<Rightarrow> context_view option" where
  "pull_request_context_summary c = map_option (\<lambda>c.
     \<lparr>cv_id = Some (c_id c), cv_title = c_title c, cv_author_login = c_author_login c,
      cv_base_ref = c_base_ref c, cv_base_sha = c_base_sha c, cv_head_ref = c_head_ref c,
      cv_head_sha = Some (c_head_sha c), cv_head_repo_full_name = c_head_repo_full_name c,
      cv_is_fork = Some (c_is_fork c), cv_status = Some (c_status c), cv_html_url = c_html_url c,
      cv_latest_event_id = c_latest_event_id c, cv_closed_at = c_closed_at c, cv_merged_at = c_merged_at c\<rparr>) c"

record run_read =
  rr_id :: string
  rr_provider :: string
  rr_repo_full_name :: string
  rr_pull_request_number :: int
  rr_base_sha :: "string option"
  rr_head_sha :: string
  rr_attempt :: int
  rr_trigger_type :: string
  rr_status :: string
  rr_stage :: "string option"
  rr_execution_status :: string
  rr_delivery_status :: string
  rr_summary_comment_id :: "string option"
  rr_workspace_path :: "string option"
  rr_agent_session_id :: "string option"
  rr_agent_status :: "string option"
  rr_agent_provider :: "string option"
  rr_agent_model :: "string option"
  rr_agent_thinking_level :: "string option"
  rr_review_summary :: "string option"
  rr_review_conclusion :: "string option"
  rr_risk_level :: "string option"
  rr_finding_count_total :: int
  rr_finding_count_by_severity :: "(string \<times> int) list option"
  rr_failure_code :: "string option"
  rr_error :: "string option"
  rr_lock_owner :: "string option"
  rr_locked_until :: "time option"
  rr_superseded_by_review_run_id :: "string option"
  rr_soft_timeout_emitted_at :: "time option"
  rr_hard_timeout_emitted_at :: "time option"
  rr_started_at :: "time option"
  rr_completed_at :: "time option"
  rr_deadline_at :: "time option"
  rr_created_at :: time
  rr_updated_at :: time

definition run_read_of :: "task \<Rightarrow> review_run \<Rightarrow> run_read" where
  "run_read_of t r =
     \<lparr>rr_id = r_id r, rr_provider = r_provider r, rr_repo_full_name = r_repo_full_name r,
      rr_pull_request_number = r_pull_request_number r, rr_base_sha = r_base_sha r, rr_head_sha = r_head_sha r,
      rr_attempt = r_attempt r, rr_trigger_type = r_trigger_type r, rr_status = t_status t, rr_stage = t_stage t,
      rr_execution_status = t_execution_status t, rr_delivery_status = t_delivery_status t,
      rr_summary_comment_id = r_summary_comment_id r, rr_workspace_path = r_workspace_path r,
      rr_agent_session_id = r_agent_session_id r, rr_agent_status = r_agent_status r,
      rr_agent_provider = r_agent_provider r, rr_agent_model = r_agent_model r,
      rr_agent_thinking_level = r_agent_thinking_level r, rr_review_summary = r_review_summary r,
      rr_review_conclusion = r_review_conclusion r, rr_risk_level = r_risk_level r,
      rr_finding_count_total = r_finding_count_total r, rr_finding_count_by_severity = r_finding_count_by_severity r,
      rr_failure_code = r_failure_code r, rr_error = r_error r, rr_lock_owner = t_lock_owner t,
      rr_locked_until = t_locked_until t, rr_superseded_by_review_run_id = r_superseded_by_review_run_id r,
      rr_soft_timeout_emitted_at = r_soft_timeout_emitted_at r,
      rr_hard_timeout_emitted_at = r_hard_timeout_emitted_at r, rr_started_at = t_started_at t,
      rr_completed_at = t_completed_at t, rr_deadline_at = t_deadline_at t, rr_created_at = t_created_at t,
      rr_updated_at = t_updated_at t\<rparr>"

record run_item =
  it_run :: run_read
  it_operational_state :: operational_state
  it_provider_publishing :: publishing
  it_pull_request_context :: "context_view option"

definition review_run_list_item :: "env \<Rightarrow> db \<Rightarrow> review_run \<Rightarrow> publishing option \<Rightarrow> pull_request_context option \<Rightarrow> err + run_item" where
  "review_run_list_item e db r publishing context =
     (let t = the_task db (r_id r) in
      with_message (r_error r) (\<lambda>message.
        \<lparr>it_run = (run_read_of t r)\<lparr>rr_error := message\<rparr>, it_operational_state = operational_state_of e t r,
         it_provider_publishing = or_else publishing
           (no_publishing\<lparr>pb_summary_comment_id := r_summary_comment_id r, pb_summary_published := (r_summary_comment_id r \<noteq> None)\<rparr>),
         it_pull_request_context = pull_request_context_summary context\<rparr>))"

section \<open>The list of runs\<close>

record run_filter =
  rf_provider :: "string option"
  rf_repo_full_name :: "string option"
  rf_pull_request_number :: "int option"
  rf_status :: "string option"
  rf_stage :: "string option"
  rf_head_sha :: "string option"
  rf_trigger_type :: "string option"
  rf_lock_state :: "string option"

definition lock_matches :: "env \<Rightarrow> string option \<Rightarrow> task \<Rightarrow> bool" where
  "lock_matches e q t \<longleftrightarrow>
     (if q = Some ''unlocked'' then t_lock_owner t = None
      else if q = Some ''locked''
      then t_lock_owner t \<noteq> None \<and> (case t_locked_until t of None \<Rightarrow> True | Some u \<Rightarrow> now e < u)
      else if q = Some ''expired''
      then t_lock_owner t \<noteq> None \<and> (case t_locked_until t of None \<Rightarrow> False | Some u \<Rightarrow> u \<le> now e)
      else True)"

definition run_matches :: "env \<Rightarrow> db \<Rightarrow> run_filter \<Rightarrow> review_run \<Rightarrow> bool" where
  "run_matches e db q r \<longleftrightarrow>
     (let t = the_task db (r_id r) in
      if_text (rf_provider q) (\<lambda>s. r_provider r = s) \<and> if_text (rf_repo_full_name q) (\<lambda>s. r_repo_full_name r = s) \<and>
      opt_all (\<lambda>n. r_pull_request_number r = n) (rf_pull_request_number q) \<and> if_text (rf_status q) (\<lambda>s. t_status t = s) \<and>
      if_text (rf_stage q) (\<lambda>s. t_stage t = Some s) \<and> if_text (rf_head_sha q) (\<lambda>s. r_head_sha r = s) \<and>
      if_text (rf_trigger_type q) (\<lambda>s. r_trigger_type r = s) \<and> lock_matches e (rf_lock_state q) t)"

definition run_order :: "db \<Rightarrow> review_run \<Rightarrow> time \<times> string" where
  "run_order db r = (t_created_at (the_task db (r_id r)), r_id r)"

text \<open>
  The contexts of the runs of a page, by identifier and by identity; a later row replaces an earlier one.
\<close>

definition run_identity :: "review_run \<Rightarrow> string \<times> string \<times> int" where
  "run_identity r = (r_provider r, r_repo_full_name r, r_pull_request_number r)"

definition context_identity :: "pull_request_context \<Rightarrow> string \<times> string \<times> int" where
  "context_identity c = (c_provider c, c_repo_full_name c, c_pull_request_number c)"

definition contexts_for_runs :: "review_run list \<Rightarrow> db \<Rightarrow> pull_request_context list" where
  "contexts_for_runs rs db =
     filter (\<lambda>c. context_identity c \<in> set (map run_identity rs) \<or>
                 (\<exists>r \<in> set rs. has_text (r_pull_request_context_id r) \<and> r_pull_request_context_id r = Some (c_id c)))
       (contexts db)"

definition listed_context :: "pull_request_context list \<Rightarrow> review_run \<Rightarrow> pull_request_context option" where
  "listed_context cs r =
     (case (case r_pull_request_context_id r of None \<Rightarrow> None | Some i \<Rightarrow> first_row (\<lambda>c. c_id c = i) (rev cs)) of
        Some c \<Rightarrow> Some c
      | None \<Rightarrow> first_row (\<lambda>c. context_identity c = run_identity r) (rev cs))"

text \<open>\<open>pull_request_number or merge_request_number\<close>\<close>

definition number_or :: "int option \<Rightarrow> int option \<Rightarrow> int option" where
  "number_or x y = (case x of Some n \<Rightarrow> (if n = 0 then y else x) | None \<Rightarrow> y)"

definition list_review_runs :: "env \<Rightarrow> run_filter \<Rightarrow> int option \<Rightarrow> int \<Rightarrow> int \<Rightarrow> db \<Rightarrow> err + run_item listing" where
  "list_review_runs e q merge_request_number limit offset db =
     (let q' = q\<lparr>rf_pull_request_number := number_or (rf_pull_request_number q) merge_request_number\<rparr>;
          rows = newest_first (run_order db) (filter (run_matches e db q') (runs db));
          cs = contexts_for_runs (window limit offset rows) db
      in page (\<lambda>r. review_run_list_item e db r (publishing_for_run (r_id r) db) (listed_context cs r)) rows limit offset)"

section \<open>The detail of a run\<close>

record workspace_summary =
  wv_workspace_id :: "string option"
  wv_workspace_path :: "string option"
  wv_status :: "string option"
  wv_failure_code :: "string option"
  wv_failure_message :: "string option"
  wv_ready_at :: "time option"
  wv_last_used_at :: "time option"
  wv_expires_at :: "time option"

definition workspace_for_run :: "review_run \<Rightarrow> db \<Rightarrow> workspace option" where
  "workspace_for_run r db =
     (case newest_first (\<lambda>w. (w_updated_at w, w_id w))
             (filter (\<lambda>w. w_provider w = r_provider r \<and> w_repository w = r_repo_full_name r \<and>
                          w_pull_request_number w = r_pull_request_number r \<and> w_head_sha w = r_head_sha r) (workspaces db)) of
        [] \<Rightarrow> None
      | w # _ \<Rightarrow> Some w)"

definition workspace_summary_of :: "workspace option \<Rightarrow> string option \<Rightarrow> err + workspace_summary option" where
  "workspace_summary_of workspace path =
     (case workspace of
        None \<Rightarrow>
          (if path = None then Inr None
           else Inr (Some
             \<lparr>wv_workspace_id = None, wv_workspace_path = path, wv_status = None, wv_failure_code = None,
              wv_failure_message = None, wv_ready_at = None, wv_last_used_at = None, wv_expires_at = None\<rparr>))
      | Some w \<Rightarrow> with_message (w_failure_message w) (\<lambda>message. Some
           \<lparr>wv_workspace_id = Some (w_workspace_id w), wv_workspace_path = Some (w_workspace_path w),
            wv_status = Some (w_status w), wv_failure_code = w_failure_code w, wv_failure_message = message,
            wv_ready_at = w_ready_at w, wv_last_used_at = w_last_used_at w, wv_expires_at = w_expires_at w\<rparr>))"

record session_summary =
  ss_id :: string
  ss_status :: string
  ss_agent_session_id :: "string option"
  ss_skill_name :: "string option"
  ss_profile_name :: "string option"
  ss_result_ref :: "string option"
  ss_error_message :: "string option"
  ss_created_at :: time
  ss_updated_at :: time

definition session_summary_of :: "review_session \<Rightarrow> err + session_summary" where
  "session_summary_of s = with_message (rs_error_message s) (\<lambda>message.
     \<lparr>ss_id = rs_id s, ss_status = rs_status s, ss_agent_session_id = rs_agent_session_id s,
      ss_skill_name = rs_skill_name s, ss_profile_name = rs_profile_name s, ss_result_ref = rs_result_ref s,
      ss_error_message = message, ss_created_at = rs_created_at s, ss_updated_at = rs_updated_at s\<rparr>)"

record findings_summary =
  fs_total :: int
  fs_by_severity :: "(string \<times> int) list"
  fs_by_state :: "(string \<times> int) list"
  fs_by_status :: "(string \<times> int) list"

definition findings_summary_of :: "string \<Rightarrow> db \<Rightarrow> findings_summary" where
  "findings_summary_of rid db =
     (let found = filter (\<lambda>f. f_review_run_id f = rid) (findings db)
      in \<lparr>fs_total = int (length found), fs_by_severity = tally f_severity found [], fs_by_state = tally f_state found [],
          fs_by_status = tally f_status found []\<rparr>)"

record linked_event =
  le_id :: string
  le_provider_event :: string
  le_provider_action :: "string option"
  le_internal_event :: "string option"
  le_delivery_id :: string
  le_status :: string
  le_error_code :: "string option"
  le_error_message :: "string option"
  le_source_review_run_id :: "string option"
  le_created_at :: time
  le_processed_at :: "time option"

definition trigger_event_for_run :: "review_run \<Rightarrow> db \<Rightarrow> provider_event option" where
  "trigger_event_for_run r db =
     (if has_text (r_trigger_event_id r) then get_event db (the (r_trigger_event_id r))
      else (case newest_first (\<lambda>v. (ev_created_at v, ev_id v)) (filter (\<lambda>v. ev_review_run_id v = Some (r_id r)) (inbox db)) of
              [] \<Rightarrow> None
            | v # _ \<Rightarrow> Some v))"

definition linked_event_summary :: "provider_event \<Rightarrow> err + linked_event" where
  "linked_event_summary v = with_message (ev_error_message v) (\<lambda>message.
     \<lparr>le_id = ev_id v, le_provider_event = ev_provider_event v, le_provider_action = ev_provider_action v,
      le_internal_event = ev_internal_event v, le_delivery_id = ev_delivery_id v, le_status = ev_status v,
      le_error_code = ev_error_code v, le_error_message = message,
      le_source_review_run_id = str_or_none (jget (ev_payload v) ''source_review_run_id''),
      le_created_at = ev_created_at v, le_processed_at = ev_processed_at v\<rparr>)"

record linked_task =
  lt_id :: string
  lt_provider_event_id :: "string option"
  lt_task_type :: string
  lt_status :: string
  lt_error_message :: "string option"
  lt_created_at :: time
  lt_updated_at :: time

definition agent_task_for_run :: "review_run \<Rightarrow> db \<Rightarrow> agent_task option" where
  "agent_task_for_run r db =
     (case newest_first (agent_key db)
             (filter (\<lambda>a. (a_provider a, a_repo_full_name a, a_pull_request_number a) = run_identity r) (agents db)) of
        [] \<Rightarrow> None
      | a # _ \<Rightarrow> Some a)"

definition linked_task_summary :: "db \<Rightarrow> agent_task \<Rightarrow> err + linked_task" where
  "linked_task_summary db a = with_message (a_error_message a) (\<lambda>message. let t = the_task db (a_id a) in
     \<lparr>lt_id = a_id a, lt_provider_event_id = a_provider_event_id a, lt_task_type = a_task_type a,
      lt_status = t_status t, lt_error_message = message, lt_created_at = t_created_at t,
      lt_updated_at = t_updated_at t\<rparr>)"

record slot_summary =
  sv_id :: string
  sv_status :: string
  sv_marker :: string
  sv_provider_comment_id :: "string option"
  sv_placeholder_version :: int
  sv_result_version :: int
  sv_last_error :: "string option"
  sv_bound_at :: "time option"
  sv_finalized_at :: "time option"
  sv_delivery_event_id :: "string option"
  sv_delivery_status :: "string option"
  sv_delivery_attempt :: "int option"
  sv_delivery_available_at :: "time option"
  sv_delivery_locked_until :: "time option"

definition placeholder_delivery :: "string \<Rightarrow> db \<Rightarrow> delivery option" where
  "placeholder_delivery rid db =
     (case newest_first (\<lambda>d. (d_created_at d, d_id d))
             (filter (\<lambda>d. d_task_id d = rid \<and> d_operation d = ''review_placeholder'') (outbox db)) of
        [] \<Rightarrow> None
      | d # _ \<Rightarrow> Some d)"

definition comment_slot_summary :: "string \<Rightarrow> db \<Rightarrow> comment_slot \<Rightarrow> err + slot_summary" where
  "comment_slot_summary rid db s = with_message (s_last_error s) (\<lambda>message. let d = placeholder_delivery rid db in
     \<lparr>sv_id = s_id s, sv_status = s_status s, sv_marker = s_marker s,
      sv_provider_comment_id = s_provider_comment_id s, sv_placeholder_version = s_placeholder_version s,
      sv_result_version = s_result_version s, sv_last_error = message, sv_bound_at = s_bound_at s,
      sv_finalized_at = s_finalized_at s, sv_delivery_event_id = map_option d_id d,
      sv_delivery_status = map_option d_status d, sv_delivery_attempt = map_option d_attempt d,
      sv_delivery_available_at = map_option d_available_at d,
      sv_delivery_locked_until = (case d of None \<Rightarrow> None | Some x \<Rightarrow> d_locked_until x)\<rparr>)"

record run_detail =
  rd_item :: run_item
  rd_workspace :: "workspace_summary option"
  rd_review_session :: "session_summary option"
  rd_findings_summary :: findings_summary
  rd_validation_warnings :: "json list"
  rd_validation_errors :: "json list"
  rd_trigger_event :: "linked_event option"
  rd_agent_task :: "linked_task option"
  rd_placeholder :: "slot_summary option"
  rd_retry :: availability
  rd_rerun :: availability

definition get_review_run_detail :: "env \<Rightarrow> string \<Rightarrow> db \<Rightarrow> err + run_detail option" where
  "get_review_run_detail e rid db =
     (case get_run db rid of
        None \<Rightarrow> Inr None
      | Some r \<Rightarrow>
          (let context = pull_request_context_for_run r db in
           ebind (maybe (comment_slot_summary rid db) (find_slot db rid)) (\<lambda>placeholder.
           ebind (review_run_list_item e db r (Some (or_else (publishing_for_run rid db) no_publishing)) context) (\<lambda>item.
           ebind (workspace_summary_of (workspace_for_run r db) (r_workspace_path r)) (\<lambda>workspace.
           ebind (maybe session_summary_of (session_for_run db rid)) (\<lambda>session.
           ebind (maybe linked_event_summary (trigger_event_for_run r db)) (\<lambda>trigger.
           ebind (maybe (linked_task_summary db) (agent_task_for_run r db)) (\<lambda>agent.
             Inr (Some \<lparr>rd_item = item, rd_workspace = workspace, rd_review_session = session,
               rd_findings_summary = findings_summary_of rid db,
               rd_validation_warnings = or_else (r_validation_warnings_json r) [],
               rd_validation_errors = or_else (r_validation_errors_json r) [], rd_trigger_event = trigger,
               rd_agent_task = agent, rd_placeholder = placeholder,
               rd_retry = retry_availability rid context None db, rd_rerun = rerun_availability rid context db\<rparr>)))))))))"

section \<open>Diagnostics of an agent session\<close>

record session_diagnostics =
  dg_review_run_id :: "string option"
  dg_agent_task_ids :: "string list"
  dg_provider :: "string option"
  dg_repo_full_name :: "string option"
  dg_pull_request_number :: "int option"
  dg_status :: "string option"
  dg_stage :: "string option"
  dg_agent_session_id :: "string option"
  dg_agent_provider :: "string option"
  dg_agent_model :: "string option"
  dg_agent_thinking_level :: "string option"
  dg_execution_status :: "string option"
  dg_execution_stage :: "string option"
  dg_event_count :: int
  dg_session_available :: bool
  dg_live_status_available :: bool
  dg_live_status_error :: "string option"
  dg_created_at :: "time option"
  dg_updated_at :: "time option"

text \<open>The live status: execution status and stage, number of events, and the error of the runtime\<close>

definition live_status :: "pi_client option \<Rightarrow> string option \<Rightarrow> string option \<Rightarrow> err + string option \<times> string option \<times> int \<times> string option" where
  "live_status client disabled sid =
     (case client of
        None \<Rightarrow> Inr (None, None, 0, disabled)
      | Some c \<Rightarrow>
          (if \<not> has_text sid then Inr (None, None, 0, disabled)
           else (case get_session c (the sid) of
                   Inl (PiAgentError m status) \<Rightarrow> Inr (None, None, 0, Some m)
                 | Inl x \<Rightarrow> Inl x
                 | Inr s \<Rightarrow> Inr (Some (ag_status s), Some (ag_stage s), int (length (ag_events s)), None))))"

definition agent_task_ids_for_run :: "review_run \<Rightarrow> db \<Rightarrow> string list" where
  "agent_task_ids_for_run r db =
     map a_id (filter (\<lambda>a. (a_provider a, a_repo_full_name a, a_pull_request_number a) = run_identity r \<and>
       (a_provider_event_id a = r_trigger_event_id r \<or>
        jget (or_else (a_result_json a) []) ''review_run_id'' = JStr (r_id r))) (agents db))"

definition diagnostics_for_review_run :: "pi_client option \<Rightarrow> string option \<Rightarrow> review_run \<Rightarrow> db \<Rightarrow> err + session_diagnostics" where
  "diagnostics_for_review_run client disabled r db =
     (let t = the_task db (r_id r) in
      ebind (live_status client disabled (r_agent_session_id r)) (\<lambda>(status, stage, events, error). Inr
       \<lparr>dg_review_run_id = Some (r_id r), dg_agent_task_ids = agent_task_ids_for_run r db,
        dg_provider = Some (r_provider r), dg_repo_full_name = Some (r_repo_full_name r),
        dg_pull_request_number = Some (r_pull_request_number r), dg_status = Some (t_status t), dg_stage = t_stage t,
        dg_agent_session_id = r_agent_session_id r, dg_agent_provider = r_agent_provider r,
        dg_agent_model = r_agent_model r, dg_agent_thinking_level = r_agent_thinking_level r,
        dg_execution_status = status, dg_execution_stage = stage, dg_event_count = events,
        dg_session_available = has_text (r_agent_session_id r), dg_live_status_available = (status \<noteq> None),
        dg_live_status_error = error, dg_created_at = Some (t_created_at t),
        dg_updated_at = Some (t_updated_at t)\<rparr>))"

definition diagnostics_for_agent_task :: "pi_client option \<Rightarrow> string option \<Rightarrow> agent_task \<Rightarrow> db \<Rightarrow> err + session_diagnostics" where
  "diagnostics_for_agent_task client disabled a db =
     (let t = the_task db (a_id a) in
      ebind (live_status client disabled (a_agent_session_id a)) (\<lambda>(status, stage, events, error). Inr
       \<lparr>dg_review_run_id = None, dg_agent_task_ids = [a_id a], dg_provider = Some (a_provider a),
        dg_repo_full_name = Some (a_repo_full_name a), dg_pull_request_number = Some (a_pull_request_number a),
        dg_status = Some (t_status t), dg_stage = t_stage t, dg_agent_session_id = a_agent_session_id a,
        dg_agent_provider = a_agent_provider a, dg_agent_model = a_agent_model a,
        dg_agent_thinking_level = a_agent_thinking_level a, dg_execution_status = status, dg_execution_stage = stage,
        dg_event_count = events, dg_session_available = has_text (a_agent_session_id a),
        dg_live_status_available = (status \<noteq> None), dg_live_status_error = error,
        dg_created_at = Some (t_created_at t), dg_updated_at = Some (t_updated_at t)\<rparr>))"

definition diagnostics_for_session :: "pi_client option \<Rightarrow> string option \<Rightarrow> string \<Rightarrow> db \<Rightarrow> err + session_diagnostics option" where
  "diagnostics_for_session client disabled sid db =
     (case newest_first (run_order db) (filter (\<lambda>r. r_agent_session_id r = Some sid) (runs db)) of
        r # _ \<Rightarrow> ebind (diagnostics_for_review_run client disabled r db) (\<lambda>d. Inr (Some d))
      | [] \<Rightarrow>
          (case newest_first (agent_key db) (filter (\<lambda>a. a_agent_session_id a = Some sid) (agents db)) of
             a # _ \<Rightarrow> ebind (diagnostics_for_agent_task client disabled a db) (\<lambda>d. Inr (Some d))
           | [] \<Rightarrow> Inr None))"

section \<open>The list and the detail of a run\<close>

lemma first_row_same:
  assumes "unique_on k xs" and "set ys \<subseteq> set xs" and "\<And>c. c \<in> set xs \<Longrightarrow> k c = x \<Longrightarrow> c \<in> set ys"
  shows "first_row (\<lambda>c. k c = x) ys = first_row (\<lambda>c. k c = x) xs"
proof (cases "first_row (\<lambda>c. k c = x) xs")
  case None
  then have "first_row (\<lambda>c. k c = x) ys = None" using assms(2) by (auto simp: first_row_None)
  with None show ?thesis by simp
next
  case (Some c)
  then have c: "c \<in> set xs" "k c = x" by (auto dest: first_row_SomeD)
  then obtain c' where c': "first_row (\<lambda>c. k c = x) ys = Some c'"
    using assms(3) first_row_ex[of "\<lambda>c. k c = x" ys] by blast
  then have "c' \<in> set xs" "k c' = x" using assms(2) by (auto dest: first_row_SomeD)
  then show ?thesis using c c' Some unique_on_inj[OF assms(1)] by metis
qed

definition contexts_ok :: "db \<Rightarrow> bool" where
  "contexts_ok db \<longleftrightarrow> unique_on c_id (contexts db) \<and> unique_on context_identity (contexts db)"

lemma listed_context_eq:
  assumes "contexts_ok db" and "r \<in> set rs" and "r_pull_request_context_id r \<noteq> Some []"
  shows "listed_context (contexts_for_runs rs db) r = pull_request_context_for_run r db"
proof -
  let ?cs = "rev (contexts_for_runs rs db)"
  have sub: "set ?cs \<subseteq> set (contexts db)" by (auto simp: contexts_for_runs_def)
  have "first_row (\<lambda>c. context_identity c = run_identity r) ?cs = first_row (\<lambda>c. context_identity c = run_identity r) (contexts db)"
    using assms(1,2) sub by (intro first_row_same) (auto simp: contexts_ok_def contexts_for_runs_def)
  moreover have "first_row (\<lambda>c. c_id c = i) ?cs = first_row (\<lambda>c. c_id c = i) (contexts db)" if "r_pull_request_context_id r = Some i" for i
  proof (rule first_row_same[OF _ sub])
    fix c assume "c \<in> set (contexts db)" "c_id c = i"
    moreover have "has_text (r_pull_request_context_id r)" using assms(3) that by (simp add: has_text_def)
    ultimately have "\<exists>r \<in> set rs. has_text (r_pull_request_context_id r) \<and> r_pull_request_context_id r = Some (c_id c)"
      using assms(2) that by blast
    with \<open>c \<in> set (contexts db)\<close> have "c \<in> set (contexts_for_runs rs db)" unfolding contexts_for_runs_def set_filter by blast
    then show "c \<in> set ?cs" by simp
  qed (use assms(1) in \<open>simp add: contexts_ok_def\<close>)
  moreover have "find_context db (r_provider r) (r_repo_full_name r) (r_pull_request_number r) =
      first_row (\<lambda>c. context_identity c = run_identity r) (contexts db)"
    by (simp add: find_context_def context_identity_def run_identity_def)
  ultimately show ?thesis
    using assms(3)
    by (cases "r_pull_request_context_id r")
      (simp_all add: listed_context_def pull_request_context_for_run_def get_context_def has_text_def split: option.split)
qed

lemma all_ok_member:
  "all_ok f xs = Inr ys \<Longrightarrow> x \<in> set xs \<Longrightarrow> \<exists>y \<in> set ys. f x = Inr y"
  by (induction xs arbitrary: ys) (auto split: sum.splits)

lemma all_ok_origin:
  "all_ok f xs = Inr ys \<Longrightarrow> y \<in> set ys \<Longrightarrow> \<exists>x \<in> set xs. f x = Inr y"
  by (induction xs arbitrary: ys) (auto split: sum.splits)

lemma page_items: "page f rows limit offset = Inr xs \<Longrightarrow> all_ok f (window limit offset rows) = Inr (li_items xs) \<and> li_total xs = int (length rows)"
  by (auto simp: page_def split: sum.splits)

lemma ebind_Inr: "ebind r f = Inr y \<longleftrightarrow> (\<exists>v. r = Inr v \<and> f v = Inr y)"
  by (auto simp: ebind_def split: sum.splits)

text \<open>
  C29. The list and the detail of a run agree: a page that shows a run shows it exactly as the detail does, with its
  state, what is published and its context, which the two find in different ways, unless the run names a summary comment
  that no reference records; and a page filtered by lock state shows only runs in that state, and counts them all.
\<close>

theorem list_and_detail_agree:
  assumes "list_review_runs e q mr limit offset db = Inr xs" and "contexts_ok db"
  shows "(get_run db rid = Some r \<and> get_review_run_detail e rid db = Inr (Some d) \<and> r_pull_request_context_id r \<noteq> Some [] \<and>
       (publishing_for_run rid db \<noteq> None \<or> r_summary_comment_id r = None) \<and>
       r \<in> set (window limit offset (newest_first (run_order db)
         (filter (run_matches e db (q\<lparr>rf_pull_request_number := number_or (rf_pull_request_number q) mr\<rparr>)) (runs db)))) \<longrightarrow>
       rd_item d \<in> set (li_items xs)) \<and>
     (rf_lock_state q = Some s \<and> s \<in> {''unlocked'', ''locked'', ''expired''} \<longrightarrow>
       list_all (\<lambda>i. os_lock_state (it_operational_state i) = s) (li_items xs) \<and>
       li_total xs = int (length (filter (\<lambda>r. lock_state e (the_task db (r_id r)) = s \<and>
         run_matches e db (q\<lparr>rf_pull_request_number := number_or (rf_pull_request_number q) mr, rf_lock_state := None\<rparr>) r) (runs db))))"
proof
  let ?q = "q\<lparr>rf_pull_request_number := number_or (rf_pull_request_number q) mr\<rparr>"
  let ?rows = "newest_first (run_order db) (filter (run_matches e db ?q) (runs db))"
  let ?cs = "contexts_for_runs (window limit offset ?rows) db"
  let ?item = "\<lambda>r. review_run_list_item e db r (publishing_for_run (r_id r) db) (listed_context ?cs r)"
  have items: "all_ok ?item (window limit offset ?rows) = Inr (li_items xs)" "li_total xs = int (length ?rows)"
    using page_items assms(1) unfolding list_review_runs_def Let_def by blast+
  show "get_run db rid = Some r \<and> get_review_run_detail e rid db = Inr (Some d) \<and> r_pull_request_context_id r \<noteq> Some [] \<and>
       (publishing_for_run rid db \<noteq> None \<or> r_summary_comment_id r = None) \<and> r \<in> set (window limit offset ?rows) \<longrightarrow>
       rd_item d \<in> set (li_items xs)"
  proof (intro impI, elim conjE)
    assume r: "get_run db rid = Some r" "get_review_run_detail e rid db = Inr (Some d)" "r_pull_request_context_id r \<noteq> Some []"
      "publishing_for_run rid db \<noteq> None \<or> r_summary_comment_id r = None" "r \<in> set (window limit offset ?rows)"
    have id: "r_id r = rid" using r(1) by (auto dest: get_run_SomeD)
    obtain y where y: "y \<in> set (li_items xs)" "?item r = Inr y" using all_ok_member[OF items(1) r(5)] by blast
    have "review_run_list_item e db r (Some (or_else (publishing_for_run rid db) no_publishing)) (pull_request_context_for_run r db) = Inr (rd_item d)"
      using r(1,2) by (auto simp: get_review_run_detail_def Let_def ebind_Inr)
    moreover have "?item r = review_run_list_item e db r (Some (or_else (publishing_for_run rid db) no_publishing)) (pull_request_context_for_run r db)"
      using r(4) unfolding id listed_context_eq[OF assms(2) r(5,3)]
      by (cases "publishing_for_run rid db") (auto simp: review_run_list_item_def no_publishing_def Let_def)
    ultimately show "rd_item d \<in> set (li_items xs)" using y by simp
  qed
  show "rf_lock_state q = Some s \<and> s \<in> {''unlocked'', ''locked'', ''expired''} \<longrightarrow>
       list_all (\<lambda>i. os_lock_state (it_operational_state i) = s) (li_items xs) \<and>
       li_total xs = int (length (filter (\<lambda>r. lock_state e (the_task db (r_id r)) = s \<and>
         run_matches e db (q\<lparr>rf_pull_request_number := number_or (rf_pull_request_number q) mr, rf_lock_state := None\<rparr>) r) (runs db)))"
  proof (intro impI, elim conjE)
    assume s: "rf_lock_state q = Some s" "s \<in> {''unlocked'', ''locked'', ''expired''}"
    have lock: "lock_matches e (Some s) t = (lock_state e t = s)" for t
      using s(2) by (auto simp: lock_matches_def lock_state_def is_past_def split: option.splits)
    have match: "run_matches e db ?q r = (lock_state e (the_task db (r_id r)) = s \<and>
        run_matches e db (q\<lparr>rf_pull_request_number := number_or (rf_pull_request_number q) mr, rf_lock_state := None\<rparr>) r)" for r
      using s(1) lock by (auto simp: run_matches_def Let_def lock_matches_def)
    have "os_lock_state (it_operational_state i) = s" if shown: "i \<in> set (li_items xs)" for i
    proof -
      obtain r where r: "r \<in> set (window limit offset ?rows)" "?item r = Inr i" using all_ok_origin[OF items(1) shown] by blast
      then have "run_matches e db ?q r" using set_window by fastforce
      then have "lock_state e (the_task db (r_id r)) = s" using match by simp
      moreover have "it_operational_state i = operational_state_of e (the_task db (r_id r)) r"
        using r(2) by (auto simp: review_run_list_item_def Let_def with_message_def split: sum.splits)
      ultimately show ?thesis by (simp add: operational_state_of_def)
    qed
    moreover have "length ?rows = length (filter (\<lambda>r. lock_state e (the_task db (r_id r)) = s \<and>
         run_matches e db (q\<lparr>rf_pull_request_number := number_or (rf_pull_request_number q) mr, rf_lock_state := None\<rparr>) r) (runs db))"
      unfolding match[abs_def] by simp
    ultimately show "list_all (\<lambda>i. os_lock_state (it_operational_state i) = s) (li_items xs) \<and>
       li_total xs = int (length (filter (\<lambda>r. lock_state e (the_task db (r_id r)) = s \<and>
         run_matches e db (q\<lparr>rf_pull_request_number := number_or (rf_pull_request_number q) mr, rf_lock_state := None\<rparr>) r) (runs db)))"
      using items(2) by (simp add: list_all_iff)
  qed
qed

definition overview_db :: db where
  "overview_db = empty_db
     \<lparr>tasks := [(new_task ''r1'' ''review'' 1)\<lparr>t_lock_owner := Some ''w'', t_locked_until := Some 3\<rparr>, new_task ''r2'' ''review'' 2],
      runs := [new_run ''r1'' ''github'' ''o/r'' 1 ''head'', new_run ''r2'' ''github'' ''o/r'' 2 ''head''],
      contexts := [new_context ''c1'' 0 ''github'' ''o/r'' 1 ''head'']\<rparr>"

definition expired_runs :: run_filter where
  "expired_runs = \<lparr>rf_provider = None, rf_repo_full_name = None, rf_pull_request_number = None, rf_status = None,
     rf_stage = None, rf_head_sha = None, rf_trigger_type = None, rf_lock_state = Some ''expired''\<rparr>"

theorem list_and_detail_agree_witness:
  "\<exists>xs d. list_review_runs (sample_env 5) expired_runs None 10 0 overview_db = Inr xs \<and> li_total xs = 1 \<and>
     get_review_run_detail (sample_env 5) ''r1'' overview_db = Inr (Some d) \<and> rd_item d \<in> set (li_items xs) \<and>
     list_all (\<lambda>i. os_lock_state (it_operational_state i) = ''expired'') (li_items xs)"
proof -
  let ?l = "list_review_runs (sample_env 5) expired_runs None 10 0 overview_db"
    and ?d = "get_review_run_detail (sample_env 5) ''r1'' overview_db"
  have "case ?l of Inr xs \<Rightarrow> li_total xs = 1 | Inl x \<Rightarrow> False" by code_simp
  then obtain xs where xs: "?l = Inr xs" "li_total xs = 1" by (auto split: sum.splits)
  have "case ?d of Inr (Some d) \<Rightarrow> True | _ \<Rightarrow> False" by code_simp
  then obtain d where d: "?d = Inr (Some d)" by (auto split: sum.splits option.splits)
  let ?r = "new_run ''r1'' ''github'' ''o/r'' 1 ''head''"
  have ok: "contexts_ok overview_db" by (simp add: contexts_ok_def overview_db_def unique_on_def)
  have r: "get_run overview_db ''r1'' = Some ?r" "r_pull_request_context_id ?r \<noteq> Some []" "r_summary_comment_id ?r = None"
    by (simp_all add: overview_db_def get_run_def new_run_def)
  have "map r_id (window 10 0 (newest_first (run_order overview_db) (filter (run_matches (sample_env 5) overview_db
      (expired_runs\<lparr>rf_pull_request_number := number_or (rf_pull_request_number expired_runs) None\<rparr>)) (runs overview_db)))) = [''r1'']" (is "map r_id ?w = _")
    by code_simp
  then obtain r' where w: "?w = [r']" "r_id r' = ''r1''" by (cases ?w) auto
  then have "r' \<in> set ?w" by simp
  then have "r' \<in> set (runs overview_db)" using set_window by fastforce
  then have "r' = ?r" using w(2) by (auto simp: overview_db_def new_run_def)
  then have "?r \<in> set ?w" using w by simp
  note agree = list_and_detail_agree[OF xs(1) ok, of "''r1''" ?r d "''expired''"]
  have "rd_item d \<in> set (li_items xs)"
    using mp[OF conjunct1[OF agree]] r d \<open>?r \<in> set ?w\<close> by blast
  moreover have "list_all (\<lambda>i. os_lock_state (it_operational_state i) = ''expired'') (li_items xs)"
    using conjunct2[OF agree] by (simp add: expired_runs_def)
  ultimately show ?thesis using xs d by blast
qed

end
