(* ===== verification/Tokens.thy ===== *)
theory Tokens
  imports Clients
begin

text \<open>
  The credentials of \<open>integrations/github_auth.py\<close>: a static token, or the tokens of the installations of a GitHub App,
  with the caches of which installation a repository belongs to and of its credential. The library that signs and fetches
  tokens is a record of functions.
\<close>

section \<open>Providers of tokens\<close>

text \<open>
  \<open>find_installation\<close> is given owner and repository, \<open>installation_token\<close> an installation and which of the credential
  objects made for it is asked (such an object renews its token by itself), \<open>app_installation\<close> reads the attribute
  \<open>permissions\<close> of an installation. \<open>None\<close> stands for an exception.
\<close>

record 'w github_app =
  find_installation :: "string \<Rightarrow> string \<Rightarrow> 'w \<Rightarrow> 'w \<times> int option"
  installation_token :: "int \<Rightarrow> nat \<Rightarrow> 'w \<Rightarrow> 'w \<times> string option"
  app_installation :: "int \<Rightarrow> 'w \<Rightarrow> 'w \<times> json option"

text \<open>\<open>GitHubAppTokenProvider\<close>: the default installation, the two caches and how many credential objects were made\<close>

record app_provider =
  tp_default_installation_id :: "int option"
  tp_installation_ids :: "(string \<times> int) list"
  tp_installation_auth :: "(int \<times> nat) list"
  tp_made :: nat

text \<open>\<open>read_text\<close> of the key file and signing with it: \<open>None\<close> for an \<open>OSError\<close>, \<open>False\<close> for an exception\<close>

definition new_app_provider :: "(string \<Rightarrow> string option) \<Rightarrow> (string \<Rightarrow> string \<Rightarrow> bool) \<Rightarrow> string \<Rightarrow> string \<Rightarrow> int option \<Rightarrow> string + app_provider" where
  "new_app_provider read_text signs app_id key_path installation =
     (case read_text key_path of
        None \<Rightarrow> Inl (''Unable to read GitHub App private key: '' @ key_path)
      | Some key \<Rightarrow>
          (if \<not> signs app_id key
           then Inl ''Unable to create a GitHub App JWT; check GITHUB_APP_ID and the private key PEM.''
           else Inr \<lparr>tp_default_installation_id = installation, tp_installation_ids = [], tp_installation_auth = [], tp_made = 0\<rparr>))"

definition normalized_name :: "string \<Rightarrow> string" where
  "normalized_name repo = str_lower (str_strip repo)"

definition forget :: "'k \<Rightarrow> ('k \<times> 'v) list \<Rightarrow> ('k \<times> 'v) list" where
  "forget k m = filter (\<lambda>kv. fst kv \<noteq> k) m"

definition installation_id :: "'w github_app \<Rightarrow> string \<Rightarrow> app_provider \<times> 'w \<Rightarrow> (app_provider \<times> 'w) \<times> (string + int)" where
  "installation_id g repo = (\<lambda>(p, w).
     case tp_default_installation_id p of
       Some i \<Rightarrow> ((p, w), Inr i)
     | None \<Rightarrow>
         (case map_of (tp_installation_ids p) (normalized_name repo) of
            Some i \<Rightarrow> ((p, w), Inr i)
          | None \<Rightarrow>
              (case partition_at ''/'' repo of
                 (owner, found, name) \<Rightarrow>
                   (if \<not> found \<or> owner = [] \<or> name = []
                    then ((p, w), Inl (''Invalid GitHub repository name: '' @ repo))
                    else (case find_installation g owner name w of
                            (w1, None) \<Rightarrow> ((p, w1), Inl (''Unable to resolve GitHub App installation for '' @ repo @ ''.''))
                          | (w1, Some i) \<Rightarrow>
                              ((p\<lparr>tp_installation_ids := dict_put (normalized_name repo) i (tp_installation_ids p)\<rparr>, w1), Inr i))))))"

definition token_for_installation :: "'w github_app \<Rightarrow> int \<Rightarrow> app_provider \<times> 'w \<Rightarrow> (app_provider \<times> 'w) \<times> string option" where
  "token_for_installation g i = (\<lambda>(p, w).
     case map_of (tp_installation_auth p) i of
       Some n \<Rightarrow> (case installation_token g i n w of (w1, t) \<Rightarrow> ((p, w1), t))
     | None \<Rightarrow>
         (let n = tp_made p;
              p1 = p\<lparr>tp_installation_auth := dict_put i n (tp_installation_auth p), tp_made := n + 1\<rparr>
          in case installation_token g i n w of (w1, t) \<Rightarrow> ((p1, w1), t)))"

definition app_get_token :: "'w github_app \<Rightarrow> string \<Rightarrow> app_provider \<times> 'w \<Rightarrow> (app_provider \<times> 'w) \<times> (string + string)" where
  "app_get_token g repo s =
     (case installation_id g repo s of
        (s1, Inl m) \<Rightarrow> (s1, Inl m)
      | (s1, Inr i) \<Rightarrow>
          (case token_for_installation g i s1 of
             (s2, Some t) \<Rightarrow> (s2, Inr t)
           | ((p2, w2), None) \<Rightarrow>
               (if tp_default_installation_id p2 \<noteq> None
                then ((p2, w2), Inl (''Unable to obtain a GitHub App token for installation '' @ show_int i @ ''.''))
                else (case installation_id g repo
                          (p2\<lparr>tp_installation_ids := forget (normalized_name repo) (tp_installation_ids p2),
                              tp_installation_auth := forget i (tp_installation_auth p2)\<rparr>, w2) of
                        (s3, Inl m) \<Rightarrow> (s3, Inl m)
                      | (s3, Inr j) \<Rightarrow>
                          (case token_for_installation g j s3 of
                             (s4, Some t) \<Rightarrow> (s4, Inr t)
                           | (s4, None) \<Rightarrow>
                               (s4, Inl (''Unable to obtain a GitHub App token for repository '' @ repo @ ''.'')))))))"

text \<open>The permissions of an installation, without the entries that are not texts\<close>

definition installation_permission_map :: "json \<Rightarrow> (string \<times> string) list" where
  "installation_permission_map j =
     (case j of
        JObj kvs \<Rightarrow> List.map_filter (\<lambda>(k, v). case v of JStr level \<Rightarrow> Some (k, level) | _ \<Rightarrow> None) kvs
      | _ \<Rightarrow> [])"

definition app_get_permissions ::
  "'w github_app \<Rightarrow> string \<Rightarrow> app_provider \<times> 'w \<Rightarrow> (app_provider \<times> 'w) \<times> (string + (string \<times> string) list)" where
  "app_get_permissions g repo s =
     (case installation_id g repo s of
        (s1, Inl m) \<Rightarrow> (s1, Inl m)
      | ((p1, w1), Inr i) \<Rightarrow>
          (case app_installation g i w1 of
             (w2, None) \<Rightarrow> ((p1, w2), Inl (''Unable to read GitHub App permissions for installation '' @ show_int i @ ''.''))
           | (w2, Some j) \<Rightarrow> ((p1, w2), Inr (installation_permission_map j))))"

text \<open>Either kind of provider, as the GitHub client is built with it\<close>

datatype token_provider = StaticToken "string option" | AppTokens app_provider

definition provider_get_token :: "'w github_app \<Rightarrow> string \<Rightarrow> token_provider \<times> 'w \<Rightarrow> (token_provider \<times> 'w) \<times> (string + string option)" where
  "provider_get_token g repo = (\<lambda>(tp, w).
     case tp of
       StaticToken t \<Rightarrow> ((tp, w), Inr t)
     | AppTokens p \<Rightarrow>
         (case app_get_token g repo (p, w) of
            ((p1, w1), Inl m) \<Rightarrow> ((AppTokens p1, w1), Inl m)
          | ((p1, w1), Inr t) \<Rightarrow> ((AppTokens p1, w1), Inr (Some t))))"

definition provider_get_permissions ::
  "'w github_app \<Rightarrow> string \<Rightarrow> token_provider \<times> 'w \<Rightarrow> (token_provider \<times> 'w) \<times> (string + (string \<times> string) list option)" where
  "provider_get_permissions g repo = (\<lambda>(tp, w).
     case tp of
       StaticToken t \<Rightarrow> ((tp, w), Inr None)
     | AppTokens p \<Rightarrow>
         (case app_get_permissions g repo (p, w) of
            ((p1, w1), Inl m) \<Rightarrow> ((AppTokens p1, w1), Inl m)
          | ((p1, w1), Inr ps) \<Rightarrow> ((AppTokens p1, w1), Inr (Some ps))))"

record github_settings =
  gs_app_id :: "string option"
  gs_private_key_path :: "string option"
  gs_installation_id :: "int option"
  gs_installation_token :: "string option"
  gs_api_base_url :: string

definition create_github_client ::
  "(string \<Rightarrow> string option) \<Rightarrow> (string \<Rightarrow> string \<Rightarrow> bool) \<Rightarrow> github_settings \<Rightarrow> string + github_client \<times> token_provider" where
  "create_github_client read_text signs st =
     (if has_text (gs_app_id st) \<noteq> has_text (gs_private_key_path st)
      then Inl ''GITHUB_APP_ID and GITHUB_PRIVATE_KEY_PATH must be configured together.''
      else if has_text (gs_app_id st)
      then (case new_app_provider read_text signs (the (gs_app_id st)) (the (gs_private_key_path st)) (gs_installation_id st) of
              Inl m \<Rightarrow> Inl m
            | Inr p \<Rightarrow> Inr (new_github_client (gs_api_base_url st) None, AppTokens p))
      else Inr (new_github_client (gs_api_base_url st) None, StaticToken (gs_installation_token st)))"

section \<open>The caches\<close>

lemma forget_map_of [simp]: "map_of (forget k m) x = (if x = k then None else map_of m x)"
  by (induction m) (auto simp: forget_def)

lemma partition_slash_first:
  "CHR ''/'' \<notin> set a \<Longrightarrow> partition_at ''/'' (a @ ''/'' @ b) = (a, True, b)"
  by (induction a) auto

lemma token_for_installation_effect:
  assumes "token_for_installation g i (p, w) = ((p', w'), t)"
  shows "tp_default_installation_id p' = tp_default_installation_id p \<and> tp_installation_ids p' = tp_installation_ids p \<and>
    (\<exists>n. installation_token g i n w = (w', t) \<and> map_of (tp_installation_auth p') i = Some n)"
  using assms
  by (auto simp: token_for_installation_def Let_def map_of_dict_put split: option.splits prod.splits)

text \<open>
  The app is installed for a repository as \<open>i\<close>, and stays so in the worlds \<open>W\<close>: looking it up gives \<open>i\<close> and \<open>i\<close> gives
  tokens; other installations may or may not.
\<close>

definition installed :: "'w github_app \<Rightarrow> 'w set \<Rightarrow> string \<Rightarrow> string \<Rightarrow> int \<Rightarrow> bool" where
  "installed g W owner name i \<longleftrightarrow>
     (\<forall>w \<in> W. fst (find_installation g owner name w) \<in> W \<and> snd (find_installation g owner name w) = Some i) \<and>
     (\<forall>w \<in> W. \<forall>j n. fst (installation_token g j n w) \<in> W) \<and> (\<forall>w \<in> W. \<forall>n. snd (installation_token g i n w) \<noteq> None)"

definition token_of :: "'w github_app \<Rightarrow> 'w set \<Rightarrow> int \<Rightarrow> string \<Rightarrow> bool" where
  "token_of g W j t \<longleftrightarrow> (\<exists>n. \<exists>w \<in> W. snd (installation_token g j n w) = Some t)"

lemma installation_id_installed:
  assumes "installed g W owner name i" and "w \<in> W" and "tp_default_installation_id p = None"
    and "CHR ''/'' \<notin> set owner" and "owner \<noteq> []" and "name \<noteq> []" and "repo = owner @ ''/'' @ name"
  obtains p1 w1 j where "installation_id g repo (p, w) = ((p1, w1), Inr j)" "w1 \<in> W" "tp_default_installation_id p1 = None"
    "map_of (tp_installation_ids p1) = (map_of (tp_installation_ids p))(normalized_name repo \<mapsto> j)"
    "map_of (tp_installation_ids p) (normalized_name repo) = Some j \<or> map_of (tp_installation_ids p) (normalized_name repo) = None \<and> j = i"
proof (cases "map_of (tp_installation_ids p) (normalized_name repo)")
  case None
  obtain w1 x where f: "find_installation g owner name w = (w1, x)" by (cases "find_installation g owner name w") auto
  with assms(1,2) have "w1 \<in> W" "x = Some i" by (auto simp: installed_def)
  with None f assms(3-7) show ?thesis
    by (intro that[of "p\<lparr>tp_installation_ids := dict_put (normalized_name repo) i (tp_installation_ids p)\<rparr>" w1 i])
      (simp_all add: installation_id_def partition_slash_first[simplified] map_of_dict_put)
next
  case (Some j)
  with assms(2,3) show ?thesis
    by (intro that[of p w j]) (auto simp: installation_id_def)
qed

text \<open>
  C34. A token is found for every repository the app is installed for, however stale the caches are: also when the app was
  removed and installed again, its new installation is found, remembered and used unless the old one still gives tokens;
  what is remembered of other repositories stays.
\<close>

theorem tokens_survive_reinstallation:
  assumes "installed g W owner name i" and "w \<in> W" and "tp_default_installation_id p = None"
    and "CHR ''/'' \<notin> set owner \<and> owner \<noteq> [] \<and> name \<noteq> [] \<and> repo = owner @ ''/'' @ name"
    and "app_get_token g repo (p, w) = ((p', w'), r)"
  shows "w' \<in> W \<and> (\<exists>j t. r = Inr t \<and> token_of g W j t \<and>
      (j = i \<or> map_of (tp_installation_ids p) (normalized_name repo) = Some j) \<and>
      map_of (tp_installation_ids p') = (map_of (tp_installation_ids p))(normalized_name repo \<mapsto> j))"
proof -
  let ?k = "normalized_name repo"
  have nm: "CHR ''/'' \<notin> set owner" "owner \<noteq> []" "name \<noteq> []" "repo = owner @ ''/'' @ name" using assms(4) by auto
  obtain p1 w1 j where 1: "installation_id g repo (p, w) = ((p1, w1), Inr j)" "w1 \<in> W" "tp_default_installation_id p1 = None"
      "map_of (tp_installation_ids p1) = (map_of (tp_installation_ids p))(?k \<mapsto> j)"
      "map_of (tp_installation_ids p) ?k = Some j \<or> map_of (tp_installation_ids p) ?k = None \<and> j = i"
    by (rule installation_id_installed[OF assms(1-3) nm])
  obtain p2 w2 x where 2: "token_for_installation g j (p1, w1) = ((p2, w2), x)"
    by (cases "token_for_installation g j (p1, w1)") auto
  note e2 = token_for_installation_effect[OF 2]
  then obtain n where n: "installation_token g j n w1 = (w2, x)" by blast
  have w2: "w2 \<in> W" using assms(1) 1(2) n by (auto simp: installed_def dest!: bspec[of W _ w1] spec[of _ j] spec[of _ n])
  show ?thesis
  proof (cases x)
    case (Some t)
    then have "p' = p2" "w' = w2" "r = Inr t" using assms(5) 1(1) 2 by (simp_all add: app_get_token_def)
    moreover have "token_of g W j t" using n Some 1(2) by (auto simp: token_of_def intro!: exI[of _ n] bexI[of _ w1])
    ultimately show ?thesis using w2 e2 1(4,5) by auto
  next
    case None
    let ?p = "p2\<lparr>tp_installation_ids := forget ?k (tp_installation_ids p2), tp_installation_auth := forget j (tp_installation_auth p2)\<rparr>"
    have d: "tp_default_installation_id ?p = None" using e2 1(3) by simp
    obtain p3 w3 l where 3: "installation_id g repo (?p, w2) = ((p3, w3), Inr l)" "w3 \<in> W"
        "map_of (tp_installation_ids p3) = (map_of (tp_installation_ids ?p))(?k \<mapsto> l)"
        "map_of (tp_installation_ids ?p) ?k = Some l \<or> map_of (tp_installation_ids ?p) ?k = None \<and> l = i"
      by (rule installation_id_installed[OF assms(1) w2 d nm])
    then have li: "l = i" by simp
    obtain p4 w4 y where 4: "token_for_installation g l (p3, w3) = ((p4, w4), y)"
      by (cases "token_for_installation g l (p3, w3)") auto
    note e4 = token_for_installation_effect[OF 4]
    then obtain m where m: "installation_token g l m w3 = (w4, y)" by blast
    have "w4 \<in> W" "y \<noteq> None"
      using assms(1) 3(2) li m by (auto simp: installed_def dest!: bspec[of W _ w3] spec[of _ l] spec[of _ m])
    then obtain t where t: "y = Some t" by blast
    have "p' = p4" "w' = w4" "r = Inr t"
      using assms(5) 1(1) 2 3(1) 4 None t e2 1(3) by (simp_all add: app_get_token_def)
    moreover have "token_of g W l t" using m t 3(2) by (auto simp: token_of_def intro!: exI[of _ m] bexI[of _ w3])
    moreover have "map_of (tp_installation_ids p4) = (map_of (tp_installation_ids p))(?k \<mapsto> l)"
      using e4 3(3) e2 1(4) by (auto simp: fun_eq_iff)
    ultimately show ?thesis using \<open>w4 \<in> W\<close> li by auto
  qed
qed

text \<open>An app that was installed again as 7, with the repository cached under 3\<close>

definition moved_app :: "unit github_app" where
  "moved_app =
     \<lparr>find_installation = (\<lambda>owner name w. (w, Some 7)),
      installation_token = (\<lambda>i n w. (w, if i = 7 then Some ''fresh'' else None)), app_installation = (\<lambda>i w. (w, None))\<rparr>"

definition stale_provider :: app_provider where
  "stale_provider =
     \<lparr>tp_default_installation_id = None, tp_installation_ids = [(''acme/x'', 3)], tp_installation_auth = [(3, 0)], tp_made = 1\<rparr>"

theorem tokens_survive_reinstallation_witness:
  "\<exists>j t. app_get_token moved_app ''Acme/x'' (stale_provider, ()) =
      ((\<lparr>tp_default_installation_id = None, tp_installation_ids = [(''acme/x'', 7)], tp_installation_auth = [(7, 1)], tp_made = 2\<rparr>, ()),
       Inr t) \<and> (j = 7 \<or> j = 3) \<and> token_of moved_app UNIV j t"
proof -
  have i: "installed moved_app UNIV ''Acme'' ''x'' 7" by (simp add: installed_def moved_app_def)
  have r: "app_get_token moved_app ''Acme/x'' (stale_provider, ()) =
      ((\<lparr>tp_default_installation_id = None, tp_installation_ids = [(''acme/x'', 7)], tp_installation_auth = [(7, 1)], tp_made = 2\<rparr>, ()),
       Inr ''fresh'')"
    by code_simp
  have d: "tp_default_installation_id stale_provider = None" by (simp add: stale_provider_def)
  have m: "map_of (tp_installation_ids stale_provider) (normalized_name ''Acme/x'') = Some 3" by code_simp
  show ?thesis
    using tokens_survive_reinstallation[OF i UNIV_I d _ r] m r by auto
qed

end
