(* ===== verification/Diagnostics.thy ===== *)
theory Diagnostics
  imports Tokens ProviderApi
begin

text \<open>
  The permission diagnostics of \<open>integrations/platform_diagnostics.py\<close>: what is asked of a provider, with reading requests
  only, and what its answers prove about the configured credentials.
\<close>

section \<open>Requests and verdicts\<close>

record diagnostic_request =
  dq_provider :: string
  dq_repo_full_name :: string
  dq_pull_request_number :: "int option"

definition name_char :: "char \<Rightarrow> bool" where
  "name_char c \<longleftrightarrow> c \<in> set letters \<or> is_digit c \<or> c \<in> set ''_.-''"

definition key_char :: "char \<Rightarrow> bool" where
  "key_char c \<longleftrightarrow> c \<in> set ''abcdefghijklmnopqrstuvwxyz'' \<or> is_digit c"

text \<open>The two patterns and the check of the path segments\<close>

definition diagnostic_request_fields :: "diagnostic_request \<Rightarrow> bool" where
  "diagnostic_request_fields q \<longleftrightarrow>
     (case dq_provider q of [] \<Rightarrow> False | c # cs \<Rightarrow> key_char c \<and> list_all (\<lambda>x. key_char x \<or> x \<in> set ''_-'') cs) \<and>
     length (dq_provider q) \<le> 64 \<and> 3 \<le> length (dq_repo_full_name q) \<and> length (dq_repo_full_name q) \<le> 512 \<and>
     (let parts = split_on (CHR ''/'') (dq_repo_full_name q)
      in 2 \<le> length parts \<and> list_all (\<lambda>s. s \<noteq> [] \<and> list_all name_char s \<and> s \<notin> {''.'', ''..''}) parts) \<and>
     opt_all (\<lambda>n. 0 < n) (dq_pull_request_number q)"

record permission_check =
  ck_name :: string
  ck_status :: string
  ck_required :: bool
  ck_message :: string

record diagnostic_response =
  dr_provider :: string
  dr_repo_full_name :: string
  dr_pull_request_number :: "int option"
  dr_status :: string
  dr_token_configured :: bool
  dr_reported_scopes :: "string list"
  dr_repository_role :: "string option"
  dr_rate_limit_remaining :: "int option"
  dr_checks :: "permission_check list"

definition check :: "string \<Rightarrow> string \<Rightarrow> string \<Rightarrow> permission_check" where
  "check name status message = \<lparr>ck_name = name, ck_status = status, ck_required = True, ck_message = message\<rparr>"

definition overall_status :: "permission_check list \<Rightarrow> string" where
  "overall_status checks =
     (let statuses = map ck_status (filter ck_required checks)
      in if ''failed'' \<in> set statuses then ''failed''
         else if ''unknown'' \<in> set statuses \<or> ''skipped'' \<in> set statuses then ''degraded''
         else ''healthy'')"

definition response_of ::
  "diagnostic_request \<Rightarrow> permission_check list \<Rightarrow> bool \<Rightarrow> string list \<Rightarrow> string option \<Rightarrow> int option \<Rightarrow> diagnostic_response" where
  "response_of q checks configured scopes role rate =
     \<lparr>dr_provider = dq_provider q, dr_repo_full_name = dq_repo_full_name q, dr_pull_request_number = dq_pull_request_number q,
      dr_status = overall_status checks, dr_token_configured = configured, dr_reported_scopes = scopes,
      dr_repository_role = role, dr_rate_limit_remaining = rate, dr_checks = checks\<rparr>"

definition unconfigured :: "diagnostic_request \<Rightarrow> string \<Rightarrow> diagnostic_response" where
  "unconfigured q message = response_of q [check ''token_configured'' ''failed'' message] False [] None None"

definition credential_failure :: "diagnostic_request \<Rightarrow> diagnostic_response" where
  "credential_failure q =
     response_of q [check ''token_available'' ''failed''
       ''GitHub credentials are configured, but a repository token could not be obtained.''] True [] None None"

definition unreachable :: "diagnostic_request \<Rightarrow> string \<Rightarrow> diagnostic_response" where
  "unreachable q provider =
     response_of q [check ''provider_api_reachable'' ''failed'' (''Could not reach the '' @ provider @ '' API.'')] True [] None None"

definition denied :: "diagnostic_request \<Rightarrow> string \<Rightarrow> int \<Rightarrow> string list \<Rightarrow> int option \<Rightarrow> diagnostic_response" where
  "denied q provider status scopes rate =
     response_of q [check ''repository_read'' ''failed''
       (provider @ '' returned HTTP '' @ show_int status @ ''; the token is invalid, expired, or cannot access this repository.'')]
       True scopes None rate"

section \<open>Reading the provider\<close>

text \<open>
  \<open>client.get\<close>: a status, the headers under lower-case names and the body (\<open>None\<close> when it is not JSON), a request
  error, which is caught, or any other exception. It is given the base URL, the client's headers and the path.
\<close>

datatype probe_reply = Got int "(string \<times> string) list" "json option" | NoAnswer | Fault err

type_synonym 'w probe = "string \<Rightarrow> (string \<times> string) list \<Rightarrow> string \<Rightarrow> 'w \<Rightarrow> 'w \<times> probe_reply"

definition json_object :: "json option \<Rightarrow> dict" where
  "json_object body = (case body of Some (JObj kvs) \<Rightarrow> kvs | _ \<Rightarrow> [])"

definition header_list :: "(string \<times> string) list \<Rightarrow> string \<Rightarrow> string list" where
  "header_list hs name =
     sort (remdups (filter (\<lambda>s. s \<noteq> []) (map str_strip (split_on (CHR '','') (or_else (map_of hs name) [])))))"

definition header_int :: "(string \<times> string) list \<Rightarrow> string \<Rightarrow> int option" where
  "header_int hs name = (case map_of hs name of None \<Rightarrow> None | Some s \<Rightarrow> int_of_str s)"

definition read_check :: "string \<Rightarrow> string \<Rightarrow> probe_reply \<Rightarrow> err + permission_check" where
  "read_check name what r =
     (case r of
        Fault x \<Rightarrow> Inl x
      | NoAnswer \<Rightarrow> Inr (check name ''failed'' (''Could not reach the provider API to read the '' @ what @ ''.''))
      | Got n hs body \<Rightarrow>
          Inr (if n = 200 then check name ''passed'' (''The configured token can read the '' @ what @ ''.'')
               else check name ''failed'' (''The provider returned HTTP '' @ show_int n @ '' for the '' @ what @ ''.'')))"

definition pr_check :: "(string \<Rightarrow> 'w \<Rightarrow> 'w \<times> probe_reply) \<Rightarrow> diagnostic_request \<Rightarrow> string \<Rightarrow> string \<Rightarrow> 'w \<Rightarrow> 'w \<times> (err + permission_check)" where
  "pr_check get q path what w =
     (case dq_pull_request_number q of
        None \<Rightarrow> (w, Inr (check ''pull_request_read'' ''skipped'' ''No pull_request_number was supplied.''))
      | Some n \<Rightarrow> (case get (path @ show_int n) w of (w1, r) \<Rightarrow> (w1, read_check ''pull_request_read'' what r)))"

section \<open>GitHub\<close>

definition quoted_path :: "string \<Rightarrow> string" where
  "quoted_path s = concat (map (\<lambda>c. if c = CHR ''/'' then [c] else quoted_char c) s)"

definition github_role :: "dict \<Rightarrow> string option" where
  "github_role permissions =
     first_row (\<lambda>role. jget permissions role = JBool True) [''admin'', ''maintain'', ''push'', ''triage'', ''pull'']"

definition app_write_checks :: "(string \<times> string) list \<Rightarrow> permission_check list" where
  "app_write_checks permissions =
     map (\<lambda>(name, permission, label).
        if map_of permissions permission = Some ''write''
        then check name ''passed'' (''The GitHub App Installation grants '' @ label @ '' write access.'')
        else check name ''failed'' (''The GitHub App Installation lacks '' @ label @ '' write access.''))
       [(''summary_comment_write'', ''issues'', ''Issues''), (''line_comment_write'', ''pull_requests'', ''Pull requests'')]"

definition token_write_checks :: "string list \<Rightarrow> string option \<Rightarrow> permission_check list" where
  "token_write_checks oauth_scopes role =
     map (\<lambda>(name, label).
        if ''repo'' \<in> set oauth_scopes \<or> ''public_repo'' \<in> set oauth_scopes
        then check name ''passed'' (''The reported OAuth scope permits '' @ label @ '' writes.'')
        else check name ''unknown''
          (''Repository role '' @ (case role of None \<Rightarrow> ''None'' | Some r \<Rightarrow> repr_str r) @
           '' was reported, but GitHub does not expose this token's fine-grained '' @ label @ '' grant on a read-only request.''))
       [(''summary_comment_write'', ''issue comment''), (''line_comment_write'', ''pull request review comment'')]"

definition contents_check :: "(string \<times> string) list \<Rightarrow> permission_check" where
  "contents_check permissions =
     (if map_of permissions ''contents'' \<in> {Some ''read'', Some ''write''}
      then check ''contents_read'' ''passed'' ''The GitHub App Installation grants repository contents read.''
      else check ''contents_read'' ''failed'' ''The GitHub App Installation lacks Contents read access.'')"

text \<open>The permissions of an App as reported scopes\<close>

definition permission_scopes :: "(string \<times> string) list \<Rightarrow> string list" where
  "permission_scopes permissions = sort (map (\<lambda>(name, level). name @ '':'' @ level) permissions)"

text \<open>The answer to the first request, and the pull request read after it\<close>

definition github_verdict ::
  "(string \<Rightarrow> 'w \<Rightarrow> 'w \<times> probe_reply) \<Rightarrow> diagnostic_request \<Rightarrow> (string \<times> string) list option \<Rightarrow> 'w \<times> probe_reply \<Rightarrow>
   'w \<times> (err + diagnostic_response)" where
  "github_verdict get q app_permissions r =
     (case r of
        (w, Fault x) \<Rightarrow> (w, Inl x)
      | (w, NoAnswer) \<Rightarrow> (w, Inr (unreachable q ''GitHub''))
      | (w, Got n hs body) \<Rightarrow>
          (let oauth = header_list hs ''x-oauth-scopes'';
               scopes = (case app_permissions of Some ps \<Rightarrow> permission_scopes ps | None \<Rightarrow> oauth);
               rate = header_int hs ''x-ratelimit-remaining''
           in if n \<noteq> 200 then (w, Inr (denied q ''GitHub'' n scopes rate))
              else (let permissions = (case jget (json_object body) ''permissions'' of JObj kvs \<Rightarrow> kvs | _ \<Rightarrow> []);
                        role = (if app_permissions \<noteq> None then Some ''installation'' else github_role permissions)
                    in case pr_check get q (''/repos/'' @ quoted_path (dq_repo_full_name q) @ ''/pulls/'') ''pull request'' w of
                         (w1, Inl x) \<Rightarrow> (w1, Inl x)
                       | (w1, Inr c) \<Rightarrow>
                           (w1, Inr (response_of q
                              ([check ''repository_read'' ''passed'' ''The configured token can read the repository.''] @
                               (case app_permissions of Some ps \<Rightarrow> [contents_check ps] | None \<Rightarrow> []) @ [c] @
                               (case app_permissions of Some ps \<Rightarrow> app_write_checks ps | None \<Rightarrow> token_write_checks oauth role))
                              True scopes role rate)))))"

text \<open>\<open>get_token\<close> and \<open>get_permissions\<close> fail with the client's own errors, which are caught.\<close>

definition diagnose_github_permissions ::
  "'w github_app \<Rightarrow> (token_provider \<times> 'w) probe \<Rightarrow> string \<Rightarrow> diagnostic_request \<Rightarrow> token_provider \<times> 'w \<Rightarrow>
   (token_provider \<times> 'w) \<times> (err + diagnostic_response)" where
  "diagnose_github_permissions g get base q s =
     (case provider_get_token g (dq_repo_full_name q) s of
        (s1, Inl m) \<Rightarrow> (s1, Inr (credential_failure q))
      | (s1, Inr token) \<Rightarrow>
          (case provider_get_permissions g (dq_repo_full_name q) s1 of
             (s2, Inl m) \<Rightarrow> (s2, Inr (credential_failure q))
           | (s2, Inr permissions) \<Rightarrow>
               (if \<not> has_text token
                then (s2, Inr (unconfigured q ''GitHub App or static token credentials are not configured.''))
                else (let ask = get (rstrip_slash base)
                            [(''Accept'', ''application/vnd.github+json''), (''Authorization'', ''Bearer '' @ the token),
                             (''X-GitHub-Api-Version'', ''2022-11-28'')]
                      in github_verdict ask q permissions (ask (''/repos/'' @ quoted_path (dq_repo_full_name q)) s2)))))"

section \<open>GitLab\<close>

text \<open>\<open>isinstance(value, int)\<close> holds of truth values as well.\<close>

definition gitlab_access_level :: "json \<Rightarrow> int option" where
  "gitlab_access_level permissions =
     (case permissions of
        JObj kvs \<Rightarrow>
          (case List.map_filter (\<lambda>key. case jget kvs key of JObj access \<Rightarrow> int_or_none (jget access ''access_level'') | _ \<Rightarrow> None)
                  [''project_access'', ''group_access''] of
             [] \<Rightarrow> None
           | n # ns \<Rightarrow> Some (foldl max n ns))
      | _ \<Rightarrow> None)"

definition gitlab_roles :: "(int \<times> string) list" where
  "gitlab_roles = [(50, ''owner''), (40, ''maintainer''), (30, ''developer''), (20, ''reporter''), (10, ''guest'')]"

definition gitlab_role :: "int option \<Rightarrow> string option" where
  "gitlab_role level =
     (case level of
        None \<Rightarrow> None
      | Some n \<Rightarrow> (case first_row (\<lambda>(threshold, role). threshold \<le> n) gitlab_roles of
                     Some (threshold, role) \<Rightarrow> Some role
                   | None \<Rightarrow> Some ''minimal''))"

definition gitlab_write_checks :: "string list \<Rightarrow> int option \<Rightarrow> permission_check list" where
  "gitlab_write_checks scopes level =
     (let verified = (''api'' \<in> set scopes \<or> (case level of None \<Rightarrow> False | Some n \<Rightarrow> 30 \<le> n))
      in [if verified
          then check ''summary_comment_write'' ''passed'' ''The reported scope or project role permits merge request notes.''
          else check ''summary_comment_write'' ''unknown''
            ''GitLab did not report an API scope or project role that can prove note write access without creating a note.'',
          if verified
          then check ''line_comment_write'' ''passed'' ''The reported scope or project role permits merge request discussions.''
          else check ''line_comment_write'' ''unknown''
            ''GitLab did not report enough information to prove discussion write access without creating a discussion.''])"

definition gitlab_verdict ::
  "(string \<Rightarrow> 'w \<Rightarrow> 'w \<times> probe_reply) \<Rightarrow> diagnostic_request \<Rightarrow> 'w \<times> probe_reply \<Rightarrow> 'w \<times> (err + diagnostic_response)" where
  "gitlab_verdict get q r =
     (case r of
        (w, Fault x) \<Rightarrow> (w, Inl x)
      | (w, NoAnswer) \<Rightarrow> (w, Inr (unreachable q ''GitLab''))
      | (w, Got n hs body) \<Rightarrow>
          (let scopes = header_list hs ''x-oauth-scopes''; rate = header_int hs ''ratelimit-remaining''
           in if n \<noteq> 200 then (w, Inr (denied q ''GitLab'' n scopes rate))
              else (let level = gitlab_access_level (jget (json_object body) ''permissions'')
                    in case pr_check get q (''/projects/'' @ quoted (dq_repo_full_name q) @ ''/merge_requests/'') ''merge request'' w of
                         (w1, Inl x) \<Rightarrow> (w1, Inl x)
                       | (w1, Inr c) \<Rightarrow>
                           (w1, Inr (response_of q
                              ([check ''repository_read'' ''passed'' ''The configured token can read the project.'', c] @
                               gitlab_write_checks scopes level)
                              True scopes (gitlab_role level) rate)))))"

definition diagnose_gitlab_permissions ::
  "'w probe \<Rightarrow> string \<Rightarrow> string option \<Rightarrow> diagnostic_request \<Rightarrow> 'w \<Rightarrow> 'w \<times> (err + diagnostic_response)" where
  "diagnose_gitlab_permissions get base token q w =
     (if \<not> has_text token then (w, Inr (unconfigured q ''GITLAB_API_TOKEN is not configured.''))
      else (let ask = get (rstrip_slash base) [(''Accept'', ''application/json''), (''PRIVATE-TOKEN'', the token)]
            in gitlab_verdict ask q (ask (''/projects/'' @ quoted (dq_repo_full_name q)) w)))"

section \<open>Choosing the provider\<close>

text \<open>
  The settings a platform is built with; without them it cannot be diagnosed. The adapters of the two keys are the
  program's own.
\<close>

record diagnostics_settings =
  dg_github_api_base_url :: string
  dg_gitlab_api_base_url :: string
  dg_gitlab_api_token :: "string option"

definition diagnose_permissions ::
  "'w github_app \<Rightarrow> (token_provider \<times> 'w) probe \<Rightarrow> diagnostics_settings option \<Rightarrow> bool \<Rightarrow> string \<Rightarrow> diagnostic_request \<Rightarrow>
   token_provider \<times> 'w \<Rightarrow> (token_provider \<times> 'w) \<times> (err + diagnostic_response)" where
  "diagnose_permissions g get config has_client key q s =
     (case config of
        None \<Rightarrow>
          (s, Inl (CapabilityError ((if key = ''github'' then ''GitHub'' else ''GitLab'') @ '' diagnostics settings are not configured.'')
                     (Some key) (Some ''diagnose_permissions'')))
      | Some st \<Rightarrow>
          (if key = ''github''
           then (if \<not> has_client
                 then (s, Inl (CapabilityError ''GitHub client is not configured.'' (Some ''github'') (Some ''diagnose_permissions'')))
                 else diagnose_github_permissions g get (dg_github_api_base_url st) q s)
           else diagnose_gitlab_permissions get (dg_gitlab_api_base_url st) (dg_gitlab_api_token st) q s))"

text \<open>\<open>diagnose\<close> is the method of the adapter with the given key; a registry of the call's own is built, and closed again.\<close>

definition diagnose_platform_permissions ::
  "(string \<Rightarrow> diagnostic_request \<Rightarrow> 's \<Rightarrow> 's \<times> (err + diagnostic_response)) \<Rightarrow> err + registry \<Rightarrow> registry option \<Rightarrow>
   diagnostic_request \<Rightarrow> 's \<Rightarrow> 's \<times> (err + diagnostic_response)" where
  "diagnose_platform_permissions diagnose built given q s =
     (case (case given of Some reg \<Rightarrow> Inr reg | None \<Rightarrow> built) of
        Inl x \<Rightarrow> (s, Inl x)
      | Inr reg \<Rightarrow>
          (case require_capability reg (dq_provider q) ''diagnostics'' ''diagnose_permissions'' of
             Inl x \<Rightarrow> (s, Inl x)
           | Inr a \<Rightarrow> diagnose (ad_key a) q s))"

section \<open>What a verdict rests on\<close>

lemma check_simps [simp]:
  "ck_name (check n st m) = n" "ck_status (check n st m) = st" "ck_required (check n st m)" "ck_message (check n st m) = m"
  by (simp_all add: check_def)

definition statuses :: "string set" where
  "statuses = {''passed'', ''failed'', ''unknown'', ''skipped''}"

definition sound_checks :: "permission_check list \<Rightarrow> bool" where
  "sound_checks cs \<longleftrightarrow> cs \<noteq> [] \<and> list_all (\<lambda>c. ck_required c \<and> ck_status c \<in> statuses) cs"

lemma overall_status_sound:
  assumes "sound_checks cs"
  shows "(overall_status cs = ''healthy'' \<longleftrightarrow> list_all (\<lambda>c. ck_status c = ''passed'') cs) \<and>
     (overall_status cs = ''failed'' \<longleftrightarrow> (\<exists>c \<in> set cs. ck_status c = ''failed'')) \<and>
     overall_status cs \<in> {''healthy'', ''degraded'', ''failed''}"
proof -
  have req: "filter ck_required cs = cs" using assms by (simp add: sound_checks_def list_all_iff)
  define S where "S = ck_status ` set cs"
  have S: "S \<subseteq> statuses" using assms by (auto simp: sound_checks_def list_all_iff S_def)
  have ov: "overall_status cs = (if ''failed'' \<in> S then ''failed'' else if ''unknown'' \<in> S \<or> ''skipped'' \<in> S then ''degraded'' else ''healthy'')"
    by (simp add: overall_status_def req S_def)
  have passed: "list_all (\<lambda>c. ck_status c = ''passed'') cs \<longleftrightarrow> S \<subseteq> {''passed''}"
    by (auto simp: list_all_iff S_def)
  have failed: "(\<exists>c \<in> set cs. ck_status c = ''failed'') \<longleftrightarrow> ''failed'' \<in> S" by (force simp: S_def)
  show ?thesis unfolding passed failed using S by (auto simp: ov statuses_def)
qed

text \<open>The access a provider reports that lets a token comment on lines\<close>

definition write_evidence :: "string \<Rightarrow> diagnostic_response \<Rightarrow> bool" where
  "write_evidence key r \<longleftrightarrow>
     (if key = ''github'' then set (dr_reported_scopes r) \<inter> {''pull_requests:write'', ''repo'', ''public_repo''} \<noteq> {}
      else ''api'' \<in> set (dr_reported_scopes r) \<or> dr_repository_role r \<in> {Some ''developer'', Some ''maintainer'', Some ''owner''})"

definition check_passed :: "string \<Rightarrow> diagnostic_response \<Rightarrow> bool" where
  "check_passed name r \<longleftrightarrow> list_ex (\<lambda>c. ck_name c = name \<and> ck_status c = ''passed'') (dr_checks r)"

definition honest :: "string \<Rightarrow> diagnostic_request \<Rightarrow> diagnostic_response \<Rightarrow> bool" where
  "honest key q r \<longleftrightarrow>
     sound_checks (dr_checks r) \<and> dr_status r = overall_status (dr_checks r) \<and>
     (list_all (\<lambda>c. ck_status c = ''passed'') (dr_checks r) \<longrightarrow>
        dr_token_configured r \<and> dq_pull_request_number q \<noteq> None \<and>
        list_all (\<lambda>name. check_passed name r) [''repository_read'', ''pull_request_read'', ''summary_comment_write'', ''line_comment_write'']) \<and>
     (check_passed ''line_comment_write'' r \<longrightarrow> check_passed ''repository_read'' r \<and> write_evidence key r)"

lemma honest_failures [simp]:
  "honest key q (unconfigured q m)" "honest key q (credential_failure q)" "honest key q (unreachable q p)"
  "honest key q (denied q p n scopes rate)"
  by (simp_all add: honest_def unconfigured_def credential_failure_def unreachable_def denied_def response_of_def check_passed_def
      sound_checks_def statuses_def)

lemma read_check_shape:
  "read_check name what r = Inr c \<Longrightarrow> ck_name c = name \<and> ck_required c \<and> ck_status c \<in> {''passed'', ''failed''}"
  by (auto simp: read_check_def split: probe_reply.splits if_splits)

lemma pr_check_shape:
  "pr_check get q path what w = (w', Inr c) \<Longrightarrow> ck_name c = ''pull_request_read'' \<and> ck_required c \<and>
     ck_status c \<in> {''passed'', ''failed'', ''skipped''} \<and> (ck_status c = ''passed'' \<longrightarrow> dq_pull_request_number q \<noteq> None)"
  by (auto simp: pr_check_def dest: read_check_shape split: option.splits prod.splits)

lemma permission_scope:
  "map_of ps n = Some l \<Longrightarrow> n @ '':'' @ l \<in> set (permission_scopes ps)"
  by (force simp: permission_scopes_def dest: map_of_SomeD)

lemma permission_evidence:
  "map_of ps ''pull_requests'' = Some ''write'' \<Longrightarrow> ''pull_requests:write'' \<in> set (permission_scopes ps)"
  using permission_scope[of ps "''pull_requests''" "''write''"] by simp

text \<open>The checks of a complete diagnosis: reading, what only some providers report, the pull request, two ways of writing\<close>

lemma honest_response:
  assumes "ck_name c = ''pull_request_read'' \<and> ck_required c \<and> ck_status c \<in> {''passed'', ''failed'', ''skipped''} \<and>
      (ck_status c = ''passed'' \<longrightarrow> dq_pull_request_number q \<noteq> None)"
    and "list_all (\<lambda>x. ck_name x = ''contents_read'' \<and> ck_required x \<and> ck_status x \<in> statuses) extra"
    and "map ck_name writes = [''summary_comment_write'', ''line_comment_write'']"
    and "list_all (\<lambda>x. ck_required x \<and> ck_status x \<in> statuses) writes"
    and "list_ex (\<lambda>x. ck_name x = ''line_comment_write'' \<and> ck_status x = ''passed'') writes \<Longrightarrow>
        write_evidence key (response_of q [] True scopes role rate)"
  shows "honest key q (response_of q ([check ''repository_read'' ''passed'' m] @ extra @ [c] @ writes) True scopes role rate)"
proof -
  let ?cs = "[check ''repository_read'' ''passed'' m] @ extra @ [c] @ writes"
  have ev: "write_evidence key (response_of q ?cs True scopes role rate) = write_evidence key (response_of q [] True scopes role rate)"
    by (simp add: write_evidence_def response_of_def)
  have st: "ck_status c \<in> statuses" using assms(1) by (auto simp: statuses_def)
  obtain w1 w2 where w: "writes = [w1, w2]" "ck_name w1 = ''summary_comment_write''" "ck_name w2 = ''line_comment_write''"
    using assms(3) by auto
  have "sound_checks ([check ''repository_read'' ''passed'' m] @ extra @ [c] @ writes)"
    using assms(1,2,4) st by (auto simp: sound_checks_def statuses_def list_all_iff)
  moreover have "list_ex (\<lambda>x. ck_name x = ''line_comment_write'' \<and> ck_status x = ''passed'')
      ([check ''repository_read'' ''passed'' m] @ extra @ [c] @ writes) \<Longrightarrow>
      list_ex (\<lambda>x. ck_name x = ''line_comment_write'' \<and> ck_status x = ''passed'') writes"
    using assms(1,2) by (auto simp: list_ex_iff list_all_iff)
  ultimately show ?thesis
    unfolding honest_def check_passed_def ev using assms(1,5) w by (auto simp: response_of_def)
qed

lemma github_verdict_honest:
  assumes "github_verdict get q ps r = (w', Inr d)"
  shows "honest ''github'' q d"
proof -
  obtain w rep where r: "r = (w, rep)" by (cases r)
  show ?thesis
  proof (cases "\<exists>hs body. rep = Got 200 hs body")
    case False
    then show ?thesis
      using assms r by (auto simp: github_verdict_def Let_def split: probe_reply.splits if_splits)
  next
    case True
    then obtain hs body where rep: "rep = Got 200 hs body" by blast
    let ?oauth = "header_list hs ''x-oauth-scopes''"
    obtain role c where c: "pr_check get q (''/repos/'' @ quoted_path (dq_repo_full_name q) @ ''/pulls/'') ''pull request'' w = (w', Inr c)"
      and d: "d = response_of q ([check ''repository_read'' ''passed'' ''The configured token can read the repository.''] @
          (case ps of Some p \<Rightarrow> [contents_check p] | None \<Rightarrow> []) @ [c] @
          (case ps of Some p \<Rightarrow> app_write_checks p | None \<Rightarrow> token_write_checks ?oauth role))
          True (case ps of Some p \<Rightarrow> permission_scopes p | None \<Rightarrow> ?oauth) role (header_int hs ''x-ratelimit-remaining'')"
      using assms r rep by (auto simp: github_verdict_def Let_def simp del: append.simps split: prod.splits sum.splits)
    show ?thesis
    proof (cases ps)
      case None
      show ?thesis
        unfolding d None option.case
        by (rule honest_response[OF pr_check_shape[OF c]])
          (auto simp: token_write_checks_def statuses_def write_evidence_def response_of_def split: if_splits)
    next
      case (Some p)
      show ?thesis
        unfolding d Some option.case
        by (rule honest_response[OF pr_check_shape[OF c]])
          (auto simp: app_write_checks_def contents_check_def statuses_def write_evidence_def response_of_def dest: permission_evidence split: if_splits)
    qed
  qed
qed

lemma gitlab_role_developer:
  "30 \<le> n \<Longrightarrow> gitlab_role (Some n) \<in> {Some ''developer'', Some ''maintainer'', Some ''owner''}"
  by (auto simp: gitlab_role_def gitlab_roles_def)

lemma gitlab_verdict_honest:
  assumes "gitlab_verdict get q r = (w', Inr d)" and "key \<noteq> ''github''"
  shows "honest key q d"
proof -
  obtain w rep where r: "r = (w, rep)" by (cases r)
  show ?thesis
  proof (cases "\<exists>hs body. rep = Got 200 hs body")
    case False
    then show ?thesis
      using assms r by (auto simp: gitlab_verdict_def Let_def split: probe_reply.splits if_splits)
  next
    case True
    then obtain hs body where rep: "rep = Got 200 hs body" by blast
    let ?level = "gitlab_access_level (jget (json_object body) ''permissions'')"
    obtain c where c: "pr_check get q (''/projects/'' @ quoted (dq_repo_full_name q) @ ''/merge_requests/'') ''merge request'' w = (w', Inr c)"
      and d: "d = response_of q ([check ''repository_read'' ''passed'' ''The configured token can read the project.''] @ [] @ [c] @
          gitlab_write_checks (header_list hs ''x-oauth-scopes'') ?level)
          True (header_list hs ''x-oauth-scopes'') (gitlab_role ?level) (header_int hs ''ratelimit-remaining'')"
      using assms r rep by (auto simp: gitlab_verdict_def Let_def split: prod.splits sum.splits)
    show ?thesis
      unfolding d
      by (rule honest_response[OF pr_check_shape[OF c]])
        (use assms(2) gitlab_role_developer in \<open>auto simp: gitlab_write_checks_def Let_def statuses_def write_evidence_def response_of_def
          split: if_splits option.splits\<close>)
  qed
qed

text \<open>
  C35. A diagnosis is honest: it is healthy exactly when every check passed, and then a token was configured, the repository
  and a pull request were read and both ways of commenting are allowed; it is failed exactly when a check failed; and the
  right to comment on lines is confirmed only of a repository that was read and on the word of the provider, through the
  scopes or the role that are reported with it.
\<close>

theorem diagnosis_is_honest:
  assumes "diagnose_permissions g get config has_client key q s = (s', Inr d)"
  shows "(dr_status d = ''healthy'' \<longleftrightarrow> list_all (\<lambda>c. ck_status c = ''passed'') (dr_checks d)) \<and>
     (dr_status d = ''failed'' \<longleftrightarrow> (\<exists>c \<in> set (dr_checks d). ck_status c = ''failed'')) \<and>
     (dr_status d = ''healthy'' \<longrightarrow> dr_token_configured d \<and> dq_pull_request_number q \<noteq> None \<and>
        list_all (\<lambda>name. check_passed name d)
          [''repository_read'', ''pull_request_read'', ''summary_comment_write'', ''line_comment_write'']) \<and>
     (check_passed ''line_comment_write'' d \<longrightarrow> check_passed ''repository_read'' d \<and> write_evidence key d)"
proof -
  have "honest key q d"
    using assms
    by (auto simp: diagnose_permissions_def diagnose_github_permissions_def diagnose_gitlab_permissions_def Let_def
        intro: github_verdict_honest gitlab_verdict_honest split: option.splits if_splits prod.splits sum.splits)
  then show ?thesis
    using overall_status_sound[of "dr_checks d"] unfolding honest_def by metis
qed

definition sample_probe :: "(token_provider \<times> unit) probe" where
  "sample_probe base hs path w =
     (w, if path = ''/repos/acme/x'' then Got 200 [(''x-oauth-scopes'', ''repo'')] (Some (JObj []))
         else if path = ''/repos/acme/x/pulls/7'' then Got 200 [] None else NoAnswer)"

definition sample_diagnosis :: "diagnostic_request \<Rightarrow> (token_provider \<times> unit) \<times> (err + diagnostic_response)" where
  "sample_diagnosis q =
     diagnose_permissions \<lparr>find_installation = (\<lambda>owner name w. (w, None)), installation_token = (\<lambda>i n w. (w, None)),
         app_installation = (\<lambda>i w. (w, None))\<rparr> sample_probe
       (Some \<lparr>dg_github_api_base_url = ''https://api.github.com'', dg_gitlab_api_base_url = [], dg_gitlab_api_token = None\<rparr>)
       True ''github'' q (StaticToken (Some ''t''), ())"

theorem diagnosis_is_honest_witness:
  "\<exists>d. sample_diagnosis \<lparr>dq_provider = ''github'', dq_repo_full_name = ''acme/x'', dq_pull_request_number = Some 7\<rparr> =
      ((StaticToken (Some ''t''), ()), Inr d) \<and> dr_status d = ''healthy'' \<and> dr_reported_scopes d = [''repo''] \<and>
      check_passed ''repository_read'' d \<and> write_evidence ''github'' d"
proof -
  let ?q = "\<lparr>dq_provider = ''github'', dq_repo_full_name = ''acme/x'', dq_pull_request_number = Some 7\<rparr>"
  have r: "case sample_diagnosis ?q of (s, Inr d) \<Rightarrow> s = (StaticToken (Some ''t''), ()) \<and> dr_status d = ''healthy'' \<and>
      dr_reported_scopes d = [''repo''] \<and> check_passed ''line_comment_write'' d | _ \<Rightarrow> False"
    by code_simp
  then obtain d where d: "sample_diagnosis ?q = ((StaticToken (Some ''t''), ()), Inr d)" "dr_status d = ''healthy''"
      "dr_reported_scopes d = [''repo'']" "check_passed ''line_comment_write'' d"
    by (auto split: prod.splits sum.splits)
  show ?thesis
    using diagnosis_is_honest[OF d(1)[unfolded sample_diagnosis_def]] d by blast
qed

end
