(* ===== verification/Api.thy ===== *)
theory Api
  imports Overview Intake Diagnostics
begin

text \<open>
  The HTTP interface of \<open>presentation/api.py\<close>: what each endpoint accepts, which operation it calls and which status and
  detail it answers with. Routing, parsing and serialization are the framework's; an endpoint is a function of its parsed
  parameters. The probe that tests inject into the diagnostics endpoint (\<open>platform_permission_probe\<close>) is left out.
\<close>

section \<open>Answers\<close>

text \<open>
  The detail of an \<open>HTTPException\<close>: none (the framework fills in the phrase of the status), a text, or one of the
  dictionaries built from a rejection or from the failure of a provider (its code, provider and operation; the message is the
  same for all of them).
\<close>

datatype detail =
    Phrase
  | Message string
  | Rejection string string string "string option"
  | ToolRejection string string
  | ResultRejection string string
  | ProviderFailure string "string option" "string option"

text \<open>A value with its status, an \<open>HTTPException\<close>, a request that does not validate, or an exception nobody catches\<close>

datatype 'a response = Answered int 'a | Http int detail | Unprocessable | Crashed err

fun status_code :: "'a response \<Rightarrow> int" where
  "status_code (Answered n v) = n"
| "status_code (Http n d) = n"
| "status_code Unprocessable = 422"
| "status_code (Crashed x) = 500"

definition answering :: "(err \<Rightarrow> 'b response) \<Rightarrow> ('a \<Rightarrow> db \<Rightarrow> 'b response) \<Rightarrow> db \<times> (err + 'a) \<Rightarrow> db \<times> 'b response" where
  "answering fails shows r = (case r of (db, Inl x) \<Rightarrow> (db, fails x) | (db, Inr v) \<Rightarrow> (db, shows v db))"

definition found :: "int \<Rightarrow> 'a option \<Rightarrow> 'a response" where
  "found n v = (case v of None \<Rightarrow> Http 404 Phrase | Some x \<Rightarrow> Answered n x)"

definition shown :: "err + 'a \<Rightarrow> 'a response" where
  "shown r = (case r of Inl x \<Rightarrow> Crashed x | Inr v \<Rightarrow> Answered 200 v)"

definition shown_if_found :: "int \<Rightarrow> err + 'a option \<Rightarrow> 'a response" where
  "shown_if_found n r = (case r of Inl x \<Rightarrow> Crashed x | Inr v \<Rightarrow> found n v)"

text \<open>\<open>except ReviewRunTransitionError\<close>, which the two rejections are instances of\<close>

fun transition :: "err \<Rightarrow> 'a response" where
  "transition (TransitionError m n) = Http n (Message m)"
| "transition (RequestRejected m c ev ex) = Http 409 (Message m)"
| "transition (ActionRejected m c) = Http 409 (Message m)"
| "transition x = Crashed x"

text \<open>\<open>except ReviewRequestRejected\<close>\<close>

fun rejection :: "err \<Rightarrow> 'a response" where
  "rejection (RequestRejected m c ev ex) = Http 409 (Rejection c m ev ex)"
| "rejection x = Crashed x"

fun tool_rejection :: "err \<Rightarrow> 'a response" where
  "tool_rejection (ActionRejected m c) = Http 409 (ToolRejection c m)"
| "tool_rejection x = rejection x"

fun result_rejection :: "err \<Rightarrow> 'a response" where
  "result_rejection (ResultError c m) = Http 422 (ResultRejection c m)"
| "result_rejection x = transition x"

section \<open>The application\<close>

text \<open>
  \<open>app.state\<close> and the settings the endpoints read. \<open>ap_connect\<close> makes a client of the agent runtime from its base URL,
  token and time-out; \<open>ap_links\<close>, \<open>ap_calls\<close>, \<open>ap_checkout\<close> and \<open>ap_diagnose\<close> are methods of the adapters, by key where
  they are called for a key; \<open>ap_plugin_webhook\<close> parses the webhooks of adapters from outside the program.
\<close>

record ('h, 's) app =
  ap_registry :: "registry option"
  ap_pi_client :: "pi_client option"
  ap_pi_base_url :: "string option"
  ap_pi_token :: "string option"
  ap_connect :: "string \<Rightarrow> string option \<Rightarrow> pi_client"
  ap_sessions :: session_settings
  ap_hooks :: hook_settings
  ap_github_webhook_secret :: "string option"
  ap_gitlab_webhook_secret :: "string option"
  ap_codec :: codec
  ap_plugin_webhook :: "string \<Rightarrow> (string \<times> string) list \<Rightarrow> string \<Rightarrow> webhook_failure + parsed_webhook"
  ap_calls :: adapter_calls
  ap_links :: "agent_task \<Rightarrow> err + string option"
  ap_checkout :: "string \<Rightarrow> string \<Rightarrow> string option \<Rightarrow> err + workspace_checkout"
  ap_diff :: "string \<Rightarrow> string option \<times> bool"
  ap_pydantic :: pydantic
  ap_host :: "'h host"
  ap_workspace_root :: string
  ap_git_cache_root :: string
  ap_diagnose :: "string \<Rightarrow> diagnostic_request \<Rightarrow> 's \<Rightarrow> 's \<times> (err + diagnostic_response)"

definition no_registry :: err where
  "no_registry = OtherError ''Provider registry was not initialized by the application.''"

definition configured_registry :: "('h, 's) app \<Rightarrow> err + registry" where
  "configured_registry ap = (case ap_registry ap of Some reg \<Rightarrow> Inr reg | None \<Rightarrow> Inl no_registry)"

definition runtime_missing :: string where
  "runtime_missing = ''pi-agent runtime base URL is not configured.''"

text \<open>\<open>get_pi_agent_client\<close> and \<open>get_optional_pi_agent_client\<close>\<close>

definition required_client :: "('h, 's) app \<Rightarrow> pi_client option" where
  "required_client ap =
     (case ap_pi_client ap of
        Some c \<Rightarrow> Some c
      | None \<Rightarrow> (if has_text (ap_pi_base_url ap) then Some (ap_connect ap (the (ap_pi_base_url ap)) (ap_pi_token ap)) else None))"

definition with_client :: "('h, 's) app \<Rightarrow> db \<Rightarrow> (pi_client \<Rightarrow> db \<times> 'a response) \<Rightarrow> db \<times> 'a response" where
  "with_client ap db f =
     (case required_client ap of None \<Rightarrow> (db, Http 503 (Message runtime_missing)) | Some c \<Rightarrow> f c)"

definition optional_client :: "('h, 's) app \<Rightarrow> pi_client option \<times> string option" where
  "optional_client ap = (case required_client ap of Some c \<Rightarrow> (Some c, None) | None \<Rightarrow> (None, Some runtime_missing))"

text \<open>
  The bearer credentials of a request are its scheme and token; the comparison with the expected token raises on text that
  is not ASCII. \<open>authorize\<close> is \<open>None\<close> when the request may go on.
\<close>

definition authorize :: "string \<Rightarrow> string \<Rightarrow> string option \<Rightarrow> (string \<times> string) option \<Rightarrow> 'a response option" where
  "authorize missing invalid expected credentials =
     (if \<not> has_text expected then Some (Http 503 (Message missing))
      else (case credentials of
              None \<Rightarrow> Some (Http 401 (Message invalid))
            | Some (scheme, supplied) \<Rightarrow>
                (if str_lower scheme \<noteq> ''bearer'' then Some (Http 401 (Message invalid))
                 else (case compare_digest supplied (the expected) of
                         Inl x \<Rightarrow> Some (Crashed x)
                       | Inr same \<Rightarrow> (if same then None else Some (Http 401 (Message invalid)))))))"

definition authorize_pi_agent_tool :: "('h, 's) app \<Rightarrow> (string \<times> string) option \<Rightarrow> 'a response option" where
  "authorize_pi_agent_tool ap =
     authorize ''pi-agent Tool callback token is not configured.'' ''Invalid pi-agent Tool callback token.'' (ap_pi_token ap)"

text \<open>Whom the authorization lets through, and how it answers the others\<close>

lemma authorize_None:
  "authorize missing invalid expected credentials = None \<longleftrightarrow>
     (\<exists>token scheme. expected = Some token \<and> token \<noteq> [] \<and> credentials = Some (scheme, token) \<and> str_lower scheme = ''bearer'' \<and>
        list_all (\<lambda>c. code c < 128) token)"
  by (auto simp: authorize_def compare_digest_def has_text_def split: option.splits prod.splits sum.splits if_splits)

lemma authorize_codes:
  "authorize missing invalid expected credentials = Some r \<Longrightarrow> status_code r \<in> {401, 500, 503}"
  by (auto simp: authorize_def split: option.splits prod.splits sum.splits if_splits)

lemma authorize_foreign:
  assumes "has_text expected" and "str_lower scheme = ''bearer''" and "list_ex (\<lambda>c. 128 \<le> code c) supplied"
  shows "authorize missing invalid expected (Some (scheme, supplied)) =
    Some (Crashed (TypeError ''comparing strings with non-ASCII characters is not supported''))"
proof -
  have "\<not> list_all (\<lambda>c. code c < 128) supplied" using assms(3) by (force simp: list_all_iff list_ex_iff)
  then show ?thesis using assms(1,2) by (simp add: authorize_def compare_digest_def)
qed

lemma authorize_closed: "\<not> has_text expected \<Longrightarrow> authorize missing invalid expected credentials = Some (Http 503 (Message missing))"
  by (simp add: authorize_def)

section \<open>Providers and webhooks\<close>

definition diagnose_platform_permissions_endpoint ::
  "('h, 's) app \<Rightarrow> diagnostic_request \<Rightarrow> 's \<Rightarrow> 's \<times> diagnostic_response response" where
  "diagnose_platform_permissions_endpoint ap q s =
     (if \<not> diagnostic_request_fields q then (s, Unprocessable)
      else (case configured_registry ap of
              Inl x \<Rightarrow> (s, Crashed x)
            | Inr reg \<Rightarrow>
                (case diagnose_platform_permissions (ap_diagnose ap) (Inl no_registry) (Some reg) q s of
                   (s1, Inr d) \<Rightarrow> (s1, Answered 200 d)
                 | (s1, Inl (CapabilityError m p op)) \<Rightarrow>
                     (s1, Http (if registry_get reg (dq_provider q) = None then 404 else 503) (Message m))
                 | (s1, Inl x) \<Rightarrow> (s1, Crashed x))))"

record provider_info =
  pi_descriptor :: descriptor
  pi_capabilities :: "string list"

definition list_providers_endpoint :: "('h, 's) app \<Rightarrow> provider_info list response" where
  "list_providers_endpoint ap =
     (case configured_registry ap of
        Inl x \<Rightarrow> Crashed x
      | Inr reg \<Rightarrow>
          Answered 200 (map (\<lambda>d. \<lparr>pi_descriptor = d, pi_capabilities = sort (capabilities reg (ds_key d))\<rparr>) (descriptors reg)))"

definition parse_webhook ::
  "('h, 's) app \<Rightarrow> string \<Rightarrow> (string \<times> string) list \<Rightarrow> string \<Rightarrow> webhook_failure + parsed_webhook" where
  "parse_webhook ap key headers body =
     (if key = ''github'' then parse_github_webhook (ap_codec ap) headers body (Some (ap_hooks ap)) (ap_github_webhook_secret ap)
      else if key = ''gitlab'' then parse_gitlab_webhook (ap_codec ap) headers body (ap_gitlab_webhook_secret ap)
      else ap_plugin_webhook ap key headers body)"

definition accept_webhook ::
  "env \<Rightarrow> ('h, 's) app \<Rightarrow> string \<Rightarrow> (string \<times> string) list \<Rightarrow> string \<Rightarrow> db \<Rightarrow> db \<times> webhook_accepted response" where
  "accept_webhook e ap provider headers body db =
     (case configured_registry ap of
        Inl x \<Rightarrow> (db, Crashed x)
      | Inr reg \<Rightarrow>
          (case capability reg provider ''webhook'' of
             None \<Rightarrow> (db, Http 404 (Message (''Unsupported provider: '' @ provider)))
           | Some a \<Rightarrow>
               (case parse_webhook ap (ad_key a) headers body of
                  Inl (Rejected n c m) \<Rightarrow> (db, Http n (Message m))
                | Inl (Raised x) \<Rightarrow> (db, Crashed x)
                | Inr p \<Rightarrow>
                    answering Crashed (\<lambda>v _. Answered 200 v)
                      (accept_provider_webhook e (pw_delivery_id p) (we_provider_event (pw_provider_event p)) (pw_provider_event p)
                         (pw_payload p) (pw_raw_body p) db))))"

section \<open>Listings and details\<close>

definition text_within :: "nat \<Rightarrow> nat \<Rightarrow> string option \<Rightarrow> bool" where
  "text_within lo hi x = opt_all (\<lambda>s. lo \<le> length s \<and> length s \<le> hi) x"

definition positive :: "int option \<Rightarrow> bool" where
  "positive x = opt_all (\<lambda>n. 0 < n) x"

definition page_bounds :: "int \<Rightarrow> int \<Rightarrow> bool" where
  "page_bounds limit offset \<longleftrightarrow> 1 \<le> limit \<and> limit \<le> 200 \<and> 0 \<le> offset"

definition list_provider_events_endpoint :: "event_filter \<Rightarrow> int \<Rightarrow> int \<Rightarrow> db \<Rightarrow> event_summary listing response" where
  "list_provider_events_endpoint q limit offset db =
     (if text_within 1 64 (ef_provider q) \<and> text_within 1 512 (ef_repo_full_name q) \<and> positive (ef_pull_request_number q) \<and>
         text_within 1 128 (ef_internal_event q) \<and> text_within 1 32 (ef_status q) \<and> text_within 1 128 (ef_delivery_id q) \<and>
         page_bounds limit offset
      then shown (list_provider_event_inbox q limit offset db) else Unprocessable)"

definition get_provider_event_endpoint :: "string \<Rightarrow> bool \<Rightarrow> db \<Rightarrow> event_detail response" where
  "get_provider_event_endpoint i include_payload db = shown_if_found 200 (get_provider_event_inbox_detail include_payload i db)"

definition list_tasks_endpoint :: "task_filter \<Rightarrow> int \<Rightarrow> int \<Rightarrow> db \<Rightarrow> task_summary listing response" where
  "list_tasks_endpoint q limit offset db =
     (if text_within 1 32 (tf_kind q) \<and> text_within 1 128 (tf_capability_id q) \<and> text_within 1 32 (tf_status q) \<and>
         text_within 1 64 (tf_queue q) \<and> text_within 1 64 (tf_resource_class q) \<and> page_bounds limit offset
      then shown (list_tasks q limit offset db) else Unprocessable)"

definition get_task_endpoint :: "string \<Rightarrow> db \<Rightarrow> task_summary response" where
  "get_task_endpoint tid db = found 200 (get_task_summary tid db)"

definition list_task_sessions_endpoint :: "string \<Rightarrow> db \<Rightarrow> archive_read list response" where
  "list_task_sessions_endpoint tid db = shown_if_found 200 (list_task_session_archives tid db)"

definition get_session_archive_endpoint :: "string \<Rightarrow> db \<Rightarrow> archive_read response" where
  "get_session_archive_endpoint i db = shown_if_found 200 (get_session_archive i db)"

definition list_resource_pools_endpoint :: "env \<Rightarrow> db \<Rightarrow> pool_read list response" where
  "list_resource_pools_endpoint e db = Answered 200 (list_resource_pools e db)"

definition list_deliveries_endpoint :: "delivery_filter \<Rightarrow> int \<Rightarrow> int \<Rightarrow> db \<Rightarrow> delivery_summary listing response" where
  "list_deliveries_endpoint q limit offset db =
     (if text_within 1 36 (df_task_id q) \<and> text_within 1 64 (df_provider q) \<and> text_within 1 32 (df_status q) \<and>
         text_within 1 64 (df_queue q) \<and> page_bounds limit offset
      then shown (list_delivery_outbox q limit offset db) else Unprocessable)"

definition get_delivery_endpoint :: "string \<Rightarrow> db \<Rightarrow> delivery_summary response" where
  "get_delivery_endpoint did db = found 200 (get_delivery_outbox did db)"

definition list_agent_tasks_endpoint :: "env \<Rightarrow> ('h, 's) app \<Rightarrow> agent_filter \<Rightarrow> int \<Rightarrow> int \<Rightarrow> db \<Rightarrow> agent_listing response" where
  "list_agent_tasks_endpoint e ap q limit offset db =
     (if text_within 1 32 (af_status q) \<and> text_within 1 64 (af_provider q) \<and> text_within 1 512 (af_repo_full_name q) \<and>
         positive (af_pull_request_number q) \<and> text_within 1 64 (af_task_type q) \<and> page_bounds limit offset
      then (case configured_registry ap of
              Inl x \<Rightarrow> Crashed x
            | Inr reg \<Rightarrow> shown (list_agent_tasks e (Some reg) (ap_links ap) q limit offset db))
      else Unprocessable)"

definition get_agent_task_endpoint :: "('h, 's) app \<Rightarrow> string \<Rightarrow> db \<Rightarrow> agent_detail response" where
  "get_agent_task_endpoint ap tid db =
     (case configured_registry ap of
        Inl x \<Rightarrow> Crashed x
      | Inr reg \<Rightarrow> shown_if_found 200 (get_agent_task_detail (Some reg) (ap_links ap) tid db))"

definition list_review_runs_endpoint :: "env \<Rightarrow> run_filter \<Rightarrow> int option \<Rightarrow> int \<Rightarrow> int \<Rightarrow> db \<Rightarrow> run_item listing response" where
  "list_review_runs_endpoint e q merge_request_number limit offset db =
     (if text_within 1 64 (rf_provider q) \<and> text_within 1 512 (rf_repo_full_name q) \<and> positive (rf_pull_request_number q) \<and>
         positive merge_request_number \<and> text_within 1 32 (rf_status q) \<and> text_within 1 64 (rf_stage q) \<and>
         text_within 7 80 (rf_head_sha q) \<and> text_within 1 32 (rf_trigger_type q) \<and>
         opt_all (\<lambda>s. s \<in> {''locked'', ''unlocked'', ''expired''}) (rf_lock_state q) \<and> page_bounds limit offset
      then shown (list_review_runs e q merge_request_number limit offset db) else Unprocessable)"

definition get_review_run_endpoint :: "env \<Rightarrow> string \<Rightarrow> db \<Rightarrow> run_detail response" where
  "get_review_run_endpoint e rid db = shown_if_found 200 (get_review_run_detail e rid db)"

text \<open>The diagnostics of a session: of a task with the required client, of a run or a session with whatever client there is\<close>

definition get_agent_task_session_endpoint :: "('h, 's) app \<Rightarrow> string \<Rightarrow> db \<Rightarrow> db \<times> session_diagnostics response" where
  "get_agent_task_session_endpoint ap tid db =
     with_client ap db (\<lambda>c.
       (db, case get_agent db tid of
              None \<Rightarrow> Http 404 Phrase
            | Some a \<Rightarrow> shown (diagnostics_for_agent_task (Some c) None a db)))"

definition get_review_run_agent_session_endpoint :: "('h, 's) app \<Rightarrow> string \<Rightarrow> db \<Rightarrow> session_diagnostics response" where
  "get_review_run_agent_session_endpoint ap rid db =
     (case get_run db rid of
        None \<Rightarrow> Http 404 Phrase
      | Some r \<Rightarrow> (case optional_client ap of (c, reason) \<Rightarrow> shown (diagnostics_for_review_run c reason r db)))"

definition get_pi_agent_session_endpoint :: "('h, 's) app \<Rightarrow> string \<Rightarrow> db \<Rightarrow> session_diagnostics response" where
  "get_pi_agent_session_endpoint ap sid db =
     (case optional_client ap of (c, reason) \<Rightarrow> shown_if_found 200 (diagnostics_for_session c reason sid db))"

section \<open>Administration\<close>

definition update_task_scheduling_endpoint :: "env \<Rightarrow> string \<Rightarrow> scheduling_update \<Rightarrow> db \<Rightarrow> db \<times> task_summary response" where
  "update_task_scheduling_endpoint e tid u db =
     (if \<not> scheduling_update_fields u then (db, Unprocessable)
      else answering transition (\<lambda>v db1. found 200 (case v of None \<Rightarrow> None | Some i \<Rightarrow> get_task_summary i db1))
             (update_task_scheduling e tid u db))"

definition update_resource_pool_endpoint :: "env \<Rightarrow> string \<Rightarrow> int \<Rightarrow> string option \<Rightarrow> db \<Rightarrow> db \<times> pool_read response" where
  "update_resource_pool_endpoint e key capacity dimension db =
     (if \<not> pool_update_fields capacity dimension then (db, Unprocessable)
      else answering transition (\<lambda>v _. Answered 200 v) (set_resource_pool_capacity e key capacity dimension db))"

definition update_delivery_scheduling_endpoint :: "env \<Rightarrow> string \<Rightarrow> delivery_update \<Rightarrow> db \<Rightarrow> db \<times> delivery_summary response" where
  "update_delivery_scheduling_endpoint e did u db =
     (if \<not> delivery_update_fields u then (db, Unprocessable)
      else answering transition (\<lambda>v db1. found 200 (case v of None \<Rightarrow> None | Some i \<Rightarrow> get_delivery_outbox i db1))
             (update_delivery_scheduling e did u db))"

text \<open>The detail that is answered after a cancellation or retry\<close>

definition detail_after :: "('h, 's) app \<Rightarrow> registry \<Rightarrow> int \<Rightarrow> string option \<Rightarrow> db \<Rightarrow> agent_detail response" where
  "detail_after ap reg n v db =
     (case v of
        None \<Rightarrow> Http 404 Phrase
      | Some tid \<Rightarrow>
          (case get_agent_task_detail (Some reg) (ap_links ap) tid db of
             Inl x \<Rightarrow> Crashed x
           | Inr None \<Rightarrow> Crashed (AssertionFailed [])
           | Inr (Some d) \<Rightarrow> Answered n d))"

definition cancel_agent_task_endpoint :: "env \<Rightarrow> ('h, 's) app \<Rightarrow> string \<Rightarrow> db \<Rightarrow> db \<times> agent_detail response" where
  "cancel_agent_task_endpoint e ap tid db =
     with_client ap db (\<lambda>c.
       case configured_registry ap of
         Inl x \<Rightarrow> (db, Crashed x)
       | Inr reg \<Rightarrow> answering transition (detail_after ap reg 200) (cancel_agent_task e (ap_calls ap) reg c tid db))"

definition retry_agent_task_endpoint :: "('h, 's) app \<Rightarrow> string \<Rightarrow> db \<Rightarrow> db \<times> agent_detail response" where
  "retry_agent_task_endpoint ap tid db =
     answering transition
       (\<lambda>v db1. case v of
          None \<Rightarrow> Http 404 Phrase
        | Some i \<Rightarrow> (case configured_registry ap of Inl x \<Rightarrow> Crashed x | Inr reg \<Rightarrow> detail_after ap reg 202 v db1))
       (retry_agent_task tid db)"

section \<open>Sessions and results of a run\<close>

definition run_shown :: "string \<Rightarrow> unit \<Rightarrow> db \<Rightarrow> run_read response" where
  "run_shown rid u db = Answered 200 (run_read_of (the_task db rid) (the_run db rid))"

definition with_run :: "string \<Rightarrow> db \<Rightarrow> db \<times> 'a response \<Rightarrow> db \<times> 'a response" where
  "with_run rid db r = (if get_run db rid = None then (db, Http 404 Phrase) else r)"

definition start_review_session_endpoint ::
  "env \<Rightarrow> ('h, 's) app \<Rightarrow> string \<Rightarrow> string option \<Rightarrow> db \<Rightarrow> db \<times> run_read response" where
  "start_review_session_endpoint e ap rid workspace_path db =
     with_client ap db (\<lambda>c.
       if workspace_path = Some [] then (db, Unprocessable)
       else with_run rid db
              (answering transition (run_shown rid) (start_review_session e (ap_sessions ap) c (ap_diff ap) rid workspace_path db)))"

definition sync_review_session_endpoint :: "env \<Rightarrow> ('h, 's) app \<Rightarrow> string \<Rightarrow> db \<Rightarrow> db \<times> run_read response" where
  "sync_review_session_endpoint e ap rid db =
     with_client ap db (\<lambda>c. with_run rid db (answering Crashed (run_shown rid) (sync_review_session e c (ap_diff ap) rid db)))"

definition cancel_review_session_endpoint :: "env \<Rightarrow> ('h, 's) app \<Rightarrow> string \<Rightarrow> string \<Rightarrow> db \<Rightarrow> db \<times> run_read response" where
  "cancel_review_session_endpoint e ap rid reason db =
     with_client ap db (\<lambda>c.
       if \<not> text_within 1 1000 (Some reason) then (db, Unprocessable)
       else with_run rid db (answering Crashed (run_shown rid) (cancel_review_session e c (ap_diff ap) rid reason db)))"

definition collect_review_result_endpoint ::
  "env \<Rightarrow> ('h, 's) app \<Rightarrow> string \<Rightarrow> raw_output \<Rightarrow> changed_file list \<Rightarrow> db \<Rightarrow> db \<times> (run_read \<times> parsed_result) response" where
  "collect_review_result_endpoint e ap rid raw files db =
     with_run rid db
       (answering result_rejection (\<lambda>parsed db1. Answered 200 (run_read_of (the_task db1 rid) (the_run db1 rid), parsed))
          (collect_review_result e (ap_pydantic ap) rid raw files db))"

section \<open>Retrying, rerunning and cancelling\<close>

definition retry_review_run_endpoint :: "env \<Rightarrow> string \<Rightarrow> db \<Rightarrow> db \<times> request_result response" where
  "retry_review_run_endpoint e rid db = answering rejection (\<lambda>v _. found 202 v) (request_review_retry e rid db)"

definition rerun_review_run_endpoint :: "env \<Rightarrow> string \<Rightarrow> string \<Rightarrow> db \<Rightarrow> db \<times> request_result response" where
  "rerun_review_run_endpoint e rid idempotency_key db =
     answering rejection (\<lambda>v _. found 202 v) (request_review_rerun e rid idempotency_key db)"

record tool_request =
  tq_agent_task_id :: string
  tq_agent_session_id :: string
  tq_action :: string

definition tool_request_fields :: "tool_request \<Rightarrow> bool" where
  "tool_request_fields q \<longleftrightarrow>
     text_within 1 36 (Some (tq_agent_task_id q)) \<and> text_within 1 128 (Some (tq_agent_session_id q)) \<and>
     tq_action q \<in> {''retry'', ''rerun''}"

text \<open>
  The session ends with the request, and what was only flushed is lost: binding the agent's session to the task is kept
  when a review request was recorded with it, the only commit on the way.
\<close>

definition committed :: "db \<Rightarrow> db \<times> 'a response \<Rightarrow> db \<times> 'a response" where
  "committed db r = (if inbox (fst r) = inbox db then (db, snd r) else r)"

definition request_agent_review_action_endpoint ::
  "env \<Rightarrow> ('h, 's) app \<Rightarrow> (string \<times> string) option \<Rightarrow> tool_request \<Rightarrow> db \<Rightarrow> db \<times> (string \<times> request_result) response" where
  "request_agent_review_action_endpoint e ap credentials q db =
     (case authorize_pi_agent_tool ap credentials of
        Some r \<Rightarrow> (db, r)
      | None \<Rightarrow>
          (if \<not> tool_request_fields q then (db, Unprocessable)
           else committed db
                  (answering tool_rejection
                     (\<lambda>v _. found 202 (map_option (\<lambda>r. (tq_action q, r)) v))
                     (request_review_action_from_agent e (tq_agent_task_id q) (tq_agent_session_id q) (tq_action q) db))))"

record action_result =
  ac_review_run_id :: string
  ac_status :: string
  ac_stage :: "string option"
  ac_execution_status :: string
  ac_delivery_status :: string

definition action_result_of :: "task \<Rightarrow> action_result" where
  "action_result_of t =
     \<lparr>ac_review_run_id = t_id t, ac_status = t_status t, ac_stage = t_stage t, ac_execution_status = t_execution_status t,
      ac_delivery_status = t_delivery_status t\<rparr>"

definition cancel_review_run_endpoint :: "env \<Rightarrow> string \<Rightarrow> db \<Rightarrow> db \<times> action_result response" where
  "cancel_review_run_endpoint e rid db =
     answering Crashed (\<lambda>v db1. found 202 (map_option (\<lambda>i. action_result_of (the_task db1 i)) v)) (cancel_review_run e rid db)"

section \<open>Workspaces\<close>

text \<open>\<open>WorkspaceRead\<close>\<close>

record workspace_read =
  wr_workspace_id :: string
  wr_provider :: string
  wr_repository :: string
  wr_repository_clone_url :: string
  wr_repo_hash :: string
  wr_pull_request_number :: int
  wr_base_sha :: string
  wr_head_sha :: string
  wr_workspace_path :: string
  wr_cache_path :: "string option"
  wr_status :: string
  wr_failure_code :: "string option"
  wr_failure_message :: "string option"
  wr_created_at :: time
  wr_ready_at :: "time option"
  wr_last_used_at :: "time option"
  wr_expires_at :: "time option"

definition workspace_read_of :: "workspace \<Rightarrow> workspace_read" where
  "workspace_read_of w =
     \<lparr>wr_workspace_id = w_workspace_id w, wr_provider = w_provider w, wr_repository = w_repository w,
      wr_repository_clone_url = w_repository_clone_url w, wr_repo_hash = w_repo_hash w,
      wr_pull_request_number = w_pull_request_number w, wr_base_sha = w_base_sha w, wr_head_sha = w_head_sha w,
      wr_workspace_path = w_workspace_path w, wr_cache_path = w_cache_path w, wr_status = w_status w,
      wr_failure_code = w_failure_code w, wr_failure_message = w_failure_message w, wr_created_at = w_created_at w,
      wr_ready_at = w_ready_at w, wr_last_used_at = w_last_used_at w, wr_expires_at = w_expires_at w\<rparr>"

definition answering_host ::
  "('a \<Rightarrow> db \<Rightarrow> 'b response) \<Rightarrow> (db \<times> 'h) \<times> (err + 'a) \<Rightarrow> (db \<times> 'h) \<times> 'b response" where
  "answering_host shows r = (case r of (s, Inl x) \<Rightarrow> (s, Crashed x) | (s, Inr v) \<Rightarrow> (s, shows v (fst s)))"

definition prepare_workspace_endpoint ::
  "env \<Rightarrow> ('h, 's) app \<Rightarrow> prepare_request \<Rightarrow> db \<times> 'h \<Rightarrow> (db \<times> 'h) \<times> prepare_response response" where
  "prepare_workspace_endpoint e ap q s =
     (if \<not> prepare_request_fields q then (s, Unprocessable)
      else (case configured_registry ap of
              Inl x \<Rightarrow> (s, Crashed x)
            | Inr reg \<Rightarrow>
                answering_host (\<lambda>v _. Answered 200 v)
                  (prepare_workspace e (ap_workspace_root ap) (ap_git_cache_root ap) (ap_host ap) (ap_checkout ap) (Some reg) q s)))"

definition get_workspace_endpoint :: "string \<Rightarrow> db \<Rightarrow> workspace_read response" where
  "get_workspace_endpoint wid db = found 200 (map_option workspace_read_of (get_workspace db wid))"

record lease_read =
  lr_lease_id :: string
  lr_workspace_id :: string
  lr_workspace_path :: string
  lr_status :: string

definition lease_workspace_endpoint :: "env \<Rightarrow> string \<Rightarrow> string option \<Rightarrow> string option \<Rightarrow> db \<Rightarrow> db \<times> lease_read response" where
  "lease_workspace_endpoint e wid review_run_id session_id db =
     (if \<not> (text_within 0 36 review_run_id \<and> text_within 0 128 session_id) then (db, Unprocessable)
      else answering (\<lambda>x. case x of KeyError k \<Rightarrow> Http 404 Phrase | _ \<Rightarrow> Crashed x)
             (\<lambda>i db1. let w = the_workspace db1 wid in
                Answered 200 \<lparr>lr_lease_id = i, lr_workspace_id = w_workspace_id w, lr_workspace_path = w_workspace_path w,
                  lr_status = w_status w\<rparr>)
             (lease_workspace e wid review_run_id session_id db))"

definition release_workspace_endpoint :: "env \<Rightarrow> string \<Rightarrow> db \<Rightarrow> db \<times> workspace_read response" where
  "release_workspace_endpoint e lease_id db =
     answering Crashed (\<lambda>v _. found 200 (map_option workspace_read_of v)) (release_workspace e lease_id db)"

definition cleanup_workspace_endpoint ::
  "env \<Rightarrow> ('h, 's) app \<Rightarrow> string \<Rightarrow> bool \<Rightarrow> db \<times> 'h \<Rightarrow> (db \<times> 'h) \<times> workspace_read response" where
  "cleanup_workspace_endpoint e ap wid force s =
     answering_host
       (\<lambda>result db1. case get_workspace db1 wid of
          None \<Rightarrow> Http 404 Phrase
        | Some w \<Rightarrow> (if result = ''workspace_locked'' then Http 409 (Message ''Workspace has an active lease.'')
                     else Answered 200 (workspace_read_of w)))
       (cleanup_workspace e (ap_host ap) wid force s)"

definition cleanup_pull_request_workspaces_endpoint ::
  "env \<Rightarrow> ('h, 's) app \<Rightarrow> string \<Rightarrow> string \<Rightarrow> int \<Rightarrow> bool \<Rightarrow> db \<times> 'h \<Rightarrow> (db \<times> 'h) \<times> cleanup_summary response" where
  "cleanup_pull_request_workspaces_endpoint e ap provider repository number force s =
     (if \<not> (text_within 1 64 (Some provider) \<and> text_within 1 512 (Some repository) \<and> 0 < number) then (s, Unprocessable)
      else answering_host (\<lambda>v _. Answered 200 v)
             (cleanup_pull_request_workspaces e (ap_host ap) provider repository number force s))"

definition cleanup_expired_workspaces_endpoint ::
  "env \<Rightarrow> ('h, 's) app \<Rightarrow> db \<times> 'h \<Rightarrow> (db \<times> 'h) \<times> cleanup_summary response" where
  "cleanup_expired_workspaces_endpoint e ap s =
     answering_host (\<lambda>v _. Answered 200 v) (cleanup_expired_workspaces e (ap_host ap) None s)"

end
