(* ===== verification/Serving.thy ===== *)
theory Serving
  imports Api
begin

text \<open>
  What the endpoints of \<open>presentation/api.py\<close> promise together: a request that is refused starts nothing, and only an
  agent that holds the token reaches the tool endpoint.
\<close>

section \<open>Rejected review requests\<close>

definition is_rejection :: "err \<Rightarrow> bool" where
  "is_rejection x = (case x of RequestRejected m c v y \<Rightarrow> True | ActionRejected m c \<Rightarrow> True | _ \<Rightarrow> False)"

definition rejects :: "db \<times> (err + 'a) \<Rightarrow> bool" where
  "rejects r \<longleftrightarrow> (\<exists>x. snd r = Inl x \<and> is_rejection x)"

lemma is_rejection_simps [simp]:
  "is_rejection (RequestRejected m c v y)" "is_rejection (ActionRejected m c)" "is_rejection (rejected m c v y)"
  "is_rejection (action_rejected m c)" "\<not> is_rejection (ValueError m)"
  "\<not> is_rejection (IntegrityError m)" "\<not> is_rejection (KeyError m)" "\<not> is_rejection (AssertionFailed m)"
  by (simp_all add: is_rejection_def rejected_def action_rejected_def)

lemma rejects_simps [simp]: "\<not> rejects (db, Inr y)" "rejects (db, Inl x) = is_rejection x"
  by (simp_all add: rejects_def)

lemma rejects_and_then:
  "rejects (and_then r f) \<longleftrightarrow> rejects r \<or> (\<exists>db v. r = (db, Inr v) \<and> rejects (f v db))"
  by (cases r) (auto simp: and_then_def rejects_def split: sum.splits)

lemma enqueue_never_rejects [simp]: "\<not> rejects (enqueue_delivery e tid p op dest key payload m prio att sp db)"
  by (simp add: enqueue_delivery_def Let_def split: option.splits)

lemma placeholder_never_rejects [simp]: "\<not> rejects (ensure_review_placeholder_requested e rid db)"
  by (simp add: ensure_review_placeholder_requested_def request_placeholder_def Let_def rejects_and_then split: option.splits prod.splits)

lemma record_never_rejects [simp]: "\<not> rejects (create_review_run_record e spec trigger v dedupe db)"
  by (simp add: create_review_run_record_def Let_def split: option.splits)

lemma adopt_never_rejects [simp]: "reason \<noteq> ''automatic'' \<Longrightarrow> \<not> rejects (adopt_run e reason c rid created db)"
  by (simp add: adopt_run_def Let_def rejects_and_then)

lemma handle_rejects:
  assumes "handle_review_requested e q db = (db', Inl x)" and "is_rejection x" and "qs_reason q \<noteq> ''automatic''"
  shows "db' = db"
proof -
  have "\<not> rejects (and_then (create_review_run_record e spec trigger i dedupe db) (\<lambda>(rid, created) db1. adopt_run e (qs_reason q) k rid created db1))"
    for spec trigger i dedupe k
    using assms(3) by (auto simp: rejects_and_then)
  then have "and_then (create_review_run_record e spec trigger i dedupe db) (\<lambda>(rid, created) db1. adopt_run e (qs_reason q) k rid created db1)
      \<noteq> (db', Inl x)" for spec trigger i dedupe k
    using assms(2) by (metis rejects_simps(2))
  then show ?thesis
    using assms(1) by (auto simp: handle_review_requested_def split: option.splits if_splits sum.splits prod.splits)
qed

section \<open>What a refused request leaves alone\<close>

text \<open>All but the log of events, the state of workspaces and the agent session a command is bound to\<close>

definition work :: "db \<Rightarrow> db" where
  "work db = db\<lparr>inbox := [], workspaces := [], agents := map (\<lambda>a. a\<lparr>a_agent_session_id := None\<rparr>) (agents db), drawn := 0\<rparr>"

lemma work_simps [simp]:
  "work (db\<lparr>inbox := x\<rparr>) = work db" "work (upd_event i f db) = work db" "work (draw db) = work db" "work (upd_workspace i g db) = work db"
  by (simp_all add: work_def upd_event_def draw_def upd_workspace_def)

lemma work_bound [simp]: "work (upd_agent tid (\<lambda>a. a\<lparr>a_agent_session_id := s\<rparr>) db) = work db"
  by (simp add: work_def upd_agent_def upd_where_def comp_def if_distrib cong: if_cong)

lemma submit_rejects:
  assumes "submit_request e eid source action did db = (db', Inl x)" and "is_rejection x" and "action \<noteq> ''automatic''"
  shows "work db' = work db"
proof -
  have h: "d2 = d1" if "handle_review_requested e \<lparr>qs_reason = a, qs_trigger_event_id = v, qs_pull_request_context_id = i,
      qs_source_run_id = Some (r_id source), qs_dedupe_key = Some did\<rparr> d1 = (d2, Inl y)" and "is_rejection y" and "a \<noteq> ''automatic''"
    for a v i d1 d2 y
    using that by (simp add: handle_rejects review_request.select_convs)
  show ?thesis
    using assms
    by (auto simp: submit_request_def reject_review_request_def Let_def dest: h split: if_splits option.splits prod.splits sum.splits err.splits)
qed

lemma source_action_rejects:
  assumes "request_source_review_action e rid action did db = (db', Inl x)" and "is_rejection x" and "action \<noteq> ''automatic''"
  shows "work db' = work db"
  using assms
  by (auto simp: request_source_review_action_def answer_existing_request_def dest: submit_rejects split: option.splits if_splits)

lemma source_action_none:
  "request_source_review_action e rid action did db = (db', Inr None) \<Longrightarrow> db' = db"
  by (auto simp: request_source_review_action_def answer_existing_request_def submit_request_def reject_review_request_def Let_def
      split: option.splits if_splits prod.splits sum.splits err.splits)

lemma require_found_refused:
  assumes "require_found (request_source_review_action e rid action did db) = (db', r)" and "action \<noteq> ''automatic''"
  shows "r \<noteq> Inr None \<and> (rejects (db', r) \<longrightarrow> work db' = work db)"
  using assms
  by (cases "request_source_review_action e rid action did db")
    (auto simp: require_found_def and_then_def dest: source_action_rejects source_action_none split: option.splits sum.splits)

lemma tool_action_refused:
  assumes "request_review_action_from_agent e tid sid action db = (db', r)" and "action \<noteq> ''automatic''"
  shows "(r = Inr None \<longrightarrow> db' = db) \<and> (rejects (db', r) \<longrightarrow> work db' = work db)"
  using assms
  by (auto simp: request_review_action_from_agent_def Let_def dest: require_found_refused split: option.splits if_splits)

section \<open>The tool endpoint\<close>

text \<open>A running command, with a revision, that belongs to the session or to none yet\<close>

definition owned_command :: "tool_request \<Rightarrow> db \<Rightarrow> bool" where
  "owned_command q db \<longleftrightarrow>
     (case get_agent db (tq_agent_task_id q) of
        None \<Rightarrow> False
      | Some a \<Rightarrow>
          (let t = the_task db (tq_agent_task_id q)
           in a_task_type a = ''message_command'' \<and> t_status t = ''running'' \<and>
              t_stage t \<in> {Some ''starting_agent'', Some ''waiting_for_agent''} \<and>
              a_agent_session_id a \<in> {None, Some (tq_agent_session_id q)} \<and> has_text (a_head_sha a)))"

lemma tool_action_owned:
  assumes "request_review_action_from_agent e (tq_agent_task_id q) (tq_agent_session_id q) action db = (db', r)"
    and "db' \<noteq> db \<or> (\<exists>v. r = Inr (Some v))"
  shows "owned_command q db"
  using assms
  by (auto simp: request_review_action_from_agent_def owned_command_def Let_def split: option.splits if_splits)

lemma rejection_codes:
  "status_code (rejection x) = (if \<exists>m c v y. x = RequestRejected m c v y then 409 else 500)"
  "status_code (tool_rejection x) = (if is_rejection x then 409 else 500)"
  by (cases x; simp add: is_rejection_def)+

text \<open>
  C32. The tool endpoint acts for the agent alone: it changes something, or accepts a request, only for bearer credentials
  that carry the configured token and for a running command whose session, if it has one, is the caller's; without a
  configured token it is closed; and a supplied token with a letter outside ASCII is not refused but fails as an internal
  error.
\<close>

theorem tool_calls_need_the_token:
  assumes "request_agent_review_action_endpoint e ap credentials q db = (db', r)"
  shows "(db' \<noteq> db \<or> status_code r = 202 \<longrightarrow>
       (\<exists>token scheme. ap_pi_token ap = Some token \<and> token \<noteq> [] \<and> credentials = Some (scheme, token) \<and> str_lower scheme = ''bearer'') \<and>
       owned_command q db) \<and>
     (\<not> has_text (ap_pi_token ap) \<longrightarrow> db' = db \<and> status_code r = 503) \<and>
     (has_text (ap_pi_token ap) \<and> credentials = Some (scheme, supplied) \<and> str_lower scheme = ''bearer'' \<and>
        list_ex (\<lambda>c. 128 \<le> code c) supplied \<longrightarrow> db' = db \<and> status_code r = 500)"
proof (cases "authorize_pi_agent_tool ap credentials :: (string \<times> request_result) response option")
  case (Some x)
  then have "db' = db" "r = x" using assms by (simp_all add: request_agent_review_action_endpoint_def)
  moreover have "status_code x \<in> {401, 500, 503}"
    using Some unfolding authorize_pi_agent_tool_def by (rule authorize_codes)
  moreover have "status_code x = 503" if "\<not> has_text (ap_pi_token ap)"
    using Some that by (auto simp: authorize_pi_agent_tool_def authorize_closed)
  moreover have "status_code x = 500" if "has_text (ap_pi_token ap) \<and> credentials = Some (scheme, supplied) \<and>
      str_lower scheme = ''bearer'' \<and> list_ex (\<lambda>c. 128 \<le> code c) supplied"
    using Some that by (auto simp: authorize_pi_agent_tool_def authorize_foreign)
  ultimately show ?thesis by auto
next
  case None
  then obtain token sch where tk: "ap_pi_token ap = Some token" "token \<noteq> []" "credentials = Some (sch, token)" "str_lower sch = ''bearer''"
      "list_all (\<lambda>c. code c < 128) token"
    unfolding authorize_pi_agent_tool_def authorize_None by blast
  obtain db1 x where op: "request_review_action_from_agent e (tq_agent_task_id q) (tq_agent_session_id q) (tq_action q) db = (db1, x)"
    by (cases "request_review_action_from_agent e (tq_agent_task_id q) (tq_agent_session_id q) (tq_action q) db")
  have "owned_command q db" if c: "db' \<noteq> db \<or> status_code r = 202"
  proof (rule tool_action_owned[OF op])
    show "db1 \<noteq> db \<or> (\<exists>v. x = Inr (Some v))"
      using assms None c op
      by (auto simp: request_agent_review_action_endpoint_def committed_def answering_def found_def rejection_codes
          split: if_splits sum.splits option.splits)
  qed
  then show ?thesis using tk by (auto simp: list_all_iff list_ex_iff has_text_def)
qed

definition sample_app :: "(string list, unit) app" where
  "sample_app =
     \<lparr>ap_registry = Some sample_registry, ap_pi_client = None, ap_pi_base_url = None, ap_pi_token = Some ''t0'',
      ap_connect = (\<lambda>u t. unreachable_client), ap_sessions = ws_sessions sample_settings, ap_hooks = sample_hook_settings,
      ap_github_webhook_secret = None, ap_gitlab_webhook_secret = None, ap_codec = sample_codec JNull,
      ap_plugin_webhook = (\<lambda>k hs b. Inl (Rejected 400 [] [])), ap_calls = mute_calls, ap_links = (\<lambda>a. Inr None),
      ap_checkout = wk_checkout sample_worker, ap_diff = wk_diff sample_worker, ap_pydantic = wk_pydantic sample_worker,
      ap_host = wk_host sample_worker, ap_workspace_root = [], ap_git_cache_root = [],
      ap_diagnose = (\<lambda>k q s. (s, Inl (ValueError [])))\<rparr>"

text \<open>A running command that asked for a retry already\<close>

definition tool_db :: db where
  "tool_db = empty_db\<lparr>
     runs := [new_run ''r2'' ''gh'' ''o/r'' 1 ''h1''],
     tasks := [new_task ''r2'' ''review'' 0,
       (new_task ''a1'' ''agent'' 0)\<lparr>t_status := ''running'', t_stage := Some ''waiting_for_agent''\<rparr>],
     agents := [(new_agent_task ''a1'' ''gh'' ''o/r'' 1)\<lparr>a_task_type := ''message_command'', a_head_sha := Some ''h1''\<rparr>],
     inbox := [(new_event ''e1'' 0 ''internal'' ''agent-review-action:a1:retry'' ''review_request'' [] []
       [(''source_review_run_id'', JStr ''r1'')])\<lparr>ev_review_run_id := Some ''r2''\<rparr>]\<rparr>"

definition tool_call :: tool_request where
  "tool_call = \<lparr>tq_agent_task_id = ''a1'', tq_agent_session_id = ''s1'', tq_action = ''retry''\<rparr>"

theorem tool_calls_need_the_token_witness:
  "\<exists>db' r. request_agent_review_action_endpoint (sample_env 5) sample_app (Some (''Bearer'', ''t0'')) tool_call tool_db = (db', r) \<and>
     status_code r = 202 \<and> owned_command tool_call tool_db \<and>
     request_agent_review_action_endpoint (sample_env 5) sample_app (Some (''Bearer'', [CHR 0xE9])) tool_call tool_db =
       (tool_db, Crashed (TypeError ''comparing strings with non-ASCII characters is not supported''))"
proof -
  obtain db' r where c: "request_agent_review_action_endpoint (sample_env 5) sample_app (Some (''Bearer'', ''t0'')) tool_call tool_db = (db', r)"
    by fastforce
  have lower: "str_lower ''Bearer'' = ''bearer''" by code_simp
  then have "(authorize_pi_agent_tool sample_app (Some (''Bearer'', ''t0'')) :: (string \<times> request_result) response option) = None"
    unfolding authorize_pi_agent_tool_def authorize_None by (simp add: sample_app_def code_def)
  moreover have "tool_request_fields tool_call" by code_simp
  moreover have "case request_review_action_from_agent (sample_env 5) ''a1'' ''s1'' ''retry'' tool_db of (d, Inr (Some v)) \<Rightarrow> True | _ \<Rightarrow> False"
    by code_simp
  ultimately have s: "status_code r = 202"
    using c by (auto simp: request_agent_review_action_endpoint_def tool_call_def committed_def answering_def found_def
        split: prod.splits sum.splits option.splits if_splits)
  then have "owned_command tool_call tool_db"
    using tool_calls_need_the_token[OF c] s by simp
  moreover from lower have "(authorize_pi_agent_tool sample_app (Some (''Bearer'', [CHR 0xE9])) :: (string \<times> request_result) response option) =
      Some (Crashed (TypeError ''comparing strings with non-ASCII characters is not supported''))"
    unfolding authorize_pi_agent_tool_def by (intro authorize_foreign) (simp_all add: sample_app_def code_def)
  ultimately show ?thesis using c s by (simp add: request_agent_review_action_endpoint_def)
qed

section \<open>Any request that changes something\<close>

text \<open>The requests of an administrator, the dashboard, the worker's host and the agent; sessions and results aside\<close>

datatype api_call =
    PatchTask string scheduling_update
  | PutPool string int "string option"
  | PatchDelivery string delivery_update
  | RetryTask string
  | RetryRun string
  | RerunRun string string
  | CancelRun string
  | LeaseWorkspace string "string option" "string option"
  | ReleaseWorkspace string
  | CleanWorkspace string bool
  | ToolAction "(string \<times> string) option" tool_request

definition on_db :: "db \<times> 'a response \<Rightarrow> 'h \<Rightarrow> (db \<times> 'h) \<times> int" where
  "on_db r h = ((fst r, h), status_code (snd r))"

fun api_step :: "env \<Rightarrow> ('h, 's) app \<Rightarrow> api_call \<Rightarrow> db \<times> 'h \<Rightarrow> (db \<times> 'h) \<times> int" where
  "api_step e ap (PatchTask tid u) (db, h) = on_db (update_task_scheduling_endpoint e tid u db) h"
| "api_step e ap (PutPool key capacity dimension) (db, h) = on_db (update_resource_pool_endpoint e key capacity dimension db) h"
| "api_step e ap (PatchDelivery did u) (db, h) = on_db (update_delivery_scheduling_endpoint e did u db) h"
| "api_step e ap (RetryTask tid) (db, h) = on_db (retry_agent_task_endpoint ap tid db) h"
| "api_step e ap (RetryRun rid) (db, h) = on_db (retry_review_run_endpoint e rid db) h"
| "api_step e ap (RerunRun rid key) (db, h) = on_db (rerun_review_run_endpoint e rid key db) h"
| "api_step e ap (CancelRun rid) (db, h) = on_db (cancel_review_run_endpoint e rid db) h"
| "api_step e ap (LeaseWorkspace wid rid sid) (db, h) = on_db (lease_workspace_endpoint e wid rid sid db) h"
| "api_step e ap (ReleaseWorkspace i) (db, h) = on_db (release_workspace_endpoint e i db) h"
| "api_step e ap (CleanWorkspace wid force) (db, h) =
     (case cleanup_workspace_endpoint e ap wid force (db, h) of (s, r) \<Rightarrow> (s, status_code r))"
| "api_step e ap (ToolAction credentials q) (db, h) = on_db (request_agent_review_action_endpoint e ap credentials q db) h"

definition refused :: "int \<Rightarrow> bool" where
  "refused n \<longleftrightarrow> n \<in> {401, 404, 409, 422}"

text \<open>A refusal with \<open>n\<close> leaves the work alone, and everything unless \<open>n\<close> is 409.\<close>

definition untouched :: "db \<Rightarrow> db \<times> int \<Rightarrow> bool" where
  "untouched db r \<longleftrightarrow> (refused (snd r) \<longrightarrow> work (fst r) = work db \<and> (snd r \<noteq> 409 \<longrightarrow> fst r = db))"

lemma rejection_untouched:
  assumes "\<And>x. snd r = Inl x \<Longrightarrow> is_rejection x \<Longrightarrow> work (fst r) = work db" and "snd r = Inr None \<Longrightarrow> fst r = db"
  shows "untouched db (fst r, status_code (snd (answering rejection (\<lambda>v _. found 202 v) r)))"
proof (cases r)
  case (Pair d y)
  show ?thesis
  proof (cases y)
    case (Inl x)
    then show ?thesis
      using assms(1)[of x] Pair
      by (auto simp: untouched_def answering_def rejection_codes refused_def is_rejection_def split: err.splits)
  next
    case (Inr v)
    then show ?thesis
      using assms(2) Pair by (cases v) (simp_all add: untouched_def answering_def found_def refused_def)
  qed
qed

lemma transition_unchanged:
  assumes "\<And>x. snd r = Inl x \<Longrightarrow> fst r = db" and "\<And>v. snd r = Inr v \<Longrightarrow> refused (status_code (shows v (fst r))) \<Longrightarrow> fst r = db"
  shows "untouched db (fst r, status_code (snd (answering transition shows r)))"
  using assms by (cases r) (auto simp: untouched_def answering_def split: sum.splits)

lemma task_endpoint_untouched:
  "update_task_scheduling_endpoint e tid u db = (db', r) \<Longrightarrow> untouched db (db', status_code r)"
  by (auto simp: update_task_scheduling_endpoint_def update_task_scheduling_def answering_def found_def untouched_def refused_def
      get_task_summary_def get_task_upd split: if_splits option.splits)

lemma pool_endpoint_untouched:
  "update_resource_pool_endpoint e key capacity dimension db = (db', r) \<Longrightarrow> untouched db (db', status_code r)"
  by (auto simp: update_resource_pool_endpoint_def set_resource_pool_capacity_def answering_def untouched_def refused_def Let_def
      split: if_splits option.splits)

lemma delivery_endpoint_untouched:
  "update_delivery_scheduling_endpoint e did u db = (db', r) \<Longrightarrow> untouched db (db', status_code r)"
  by (auto simp: update_delivery_scheduling_endpoint_def update_delivery_scheduling_def answering_def found_def untouched_def refused_def
      get_delivery_outbox_def get_delivery_upd split: if_splits option.splits)

lemma retry_task_untouched:
  "retry_agent_task_endpoint ap tid db = (db', r) \<Longrightarrow> untouched db (db', status_code r)"
  by (auto simp: retry_agent_task_endpoint_def retry_agent_task_def detail_after_def answering_def untouched_def refused_def
      split: if_splits option.splits sum.splits)

lemma review_request_untouched:
  assumes "answering rejection (\<lambda>v _. found 202 v) (request_source_review_action e rid action did db) = (db', r)" and "action \<noteq> ''automatic''"
  shows "untouched db (db', status_code r)"
proof -
  have "untouched db (fst (request_source_review_action e rid action did db),
      status_code (snd (answering rejection (\<lambda>v _. found 202 v) (request_source_review_action e rid action did db))))"
  proof (rule rejection_untouched)
    show "work (fst (request_source_review_action e rid action did db)) = work db"
      if "snd (request_source_review_action e rid action did db) = Inl x" and "is_rejection x" for x
      using that assms(2) source_action_rejects[of e rid action did db _ x] by (metis prod.collapse)
    show "fst (request_source_review_action e rid action did db) = db"
      if "snd (request_source_review_action e rid action did db) = Inr None"
      using that source_action_none[of e rid action did db] by (metis prod.collapse)
  qed
  moreover have "fst (request_source_review_action e rid action did db) = db'"
    using assms(1) by (cases "request_source_review_action e rid action did db") (auto simp: answering_def split: sum.splits)
  ultimately show ?thesis using assms(1) by simp
qed

lemma cancel_run_untouched:
  "cancel_review_run_endpoint e rid db = (db', r) \<Longrightarrow> untouched db (db', status_code r)"
  by (auto simp: cancel_review_run_endpoint_def cancel_review_run_def answering_def and_then_def found_def untouched_def refused_def
      split: if_splits option.splits sum.splits prod.splits)

lemma lease_untouched:
  "lease_workspace_endpoint e wid rid sid db = (db', r) \<Longrightarrow> untouched db (db', status_code r)"
  by (auto simp: lease_workspace_endpoint_def lease_workspace_def answering_def untouched_def refused_def Let_def
      split: if_splits option.splits)

definition leases_known :: "db \<Rightarrow> bool" where
  "leases_known db \<longleftrightarrow> list_all (\<lambda>l. get_workspace db (wl_workspace_id l) \<noteq> None) (workspace_leases db)"

lemma release_untouched:
  assumes "release_workspace_endpoint e i db = (db', r)" and "leases_known db"
  shows "untouched db (db', status_code r)"
proof (cases "first_row (\<lambda>l. wl_id l = i) (workspace_leases db)")
  case None
  with assms(1) show ?thesis
    by (simp add: release_workspace_endpoint_def release_workspace_def answering_def found_def untouched_def refused_def)
next
  case (Some l)
  then have "l \<in> set (workspace_leases db)" by (auto dest: first_row_SomeD)
  then have "get_workspace db (wl_workspace_id l) \<noteq> None" using assms(2) by (simp add: leases_known_def list_all_iff)
  then obtain w where "get_workspace (db\<lparr>workspace_leases := x\<rparr>) (wl_workspace_id l) = Some w" for x by (auto simp: get_workspace_def)
  with assms(1) Some show ?thesis
    by (auto simp: get_workspace_upd release_workspace_endpoint_def release_workspace_def answering_def found_def untouched_def refused_def Let_def
        split: option.splits sum.splits bool.splits)
qed

lemma clean_untouched:
  assumes "cleanup_workspace_endpoint e ap wid force (db, h) = ((db', h'), r)"
  shows "untouched db (db', status_code r) \<and> (refused (status_code r) \<longrightarrow> h' = h)"
proof (cases "get_workspace db wid")
  case None
  with assms show ?thesis
    by (auto simp: cleanup_workspace_endpoint_def cleanup_workspace_def answering_host_def untouched_def)
next
  case (Some w)
  with assms show ?thesis
    by (auto simp: cleanup_workspace_endpoint_def cleanup_workspace_def answering_host_def untouched_def refused_def get_workspace_upd
        split: option.splits sum.splits bool.splits if_splits)
qed

lemma tool_untouched:
  assumes "request_agent_review_action_endpoint e ap credentials q db = (db', r)"
  shows "untouched db (db', status_code r)"
proof (cases "authorize_pi_agent_tool ap credentials :: (string \<times> request_result) response option")
  case (Some x)
  with assms show ?thesis by (auto simp: request_agent_review_action_endpoint_def untouched_def)
next
  case None
  show ?thesis
  proof (cases "tool_request_fields q")
    case False
    with None assms show ?thesis by (auto simp: request_agent_review_action_endpoint_def untouched_def)
  next
    case True
    then have a: "tq_action q \<noteq> ''automatic''" by (auto simp: tool_request_fields_def)
    obtain d x where op: "request_review_action_from_agent e (tq_agent_task_id q) (tq_agent_session_id q) (tq_action q) db = (d, x)"
      by (cases "request_review_action_from_agent e (tq_agent_task_id q) (tq_agent_session_id q) (tq_action q) db")
    note ref = tool_action_refused[OF op a]
    have db': "db' = db \<or> db' = d"
      using assms None True op by (auto simp: request_agent_review_action_endpoint_def committed_def answering_def split: sum.splits if_splits)
    have r: "r = (case x of Inl y \<Rightarrow> tool_rejection y | Inr v \<Rightarrow> found 202 (map_option (\<lambda>r. (tq_action q, r)) v))"
      using assms None True op by (auto simp: request_agent_review_action_endpoint_def committed_def answering_def split: sum.splits if_splits)
    show ?thesis
    proof (cases x)
      case (Inl y)
      then show ?thesis using ref db' r by (auto simp: untouched_def refused_def rejection_codes split: if_splits)
    next
      case (Inr v)
      then show ?thesis using ref db' r by (cases v) (auto simp: untouched_def refused_def found_def)
    qed
  qed
qed

lemma on_db_eq: "on_db x h = ((db', h'), n) \<Longrightarrow> h' = h \<and> (\<exists>r. x = (db', r) \<and> n = status_code r)"
  by (cases x) (auto simp: on_db_def)


text \<open>A failed run of a pull request that was closed\<close>

definition closed_db :: db where
  "closed_db = empty_db\<lparr>
     contexts := [(new_context ''c1'' 0 ''gh'' ''o/r'' 1 ''h1'')\<lparr>c_status := ''closed''\<rparr>],
     runs := [new_run ''r1'' ''gh'' ''o/r'' 1 ''h1''], tasks := [(new_task ''r1'' ''review'' 0)\<lparr>t_status := ''failed''\<rparr>]\<rparr>"


end
