(* ===== verification/Core.thy ===== *)
theory Core
  imports Api Adapters
begin

text \<open>
  The Provider Core interface of \<open>presentation/provider_core.py\<close>, which offers the four neutral operations of a provider
  over HTTP, the providers' side of normalizing a webhook (\<open>integrations/github.py\<close>, \<open>gitlab.py\<close>), and the report of a
  request that does not validate (\<open>presentation/main.py\<close>). As in \<open>Api\<close>, an endpoint is a function of its parsed parameters.
\<close>

section \<open>The four operations of a provider\<close>

record normalized_webhook =
  nw_delivery_id :: string
  nw_provider_event :: webhook_event
  nw_payload :: dict

record 'w core_provider =
  co_normalize_webhook :: "(string \<times> string) list \<Rightarrow> string \<Rightarrow> 'w \<Rightarrow> ('w \<times> (webhook_failure + normalized_webhook)) option"
  co_resolve_git_checkout :: "string \<Rightarrow> string option \<Rightarrow> ('w, checkout_target) io"
  co_publish_comments :: "comment_request \<Rightarrow> ('w, comment_result) io"
  co_query :: "query_request \<Rightarrow> ('w, query_result) io"

fun failure_err :: "client_failure \<Rightarrow> err" where
  "failure_err (Escaped x) = x"
| "failure_err (ClientError m) = OtherError m"

text \<open>\<open>normalize_webhook\<close>: the secret is a credential of the platform; the raw body is not passed on.\<close>

definition normalize_with ::
  "('w, credential) io \<Rightarrow> (string option \<Rightarrow> webhook_failure + parsed_webhook) \<Rightarrow> 'w \<Rightarrow> ('w \<times> (webhook_failure + normalized_webhook)) option" where
  "normalize_with credential parse w =
     (case credential w of
        None \<Rightarrow> None
      | Some (w1, Inl x) \<Rightarrow> Some (w1, Inl (Raised (failure_err x)))
      | Some (w1, Inr c) \<Rightarrow>
          Some (w1, case parse (if cr_value c = [] then None else Some (cr_value c)) of
                      Inl x \<Rightarrow> Inl x
                    | Inr p \<Rightarrow> Inr \<lparr>nw_delivery_id = pw_delivery_id p, nw_provider_event = pw_provider_event p, nw_payload = pw_payload p\<rparr>))"

definition github_normalize_webhook ::
  "'w http \<Rightarrow> codec \<Rightarrow> hook_settings option \<Rightarrow> github_platform \<Rightarrow> (string \<times> string) list \<Rightarrow> string \<Rightarrow>
     'w \<Rightarrow> ('w \<times> (webhook_failure + normalized_webhook)) option" where
  "github_normalize_webhook ht cd config p headers body =
     normalize_with (github_get_credential ht p [] ''webhook'') (parse_github_webhook cd headers body config)"

definition gitlab_normalize_webhook ::
  "codec \<Rightarrow> gitlab_platform \<Rightarrow> (string \<times> string) list \<Rightarrow> string \<Rightarrow> 'w \<Rightarrow> ('w \<times> (webhook_failure + normalized_webhook)) option" where
  "gitlab_normalize_webhook cd p headers body = normalize_with (gitlab_get_credential p ''webhook'') (parse_gitlab_webhook cd headers body)"

definition github_provider :: "'w http \<Rightarrow> env \<Rightarrow> codec \<Rightarrow> hook_settings option \<Rightarrow> github_platform \<Rightarrow> 'w core_provider" where
  "github_provider ht e cd config p =
     \<lparr>co_normalize_webhook = github_normalize_webhook ht cd config p, co_resolve_git_checkout = github_resolve_git_checkout ht p,
      co_publish_comments = github_publish_comments ht e p, co_query = github_query ht p\<rparr>"

definition gitlab_provider :: "'w http \<Rightarrow> env \<Rightarrow> codec \<Rightarrow> gitlab_platform \<Rightarrow> 'w core_provider" where
  "gitlab_provider ht e cd p =
     \<lparr>co_normalize_webhook = gitlab_normalize_webhook cd p, co_resolve_git_checkout = gitlab_resolve_git_checkout p,
      co_publish_comments = gitlab_publish_comments ht e p, co_query = gitlab_query ht p\<rparr>"

section \<open>The endpoints\<close>

text \<open>
  \<open>ca_providers\<close> gives the operations of an adapter that has all four methods (\<open>isinstance(provider, Provider)\<close>).
\<close>

record 'w core_app =
  ca_registry :: "registry option"
  ca_token :: "string option"
  ca_providers :: "string \<Rightarrow> 'w core_provider option"

definition core_authorize :: "'w core_app \<Rightarrow> (string \<times> string) option \<Rightarrow> 'a response option" where
  "core_authorize ca = authorize ''Provider Core API token is not configured.'' ''Invalid Provider Core bearer token.'' (ca_token ca)"

definition core_provider_for :: "'w core_app \<Rightarrow> string \<Rightarrow> 'a response + 'w core_provider" where
  "core_provider_for ca key =
     (case ca_registry ca of
        None \<Rightarrow> Inl (Crashed no_registry)
      | Some reg \<Rightarrow>
          (case registry_require reg key of
             Inl x \<Rightarrow> Inl (Http 404 (Message (''Unsupported provider: '' @ key)))
           | Inr a \<Rightarrow>
               (case ca_providers ca (ad_key a) of
                  None \<Rightarrow> Inl (Http 501 (Message (''Provider '' @ repr_str key @ '' does not implement Provider Core.'')))
                | Some p \<Rightarrow> Inr p)))"

fun provider_http_error :: "err \<Rightarrow> 'a response" where
  "provider_http_error (CapabilityError m p op) = Http 400 (ProviderFailure ''provider_capability_error'' p op)"
| "provider_http_error (OperationError m p op) = Http 502 (ProviderFailure ''provider_operation_error'' p op)"
| "provider_http_error (ProviderError m p op) = Http 502 (ProviderFailure ''provider_error'' p op)"
| "provider_http_error x = Crashed x"

definition core_answer :: "('w \<times> (client_failure + 'a)) option \<Rightarrow> ('w \<times> 'a response) option" where
  "core_answer r =
     (case r of
        None \<Rightarrow> None
      | Some (w, Inl x) \<Rightarrow> Some (w, provider_http_error (failure_err x))
      | Some (w, Inr v) \<Rightarrow> Some (w, Answered 200 v))"

fun webhook_http_error :: "webhook_failure \<Rightarrow> 'a response" where
  "webhook_http_error (Rejected n c m) = Http n (Message m)"
| "webhook_http_error (Raised x) = provider_http_error x"

definition core_webhook_answer :: "('w \<times> (webhook_failure + 'a)) option \<Rightarrow> ('w \<times> 'a response) option" where
  "core_webhook_answer r =
     (case r of
        None \<Rightarrow> None
      | Some (w, Inl x) \<Rightarrow> Some (w, webhook_http_error x)
      | Some (w, Inr v) \<Rightarrow> Some (w, Answered 200 v))"

text \<open>The authorization comes before the validation of the body, and this before the provider is looked up.\<close>

definition on_core ::
  "'w core_app \<Rightarrow> (string \<times> string) option \<Rightarrow> string \<Rightarrow> bool \<Rightarrow> ('w core_provider \<Rightarrow> 'w \<Rightarrow> ('w \<times> 'a response) option) \<Rightarrow>
     'w \<Rightarrow> ('w \<times> 'a response) option" where
  "on_core ca credentials key valid f w =
     (case core_authorize ca credentials of
        Some r \<Rightarrow> Some (w, r)
      | None \<Rightarrow>
          (if \<not> valid then Some (w, Unprocessable)
           else (case core_provider_for ca key of Inl r \<Rightarrow> Some (w, r) | Inr p \<Rightarrow> f p w)))"

definition normalize_webhook_endpoint ::
  "'w core_app \<Rightarrow> (string \<times> string) option \<Rightarrow> string \<Rightarrow> (string \<times> string) list \<Rightarrow> string \<Rightarrow> 'w \<Rightarrow> ('w \<times> normalized_webhook response) option" where
  "normalize_webhook_endpoint ca credentials key headers body =
     on_core ca credentials key True (\<lambda>p w. core_webhook_answer (co_normalize_webhook p headers body w))"

definition checkout_request_fields :: "string \<Rightarrow> string option \<Rightarrow> bool" where
  "checkout_request_fields repository clone_url \<longleftrightarrow> text_within 1 512 (Some repository) \<and> text_within 0 2048 clone_url"

definition resolve_checkout_endpoint ::
  "'w core_app \<Rightarrow> (string \<times> string) option \<Rightarrow> string \<Rightarrow> string \<Rightarrow> string option \<Rightarrow> 'w \<Rightarrow> ('w \<times> checkout_target response) option" where
  "resolve_checkout_endpoint ca credentials key repository clone_url =
     on_core ca credentials key (checkout_request_fields repository clone_url)
       (\<lambda>p w. core_answer (co_resolve_git_checkout p repository clone_url w))"

definition comment_request_fields :: "comment_request \<Rightarrow> bool" where
  "comment_request_fields q \<longleftrightarrow>
     text_within 1 512 (Some (cq_repository q)) \<and> 0 < cq_pull_request_number q \<and> length (cq_comments q) \<le> 100 \<and>
     list_all (\<lambda>c. comment_publish_item c = Inr c) (cq_comments q) \<and> opt_all (\<lambda>k. k \<in> set comment_kinds) (cq_kind q) \<and>
     text_within 1 100000 (cq_body q) \<and> text_within 1 255 (cq_idempotency_key q) \<and> text_within 0 4096 (cq_path q) \<and>
     positive (cq_line q) \<and> text_within 0 128 (cq_commit_sha q)"

text \<open>The validator that runs after the fields puts a single comment into the list.\<close>

definition validated_comments :: "comment_request \<Rightarrow> comment_request option" where
  "validated_comments q =
     (if comment_request_fields q then (case normalize_single_comment q of Inl x \<Rightarrow> None | Inr q1 \<Rightarrow> Some q1) else None)"

definition publish_comments_endpoint ::
  "'w core_app \<Rightarrow> (string \<times> string) option \<Rightarrow> string \<Rightarrow> comment_request \<Rightarrow> 'w \<Rightarrow> ('w \<times> comment_result response) option" where
  "publish_comments_endpoint ca credentials key q =
     on_core ca credentials key (validated_comments q \<noteq> None)
       (\<lambda>p w. core_answer (co_publish_comments p (the (validated_comments q)) w))"

definition query_endpoint ::
  "'w core_app \<Rightarrow> (string \<times> string) option \<Rightarrow> string \<Rightarrow> query_request \<Rightarrow> 'w \<Rightarrow> ('w \<times> query_result response) option" where
  "query_endpoint ca credentials key q =
     on_core ca credentials key (query_request_fields q) (\<lambda>p w. core_answer (co_query p q w))"

text \<open>
  The report of the fields that do not validate: under \<open>/v1/\<close>, where requests carry secrets, without what was sent.
\<close>

definition validation_detail :: "string \<Rightarrow> dict list \<Rightarrow> dict list" where
  "validation_detail path errors =
     (if \<not> starts_with path ''/v1/'' then errors
      else map (filter (\<lambda>(key, value). key \<notin> {''input'', ''ctx''})) errors)"

section \<open>What a caller learns\<close>

datatype core_request =
    NormalizeWebhook "(string \<times> string) list" string
  | ResolveCheckout string "string option"
  | PublishComments comment_request
  | QueryPlatform query_request

datatype core_value =
    WebhookValue normalized_webhook
  | CheckoutValue checkout_target
  | CommentsValue comment_result
  | QueryValue query_result

definition showing :: "('a \<Rightarrow> 'b) \<Rightarrow> ('w \<times> 'a response) option \<Rightarrow> ('w \<times> 'b response) option" where
  "showing g = map_option (map_prod id (map_response g))"

fun serve_core ::
  "'w core_app \<Rightarrow> (string \<times> string) option \<Rightarrow> string \<Rightarrow> core_request \<Rightarrow> 'w \<Rightarrow> ('w \<times> core_value response) option" where
  "serve_core ca credentials key (NormalizeWebhook headers body) w =
     showing WebhookValue (normalize_webhook_endpoint ca credentials key headers body w)"
| "serve_core ca credentials key (ResolveCheckout repository clone_url) w =
     showing CheckoutValue (resolve_checkout_endpoint ca credentials key repository clone_url w)"
| "serve_core ca credentials key (PublishComments q) w = showing CommentsValue (publish_comments_endpoint ca credentials key q w)"
| "serve_core ca credentials key (QueryPlatform q) w = showing QueryValue (query_endpoint ca credentials key q w)"

text \<open>Failures of a provider that differ in their messages alone\<close>

fun same_failure :: "err \<Rightarrow> err \<Rightarrow> bool" where
  "same_failure (CapabilityError m p op) (CapabilityError m' p' op') \<longleftrightarrow> p = p' \<and> op = op'"
| "same_failure (OperationError m p op) (OperationError m' p' op') \<longleftrightarrow> p = p' \<and> op = op'"
| "same_failure (ProviderError m p op) (ProviderError m' p' op') \<longleftrightarrow> p = p' \<and> op = op'"
| "same_failure x y \<longleftrightarrow> x = y"

definition same_client_failure :: "client_failure \<Rightarrow> client_failure \<Rightarrow> bool" where
  "same_client_failure x y \<longleftrightarrow> same_failure (failure_err x) (failure_err y)"

fun same_webhook_failure :: "webhook_failure \<Rightarrow> webhook_failure \<Rightarrow> bool" where
  "same_webhook_failure (Raised x) (Raised y) \<longleftrightarrow> same_failure x y"
| "same_webhook_failure x y \<longleftrightarrow> x = y"

definition same_results :: "('f \<Rightarrow> 'f \<Rightarrow> bool) \<Rightarrow> ('w \<times> ('f + 'a)) option \<Rightarrow> ('w \<times> ('f + 'a)) option \<Rightarrow> bool" where
  "same_results same = rel_option (rel_prod (=) (rel_sum same (=)))"

definition same_provider :: "'w core_provider \<Rightarrow> 'w core_provider \<Rightarrow> bool" where
  "same_provider p p' \<longleftrightarrow>
     (\<forall>headers body w. same_results same_webhook_failure (co_normalize_webhook p headers body w) (co_normalize_webhook p' headers body w)) \<and>
     (\<forall>repo url w. same_results same_client_failure (co_resolve_git_checkout p repo url w) (co_resolve_git_checkout p' repo url w)) \<and>
     (\<forall>q w. same_results same_client_failure (co_publish_comments p q w) (co_publish_comments p' q w)) \<and>
     (\<forall>q w. same_results same_client_failure (co_query p q w) (co_query p' q w))"

definition same_app :: "'w core_app \<Rightarrow> 'w core_app \<Rightarrow> bool" where
  "same_app ca ca' \<longleftrightarrow> ca_registry ca' = ca_registry ca \<and> ca_token ca' = ca_token ca \<and>
     (\<forall>key. rel_option same_provider (ca_providers ca key) (ca_providers ca' key))"

lemma same_failure_answer: "same_failure x y \<Longrightarrow> provider_http_error x = (provider_http_error y :: 'a response)"
  by (cases "(x, y)" rule: same_failure.cases) auto

lemma same_webhook_failure_answer: "same_webhook_failure x y \<Longrightarrow> webhook_http_error x = (webhook_http_error y :: 'a response)"
  by (cases "(x, y)" rule: same_webhook_failure.cases) (auto intro: same_failure_answer)

lemma same_results_cases:
  assumes "same_results same r r'"
  obtains "r = None" "r' = None"
    | w x y where "r = Some (w, Inl x)" "r' = Some (w, Inl y)" "same x y"
    | w v where "r = Some (w, Inr v)" "r' = Some (w, Inr v)"
  using assms unfolding same_results_def
  by (elim option.rel_cases) (auto elim!: rel_prod.cases rel_sum.cases)

lemma same_answer: "same_results same_client_failure r r' \<Longrightarrow> core_answer r = core_answer r'"
  by (elim same_results_cases) (auto simp: core_answer_def same_client_failure_def intro: same_failure_answer)

lemma same_webhook_answer: "same_results same_webhook_failure r r' \<Longrightarrow> core_webhook_answer r = core_webhook_answer r'"
  by (elim same_results_cases) (auto simp: core_webhook_answer_def intro: same_webhook_failure_answer)

definition admitted :: "'w core_app \<Rightarrow> (string \<times> string) option \<Rightarrow> string \<Rightarrow> bool" where
  "admitted ca credentials key \<longleftrightarrow>
     (\<exists>token scheme. ca_token ca = Some token \<and> token \<noteq> [] \<and> credentials = Some (scheme, token) \<and> str_lower scheme = ''bearer'') \<and>
     (\<exists>reg a. ca_registry ca = Some reg \<and> registry_get reg key = Some a \<and> ca_providers ca (ad_key a) \<noteq> None)"

lemma core_provider_found:
  "core_provider_for ca key = Inr p \<longleftrightarrow>
     (\<exists>reg a. ca_registry ca = Some reg \<and> registry_get reg key = Some a \<and> ca_providers ca (ad_key a) = Some p)"
  by (auto simp: core_provider_for_def registry_require_def split: option.splits)

lemma core_provider_codes: "core_provider_for ca key = Inl r \<Longrightarrow> status_code r \<noteq> 200"
  by (auto simp: core_provider_for_def split: option.splits sum.splits)

lemma on_core_admits:
  assumes "on_core ca credentials key valid f w = Some (w', r)" and "w' \<noteq> w \<or> status_code r = 200"
  shows "admitted ca credentials key"
proof (cases "core_authorize ca credentials :: 'b response option")
  case (Some x)
  then show ?thesis using assms authorize_codes[of _ _ "ca_token ca" credentials x] by (auto simp: on_core_def core_authorize_def)
next
  case None
  then obtain p where "core_provider_for ca key = (Inr p :: 'b response + _)"
    using assms core_provider_codes by (fastforce simp: on_core_def split: if_splits sum.splits)
  with None show ?thesis by (auto simp: admitted_def core_provider_found core_authorize_def authorize_None)
qed

lemma same_core_provider:
  assumes "same_app ca ca'"
  shows "rel_sum (=) same_provider (core_provider_for ca key) (core_provider_for ca' key)"
proof -
  have k: "rel_option same_provider (ca_providers ca k) (ca_providers ca' k)" and r: "ca_registry ca' = ca_registry ca" for k
    using assms by (simp_all add: same_app_def)
  show ?thesis
  proof (cases "ca_registry ca")
    case (Some reg)
    show ?thesis
    proof (cases "registry_require reg key")
      case (Inr a)
      with k[of "ad_key a"] r Some show ?thesis by (cases rule: option.rel_cases) (auto simp: core_provider_for_def)
    qed (simp add: core_provider_for_def Some r)
  qed (simp add: core_provider_for_def r)
qed

lemma on_core_same:
  fixes f :: "'w core_provider \<Rightarrow> 'w \<Rightarrow> ('w \<times> 'b response) option"
  assumes "same_app ca ca'" and "\<And>p p'. same_provider p p' \<Longrightarrow> f p w = f' p' w"
  shows "on_core ca credentials key valid f w = on_core ca' credentials key valid f' w"
proof -
  have "core_authorize ca' credentials = (core_authorize ca credentials :: 'b response option)"
    using assms(1) by (simp add: same_app_def core_authorize_def)
  then show ?thesis
    using same_core_provider[OF assms(1), of key, where 'b = 'b] unfolding on_core_def
    by (auto simp: assms(2) elim!: rel_sum.cases split: option.split)
qed

lemma showing_Some: "showing g x = Some (w', r) \<longleftrightarrow> (\<exists>r0. x = Some (w', r0) \<and> r = map_response g r0)"
  by (auto simp: showing_def)

lemma status_shown: "status_code (map_response g r) = status_code r"
  by (cases r) auto

lemma on_core_admitted:
  assumes "admitted ca credentials key" and "ca_registry ca = Some reg" and "registry_get reg key = Some a"
    and "ca_providers ca (ad_key a) = Some p" and "list_all (\<lambda>c. code c < 128) (the (ca_token ca))"
  shows "on_core ca credentials key True f w = f p w"
proof -
  have "core_authorize ca credentials = (None :: 'b response option)"
    using assms(1,5) by (auto simp: admitted_def core_authorize_def authorize_None)
  moreover have "core_provider_for ca key = (Inr p :: 'b response + _)"
    using assms(2-4) by (simp add: core_provider_found)
  ultimately show ?thesis by (simp add: on_core_def)
qed


text \<open>A provider that fails at whatever it is asked, with a message of its platform\<close>

definition failing_provider :: "string \<Rightarrow> unit core_provider" where
  "failing_provider m =
     (let x = OperationError m (Some ''gh'') (Some ''query'')
      in \<lparr>co_normalize_webhook = (\<lambda>_ _ w. Some (w, Inl (Raised x))), co_resolve_git_checkout = (\<lambda>_ _. io_fail (Escaped x)),
          co_publish_comments = (\<lambda>_. io_fail (Escaped x)), co_query = (\<lambda>_. io_fail (Escaped x))\<rparr>)"

definition sample_core :: "string \<Rightarrow> unit core_app" where
  "sample_core m = \<lparr>ca_registry = Some sample_registry, ca_token = Some ''t0'', ca_providers = (\<lambda>_. Some (failing_provider m))\<rparr>"

definition sample_query :: query_request where
  "sample_query = \<lparr>qr_action = ''pull_request.get'', qr_repository = ''o/r'', qr_pull_request_number = 1, qr_cursor = None, qr_page_size = 10\<rparr>"


end
