(* ===== verification/Migration.thy ===== *)
theory Migration
  imports Models
begin

text \<open>
  The startup of the database in \<open>infrastructure/db.py\<close>: creating the missing tables and the two migrations, of the control
  columns of reviews and agent tasks into the table \<open>task\<close> and of the columns of the agent runtime. The tables are modelled
  as the migrations see them, by the names of their columns; the types of columns, keys and constraints other than indexes
  are left out, as is the pool of connections.
\<close>

section \<open>Tables by the names of their columns\<close>

text \<open>
  A row gives each column its cell, \<open>Null\<close> where it has none. Only text and numbers are ever turned into text, so the cells
  of the other types have no structure.
\<close>

datatype cell = Null | Txt string | Number int | Moment time | Opaque json

type_synonym sql_row = "string \<Rightarrow> cell"

record sql_index =
  ix_name :: string
  ix_columns :: "string list"
  ix_unique :: bool

record sql_table =
  tb_columns :: "string list"
  tb_indexes :: "sql_index list"
  tb_rows :: "sql_row list"

type_synonym catalog = "string \<Rightarrow> sql_table option"

definition row_of :: "(string \<times> cell) list \<Rightarrow> sql_row" where
  "row_of xs = (\<lambda>c. case map_of xs c of None \<Rightarrow> Null | Some v \<Rightarrow> v)"

fun cell_truth :: "cell \<Rightarrow> bool" where
  "cell_truth Null = False"
| "cell_truth (Txt s) = (s \<noteq> [])"
| "cell_truth (Number n) = (n \<noteq> 0)"
| "cell_truth (Moment t) = True"
| "cell_truth (Opaque j) = is_truthy j"

text \<open>\<open>str(value)\<close>, where \<open>py\<close> shows the cells that are neither text nor a number\<close>

fun str_cell :: "(cell \<Rightarrow> string) \<Rightarrow> cell \<Rightarrow> string" where
  "str_cell py (Txt s) = s"
| "str_cell py (Number n) = show_int n"
| "str_cell py c = py c"

definition rows_of :: "catalog \<Rightarrow> string \<Rightarrow> sql_row list" where
  "rows_of cat t = (case cat t of None \<Rightarrow> [] | Some tb \<Rightarrow> tb_rows tb)"

definition alter :: "string \<Rightarrow> (sql_table \<Rightarrow> err + sql_table) \<Rightarrow> catalog \<Rightarrow> err + catalog" where
  "alter t f cat =
     (case cat t of
        None \<Rightarrow> Inl (OtherError (''No such table: '' @ t))
      | Some tb \<Rightarrow> (case f tb of Inl x \<Rightarrow> Inl x | Inr tb1 \<Rightarrow> Inr (cat(t \<mapsto> tb1))))"

definition migrating :: "err + 'a \<Rightarrow> ('a \<Rightarrow> err + 'b) \<Rightarrow> err + 'b" where
  "migrating r f = (case r of Inl x \<Rightarrow> Inl x | Inr v \<Rightarrow> f v)"

text \<open>\<open>ALTER TABLE ... ADD COLUMN\<close>, which fills the new column of every row with its default\<close>

definition add_column :: "string \<Rightarrow> cell \<Rightarrow> sql_table \<Rightarrow> sql_table" where
  "add_column name fill tb = tb\<lparr>tb_columns := tb_columns tb @ [name], tb_rows := map (\<lambda>r. r(name := fill)) (tb_rows tb)\<rparr>"

definition drop_column :: "string \<Rightarrow> sql_table \<Rightarrow> sql_table" where
  "drop_column name tb =
     tb\<lparr>tb_columns := filter (\<lambda>c. c \<noteq> name) (tb_columns tb), tb_rows := map (\<lambda>r. r(name := Null)) (tb_rows tb)\<rparr>"

text \<open>
  \<open>CREATE INDEX IF NOT EXISTS\<close>. An index name holds the name of its table, so it is looked for there. Rows whose key has a
  NULL never clash.
\<close>

definition create_index :: "sql_index \<Rightarrow> sql_table \<Rightarrow> err + sql_table" where
  "create_index ix tb =
     (if ix_name ix \<in> ix_name ` set (tb_indexes tb) then Inr tb
      else if \<not> set (ix_columns ix) \<subseteq> set (tb_columns tb) then Inl (OtherError (''no such column for '' @ ix_name ix))
      else if ix_unique ix \<and> \<not> distinct (filter (\<lambda>k. Null \<notin> set k) (map (\<lambda>r. map r (ix_columns ix)) (tb_rows tb)))
      then Inl (IntegrityError (ix_name ix))
      else Inr (tb\<lparr>tb_indexes := tb_indexes tb @ [ix]\<rparr>))"

section \<open>The declared tables\<close>

definition plain_index :: "string \<Rightarrow> string \<Rightarrow> sql_index" where
  "plain_index t c = \<lparr>ix_name = ''ix_'' @ t @ ''_'' @ c, ix_columns = [c], ix_unique = False\<rparr>"

definition declared :: "string \<Rightarrow> string list \<Rightarrow> string list \<Rightarrow> sql_index list \<Rightarrow> string \<times> sql_table" where
  "declared t columns indexed others =
     (t, \<lparr>tb_columns = columns, tb_indexes = map (plain_index t) indexed @ others, tb_rows = []\<rparr>)"

definition declared_pull_request_context :: "string \<times> sql_table" where
  "declared_pull_request_context = declared ''pull_request_context''
     [''id'', ''provider'', ''repo_full_name'', ''provider_repo_id'', ''pull_request_number'', ''provider_pr_id'',
      ''title'', ''author_login'', ''base_ref'', ''base_sha'', ''head_ref'', ''head_sha'', ''head_repo_full_name'',
      ''is_fork'', ''status'', ''html_url'', ''summary_comment_provider_id'', ''latest_review_run_id'',
      ''latest_event_id'', ''closed_at'', ''merged_at'', ''created_at'', ''updated_at'']
     [''provider'', ''repo_full_name'', ''pull_request_number'', ''head_sha'', ''latest_review_run_id'']
     []"

definition declared_provider_event_inbox :: "string \<times> sql_table" where
  "declared_provider_event_inbox = declared ''provider_event_inbox''
     [''id'', ''provider'', ''delivery_id'', ''provider_event'', ''provider_action'', ''internal_event'',
      ''repo_full_name'', ''pull_request_number'', ''head_sha'', ''dedupe_key'', ''coalesce_key'', ''payload_digest'',
      ''payload'', ''status'', ''error_code'', ''error_message'', ''review_run_id'', ''created_at'', ''processed_at'']
     [''provider'', ''delivery_id'', ''repo_full_name'', ''pull_request_number'', ''head_sha'', ''dedupe_key'']
     []"

definition declared_task :: "string \<times> sql_table" where
  "declared_task = declared ''task''
     [''id'', ''kind'', ''capability_id'', ''status'', ''stage'', ''execution_status'', ''delivery_status'',
      ''queue'', ''priority'', ''effective_priority'', ''available_at'', ''dedupe_key'', ''concurrency_key'',
      ''resource_class'', ''resource_context_json'', ''resolved_preset_json'', ''max_attempts'', ''lock_owner'',
      ''locked_until'', ''started_at'', ''completed_at'', ''deadline_at'', ''created_at'', ''updated_at'']
     [''kind'', ''stage'', ''queue'', ''available_at'', ''concurrency_key'', ''resource_class'']
     [\<lparr>ix_name = ''ix_task_claim'', ix_columns = [''status'', ''queue'', ''effective_priority'', ''available_at''], ix_unique = False\<rparr>]"

definition declared_task_attempt :: "string \<times> sql_table" where
  "declared_task_attempt = declared ''task_attempt''
     [''id'', ''task_id'', ''attempt_no'', ''status'', ''stage'', ''agent_run_id'', ''workspace_id'',
      ''workspace_path'', ''resolved_preset_json'', ''usage_json'', ''failure_category'', ''error_message'',
      ''started_at'', ''completed_at'']
     [''task_id'', ''agent_run_id'']
     []"

definition declared_session_archive :: "string \<times> sql_table" where
  "declared_session_archive = declared ''session_archive''
     [''id'', ''task_id'', ''task_attempt_id'', ''agent_run_id'', ''session_json'', ''task_metadata_json'',
      ''workspace_diff'', ''workspace_diff_truncated'', ''redaction_version'', ''created_at'', ''updated_at'']
     [''task_id'', ''task_attempt_id'', ''agent_run_id'']
     []"

definition declared_resource_pool :: "string \<times> sql_table" where
  "declared_resource_pool = declared ''resource_pool''
     [''resource_key'', ''dimension'', ''capacity'', ''created_at'', ''updated_at'']
     [''dimension'']
     []"

definition declared_resource_lease :: "string \<times> sql_table" where
  "declared_resource_lease = declared ''resource_lease''
     [''id'', ''task_id'', ''stage'', ''resource_key'', ''units'', ''owner'', ''expires_at'', ''created_at'']
     [''task_id'', ''expires_at'']
     [\<lparr>ix_name = ''ix_resource_lease_active'', ix_columns = [''resource_key'', ''expires_at''], ix_unique = False\<rparr>]"

definition declared_delivery_outbox :: "string \<times> sql_table" where
  "declared_delivery_outbox = declared ''delivery_outbox''
     [''id'', ''task_id'', ''provider'', ''operation'', ''destination_key'', ''idempotency_key'', ''payload_json'',
      ''payload_digest'', ''mandatory'', ''status'', ''queue'', ''priority'', ''available_at'', ''attempt'',
      ''max_attempts'', ''lock_owner'', ''locked_until'', ''provider_message_id'', ''last_error'', ''delivered_at'',
      ''created_at'', ''updated_at'']
     [''task_id'', ''provider'', ''operation'', ''destination_key'']
     [\<lparr>ix_name = ''ix_delivery_claim'', ix_columns = [''status'', ''queue'', ''priority'', ''available_at''], ix_unique = False\<rparr>]"

definition declared_review_comment_slot :: "string \<times> sql_table" where
  "declared_review_comment_slot = declared ''review_comment_slot''
     [''id'', ''review_run_id'', ''provider'', ''repo_full_name'', ''pull_request_number'', ''head_sha'', ''marker'',
      ''provider_comment_id'', ''status'', ''placeholder_version'', ''result_version'', ''last_error'', ''bound_at'',
      ''finalized_at'', ''created_at'', ''updated_at'']
     [''review_run_id'', ''provider'', ''repo_full_name'', ''pull_request_number'', ''head_sha'']
     [\<lparr>ix_name = ''ix_review_comment_slot_status'', ix_columns = [''status'', ''updated_at''], ix_unique = False\<rparr>]"

definition declared_review_run :: "string \<times> sql_table" where
  "declared_review_run = declared ''review_run''
     [''id'', ''pull_request_context_id'', ''provider'', ''repo_full_name'', ''pull_request_number'', ''base_sha'',
      ''head_sha'', ''attempt'', ''trigger_type'', ''trigger_event_id'', ''summary_comment_id'', ''workspace_path'',
      ''agent_session_id'', ''agent_status'', ''agent_provider'', ''agent_model'', ''agent_thinking_level'',
      ''review_summary'', ''review_conclusion'', ''risk_level'', ''finding_count_total'',
      ''finding_count_by_severity'', ''result_schema_version'', ''result_raw_json'', ''validation_warnings_json'',
      ''validation_errors_json'', ''failure_code'', ''error'', ''superseded_by_review_run_id'',
      ''soft_timeout_emitted_at'', ''hard_timeout_emitted_at'']
     [''pull_request_context_id'', ''provider'', ''repo_full_name'', ''pull_request_number'', ''head_sha'',
      ''trigger_event_id'', ''agent_session_id'', ''superseded_by_review_run_id'']
     []"

definition declared_review_session :: "string \<times> sql_table" where
  "declared_review_session = declared ''review_session''
     [''id'', ''review_run_id'', ''agent_session_id'', ''status'', ''skill_name'', ''profile_name'',
      ''input_snapshot_json'', ''result_ref'', ''error_message'', ''created_at'', ''updated_at'']
     [''agent_session_id'']
     [\<lparr>ix_name = ''ix_review_session_review_run_id'', ix_columns = [''review_run_id''], ix_unique = True\<rparr>]"

definition declared_finding :: "string \<times> sql_table" where
  "declared_finding = declared ''finding''
     [''id'', ''review_run_id'', ''pull_request_context_id'', ''fingerprint'', ''file_path'', ''line_start'',
      ''line_end'', ''diff_hunk_hash'', ''severity'', ''category'', ''message'', ''suggestion'', ''confidence'',
      ''status'', ''state'', ''first_seen_run_id'', ''last_seen_run_id'', ''resolved_run_id'', ''outcome'',
      ''raw_payload_json'', ''created_at'', ''updated_at'']
     [''review_run_id'', ''pull_request_context_id'', ''fingerprint'', ''severity'', ''first_seen_run_id'',
      ''last_seen_run_id'', ''resolved_run_id'', ''outcome'']
     []"

definition declared_review_comment_ref :: "string \<times> sql_table" where
  "declared_review_comment_ref = declared ''review_comment_ref''
     [''id'', ''provider'', ''repo_full_name'', ''pull_request_number'', ''review_run_id'', ''finding_id'',
      ''comment_type'', ''provider_comment_id'', ''provider_thread_id'', ''status'', ''last_published_body_hash'',
      ''created_at'', ''updated_at'']
     [''provider'', ''repo_full_name'', ''pull_request_number'', ''review_run_id'', ''finding_id'']
     []"

definition declared_retry_job :: "string \<times> sql_table" where
  "declared_retry_job = declared ''retry_job''
     [''id'', ''review_run_id'', ''job_type'', ''status'', ''attempt'', ''max_attempts'', ''next_run_at'',
      ''last_error'', ''created_at'', ''updated_at'']
     [''review_run_id'', ''job_type'', ''next_run_at'']
     []"

definition declared_agent_task :: "string \<times> sql_table" where
  "declared_agent_task = declared ''agent_task''
     [''id'', ''provider_event_id'', ''pull_request_context_id'', ''provider'', ''repo_full_name'',
      ''pull_request_number'', ''task_type'', ''source_kind'', ''source_comment_id'', ''source_url'',
      ''source_author_login'', ''command_text'', ''head_sha'', ''workspace_path'', ''response_comment_id'',
      ''response_body_hash'', ''response_published_at'', ''publish_attempts'', ''last_publish_error'',
      ''agent_session_id'', ''agent_status'', ''agent_provider'', ''agent_model'', ''agent_thinking_level'',
      ''result_text'', ''failure_code'', ''attempt'', ''agent_start_attempts'', ''soft_timeout_emitted_at'',
      ''hard_timeout_emitted_at'', ''input_json'', ''result_json'', ''error_message'']
     [''provider_event_id'', ''pull_request_context_id'', ''provider'', ''repo_full_name'', ''pull_request_number'',
      ''source_comment_id'', ''head_sha'', ''agent_session_id'']
     []"

definition declared_review_config :: "string \<times> sql_table" where
  "declared_review_config = declared ''review_config''
     [''id'', ''provider'', ''repo_full_name'', ''review_enabled'', ''line_comments_enabled'',
      ''min_severity_for_summary'', ''max_findings_per_run'', ''large_pr_file_limit'', ''large_pr_patch_bytes_limit'',
      ''auto_retry_invalid_agent_result'', ''auto_retry_infra_failure'', ''default_review_skill'',
      ''agent_commands_enabled'', ''default_agent_command_skill'', ''created_at'', ''updated_at'']
     []
     []"

definition declared_workspace :: "string \<times> sql_table" where
  "declared_workspace = declared ''workspace''
     [''id'', ''workspace_id'', ''provider'', ''repository'', ''repository_clone_url'', ''repo_hash'',
      ''pull_request_number'', ''base_sha'', ''head_sha'', ''workspace_path'', ''cache_path'', ''status'',
      ''failure_code'', ''failure_message'', ''created_at'', ''ready_at'', ''last_used_at'', ''expires_at'',
      ''updated_at'']
     [''provider'', ''repository'', ''repo_hash'', ''pull_request_number'', ''head_sha'']
     [\<lparr>ix_name = ''ix_workspace_workspace_id'', ix_columns = [''workspace_id''], ix_unique = True\<rparr>]"

definition declared_workspace_lease :: "string \<times> sql_table" where
  "declared_workspace_lease = declared ''workspace_lease''
     [''id'', ''workspace_id'', ''review_run_id'', ''session_id'', ''leased_at'', ''released_at'']
     [''workspace_id'']
     []"

definition metadata :: "(string \<times> sql_table) list" where
  "metadata =
     [declared_pull_request_context, declared_provider_event_inbox, declared_task, declared_task_attempt,
      declared_session_archive, declared_resource_pool, declared_resource_lease, declared_delivery_outbox,
      declared_review_comment_slot, declared_review_run, declared_review_session, declared_finding,
      declared_review_comment_ref, declared_retry_job, declared_agent_task, declared_review_config,
      declared_workspace, declared_workspace_lease]"

text \<open>\<open>Base.metadata.create_all\<close> leaves alone what exists.\<close>

definition create_all :: "catalog \<Rightarrow> catalog" where
  "create_all cat = (\<lambda>t. case cat t of Some tb \<Rightarrow> Some tb | None \<Rightarrow> map_of metadata t)"

section \<open>Unified tasks\<close>

definition control_columns :: "string list" where
  "control_columns =
     [''status'', ''stage'', ''lock_owner'', ''locked_until'', ''started_at'', ''completed_at'', ''deadline_at'',
      ''created_at'', ''updated_at'']"

definition legacy_execution_status :: "string \<Rightarrow> string" where
  "legacy_execution_status status =
     (if status = ''completed'' then ''completed''
      else if status \<in> {''failed'', ''cancelled'', ''superseded''} then ''failed''
      else if status = ''running'' then ''running''
      else ''pending'')"

definition legacy_concurrency_key :: "(cell \<Rightarrow> string) \<Rightarrow> string \<Rightarrow> sql_row \<Rightarrow> cell" where
  "legacy_concurrency_key py kind row =
     (let parts = [row ''provider'', row ''repo_full_name'', Txt ''pr'', row ''pull_request_number''] @
            (if kind = ''review'' \<and> cell_truth (row ''head_sha'') then [Txt ''head'', row ''head_sha''] else []);
          key = join '':'' (map (str_cell py) (filter (\<lambda>c. c \<noteq> Null) parts))
      in if key = [] then Null else Txt key)"

definition legacy_task :: "(cell \<Rightarrow> string) \<Rightarrow> time \<Rightarrow> string \<Rightarrow> string \<Rightarrow> sql_row \<Rightarrow> sql_row" where
  "legacy_task py t0 kind capability_id row =
     (let created_at = (if cell_truth (row ''created_at'') then row ''created_at'' else Moment t0);
          is_interactive = (kind = ''agent'' \<and> row ''task_type'' = Txt ''message_command'');
          is_manual = (kind = ''review'' \<and> row ''trigger_type'' = Txt ''manual'');
          queue = (if is_interactive then ''interactive'' else if is_manual then ''manual-review'' else ''webhook-review'');
          priority = (if is_interactive then 80 else if is_manual then 60 else 40);
          status = str_cell py (if cell_truth (row ''status'') then row ''status'' else Txt ''queued'')
      in row_of
           [(''id'', Txt (str_cell py (row ''id''))), (''kind'', Txt kind), (''capability_id'', Txt capability_id),
            (''status'', Txt status), (''stage'', row ''stage''),
            (''execution_status'', Txt (legacy_execution_status status)), (''delivery_status'', Txt ''not_required''),
            (''queue'', Txt queue), (''priority'', Number priority), (''effective_priority'', Number priority),
            (''available_at'', created_at), (''concurrency_key'', legacy_concurrency_key py kind row),
            (''resource_class'', Txt ''agent-standard''), (''max_attempts'', Number 2),
            (''lock_owner'', row ''lock_owner''), (''locked_until'', row ''locked_until''),
            (''started_at'', row ''started_at''), (''completed_at'', row ''completed_at''),
            (''deadline_at'', row ''deadline_at''), (''created_at'', created_at),
            (''updated_at'', if cell_truth (row ''updated_at'') then row ''updated_at'' else created_at)])"

text \<open>The tasks to insert for the rows of a table, and the identifiers that exist then\<close>

fun legacy_inserts ::
  "(cell \<Rightarrow> string) \<Rightarrow> (sql_row \<Rightarrow> sql_row) \<Rightarrow> string list \<Rightarrow> sql_row list \<Rightarrow> sql_row list \<times> string list" where
  "legacy_inserts py mk existing [] = ([], existing)"
| "legacy_inserts py mk existing (row # rows) =
     (let task_id = str_cell py (row ''id'') in
      if task_id \<in> set existing then legacy_inserts py mk existing rows
      else (case legacy_inserts py mk (existing @ [task_id]) rows of (inserts, ids) \<Rightarrow> (mk row # inserts, ids)))"

definition drop_legacy_task_control_columns :: "sql_table \<Rightarrow> sql_table" where
  "drop_legacy_task_control_columns tb =
     (let moved = filter (\<lambda>c. c \<in> set (tb_columns tb)) control_columns in
      if moved = [] then tb
      else fold drop_column moved
             (tb\<lparr>tb_indexes := filter (\<lambda>ix. set (ix_columns ix) \<inter> set moved = {}) (tb_indexes tb)\<rparr>))"

definition append_rows :: "sql_row list \<Rightarrow> sql_table \<Rightarrow> sql_table" where
  "append_rows rs tb = tb\<lparr>tb_rows := tb_rows tb @ rs\<rparr>"

definition migrate_legacy_table ::
  "(cell \<Rightarrow> string) \<Rightarrow> time \<Rightarrow> string \<times> string \<times> string \<Rightarrow> catalog \<times> string list \<Rightarrow> catalog \<times> string list" where
  "migrate_legacy_table py t0 spec s =
     (case spec of (t, kind, capability_id) \<Rightarrow> case s of (cat, existing) \<Rightarrow>
      case cat t of
        None \<Rightarrow> s
      | Some legacy \<Rightarrow>
          (case legacy_inserts py (legacy_task py t0 kind capability_id) existing (tb_rows legacy) of (inserts, ids) \<Rightarrow>
             (let cat1 = (if inserts = [] then cat else cat(''task'' := map_option (append_rows inserts) (cat ''task'')))
              in (cat1(t := map_option drop_legacy_task_control_columns (cat1 t)), ids))))"

definition migrate_unified_tasks :: "(cell \<Rightarrow> string) \<Rightarrow> time \<Rightarrow> catalog \<Rightarrow> catalog" where
  "migrate_unified_tasks py t0 cat =
     (case cat ''task'' of
        None \<Rightarrow> cat
      | Some tk \<Rightarrow>
          fst (fold (migrate_legacy_table py t0)
                 [(''review_run'', ''review'', ''code-review''), (''agent_task'', ''agent'', ''pr-assistant'')]
                 (cat, map (\<lambda>r. str_cell py (r ''id'')) (tb_rows tk))))"

section \<open>The columns of the agent runtime\<close>

text \<open>A column that is added: its name, its declaration, and the cell the declaration fills it with\<close>

type_synonym addition = "string \<times> string \<times> cell"

definition add_columns :: "addition list \<Rightarrow> sql_table \<Rightarrow> sql_table" where
  "add_columns additions tb =
     fold (\<lambda>(name, declaration, fill). add_column name fill) (filter (\<lambda>a. fst a \<notin> set (tb_columns tb)) additions) tb"

text \<open>\<open>UPDATE ... SET agent_session_id = openhands_conversation_id\<close>, given the columns the table had before\<close>

definition carry_session :: "string list \<Rightarrow> sql_table \<Rightarrow> sql_table" where
  "carry_session columns tb =
     (if ''openhands_conversation_id'' \<in> set columns
      then tb\<lparr>tb_rows := map (\<lambda>r. if r ''agent_session_id'' = Null \<and> r ''openhands_conversation_id'' \<noteq> Null
                                 then r(''agent_session_id'' := r ''openhands_conversation_id'') else r) (tb_rows tb)\<rparr>
      else tb)"

definition review_run_additions :: "addition list" where
  "review_run_additions =
     [(''agent_session_id'', ''VARCHAR(128)'', Null), (''agent_status'', ''VARCHAR(32)'', Null),
      (''agent_provider'', ''VARCHAR(64)'', Null), (''agent_model'', ''VARCHAR(128)'', Null),
      (''agent_thinking_level'', ''VARCHAR(16)'', Null)]"

definition review_session_additions :: "addition list" where
  "review_session_additions = [(''agent_session_id'', ''VARCHAR(128)'', Null)]"

definition task_additions :: "addition list" where
  "task_additions =
     [(''source_kind'', ''VARCHAR(64)'', Null), (''source_comment_id'', ''VARCHAR(128)'', Null),
      (''source_url'', ''TEXT'', Null), (''source_author_login'', ''VARCHAR(255)'', Null),
      (''command_text'', ''TEXT'', Null), (''head_sha'', ''VARCHAR(80)'', Null), (''workspace_path'', ''TEXT'', Null),
      (''response_comment_id'', ''VARCHAR(128)'', Null), (''response_body_hash'', ''VARCHAR(128)'', Null),
      (''response_published_at'', ''TIMESTAMP'', Null), (''publish_attempts'', ''INTEGER DEFAULT 0'', Number 0),
      (''last_publish_error'', ''TEXT'', Null), (''agent_session_id'', ''VARCHAR(128)'', Null),
      (''agent_status'', ''VARCHAR(32)'', Null), (''agent_provider'', ''VARCHAR(64)'', Null),
      (''agent_model'', ''VARCHAR(128)'', Null), (''agent_thinking_level'', ''VARCHAR(16)'', Null),
      (''result_text'', ''TEXT'', Null), (''failure_code'', ''VARCHAR(64)'', Null),
      (''attempt'', ''INTEGER DEFAULT 1'', Number 1), (''agent_start_attempts'', ''INTEGER DEFAULT 0'', Number 0),
      (''soft_timeout_emitted_at'', ''TIMESTAMP'', Null), (''hard_timeout_emitted_at'', ''TIMESTAMP'', Null)]"

definition config_additions :: "addition list" where
  "config_additions =
     [(''agent_commands_enabled'', ''BOOLEAN DEFAULT TRUE'', Opaque (JBool True)),
      (''default_agent_command_skill'', ''VARCHAR(128) DEFAULT 'pr-assistant'' @ [CHR 0x27], Txt ''pr-assistant'')]"

definition event_index :: sql_index where
  "event_index = \<lparr>ix_name = ''uq_agent_task_provider_event'', ix_columns = [''provider_event_id''], ix_unique = True\<rparr>"

definition runtime_run :: "sql_table \<Rightarrow> err + sql_table" where
  "runtime_run tb = create_index (plain_index ''review_run'' ''agent_session_id'')
     (carry_session (tb_columns tb) (add_columns review_run_additions tb))"

definition runtime_session :: "sql_table \<Rightarrow> err + sql_table" where
  "runtime_session tb = create_index (plain_index ''review_session'' ''agent_session_id'')
     (carry_session (tb_columns tb) (add_columns review_session_additions tb))"

definition runtime_task :: "sql_table \<Rightarrow> err + sql_table" where
  "runtime_task tb = migrating (create_index event_index (add_columns task_additions tb))
     (create_index (plain_index ''agent_task'' ''agent_session_id''))"

definition migrate_agent_runtime_columns :: "catalog \<Rightarrow> err + catalog" where
  "migrate_agent_runtime_columns cat =
     migrating (migrating (migrating
       (alter ''review_run'' runtime_run cat)
       (alter ''review_session'' runtime_session))
       (alter ''agent_task'' runtime_task))
       (alter ''review_config'' (\<lambda>tb. Inr (add_columns config_additions tb)))"

text \<open>\<open>init_models\<close> in one transaction, which an exception rolls back\<close>

definition init_models :: "(cell \<Rightarrow> string) \<Rightarrow> time \<Rightarrow> catalog \<Rightarrow> catalog \<times> (err + unit)" where
  "init_models py t0 cat =
     (case migrate_agent_runtime_columns (migrate_unified_tasks py t0 (create_all cat)) of
        Inl x \<Rightarrow> (cat, Inl x)
      | Inr cat1 \<Rightarrow> (cat1, Inr ()))"

definition normalize_database_url :: "string \<Rightarrow> string" where
  "normalize_database_url url =
     (if starts_with url ''postgres://'' then ''postgresql+asyncpg://'' @ drop 11 url
      else if starts_with url ''postgresql://'' then ''postgresql+asyncpg://'' @ drop 13 url
      else if starts_with url ''sqlite:///'' then ''sqlite+aiosqlite:///'' @ drop 10 url
      else url)"

section \<open>What the statements do to a table\<close>

lemma added_eq:
  "fold (\<lambda>(n, d, v). add_column n v) as tb =
     tb\<lparr>tb_columns := tb_columns tb @ map fst as, tb_rows := map (fold (\<lambda>(n, d, v) r. r(n := v)) as) (tb_rows tb)\<rparr>"
  by (induction as arbitrary: tb) (auto simp: add_column_def)

lemma filled_other: "c \<notin> fst ` set as \<Longrightarrow> fold (\<lambda>(n, d, v) r. r(n := v)) as r c = (r c :: cell)"
  by (induction as arbitrary: r) auto

lemma add_columns_frame:
  "tb_indexes (add_columns as tb) = tb_indexes tb"
  "set (tb_columns (add_columns as tb)) = set (tb_columns tb) \<union> fst ` set as"
  by (auto simp: add_columns_def added_eq)

lemma filled_in:
  "c \<in> fst ` set as \<Longrightarrow> \<forall>(n, d, v) \<in> set as. n = c \<longrightarrow> v = x \<Longrightarrow> fold (\<lambda>(n, d, v) r. r(n := v)) as r c = (x :: cell)"
proof (induction as arbitrary: r)
  case (Cons a as)
  then show ?case
    by (cases a; cases "c \<in> fst ` set as") (auto simp: filled_other fun_upd_same simp del: fun_upd_apply)
qed simp

lemma add_columns_rows:
  "\<exists>f. tb_rows (add_columns as tb) = map f (tb_rows tb) \<and>
     (\<forall>r c. c \<notin> fst ` set as \<or> c \<in> set (tb_columns tb) \<longrightarrow> f r c = r c) \<and>
     (\<forall>r c. c \<in> fst ` set as \<and> c \<notin> set (tb_columns tb) \<and> (\<forall>(n, d, v) \<in> set as. n = c \<longrightarrow> v = Null) \<longrightarrow> f r c = Null)"
  by (rule exI[of _ "fold (\<lambda>(n, d, v) r. r(n := v)) (filter (\<lambda>a. fst a \<notin> set (tb_columns tb)) as)"])
    (auto simp: add_columns_def added_eq intro!: filled_other filled_in)

lemma add_columns_none: "fst ` set as \<subseteq> set (tb_columns tb) \<Longrightarrow> add_columns as tb = tb"
proof -
  assume "fst ` set as \<subseteq> set (tb_columns tb)"
  then have "filter (\<lambda>a. fst a \<notin> set (tb_columns tb)) as = []" by (auto simp: filter_empty_conv)
  then show ?thesis by (simp add: add_columns_def)
qed

lemma dropped_eq:
  "fold drop_column cs tb = tb\<lparr>tb_columns := filter (\<lambda>c. c \<notin> set cs) (tb_columns tb),
     tb_rows := map (\<lambda>r c. if c \<in> set cs then Null else r c) (tb_rows tb)\<rparr>"
  by (induction cs arbitrary: tb) (auto simp: drop_column_def fun_eq_iff intro!: filter_cong)

lemma control_dropped:
  "set (tb_columns (drop_legacy_task_control_columns tb)) = set (tb_columns tb) - set control_columns"
  "tb_rows (drop_legacy_task_control_columns tb) =
     map (\<lambda>r c. if c \<in> set control_columns \<inter> set (tb_columns tb) then Null else r c) (tb_rows tb)"
  by (auto simp: drop_legacy_task_control_columns_def Let_def dropped_eq filter_empty_conv fun_eq_iff intro!: map_idI sym[OF map_idI])

lemma control_gone:
  "set control_columns \<inter> set (tb_columns tb) = {} \<Longrightarrow> drop_legacy_task_control_columns tb = tb"
  by (auto simp: drop_legacy_task_control_columns_def Let_def filter_empty_conv)

lemma index_created:
  assumes "create_index ix tb = Inr tb1"
  shows "tb_columns tb1 = tb_columns tb" "tb_rows tb1 = tb_rows tb"
    and "ix_name ` set (tb_indexes tb1) = insert (ix_name ix) (ix_name ` set (tb_indexes tb))"
  using assms by (auto simp: create_index_def split: if_splits)

lemma index_exists: "ix_name ix \<in> ix_name ` set (tb_indexes tb) \<Longrightarrow> create_index ix tb = Inr tb"
  by (simp add: create_index_def)

lemma carried_frame: "tb_columns (carry_session cs tb) = tb_columns tb" "tb_indexes (carry_session cs tb) = tb_indexes tb"
  by (simp_all add: carry_session_def)

definition carried :: "sql_table \<Rightarrow> bool" where
  "carried tb \<longleftrightarrow> (\<forall>r \<in> set (tb_rows tb). r ''agent_session_id'' = Null \<longrightarrow> r ''openhands_conversation_id'' = Null)"

lemma carried_carry: "''openhands_conversation_id'' \<in> set cs \<Longrightarrow> carried (carry_session cs tb)"
  by (auto simp: carried_def carry_session_def)

lemma carry_again: "''openhands_conversation_id'' \<in> set cs \<longrightarrow> carried tb \<Longrightarrow> carry_session cs tb = tb"
  by (auto simp: carried_def carry_session_def intro!: sql_table.equality map_idI)

text \<open>
  Every cell that was there is still there, and a session without an identifier of its own gets the one of the old backend
  where it is carried over.
\<close>

definition session_cell :: "bool \<Rightarrow> string list \<Rightarrow> sql_row \<Rightarrow> cell" where
  "session_cell carries columns r =
     (let v = (if ''agent_session_id'' \<in> set columns then r ''agent_session_id'' else Null)
      in if carries \<and> v = Null then r ''openhands_conversation_id'' else v)"

definition keeps_cells :: "string set \<Rightarrow> bool \<Rightarrow> sql_table \<Rightarrow> sql_table \<Rightarrow> bool" where
  "keeps_cells added carries tb tb1 \<longleftrightarrow> (\<exists>f. tb_rows tb1 = map f (tb_rows tb) \<and>
     (\<forall>r c. (c \<notin> added \<or> c \<in> set (tb_columns tb)) \<and> c \<noteq> ''agent_session_id'' \<longrightarrow> f r c = r c) \<and>
     (\<forall>r. f r ''agent_session_id'' = session_cell carries (tb_columns tb) r))"

lemma keeps_carried:
  assumes "''openhands_conversation_id'' \<notin> fst ` set as" and "''agent_session_id'' \<in> fst ` set as"
    and "\<forall>(n, d, v) \<in> set as. n = ''agent_session_id'' \<longrightarrow> v = Null"
  shows "keeps_cells (fst ` set as) (''openhands_conversation_id'' \<in> set cs) tb (carry_session cs (add_columns as tb))"
proof -
  obtain f where f0: "tb_rows (add_columns as tb) = map f (tb_rows tb)"
      "\<forall>r c. c \<notin> fst ` set as \<or> c \<in> set (tb_columns tb) \<longrightarrow> f r c = r c"
      "\<forall>r c. c \<in> fst ` set as \<and> c \<notin> set (tb_columns tb) \<and> (\<forall>(n, d, v) \<in> set as. n = c \<longrightarrow> v = Null) \<longrightarrow> f r c = Null"
    using add_columns_rows[of as tb] by (elim exE conjE)
  have f: "tb_rows (add_columns as tb) = map f (tb_rows tb)"
      "c \<notin> fst ` set as \<or> c \<in> set (tb_columns tb) \<Longrightarrow> f r c = r c" for r c
    using f0(1,2) by simp_all
  have f3: "f r ''agent_session_id'' = Null" if "''agent_session_id'' \<notin> set (tb_columns tb)" for r
    using f0(3)[THEN spec[of _ r], THEN spec[of _ "''agent_session_id''"]] assms(2,3) that by (elim mp) (intro conjI)
  show ?thesis
  proof (cases "''openhands_conversation_id'' \<in> set cs")
    case True
    define h where "h r = (if f r ''agent_session_id'' = Null \<and> f r ''openhands_conversation_id'' \<noteq> Null
      then (f r)(''agent_session_id'' := f r ''openhands_conversation_id'') else f r)" for r
    have "f r ''openhands_conversation_id'' = r ''openhands_conversation_id''" for r using f(2) assms(1) by simp
    then have "h r ''agent_session_id'' = session_cell True (tb_columns tb) r" for r
      using f(2)[where r = r and c = "''agent_session_id''"] f3[of r] by (simp add: h_def session_cell_def Let_def)
    moreover have "h r c = r c" if "c \<notin> fst ` set as \<or> c \<in> set (tb_columns tb)" "c \<noteq> ''agent_session_id''" for r c
      using f(2)[OF that(1)] that(2) by (simp add: h_def)
    moreover have "tb_rows (carry_session cs (add_columns as tb)) = map h (tb_rows tb)"
      using True f(1) by (simp add: carry_session_def h_def)
    ultimately show ?thesis unfolding keeps_cells_def eqTrueI[OF True] by (intro exI[of _ h]) blast
  next
    case False
    moreover have "f r ''agent_session_id'' = session_cell False (tb_columns tb) r" for r
      using f(2)[where r = r and c = "''agent_session_id''"] f3[of r] by (simp add: session_cell_def Let_def)
    ultimately show ?thesis unfolding keeps_cells_def using f
      by (intro exI[of _ f] conjI) (simp_all add: carry_session_def)
  qed
qed

lemma keeps_rows: "keeps_cells a k tb tb1 \<Longrightarrow> tb_rows tb2 = tb_rows tb1 \<Longrightarrow> keeps_cells a k tb tb2"
  by (simp add: keeps_cells_def)

section \<open>The runtime columns\<close>

lemma runtime_run_effect:
  assumes "runtime_run tb = Inr tb1"
  shows "keeps_cells (fst ` set review_run_additions) (''openhands_conversation_id'' \<in> set (tb_columns tb)) tb tb1"
    and "set (tb_columns tb1) = set (tb_columns tb) \<union> fst ` set review_run_additions"
    and "runtime_run tb1 = Inr tb1"
proof -
  let ?t = "carry_session (tb_columns tb) (add_columns review_run_additions tb)"
  note c = index_created[OF assms[unfolded runtime_run_def]]
  show "keeps_cells (fst ` set review_run_additions) (''openhands_conversation_id'' \<in> set (tb_columns tb)) tb tb1"
    by (rule keeps_rows[OF keeps_carried c(2)]) (simp_all add: review_run_additions_def)
  show cols: "set (tb_columns tb1) = set (tb_columns tb) \<union> fst ` set review_run_additions"
    by (simp add: c carried_frame add_columns_frame)
  have "''openhands_conversation_id'' \<in> set (tb_columns tb1) \<longrightarrow> carried tb1"
    using carried_carry[of "tb_columns tb"] by (auto simp: cols carried_def c(2) review_run_additions_def)
  then have "carry_session (tb_columns tb1) (add_columns review_run_additions tb1) = tb1"
    by (simp add: add_columns_none cols carry_again)
  then show "runtime_run tb1 = Inr tb1" by (simp add: runtime_run_def index_exists c)
qed

lemma runtime_session_effect:
  assumes "runtime_session tb = Inr tb1"
  shows "runtime_session tb1 = Inr tb1"
proof -
  note c = index_created[OF assms[unfolded runtime_session_def]]
  have cols: "set (tb_columns tb1) = set (tb_columns tb) \<union> fst ` set review_session_additions"
    by (simp add: c carried_frame add_columns_frame)
  have "''openhands_conversation_id'' \<in> set (tb_columns tb1) \<longrightarrow> carried tb1"
    using carried_carry[of "tb_columns tb"] by (auto simp: cols carried_def c(2) review_session_additions_def)
  then have "carry_session (tb_columns tb1) (add_columns review_session_additions tb1) = tb1"
    by (simp add: add_columns_none cols carry_again)
  then show ?thesis by (simp add: runtime_session_def index_exists c)
qed

lemma runtime_task_effect:
  assumes "runtime_task tb = Inr tb1"
  shows "keeps_cells (fst ` set task_additions) False tb tb1"
    and "set (tb_columns tb1) = set (tb_columns tb) \<union> fst ` set task_additions"
    and "runtime_task tb1 = Inr tb1"
proof -
  obtain t1 where a: "create_index event_index (add_columns task_additions tb) = Inr t1"
    and b: "create_index (plain_index ''agent_task'' ''agent_session_id'') t1 = Inr tb1"
    using assms by (auto simp: runtime_task_def migrating_def split: sum.splits)
  note c = index_created[OF a] index_created[OF b]
  show "keeps_cells (fst ` set task_additions) False tb tb1"
    using keeps_rows[OF keeps_carried[of task_additions "[]" tb], of tb1] by (simp add: c carry_session_def task_additions_def)
  show cols: "set (tb_columns tb1) = set (tb_columns tb) \<union> fst ` set task_additions" by (simp add: c add_columns_frame)
  then show "runtime_task tb1 = Inr tb1"
    by (simp add: runtime_task_def add_columns_none index_exists c migrating_def)
qed

lemma alter_Inr: "alter t f cat = Inr cat1 \<longleftrightarrow> (\<exists>tb tb1. cat t = Some tb \<and> f tb = Inr tb1 \<and> cat1 = cat(t \<mapsto> tb1))"
  by (auto simp: alter_def split: option.splits sum.splits)

lemma migrating_Inr: "migrating r f = Inr v \<longleftrightarrow> (\<exists>u. r = Inr u \<and> f u = Inr v)"
  by (auto simp: migrating_def split: sum.splits)

lemma runtime_columns_Inr:
  "migrate_agent_runtime_columns cat = Inr cat1 \<longleftrightarrow>
     (\<exists>a a1 b b1 c c1 d. cat ''review_run'' = Some a \<and> runtime_run a = Inr a1 \<and>
        cat ''review_session'' = Some b \<and> runtime_session b = Inr b1 \<and>
        cat ''agent_task'' = Some c \<and> runtime_task c = Inr c1 \<and> cat ''review_config'' = Some d \<and>
        cat1 = cat(''review_run'' \<mapsto> a1, ''review_session'' \<mapsto> b1, ''agent_task'' \<mapsto> c1,
          ''review_config'' \<mapsto> add_columns config_additions d))"
  unfolding migrate_agent_runtime_columns_def migrating_Inr alter_Inr
  by (intro iffI; elim exE conjE; simp; blast?)

lemma runtime_columns_again:
  assumes "cat ''review_run'' = Some a" and "runtime_run a = Inr a" and "cat ''review_session'' = Some b" and "runtime_session b = Inr b"
    and "cat ''agent_task'' = Some c" and "runtime_task c = Inr c" and "cat ''review_config'' = Some d" and "add_columns config_additions d = d"
  shows "migrate_agent_runtime_columns cat = Inr cat"
  using assms by (simp add: migrate_agent_runtime_columns_def migrating_def alter_def fun_upd_idem)

section \<open>The unified tasks\<close>

abbreviation row_id :: "(cell \<Rightarrow> string) \<Rightarrow> sql_row \<Rightarrow> string" where
  "row_id py r \<equiv> str_cell py (r ''id'')"

lemma inserts_Cons:
  "legacy_inserts py mk ex (r # rs) =
     (if row_id py r \<in> set ex then legacy_inserts py mk ex rs
      else (mk r # fst (legacy_inserts py mk (ex @ [row_id py r]) rs), snd (legacy_inserts py mk (ex @ [row_id py r]) rs)))"
  by (simp add: Let_def split: prod.split)

lemmas inserts_simps = legacy_inserts.simps(1) inserts_Cons

lemma inserts_known: "row_id py ` set rows \<subseteq> set ex \<Longrightarrow> legacy_inserts py mk ex rows = ([], ex)"
  by (induction rows) (auto simp del: legacy_inserts.simps simp: inserts_simps)

lemma inserts_ids:
  "set (snd (legacy_inserts py mk ex rows)) = set ex \<union> row_id py ` set rows"
  by (induction rows arbitrary: ex) (auto simp del: legacy_inserts.simps simp: inserts_simps)

lemma inserts_cover:
  "(\<And>r. row_id py (mk r) = row_id py r) \<Longrightarrow>
     set (snd (legacy_inserts py mk ex rows)) = set ex \<union> row_id py ` set (fst (legacy_inserts py mk ex rows))"
  by (induction rows arbitrary: ex) (auto simp del: legacy_inserts.simps simp: inserts_simps)

lemma inserts_fresh:
  "distinct (map (row_id py) rows) \<Longrightarrow>
     fst (legacy_inserts py mk ex rows) = map mk (filter (\<lambda>r. row_id py r \<notin> set ex) rows)"
proof (induction rows arbitrary: ex)
  case (Cons r rows)
  then have "filter (\<lambda>s. row_id py s \<notin> set (ex @ [row_id py r])) rows = filter (\<lambda>s. row_id py s \<notin> set ex) rows"
    by (intro filter_cong) (auto simp: image_iff)
  with Cons show ?case by (simp del: legacy_inserts.simps add: inserts_simps)
qed simp

lemma legacy_task_id: "legacy_task py t0 k q r ''id'' = Txt (row_id py r)"
  by (simp add: legacy_task_def row_of_def Let_def)

lemma append_none: "append_rows [] = id"
  by (simp add: append_rows_def fun_eq_iff)

lemma legacy_step:
  assumes "cat t = Some legacy" and "t \<noteq> ''task''"
  shows "migrate_legacy_table py t0 (t, k, q) (cat, ex) =
    (let p = legacy_inserts py (legacy_task py t0 k q) ex (tb_rows legacy) in
     (cat(''task'' := map_option (append_rows (fst p)) (cat ''task''), t \<mapsto> drop_legacy_task_control_columns legacy), snd p))"
  using assms
  by (auto simp: migrate_legacy_table_def Let_def append_none option.map_id fun_eq_iff split: prod.splits)

text \<open>The rows that become tasks, in the order they are inserted\<close>

definition new_tasks :: "(cell \<Rightarrow> string) \<Rightarrow> time \<Rightarrow> sql_row list \<Rightarrow> sql_row list \<Rightarrow> sql_row list \<Rightarrow> sql_row list" where
  "new_tasks py t0 earlier reviews commands =
     (let p = legacy_inserts py (legacy_task py t0 ''review'' ''code-review'') (map (row_id py) earlier) reviews
      in fst p @ fst (legacy_inserts py (legacy_task py t0 ''agent'' ''pr-assistant'') (snd p) commands))"

lemma unified_eq:
  assumes "cat ''task'' = Some tk" and "cat ''review_run'' = Some rr" and "cat ''agent_task'' = Some ag"
  shows "migrate_unified_tasks py t0 cat =
    cat(''task'' \<mapsto> append_rows (new_tasks py t0 (tb_rows tk) (tb_rows rr) (tb_rows ag)) tk,
      ''review_run'' \<mapsto> drop_legacy_task_control_columns rr, ''agent_task'' \<mapsto> drop_legacy_task_control_columns ag)"
  using assms
  by (auto simp: migrate_unified_tasks_def legacy_step Let_def new_tasks_def append_rows_def fun_eq_iff)

lemma unified_again:
  assumes "cat ''task'' = Some tk" and "cat ''review_run'' = Some rr" and "cat ''agent_task'' = Some ag"
    and "row_id py ` set (tb_rows rr @ tb_rows ag) \<subseteq> row_id py ` set (tb_rows tk)"
    and "set control_columns \<inter> set (tb_columns rr) = {}" and "set control_columns \<inter> set (tb_columns ag) = {}"
  shows "migrate_unified_tasks py t0 cat = cat"
proof -
  have "new_tasks py t0 (tb_rows tk) (tb_rows rr) (tb_rows ag) = []"
    using assms(4) by (simp add: new_tasks_def Let_def inserts_known image_Un)
  with assms(5,6) show ?thesis by (simp add: unified_eq[OF assms(1-3)] append_none control_gone assms(1-3) fun_upd_idem)
qed

lemma new_tasks_cover:
  "row_id py ` set (reviews @ commands) \<subseteq> row_id py ` set (earlier @ new_tasks py t0 earlier reviews commands)"
proof -
  let ?r = "legacy_inserts py (legacy_task py t0 ''review'' ''code-review'') (map (row_id py) earlier) reviews"
  let ?a = "legacy_inserts py (legacy_task py t0 ''agent'' ''pr-assistant'') (snd ?r) commands"
  have "set (snd ?r) = row_id py ` set earlier \<union> row_id py ` set (fst ?r)"
    by (subst inserts_cover) (auto simp: legacy_task_id)
  moreover have "set (snd ?a) = set (snd ?r) \<union> row_id py ` set (fst ?a)"
    by (subst inserts_cover) (auto simp: legacy_task_id)
  moreover have "set (snd ?a) = row_id py ` set earlier \<union> row_id py ` set reviews \<union> row_id py ` set commands"
    by (simp add: inserts_ids)
  ultimately show ?thesis by (auto simp: new_tasks_def Let_def image_Un)
qed

lemma same_ids: "keeps_cells a k (drop_legacy_task_control_columns tb) tb1 \<Longrightarrow> ''id'' \<notin> a \<Longrightarrow> row_id py ` set (tb_rows tb1) = row_id py ` set (tb_rows tb)"
  by (auto simp: keeps_cells_def control_dropped control_columns_def image_image)

section \<open>Startup\<close>

lemma declared_empty: "list_all (\<lambda>p. tb_rows (snd p) = []) metadata"
  by code_simp

lemma declared_names: "list_all (\<lambda>t. map_of metadata t \<noteq> None) [''task'', ''review_run'', ''review_session'', ''agent_task'', ''review_config'']"
  by code_simp

lemma declared_event_column:
  "case map_of metadata ''agent_task'' of None \<Rightarrow> False | Some tb \<Rightarrow> ''provider_event_id'' \<in> set (tb_columns tb)"
  by code_simp

lemma create_all_rows: "rows_of (create_all cat) t = rows_of cat t"
  using declared_empty by (auto simp: rows_of_def create_all_def list_all_iff split: option.split dest!: map_of_SomeD)

lemma rows_of_created: "create_all cat t = Some tb \<Longrightarrow> tb_rows tb = rows_of cat t"
  using create_all_rows[of cat t] by (simp add: rows_of_def)

lemma create_all_keeps: "cat t = Some tb \<Longrightarrow> create_all cat t = Some tb"
  by (simp add: create_all_def)

lemma created_tables:
  obtains tk rr ss ag cf where "create_all cat ''task'' = Some tk" and "create_all cat ''review_run'' = Some rr"
    and "create_all cat ''review_session'' = Some ss" and "create_all cat ''agent_task'' = Some ag"
    and "create_all cat ''review_config'' = Some cf"
proof -
  have c: "\<exists>tb. create_all cat t = Some tb" if "map_of metadata t \<noteq> None" for t
    using that by (auto simp: create_all_def split: option.split)
  have n: "map_of metadata ''task'' \<noteq> None" "map_of metadata ''review_run'' \<noteq> None" "map_of metadata ''review_session'' \<noteq> None"
      "map_of metadata ''agent_task'' \<noteq> None" "map_of metadata ''review_config'' \<noteq> None"
    using declared_names by simp_all
  obtain tk rr ss ag cf where "create_all cat ''task'' = Some tk" "create_all cat ''review_run'' = Some rr"
      "create_all cat ''review_session'' = Some ss" "create_all cat ''agent_task'' = Some ag" "create_all cat ''review_config'' = Some cf"
    using n[THEN c] by (elim exE)
  then show thesis by (rule that)
qed

lemma create_all_done: "(\<And>t. cat1 t = None \<Longrightarrow> create_all cat t = None) \<Longrightarrow> create_all cat1 = cat1"
proof
  fix t
  assume "\<And>t. cat1 t = None \<Longrightarrow> create_all cat t = None"
  from this[of t] show "create_all cat1 t = cat1 t" by (auto simp: create_all_def split: option.splits)
qed

text \<open>The catalog after a startup, by table\<close>

lemma init_effect:
  assumes "init_models py t0 cat = (cat1, Inr ())"
    and "create_all cat ''task'' = Some tk" and "create_all cat ''review_run'' = Some rr" and "create_all cat ''agent_task'' = Some ag"
  obtains a1 c1 where
    "cat1 ''task'' = Some (append_rows (new_tasks py t0 (tb_rows tk) (tb_rows rr) (tb_rows ag)) tk)"
    and "cat1 ''review_run'' = Some a1" and "runtime_run (drop_legacy_task_control_columns rr) = Inr a1"
    and "cat1 ''agent_task'' = Some c1" and "runtime_task (drop_legacy_task_control_columns ag) = Inr c1"
    and "migrate_agent_runtime_columns cat1 = Inr cat1" and "create_all cat1 = cat1"
proof -
  have m: "migrate_agent_runtime_columns (migrate_unified_tasks py t0 (create_all cat)) = Inr cat1"
    using assms(1) by (auto simp: init_models_def split: sum.splits)
  obtain a a1 b b1 c c1 d where e: "migrate_unified_tasks py t0 (create_all cat) ''review_run'' = Some a" "runtime_run a = Inr a1"
      "migrate_unified_tasks py t0 (create_all cat) ''review_session'' = Some b" "runtime_session b = Inr b1"
      "migrate_unified_tasks py t0 (create_all cat) ''agent_task'' = Some c" "runtime_task c = Inr c1"
      "migrate_unified_tasks py t0 (create_all cat) ''review_config'' = Some d"
      "cat1 = (migrate_unified_tasks py t0 (create_all cat))(''review_run'' \<mapsto> a1, ''review_session'' \<mapsto> b1,
         ''agent_task'' \<mapsto> c1, ''review_config'' \<mapsto> add_columns config_additions d)"
    using m unfolding runtime_columns_Inr by blast
  note u = unified_eq[OF assms(2-4), of py t0]
  have "migrate_agent_runtime_columns cat1 = Inr cat1"
    by (rule runtime_columns_again[OF _ runtime_run_effect(3)[OF e(2)] _ runtime_session_effect[OF e(4)] _ runtime_task_effect(3)[OF e(6)],
          where d = "add_columns config_additions d"])
      (simp_all add: e(8) add_columns_none add_columns_frame)
  moreover have "create_all cat1 = cat1"
    by (rule create_all_done[of _ cat]) (auto simp: e(8) u split: if_splits)
  ultimately show thesis using e by (intro that) (auto simp: u)
qed

text \<open>The next startup finds nothing to create, to move or to carry over.\<close>

lemma restarting_migrates_nothing:
  assumes "init_models py t0 cat = (cat1, Inr ())"
  shows "init_models py t1 cat1 = (cat1, Inr ())"
proof -
  obtain tk rr ss ag cf where c: "create_all cat ''task'' = Some tk" "create_all cat ''review_run'' = Some rr"
      "create_all cat ''agent_task'' = Some ag"
    by (rule created_tables)
  obtain a1 c1 where e:
    "cat1 ''task'' = Some (append_rows (new_tasks py t0 (tb_rows tk) (tb_rows rr) (tb_rows ag)) tk)"
    "cat1 ''review_run'' = Some a1" "runtime_run (drop_legacy_task_control_columns rr) = Inr a1"
    "cat1 ''agent_task'' = Some c1" "runtime_task (drop_legacy_task_control_columns ag) = Inr c1"
    "migrate_agent_runtime_columns cat1 = Inr cat1" "create_all cat1 = cat1"
    by (rule init_effect[OF assms c])
  have "row_id py ` set (tb_rows a1) = row_id py ` set (tb_rows rr)"
    by (rule same_ids[OF runtime_run_effect(1)[OF e(3)]]) (simp add: review_run_additions_def)
  moreover have "row_id py ` set (tb_rows c1) = row_id py ` set (tb_rows ag)"
    by (rule same_ids[OF runtime_task_effect(1)[OF e(5)]]) (simp add: task_additions_def)
  ultimately have "row_id py ` set (tb_rows a1 @ tb_rows c1) \<subseteq> row_id py ` set (tb_rows tk @ new_tasks py t0 (tb_rows tk) (tb_rows rr) (tb_rows ag))"
    using new_tasks_cover[of py "tb_rows rr" "tb_rows ag" "tb_rows tk" t0] by (simp add: image_Un)
  moreover have "set control_columns \<inter> set (tb_columns a1) = {}"
    unfolding runtime_run_effect(2)[OF e(3)] control_dropped by (auto simp: control_columns_def review_run_additions_def)
  moreover have "set control_columns \<inter> set (tb_columns c1) = {}"
    unfolding runtime_task_effect(2)[OF e(5)] control_dropped by (auto simp: control_columns_def task_additions_def)
  ultimately have "migrate_unified_tasks py t1 cat1 = cat1"
    by (intro unified_again[OF e(1,2,4)]) (simp_all add: append_rows_def)
  with e(6,7) show ?thesis by (simp add: init_models_def)
qed

section \<open>Nothing a legacy row says is lost\<close>

text \<open>A column as the program reads it through the joined tables: the control columns are the task's.\<close>

definition read_column :: "catalog \<Rightarrow> string \<Rightarrow> string \<Rightarrow> string \<Rightarrow> cell option" where
  "read_column cat t i c =
     map_option (\<lambda>r. r c) (first_row (\<lambda>r. r ''id'' = Txt i) (rows_of cat (if c \<in> set control_columns then ''task'' else t)))"

definition columns_of :: "catalog \<Rightarrow> string \<Rightarrow> string list" where
  "columns_of cat t = (case cat t of None \<Rightarrow> [] | Some tb \<Rightarrow> tb_columns tb)"

fun texts :: "cell list \<Rightarrow> bool" where
  "texts [] = True"
| "texts (Txt s # cs) = texts cs"
| "texts (c # cs) = False"

definition row_keys :: "catalog \<Rightarrow> string list \<Rightarrow> cell list" where
  "row_keys cat ts = map (\<lambda>r. r ''id'') (concat (map (rows_of cat) ts))"

definition legacy_ok :: "catalog \<Rightarrow> bool" where
  "legacy_ok cat \<longleftrightarrow>
     distinct (row_keys cat [''review_run'', ''agent_task'']) \<and>
     texts (row_keys cat [''task'', ''review_run'', ''agent_task'']) \<and>
     texts (filter (\<lambda>c. c \<noteq> Null) (map (\<lambda>r. r ''status'') (rows_of cat ''review_run'' @ rows_of cat ''agent_task''))) \<and>
     (cat ''agent_task'' = None \<or> ''provider_event_id'' \<in> set (columns_of cat ''agent_task'')) \<and>
     distinct (filter (\<lambda>c. c \<noteq> Null) (map (\<lambda>r. r ''provider_event_id'') (rows_of cat ''agent_task'')))"

lemma texts_in: "texts cs \<Longrightarrow> c \<in> set cs \<Longrightarrow> \<exists>s. c = Txt s"
  by (induction cs rule: texts.induct) auto

text \<open>
  What a column of a legacy row is to be read as: the cell itself, but for a status or times that were not given, and for
  the session identifier of the old backend, which a review takes over when it has no newer one.
\<close>

definition migrated_cell :: "time \<Rightarrow> string \<Rightarrow> string list \<Rightarrow> sql_row \<Rightarrow> string \<Rightarrow> cell" where
  "migrated_cell t0 t columns r c =
     (let created = (if cell_truth (r ''created_at'') then r ''created_at'' else Moment t0) in
      if c = ''status'' then (if r c \<in> {Null, Txt []} then Txt ''queued'' else r c)
      else if c = ''created_at'' then created
      else if c = ''updated_at'' then (if cell_truth (r c) then r c else created)
      else if c = ''agent_session_id''
      then session_cell (t = ''review_run'' \<and> ''openhands_conversation_id'' \<in> set columns) columns r
      else r c)"

lemma legacy_task_control:
  assumes "c \<in> set control_columns" and "r ''status'' = Null \<or> (\<exists>s. r ''status'' = Txt s)"
  shows "legacy_task py t0 k q r c = migrated_cell t0 t columns r c"
proof -
  have "str_cell py (if cell_truth (r ''status'') then r ''status'' else Txt ''queued'') =
      (case r ''status'' of Txt s \<Rightarrow> if s = [] then ''queued'' else s | _ \<Rightarrow> ''queued'')"
    using assms(2) by auto
  with assms show ?thesis
    unfolding control_columns_def list.set migrated_cell_def legacy_task_def row_of_def Let_def
    by (elim insertE emptyE) auto
qed

lemma event_keys: "filter (\<lambda>k. Null \<notin> set k) (map (\<lambda>r. map r [c]) rs) = map (\<lambda>x. [x]) (filter (\<lambda>x. x \<noteq> Null) (map (\<lambda>r. r c) rs))"
  by (induction rs) auto

lemma run_migrates: "\<exists>tb1. runtime_run tb = Inr tb1"
  by (auto simp: runtime_run_def create_index_def plain_index_def carried_frame add_columns_frame review_run_additions_def)

lemma session_migrates: "\<exists>tb1. runtime_session tb = Inr tb1"
  by (auto simp: runtime_session_def create_index_def plain_index_def carried_frame add_columns_frame review_session_additions_def)

lemma task_migrates:
  assumes "''provider_event_id'' \<in> set (tb_columns tb)"
    and "distinct (filter (\<lambda>c. c \<noteq> Null) (map (\<lambda>r. r ''provider_event_id'') (tb_rows tb)))"
  shows "\<exists>tb1. runtime_task tb = Inr tb1"
proof -
  obtain f where f: "tb_rows (add_columns task_additions tb) = map f (tb_rows tb)"
      "\<And>r c. c \<notin> fst ` set task_additions \<or> c \<in> set (tb_columns tb) \<Longrightarrow> f r c = r c"
    using add_columns_rows by blast
  then have "map (\<lambda>r. r ''provider_event_id'') (tb_rows (add_columns task_additions tb)) =
      map (\<lambda>r. r ''provider_event_id'') (tb_rows tb)"
    using assms(1) by simp
  then have "\<exists>t1. create_index event_index (add_columns task_additions tb) = Inr t1"
    using assms unfolding create_index_def event_index_def
    by (simp add: event_keys distinct_map inj_on_def add_columns_frame del: list.map)
  then obtain t1 where t1: "create_index event_index (add_columns task_additions tb) = Inr t1" by blast
  note c = index_created[OF t1]
  have "\<exists>t2. create_index (plain_index ''agent_task'' ''agent_session_id'') t1 = Inr t2"
    by (auto simp: create_index_def plain_index_def c add_columns_frame task_additions_def)
  with t1 show ?thesis by (simp add: runtime_task_def migrating_def)
qed

lemma texts_inj: "texts cs \<Longrightarrow> inj_on (str_cell py) (set cs)"
proof (rule inj_onI)
  fix x y
  assume t: "texts cs" and x: "x \<in> set cs" and y: "y \<in> set cs" and eq: "str_cell py x = str_cell py y"
  obtain s u where "x = Txt s" "y = Txt u" using texts_in[OF t x] texts_in[OF t y] by blast
  with eq show "x = y" by simp
qed

lemma new_tasks_eq:
  assumes "distinct (map (row_id py) (reviews @ commands))"
  shows "new_tasks py t0 earlier reviews commands =
    map (legacy_task py t0 ''review'' ''code-review'') (filter (\<lambda>r. row_id py r \<notin> row_id py ` set earlier) reviews) @
    map (legacy_task py t0 ''agent'' ''pr-assistant'') (filter (\<lambda>r. row_id py r \<notin> row_id py ` set earlier) commands)"
proof -
  have "filter (\<lambda>r. row_id py r \<notin> row_id py ` set earlier \<and> row_id py r \<notin> row_id py ` set reviews) commands =
      filter (\<lambda>r. row_id py r \<notin> row_id py ` set earlier) commands"
    using assms by (intro filter_cong) auto
  with assms show ?thesis by (simp add: new_tasks_def Let_def inserts_fresh inserts_ids)
qed

lemma kept_column:
  assumes "keeps_cells added (t = ''review_run'' \<and> ''openhands_conversation_id'' \<in> set (tb_columns tb)) (drop_legacy_task_control_columns tb) tb1"
    and "''id'' \<notin> added"
    and "distinct (map (\<lambda>r. r ''id'') (tb_rows tb))" and "r \<in> set (tb_rows tb)"
    and "c \<in> set (tb_columns tb) \<or> c = ''agent_session_id''" and "c \<notin> set control_columns"
  shows "map_option (\<lambda>s. s c) (first_row (\<lambda>s. s ''id'' = r ''id'') (tb_rows tb1)) = Some (migrated_cell t0 t (tb_columns tb) r c)"
proof -
  let ?d = "\<lambda>r c. if c \<in> set control_columns \<inter> set (tb_columns tb) then Null else r c :: cell"
  let ?carries = "t = ''review_run'' \<and> ''openhands_conversation_id'' \<in> set (tb_columns tb)"
  have n: "''id'' \<notin> set control_columns" "''agent_session_id'' \<notin> set control_columns"
      "''openhands_conversation_id'' \<notin> set control_columns"
      "''status'' \<in> set control_columns" "''created_at'' \<in> set control_columns" "''updated_at'' \<in> set control_columns"
    by (simp_all add: control_columns_def)
  let ?tb = "drop_legacy_task_control_columns tb"
  obtain f where f0: "tb_rows tb1 = map f (tb_rows ?tb)"
      "\<forall>s c. (c \<notin> added \<or> c \<in> set (tb_columns ?tb)) \<and> c \<noteq> ''agent_session_id'' \<longrightarrow> f s c = s c"
      "\<forall>s. f s ''agent_session_id'' = session_cell ?carries (tb_columns ?tb) s"
    using assms(1) unfolding keeps_cells_def by blast
  have f: "tb_rows tb1 = map f (map ?d (tb_rows tb))"
      "c \<notin> added \<or> c \<in> set (tb_columns tb) - set control_columns \<Longrightarrow> c \<noteq> ''agent_session_id'' \<Longrightarrow> f s c = s c"
      "f (?d s) ''agent_session_id'' = session_cell ?carries (tb_columns tb) s" for s c
    using f0 n by (simp_all add: control_dropped session_cell_def Let_def)
  have k: "(\<lambda>s. s ''id'') (f (?d s)) = s ''id''" for s using f(2)[of "''id''" "?d s"] assms(2) n by simp
  have "unique_on (\<lambda>s. s ''id'') (tb_rows tb1)"
    using assms(3) k by (simp add: unique_on_def f(1) comp_def)
  moreover have "f (?d r) \<in> set (tb_rows tb1)" using assms(4) by (simp add: f(1))
  ultimately have "first_row (\<lambda>s. s ''id'' = r ''id'') (tb_rows tb1) = Some (f (?d r))"
    by (rule first_row_unique) (rule k)
  moreover have "f (?d r) c = migrated_cell t0 t (tb_columns tb) r c"
    using f(2)[of c "?d r"] f(3)[of r] assms(5,6) n
    by (cases "c = ''agent_session_id''") (auto simp: migrated_cell_def Let_def)
  ultimately show ?thesis by simp
qed

lemma legacy_status:
  assumes "legacy_ok cat" and "t \<in> {''review_run'', ''agent_task''}" and "r \<in> set (rows_of cat t)"
  shows "r ''status'' = Null \<or> (\<exists>s. r ''status'' = Txt s)"
proof (rule disjCI)
  assume "\<nexists>s. r ''status'' = Txt s"
  then show "r ''status'' = Null" using assms texts_in[of _ "r ''status''"] by (fastforce simp: legacy_ok_def)
qed

lemma startup_succeeds:
  assumes "legacy_ok cat"
  shows "snd (init_models py t0 cat) = Inr ()"
proof -
  obtain tk rr ss ag cf where c: "create_all cat ''task'' = Some tk" "create_all cat ''review_run'' = Some rr"
      "create_all cat ''review_session'' = Some ss" "create_all cat ''agent_task'' = Some ag" "create_all cat ''review_config'' = Some cf"
    by (rule created_tables)
  have "''provider_event_id'' \<in> set (tb_columns ag)"
  proof (cases "cat ''agent_task''")
    case None
    then have "map_of metadata ''agent_task'' = Some ag" using c(4) by (simp add: create_all_def)
    then show ?thesis using declared_event_column by simp
  next
    case (Some tb)
    then show ?thesis using assms c(4) by (auto simp: legacy_ok_def columns_of_def create_all_keeps)
  qed
  moreover have "tb_rows ag = rows_of cat ''agent_task''" using c(4) by (simp add: rows_of_created)
  ultimately obtain c1 where "runtime_task (drop_legacy_task_control_columns ag) = Inr c1"
    using assms task_migrates[of "drop_legacy_task_control_columns ag"] by (auto simp: control_dropped control_columns_def legacy_ok_def comp_def)
  moreover obtain a1 where "runtime_run (drop_legacy_task_control_columns rr) = Inr a1" using run_migrates by blast
  moreover obtain b1 where "runtime_session ss = Inr b1" using session_migrates by blast
  ultimately have "\<exists>cat1. migrate_agent_runtime_columns (migrate_unified_tasks py t0 (create_all cat)) = Inr cat1"
    using c by (intro exI runtime_columns_Inr[THEN iffD2] conjI) (simp_all add: unified_eq)
  then show ?thesis by (auto simp: init_models_def)
qed

text \<open>The tasks the legacy rows call for: identifier, kind and capability\<close>

definition task_specs :: "catalog \<Rightarrow> (cell \<times> cell \<times> cell) list" where
  "task_specs cat =
     map (\<lambda>r. (r ''id'', Txt ''review'', Txt ''code-review'')) (rows_of cat ''review_run'') @
     map (\<lambda>r. (r ''id'', Txt ''agent'', Txt ''pr-assistant'')) (rows_of cat ''agent_task'')"

lemma legacy_task_kind: "legacy_task py t0 k q r ''kind'' = Txt k" "legacy_task py t0 k q r ''capability_id'' = Txt q"
  by (simp_all add: legacy_task_def row_of_def Let_def)

lemma migrated_tasks:
  fixes py :: "cell \<Rightarrow> string" and t0 :: time
  assumes "legacy_ok cat"
  defines "new \<equiv> new_tasks py t0 (rows_of cat ''task'') (rows_of cat ''review_run'') (rows_of cat ''agent_task'')"
  shows "map (\<lambda>r. (r ''id'', r ''kind'', r ''capability_id'')) new = filter (\<lambda>(k, _). k \<notin> set (row_keys cat [''task''])) (task_specs cat)"
    and "map (\<lambda>r. r ''id'') new = filter (\<lambda>k. k \<notin> set (row_keys cat [''task''])) (row_keys cat [''review_run'', ''agent_task''])"
    and "\<lbrakk>r \<in> set (rows_of cat ''review_run'' @ rows_of cat ''agent_task''); r ''id'' \<notin> set (row_keys cat [''task''])\<rbrakk> \<Longrightarrow>
      \<exists>k q. legacy_task py t0 k q r \<in> set new"
proof -
  let ?T = "rows_of cat ''task''" and ?R = "rows_of cat ''review_run''" and ?A = "rows_of cat ''agent_task''"
  have tx: "texts (map (\<lambda>r. r ''id'') (?T @ ?R @ ?A))" and dist: "distinct (map (\<lambda>r. r ''id'') (?R @ ?A))"
    using assms(1) by (simp_all add: legacy_ok_def row_keys_def)
  note inj = texts_inj[OF tx, of py]
  have ids: "distinct (map (str_cell py) (map (\<lambda>r. r ''id'') (?R @ ?A)))"
    using dist inj by (subst distinct_map) (auto intro: inj_on_subset)
  have "distinct (map (row_id py) (?R @ ?A))"
    using ids by (simp add: comp_def)
  note eq = new_tasks_eq[OF this, of t0 ?T, folded new_def]
  have known: "row_id py r \<in> row_id py ` set ?T \<longleftrightarrow> r ''id'' \<in> set (row_keys cat [''task''])" if "r \<in> set (?R @ ?A)" for r
    using that inj_on_image_mem_iff[OF inj, of "r ''id''" "(\<lambda>r. r ''id'') ` set ?T"] by (auto simp: row_keys_def image_image)
  have same: "legacy_task py t0 k q r ''id'' = r ''id''" if "r \<in> set (?R @ ?A)" for k q r
    using texts_in[OF tx, of "r ''id''"] that by (auto simp: legacy_task_id)
  show "map (\<lambda>r. (r ''id'', r ''kind'', r ''capability_id'')) new = filter (\<lambda>(k, _). k \<notin> set (row_keys cat [''task''])) (task_specs cat)"
    using known same unfolding eq
    by (auto simp: task_specs_def filter_map comp_def legacy_task_kind cong: filter_cong map_cong)
  then have "map fst (map (\<lambda>r. (r ''id'', r ''kind'', r ''capability_id'')) new) =
      map fst (filter (\<lambda>(k, _). k \<notin> set (row_keys cat [''task''])) (task_specs cat))" by simp
  then show "map (\<lambda>r. r ''id'') new = filter (\<lambda>k. k \<notin> set (row_keys cat [''task''])) (row_keys cat [''review_run'', ''agent_task''])"
    by (simp add: comp_def task_specs_def row_keys_def filter_map case_prod_unfold)
  show "\<exists>k q. legacy_task py t0 k q r \<in> set new" if "r \<in> set (?R @ ?A)" "r ''id'' \<notin> set (row_keys cat [''task''])"
    using that known[OF that(1)] unfolding eq by auto
qed

text \<open>The tables of the tasks after a startup, over the rows that were there\<close>

lemma startup_tables:
  assumes "init_models py t0 cat = (cat1, Inr ())"
  obtains a1 c1 rr ag where
    "rows_of cat1 ''task'' =
       rows_of cat ''task'' @ new_tasks py t0 (rows_of cat ''task'') (rows_of cat ''review_run'') (rows_of cat ''agent_task'')"
    and "cat1 ''review_run'' = Some a1" and "runtime_run (drop_legacy_task_control_columns rr) = Inr a1"
    and "cat1 ''agent_task'' = Some c1" and "runtime_task (drop_legacy_task_control_columns ag) = Inr c1"
    and "create_all cat ''review_run'' = Some rr" and "create_all cat ''agent_task'' = Some ag"
proof -
  obtain tk rr ss ag cf where c: "create_all cat ''task'' = Some tk" "create_all cat ''review_run'' = Some rr"
      "create_all cat ''agent_task'' = Some ag"
    by (rule created_tables)
  obtain a1 c1 where e:
    "cat1 ''task'' = Some (append_rows (new_tasks py t0 (tb_rows tk) (tb_rows rr) (tb_rows ag)) tk)"
    "cat1 ''review_run'' = Some a1" "runtime_run (drop_legacy_task_control_columns rr) = Inr a1"
    "cat1 ''agent_task'' = Some c1" "runtime_task (drop_legacy_task_control_columns ag) = Inr c1"
    by (rule init_effect[OF assms c])
  show thesis
    by (rule that[OF _ e(2-5) c(2,3)]) (simp add: rows_of_def[of cat1] e(1) append_rows_def c[THEN rows_of_created])
qed

lemma migrated_reads:
  assumes ok: "legacy_ok cat" and init: "init_models py t0 cat = (cat1, Inr ())"
    and t: "t \<in> {''review_run'', ''agent_task''}" and r: "r \<in> set (rows_of cat t)" and i: "r ''id'' = Txt i"
    and fresh: "Txt i \<notin> set (row_keys cat [''task''])" and col: "c \<in> set (columns_of cat t) \<or> c = ''agent_session_id''"
  shows "read_column cat1 t i c = Some (migrated_cell t0 t (columns_of cat t) r c)"
proof (cases "c \<in> set control_columns")
  case True
  let ?N = "new_tasks py t0 (rows_of cat ''task'') (rows_of cat ''review_run'') (rows_of cat ''agent_task'')"
  note new = migrated_tasks[OF ok, where py = py and ?t0.0 = t0]
  have tasks: "rows_of cat1 ''task'' = rows_of cat ''task'' @ ?N" by (rule startup_tables[OF init])
  have "r \<in> set (rows_of cat ''review_run'' @ rows_of cat ''agent_task'')" using t r by auto
  then obtain k q where "legacy_task py t0 k q r \<in> set ?N" using new(3)[of r] fresh i by auto
  moreover have "legacy_task py t0 k q r ''id'' = Txt i" by (simp add: legacy_task_id i)
  moreover have "unique_on (\<lambda>r. r ''id'') ?N" using new(2) ok by (simp add: unique_on_def legacy_ok_def)
  ultimately have "first_row (\<lambda>s. s ''id'' = Txt i) ?N = Some (legacy_task py t0 k q r)" by (intro first_row_unique)
  moreover have "first_row (\<lambda>s. s ''id'' = Txt i) (rows_of cat ''task'') = None"
    using fresh by (auto simp: first_row_None row_keys_def image_iff)
  moreover have "legacy_task py t0 k q r c = migrated_cell t0 t (columns_of cat t) r c"
    by (rule legacy_task_control[where c = c and r = r, OF True legacy_status[OF ok t r]])
  ultimately show ?thesis using True by (simp add: read_column_def tasks first_row_append)
next
  case False
  have dist: "distinct (map (\<lambda>r. r ''id'') (rows_of cat t))" using ok t by (auto simp: legacy_ok_def row_keys_def)
  obtain a1 c1 rr ag where e: "cat1 ''review_run'' = Some a1" "runtime_run (drop_legacy_task_control_columns rr) = Inr a1"
      "cat1 ''agent_task'' = Some c1" "runtime_task (drop_legacy_task_control_columns ag) = Inr c1"
      and made: "create_all cat ''review_run'' = Some rr" "create_all cat ''agent_task'' = Some ag"
    by (rule startup_tables[OF init])
  have old: "''openhands_conversation_id'' \<notin> set control_columns" by (simp add: control_columns_def)
  note kept = kept_column[where c = c and r = r and t = t, OF _ _ _ _ _ False]
  show ?thesis
  proof (cases "t = ''review_run''")
    case True
    then have "tb_columns rr = columns_of cat t" using r made(1) by (auto simp: rows_of_def columns_of_def create_all_keeps split: option.splits)
    with True show ?thesis
      using kept[of _ rr a1] runtime_run_effect(1)[OF e(2)] dist r col i False old made(1)[THEN rows_of_created]
      by (simp add: read_column_def rows_of_def[of cat1] e(1) review_run_additions_def control_dropped)
  next
    case other: False
    then have t: "t = ''agent_task''" using t by simp
    then have "tb_columns ag = columns_of cat t" using r made(2) by (auto simp: rows_of_def columns_of_def create_all_keeps split: option.splits)
    with t show ?thesis
      using kept[of _ ag c1] runtime_task_effect(1)[OF e(4)] dist r col i False made(2)[THEN rows_of_created]
      by (simp add: read_column_def rows_of_def[of cat1] e(3) task_additions_def)
  qed
qed


section \<open>An example\<close>

definition sample_legacy :: catalog where
  "sample_legacy =
     [''review_run'' \<mapsto>
        \<lparr>tb_columns = [''id'', ''provider'', ''repo_full_name'', ''pull_request_number'', ''head_sha'', ''trigger_type'', ''status'',
            ''lock_owner'', ''created_at'', ''openhands_conversation_id''],
         tb_indexes = [plain_index ''review_run'' ''status''],
         tb_rows = [row_of [(''id'', Txt ''r1''), (''provider'', Txt ''github''), (''repo_full_name'', Txt ''o/r''),
            (''pull_request_number'', Number 7), (''head_sha'', Txt ''abc''), (''trigger_type'', Txt ''manual''),
            (''status'', Txt ''running''), (''created_at'', Moment 5),
            (''openhands_conversation_id'', Txt ''c1'')]]\<rparr>]"


end
