(* ===== verification/Running.thy ===== *)
theory Running
  imports Migration Timeouts Delivering
begin

text \<open>
  The processes of the program: the polling loop of the worker (\<open>application/worker_cli.py\<close>) and the life of the web
  application (\<open>presentation/main.py\<close>), with what each of them opens and closes. The command line and the construction of
  the clients are left out.
\<close>

section \<open>What a process opens and closes\<close>

text \<open>
  An adapter with a close callback is open from its building on. Closing an adapter may raise, which ends the closing of the registry; the engine is disposed of in any case.
\<close>

datatype life_event = EngineCreated | AdapterBuilt string | Paused | Served | AdapterClosed string | EngineDisposed

fun close_all :: "(string \<Rightarrow> err option) \<Rightarrow> string list \<Rightarrow> string list \<times> err option" where
  "close_all closing [] = ([], None)"
| "close_all closing (c # cs) =
     (case closing c of
        Some x \<Rightarrow> ([c], Some x)
      | None \<Rightarrow> (case close_all closing cs of (shut, x) \<Rightarrow> (c # shut, x)))"

definition closers :: "registry option \<Rightarrow> string list" where
  "closers reg = (case reg of None \<Rightarrow> [] | Some g \<Rightarrow> snd (registry_aclose g))"

text \<open>The two nested \<open>finally\<close>: an exception of the closing replaces the outcome.\<close>

definition shut_down :: "(string \<Rightarrow> err option) \<Rightarrow> registry option \<Rightarrow> err + 'a \<Rightarrow> life_event list \<times> (err + 'a)" where
  "shut_down closing reg r =
     (case close_all closing (closers reg) of
        (shut, x) \<Rightarrow> (map AdapterClosed shut @ [EngineDisposed], case x of None \<Rightarrow> r | Some y \<Rightarrow> Inl y))"

text \<open>A process that created the engine, built adapters, lived through the events and then shuts down\<close>

definition ended ::
  "(string \<Rightarrow> err option) \<Rightarrow> 's \<Rightarrow> runtime list \<Rightarrow> life_event list \<Rightarrow> registry option \<Rightarrow> err + 'a \<Rightarrow> 's \<times> life_event list \<times> (err + 'a)" where
  "ended closing s built lives reg r =
     (case shut_down closing reg r of
        (shut, r1) \<Rightarrow> (s, EngineCreated # map AdapterBuilt (close_handles built) @ lives @ shut, r1))"

section \<open>Installed plugins\<close>

text \<open>The entry points of other packages, each with the plugin it loads\<close>

fun discover_provider_plugins :: "string list option \<Rightarrow> (string \<times> plugin) list \<Rightarrow> err + plugin list" where
  "discover_provider_plugins enabled [] = Inr []"
| "discover_provider_plugins enabled ((name, p) # es) =
     (if \<not> opt_all (\<lambda>selected. str_lower name \<in> set selected) enabled then discover_provider_plugins enabled es
      else if str_lower (pl_provider p) \<noteq> str_lower name
      then Inl (ValueError (''Provider entry point '' @ repr_str name @ '' loaded plugin '' @ repr_str (pl_provider p) @ ''; the keys must match.''))
      else (case discover_provider_plugins enabled es of Inl x \<Rightarrow> Inl x | Inr ps \<Rightarrow> Inr (p # ps)))"

section \<open>The worker\<close>

text \<open>
  A pass reads the clock and draws identifiers anew for each of its five operations; before it, other processes may have
  changed the database. After an exception, which ends the process, the database is what the session showed.
\<close>

record pass_env =
  pe_meanwhile :: "db \<Rightarrow> db"
  pe_delivery :: env
  pe_agent_timeouts :: env
  pe_review_timeouts :: env
  pe_agent :: env
  pe_review :: env

record 'h polling_worker =
  po_worker :: "'h worker"
  po_calls :: adapter_calls
  po_pydantic :: pydantic
  po_lock_seconds :: int
  po_retry_delay :: int
  po_id :: string
  po_mode :: string

record found_work =
  fw_delivery :: "string option"
  fw_agent_task :: "string option"
  fw_review_run :: "string option"

definition delivery_pass :: "'h polling_worker \<Rightarrow> pass_env \<Rightarrow> db \<Rightarrow> db \<times> (err + string option)" where
  "delivery_pass p e db =
     (if po_mode p \<in> {''all'', ''delivery''}
      then process_next_delivery (pe_delivery e) (po_calls p) (wk_registry (po_worker p)) (po_pydantic p)
             (po_id p @ '':delivery'') (po_lock_seconds p) (po_retry_delay p) None db
      else (db, Inr None))"

definition execution_pass :: "'h polling_worker \<Rightarrow> pass_env \<Rightarrow> db \<Rightarrow> db \<times> (err + string option \<times> string option)" where
  "execution_pass p e db =
     (if po_mode p \<in> {''all'', ''execution''}
      then and_then (process_agent_task_timeouts (pe_agent_timeouts e) (po_worker p) None db) (\<lambda>_ db1.
           and_then (process_review_run_timeouts (pe_review_timeouts e) (po_worker p) None db1) (\<lambda>_ db2.
           and_then (process_next_agent_task (pe_agent e) (po_worker p) (po_id p) db2) (\<lambda>agent_task db3.
           and_then (process_next_review_run (pe_review e) (po_worker p) (po_id p) db3) (\<lambda>review_run db4.
             (db4, Inr (agent_task, review_run))))))
      else (db, Inr (None, None)))"

definition polling_pass :: "'h polling_worker \<Rightarrow> pass_env \<Rightarrow> db \<Rightarrow> db \<times> (err + found_work)" where
  "polling_pass p e db =
     and_then (delivery_pass p e (pe_meanwhile e db)) (\<lambda>delivery db1.
     and_then (execution_pass p e db1) (\<lambda>(agent_task, review_run) db2.
       (db2, Inr \<lparr>fw_delivery = delivery, fw_agent_task = agent_task, fw_review_run = review_run\<rparr>)))"

definition idle :: "found_work \<Rightarrow> bool" where
  "idle f \<longleftrightarrow> fw_delivery f = None \<and> fw_agent_task f = None \<and> fw_review_run f = None"

text \<open>
  The loop over the passes of a schedule. Without \<open>--once\<close> it ends by an exception alone; a schedule that is used up is the
  cancellation of the process (\<open>Inr False\<close>).
\<close>

fun polling_loop :: "bool \<Rightarrow> (pass_env \<Rightarrow> db \<Rightarrow> db \<times> (err + found_work)) \<Rightarrow> pass_env list \<Rightarrow> db \<Rightarrow> db \<times> life_event list \<times> (err + bool)" where
  "polling_loop once pass [] db = (db, [], Inr False)"
| "polling_loop once pass (e # es) db =
     (case pass e db of
        (db1, Inl x) \<Rightarrow> (db1, [], Inl x)
      | (db1, Inr f) \<Rightarrow>
          (if once then (db1, [], Inr True)
           else (case polling_loop once pass es db1 of
                   (db2, events, r) \<Rightarrow> (db2, (if idle f then [Paused] else []) @ events, r))))"

text \<open>
  \<open>run_worker\<close>: the schema is migrated before the registry exists, whose adapters are built from the enabled plugins; \<open>mk\<close>
  makes the worker of a registry.
\<close>

definition run_worker ::
  "(cell \<Rightarrow> string) \<Rightarrow> time \<Rightarrow> (string \<Rightarrow> err option) \<Rightarrow> string \<Rightarrow> plugin list \<Rightarrow> (registry \<Rightarrow> 'h polling_worker) \<Rightarrow> bool \<Rightarrow>
     pass_env list \<Rightarrow> catalog \<times> db \<Rightarrow> (catalog \<times> db) \<times> life_event list \<times> (err + bool)" where
  "run_worker py t0 closing enabled plugins mk once es s =
     (case init_models py t0 (fst s) of
        (cat, Inl x) \<Rightarrow> ended closing (cat, snd s) [] [] None (Inl x)
      | (cat, Inr _) \<Rightarrow>
          (case create_provider_registry enabled plugins of
             (built, Inl x) \<Rightarrow> ended closing (cat, snd s) built [] None (Inl x)
           | (built, Inr reg) \<Rightarrow>
               (case polling_loop once (polling_pass (mk reg)) es (snd s) of
                  (db, events, r) \<Rightarrow> ended closing (cat, db) built events (Some reg) r)))"

section \<open>The web application\<close>

text \<open>\<open>lifespan\<close>: here the registry comes first; \<open>body\<close> is what happens while the application serves.\<close>

definition lifespan ::
  "(cell \<Rightarrow> string) \<Rightarrow> time \<Rightarrow> (string \<Rightarrow> err option) \<Rightarrow> string \<Rightarrow> plugin list \<Rightarrow> (registry \<Rightarrow> err + unit) \<Rightarrow>
     catalog \<Rightarrow> catalog \<times> life_event list \<times> (err + unit)" where
  "lifespan py t0 closing enabled plugins body cat =
     (case create_provider_registry enabled plugins of
        (built, Inl x) \<Rightarrow> ended closing cat built [] None (Inl x)
      | (built, Inr reg) \<Rightarrow>
          (case init_models py t0 cat of
             (cat1, Inl x) \<Rightarrow> ended closing cat1 built [] (Some reg) (Inl x)
           | (cat1, Inr _) \<Rightarrow> ended closing cat1 built [Served] (Some reg) (body reg)))"

section \<open>What is closed\<close>

text \<open>Closing goes on to the first adapter whose closing raises, and to the end when there is none.\<close>

definition closed_in_order :: "(string \<Rightarrow> err option) \<Rightarrow> string list \<Rightarrow> string list \<Rightarrow> bool" where
  "closed_in_order closing cs shut \<longleftrightarrow>
     (if list_all (\<lambda>c. closing c = None) cs then shut = cs
      else \<exists>a c b. cs = a @ c # b \<and> list_all (\<lambda>c. closing c = None) a \<and> closing c \<noteq> None \<and> shut = a @ [c])"

lemma close_all_in_order: "closed_in_order closing cs (fst (close_all closing cs))"
proof (induction cs)
  case (Cons c cs)
  show ?case
  proof (cases "closing c")
    case None
    show ?thesis
    proof (cases "list_all (\<lambda>c. closing c = None) cs")
      case False
      with Cons obtain a d b where "cs = a @ d # b \<and> list_all (\<lambda>c. closing c = None) a \<and> closing d \<noteq> None \<and>
          fst (close_all closing cs) = a @ [d]"
        by (auto simp: closed_in_order_def)
      then have "c # cs = (c # a) @ d # b \<and> list_all (\<lambda>c. closing c = None) (c # a) \<and> closing d \<noteq> None \<and>
          fst (close_all closing (c # cs)) = (c # a) @ [d]"
        using None by (auto simp: case_prod_beta)
      moreover have "\<not> list_all (\<lambda>c. closing c = None) (c # cs)" using False by simp
      ultimately show ?thesis unfolding closed_in_order_def by (subst if_not_P) blast+
    qed (use Cons None in \<open>simp add: closed_in_order_def case_prod_beta\<close>)
  next
    case (Some x)
    then have "c # cs = [] @ c # cs \<and> list_all (\<lambda>c. closing c = None) [] \<and> closing c \<noteq> None \<and>
        fst (close_all closing (c # cs)) = [] @ [c]" by simp
    moreover have "\<not> list_all (\<lambda>c. closing c = None) (c # cs)" using Some by simp
    ultimately show ?thesis unfolding closed_in_order_def by (subst if_not_P) blast+
  qed
qed (simp add: closed_in_order_def)

lemma close_all_raises: "snd (close_all closing cs) = None \<longleftrightarrow> list_all (\<lambda>c. closing c = None) cs"
  by (induction cs) (auto split: option.splits prod.splits)

lemma register_open: "register_runtimes rts reg = Inr reg1 \<Longrightarrow> closed reg1 = closed reg"
  by (induction rts arbitrary: reg) (auto simp: register_runtime_def split: sum.splits if_splits)

lemma registry_open: "create_provider_registry enabled plugins = (built, Inr reg) \<Longrightarrow> \<not> closed reg"
  by (auto simp: create_provider_registry_def new_registry_def Let_def dest!: register_open
      split: sum.splits if_splits prod.splits option.splits)

lemma closers_made:
  assumes "create_provider_registry enabled plugins = (built, Inr reg)"
  shows "closers (Some reg) = rev (close_handles built)"
  using registry_open[OF assms] registry_made(1)[OF assms]
  by (auto simp: closers_def registry_aclose_def close_handles_def rev_concat rev_map comp_def
      intro!: arg_cong[where f = concat] map_cong split: option.split)

lemma loop_pauses: "set (fst (snd (polling_loop once pass es db))) \<subseteq> {Paused}"
proof (induction es arbitrary: db)
  case (Cons e es)
  show ?case using Cons[of "fst (pass e db)"] by (auto split: prod.splits sum.splits)
qed simp

lemma loop_once: "fst (snd (polling_loop True pass es db)) = []"
  by (cases es) (auto split: prod.splits sum.splits)

text \<open>
  The events of a process that created the engine, built adapters and lived: when the registry was made, its adapters are
  closed in the reverse of their order, otherwise none is; the engine is disposed of last.
\<close>

definition shut_properly ::
  "(string \<Rightarrow> err option) \<Rightarrow> bool \<Rightarrow> string list \<Rightarrow> life_event list \<Rightarrow> life_event list \<Rightarrow> bool" where
  "shut_properly closing made built lives events \<longleftrightarrow>
     (\<exists>shut. events = EngineCreated # map AdapterBuilt built @ lives @ map AdapterClosed shut @ [EngineDisposed] \<and>
        closed_in_order closing (if made then rev built else []) shut)"

lemma ended_properly:
  assumes "ended closing s built lives reg r = (s1, events, r1)"
    and "closers reg = (if made then rev (close_handles built) else [])"
  shows "shut_properly closing made (close_handles built) lives events"
  using assms close_all_in_order[of closing "closers reg"]
  by (auto simp: ended_def shut_down_def shut_properly_def split: prod.splits)

lemma closers_None [simp]: "closers None = []"
  by (simp add: closers_def)

lemma worker_closes:
  assumes "run_worker py t0 closing enabled plugins mk once es (cat, db) = (s1, events, r)"
    and c: "create_provider_registry enabled plugins = (built, made)"
  shows "\<exists>lives. set lives \<subseteq> {Paused} \<and> (once \<longrightarrow> lives = []) \<and>
    (if isl (snd (init_models py t0 cat)) then shut_properly closing False [] lives events
     else shut_properly closing (\<not> isl made) (close_handles built) lives events)"
proof -
  obtain cat1 m where i: "init_models py t0 cat = (cat1, m)" by fastforce
  consider (failed) x where "m = Inl x" | (unmade) x where "m = Inr ()" "made = Inl x"
    | (started) reg where "m = Inr ()" "made = Inr reg"
    by (cases m; cases made) auto
  then show ?thesis
  proof cases
    case failed
    then have "ended closing (cat1, db) [] [] None (Inl x) = (s1, events, r)" using assms(1) by (simp add: run_worker_def i)
    from ended_properly[OF this, of False] failed show ?thesis
      by (intro exI[of _ "[]"]) (simp add: i close_handles_def)
  next
    case unmade
    then have "ended closing (cat1, db) built [] None (Inl x) = (s1, events, r)" using assms(1) by (simp add: run_worker_def i c)
    from ended_properly[OF this, of False] unmade show ?thesis by (intro exI[of _ "[]"]) (simp add: i)
  next
    case started
    obtain db1 lives r0 where l: "polling_loop once (polling_pass (mk reg)) es db = (db1, lives, r0)" by (metis prod_cases3)
    then have "ended closing (cat1, db1) built lives (Some reg) r0 = (s1, events, r)"
      using assms(1) started by (simp add: run_worker_def i c)
    from ended_properly[OF this, of True] have "shut_properly closing True (close_handles built) lives events"
      using closers_made[of enabled plugins built reg] c started by simp
    moreover have "set lives \<subseteq> {Paused} \<and> (once \<longrightarrow> lives = [])"
      using loop_pauses[of once "polling_pass (mk reg)" es db] loop_once[of "polling_pass (mk reg)" es db] l by auto
    ultimately show ?thesis using started by (intro exI[of _ lives]) (simp add: i)
  qed
qed

lemma application_closes:
  assumes "lifespan py t0 closing enabled plugins body cat = (cat1, events, r)"
    and c: "create_provider_registry enabled plugins = (built, made)"
  shows "shut_properly closing (\<not> isl made) (close_handles built)
    (if isl made \<or> isl (snd (init_models py t0 cat)) then [] else [Served]) events"
proof (cases made)
  case (Inl x)
  then show ?thesis using assms(1) by (auto simp: lifespan_def c intro!: ended_properly)
next
  case (Inr reg)
  then show ?thesis
    using assms(1) closers_made[of enabled plugins built reg]
    by (auto simp: lifespan_def c intro!: ended_properly split: prod.splits sum.splits)
qed


definition closing_plugin :: "string \<Rightarrow> plugin" where
  "closing_plugin k = (sample_plugin k)\<lparr>pl_build := Inr \<lparr>rt_provider = sample_adapter k,
     rt_descriptor = \<lparr>ds_key = k, ds_kind = k, ds_display_name = k\<rparr>, rt_close = Some k\<rparr>\<rparr>"

definition sample_polling :: "registry \<Rightarrow> string list polling_worker" where
  "sample_polling reg = \<lparr>po_worker = sample_worker\<lparr>wk_registry := reg\<rparr>, po_calls = sample_calls, po_pydantic = sample_pydantic,
     po_lock_seconds = 30, po_retry_delay = 10, po_id = ''w'', po_mode = ''delivery''\<rparr>"

definition sample_pass :: pass_env where
  "sample_pass = \<lparr>pe_meanwhile = (\<lambda>db. db), pe_delivery = sample_env 5, pe_agent_timeouts = sample_env 5,
     pe_review_timeouts = sample_env 5, pe_agent = sample_env 5, pe_review = sample_env 5\<rparr>"


text \<open>An adapter whose successor cannot be built stays open.\<close>

lemma unmade_registry_leaks_adapters:
  "fst (snd (lifespan (\<lambda>_. []) 9 (\<lambda>_. None) ''gh,gl''
     [closing_plugin ''gh'', (closing_plugin ''gl'')\<lparr>pl_build := Inl (ValueError ''no token'')\<rparr>] (\<lambda>_. Inr ()) sample_legacy)) =
   [EngineCreated, AdapterBuilt ''gh'', EngineDisposed]"
  by code_simp

end
