(* ===== verification/Spec2Isabelle.thy ===== *)
theory Spec2Isabelle
  imports Gate Requests Timeouts Intake Changes Querying Serving Core Running
begin

text \<open>
  Verification of the review orchestrator.

  \<^bold>\<open>The program.\<close> The orchestrator (\<open>src/src/review_orchestrator\<close>) turns webhooks of GitHub and GitLab into
  reviews of pull requests. A webhook is authenticated and normalized by a provider adapter
  (\<open>integrations/github.py\<close>, \<open>integrations/gitlab.py\<close>), recorded once in the inbox and, when it asks for a
  review or brings a command, answered with a task (\<open>application/services.py\<close>). A new review is parked until
  the placeholder of its comment is published; then workers claim tasks by priority and resources
  (\<open>application/scheduler.py\<close>), prepare a git workspace (\<open>infrastructure/workspaces.py\<close>), run the agent
  (\<open>integrations/pi_agent.py\<close>) and collect its result (\<open>application/worker.py\<close>). Results are validated and
  reconciled with earlier findings (\<open>domain/review_results.py\<close>, \<open>domain/reconciliation.py\<close>), the session is
  archived without its secrets (\<open>application/session_archive.py\<close>), and every message to a provider goes through
  a durable outbox (\<open>application/delivery.py\<close>), from where the adapters publish and update the comments of a pull
  request (\<open>integrations/comments.py\<close>). Administrators, dashboards and agents use the HTTP interface
  (\<open>presentation/api.py\<close>), other services the neutral provider operations (\<open>presentation/provider_core.py\<close>). The
  processes (\<open>presentation/main.py\<close>, \<open>application/worker_cli.py\<close>) share one relational database
  (\<open>domain/models.py\<close>, \<open>infrastructure/db.py\<close>); there is no other shared state.

  \<^bold>\<open>The model.\<close> The database is the record \<open>db\<close>: one list of rows per table, in insertion order, and the number
  of identifiers drawn so far; a row is a record with the table's columns, and a subclass of \<open>Task\<close> is a row of
  its own table with the identifier of its task (joined-table inheritance). An operation is a function from the
  database to the database and a result, \<open>Inl\<close> an exception and \<open>Inr\<close> a value. The database of an exception
  is what the session shows at the raise; an operation that owns its transaction gives the database after its
  rollback. The environment \<open>env\<close> gives the identifiers \<open>uuid4\<close> draws, \<open>sha256\<close>, the time an operation reads
  (one reading each), the dialect and the rows other PostgreSQL transactions have locked. Time is \<open>int\<close> in
  microseconds, Python's integers are \<open>int\<close>, texts are character lists (code points up to 255; the Chinese
  messages of the comments are given as English glosses), JSON values are the datatype \<open>json\<close>. Calls to a
  provider, to the agent runtime, to git and to the file system are function arguments, which may change the
  database where the code commits before the call. The provider adapters themselves are modelled down to their HTTP
  requests, as functions of the world of the provider that may not return (\<open>io\<close>); \<open>Adapters\<close> shows that they are calls
  of the kind the outbox takes as an argument.

  \<^bold>\<open>The theories.\<close>
  \<^item> \<open>Prelude\<close>, \<open>PyText\<close>, \<open>Regex\<close>: tables and their statements with the simplification collections; the text
    methods, numbers and JSON of Python; backtracking search for the regular expressions the code uses.
  \<^item> \<open>Models\<close>: \<open>domain/models.py\<close>, the tables and their defaults, lookups and updates by identifier.
  \<^item> \<open>Providers\<close>: \<open>integrations/providers.py\<close> and \<open>provider_plugins.py\<close>, the provider-neutral data, their
    validators, the registry and its capabilities.
  \<^item> \<open>Webhooks\<close>, \<open>Intake\<close>, \<open>Changes\<close>: the webhook half of \<open>integrations/github.py\<close> and \<open>gitlab.py\<close>
    (signatures, normalization, commands in comments, snapshots), what it promises the inbox, changed files
    and the lines of a diff that can carry a comment.
  \<^item> \<open>Inbox\<close>: \<open>accept_provider_webhook\<close> and what it calls, and the end of the work of a closed pull request.
  \<^item> \<open>Lifecycle\<close>, \<open>Actions\<close>, \<open>Runs\<close>, \<open>Ending\<close>, \<open>Requests\<close>, \<open>Gate\<close>: creating, announcing, cancelling,
    superseding, retrying and rerunning review runs (\<open>application/services.py\<close>); the first two hold the
    operations, the others the invariant of the run table, what ends a run, what a request for a review does
    and how a run opens for the workers.
  \<^item> \<open>Scheduler\<close>: \<open>application/scheduler.py\<close>, priorities with ageing, resource pools and leases, claim,
    release and renewal.
  \<^item> \<open>Outbox\<close>, \<open>Delivering\<close>: \<open>application/delivery.py\<close>, enqueueing, leasing, executing, recording success
    and failure; the outbox as an abstract post office and its progress.
  \<^item> \<open>Workspaces\<close>: \<open>infrastructure/workspaces.py\<close>, working copies, their leases and their cleanup.
  \<^item> \<open>Sessions\<close>, \<open>Worker\<close>, \<open>Commands\<close>, \<open>Timeouts\<close>: \<open>integrations/pi_agent.py\<close>, the agent sessions of
    \<open>application/services.py\<close> and \<open>application/worker.py\<close>: a review worker's turn, an agent worker's turn,
    soft and hard timeouts.
  \<^item> \<open>Redact\<close>, \<open>Archive\<close>: \<open>infrastructure/observability.py\<close> and \<open>application/session_archive.py\<close>.
  \<^item> \<open>Results\<close>, \<open>Reconcile\<close>: \<open>domain/review_results.py\<close> and \<open>domain/reconciliation.py\<close>.
  \<^item> \<open>Clients\<close>, \<open>Comments\<close>, \<open>Published\<close>, \<open>ProviderApi\<close>, \<open>Adapters\<close>, \<open>Querying\<close>: the HTTP clients of both providers
    with their pagination, the publication of summaries, line comments and answers (\<open>integrations/comments.py\<close>), what a
    comment is after it was published once and again, the neutral operations of the adapters (credentials, checkouts,
    comments, queries), the adapters as the outbox's calls, and following the cursors of a query.
  \<^item> \<open>Tokens\<close>, \<open>Diagnostics\<close>: \<open>integrations/github_auth.py\<close> and \<open>integrations/platform_diagnostics.py\<close>, the tokens of a
    GitHub application and the diagnosis of a provider's permissions.
  \<^item> \<open>Admin\<close>, \<open>Listings\<close>, \<open>Overview\<close>: the administrator's operations, listings and details of
    \<open>application/services.py\<close> with the schemas they answer with (\<open>domain/schemas.py\<close>).
  \<^item> \<open>Api\<close>, \<open>Serving\<close>, \<open>Core\<close>: the endpoints of \<open>presentation/api.py\<close> and \<open>presentation/provider_core.py\<close>, what they
    require of a caller and what they change and tell when they refuse.
  \<^item> \<open>Migration\<close>, \<open>Running\<close>: the startup migrations of \<open>infrastructure/db.py\<close> over tables of named columns, the passes and
    the loop of the worker and the life of the web application.

  \<^bold>\<open>The lemmas.\<close> Each component's theory first shows what its operations do to the rows they touch and which
  tables they leave alone (collections \<open>table_simps\<close>, \<open>frame_simps\<close>, \<open>row_simps\<close>), then the invariant they keep,
  then its properties. The locales \<open>preserved\<close> (an invariant of a family of operations holds after every run of
  them), \<open>idempotent_queue\<close> (a key, once accepted, answers with its entry) and \<open>identity_invariant\<close> (what depends only
  on the identities of runs, the inbox and the message commands survives the operations that leave these alone) are
  interpreted on the outbox, the scheduler and the run table. The properties cover the resources a scheduler hands out,
  the numbering and the gate of review runs, the idempotence of requests, webhooks and timeouts, the refinement and progress
  of the outbox, the one summary comment and the single line comment per finding, the secrecy of tokens, archives and
  failures, the authenticity of commands and callers, the books an administrator may change, the completeness and
  agreement of listings and details, what a refused request leaves alone, what a migration takes over, and what
  reconciliation does to findings.

  \<^bold>\<open>Bounds.\<close> Nearly every loop of the code runs over a list and is recursion on it; the backtracking search has a size
  measure. Pagination may not end and is a \<open>partial_function\<close> over options: \<open>listings_are_complete\<close> shows that it does for
  a provider that lists pages. Following the cursors of a query (\<open>Querying.follow\<close>) takes the number of items and one
  as fuel, which is enough as every page holds an item. The worker's loop, which only ends by an exception, runs over a
  schedule of passes. Texts hold code points up to 255.

  \<^bold>\<open>Not modelled.\<close> The HTML pages (\<open>presentation/dashboard.py\<close>, \<open>reviews_dashboard.py\<close>) and their routes, the command
  line and the construction of HTTP clients, settings but for those the operations read, SQL types, keys and connection
  pools, the routing, parsing and serialization of the web framework, the TypeScript agent runtime and the scripts.
  Concurrency is modelled at the granularity of operations: a compare-and-swap loses when the row has changed, and a
  provider call may change any table meanwhile; interleavings inside a transaction are not.
\<close>

end
